(* ===== verification/Go_Values.thy ===== *)
theory Go_Values
  imports Prelude
begin

text \<open>
  The dynamic values that cross the service: decoded JSON (\<open>map[string]any\<close>) and CEL
  values. A Go map with string keys is an association list read through \<open>map_of\<close>; a nil
  map and an empty map read alike. The path readers of internal/processor/utils.go and
  internal/cel/environment.go are defined over it, with the lemmas that relate the two
  families.
\<close>

section \<open>Dynamic values\<close>

text \<open>
  \<open>VFloat\<close> carries the \<open>%v\<close> rendering of a float64, \<open>VTime\<close> a \<open>time.Time\<close> stored in the
  map (as the reindexer does), in nanoseconds since the Unix epoch.
\<close>

datatype gval =
    VNull
  | VStr string
  | VInt int
  | VBool bool
  | VFloat string
  | VTime int
  | VList "gval list"
  | VMap "(string \<times> gval) list"

type_synonym gomap = "(string \<times> gval) list"

text \<open>\<open>v, ok := x.(string)\<close> and \<open>v, ok := x.(map[string]any)\<close> on a map read; an absent key
  reads as the nil interface, on which both assertions fail.\<close>

definition asStr :: "gval option \<Rightarrow> string option" where
  "asStr v = (case v of Some (VStr s) \<Rightarrow> Some s | _ \<Rightarrow> None)"

definition asMap :: "gval option \<Rightarrow> gomap option" where
  "asMap v = (case v of Some (VMap m) \<Rightarrow> Some m | _ \<Rightarrow> None)"

definition asBool :: "gval \<Rightarrow> bool option" where
  "asBool v = (case v of VBool b \<Rightarrow> Some b | _ \<Rightarrow> None)"

lemma asStr_simps [simp]:
  "asStr None = None" "asStr (Some (VStr s)) = Some s" "asStr (Some (VMap m)) = None"
  "asStr (Some (VTime t)) = None" "asStr (Some (VInt n)) = None" "asStr (Some VNull) = None"
  "asStr (Some (VBool b)) = None" "asStr (Some (VFloat x)) = None" "asStr (Some (VList l)) = None"
  by (simp_all add: asStr_def)

lemma asMap_simps [simp]:
  "asMap None = None" "asMap (Some (VStr s)) = None" "asMap (Some (VMap m)) = Some m"
  "asMap (Some (VTime t)) = None" "asMap (Some (VInt n)) = None" "asMap (Some VNull) = None"
  "asMap (Some (VBool b)) = None" "asMap (Some (VFloat x)) = None" "asMap (Some (VList l)) = None"
  by (simp_all add: asMap_def)

lemma asBool_simps [simp]: "asBool (VBool b) = Some b" "asBool (VStr s) = None"
  by (simp_all add: asBool_def)

section \<open>Readers of internal/processor/utils.go\<close>

definition getStringFromMap :: "gomap \<Rightarrow> string \<Rightarrow> string" where
  "getStringFromMap m key = (case asStr (map_of m key) of Some v \<Rightarrow> v | None \<Rightarrow> '''')"

text \<open>The loop over \<open>keys\<close>: the last key must hold a string, every earlier one a map.\<close>

fun nestedStringLoop :: "gomap \<Rightarrow> string list \<Rightarrow> string" where
  "nestedStringLoop current [] = ''''"
| "nestedStringLoop current [key] = getStringFromMap current key"
| "nestedStringLoop current (key # k2 # keys) =
     (case asMap (map_of current key) of
        Some nested \<Rightarrow> nestedStringLoop nested (k2 # keys)
      | None \<Rightarrow> '''')"

definition GetNestedString :: "gomap \<Rightarrow> string list \<Rightarrow> string" where
  "GetNestedString m keys = (if keys = [] then '''' else nestedStringLoop m keys)"

section \<open>Readers of internal/cel/environment.go\<close>

fun ExtractString :: "gomap \<Rightarrow> string list \<Rightarrow> string" where
  "ExtractString current [] = ''''"
| "ExtractString current [key] =
     (case asStr (map_of current key) of Some v \<Rightarrow> v | None \<Rightarrow> '''')"
| "ExtractString current (key # k2 # keys) =
     (case asMap (map_of current key) of
        Some nested \<Rightarrow> ExtractString nested (k2 # keys)
      | None \<Rightarrow> '''')"

fun ExtractMap :: "gomap \<Rightarrow> string list \<Rightarrow> gomap" where
  "ExtractMap current [] = current"
| "ExtractMap current (key # keys) =
     (case asMap (map_of current key) of
        Some nested \<Rightarrow> ExtractMap nested keys
      | None \<Rightarrow> [])"

declare ExtractString.simps(2) [simp del]

lemma getStringFromMap_Nil [simp]: "getStringFromMap [] k = ''''"
  by (simp add: getStringFromMap_def)

lemma nestedStringLoop_ExtractString: "nestedStringLoop m keys = ExtractString m keys"
  by (induction m keys rule: ExtractString.induct) (auto simp: getStringFromMap_def ExtractString.simps(2) split: option.splits)

text \<open>The two packages carry separate copies of the path reader; they agree on every input.\<close>

lemma GetNestedString_ExtractString: "GetNestedString m keys = ExtractString m keys"
  by (simp add: GetNestedString_def nestedStringLoop_ExtractString)

lemma GetNestedString_single [simp]: "GetNestedString m [k] = getStringFromMap m k"
  by (simp add: GetNestedString_def)

lemma ExtractString_single [simp]: "ExtractString m [k] = getStringFromMap m k"
  by (simp add: getStringFromMap_def ExtractString.simps(2))

lemma ExtractString_Nil_map [simp]: "ExtractString [] keys = ''''"
  by (induction "[] :: gomap" keys rule: ExtractString.induct) auto

text \<open>Reading a path is reading its last key in the map its prefix leads to.\<close>

lemma ExtractString_via_ExtractMap:
  "ExtractString m (ks @ [k]) = getStringFromMap (ExtractMap m ks) k"
proof (induction m ks rule: ExtractMap.induct)
  case (1 current)
  show ?case by simp
next
  case (2 current key keys)
  then show ?case
    by (cases keys) (auto split: option.splits)
qed

section \<open>Rendering values\<close>

text \<open>Byte-wise lexicographic order of strings, as \<open>sort.Strings\<close> uses.\<close>

fun strLe :: "string \<Rightarrow> string \<Rightarrow> bool" where
  "strLe [] t = True"
| "strLe (c # s) [] = False"
| "strLe (c # s) (d # t) =
     ((of_char c :: nat) < of_char d \<or> (c = d \<and> strLe s t))"

fun insertByKey :: "string \<times> 'a \<Rightarrow> (string \<times> 'a) list \<Rightarrow> (string \<times> 'a) list" where
  "insertByKey p [] = [p]"
| "insertByKey p (q # ps) = (if strLe (fst p) (fst q) then p # q # ps else q # insertByKey p ps)"

definition sortByKey :: "(string \<times> 'a) list \<Rightarrow> (string \<times> 'a) list" where
  "sortByKey ps = foldr insertByKey ps []"

text \<open>
  \<open>fmt.Sprintf("%v", x)\<close>: strings print as they are, lists between brackets, maps as
  \<open>map[k:v ...]\<close> with the keys sorted. A time prints through its own \<open>String\<close> method, which
  no template in the sources relies on; it is rendered as its nanosecond count.
\<close>

fun fmtV :: "gval \<Rightarrow> string" where
  "fmtV VNull = ''<nil>''"
| "fmtV (VStr s) = s"
| "fmtV (VInt n) = fmtInt n"
| "fmtV (VBool b) = (if b then ''true'' else ''false'')"
| "fmtV (VFloat x) = x"
| "fmtV (VTime t) = fmtInt t"
| "fmtV (VList vs) = ''['' @ joinStr '' '' (map fmtV vs) @ '']''"
| "fmtV (VMap m) =
     ''map['' @ joinStr '' '' (map (\<lambda>(k, v). k @ '':'' @ v) (sortByKey (map (\<lambda>(k, v). (k, fmtV v)) m))) @ '']''"

end
