(* ===== verification/Api_Types.thy ===== *)
theory Api_Types
  imports Go_Values
begin

text \<open>
  The API objects of pkg/apis/activity/v1alpha1 and the Kubernetes objects the service
  reads, as records with the fields the sources use. Instants (\<open>time.Time\<close>,
  \<open>metav1.Time\<close>) are nanoseconds since the Unix epoch; Go's zero time is January 1 of
  year 1, UTC. A nil pointer is \<open>None\<close>.
\<close>

section \<open>Instants\<close>

type_synonym instant = int

definition second :: int where "second = 1000000000"
definition minute :: int where "minute = 60 * second"
definition hour :: int where "hour = 60 * minute"

definition zeroTime :: instant where
  "zeroTime = - 62135596800 * second"

definition isZeroTime :: "instant \<Rightarrow> bool" where
  "isZeroTime t = (t = zeroTime)"

lemmas duration_defs = second_def minute_def hour_def

section \<open>Activity\<close>

record ActivityActor =
  actorType :: string
  actorName :: string
  actorUID :: string
  actorEmail :: string

record ActivityResource =
  resAPIGroup :: string
  resAPIVersion :: string
  resKind :: string
  resName :: string
  resNamespace :: string
  resUID :: string

record ActivityLink =
  linkMarker :: string
  linkResource :: ActivityResource

record ActivityTenant =
  tenantType :: string
  tenantName :: string

record ActivityOrigin =
  originType :: string
  originID :: string

record ActivitySource =
  srcPlaneType :: string
  srcCluster :: string
  srcRegion :: string
  srcCity :: string

record ActivitySpec =
  specSummary :: string
  specChangeSource :: string
  specActor :: ActivityActor
  specResource :: ActivityResource
  specLinks :: "ActivityLink list"
  specRelated :: "ActivityResource list"
  specTenant :: ActivityTenant
  specOrigin :: ActivityOrigin
  specSource :: "ActivitySource option"

text \<open>The metadata an Activity carries; \<open>actLabels\<close> is \<open>ObjectMeta.Labels\<close>.\<close>

record Activity =
  actAPIVersion :: string
  actKind :: string
  actName :: string
  actNamespace :: string
  actCreationTimestamp :: instant
  actLabels :: "(string \<times> string) list"
  actSpec :: ActivitySpec

text \<open>\<open>v1alpha1.SchemeGroupVersion.String()\<close>.\<close>

definition schemeGroupVersion :: string where
  "schemeGroupVersion = ''activity.miloapis.com/v1alpha1''"

definition emptySource :: ActivitySource where
  "emptySource = \<lparr>srcPlaneType = '''', srcCluster = '''', srcRegion = '''', srcCity = ''''\<rparr>"

section \<open>ActivityPolicy\<close>

record ActivityPolicyRule =
  ruleName :: string
  ruleMatch :: string
  ruleSummary :: string

record ActivityPolicyResource =
  prAPIGroup :: string
  prKind :: string

record ActivityPolicySpec =
  psResource :: ActivityPolicyResource
  psAuditRules :: "ActivityPolicyRule list"
  psEventRules :: "ActivityPolicyRule list"

text \<open>A status condition: its type and whether its status is \<open>True\<close>.\<close>

record Condition =
  condType :: string
  condTrue :: bool

record ActivityPolicy =
  polName :: string
  polGeneration :: int
  polResourceVersion :: string
  polLabels :: "(string \<times> string) list"
  polSpec :: ActivityPolicySpec
  polConditions :: "Condition list"

section \<open>Audit events\<close>

text \<open>
  The fields of \<open>k8s.io/apiserver/pkg/apis/audit/v1.Event\<close> that the service reads. A
  captured response body is JSON text: empty, malformed, or text that decodes to a value.
\<close>

datatype json_text = JEmpty | JInvalid | JValue gval

record UserInfo =
  userUsername :: string
  userUID :: string
  userExtra :: "(string \<times> string list) list"

record ObjectReference =
  objResource :: string
  objNamespace :: string
  objName :: string
  objAPIGroup :: string
  objAPIVersion :: string

record AuditEvent =
  auditID :: string
  auditUser :: UserInfo
  auditObjectRef :: "ObjectReference option"
  auditReceived :: instant
  auditResponseObject :: "json_text option"

end
