(* ===== verification/Tenancy.thy ===== *)
theory Tenancy
  imports Api_Types
begin

text \<open>
  internal/types (tenant kinds, federated source prefixes, event subjects) and the two
  readers of a request's tenant: internal/processor's \<open>ExtractTenant\<close> stamps a record
  at ingest, internal/registry/scope's \<open>ExtractScopeFromUser\<close> narrows a query. The
  lemmas show when the two agree, so that a user sees what was recorded for them.
\<close>

section \<open>internal/types/tenant.go\<close>

definition TenantTypePlatform :: string where "TenantTypePlatform = ''platform''"
definition TenantTypeOrganization :: string where "TenantTypeOrganization = ''Organization''"
definition TenantTypeProject :: string where "TenantTypeProject = ''Project''"
definition TenantTypeUser :: string where "TenantTypeUser = ''User''"

lemmas tenant_type_defs =
  TenantTypePlatform_def TenantTypeOrganization_def TenantTypeProject_def TenantTypeUser_def

definition NormalizeTenantType :: "string \<Rightarrow> string" where
  "NormalizeTenantType t =
     (let l = toLower t in
      if l = toLower TenantTypePlatform then TenantTypePlatform
      else if l = toLower TenantTypeOrganization then TenantTypeOrganization
      else if l = toLower TenantTypeProject then TenantTypeProject
      else if l = toLower TenantTypeUser then TenantTypeUser
      else t)"

section \<open>internal/types/source.go\<close>

definition PrefixWithSource :: "string \<Rightarrow> string \<Rightarrow> string \<Rightarrow> string" where
  "PrefixWithSource planeType cluster i =
     (if planeType = '''' \<or> cluster = '''' then i
      else planeType @ ''/'' @ cluster @ ''/'' @ i)"

definition SourcePlaneTypeAnnotation :: string where
  "SourcePlaneTypeAnnotation = ''activity.miloapis.com/source-plane-type''"
definition SourceClusterAnnotation :: string where
  "SourceClusterAnnotation = ''activity.miloapis.com/source-cluster''"
definition SourceRegionAnnotation :: string where
  "SourceRegionAnnotation = ''activity.miloapis.com/source-region''"
definition SourceCityAnnotation :: string where
  "SourceCityAnnotation = ''activity.miloapis.com/source-city''"
definition ScopeTypeAnnotation :: string where
  "ScopeTypeAnnotation = ''platform.miloapis.com/scope.type''"
definition ScopeNameAnnotation :: string where
  "ScopeNameAnnotation = ''platform.miloapis.com/scope.name''"
definition ScopeNamespaceAnnotation :: string where
  "ScopeNamespaceAnnotation = ''platform.miloapis.com/scope.namespace''"

lemmas annotation_defs =
  SourcePlaneTypeAnnotation_def SourceClusterAnnotation_def SourceRegionAnnotation_def
  SourceCityAnnotation_def ScopeTypeAnnotation_def ScopeNameAnnotation_def ScopeNamespaceAnnotation_def

section \<open>internal/types/subject.go\<close>

definition isAlnumLower :: "char \<Rightarrow> bool" where
  "isAlnumLower c = (let n = of_char c :: nat in (97 \<le> n \<and> n \<le> 122) \<or> (48 \<le> n \<and> n \<le> 57))"

text \<open>
  The regular expression \<open>^[a-z0-9]([-a-z0-9]{0,61}[a-z0-9])?$\<close>, anchored at both ends: one
  character, or two to sixty-three characters with alphanumeric ends.
\<close>

definition ValidClusterName :: "string \<Rightarrow> bool" where
  "ValidClusterName name =
     (case name of
        [] \<Rightarrow> False
      | c # rest \<Rightarrow>
          isAlnumLower c \<and>
          (rest = [] \<or>
           (length rest \<le> 62 \<and> isAlnumLower (last rest) \<and>
            list_all (\<lambda>d. isAlnumLower d \<or> d = CHR ''-'') (butlast rest))))"

definition EventSubject :: "string \<Rightarrow> string \<Rightarrow> string \<Rightarrow> string" where
  "EventSubject prefix cluster namespace =
     (if cluster = '''' then prefix @ ''.'' @ namespace
      else prefix @ ''.'' @ cluster @ ''.'' @ namespace)"

definition EventSubjectGrant :: "string \<Rightarrow> string \<Rightarrow> string" where
  "EventSubjectGrant prefix cluster = prefix @ ''.'' @ cluster @ ''.*''"

definition EventInboxPrefix :: "string \<Rightarrow> string" where
  "EventInboxPrefix cluster = ''_INBOX_'' @ cluster"

definition EventInboxGrant :: "string \<Rightarrow> string" where
  "EventInboxGrant cluster = EventInboxPrefix cluster @ ''.>''"

text \<open>The dot-separated tokens of a subject, the units a NATS permission compares.\<close>

definition subjectTokens :: "string \<Rightarrow> string list" where
  "subjectTokens s = splitByte (CHR ''.'') s"

section \<open>Tenant of an audit event (internal/processor/utils.go)\<close>

definition getExtraValue :: "(string \<times> string list) list \<Rightarrow> string \<Rightarrow> string" where
  "getExtraValue extra key =
     (case map_of extra key of Some (v # vs) \<Rightarrow> v | _ \<Rightarrow> '''')"

definition ParentKindExtraKey :: string where "ParentKindExtraKey = ''iam.miloapis.com/parent-type''"
definition ParentNameExtraKey :: string where "ParentNameExtraKey = ''iam.miloapis.com/parent-name''"

definition ExtractTenant :: "UserInfo \<Rightarrow> ActivityTenant" where
  "ExtractTenant user =
     (let t0 = \<lparr>tenantType = TenantTypePlatform, tenantName = ''''\<rparr>;
          parentType = getExtraValue (userExtra user) ParentKindExtraKey;
          t1 = (if parentType \<noteq> '''' then t0\<lparr>tenantType := parentType\<rparr> else t0);
          parentName = getExtraValue (userExtra user) ParentNameExtraKey;
          t2 = (if parentName \<noteq> '''' then t1\<lparr>tenantName := parentName\<rparr> else t1);
          org = getExtraValue (userExtra user) ''organization'';
          t3 = (if tenantType t2 = TenantTypePlatform \<and> org \<noteq> ''''
                then t2\<lparr>tenantType := TenantTypeOrganization, tenantName := org\<rparr> else t2);
          project = getExtraValue (userExtra user) ''project''
      in if project \<noteq> '''' then t3\<lparr>tenantType := TenantTypeProject, tenantName := project\<rparr> else t3)"

section \<open>Scope of a query (internal/registry/scope/scope.go)\<close>

record ScopeContext =
  scopeType :: string
  scopeName :: string

definition platformScope :: ScopeContext where
  "platformScope = \<lparr>scopeType = TenantTypePlatform, scopeName = ''''\<rparr>"

text \<open>The extra map of the authenticated user; absent keys and empty lists read alike.\<close>

definition extraValues :: "(string \<times> string list) list \<Rightarrow> string \<Rightarrow> string list" where
  "extraValues extra key = (case map_of extra key of Some vs \<Rightarrow> vs | None \<Rightarrow> [])"

definition ExtractScopeFromUser :: "(string \<times> string list) list \<Rightarrow> ScopeContext" where
  "ExtractScopeFromUser extra =
     (case (extraValues extra ParentKindExtraKey, extraValues extra ParentNameExtraKey) of
        (k # ks, n # ns) \<Rightarrow>
          (if k = ''Organization'' then \<lparr>scopeType = TenantTypeOrganization, scopeName = n\<rparr>
           else if k = ''Project'' then \<lparr>scopeType = TenantTypeProject, scopeName = n\<rparr>
           else if k = ''User'' then \<lparr>scopeType = TenantTypeUser, scopeName = n\<rparr>
           else platformScope)
      | _ \<Rightarrow> platformScope)"

section \<open>Lemmas\<close>

lemma ValidClusterName_chars:
  assumes "ValidClusterName c" and "d \<in> set c"
  shows "isAlnumLower d \<or> d = CHR ''-''"
proof (cases c)
  case Nil
  with assms show ?thesis by simp
next
  case (Cons a rest)
  show ?thesis
  proof (cases rest rule: rev_cases)
    case Nil
    with assms Cons show ?thesis by (simp add: ValidClusterName_def)
  next
    case (snoc ys y)
    with assms Cons show ?thesis
      by (auto simp: ValidClusterName_def list_all_iff)
  qed
qed

lemma isAlnumLower_not_special [simp]:
  "\<not> isAlnumLower (CHR ''.'')" "\<not> isAlnumLower (CHR ''/'')" "\<not> isAlnumLower (CHR ''*'')"
  "\<not> isAlnumLower (CHR ''>'')" "\<not> isAlnumLower (CHR ''_'')"
  by (simp_all add: isAlnumLower_def)

lemma ValidClusterName_clean:
  assumes "ValidClusterName c"
  shows "CHR ''.'' \<notin> set c" "CHR ''/'' \<notin> set c" "CHR ''*'' \<notin> set c" "CHR ''>'' \<notin> set c"
  using ValidClusterName_chars [OF assms] by fastforce+

lemma ValidClusterName_length:
  "ValidClusterName c \<Longrightarrow> 1 \<le> length c \<and> length c \<le> 63"
  by (auto simp: ValidClusterName_def split: list.splits)

lemma ValidClusterName_nonempty: "ValidClusterName c \<Longrightarrow> c \<noteq> ''''"
  by (auto simp: ValidClusterName_def)

lemma subjectTokens_snoc:
  assumes "CHR ''.'' \<notin> set t"
  shows "subjectTokens (s @ ''.'' @ t) = subjectTokens s @ [t]"
  using assms by (simp add: subjectTokens_def splitByte_append_sep splitByte_no_sep)

lemma getExtraValue_hd:
  "getExtraValue extra k = (case extraValues extra k of [] \<Rightarrow> '''' | v # vs \<Rightarrow> v)"
  by (auto simp: getExtraValue_def extraValues_def split: option.splits list.splits)

text \<open>Qualified identifiers of two sources coincide only when every part does.\<close>

lemma PrefixWithSource_eq_iff:
  assumes "planeA \<noteq> ''''" "clusterA \<noteq> ''''" "planeB \<noteq> ''''" "clusterB \<noteq> ''''"
    and "CHR ''/'' \<notin> set planeA" "CHR ''/'' \<notin> set clusterA"
    and "CHR ''/'' \<notin> set planeB" "CHR ''/'' \<notin> set clusterB"
  shows "PrefixWithSource planeA clusterA a = PrefixWithSource planeB clusterB b
    \<longleftrightarrow> planeA = planeB \<and> clusterA = clusterB \<and> a = b"
proof
  assume "PrefixWithSource planeA clusterA a = PrefixWithSource planeB clusterB b"
  with assms have eq: "planeA @ CHR ''/'' # clusterA @ CHR ''/'' # a = planeB @ CHR ''/'' # clusterB @ CHR ''/'' # b"
    by (simp add: PrefixWithSource_def)
  from append_sep_inject [OF assms(5) assms(7) eq]
  have p: "planeA = planeB" and rest: "clusterA @ CHR ''/'' # a = clusterB @ CHR ''/'' # b" by auto
  from append_sep_inject [OF assms(6) assms(8) rest] p
  show "planeA = planeB \<and> clusterA = clusterB \<and> a = b" by simp
qed simp

section \<open>Properties\<close>

text \<open>
  Normalising a tenant type is idempotent, and its result is either one of the four
  canonical spellings or the unchanged input, whose lower-case form is then none of theirs.
\<close>

theorem NormalizeTenantType_canonical:
  "NormalizeTenantType (NormalizeTenantType t) = NormalizeTenantType t \<and>
   (NormalizeTenantType t \<in> {TenantTypePlatform, TenantTypeOrganization, TenantTypeProject, TenantTypeUser}
    \<or> NormalizeTenantType t = t \<and>
       toLower t \<notin> {''platform'', ''organization'', ''project'', ''user''})"
proof -
  have low: "toLower TenantTypePlatform = ''platform''" "toLower TenantTypeOrganization = ''organization''"
    "toLower TenantTypeProject = ''project''" "toLower TenantTypeUser = ''user''"
    by code_simp+
  consider "toLower t = ''platform''" | "toLower t = ''organization''" | "toLower t = ''project''"
    | "toLower t = ''user''" | "toLower t \<notin> {''platform'', ''organization'', ''project'', ''user''}"
    by blast
  then show ?thesis
    by cases (simp_all add: NormalizeTenantType_def Let_def low)
qed

text \<open>
  A leaf cluster with a valid name publishes on subjects whose tokens are those of the
  prefix, then exactly the cluster name, then the namespace, and its publish grant pins the
  same cluster token at the same position; the inbox grant of a valid cluster starts with a
  first token that differs from the hub's \<open>_INBOX\<close> and determines the cluster.
\<close>

theorem event_subject_isolation:
  assumes "ValidClusterName c" and "CHR ''.'' \<notin> set namespace"
  shows "subjectTokens (EventSubject prefix c namespace) = subjectTokens prefix @ [c, namespace]
    \<and> subjectTokens (EventSubjectGrant prefix c) = subjectTokens prefix @ [c, ''*'']
    \<and> c \<noteq> ''*'' \<and> c \<noteq> ''>''
    \<and> subjectTokens (EventInboxGrant c) = [''_INBOX_'' @ c, ''>''] \<and> ''_INBOX_'' @ c \<noteq> ''_INBOX''"
proof (intro conjI)
  note clean = ValidClusterName_clean [OF assms(1)]
  show "subjectTokens (EventSubject prefix c namespace) = subjectTokens prefix @ [c, namespace]"
    using subjectTokens_snoc [OF clean(1), of prefix] subjectTokens_snoc [OF assms(2), of "prefix @ ''.'' @ c"]
      ValidClusterName_nonempty [OF assms(1)]
    by (simp add: EventSubject_def)
  show "subjectTokens (EventSubjectGrant prefix c) = subjectTokens prefix @ [c, ''*'']"
    using subjectTokens_snoc [OF clean(1), of prefix] subjectTokens_snoc [of "''*''" "prefix @ ''.'' @ c"]
    by (simp add: EventSubjectGrant_def)
  show "c \<noteq> ''*''" "c \<noteq> ''>''" using clean by auto
  show "subjectTokens (EventInboxGrant c) = [''_INBOX_'' @ c, ''>'']" "''_INBOX_'' @ c \<noteq> ''_INBOX''"
    using clean(1) by (simp_all add: EventInboxGrant_def EventInboxPrefix_def subjectTokens_def splitByte_append_sep splitByte_no_sep)
qed

theorem event_subject_isolation_witness:
  "ValidClusterName ''us-1'' \<and>
   subjectTokens (EventSubject ''events'' ''us-1'' ''default'') = [''events'', ''us-1'', ''default'']"
proof -
  have v: "ValidClusterName ''us-1''" by (simp add: ValidClusterName_def isAlnumLower_def)
  have n: "CHR ''.'' \<notin> set ''default''" by simp
  show ?thesis using v event_subject_isolation [OF v n, of "''events''"]
    by (simp add: subjectTokens_def)
qed

text \<open>
  The tenant stamped at ingest and the scope a query runs under agree: for a user whose
  parent kind is an organization, project or user and whose parent name is set, and who
  carries no legacy project field, the stored tenant type and name are exactly the scope's.
\<close>

theorem tenant_matches_scope:
  assumes "extraValues (userExtra u) ParentKindExtraKey = kind # ks"
    and "kind \<in> {''Organization'', ''Project'', ''User''}"
    and "extraValues (userExtra u) ParentNameExtraKey = name # ns" and "name \<noteq> ''''"
    and "getExtraValue (userExtra u) ''project'' = ''''"
  shows "tenantType (ExtractTenant u) = scopeType (ExtractScopeFromUser (userExtra u)) \<and>
    tenantName (ExtractTenant u) = scopeName (ExtractScopeFromUser (userExtra u))"
  using assms
  by (auto simp: ExtractTenant_def ExtractScopeFromUser_def getExtraValue_hd Let_def tenant_type_defs)

theorem tenant_matches_scope_witness:
  "tenantType (ExtractTenant \<lparr>userUsername = ''ann'', userUID = ''1'',
      userExtra = [(''iam.miloapis.com/parent-type'', [''Project'']), (''iam.miloapis.com/parent-name'', [''p1''])]\<rparr>)
   = ''Project''"
  using tenant_matches_scope [of "\<lparr>userUsername = ''ann'', userUID = ''1'',
      userExtra = [(''iam.miloapis.com/parent-type'', [''Project'']), (''iam.miloapis.com/parent-name'', [''p1''])]\<rparr>"
      "''Project''" "[]" "''p1''" "[]"]
  by (simp add: extraValues_def ExtractScopeFromUser_def getExtraValue_def ParentKindExtraKey_def
      ParentNameExtraKey_def tenant_type_defs)

text \<open>
  Scope extraction does not fail closed on an unrecognised parent: a user whose parent
  kind is outside organization, project and user is given the platform-wide scope, although a
  parent resource is specified.
\<close>

theorem unknown_parent_gets_platform_scope:
  assumes "extraValues extra ParentKindExtraKey = kind # ks"
    and "kind \<notin> {''Organization'', ''Project'', ''User''}"
  shows "ExtractScopeFromUser extra = platformScope"
  using assms by (auto simp: ExtractScopeFromUser_def split: list.splits)

theorem unknown_parent_gets_platform_scope_witness:
  "ExtractScopeFromUser [(''iam.miloapis.com/parent-type'', [''Folder'']), (''iam.miloapis.com/parent-name'', [''f1''])]
   = platformScope"
  by (rule unknown_parent_gets_platform_scope [of _ "''Folder''" "[]"])
    (simp_all add: extraValues_def ParentKindExtraKey_def)

end
