(* ===== verification/Cel_Env.thy ===== *)
theory Cel_Env
  imports Tenancy
begin

text \<open>
  internal/cel/environment.go and the link collector of internal/cel/policy.go: the variables
  a policy expression is evaluated with, built from the decoded audit log entry or event.
\<close>

section \<open>Links\<close>

record Link =
  lkMarker :: string
  lkResource :: gomap

text \<open>
  \<open>linkCollector.addLink\<close>: the collected links, in call order. The second branch of the
  source converts a CEL map to a Go map; here both are a \<open>VMap\<close>. Any other resource is
  dropped.
\<close>

definition addLink :: "Link list \<Rightarrow> string \<times> gval \<Rightarrow> Link list" where
  "addLink links call =
     (case snd call of
        VMap m \<Rightarrow> links @ [\<lparr>lkMarker = fst call, lkResource = m\<rparr>]
      | _ \<Rightarrow> links)"

section \<open>Actor references\<close>

definition BuildActorRef :: "gomap \<Rightarrow> gomap" where
  "BuildActorRef auditMap =
     (let username = ExtractString auditMap [''user'', ''username'']
      in if username = '''' then [(''type'', VStr ''unknown''), (''name'', VStr '''')]
         else [(''type'', VStr (if hasPrefix username ''system:serviceaccount:'' then ''serviceaccount''
                                else if hasPrefix username ''system:'' then ''system'' else ''user'')),
               (''name'', VStr username)])"

definition ExtractEventActor :: "gomap \<Rightarrow> string" where
  "ExtractEventActor eventMap =
     (let controller = ExtractString eventMap [''reportingController'']
      in if controller \<noteq> '''' then controller else ExtractString eventMap [''source'', ''component''])"

definition BuildEventActorRef :: "gomap \<Rightarrow> gomap" where
  "BuildEventActorRef eventMap =
     [(''type'', VStr ''controller''), (''name'', VStr (ExtractEventActor eventMap))]"

section \<open>Variables\<close>

definition auditNestedFields :: "string list" where
  "auditNestedFields = [''objectRef'', ''user'', ''responseStatus'', ''responseObject'', ''requestObject'']"

text \<open>The copy of the audit map with an empty map for every absent nested field.\<close>

definition withDefaults :: "gomap \<Rightarrow> gomap" where
  "withDefaults auditMap =
     foldl (\<lambda>m field. if map_of m field = None then m @ [(field, VMap [])] else m) auditMap auditNestedFields"

definition BuildAuditVars :: "gomap \<Rightarrow> gomap" where
  "BuildAuditVars auditMap =
     (let awd = withDefaults auditMap
      in [(''audit'', VMap awd),
          (''actor'', VStr (ExtractString auditMap [''user'', ''username''])),
          (''actorRef'', VMap (BuildActorRef auditMap)),
          (''kind'', VStr (case asMap (map_of awd ''objectRef'') of
             Some objRef \<Rightarrow> (case asStr (map_of objRef ''resource'') of Some kind \<Rightarrow> kind | None \<Rightarrow> '''')
           | None \<Rightarrow> ''''))])"

definition BuildEventSourceVars :: "gomap \<Rightarrow> gomap" where
  "BuildEventSourceVars eventMap =
     (let annotations = ExtractMap eventMap [''metadata'', ''annotations'']
      in [(''planeType'', VStr (ExtractString annotations [SourcePlaneTypeAnnotation])),
          (''cluster'', VStr (ExtractString annotations [SourceClusterAnnotation])),
          (''region'', VStr (ExtractString annotations [SourceRegionAnnotation])),
          (''city'', VStr (ExtractString annotations [SourceCityAnnotation]))])"

definition BuildEventVars :: "gomap \<Rightarrow> gomap" where
  "BuildEventVars eventMap =
     [(''event'', VMap eventMap),
      (''actor'', VStr (ExtractEventActor eventMap)),
      (''actorRef'', VMap (BuildEventActorRef eventMap)),
      (''source'', VMap (BuildEventSourceVars eventMap))]"

section \<open>Lemmas\<close>

lemma map_of_append_None: "map_of m k = None \<Longrightarrow> map_of (m @ ps) k = map_of ps k"
  by (induction m) (auto split: if_splits)

lemma map_of_append_Some: "map_of m k = Some v \<Longrightarrow> map_of (m @ ps) k = Some v"
  by (induction m) (auto split: if_splits)

lemma withDefaults_fold:
  "map_of (foldl (\<lambda>m field. if map_of m field = None then m @ [(field, VMap [])] else m) m fs) k =
     (case map_of m k of Some v \<Rightarrow> Some v | None \<Rightarrow> if k \<in> set fs then Some (VMap []) else None)"
proof (induction fs arbitrary: m)
  case Nil
  then show ?case by (simp split: option.splits)
next
  case (Cons f fs)
  show ?case
  proof (cases "map_of m f")
    case (Some w)
    with Cons.IH [of m] show ?thesis by (auto split: option.splits)
  next
    case None
    then show ?thesis
      using Cons.IH [of "m @ [(f, VMap [])]"]
      by (cases "map_of m k") (auto simp: map_of_append_None map_of_append_Some split: option.splits)
  qed
qed

text \<open>The defaults never shadow a field of the log entry, and fill exactly the absent ones.\<close>

lemma withDefaults_lookup:
  "map_of (withDefaults m) k =
     (case map_of m k of Some v \<Rightarrow> Some v | None \<Rightarrow> if k \<in> set auditNestedFields then Some (VMap []) else None)"
  by (simp add: withDefaults_def withDefaults_fold)

section \<open>Properties\<close>

text \<open>
  Every variable an audit expression may name is bound. The \<open>audit\<close> map keeps every
  field of the log entry unchanged, and each of the five nested fields the rules test with
  \<open>has()\<close> is present even when the log entry lacks it; the caller's map is only read.
\<close>

theorem audit_vars_total:
  "\<exists>awd. map_of (BuildAuditVars m) ''audit'' = Some (VMap awd) \<and>
     (\<forall>f. f \<in> {''objectRef'', ''user'', ''responseStatus'', ''responseObject'', ''requestObject''} \<longrightarrow>
        map_of awd f \<noteq> None) \<and>
     (\<forall>k v. map_of m k = Some v \<longrightarrow> map_of awd k = Some v) \<and>
     map_of (BuildAuditVars m) ''kind'' \<noteq> None \<and> map_of (BuildAuditVars m) ''actor'' \<noteq> None \<and>
     map_of (BuildAuditVars m) ''actorRef'' \<noteq> None"
  by (rule exI [where x = "withDefaults m"])
    (auto simp: BuildAuditVars_def Let_def withDefaults_lookup auditNestedFields_def split: option.splits)

theorem audit_vars_total_witness:
  "\<exists>awd. map_of (BuildAuditVars [(''verb'', VStr ''create'')]) ''audit'' = Some (VMap awd) \<and>
     map_of awd ''responseObject'' \<noteq> None \<and> map_of awd ''verb'' = Some (VStr ''create'')"
  using audit_vars_total [of "[(''verb'', VStr ''create'')]"] by fastforce

text \<open>
  The \<open>source\<close> variable of an event expression always has its four keys bound to
  strings, whatever the event looks like, and they are the annotations when present.
\<close>

theorem event_source_vars_total:
  "\<exists>src. map_of (BuildEventVars ev) ''source'' = Some (VMap src) \<and>
     map_of src ''planeType'' = Some (VStr (ExtractString ev [''metadata'', ''annotations'', SourcePlaneTypeAnnotation])) \<and>
     map_of src ''cluster'' = Some (VStr (ExtractString ev [''metadata'', ''annotations'', SourceClusterAnnotation])) \<and>
     map_of src ''region'' = Some (VStr (ExtractString ev [''metadata'', ''annotations'', SourceRegionAnnotation])) \<and>
     map_of src ''city'' = Some (VStr (ExtractString ev [''metadata'', ''annotations'', SourceCityAnnotation]))"
  using ExtractString_via_ExtractMap [of ev "[''metadata'', ''annotations'']"]
  by (simp add: BuildEventVars_def BuildEventSourceVars_def Let_def)

end
