(* ===== verification/Go_Errors.thy ===== *)
theory Go_Errors
  imports Prelude
begin

text \<open>
  Go error values: the rendered message, the sentinel errors reachable by \<open>errors.Is\<close>
  through \<open>%w\<close> wrapping, and the policy context reachable by \<open>errors.As\<close>
  (\<open>PolicyEvaluationError\<close> of internal/processor/dlq.go). Formatting an error with \<open>%v\<close>
  keeps the message only.
\<close>

datatype sentinel = SKindResolution | SActivityBuild

record go_error =
  errMsg :: string
  errIs :: "sentinel list"
  errPolicy :: "(string \<times> int) option"

definition newError :: "string \<Rightarrow> go_error" where
  "newError msg = \<lparr>errMsg = msg, errIs = [], errPolicy = None\<rparr>"

text \<open>\<open>errors.New\<close> for the two sentinels.\<close>

definition ErrKindResolution :: go_error where
  "ErrKindResolution = \<lparr>errMsg = ''kind resolution failed'', errIs = [SKindResolution], errPolicy = None\<rparr>"

definition ErrActivityBuild :: go_error where
  "ErrActivityBuild = \<lparr>errMsg = ''activity build failed'', errIs = [SActivityBuild], errPolicy = None\<rparr>"

text \<open>\<open>fmt.Errorf(prefix + "%w" + suffix, err)\<close>: the chain of the wrapped error is kept.\<close>

definition wrapError :: "string \<Rightarrow> go_error \<Rightarrow> string \<Rightarrow> go_error" where
  "wrapError pre e suf = e\<lparr>errMsg := pre @ errMsg e @ suf\<rparr>"

definition errorsIs :: "go_error \<Rightarrow> sentinel \<Rightarrow> bool" where
  "errorsIs e s = (s \<in> set (errIs e))"

text \<open>\<open>NewPolicyEvaluationError\<close>; its \<open>Error()\<close> is the wrapped error's message.\<close>

definition NewPolicyEvaluationError :: "string \<Rightarrow> int \<Rightarrow> go_error \<Rightarrow> go_error" where
  "NewPolicyEvaluationError policyName ruleIndex e = e\<lparr>errPolicy := Some (policyName, ruleIndex)\<rparr>"

text \<open>\<open>%q\<close> on a string whose bytes are ASCII or valid UTF-8.\<close>

definition quoteChar :: "char \<Rightarrow> string" where
  "quoteChar c =
     (let n = of_char c :: nat in
      if n = 34 then [char_of (92 :: nat), c] else if n = 92 then [c, c]
      else if n = 10 then [char_of (92 :: nat), CHR ''n''] else if n = 9 then [char_of (92 :: nat), CHR ''t'']
      else if n = 13 then [char_of (92 :: nat), CHR ''r''] else [c])"

definition quoteQ :: "string \<Rightarrow> string" where
  "quoteQ s = [char_of (34 :: nat)] @ concat (map quoteChar s) @ [char_of (34 :: nat)]"

lemma wrapError_sel [simp]:
  "errIs (wrapError p e s) = errIs e" "errPolicy (wrapError p e s) = errPolicy e"
  by (simp_all add: wrapError_def)

lemma errorsIs_wrap [simp]: "errorsIs (wrapError p e s) = errorsIs e"
  by (simp add: errorsIs_def fun_eq_iff)

lemma errorsIs_new [simp]: "\<not> errorsIs (newError m) s"
  by (simp add: errorsIs_def newError_def)

lemma errorsIs_sentinels [simp]:
  "errorsIs ErrActivityBuild s \<longleftrightarrow> s = SActivityBuild" "errorsIs ErrKindResolution s \<longleftrightarrow> s = SKindResolution"
  by (auto simp: errorsIs_def ErrActivityBuild_def ErrKindResolution_def)

end
