(* ===== verification/Cel_Policy.thy ===== *)
theory Cel_Policy
  imports Cel_Env Go_Errors
begin

text \<open>
  internal/cel/policy.go: summary templates, the validation of policy expressions and their
  evaluation. The CEL engine (cel-go) is third-party code and a parameter: a record of its
  operations. What the sources rely on is only their signatures: compiling an expression in
  the environment of a rule type, the static type of the result, building a program, and an
  evaluation that returns a value or an error and makes \<open>link()\<close> calls on the way. The regular
  expression of the template is written out as the matcher that Go's leftmost-first semantics
  gives it.
\<close>

section \<open>The CEL engine\<close>

datatype cel_type = CelBool | CelString | CelDyn | CelOther string

record ('a, 'p) cel_engine =
  celNewEnv :: "string \<Rightarrow> string option"
  celCompile :: "string \<Rightarrow> string \<Rightarrow> string + 'a"
  celOutputType :: "'a \<Rightarrow> cel_type"
  celProgram :: "'a \<Rightarrow> string + 'p"
  celEval :: "'p \<Rightarrow> gomap \<Rightarrow> (string + gval) \<times> (string \<times> gval) list"

definition MatchExpression :: string where "MatchExpression = ''match''"
definition SummaryExpression :: string where "SummaryExpression = ''summary''"
definition AuditRule :: string where "AuditRule = ''audit''"
definition EventRule :: string where "EventRule = ''event''"

section \<open>Templates\<close>

text \<open>The class \<open>\s\<close> of RE2, and the bytes \<open>strings.TrimSpace\<close> removes from ASCII text.\<close>

definition isReSpace :: "char \<Rightarrow> bool" where
  "isReSpace c = ((of_char c :: nat) \<in> {9, 10, 12, 13, 32})"

definition isSpace :: "char \<Rightarrow> bool" where
  "isSpace c = ((of_char c :: nat) \<in> {9, 10, 11, 12, 13, 32})"

definition trimSpace :: "string \<Rightarrow> string" where
  "trimSpace s = rev (dropWhile isSpace (rev (dropWhile isSpace s)))"

text \<open>\<open>\s*\}\}\<close> at the start of a string: the rest after it.\<close>

definition closeAt :: "string \<Rightarrow> string option" where
  "closeAt s = (let r = dropWhile isReSpace s in if hasPrefix r ''}}'' then Some (drop 2 r) else None)"

text \<open>\<open>(.+?)\s*\}\}\<close>: the shortest non-empty group, a dot matching anything but a newline.\<close>

fun lazyGroup :: "string \<Rightarrow> (string \<times> string) option" where
  "lazyGroup [] = None"
| "lazyGroup (c # s) =
     (if (of_char c :: nat) = 10 then None
      else (case closeAt s of
              Some rest \<Rightarrow> Some ([c], rest)
            | None \<Rightarrow> map_option (\<lambda>(g, rest). (c # g, rest)) (lazyGroup s)))"

text \<open>\<open>\s*(.+?)\s*\}\}\<close>: as much leading space as possible, giving back when the group fails.\<close>

fun spacedGroup :: "string \<Rightarrow> (string \<times> string) option" where
  "spacedGroup [] = None"
| "spacedGroup (c # s) =
     (if isReSpace c
      then (case spacedGroup s of Some m \<Rightarrow> Some m | None \<Rightarrow> lazyGroup (c # s))
      else lazyGroup (c # s))"

text \<open>A match of \<open>summaryTemplateRegex\<close> at the start: the captured group and the rest.\<close>

definition templateAt :: "string \<Rightarrow> (string \<times> string) option" where
  "templateAt s = (if hasPrefix s ''{{'' then spacedGroup (drop 2 s) else None)"

lemma closeAt_length: "closeAt s = Some r \<Longrightarrow> length r < length s"
  using length_dropWhile_le [of isReSpace s]
  by (auto simp: closeAt_def hasPrefix_iff Let_def split: if_splits)

lemma lazyGroup_length: "lazyGroup s = Some (g, r) \<Longrightarrow> length r < length s"
  by (induction s arbitrary: g)
    (auto split: if_splits option.splits dest: closeAt_length intro: less_SucI)

lemma spacedGroup_length: "spacedGroup s = Some (g, r) \<Longrightarrow> length r < length s"
proof (induction s)
  case Nil
  then show ?case by simp
next
  case (Cons c s)
  then show ?case
    using lazyGroup_length [of "c # s" g r]
    by (auto simp del: lazyGroup.simps split: if_splits option.splits intro: less_SucI)
qed

lemma templateAt_length: "templateAt s = Some (g, r) \<Longrightarrow> length r < length s"
  by (auto simp: templateAt_def split: if_splits dest!: spacedGroup_length)

text \<open>The text between matches and the matches themselves, each with its captured group.\<close>

datatype segment = Lit char | Hole string string

function segments :: "string \<Rightarrow> segment list" where
  "segments s =
     (case templateAt s of
        Some (g, rest) \<Rightarrow> Hole (take (length s - length rest) s) g # segments rest
      | None \<Rightarrow> (case s of [] \<Rightarrow> [] | c # t \<Rightarrow> Lit c # segments t))"
  by pat_completeness auto
termination
  by (relation "measure length") (auto dest: templateAt_length)

declare segments.simps [simp del]

definition holes :: "segment list \<Rightarrow> (string \<times> string) list" where
  "holes segs = concat (map (\<lambda>x. case x of Lit _ \<Rightarrow> [] | Hole m g \<Rightarrow> [(m, g)]) segs)"

text \<open>\<open>FindAllStringSubmatch\<close>: whole match and group of every match, left to right.\<close>

definition findAllTemplates :: "string \<Rightarrow> (string \<times> string) list" where
  "findAllTemplates template = holes (segments template)"

text \<open>\<open>strings.Count\<close> of a two-byte string: non-overlapping occurrences.\<close>

fun countPair :: "char \<Rightarrow> string \<Rightarrow> nat" where
  "countPair b (c # d # s) = (if c = b \<and> d = b then Suc (countPair b s) else countPair b (d # s))"
| "countPair b s = 0"

section \<open>Validation\<close>

definition formatPolicyError :: "string \<Rightarrow> string \<Rightarrow> string" where
  "formatPolicyError errStr ctx =
     (if containsStr errStr ''undeclared reference''
      then ''invalid '' @ ctx @ '' expression: '' @ errStr @ ''. ''
        @ ''For audit rules: audit.verb, audit.objectRef, audit.user, audit.responseStatus, audit.responseObject, audit.requestObject, actor, actorRef, kind. ''
        @ ''For event rules: event.reason, event.type, event.regarding.name, actor, actorRef. ''
        @ ''Also available: link(displayText, resourceRef)''
      else if containsStr errStr ''found no matching overload''
      then ''invalid '' @ ctx @ '' expression: function call error - '' @ errStr @ ''. ''
        @ ''Available function: link(displayText, resourceRef)''
      else ''invalid '' @ ctx @ '' expression: '' @ errStr)"

definition celTypeName :: "cel_type \<Rightarrow> string" where
  "celTypeName t = (case t of CelBool \<Rightarrow> ''bool'' | CelString \<Rightarrow> ''string'' | CelDyn \<Rightarrow> ''dyn'' | CelOther n \<Rightarrow> n)"

definition validateMatchExpression :: "('a, 'p) cel_engine \<Rightarrow> string \<Rightarrow> string \<Rightarrow> string option" where
  "validateMatchExpression eng env expression =
     (case celCompile eng env expression of
        Inl err \<Rightarrow> Some (formatPolicyError err ''match'')
      | Inr ast \<Rightarrow>
          if celOutputType eng ast \<noteq> CelBool
          then Some (''match expression must return a boolean, got '' @ celTypeName (celOutputType eng ast))
          else None)"

fun validateHoles :: "('a, 'p) cel_engine \<Rightarrow> string \<Rightarrow> (string \<times> string) list \<Rightarrow> string option" where
  "validateHoles eng env [] = None"
| "validateHoles eng env ((m, g) # ms) =
     (let embeddedExpr = trimSpace g in
      if embeddedExpr = '''' then Some (''empty expression in template: '' @ m)
      else (case celCompile eng env embeddedExpr of
              Inl err \<Rightarrow> Some (formatPolicyError err ''summary'')
            | Inr ast \<Rightarrow>
                if celOutputType eng ast \<noteq> CelString \<and> celOutputType eng ast \<noteq> CelDyn
                then Some (''expression '' @ [CHR 0x27] @ ''{{ '' @ embeddedExpr @ '' }}'' @ [CHR 0x27]
                  @ '' in summary must return a string, got '' @ celTypeName (celOutputType eng ast))
                else validateHoles eng env ms))"

definition validateSummaryExpression :: "('a, 'p) cel_engine \<Rightarrow> string \<Rightarrow> string \<Rightarrow> string option" where
  "validateSummaryExpression eng env expression =
     (if countPair (CHR ''{'') expression \<noteq> countPair (CHR ''}'') expression
      then Some ''error compiling template: missing closing delimiter''
      else validateHoles eng env (findAllTemplates expression))"

text \<open>\<open>None\<close> is Go's nil error.\<close>

definition ValidatePolicyExpression ::
  "('a, 'p) cel_engine \<Rightarrow> string \<Rightarrow> string \<Rightarrow> string \<Rightarrow> string option" where
  "ValidatePolicyExpression eng expression exprType ruleType =
     (if expression = '''' then Some ''expression cannot be empty''
      else if ruleType \<noteq> AuditRule \<and> ruleType \<noteq> EventRule then Some (''unknown rule type: '' @ ruleType)
      else (case celNewEnv eng ruleType of
              Some err \<Rightarrow> Some (''failed to create CEL environment: '' @ err)
            | None \<Rightarrow>
                if exprType = MatchExpression then validateMatchExpression eng ruleType expression
                else if exprType = SummaryExpression then validateSummaryExpression eng ruleType expression
                else Some (''unknown expression type: '' @ exprType)))"

section \<open>Evaluation\<close>

text \<open>The common body of \<open>EvaluateAuditMatchMap\<close> and \<open>EvaluateEventMatch\<close>.\<close>

definition evaluateMatch :: "('a, 'p) cel_engine \<Rightarrow> string \<Rightarrow> string \<Rightarrow> gomap \<Rightarrow> go_error + bool" where
  "evaluateMatch eng ruleType expression vars =
     (case celNewEnv eng ruleType of
        Some err \<Rightarrow> Inl (newError (''failed to create '' @ ruleType @ '' environment: '' @ err))
      | None \<Rightarrow>
     (case celCompile eng ruleType expression of
        Inl err \<Rightarrow> Inl (newError (''failed to compile match expression: '' @ err))
      | Inr ast \<Rightarrow>
     (case celProgram eng ast of
        Inl err \<Rightarrow> Inl (newError (''failed to create program: '' @ err))
      | Inr prg \<Rightarrow>
     (case fst (celEval eng prg vars) of
        Inl err \<Rightarrow> Inl (newError (''failed to evaluate match expression: '' @ err))
      | Inr out \<Rightarrow>
     (case asBool out of
        None \<Rightarrow> Inl (newError ''match expression did not return a boolean'')
      | Some result \<Rightarrow> Inr result)))))"

definition EvaluateAuditMatchMap :: "('a, 'p) cel_engine \<Rightarrow> string \<Rightarrow> gomap \<Rightarrow> go_error + bool" where
  "EvaluateAuditMatchMap eng expression auditMap = evaluateMatch eng AuditRule expression (BuildAuditVars auditMap)"

definition EvaluateEventMatch :: "('a, 'p) cel_engine \<Rightarrow> string \<Rightarrow> gomap \<Rightarrow> go_error + bool" where
  "EvaluateEventMatch eng expression event = evaluateMatch eng EventRule expression (BuildEventVars event)"

text \<open>
  The replacement of one match: its text, the error it adds and the links its \<open>link()\<close> calls
  collect. The group is found again in the matched text, as the source does.
\<close>

definition replaceHole ::
  "('a, 'p) cel_engine \<Rightarrow> string \<Rightarrow> gomap \<Rightarrow> string \<Rightarrow> string \<times> string list \<times> (string \<times> gval) list" where
  "replaceHole eng env vars match =
     (case findAllTemplates match of
        [] \<Rightarrow> (match, [], [])
      | (_, g) # _ \<Rightarrow>
          (let expr = trimSpace g in
           case celCompile eng env expr of
             Inl err \<Rightarrow> (''[ERROR: '' @ err @ '']'', [''compile '' @ quoteQ expr @ '': '' @ err], [])
           | Inr ast \<Rightarrow>
               (case celProgram eng ast of
                  Inl err \<Rightarrow> (''[ERROR: '' @ err @ '']'', [''program '' @ quoteQ expr @ '': '' @ err], [])
                | Inr prg \<Rightarrow>
                    (case celEval eng prg vars of
                       (Inl err, calls) \<Rightarrow> (''[ERROR: '' @ err @ '']'', [''eval '' @ quoteQ expr @ '': '' @ err], calls)
                     | (Inr out, calls) \<Rightarrow> (fmtV out, [], calls)))))"

text \<open>\<open>ReplaceAllStringFunc\<close> over the segments, with the errors and link calls in order.\<close>

fun replaceSegments ::
  "('a, 'p) cel_engine \<Rightarrow> string \<Rightarrow> gomap \<Rightarrow> segment list \<Rightarrow> string \<times> string list \<times> (string \<times> gval) list" where
  "replaceSegments eng env vars [] = ('''', [], [])"
| "replaceSegments eng env vars (Lit c # segs) =
     (let (s, es, ls) = replaceSegments eng env vars segs in (c # s, es, ls))"
| "replaceSegments eng env vars (Hole m g # segs) =
     (let (t, es, ls) = replaceHole eng env vars m;
          (s, es', ls') = replaceSegments eng env vars segs
      in (t @ s, es @ es', ls @ ls'))"

text \<open>The result, with the link calls made; the error joins the messages with newlines.\<close>

definition evaluateSummaryTemplate ::
  "('a, 'p) cel_engine \<Rightarrow> string \<Rightarrow> string \<Rightarrow> gomap \<Rightarrow> go_error + (string \<times> (string \<times> gval) list)" where
  "evaluateSummaryTemplate eng env template vars =
     (let (result, evalErrors, calls) = replaceSegments eng env vars (segments template)
      in if evalErrors \<noteq> []
         then Inl (newError (''summary template evaluation failed: '' @ joinStr [char_of (10 :: nat)] evalErrors))
         else Inr (result, calls))"

definition evaluateSummary ::
  "('a, 'p) cel_engine \<Rightarrow> string \<Rightarrow> string \<Rightarrow> gomap \<Rightarrow> go_error + (string \<times> Link list)" where
  "evaluateSummary eng ruleType template vars =
     (case celNewEnv eng ruleType of
        Some err \<Rightarrow> Inl (newError (''failed to create '' @ ruleType @ '' environment: '' @ err))
      | None \<Rightarrow>
          bind_r (evaluateSummaryTemplate eng ruleType template vars)
            (\<lambda>(result, calls). Inr (result, foldl addLink [] calls)))"

definition EvaluateAuditSummaryMap :: "('a, 'p) cel_engine \<Rightarrow> string \<Rightarrow> gomap \<Rightarrow> go_error + (string \<times> Link list)" where
  "EvaluateAuditSummaryMap eng template auditMap = evaluateSummary eng AuditRule template (BuildAuditVars auditMap)"

definition EvaluateEventSummary :: "('a, 'p) cel_engine \<Rightarrow> string \<Rightarrow> gomap \<Rightarrow> go_error + (string \<times> Link list)" where
  "EvaluateEventSummary eng template event = evaluateSummary eng EventRule template (BuildEventVars event)"

section \<open>Lemmas on the matcher\<close>

lemma closeAt_extend: "closeAt p = Some r \<Longrightarrow> closeAt (p @ x) = Some (r @ x)"
proof -
  assume "closeAt p = Some r"
  then have d: "dropWhile isReSpace p = ''}}'' @ r"
    by (auto simp: closeAt_def hasPrefix_iff Let_def split: if_splits)
  then have "\<not> (\<forall>c \<in> set p. isReSpace c)" by (metis dropWhile_eq_Nil_conv append_is_Nil_conv list.discI)
  then obtain c where "c \<in> set p" "\<not> isReSpace c" by blast
  then have "dropWhile isReSpace (p @ x) = ''}}'' @ r @ x"
    using d by (metis dropWhile_append1 append_assoc)
  then show ?thesis by (simp add: closeAt_def hasPrefix_def)
qed

lemma closeAt_cut:
  assumes "closeAt s = Some r"
  shows "\<exists>w. s = w @ r \<and> closeAt w = Some []"
proof -
  from assms have d: "dropWhile isReSpace s = ''}}'' @ r"
    by (auto simp: closeAt_def hasPrefix_iff Let_def split: if_splits)
  let ?w = "takeWhile isReSpace s @ ''}}''"
  have "s = ?w @ r" using takeWhile_dropWhile_id [of isReSpace s] d by simp
  moreover have "dropWhile isReSpace ?w = ''}}''"
    using set_takeWhileD [of _ isReSpace s] by (subst dropWhile_append2) (auto simp: isReSpace_def)
  then have "closeAt ?w = Some []" by (simp add: closeAt_def hasPrefix_def)
  ultimately show ?thesis by blast
qed

lemma lazyGroup_cut: "lazyGroup s = Some (g, r) \<Longrightarrow> \<exists>m. s = m @ r \<and> lazyGroup m = Some (g, [])"
proof (induction s arbitrary: g)
  case Nil
  then show ?case by simp
next
  case (Cons c t)
  then have nl: "(of_char c :: nat) \<noteq> 10" by (auto split: if_splits)
  show ?case
  proof (cases "closeAt t")
    case (Some r')
    with Cons.prems nl have g: "g = [c]" "r' = r" by auto
    from closeAt_cut [OF Some] g obtain w where "t = w @ r" "closeAt w = Some []" by blast
    with g nl show ?thesis by (intro exI [of _ "c # w"]) simp
  next
    case None
    with Cons.prems nl obtain g' where g': "lazyGroup t = Some (g', r)" "g = c # g'" by auto
    from Cons.IH [OF g'(1)] obtain m where m: "t = m @ r" "lazyGroup m = Some (g', [])" by blast
    have "closeAt m = None"
      using closeAt_extend [of m _ r] None m(1) by (cases "closeAt m") auto
    with m g' nl show ?thesis by (intro exI [of _ "c # m"]) simp
  qed
qed

lemma lazyGroup_extend: "lazyGroup p \<noteq> None \<Longrightarrow> lazyGroup (p @ x) \<noteq> None"
proof (induction p)
  case Nil
  then show ?case by simp
next
  case (Cons c p)
  then show ?case
    using closeAt_extend [of p _ x] by (cases "closeAt p") (auto split: if_splits option.splits)
qed

lemma spacedGroup_extend: "spacedGroup p \<noteq> None \<Longrightarrow> spacedGroup (p @ x) \<noteq> None"
proof (induction p)
  case Nil
  then show ?case by simp
next
  case (Cons c p)
  have "lazyGroup (c # p) \<noteq> None \<Longrightarrow> lazyGroup (c # p @ x) \<noteq> None"
    using lazyGroup_extend [of "c # p" x] by simp
  with Cons show ?case
    by (auto simp del: lazyGroup.simps split: if_splits option.splits)
qed

lemma spacedGroup_cut: "spacedGroup s = Some (g, r) \<Longrightarrow> \<exists>m. s = m @ r \<and> spacedGroup m = Some (g, [])"
proof (induction s)
  case Nil
  then show ?case by simp
next
  case (Cons c t)
  show ?case
  proof (cases "isReSpace c \<and> spacedGroup t \<noteq> None")
    case True
    with Cons.prems have "spacedGroup t = Some (g, r)" by auto
    from Cons.IH [OF this] obtain m where "t = m @ r" "spacedGroup m = Some (g, [])" by blast
    with True show ?thesis by (intro exI [of _ "c # m"]) simp
  next
    case False
    with Cons.prems have "lazyGroup (c # t) = Some (g, r)"
      by (auto simp del: lazyGroup.simps split: if_splits option.splits)
    from lazyGroup_cut [OF this] obtain m where m: "c # t = m @ r" "lazyGroup m = Some (g, [])" by blast
    then obtain m' where m': "m = c # m'" by (cases m) auto
    have "isReSpace c \<Longrightarrow> spacedGroup m' = None"
      using False spacedGroup_extend [of m' r] m m' by (cases "spacedGroup m'") auto
    with m m' show ?thesis
      by (intro exI [of _ m]) (simp del: lazyGroup.simps)
  qed
qed

lemma templateAt_cut:
  assumes "templateAt s = Some (g, r)"
  shows "\<exists>m. s = m @ r \<and> templateAt m = Some (g, []) \<and> take (length s - length r) s = m"
proof -
  from assms obtain t where t: "s = ''{{'' @ t" "spacedGroup t = Some (g, r)"
    by (auto simp: templateAt_def hasPrefix_iff split: if_splits)
  from spacedGroup_cut [OF t(2)] obtain m where m: "t = m @ r" "spacedGroup m = Some (g, [])" by blast
  with t show ?thesis
    by (intro exI [of _ "''{{'' @ m"]) (simp add: templateAt_def hasPrefix_def)
qed

lemma templateAt_Nil [simp]: "templateAt [] = None"
  by (simp add: templateAt_def hasPrefix_def)

lemma segments_Nil [simp]: "segments [] = []"
  by (subst segments.simps) simp

text \<open>Matching the matched text again finds it whole, with the same group.\<close>

lemma findAllTemplates_match:
  assumes "templateAt m = Some (g, [])"
  shows "findAllTemplates m = [(m, g)]"
  using assms by (subst findAllTemplates_def, subst segments.simps) (simp add: holes_def)

definition segmentText :: "segment \<Rightarrow> string" where
  "segmentText x = (case x of Lit c \<Rightarrow> [c] | Hole m g \<Rightarrow> m)"

lemma segmentText_simps [simp]: "segmentText (Lit c) = [c]" "segmentText (Hole m g) = m"
  by (simp_all add: segmentText_def)

lemma segments_concat: "concat (map segmentText (segments s)) = s"
proof (induction s rule: segments.induct)
  case (1 s)
  show ?case
  proof (cases "templateAt s")
    case None
    with 1 show ?thesis by (cases s) (simp_all add: segments.simps)
  next
    case (Some p)
    obtain g r where p: "p = (g, r)" by force
    from templateAt_cut [OF Some [unfolded p]] have "s = take (length s - length r) s @ r" by force
    moreover have "concat (map segmentText (segments r)) = r" using 1(2) Some p by simp
    ultimately show ?thesis using Some p by (subst segments.simps) simp
  qed
qed

lemma segments_hole: "Hole m g \<in> set (segments s) \<Longrightarrow> findAllTemplates m = [(m, g)]"
proof (induction s rule: segments.induct)
  case (1 s)
  show ?case
  proof (cases "templateAt s")
    case None
    with 1 show ?thesis by (subst (asm) (2) segments.simps) (auto split: list.splits)
  next
    case (Some p)
    obtain g' r where p: "p = (g', r)" by force
    from templateAt_cut [OF Some [unfolded p]] have "templateAt (take (length s - length r) s) = Some (g', [])" by force
    with 1 Some p show ?thesis
      by (subst (asm) (2) segments.simps) (auto intro: findAllTemplates_match)
  qed
qed

lemma segments_plain: "\<not> containsStr s ''{{'' \<Longrightarrow> segments s = map Lit s"
proof (induction s)
  case Nil
  then show ?case by simp
next
  case (Cons c s)
  then show ?case by (subst segments.simps) (simp add: templateAt_def)
qed

section \<open>Properties\<close>

text \<open>What a template stands for when each hole's expression has a value: the literal bytes in
  place and each hole replaced by the rendering of its value.\<close>

definition renderWith :: "(string \<Rightarrow> gval) \<Rightarrow> segment list \<Rightarrow> string" where
  "renderWith val segs = concat (map (\<lambda>x. case x of Lit c \<Rightarrow> [c] | Hole m g \<Rightarrow> fmtV (val (trimSpace g))) segs)"

text \<open>The engine compiles and runs an expression to a value.\<close>

definition celValue :: "('a, 'p) cel_engine \<Rightarrow> string \<Rightarrow> gomap \<Rightarrow> string \<Rightarrow> string + gval" where
  "celValue eng env vars expr =
     bind_r (celCompile eng env expr) (\<lambda>ast. bind_r (celProgram eng ast) (\<lambda>prg. fst (celEval eng prg vars)))"

lemma replaceHole_ok:
  assumes "findAllTemplates m = [(m, g)]"
  shows "fst (snd (replaceHole eng env vars m)) = [] \<longleftrightarrow> isOk (celValue eng env vars (trimSpace g))"
    and "celValue eng env vars (trimSpace g) = Inr v \<Longrightarrow> fst (replaceHole eng env vars m) = fmtV v"
  using assms
  by (auto simp: replaceHole_def celValue_def Let_def split: sum.splits prod.splits)

lemma replaceSegments_ok:
  assumes "\<And>m g. Hole m g \<in> set segs \<Longrightarrow> findAllTemplates m = [(m, g)]"
  shows "fst (snd (replaceSegments eng env vars segs)) = [] \<longleftrightarrow>
    (\<forall>m g. Hole m g \<in> set segs \<longrightarrow> isOk (celValue eng env vars (trimSpace g)))"
  using assms
proof (induction segs)
  case Nil
  then show ?case by simp
next
  case (Cons x segs)
  then have IH: "fst (snd (replaceSegments eng env vars segs)) = [] \<longleftrightarrow>
    (\<forall>m g. Hole m g \<in> set segs \<longrightarrow> isOk (celValue eng env vars (trimSpace g)))" by auto
  show ?case
  proof (cases x)
    case (Lit c)
    with IH show ?thesis by (simp add: case_prod_unfold Let_def)
  next
    case (Hole m g)
    with Cons.prems have "findAllTemplates m = [(m, g)]" by simp
    from replaceHole_ok(1) [OF this] IH Hole show ?thesis by (auto simp: case_prod_unfold Let_def)
  qed
qed

lemma replaceSegments_text:
  assumes "\<And>m g. Hole m g \<in> set segs \<Longrightarrow> findAllTemplates m = [(m, g)]"
    and "\<And>m g. Hole m g \<in> set segs \<Longrightarrow> celValue eng env vars (trimSpace g) = Inr (val (trimSpace g))"
  shows "fst (replaceSegments eng env vars segs) = renderWith val segs"
  using assms
proof (induction segs)
  case Nil
  then show ?case by (simp add: renderWith_def)
next
  case (Cons x segs)
  have IH: "fst (replaceSegments eng env vars segs) = renderWith val segs"
    using Cons.prems by (intro Cons.IH) auto
  show ?case
  proof (cases x)
    case (Lit c)
    with IH show ?thesis by (simp add: renderWith_def case_prod_unfold Let_def)
  next
    case (Hole m g)
    with Cons.prems have "findAllTemplates m = [(m, g)]" "celValue eng env vars (trimSpace g) = Inr (val (trimSpace g))"
      by auto
    from replaceHole_ok(2) [OF this] IH Hole show ?thesis
      by (simp add: renderWith_def case_prod_unfold Let_def)
  qed
qed

lemma validateHoles_compile:
  "validateHoles eng env ms = None \<Longrightarrow> (m, g) \<in> set ms \<Longrightarrow> isOk (celCompile eng env (trimSpace g))"
  by (induction eng env ms rule: validateHoles.induct) (auto simp: Let_def split: if_splits sum.splits)

lemma hole_in_findAll: "Hole m g \<in> set (segments t) \<Longrightarrow> (m, g) \<in> set (findAllTemplates t)"
  by (force simp: findAllTemplates_def holes_def)

lemma evaluateSummaryTemplate_ok:
  "isOk (evaluateSummaryTemplate eng env template vars) \<longleftrightarrow>
     (\<forall>m g. Hole m g \<in> set (segments template) \<longrightarrow> isOk (celValue eng env vars (trimSpace g)))"
proof -
  have "isOk (evaluateSummaryTemplate eng env template vars)
      \<longleftrightarrow> fst (snd (replaceSegments eng env vars (segments template))) = []"
    by (simp add: evaluateSummaryTemplate_def Let_def case_prod_unfold)
  then show ?thesis using replaceSegments_ok [of "segments template" eng env vars] segments_hole by blast
qed

text \<open>
  C32: evaluating a summary template succeeds exactly when every \<open>{{ expression }}\<close> in it
  compiles and evaluates, and then the result is the template with each such block replaced by the
  value of its expression and every other byte kept. A failing expression is always
  reported as an error: no summary containing an error marker of a failed block is ever returned as a
  result.\<close>

theorem summary_template_semantics:
  "(isOk (evaluateSummaryTemplate eng env template vars) \<longleftrightarrow>
      (\<forall>m g. Hole m g \<in> set (segments template) \<longrightarrow> isOk (celValue eng env vars (trimSpace g))))
   \<and> (\<forall>result calls val. evaluateSummaryTemplate eng env template vars = Inr (result, calls) \<longrightarrow>
        (\<forall>m g. Hole m g \<in> set (segments template) \<longrightarrow> celValue eng env vars (trimSpace g) = Inr (val (trimSpace g))) \<longrightarrow>
        result = renderWith val (segments template))
   \<and> concat (map segmentText (segments template)) = template"
proof (intro conjI allI impI)
  fix result calls val
  assume "evaluateSummaryTemplate eng env template vars = Inr (result, calls)"
    and "\<forall>m g. Hole m g \<in> set (segments template) \<longrightarrow> celValue eng env vars (trimSpace g) = Inr (val (trimSpace g))"
  then show "result = renderWith val (segments template)"
    using replaceSegments_text [of "segments template" eng env vars val] segments_hole
    by (auto simp: evaluateSummaryTemplate_def Let_def case_prod_unfold split: if_splits)
qed (simp_all only: evaluateSummaryTemplate_ok segments_concat)

text \<open>
  A summary template accepted by the admission check \<open>ValidatePolicyExpression\<close> never fails
  to compile when it is evaluated: with an engine that builds a program for every checked expression
  and evaluates it without a run-time error, evaluation returns a summary.\<close>

theorem validated_summary_evaluates:
  assumes "ValidatePolicyExpression eng template SummaryExpression ruleType = None"
    and "\<And>ast. isOk (celProgram eng ast)"
    and "\<And>prg. isOk (fst (celEval eng prg vars))"
  shows "isOk (evaluateSummary eng ruleType template vars)"
proof -
  from assms(1) have env: "celNewEnv eng ruleType = None"
    and v: "validateHoles eng ruleType (findAllTemplates template) = None"
    by (auto simp: ValidatePolicyExpression_def validateSummaryExpression_def MatchExpression_def SummaryExpression_def
        split: if_splits option.splits)
  have "isOk (celValue eng ruleType vars (trimSpace g))" if "Hole m g \<in> set (segments template)" for m g
    using validateHoles_compile [OF v hole_in_findAll [OF that]] assms(2,3)
    by (auto simp: celValue_def isOk_iff) (metis bind_r_simps(2))
  then have "isOk (evaluateSummaryTemplate eng ruleType template vars)"
    by (simp add: evaluateSummaryTemplate_ok)
  then show ?thesis
    by (cases "evaluateSummaryTemplate eng ruleType template vars") (auto simp: evaluateSummary_def env)
qed

text \<open>An engine whose expressions are variable names, to run the definitions on concrete input.\<close>

definition varEngine :: "(string, string) cel_engine" where
  "varEngine = \<lparr>celNewEnv = (\<lambda>_. None),
     celCompile = (\<lambda>_ e. if e = '''' then Inl ''empty'' else Inr e),
     celOutputType = (\<lambda>e. if e = ''true'' then CelBool else CelDyn),
     celProgram = Inr,
     celEval = (\<lambda>p vars. (Inr (if p = ''true'' then VBool True else case map_of vars p of Some v \<Rightarrow> v | None \<Rightarrow> VNull), []))\<rparr>"

theorem validated_summary_evaluates_witness:
  "isOk (evaluateSummary varEngine ''audit'' ''{{ actor }} did it'' [(''actor'', VStr ''ann'')])"
proof (rule validated_summary_evaluates)
  show "ValidatePolicyExpression varEngine ''{{ actor }} did it'' SummaryExpression ''audit'' = None"
    by code_simp
qed (simp_all add: varEngine_def)

theorem summary_template_semantics_witness:
  "evaluateSummaryTemplate varEngine ''audit'' ''{{ actor }} did it'' [(''actor'', VStr ''ann'')]
     = Inr (renderWith (\<lambda>_. VStr ''ann'') (segments ''{{ actor }} did it''), [])"
proof -
  have seg: "segments ''{{ actor }} did it'' = Hole ''{{ actor }}'' ''actor'' # map Lit '' did it''" by code_simp
  have ev: "evaluateSummaryTemplate varEngine ''audit'' ''{{ actor }} did it'' [(''actor'', VStr ''ann'')] = Inr (''ann did it'', [])"
    by code_simp
  have tr: "trimSpace ''actor'' = ''actor''" by code_simp
  have "\<forall>m g. Hole m g \<in> set (segments ''{{ actor }} did it'') \<longrightarrow>
      celValue varEngine ''audit'' [(''actor'', VStr ''ann'')] (trimSpace g) = Inr (VStr ''ann'')"
    by (auto simp: seg tr celValue_def varEngine_def)
  with summary_template_semantics [of varEngine "''audit''" "''{{ actor }} did it''" "[(''actor'', VStr ''ann'')]"] ev
  show ?thesis by fastforce
qed

end
