(* ===== verification/Time_Util.thy ===== *)
theory Time_Util
  imports Api_Types
begin

text \<open>
  Go's RFC 3339 parser as \<open>time.Parse\<close> runs it for the layouts \<open>RFC3339\<close> and
  \<open>RFC3339Nano\<close> (the two accept the same strings), and internal/timeutil. Instants are in
  UTC: \<open>AddDate\<close> is then whole days of 86400 seconds. Machine integers wrap as in Go.
\<close>

section \<open>time.Parse for RFC 3339\<close>

definition digitVal :: "char \<Rightarrow> int" where
  "digitVal c = int (of_char c) - 48"

definition digitsVal :: "string \<Rightarrow> int" where
  "digitsVal s = foldl (\<lambda>acc c. 10 * acc + digitVal c) 0 s"

text \<open>A fixed number of digits at the head of the input, and the rest.\<close>

definition takeDigits :: "nat \<Rightarrow> string \<Rightarrow> (int \<times> string) option" where
  "takeDigits n s =
     (if n \<le> length s \<and> list_all isDigit (take n s)
      then Some (digitsVal (take n s), drop n s) else None)"

text \<open>\<open>getnum(s, false)\<close>: two digits, or one when the second character is no digit.\<close>

definition getnumLoose :: "string \<Rightarrow> (int \<times> string) option" where
  "getnumLoose s =
     (case s of
        [] \<Rightarrow> None
      | c # t \<Rightarrow>
          (if \<not> isDigit c then None
           else (case t of
                   d # u \<Rightarrow> if isDigit d then Some (10 * digitVal c + digitVal d, u) else Some (digitVal c, t)
                 | [] \<Rightarrow> Some (digitVal c, []))))"

definition expectByte :: "char \<Rightarrow> string \<Rightarrow> string option" where
  "expectByte c s = (case s of d # t \<Rightarrow> if d = c then Some t else None | [] \<Rightarrow> None)"

definition guardRange :: "int \<Rightarrow> int \<Rightarrow> int \<Rightarrow> unit option" where
  "guardRange lo hi x = (if lo \<le> x \<and> x \<le> hi then Some () else None)"

text \<open>
  Fraction of a second: a dot or comma followed by digits, truncated to nine of them; absent
  otherwise (\<open>parseNanoseconds\<close>).
\<close>

definition parseFraction :: "string \<Rightarrow> int \<times> string" where
  "parseFraction s =
     (case s of
        c # d # t \<Rightarrow>
          (if (c = CHR ''.'' \<or> c = CHR '','') \<and> isDigit d
           then (let ds = takeWhile isDigit (d # t); rest = dropWhile isDigit (d # t);
                     k = take 9 ds
                 in (digitsVal k * 10 ^ (9 - length k), rest))
           else (0, s))
      | _ \<Rightarrow> (0, s))"

text \<open>The zone: \<open>Z\<close>, or a sign, two digits, a colon and two digits; the offset in seconds.\<close>

definition parseZone :: "string \<Rightarrow> (int \<times> string) option" where
  "parseZone s =
     (case s of
        [] \<Rightarrow> None
      | c # t \<Rightarrow>
          (if c = CHR ''Z'' then Some (0, t)
           else if c = CHR ''+'' \<or> c = CHR ''-''
           then Option.bind (takeDigits 2 t) (\<lambda>(hr, r1).
                  Option.bind (expectByte (CHR '':'') r1) (\<lambda>r2.
                  Option.bind (takeDigits 2 r2) (\<lambda>(mm, r3).
                  Option.bind (guardRange 0 24 hr) (\<lambda>_.
                  Option.bind (guardRange 0 60 mm) (\<lambda>_.
                    Some ((if c = CHR ''+'' then 1 else -1) * ((hr * 60 + mm) * 60), r3))))))
           else None))"

definition isLeap :: "int \<Rightarrow> bool" where
  "isLeap y = (y mod 4 = 0 \<and> (y mod 100 \<noteq> 0 \<or> y mod 400 = 0))"

definition daysIn :: "int \<Rightarrow> int \<Rightarrow> int" where
  "daysIn m y =
     (if m = 2 then (if isLeap y then 29 else 28)
      else if m = 4 \<or> m = 6 \<or> m = 9 \<or> m = 11 then 30 else 31)"

text \<open>Days from 1970-01-01 to a date of the proleptic Gregorian calendar.\<close>

definition daysFromCivil :: "int \<Rightarrow> int \<Rightarrow> int \<Rightarrow> int" where
  "daysFromCivil y m d =
     (let y' = (if m \<le> 2 then y - 1 else y);
          era = y' div 400;
          yoe = y' - era * 400;
          doy = (153 * (m + (if m > 2 then - 3 else 9)) + 2) div 5 + d - 1;
          doe = yoe * 365 + yoe div 4 - yoe div 100 + doy
      in era * 146097 + doe - 719468)"

definition parseRFC3339 :: "string \<Rightarrow> instant option" where
  "parseRFC3339 s =
     Option.bind (takeDigits 4 s) (\<lambda>(year, r). Option.bind (expectByte (CHR ''-'') r) (\<lambda>r.
     Option.bind (takeDigits 2 r) (\<lambda>(month, r). Option.bind (guardRange 1 12 month) (\<lambda>_.
     Option.bind (expectByte (CHR ''-'') r) (\<lambda>r.
     Option.bind (takeDigits 2 r) (\<lambda>(day, r). Option.bind (expectByte (CHR ''T'') r) (\<lambda>r.
     Option.bind (getnumLoose r) (\<lambda>(hh, r). Option.bind (guardRange 0 23 hh) (\<lambda>_.
     Option.bind (expectByte (CHR '':'') r) (\<lambda>r.
     Option.bind (takeDigits 2 r) (\<lambda>(mi, r). Option.bind (guardRange 0 59 mi) (\<lambda>_.
     Option.bind (expectByte (CHR '':'') r) (\<lambda>r.
     Option.bind (takeDigits 2 r) (\<lambda>(ss, r). Option.bind (guardRange 0 59 ss) (\<lambda>_.
     (let (nsec, r) = parseFraction r in
     Option.bind (parseZone r) (\<lambda>(off, r).
     (if r \<noteq> [] then None else
     Option.bind (guardRange 1 (daysIn month year) day) (\<lambda>_.
       Some ((daysFromCivil year month day * 86400 + hh * 3600 + mi * 60 + ss - off) * second + nsec)
     )))))))))))))))))))"

lemma parseRFC3339_needs_digit:
  "s \<noteq> [] \<Longrightarrow> \<not> isDigit (hd s) \<Longrightarrow> parseRFC3339 s = None"
  by (cases s) (auto simp: parseRFC3339_def takeDigits_def)

section \<open>internal/timeutil\<close>

text \<open>
  \<open>fmt.Sscanf(s, "%d", &value)\<close> into an \<open>int\<close>: leading blanks are skipped, an optional
  sign and at least one digit are read, and whatever follows the digits is left unread. A
  value outside 64 bits is an error.
\<close>

definition isBlank :: "char \<Rightarrow> bool" where
  "isBlank c = (c = CHR '' '' \<or> (of_char c :: nat) \<in> {9, 11, 12, 13})"

definition scanInt :: "string \<Rightarrow> int option" where
  "scanInt s =
     (let s1 = dropWhile isBlank s;
          (neg, s2) = (case s1 of
             c # t \<Rightarrow> if c = CHR ''-'' then (True, t) else if c = CHR ''+'' then (False, t) else (False, s1)
           | [] \<Rightarrow> (False, []));
          ds = takeWhile isDigit s2;
          v = (if neg then - digitsVal ds else digitsVal ds)
      in if ds = [] \<or> v < - (2 ^ 63) \<or> 2 ^ 63 \<le> v then None else Some v)"

datatype time_error =
    InvalidTimeFormat
  | FutureTime
  | NotRelative
  | InvalidDuration
  | InvalidDurationValue
  | NegativeDuration
  | InvalidDurationUnit char

text \<open>\<open>t.AddDate(0, 0, days)\<close> in UTC: the second count since year 1 is a 64-bit integer.\<close>

definition addDays :: "instant \<Rightarrow> int \<Rightarrow> instant" where
  "addDays t days =
     (let base = 62135596800
      in (wrap64 (t div second + 86400 * days + base) - base) * second + t mod second)"

definition applyOffset :: "instant \<Rightarrow> string \<Rightarrow> int \<Rightarrow> time_error + instant" where
  "applyOffset t offset sign =
     (if length offset < 2 then Inl InvalidDuration
      else (let unit = last offset; valueStr = butlast offset
            in (case scanInt valueStr of
                  None \<Rightarrow> Inl InvalidDurationValue
                | Some value \<Rightarrow>
                    if value < 0 then Inl NegativeDuration
                    else if unit = CHR ''d'' then Inr (addDays t (wrap64 (sign * value)))
                    else if unit = CHR ''w'' then Inr (addDays t (wrap64 (sign * value * 7)))
                    else if unit = CHR ''h'' then Inr (t + wrap64 (sign * value * hour))
                    else if unit = CHR ''m'' then Inr (t + wrap64 (sign * value * minute))
                    else if unit = CHR ''s'' then Inr (t + wrap64 (sign * value * second))
                    else Inl (InvalidDurationUnit unit))))"

definition ParseRelativeTime :: "string \<Rightarrow> instant \<Rightarrow> time_error + instant" where
  "ParseRelativeTime expr now =
     (if expr = ''now'' then Inr now
      else if \<not> hasPrefix expr ''now-'' then Inl NotRelative
      else applyOffset now (drop 4 expr) (- 1))"

definition ParseFlexibleTime :: "string \<Rightarrow> instant \<Rightarrow> time_error + instant" where
  "ParseFlexibleTime timeStr now =
     bind_r (case parseRFC3339 timeStr of
               Some t \<Rightarrow> Inr t
             | None \<Rightarrow> if hasPrefix timeStr ''now'' then ParseRelativeTime timeStr now
                       else Inl InvalidTimeFormat)
       (\<lambda>parsed. if now < parsed then Inl FutureTime else Inr parsed)"

section \<open>Lemmas\<close>

lemma digitsVal_snoc: "digitsVal (s @ [c]) = 10 * digitsVal s + digitVal c"
  by (simp add: digitsVal_def)

lemma digitVal_char_of: "n < 10 \<Longrightarrow> digitVal (char_of (48 + n)) = int n"
  by (simp add: digitVal_def)

lemma digitsVal_natDigits: "digitsVal (natDigits n) = int n"
proof (induction n rule: natDigits.induct)
  case (1 n)
  show ?case
  proof (cases "n < 10")
    case True
    then show ?thesis
      by (subst natDigits.simps) (simp add: digitsVal_def digitVal_char_of)
  next
    case False
    then have "digitsVal (natDigits n) = 10 * int (n div 10) + int (n mod 10)"
      using "1.IH" [OF False] by (subst natDigits.simps) (simp add: digitsVal_snoc digitVal_char_of)
    moreover have "int n = 10 * int (n div 10) + int (n mod 10)" by presburger
    ultimately show ?thesis by simp
  qed
qed

lemma isDigit_not_blank: "isDigit c \<Longrightarrow> \<not> isBlank c \<and> c \<noteq> CHR ''-'' \<and> c \<noteq> CHR ''+''"
  by (auto simp: isDigit_def isBlank_def)

lemma scanInt_digits:
  assumes "int n < 2 ^ 63" and "g = [] \<or> \<not> isDigit (hd g)"
  shows "scanInt (natDigits n @ g) = Some (int n)"
proof -
  obtain c ds where nd: "natDigits n = c # ds"
    using natDigits_nonempty [of n] by (cases "natDigits n") auto
  have c: "isDigit c" using natDigits_digits [of n] nd by simp
  have tw: "takeWhile isDigit (natDigits n @ g) = natDigits n"
    using natDigits_digits [of n] assms(2) by (cases g) (auto simp: takeWhile_append)
  have dw: "dropWhile isBlank (natDigits n @ g) = natDigits n @ g"
    using nd isDigit_not_blank [OF c] by simp
  show ?thesis
    using assms(1) nd isDigit_not_blank [OF c] tw dw digitsVal_natDigits [of n]
    by (simp add: scanInt_def Let_def)
qed

text \<open>The length of a relative unit in nanoseconds.\<close>

definition unitNs :: "char \<Rightarrow> int option" where
  "unitNs u =
     (if u = CHR ''s'' then Some second else if u = CHR ''m'' then Some minute
      else if u = CHR ''h'' then Some hour else if u = CHR ''d'' then Some (24 * hour)
      else if u = CHR ''w'' then Some (7 * 24 * hour) else None)"

lemma addDays_exact:
  assumes "0 \<le> t" "t < 2 ^ 63" "0 \<le> k" "k * (24 * hour) < 2 ^ 63"
  shows "addDays t (- k) = t - k * (24 * hour)"
proof -
  have k: "86400 * k \<le> 9223372037" using assms(4) by (simp add: duration_defs)
  have s: "0 \<le> t div second" "t div second \<le> 9223372037"
    using assms(1,2) by (simp_all add: second_def pos_imp_zdiv_nonneg_iff)
  from k s assms(3) have w: "wrap64 (t div second + 86400 * - k + 62135596800) = t div second + 86400 * - k + 62135596800"
    by (intro wrap64_id) auto
  have "addDays t (- k) = (t div second) * second + t mod second - 86400 * k * second"
    unfolding addDays_def Let_def w by (simp add: algebra_simps)
  also have "\<dots> = t - k * (24 * hour)" by (simp add: duration_defs)
  finally show ?thesis .
qed

lemma applyOffset_exact:
  assumes "unitNs u = Some ns" "int n * ns < 2 ^ 63" "g = [] \<or> \<not> isDigit (hd g)" "0 \<le> t" "t < 2 ^ 63"
  shows "applyOffset t (natDigits n @ g @ [u]) (- 1) = Inr (t - int n * ns)"
proof -
  have ns: "ns \<in> {second, minute, hour, 24 * hour, 7 * 24 * hour}"
    using assms(1) by (auto simp: unitNs_def split: if_splits)
  then have pos: "1 \<le> ns" by (auto simp: duration_defs)
  have "int n * 1 \<le> int n * ns" using pos by (intro mult_left_mono) auto
  with assms(2) have n: "int n < 2 ^ 63" by simp
  have len: "\<not> length (natDigits n @ g @ [u]) < 2"
    using natDigits_nonempty [of n] by (cases "natDigits n") auto
  have sc: "scanInt (natDigits n @ g) = Some (int n)" by (rule scanInt_digits [OF n assms(3)])
  have wr: "wrap64 (- (int n * ns)) = - (int n * ns)"
  proof (rule wrap64_id)
    show "- (2 ^ 63) \<le> - (int n * ns)" using assms(2) by simp
    have "0 \<le> int n * ns" using pos by simp
    then have "- (int n * ns) \<le> 0" by simp
    also have "(0 :: int) < 2 ^ 63" by simp
    finally show "- (int n * ns) < 2 ^ 63" .
  qed
  have wd: "wrap64 (- int n) = - int n" using n by (intro wrap64_id) auto
  have ww: "ns = 7 * 24 * hour \<Longrightarrow> wrap64 (- (int n * 7)) = - (int n * 7)"
    using assms(2) by (intro wrap64_id) (auto simp: duration_defs)
  have ad: "ns = 24 * hour \<Longrightarrow> addDays t (- int n) = t - int n * ns"
    using addDays_exact [OF assms(4,5), of "int n"] assms(2) by simp
  have aw: "ns = 7 * 24 * hour \<Longrightarrow> addDays t (- (int n * 7)) = t - int n * ns"
    using addDays_exact [OF assms(4,5), of "int n * 7"] assms(2) by (simp add: algebra_simps)
  show ?thesis
    using assms(1) len sc wr wd ww ad aw
    by (auto simp: applyOffset_def Let_def butlast_append unitNs_def split: if_splits)
qed

section \<open>Properties\<close>

text \<open>
  A relative expression \<open>now-<n><unit>\<close> written in decimal is read back exactly: it
  denotes the reference time minus n units, for every unit s, m, h, d, w, as long as the
  offset fits a 64-bit duration.
\<close>

theorem relative_time_roundtrip:
  assumes "unitNs u = Some ns" "int n * ns < 2 ^ 63" "0 \<le> now" "now < 2 ^ 63"
  shows "ParseFlexibleTime (''now-'' @ natDigits n @ [u]) now = Inr (now - int n * ns)"
proof -
  have "0 \<le> int n * ns"
    using assms(1) by (auto simp: unitNs_def duration_defs split: if_splits)
  moreover have "parseRFC3339 (''now-'' @ natDigits n @ [u]) = None"
    by (rule parseRFC3339_needs_digit) (simp_all add: isDigit_def)
  ultimately show ?thesis
    using applyOffset_exact [OF assms(1,2) _ assms(3,4), of "[]"]
    by (simp add: ParseFlexibleTime_def ParseRelativeTime_def hasPrefix_def)
qed

theorem relative_time_roundtrip_witness:
  "ParseFlexibleTime (''now-'' @ natDigits 7 @ [CHR ''d'']) (2000000 * second) = Inr (1395200 * second)"
proof -
  have "unitNs (CHR ''d'') = Some (24 * hour)" by (simp add: unitNs_def)
  then show ?thesis
    using relative_time_roundtrip [of "CHR ''d''" "24 * hour" 7 "2000000 * second"]
    by (simp add: duration_defs)
qed

text \<open>
  No accepted time lies after the reference time, whatever the input: absolute times,
  relative times and relative times whose duration arithmetic wrapped around are all rejected
  when they would be in the future.
\<close>

theorem ParseFlexibleTime_not_future:
  assumes "ParseFlexibleTime s now = Inr t"
  shows "t \<le> now"
  using assms by (auto simp: ParseFlexibleTime_def bind_r_eq_Inr split: if_splits)

theorem ParseFlexibleTime_not_future_witness:
  "ParseFlexibleTime ''1970-01-01T00:00:05Z'' (7 * second) = Inr (5 * second) \<and> 5 * second \<le> 7 * second"
proof -
  have "ParseFlexibleTime ''1970-01-01T00:00:05Z'' (7 * second) = Inr (5 * second)" by code_simp
  with ParseFlexibleTime_not_future [OF this] show ?thesis by simp
qed

text \<open>
  What stands between the number and the unit is ignored: the number is scanned without
  checking that it is followed by the unit, so \<open>now-7d3h\<close> is accepted and means seven hours
  ago, not seven days and three hours.
\<close>

theorem relative_time_ignores_trailing_text:
  assumes "unitNs u = Some ns" "int n * ns < 2 ^ 63" "0 \<le> now" "now < 2 ^ 63"
    and "g \<noteq> []" "\<not> isDigit (hd g)"
  shows "ParseRelativeTime (''now-'' @ natDigits n @ g @ [u]) now
    = ParseRelativeTime (''now-'' @ natDigits n @ [u]) now"
  using applyOffset_exact [OF assms(1,2) _ assms(3,4), of g] applyOffset_exact [OF assms(1,2) _ assms(3,4), of "[]"]
    assms(5,6)
  by (simp add: ParseRelativeTime_def hasPrefix_def)

theorem relative_time_ignores_trailing_text_witness:
  "ParseRelativeTime (''now-'' @ natDigits 7 @ ''d3'' @ ''h'') (100000 * second)
    = ParseRelativeTime (''now-'' @ natDigits 7 @ ''h'') (100000 * second)"
  using relative_time_ignores_trailing_text [of "CHR ''h''" hour 7 "100000 * second" "''d3''"]
  by (simp add: unitNs_def duration_defs isDigit_def)

text \<open>
  The duration arithmetic is not checked for overflow: an offset of \<open>2^51\<close> hours wraps
  to zero, so the expression is accepted and denotes the reference time itself.
\<close>

theorem relative_time_overflow_accepted:
  "ParseFlexibleTime ''now-2251799813685248h'' now = Inr now"
proof -
  have r: "parseRFC3339 ''now-2251799813685248h'' = None"
    by (rule parseRFC3339_needs_digit) (simp_all add: isDigit_def)
  have s: "scanInt ''2251799813685248'' = Some 2251799813685248" by code_simp
  have "ParseRelativeTime ''now-2251799813685248h'' now = Inr now"
    by (simp add: ParseRelativeTime_def hasPrefix_def applyOffset_def Let_def s duration_defs wrap64_def)
  with r show ?thesis by (simp add: ParseFlexibleTime_def hasPrefix_def)
qed

end
