(* ===== verification/Sha256.thy ===== *)
theory Sha256
  imports Prelude "HOL-Library.Word"
begin

unbundle bit_operations_syntax

text \<open>
  SHA-256 (FIPS 180-4) and hexadecimal encoding, the two routines of Go's \<open>crypto/sha256\<close>
  and \<open>encoding/hex\<close> that the service uses to name activities and to fingerprint payloads.
  The functions are executable on byte strings.
\<close>

section \<open>SHA-256\<close>

type_synonym w32 = "32 word"

definition shaK :: "w32 list" where
  "shaK = [
    1116352408, 1899447441, 3049323471, 3921009573, 961987163, 1508970993,
    2453635748, 2870763221, 3624381080, 310598401, 607225278, 1426881987,
    1925078388, 2162078206, 2614888103, 3248222580, 3835390401, 4022224774,
    264347078, 604807628, 770255983, 1249150122, 1555081692, 1996064986,
    2554220882, 2821834349, 2952996808, 3210313671, 3336571891, 3584528711,
    113926993, 338241895, 666307205, 773529912, 1294757372, 1396182291,
    1695183700, 1986661051, 2177026350, 2456956037, 2730485921, 2820302411,
    3259730800, 3345764771, 3516065817, 3600352804, 4094571909, 275423344,
    430227734, 506948616, 659060556, 883997877, 958139571, 1322822218,
    1537002063, 1747873779, 1955562222, 2024104815, 2227730452, 2361852424,
    2428436474, 2756734187, 3204031479, 3329325298]"

definition shaH0 :: "w32 list" where
  "shaH0 = [
    1779033703, 3144134277, 1013904242, 2773480762, 1359893119, 2600822924,
    528734635, 1541459225]"

definition shaCh :: "w32 \<Rightarrow> w32 \<Rightarrow> w32 \<Rightarrow> w32" where
  "shaCh x y z = (x AND y) XOR (NOT x AND z)"

definition shaMaj :: "w32 \<Rightarrow> w32 \<Rightarrow> w32 \<Rightarrow> w32" where
  "shaMaj x y z = (x AND y) XOR (x AND z) XOR (y AND z)"

definition shaSum0 :: "w32 \<Rightarrow> w32" where
  "shaSum0 x = word_rotr 2 x XOR word_rotr 13 x XOR word_rotr 22 x"

definition shaSum1 :: "w32 \<Rightarrow> w32" where
  "shaSum1 x = word_rotr 6 x XOR word_rotr 11 x XOR word_rotr 25 x"

definition shaSig0 :: "w32 \<Rightarrow> w32" where
  "shaSig0 x = word_rotr 7 x XOR word_rotr 18 x XOR drop_bit 3 x"

definition shaSig1 :: "w32 \<Rightarrow> w32" where
  "shaSig1 x = word_rotr 17 x XOR word_rotr 19 x XOR drop_bit 10 x"

text \<open>Big-endian conversion between bytes and words.\<close>

definition bytesToWord :: "string \<Rightarrow> w32" where
  "bytesToWord bs = foldl (\<lambda>acc b. acc * 256 + word_of_int (of_char b)) 0 bs"

definition wordToBytes :: "w32 \<Rightarrow> string" where
  "wordToBytes w = map (\<lambda>i. char_of (uint (drop_bit i w) mod 256)) [24, 16, 8, 0]"

text \<open>Padding: a one bit, zeros up to 56 modulo 64 bytes, the bit length in eight bytes.\<close>

definition be64 :: "nat \<Rightarrow> string" where
  "be64 n = map (\<lambda>i. char_of (int n div 256 ^ i mod 256)) [7, 6, 5, 4, 3, 2, 1, 0]"

definition shaPad :: "string \<Rightarrow> string" where
  "shaPad m =
     (let l = length m
      in m @ [char_of (128 :: nat)] @ replicate ((119 - l mod 64) mod 64) (char_of (0 :: nat)) @ be64 (8 * l))"

fun chunksOf :: "nat \<Rightarrow> 'a list \<Rightarrow> 'a list list" where
  "chunksOf n xs = (if xs = [] \<or> n = 0 then [] else take n xs # chunksOf n (drop n xs))"

declare chunksOf.simps [simp del]

text \<open>The message schedule, newest word first.\<close>

fun shaExtend :: "nat \<Rightarrow> w32 list \<Rightarrow> w32 list" where
  "shaExtend 0 ws = ws"
| "shaExtend (Suc n) ws = shaExtend n ((shaSig1 (ws ! 1) + ws ! 6 + shaSig0 (ws ! 14) + ws ! 15) # ws)"

definition shaRound :: "w32 list \<Rightarrow> w32 \<times> w32 \<Rightarrow> w32 list" where
  "shaRound s kw =
     (case s of
        [a, b, c, d, e, f, g, h] \<Rightarrow>
          (let t1 = h + shaSum1 e + shaCh e f g + fst kw + snd kw;
               t2 = shaSum0 a + shaMaj a b c
           in [t1 + t2, a, b, c, d + t1, e, f, g])
      | _ \<Rightarrow> s)"

definition shaBlock :: "w32 list \<Rightarrow> string \<Rightarrow> w32 list" where
  "shaBlock hs block =
     (let ws = rev (shaExtend 48 (rev (map bytesToWord (chunksOf 4 block))))
      in map2 (+) hs (foldl shaRound hs (zip shaK ws)))"

text \<open>\<open>sha256.Sum256\<close>: the 32 bytes of the digest.\<close>

definition sha256 :: "string \<Rightarrow> string" where
  "sha256 m = concat (map wordToBytes (foldl shaBlock shaH0 (chunksOf 64 (shaPad m))))"

section \<open>encoding/hex\<close>

definition hexDigit :: "nat \<Rightarrow> char" where
  "hexDigit n = (if n < 10 then char_of (48 + n) else char_of (87 + n))"

definition hexEncode :: "string \<Rightarrow> string" where
  "hexEncode bs = concat (map (\<lambda>b. [hexDigit (of_char b div 16), hexDigit (of_char b mod 16)]) bs)"

section \<open>Lemmas\<close>

lemma shaRound_length: "length s = 8 \<Longrightarrow> length (shaRound s kw) = 8"
  by (auto simp: shaRound_def Let_def split: list.splits)

lemma foldl_shaRound_length: "length s = 8 \<Longrightarrow> length (foldl shaRound s kws) = 8"
  by (induction kws arbitrary: s) (simp_all add: shaRound_length)

lemma shaBlock_length: "length hs = 8 \<Longrightarrow> length (shaBlock hs b) = 8"
  by (simp add: shaBlock_def Let_def foldl_shaRound_length)

lemma foldl_shaBlock_length: "length hs = 8 \<Longrightarrow> length (foldl shaBlock hs bs) = 8"
  by (induction bs arbitrary: hs) (simp_all add: shaBlock_length)

lemma length_concat_const: "(\<And>x. x \<in> set xs \<Longrightarrow> length (f x) = k) \<Longrightarrow> length (concat (map f xs)) = k * length xs"
  by (induction xs) auto

lemma sha256_length: "length (sha256 m) = 32"
proof -
  have "length (foldl shaBlock shaH0 (chunksOf 64 (shaPad m))) = 8"
    by (rule foldl_shaBlock_length) (simp add: shaH0_def)
  then show ?thesis
    unfolding sha256_def by (subst length_concat_const [where k = 4]) (simp_all add: wordToBytes_def)
qed

lemma hexEncode_length: "length (hexEncode bs) = 2 * length bs"
  unfolding hexEncode_def by (subst length_concat_const [where k = 2]) simp_all

definition isHex :: "char \<Rightarrow> bool" where
  "isHex c = (let n = of_char c :: nat in (48 \<le> n \<and> n \<le> 57) \<or> (97 \<le> n \<and> n \<le> 102))"

lemma isHex_hexDigit: "n < 16 \<Longrightarrow> isHex (hexDigit n)"
  by (auto simp: isHex_def hexDigit_def Let_def)

lemma hexEncode_chars: "c \<in> set (hexEncode bs) \<Longrightarrow> isHex c"
proof -
  assume "c \<in> set (hexEncode bs)"
  then obtain b :: char where "c = hexDigit (of_char b div 16) \<or> c = hexDigit (of_char b mod 16)"
    by (auto simp: hexEncode_def)
  moreover have "of_char b div 16 < (16 :: nat)"
  proof -
    have "of_char b = (of_char b :: nat) mod 256" by (metis char_of_char of_char_of)
    then have "of_char b < (256 :: nat)" by (metis mod_less_divisor zero_less_numeral)
    then show ?thesis by (intro less_mult_imp_div_less) simp
  qed
  ultimately show "isHex c" by (auto intro: isHex_hexDigit)
qed

end
