(* ===== verification/Activity_Builder.thy ===== *)
theory Activity_Builder
  imports Cel_Env Time_Util Go_Errors Sha256
begin

text \<open>
  internal/processor: classifier.go, utils.go, activity.go and the activity construction of
  event.go. An Activity is built either by \<open>ActivityBuilder\<close> (audit ingest, preview,
  reindexing) or by \<open>EventProcessor.buildActivity\<close> (live events); the lemmas relate the
  two. \<open>time.Now()\<close> is the argument \<open>now\<close>; the kind resolver is API discovery, an
  argument that may be nil.
\<close>

section \<open>classifier.go\<close>

definition ChangeSourceHuman :: string where "ChangeSourceHuman = ''human''"
definition ChangeSourceSystem :: string where "ChangeSourceSystem = ''system''"
definition ActorTypeUser :: string where "ActorTypeUser = ''user''"
definition ActorTypeSystem :: string where "ActorTypeSystem = ''system''"
definition ActorTypeController :: string where "ActorTypeController = ''controller''"

lemmas actor_defs = ChangeSourceHuman_def ChangeSourceSystem_def ActorTypeUser_def ActorTypeSystem_def
  ActorTypeController_def

definition ClassifyChangeSource :: "UserInfo \<Rightarrow> string" where
  "ClassifyChangeSource user =
     (if hasPrefix (userUsername user) ''system:'' then ChangeSourceSystem else ChangeSourceHuman)"

definition ResolveActor :: "UserInfo \<Rightarrow> ActivityActor" where
  "ResolveActor user =
     (let u = userUsername user;
          a0 = (if hasPrefix u ''system:''
                then \<lparr>actorType = ActorTypeSystem, actorName = trimPrefix u ''system:'', actorUID = userUID user, actorEmail = ''''\<rparr>
                else \<lparr>actorType = ActorTypeUser, actorName = u, actorUID = userUID user, actorEmail = ''''\<rparr>);
          a1 = (if containsStr u ''@'' then a0\<lparr>actorEmail := u\<rparr> else a0)
      in if actorName a1 = '''' then a1\<lparr>actorName := ''unknown''\<rparr> else a1)"

definition IsSystemActor :: "ActivityActor \<Rightarrow> bool" where
  "IsSystemActor actor = (actorType actor = ActorTypeSystem)"

definition IsHumanActor :: "ActivityActor \<Rightarrow> bool" where
  "IsHumanActor actor = (actorType actor = ActorTypeUser)"

section \<open>utils.go\<close>

text \<open>\<open>parseAPIGroup\<close> of event.go: the part before the last slash, scanned from the right.\<close>

definition parseAPIGroup :: "string \<Rightarrow> string" where
  "parseAPIGroup apiVersion =
     (case indexByte (rev apiVersion) (CHR ''/'') of
        Some i \<Rightarrow> take (length apiVersion - 1 - i) apiVersion
      | None \<Rightarrow> '''')"

definition resolveKindAndAPIGroup :: "gomap \<Rightarrow> string \<times> string" where
  "resolveKindAndAPIGroup obj =
     (let apiGroup = GetNestedString obj [''apiGroup'']
      in (GetNestedString obj [''kind''],
          if apiGroup = '''' then parseAPIGroup (GetNestedString obj [''apiVersion'']) else apiGroup))"

definition eventAnnotations :: "gomap \<Rightarrow> gomap" where
  "eventAnnotations eventMap =
     (case asMap (map_of eventMap ''metadata'') of
        None \<Rightarrow> []
      | Some metadata \<Rightarrow> (case asMap (map_of metadata ''annotations'') of Some a \<Rightarrow> a | None \<Rightarrow> []))"

definition ExtractTenantFromAnnotations :: "gomap \<Rightarrow> ActivityTenant" where
  "ExtractTenantFromAnnotations eventMap =
     (let annotations = eventAnnotations eventMap;
          scopeT = getStringFromMap annotations ScopeTypeAnnotation;
          scopeN = getStringFromMap annotations ScopeNameAnnotation
      in if scopeT \<noteq> '''' then \<lparr>tenantType = NormalizeTenantType scopeT, tenantName = scopeN\<rparr>
         else \<lparr>tenantType = TenantTypePlatform, tenantName = ''''\<rparr>)"

definition resolveActivityNamespace :: "gomap \<Rightarrow> gomap \<Rightarrow> string" where
  "resolveActivityNamespace eventMap resourceObject =
     (let upstream = getStringFromMap (eventAnnotations eventMap) ScopeNamespaceAnnotation
      in if upstream \<noteq> '''' then upstream else getStringFromMap resourceObject ''namespace'')"

definition ExtractSourceFromAnnotations :: "gomap \<Rightarrow> ActivitySource" where
  "ExtractSourceFromAnnotations eventMap =
     (let annotations = eventAnnotations eventMap
      in \<lparr>srcPlaneType = getStringFromMap annotations SourcePlaneTypeAnnotation,
          srcCluster = getStringFromMap annotations SourceClusterAnnotation,
          srcRegion = getStringFromMap annotations SourceRegionAnnotation,
          srcCity = getStringFromMap annotations SourceCityAnnotation\<rparr>)"

definition ResolveInvolvedObject :: "gomap \<Rightarrow> gomap option" where
  "ResolveInvolvedObject event =
     (case asMap (map_of event ''regarding'') of
        Some regarding \<Rightarrow> Some regarding
      | None \<Rightarrow> asMap (map_of event ''involvedObject''))"

text \<open>Reading a possibly nil object map.\<close>

definition orNilMap :: "gomap option \<Rightarrow> gomap" where
  "orNilMap m = (case m of Some x \<Rightarrow> x | None \<Rightarrow> [])"

definition ResolveRelatedResources :: "gomap \<Rightarrow> ActivityResource list" where
  "ResolveRelatedResources event =
     (case asMap (map_of event ''related'') of
        None \<Rightarrow> []
      | Some related \<Rightarrow>
          (if related = [] then []
           else [\<lparr>resAPIGroup = snd (resolveKindAndAPIGroup related),
                  resAPIVersion = GetNestedString related [''apiVersion''],
                  resKind = fst (resolveKindAndAPIGroup related),
                  resName = GetNestedString related [''name''],
                  resNamespace = GetNestedString related [''namespace''],
                  resUID = GetNestedString related [''uid'']\<rparr>]))"

definition isFederatedSource :: "ActivitySource \<Rightarrow> bool" where
  "isFederatedSource s = (srcPlaneType s \<noteq> '''' \<and> srcCluster s \<noteq> '''')"

definition qualifiedOriginID :: "ActivitySource \<Rightarrow> string \<Rightarrow> string" where
  "qualifiedOriginID s oid = PrefixWithSource (srcPlaneType s) (srcCluster s) oid"

text \<open>One candidate of the timestamp chain: it must be a string, parse and be non-zero.\<close>

definition timeCandidate :: "gomap \<Rightarrow> string \<Rightarrow> instant option" where
  "timeCandidate m key =
     (let ts = getStringFromMap m key
      in if ts = '''' then None
         else (case parseRFC3339 ts of
                 Some t \<Rightarrow> if isZeroTime t then None else Some t
               | None \<Rightarrow> None))"

definition resolveEventTimestamp :: "gomap \<Rightarrow> instant \<Rightarrow> instant" where
  "resolveEventTimestamp event now =
     (case timeCandidate event ''eventTime'' of Some t \<Rightarrow> t | None \<Rightarrow>
     (case timeCandidate event ''lastTimestamp'' of Some t \<Rightarrow> t | None \<Rightarrow>
     (case timeCandidate event ''firstTimestamp'' of Some t \<Rightarrow> t | None \<Rightarrow>
     (case asMap (map_of event ''metadata'') of
        None \<Rightarrow> now
      | Some metadata \<Rightarrow>
          (case timeCandidate metadata ''creationTimestamp'' of Some t \<Rightarrow> t | None \<Rightarrow> now)))))"

definition resolveActorFromEvent :: "gomap \<Rightarrow> ActivityActor" where
  "resolveActorFromEvent event =
     (let r0 = getStringFromMap event ''reportingController'';
          r1 = (if r0 = ''''
                then (case asMap (map_of event ''source'') of
                        Some source \<Rightarrow> getStringFromMap source ''component'' | None \<Rightarrow> r0)
                else r0);
          r2 = (if r1 = '''' then ''unknown'' else r1)
      in \<lparr>actorType = ActorTypeController, actorName = r2, actorUID = '''', actorEmail = ''''\<rparr>)"

definition eventActivityLabels :: "string \<Rightarrow> string \<Rightarrow> string \<Rightarrow> string \<Rightarrow> (string \<times> string) list" where
  "eventActivityLabels changeSource apiGroup kind eventReason =
     [(''activity.miloapis.com/origin-type'', ''event''),
      (''activity.miloapis.com/change-source'', changeSource),
      (''activity.miloapis.com/api-group'', apiGroup),
      (''activity.miloapis.com/resource-kind'', kind),
      (''activity.miloapis.com/event-reason'', eventReason)]"

subsection \<open>ConvertLinks\<close>

type_synonym KindResolver = "string \<Rightarrow> string \<Rightarrow> go_error + string"

text \<open>The body of the loop: one link, with its kind, identity and API version fallbacks.\<close>

definition convertLink :: "KindResolver option \<Rightarrow> Link \<Rightarrow> go_error + ActivityLink" where
  "convertLink resolveKind l =
     (let r = lkResource l;
          kind0 = getStringFromMap r ''kind'';
          apiGroup = getStringFromMap r ''apiGroup'';
          resource = getStringFromMap r ''resource''
      in bind_r
           (if kind0 = '''' \<and> resource \<noteq> ''''
            then (case resolveKind of
                    None \<Rightarrow> Inr kind0
                  | Some rk \<Rightarrow>
                      (case rk apiGroup resource of
                         Inl err \<Rightarrow> Inl (wrapError '''' ErrKindResolution
                           ('': resource '' @ quoteQ resource @ '' in apiGroup '' @ quoteQ apiGroup @ '': '' @ errMsg err))
                       | Inr k \<Rightarrow> Inr k))
            else Inr kind0)
           (\<lambda>kind1.
             (let kind = (if kind1 = '''' then getStringFromMap r ''type'' else kind1);
                  name0 = getStringFromMap r ''name'';
                  name = (if name0 = '''' then GetNestedString r [''metadata'', ''name''] else name0);
                  ns0 = getStringFromMap r ''namespace'';
                  namespace = (if ns0 = '''' then GetNestedString r [''metadata'', ''namespace''] else ns0);
                  uid0 = getStringFromMap r ''uid'';
                  uid = (if uid0 = '''' then GetNestedString r [''metadata'', ''uid''] else uid0);
                  raw = getStringFromMap r ''apiVersion'';
                  (group', version) =
                    (if apiGroup = '''' \<and> raw \<noteq> ''''
                     then (case indexByte raw (CHR ''/'') of
                             Some i \<Rightarrow> (take i raw, drop (Suc i) raw)
                           | None \<Rightarrow> (apiGroup, raw))
                     else (apiGroup, raw))
              in Inr \<lparr>linkMarker = lkMarker l,
                      linkResource = \<lparr>resAPIGroup = group', resAPIVersion = version, resKind = kind,
                                      resName = name, resNamespace = namespace, resUID = uid\<rparr>\<rparr>)))"

fun ConvertLinks :: "KindResolver option \<Rightarrow> Link list \<Rightarrow> go_error + ActivityLink list" where
  "ConvertLinks resolveKind [] = Inr []"
| "ConvertLinks resolveKind (l # ls) =
     bind_r (convertLink resolveKind l) (\<lambda>x.
       bind_r (ConvertLinks resolveKind ls) (\<lambda>xs. Inr (x # xs)))"

section \<open>activity.go\<close>

text \<open>The bytes written to the hash: the four fields with a zero byte between them.\<close>

definition nulByte :: char where "nulByte = char_of (0 :: nat)"

definition activityNamePreimage :: "string \<Rightarrow> string \<Rightarrow> string \<Rightarrow> string \<Rightarrow> string" where
  "activityNamePreimage oType oID apiGroup kind =
     oType @ nulByte # oID @ nulByte # apiGroup @ nulByte # kind"

definition activityName :: "string \<Rightarrow> string \<Rightarrow> string \<Rightarrow> string \<Rightarrow> string" where
  "activityName oType oID apiGroup kind =
     ''act-'' @ take 12 (hexEncode (sha256 (activityNamePreimage oType oID apiGroup kind)))"

record ActivityBuilder =
  bldAPIGroup :: string
  bldKind :: string

text \<open>
  \<open>json.Unmarshal\<close> of the response body into \<open>struct{Metadata struct{Name, UID string}}\<close>: keys
  match without regard to case, \<open>null\<close> leaves a field alone, a value of another type is an
  error, on which both results are empty.
\<close>

fun decodeMetaFields :: "gomap \<Rightarrow> string \<times> string \<Rightarrow> (string \<times> string) option" where
  "decodeMetaFields [] nu = Some nu"
| "decodeMetaFields ((k, v) # m) (n, u) =
     (if toLower k = ''name''
      then (case v of VStr s \<Rightarrow> decodeMetaFields m (s, u) | VNull \<Rightarrow> decodeMetaFields m (n, u) | _ \<Rightarrow> None)
      else if toLower k = ''uid''
      then (case v of VStr s \<Rightarrow> decodeMetaFields m (n, s) | VNull \<Rightarrow> decodeMetaFields m (n, u) | _ \<Rightarrow> None)
      else decodeMetaFields m (n, u))"

fun decodeIdentity :: "gomap \<Rightarrow> string \<times> string \<Rightarrow> (string \<times> string) option" where
  "decodeIdentity [] nu = Some nu"
| "decodeIdentity ((k, v) # m) nu =
     (if toLower k = ''metadata''
      then (case v of
              VMap meta \<Rightarrow> Option.bind (decodeMetaFields meta nu) (\<lambda>nu'. decodeIdentity m nu')
            | VNull \<Rightarrow> decodeIdentity m nu
            | _ \<Rightarrow> None)
      else decodeIdentity m nu)"

definition extractResponseIdentity :: "json_text option \<Rightarrow> string \<times> string" where
  "extractResponseIdentity responseObject =
     (case responseObject of
        Some (JValue (VMap m)) \<Rightarrow> (case decodeIdentity m ('''', '''') of Some nu \<Rightarrow> nu | None \<Rightarrow> ('''', ''''))
      | _ \<Rightarrow> ('''', ''''))"

definition BuildFromAudit ::
  "ActivityBuilder \<Rightarrow> AuditEvent \<Rightarrow> string \<Rightarrow> Link list \<Rightarrow> KindResolver option \<Rightarrow> instant \<Rightarrow> go_error + Activity" where
  "BuildFromAudit b audit summary links resolveKind now =
     (let timestamp = (if isZeroTime (auditReceived audit) then now else auditReceived audit);
          (namespace, refName, apiVersion) =
            (case auditObjectRef audit of
               None \<Rightarrow> ('''', '''', '''')
             | Some ref \<Rightarrow> (objNamespace ref, objName ref, objAPIVersion ref));
          (responseName, resourceUID) = extractResponseIdentity (auditResponseObject audit);
          resourceName = (if refName = '''' then responseName else refName);
          changeSource = ClassifyChangeSource (auditUser audit);
          name = activityName ''audit'' (auditID audit) (bldAPIGroup b) (bldKind b)
      in (case ConvertLinks resolveKind links of
            Inl err \<Rightarrow> Inl (wrapError '''' ErrActivityBuild ('': '' @ errMsg err))
          | Inr activityLinks \<Rightarrow>
              Inr \<lparr>actAPIVersion = schemeGroupVersion, actKind = ''Activity'', actName = name,
                   actNamespace = namespace, actCreationTimestamp = timestamp,
                   actLabels = [(''activity.miloapis.com/origin-type'', ''audit''),
                     (''activity.miloapis.com/change-source'', changeSource),
                     (''activity.miloapis.com/api-group'', bldAPIGroup b),
                     (''activity.miloapis.com/resource-kind'', bldKind b)],
                   actSpec = \<lparr>specSummary = summary, specChangeSource = changeSource,
                     specActor = ResolveActor (auditUser audit),
                     specResource = \<lparr>resAPIGroup = bldAPIGroup b, resAPIVersion = apiVersion, resKind = bldKind b,
                       resName = resourceName, resNamespace = namespace, resUID = resourceUID\<rparr>,
                     specLinks = activityLinks, specRelated = [],
                     specTenant = ExtractTenant (auditUser audit),
                     specOrigin = \<lparr>originType = ''audit'', originID = auditID audit\<rparr>,
                     specSource = None\<rparr>\<rparr>))"

text \<open>The UID of the event itself, empty without a metadata map.\<close>

definition eventUID :: "gomap \<Rightarrow> string" where
  "eventUID eventMap =
     (case asMap (map_of eventMap ''metadata'') of
        Some metadata \<Rightarrow> getStringFromMap metadata ''uid'' | None \<Rightarrow> '''')"

definition BuildFromEvent ::
  "ActivityBuilder \<Rightarrow> gomap \<Rightarrow> string \<Rightarrow> Link list \<Rightarrow> KindResolver option \<Rightarrow> instant \<Rightarrow> go_error + Activity" where
  "BuildFromEvent b eventMap summary links resolveKind now =
     (let source = ExtractSourceFromAnnotations eventMap;
          resourceObject = orNilMap (ResolveInvolvedObject eventMap);
          timestamp = resolveEventTimestamp eventMap now;
          namespace = resolveActivityNamespace eventMap resourceObject;
          (resourceKind, resourceAPIGroup) = resolveKindAndAPIGroup resourceObject;
          changeSource = ChangeSourceSystem;
          oid = qualifiedOriginID source (eventUID eventMap);
          name = activityName ''event'' oid (bldAPIGroup b) (bldKind b)
      in (case ConvertLinks resolveKind links of
            Inl err \<Rightarrow> Inl (wrapError '''' ErrActivityBuild ('': '' @ errMsg err))
          | Inr activityLinks \<Rightarrow>
              Inr \<lparr>actAPIVersion = schemeGroupVersion, actKind = ''Activity'', actName = name,
                   actNamespace = namespace, actCreationTimestamp = timestamp,
                   actLabels = eventActivityLabels changeSource (bldAPIGroup b) (bldKind b)
                     (getStringFromMap eventMap ''reason''),
                   actSpec = \<lparr>specSummary = summary, specChangeSource = changeSource,
                     specActor = resolveActorFromEvent eventMap,
                     specResource = \<lparr>resAPIGroup = resourceAPIGroup,
                       resAPIVersion = GetNestedString resourceObject [''apiVersion''], resKind = resourceKind,
                       resName = GetNestedString resourceObject [''name''], resNamespace = namespace,
                       resUID = GetNestedString resourceObject [''uid'']\<rparr>,
                     specLinks = activityLinks, specRelated = ResolveRelatedResources eventMap,
                     specTenant = ExtractTenantFromAnnotations eventMap,
                     specOrigin = \<lparr>originType = ''event'', originID = oid\<rparr>,
                     specSource = (if source = emptySource then None else Some source)\<rparr>\<rparr>))"

section \<open>event.go: activities of live events\<close>

record MatchedPolicy =
  mpPolicyName :: string
  mpGeneration :: int
  mpAPIGroup :: string
  mpKind :: string
  mpSummary :: string
  mpLinks :: "Link list"

text \<open>The inline link conversion of the live path: no fallbacks and no API version.\<close>

definition liveLink :: "Link \<Rightarrow> ActivityLink" where
  "liveLink l =
     \<lparr>linkMarker = lkMarker l,
      linkResource = \<lparr>resAPIGroup = getStringFromMap (lkResource l) ''apiGroup'', resAPIVersion = '''',
        resKind = getStringFromMap (lkResource l) ''kind'', resName = getStringFromMap (lkResource l) ''name'',
        resNamespace = getStringFromMap (lkResource l) ''namespace'', resUID = getStringFromMap (lkResource l) ''uid''\<rparr>\<rparr>"

definition buildActivity :: "gomap \<Rightarrow> MatchedPolicy \<Rightarrow> string \<Rightarrow> Link list \<Rightarrow> instant \<Rightarrow> Activity" where
  "buildActivity event matched summary links now =
     (let timestamp = resolveEventTimestamp event now;
          source = ExtractSourceFromAnnotations event;
          resourceObject = orNilMap (ResolveInvolvedObject event);
          namespace = resolveActivityNamespace event resourceObject;
          (resourceKind, resourceAPIGroup) = resolveKindAndAPIGroup resourceObject;
          changeSource = ChangeSourceSystem;
          oid = qualifiedOriginID source (eventUID event);
          name = activityName ''event'' oid (mpAPIGroup matched) (mpKind matched)
      in \<lparr>actAPIVersion = schemeGroupVersion, actKind = ''Activity'', actName = name,
          actNamespace = namespace, actCreationTimestamp = timestamp,
          actLabels = eventActivityLabels changeSource (mpAPIGroup matched) (mpKind matched)
            (getStringFromMap event ''reason''),
          actSpec = \<lparr>specSummary = summary, specChangeSource = changeSource,
            specActor = resolveActorFromEvent event,
            specResource = \<lparr>resAPIGroup = resourceAPIGroup,
              resAPIVersion = getStringFromMap resourceObject ''apiVersion'', resKind = resourceKind,
              resName = getStringFromMap resourceObject ''name'', resNamespace = namespace,
              resUID = getStringFromMap resourceObject ''uid''\<rparr>,
            specLinks = map liveLink links, specRelated = ResolveRelatedResources event,
            specTenant = ExtractTenantFromAnnotations event,
            specOrigin = \<lparr>originType = ''event'', originID = oid\<rparr>,
            specSource = (if source = emptySource then None else Some source)\<rparr>\<rparr>)"

text \<open>
  \<open>buildActivitySubject\<close>: the processor and the event processor carry identical copies,
  the prefix being their configured one.
\<close>

definition buildActivitySubject :: "string \<Rightarrow> Activity \<Rightarrow> string" where
  "buildActivitySubject prefix activity =
     (let spec = actSpec activity;
          tType = (if tenantType (specTenant spec) = '''' then ''platform'' else tenantType (specTenant spec));
          tName = (if tenantName (specTenant spec) = '''' then ''_'' else tenantName (specTenant spec));
          apiGroup = (if resAPIGroup (specResource spec) = '''' then ''core'' else resAPIGroup (specResource spec));
          origin = originType (specOrigin spec);
          kind = resKind (specResource spec);
          namespace = (if resNamespace (specResource spec) = '''' then ''_'' else resNamespace (specResource spec))
      in joinStr ''.'' [prefix, tType, tName, apiGroup, origin, kind, namespace, actName activity])"

section \<open>Activity names\<close>

lemma activityNamePreimage_inject:
  assumes "nulByte \<notin> set a1" "nulByte \<notin> set a2" "nulByte \<notin> set b1" "nulByte \<notin> set b2"
    and "nulByte \<notin> set c1" "nulByte \<notin> set c2"
    and "activityNamePreimage a1 b1 c1 d1 = activityNamePreimage a2 b2 c2 d2"
  shows "a1 = a2 \<and> b1 = b2 \<and> c1 = c2 \<and> d1 = d2"
  using assms unfolding activityNamePreimage_def
  by (metis append_sep_inject)

lemma activityName_prefix: "hasPrefix (activityName t i g k) ''act-''"
  by (simp add: activityName_def hasPrefix_def)

lemma activityName_length: "length (activityName t i g k) = 16"
  by (simp add: activityName_def hexEncode_length sha256_length)

text \<open>
  An activity's name is always \<open>act-\<close> followed by exactly twelve lower-case
  hexadecimal digits, whatever bytes the origin identifier, the API group or the kind contain:
  it is a valid Kubernetes object name and a single token of a NATS subject.\<close>

theorem activityName_wellformed:
  "(\<exists>digits. activityName oType oID apiGroup kind = ''act-'' @ digits
      \<and> length digits = 12 \<and> list_all isHex digits)
   \<and> length (activityName oType oID apiGroup kind) = 16
   \<and> splitByte (CHR ''.'') (activityName oType oID apiGroup kind) = [activityName oType oID apiGroup kind]"
proof -
  let ?d = "take 12 (hexEncode (sha256 (activityNamePreimage oType oID apiGroup kind)))"
  have hex: "list_all isHex ?d"
    using hexEncode_chars by (auto simp: list_all_iff dest: in_set_takeD)
  have len: "length ?d = 12"
    by (simp add: hexEncode_length sha256_length)
  have "CHR ''.'' \<notin> set ?d"
    using hex by (auto simp: list_all_iff isHex_def)
  then have "splitByte (CHR ''.'') (activityName oType oID apiGroup kind) = [activityName oType oID apiGroup kind]"
    by (intro splitByte_no_sep) (simp add: activityName_def)
  with hex len show ?thesis
    by (auto simp: activityName_def hexEncode_length sha256_length)
qed

section \<open>Both construction paths\<close>

text \<open>A link whose resource names its own identity: no fallback of \<open>convertLink\<close> applies.\<close>

definition selfDescribed :: "Link \<Rightarrow> bool" where
  "selfDescribed l =
     (getStringFromMap (lkResource l) ''kind'' \<noteq> '''' \<and> getStringFromMap (lkResource l) ''name'' \<noteq> ''''
      \<and> getStringFromMap (lkResource l) ''namespace'' \<noteq> '''' \<and> getStringFromMap (lkResource l) ''uid'' \<noteq> ''''
      \<and> getStringFromMap (lkResource l) ''apiVersion'' = '''')"

lemma convertLink_selfDescribed: "selfDescribed l \<Longrightarrow> convertLink rk l = Inr (liveLink l)"
  by (simp add: convertLink_def liveLink_def selfDescribed_def Let_def)

lemma ConvertLinks_selfDescribed: "list_all selfDescribed ls \<Longrightarrow> ConvertLinks rk ls = Inr (map liveLink ls)"
  by (induction ls) (auto simp: convertLink_selfDescribed)

lemma convertLink_marker: "convertLink rk l = Inr x \<Longrightarrow> linkMarker x = lkMarker l"
  by (auto simp: convertLink_def bind_r_eq_Inr Let_def case_prod_unfold)

lemma ConvertLinks_length: "ConvertLinks rk ls = Inr als \<Longrightarrow> map linkMarker als = map lkMarker ls"
proof (induction ls arbitrary: als)
  case Nil
  then show ?case by simp
next
  case (Cons l ls)
  from Cons.prems obtain x xs where "convertLink rk l = Inr x" "ConvertLinks rk ls = Inr xs" "als = x # xs"
    by (auto simp: bind_r_eq_Inr)
  with Cons.IH convertLink_marker show ?case by simp
qed

lemma BuildFromEvent_live:
  assumes "ConvertLinks rk links = Inr als" "bldAPIGroup b = mpAPIGroup m" "bldKind b = mpKind m"
  shows "BuildFromEvent b ev summary links rk now =
    Inr ((buildActivity ev m summary links now)
      \<lparr>actSpec := (actSpec (buildActivity ev m summary links now))\<lparr>specLinks := als\<rparr>\<rparr>)"
  using assms by (simp add: BuildFromEvent_def buildActivity_def Let_def split: prod.splits)

text \<open>
  C33: an event replayed through \<open>ActivityBuilder.BuildFromEvent\<close> (preview, reindexing) yields
  the activity that live processing built for the same policy, in every field but the links;
  when the links carry their own identity the two activities are equal.\<close>

theorem replayed_event_equals_live:
  assumes "ConvertLinks rk links = Inr als"
  shows "\<exists>a. BuildFromEvent \<lparr>bldAPIGroup = mpAPIGroup m, bldKind = mpKind m\<rparr> ev summary links rk now = Inr a
    \<and> a\<lparr>actSpec := (actSpec a)\<lparr>specLinks := []\<rparr>\<rparr>
        = (buildActivity ev m summary links now)
            \<lparr>actSpec := (actSpec (buildActivity ev m summary links now))\<lparr>specLinks := []\<rparr>\<rparr>
    \<and> map linkMarker (specLinks (actSpec a)) = map lkMarker links
    \<and> (list_all selfDescribed links \<longrightarrow> a = buildActivity ev m summary links now)"
proof -
  let ?live = "buildActivity ev m summary links now"
  have b: "BuildFromEvent \<lparr>bldAPIGroup = mpAPIGroup m, bldKind = mpKind m\<rparr> ev summary links rk now
      = Inr (?live\<lparr>actSpec := (actSpec ?live)\<lparr>specLinks := als\<rparr>\<rparr>)"
    using assms by (simp add: BuildFromEvent_live)
  have "?live\<lparr>actSpec := (actSpec ?live)\<lparr>specLinks := als\<rparr>\<rparr> = ?live" if "list_all selfDescribed links"
    using ConvertLinks_selfDescribed [OF that, of rk] assms
    by (simp add: buildActivity_def Let_def split: prod.splits)
  with b ConvertLinks_length [OF assms] show ?thesis by simp
qed

theorem replayed_event_equals_live_witness:
  "BuildFromEvent \<lparr>bldAPIGroup = ''apps'', bldKind = ''Deployment''\<rparr>
     [(''reason'', VStr ''Scaled'')] ''scaled'' [] None 5 =
   Inr (buildActivity [(''reason'', VStr ''Scaled'')]
     \<lparr>mpPolicyName = ''p'', mpGeneration = 1, mpAPIGroup = ''apps'', mpKind = ''Deployment'', mpSummary = ''scaled'', mpLinks = []\<rparr>
     ''scaled'' [] 5)"
  using replayed_event_equals_live [of None "[]" "[]"
    "\<lparr>mpPolicyName = ''p'', mpGeneration = 1, mpAPIGroup = ''apps'', mpKind = ''Deployment'', mpSummary = ''scaled'', mpLinks = []\<rparr>"
    "[(''reason'', VStr ''Scaled'')]" "''scaled''" 5]
  by simp

text \<open>
  A link that names its target only by \<open>metadata\<close> loses its name on the live path, while
  the builder resolves it: the two paths differ on such links.\<close>

theorem live_link_drops_metadata_identity:
  "let l = \<lparr>lkMarker = ''pod a'', lkResource = [(''kind'', VStr ''Pod''), (''metadata'', VMap [(''name'', VStr ''a'')])]\<rparr>
   in resName (linkResource (liveLink l)) = ''''
      \<and> (\<exists>x. convertLink None l = Inr x \<and> resName (linkResource x) = ''a'')"
  by (simp add: liveLink_def convertLink_def getStringFromMap_def GetNestedString_def)

section \<open>Identity of event activities\<close>

lemma buildActivity_name:
  "actName (buildActivity ev m summary links now) =
     activityName ''event'' (originID (specOrigin (actSpec (buildActivity ev m summary links now)))) (mpAPIGroup m) (mpKind m)"
  by (simp add: buildActivity_def Let_def case_prod_unfold)

lemma buildActivity_origin:
  "specOrigin (actSpec (buildActivity ev m summary links now)) =
     \<lparr>originType = ''event'', originID = qualifiedOriginID (ExtractSourceFromAnnotations ev) (eventUID ev)\<rparr>"
  by (simp add: buildActivity_def Let_def case_prod_unfold)

text \<open>
  The name of an activity is a function of its recorded origin and of the policy's resource
  only. A redelivered or replayed event gets the same name and origin whatever the clock, the
  summary and the links of the new attempt are, so the deduplication of the stream and the replacing
  merge of the store see one record.\<close>

theorem activity_name_stable_under_redelivery:
  assumes "mpAPIGroup m1 = mpAPIGroup m2" "mpKind m1 = mpKind m2"
  shows "actName (buildActivity ev m1 s1 l1 now1) = actName (buildActivity ev m2 s2 l2 now2)
    \<and> specOrigin (actSpec (buildActivity ev m1 s1 l1 now1)) = specOrigin (actSpec (buildActivity ev m2 s2 l2 now2))
    \<and> actName (buildActivity ev m1 s1 l1 now1)
        = activityName ''event'' (originID (specOrigin (actSpec (buildActivity ev m2 s2 l2 now2)))) (mpAPIGroup m2) (mpKind m2)"
  using assms by (simp only: buildActivity_name buildActivity_origin)

theorem activity_name_stable_under_redelivery_witness:
  "let m = \<lparr>mpPolicyName = ''p'', mpGeneration = 1, mpAPIGroup = ''apps'', mpKind = ''Deployment'', mpSummary = '''', mpLinks = []\<rparr>
   in actName (buildActivity [] m ''a'' [] 1) = actName (buildActivity [] (m\<lparr>mpGeneration := 2\<rparr>) ''b'' [] 2)"
  unfolding Let_def
  by (rule activity_name_stable_under_redelivery [THEN conjunct1]) simp_all

text \<open>
  Events of two federated sources whose plane types and cluster names contain no slash
  (a valid cluster name never does) have equal activity origins exactly when plane, cluster and
  event UID agree: equal UIDs in two clusters never merge into one activity origin.\<close>

theorem federated_origins_distinct:
  assumes "isFederatedSource (ExtractSourceFromAnnotations e1)" "isFederatedSource (ExtractSourceFromAnnotations e2)"
    and "CHR ''/'' \<notin> set (srcPlaneType (ExtractSourceFromAnnotations e1))"
    and "CHR ''/'' \<notin> set (srcPlaneType (ExtractSourceFromAnnotations e2))"
    and "ValidClusterName (srcCluster (ExtractSourceFromAnnotations e1))"
    and "ValidClusterName (srcCluster (ExtractSourceFromAnnotations e2))"
  shows "originID (specOrigin (actSpec (buildActivity e1 m1 s1 l1 t1))) = originID (specOrigin (actSpec (buildActivity e2 m2 s2 l2 t2)))
    \<longleftrightarrow> srcPlaneType (ExtractSourceFromAnnotations e1) = srcPlaneType (ExtractSourceFromAnnotations e2)
       \<and> srcCluster (ExtractSourceFromAnnotations e1) = srcCluster (ExtractSourceFromAnnotations e2)
       \<and> eventUID e1 = eventUID e2"
  using assms ValidClusterName_clean(2)
  by (simp add: buildActivity_origin qualifiedOriginID_def isFederatedSource_def PrefixWithSource_eq_iff)

definition exampleFederatedEvent :: "string \<Rightarrow> gomap" where
  "exampleFederatedEvent cluster =
     [(''metadata'', VMap [(''uid'', VStr ''u1''),
        (''annotations'', VMap [(''activity.miloapis.com/source-plane-type'', VStr ''edge''),
                               (''activity.miloapis.com/source-cluster'', VStr cluster)])])]"

lemma exampleFederatedEvent_source:
  "ExtractSourceFromAnnotations (exampleFederatedEvent c) =
     \<lparr>srcPlaneType = ''edge'', srcCluster = c, srcRegion = '''', srcCity = ''''\<rparr>"
  by (simp add: exampleFederatedEvent_def ExtractSourceFromAnnotations_def eventAnnotations_def
      getStringFromMap_def annotation_defs Let_def)

theorem federated_origins_distinct_witness:
  "let m = \<lparr>mpPolicyName = ''p'', mpGeneration = 1, mpAPIGroup = ''apps'', mpKind = ''Deployment'', mpSummary = '''', mpLinks = []\<rparr>
   in originID (specOrigin (actSpec (buildActivity (exampleFederatedEvent ''us-1'') m '''' [] 0)))
      \<noteq> originID (specOrigin (actSpec (buildActivity (exampleFederatedEvent ''us-2'') m '''' [] 0)))"
proof -
  have v: "ValidClusterName ''us-1''" "ValidClusterName ''us-2''"
    by (simp_all add: ValidClusterName_def isAlnumLower_def)
  show ?thesis
    unfolding Let_def
    by (subst federated_origins_distinct)
      (simp_all add: exampleFederatedEvent_source isFederatedSource_def v)
qed

section \<open>Actors and timestamps\<close>

text \<open>
  The change source and the actor of an audited request agree: the request is classified
  as a system change exactly when its actor is a system actor, every actor has a non-empty name, and
  an email is recorded only as the user name itself.\<close>

theorem change_source_agrees_with_actor:
  "(ClassifyChangeSource u = ChangeSourceSystem \<longleftrightarrow> IsSystemActor (ResolveActor u))
   \<and> (ClassifyChangeSource u = ChangeSourceHuman \<longleftrightarrow> IsHumanActor (ResolveActor u))
   \<and> actorName (ResolveActor u) \<noteq> '''' \<and> actorEmail (ResolveActor u) \<in> {'''', userUsername u}
   \<and> actorUID (ResolveActor u) = userUID u"
  by (auto simp: ClassifyChangeSource_def ResolveActor_def IsSystemActor_def IsHumanActor_def actor_defs Let_def)

lemma timeCandidate_nonzero: "timeCandidate m k = Some t \<Longrightarrow> t \<noteq> zeroTime"
  by (auto simp: timeCandidate_def isZeroTime_def Let_def split: if_splits option.splits)

text \<open>
  An event activity is never stamped with the zero time, and its time depends on the clock
  only when no timestamp field of the event holds a parseable, non-zero time.\<close>

theorem event_timestamp_never_zero:
  assumes "now \<noteq> zeroTime"
  shows "resolveEventTimestamp ev now \<noteq> zeroTime \<and>
    (\<forall>k \<in> {''eventTime'', ''lastTimestamp'', ''firstTimestamp''}.
       timeCandidate ev k \<noteq> None \<longrightarrow> (\<forall>now'. resolveEventTimestamp ev now' = resolveEventTimestamp ev now)) \<and>
    (\<forall>t. timeCandidate ev ''eventTime'' = Some t \<longrightarrow> resolveEventTimestamp ev now = t)"
  using assms
  by (auto simp: resolveEventTimestamp_def dest: timeCandidate_nonzero split: option.splits)

theorem event_timestamp_never_zero_witness:
  "resolveEventTimestamp [(''eventTime'', VTime 7)] 12 = 12 \<and> resolveEventTimestamp [(''eventTime'', VTime 7)] 12 \<noteq> zeroTime"
  using event_timestamp_never_zero [of 12 "[(''eventTime'', VTime 7)]"]
  by (simp add: zeroTime_def resolveEventTimestamp_def timeCandidate_def getStringFromMap_def second_def)

end
