(* ===== verification/Sql_Filter.thy ===== *)
theory Sql_Filter
  imports Cel_Policy Activity_Builder
begin

text \<open>
  internal/cel: cel.go, filter.go, activity_filter.go and errors.go, the filter expressions of the
  query API. A filter is compiled by cel-go (a parameter that yields the checked syntax tree and its
  type), its field accesses are validated, and the tree is converted to a ClickHouse condition
  whose literals are query parameters. The two interfaces \<open>FieldValidator\<close> and \<open>FieldMapper\<close> are a
  function and a record of functions; audit logs and activities implement both.
\<close>

section \<open>Syntax trees\<close>

datatype cconst =
    KString string | KInt int | KUint int | KDouble string | KBool bool | KOther string

text \<open>\<open>expr.Expr\<close> of the CEL protocol: \<open>ESelect\<close> has an operand and a field, \<open>ECall\<close> a target (for
  method calls), a function and its arguments.\<close>

datatype cexpr =
    EConst cconst
  | EIdent string
  | ESelect "cexpr option" string
  | ECall "cexpr option" string "cexpr list"
  | EList "cexpr list"
  | EStruct "cexpr list"
  | EComprehension cexpr cexpr cexpr cexpr cexpr
  | EUnset

definition GetIdentExpr :: "cexpr option \<Rightarrow> string option" where
  "GetIdentExpr e = (case e of Some (EIdent n) \<Rightarrow> Some n | _ \<Rightarrow> None)"

definition GetSelectExpr :: "cexpr option \<Rightarrow> (cexpr option \<times> string) option" where
  "GetSelectExpr e = (case e of Some (ESelect opd f) \<Rightarrow> Some (opd, f) | _ \<Rightarrow> None)"

section \<open>cel.go: validation\<close>

text \<open>\<open>ValidateSelectExpr\<close>: the operand and the field; \<open>None\<close> is the nil error.\<close>

type_synonym FieldValidator = "cexpr option \<Rightarrow> string \<Rightarrow> string option"

definition orElse :: "string option \<Rightarrow> string option \<Rightarrow> string option" where
  "orElse a b = (case a of None \<Rightarrow> b | Some e \<Rightarrow> Some e)"

lemma orElse_None [simp]: "orElse a b = None \<longleftrightarrow> a = None \<and> b = None"
  by (simp add: orElse_def split: option.splits)

fun ValidateFieldAccess :: "FieldValidator \<Rightarrow> cexpr \<Rightarrow> string option"
  and validateOpt :: "FieldValidator \<Rightarrow> cexpr option \<Rightarrow> string option"
  and validateAll :: "FieldValidator \<Rightarrow> cexpr list \<Rightarrow> string option" where
  "ValidateFieldAccess v (ESelect opd f) = orElse (v opd f) (validateOpt v opd)"
| "ValidateFieldAccess v (ECall target fn args) = orElse (validateOpt v target) (validateAll v args)"
| "ValidateFieldAccess v (EList es) = validateAll v es"
| "ValidateFieldAccess v (EStruct es) = validateAll v es"
| "ValidateFieldAccess v (EComprehension r i c s res) =
     orElse (ValidateFieldAccess v r) (orElse (ValidateFieldAccess v i) (orElse (ValidateFieldAccess v c)
       (orElse (ValidateFieldAccess v s) (ValidateFieldAccess v res))))"
| "ValidateFieldAccess v (EConst _) = None"
| "ValidateFieldAccess v (EIdent _) = None"
| "ValidateFieldAccess v EUnset = None"
| "validateOpt v None = None"
| "validateOpt v (Some e) = ValidateFieldAccess v e"
| "validateAll v [] = None"
| "validateAll v (e # es) = orElse (ValidateFieldAccess v e) (validateAll v es)"

section \<open>cel.go: conversion\<close>

text \<open>Indexing missing arguments panics in the source; a checked tree never lacks them.\<close>

datatype sql_error = SqlError string | SqlPanic

datatype sql_arg = AString string | AInt int | AUint int | ADouble string | ATime instant | AStrings "string list"

record SqlState =
  sqArgs :: "sql_arg list"
  sqIndex :: nat

definition NewBaseSQLConverter :: SqlState where
  "NewBaseSQLConverter = \<lparr>sqArgs = [], sqIndex = 1\<rparr>"

text \<open>The mapper interface; its optional array extension is the last field.\<close>

record FieldMapper =
  MapIdentExpr :: "string \<Rightarrow> string + string"
  MapSelectExpr :: "cexpr option \<Rightarrow> string \<Rightarrow> string + string"
  MapArraySelectExpr :: "(cexpr option \<Rightarrow> string \<Rightarrow> string option) option"

definition placeholder :: "nat \<Rightarrow> string" where
  "placeholder i = ''{arg'' @ fmtInt (int i) @ ''}''"

definition addArg :: "sql_arg \<Rightarrow> SqlState \<Rightarrow> string \<times> SqlState" where
  "addArg v st = (placeholder (sqIndex st), st\<lparr>sqArgs := sqArgs st @ [v], sqIndex := Suc (sqIndex st)\<rparr>)"

type_synonym conv = "SqlState \<Rightarrow> sql_error + (string \<times> SqlState)"

definition convertConstExpr :: "cconst \<Rightarrow> conv" where
  "convertConstExpr k st =
     (case k of
        KString s \<Rightarrow> Inr (addArg (AString s) st)
      | KInt n \<Rightarrow> Inr (addArg (AInt n) st)
      | KUint n \<Rightarrow> Inr (addArg (AUint n) st)
      | KDouble x \<Rightarrow> Inr (addArg (ADouble x) st)
      | KBool b \<Rightarrow> Inr (if b then ''1'' else ''0'', st)
      | KOther t \<Rightarrow> Inl (SqlError (''unsupported constant type: '' @ t)))"

definition liftMap :: "string + string \<Rightarrow> conv" where
  "liftMap r st = (case r of Inl e \<Rightarrow> Inl (SqlError e) | Inr c \<Rightarrow> Inr (c, st))"

text \<open>Two subexpressions in order, their texts combined.\<close>

definition both :: "conv \<Rightarrow> conv \<Rightarrow> (string \<Rightarrow> string \<Rightarrow> string) \<Rightarrow> conv" where
  "both f g h st = bind_r (f st) (\<lambda>(l, st1). bind_r (g st1) (\<lambda>(r, st2). Inr (h l r, st2)))"

text \<open>The text between the operands of a binary operator.\<close>

definition binaryOp :: "string \<Rightarrow> string option" where
  "binaryOp fn =
     (if fn = ''_==_'' then Some ''='' else if fn = ''_!=_'' then Some ''!='' else if fn = ''_>=_'' then Some ''>=''
      else if fn = ''_<=_'' then Some ''<='' else if fn = ''_>_'' then Some ''>'' else if fn = ''_<_'' then Some ''<'' else None)"

definition arrayColumn :: "FieldMapper \<Rightarrow> cexpr \<Rightarrow> string option" where
  "arrayColumn m e =
     (case GetSelectExpr (Some e) of
        None \<Rightarrow> None
      | Some (opd, f) \<Rightarrow> (case MapArraySelectExpr m of None \<Rightarrow> None | Some am \<Rightarrow> am opd f))"

text \<open>A \<open>timestamp\<close> call on a non-empty string literal, the only supported form.\<close>

definition convertTimestamp :: "cexpr list \<Rightarrow> conv" where
  "convertTimestamp args st =
     (case args of
        [EConst (KString s)] \<Rightarrow>
          if s = '''' then Inl (SqlError ''unsupported CEL function: timestamp'')
          else (case parseRFC3339 s of
                  None \<Rightarrow> Inl (SqlError ''invalid timestamp format'')
                | Some t \<Rightarrow> Inr (addArg (ATime t) st))
      | _ \<Rightarrow> Inl (SqlError ''unsupported CEL function: timestamp''))"

definition binText :: "string \<Rightarrow> string \<Rightarrow> string \<Rightarrow> string" where
  "binText op l r = l @ '' '' @ op @ '' '' @ r"

text \<open>
  \<open>ConvertExpr\<close> with \<open>convertCallExpr\<close> and \<open>convertListExpr\<close>. An array column on the right of \<open>in\<close>
  becomes \<open>has\<close>; the string methods need a target.
\<close>

fun ConvertExpr :: "FieldMapper \<Rightarrow> cexpr \<Rightarrow> conv"
  and convertArgs :: "FieldMapper \<Rightarrow> cexpr list \<Rightarrow> SqlState \<Rightarrow> sql_error + (string list \<times> SqlState)" where
  "ConvertExpr m (EConst k) st = convertConstExpr k st"
| "ConvertExpr m (EIdent n) st = liftMap (MapIdentExpr m n) st"
| "ConvertExpr m (ESelect opd f) st = liftMap (MapSelectExpr m opd f) st"
| "ConvertExpr m (EList es) st =
     bind_r (convertArgs m es st) (\<lambda>(xs, st'). Inr (''['' @ joinStr '', '' xs @ '']'', st'))"
| "ConvertExpr m (ECall target fn args) st =
     (if fn = ''!_''
      then (case args of
              [] \<Rightarrow> Inl SqlPanic
            | a # _ \<Rightarrow> bind_r (ConvertExpr m a st) (\<lambda>(x, st1). Inr (''NOT ('' @ x @ '')'', st1)))
      else if binaryOp fn \<noteq> None \<or> fn = ''_&&_'' \<or> fn = ''_||_'' \<or> fn = ''@in''
      then (case args of
              a # b # _ \<Rightarrow>
                if fn = ''_&&_'' then both (ConvertExpr m a) (ConvertExpr m b) (\<lambda>l r. ''('' @ binText ''AND'' l r @ '')'') st
                else if fn = ''_||_'' then both (ConvertExpr m a) (ConvertExpr m b) (\<lambda>l r. ''('' @ binText ''OR'' l r @ '')'') st
                else if fn = ''@in''
                then (case arrayColumn m b of
                        Some column \<Rightarrow> bind_r (ConvertExpr m a st) (\<lambda>(l, st1). Inr (''has('' @ column @ '', '' @ l @ '')'', st1))
                      | None \<Rightarrow> both (ConvertExpr m a) (ConvertExpr m b) (binText ''IN'') st)
                else both (ConvertExpr m a) (ConvertExpr m b) (binText (the (binaryOp fn))) st
            | [a] \<Rightarrow> bind_r (ConvertExpr m a st) (\<lambda>_. Inl SqlPanic)
            | [] \<Rightarrow> Inl SqlPanic)
      else if fn = ''startsWith'' \<or> fn = ''endsWith'' \<or> fn = ''contains''
      then (case target of
              None \<Rightarrow> Inl (SqlError (''unsupported CEL function: '' @ fn))
            | Some t \<Rightarrow>
                (case args of
                   [] \<Rightarrow> bind_r (ConvertExpr m t st) (\<lambda>_. Inl SqlPanic)
                 | a # _ \<Rightarrow>
                     both (ConvertExpr m t) (ConvertExpr m a)
                       (\<lambda>x y. if fn = ''contains'' then ''position('' @ x @ '', '' @ y @ '') > 0'' else fn @ ''('' @ x @ '', '' @ y @ '')'') st))
      else if fn = ''timestamp'' then convertTimestamp args st
      else Inl (SqlError (''unsupported CEL function: '' @ fn)))"
| "ConvertExpr m (EStruct es) st = Inl (SqlError ''unsupported expression type: *expr.Expr_StructExpr'')"
| "ConvertExpr m (EComprehension a b c d e) st = Inl (SqlError ''unsupported expression type: *expr.Expr_ComprehensionExpr'')"
| "ConvertExpr m EUnset st = Inl (SqlError ''unsupported expression type: <nil>'')"
| "convertArgs m [] st = Inr ([], st)"
| "convertArgs m (e # es) st =
     bind_r (ConvertExpr m e st) (\<lambda>(x, st1). bind_r (convertArgs m es st1) (\<lambda>(xs, st2). Inr (x # xs, st2)))"

section \<open>filter.go: audit logs\<close>

definition validFields :: "(string \<times> string list) list" where
  "validFields =
     [(''objectRef'', [''apiGroup'', ''namespace'', ''resource'', ''name'']),
      (''user'', [''username'', ''uid'']),
      (''responseStatus'', [''code''])]"

text \<open>The available fields are listed in the order of the table; Go's map order is unspecified.\<close>

definition AuditLogFieldValidator :: FieldValidator where
  "AuditLogFieldValidator opd field =
     (case GetIdentExpr opd of
        None \<Rightarrow> None
      | Some baseObject \<Rightarrow>
          (case map_of validFields baseObject of
             None \<Rightarrow> None
           | Some allowed \<Rightarrow>
               if field \<in> set allowed then None
               else Some (''field '' @ [CHR 0x27] @ baseObject @ ''.'' @ field @ [CHR 0x27]
                 @ '' is not available for filtering. Available fields for '' @ baseObject @ '': ''
                 @ ''['' @ joinStr '' '' (map (\<lambda>f. baseObject @ ''.'' @ f) allowed) @ '']'')))"

definition notAvailable :: "string \<Rightarrow> string" where
  "notAvailable path = ''field '' @ [CHR 0x27] @ path @ [CHR 0x27] @ '' is not available for filtering''"

definition auditMapIdentExpr :: "string \<Rightarrow> string + string" where
  "auditMapIdentExpr name =
     (if name = ''auditID'' then Inr ''audit_id''
      else if name = ''verb'' then Inr ''verb''
      else if name = ''requestReceivedTimestamp'' then Inr ''timestamp''
      else if name \<in> {''objectRef'', ''user'', ''responseStatus''}
      then Inl (''field '' @ [CHR 0x27] @ name @ [CHR 0x27]
        @ '' must be accessed with dot notation (e.g., objectRef.namespace, user.username, responseStatus.code)'')
      else Inl (notAvailable name))"

definition auditMapSelectExpr :: "cexpr option \<Rightarrow> string \<Rightarrow> string + string" where
  "auditMapSelectExpr opd field =
     (if opd = None then Inl ''select expression missing operand''
      else (case GetIdentExpr opd of
              None \<Rightarrow> Inl ''select expression operand must be an identifier''
            | Some base \<Rightarrow>
                if base = ''objectRef'' \<and> field = ''namespace'' then Inr ''namespace''
                else if base = ''objectRef'' \<and> field = ''resource'' then Inr ''resource''
                else if base = ''objectRef'' \<and> field = ''name'' then Inr ''resource_name''
                else if base = ''objectRef'' \<and> field = ''apiGroup'' then Inr ''api_group''
                else if base = ''user'' \<and> field = ''username'' then Inr ''user''
                else if base = ''user'' \<and> field = ''uid'' then Inr ''user_uid''
                else if base = ''responseStatus'' \<and> field = ''code'' then Inr ''status_code''
                else Inl (notAvailable (base @ ''.'' @ field))))"

definition AuditLogFieldMapper :: FieldMapper where
  "AuditLogFieldMapper = \<lparr>MapIdentExpr = auditMapIdentExpr, MapSelectExpr = auditMapSelectExpr, MapArraySelectExpr = None\<rparr>"

section \<open>activity_filter.go\<close>

definition activityValidFields :: "(string \<times> string list) list" where
  "activityValidFields =
     [(''spec'', [''changeSource'', ''summary'', ''relatedUIDs'', ''actor'', ''resource'', ''origin'', ''source'']),
      (''spec.actor'', [''name'', ''type'', ''uid'']),
      (''spec.resource'', [''apiGroup'', ''kind'', ''name'', ''namespace'', ''uid'']),
      (''spec.origin'', [''type'']),
      (''spec.source'', [''planeType'', ''cluster'', ''region'', ''city'']),
      (''metadata'', [''namespace'', ''name''])]"

definition checkField :: "string \<Rightarrow> string \<Rightarrow> string option" where
  "checkField path field =
     (case map_of activityValidFields path of
        None \<Rightarrow> None
      | Some allowed \<Rightarrow> if field \<in> set allowed then None else Some (notAvailable (path @ ''.'' @ field)))"

definition ActivityFieldValidator :: FieldValidator where
  "ActivityFieldValidator opd field =
     (case GetSelectExpr opd of
        Some (inner, parentField) \<Rightarrow>
          (case GetIdentExpr inner of
             Some base \<Rightarrow> checkField (base @ ''.'' @ parentField) field
           | None \<Rightarrow> None)
      | None \<Rightarrow>
          (case GetIdentExpr opd of
             Some base \<Rightarrow> checkField base field
           | None \<Rightarrow> None))"

definition activityMapIdentExpr :: "string \<Rightarrow> string + string" where
  "activityMapIdentExpr name =
     (if name \<in> {''spec'', ''metadata''}
      then Inl (''field '' @ [CHR 0x27] @ name @ [CHR 0x27]
        @ '' must be accessed with dot notation (e.g., spec.changeSource, metadata.namespace)'')
      else Inl (notAvailable name))"

definition mapNestedField :: "string \<Rightarrow> string \<Rightarrow> string \<Rightarrow> string + string" where
  "mapNestedField base parentField field =
     (if base \<noteq> ''spec'' then Inl (notAvailable (base @ ''.'' @ parentField @ ''.'' @ field))
      else if parentField = ''actor'' \<and> field = ''name'' then Inr ''actor_name''
      else if parentField = ''actor'' \<and> field = ''type'' then Inr ''actor_type''
      else if parentField = ''actor'' \<and> field = ''uid'' then Inr ''actor_uid''
      else if parentField = ''resource'' \<and> field = ''apiGroup'' then Inr ''api_group''
      else if parentField = ''resource'' \<and> field = ''kind'' then Inr ''resource_kind''
      else if parentField = ''resource'' \<and> field = ''name'' then Inr ''resource_name''
      else if parentField = ''resource'' \<and> field = ''namespace'' then Inr ''resource_namespace''
      else if parentField = ''resource'' \<and> field = ''uid'' then Inr ''resource_uid''
      else if parentField = ''origin'' \<and> field = ''type'' then Inr ''origin_type''
      else if parentField = ''source'' \<and> field = ''planeType'' then Inr ''source_plane_type''
      else if parentField = ''source'' \<and> field = ''cluster'' then Inr ''source_cluster''
      else if parentField = ''source'' \<and> field = ''region'' then Inr ''source_region''
      else if parentField = ''source'' \<and> field = ''city'' then Inr ''source_city''
      else Inl (notAvailable (base @ ''.'' @ parentField @ ''.'' @ field)))"

definition mapDirectField :: "string \<Rightarrow> string \<Rightarrow> string + string" where
  "mapDirectField base field =
     (if base = ''spec'' \<and> field = ''changeSource'' then Inr ''change_source''
      else if base = ''spec'' \<and> field = ''summary'' then Inr ''summary''
      else if base = ''metadata'' \<and> field = ''namespace'' then Inr ''activity_namespace''
      else if base = ''metadata'' \<and> field = ''name'' then Inr ''activity_name''
      else if base = ''spec'' \<and> field = ''relatedUIDs''
      then Inl (''field '' @ [CHR 0x27] @ ''spec.relatedUIDs'' @ [CHR 0x27] @ '' is a list and only supports '' @ [CHR 0x27] @ ''in''
        @ [CHR 0x27] @ '', e.g. '' @ [CHR 0x27] @ ''abc-123'' @ [CHR 0x27] @ '' in spec.relatedUIDs'')
      else Inl (notAvailable (base @ ''.'' @ field)))"

definition activityMapSelectExpr :: "cexpr option \<Rightarrow> string \<Rightarrow> string + string" where
  "activityMapSelectExpr opd field =
     (if opd = None then Inl ''select expression missing operand''
      else (case GetSelectExpr opd of
              Some (inner, parentField) \<Rightarrow>
                (case GetIdentExpr inner of
                   Some base \<Rightarrow> mapNestedField base parentField field
                 | None \<Rightarrow> Inl ''unsupported select expression structure'')
            | None \<Rightarrow>
                (case GetIdentExpr opd of
                   Some base \<Rightarrow> mapDirectField base field
                 | None \<Rightarrow> Inl ''unsupported select expression structure'')))"

definition activityMapArraySelectExpr :: "cexpr option \<Rightarrow> string \<Rightarrow> string option" where
  "activityMapArraySelectExpr opd field =
     (if GetIdentExpr opd = Some ''spec'' \<and> field = ''relatedUIDs'' then Some ''related_uids'' else None)"

definition ActivityFieldMapper :: FieldMapper where
  "ActivityFieldMapper =
     \<lparr>MapIdentExpr = activityMapIdentExpr, MapSelectExpr = activityMapSelectExpr,
      MapArraySelectExpr = Some activityMapArraySelectExpr\<rparr>"

text \<open>\<open>RelatedUIDs\<close>: the distinct non-empty UIDs in order of first occurrence.\<close>

definition addUID :: "string list \<Rightarrow> string \<Rightarrow> string list" where
  "addUID uids uid = (if uid \<noteq> '''' \<and> uid \<notin> set uids then uids @ [uid] else uids)"

definition RelatedUIDs :: "Activity \<Rightarrow> string list" where
  "RelatedUIDs activity =
     (let spec = actSpec activity;
          u1 = addUID [] (resUID (specResource spec));
          u2 = foldl addUID u1 (map resUID (specRelated spec))
      in foldl addUID u2 (map (\<lambda>l. resUID (linkResource l)) (specLinks spec)))"

definition ActivityToMap :: "Activity \<Rightarrow> gomap" where
  "ActivityToMap activity =
     (let spec = actSpec activity;
          source = (case specSource spec of Some s \<Rightarrow> s | None \<Rightarrow> emptySource)
      in [(''spec'', VMap
            [(''changeSource'', VStr (specChangeSource spec)), (''summary'', VStr (specSummary spec)),
             (''relatedUIDs'', VList (map VStr (RelatedUIDs activity))),
             (''source'', VMap [(''planeType'', VStr (srcPlaneType source)), (''cluster'', VStr (srcCluster source)),
                               (''region'', VStr (srcRegion source)), (''city'', VStr (srcCity source))]),
             (''actor'', VMap [(''name'', VStr (actorName (specActor spec))), (''type'', VStr (actorType (specActor spec))),
                              (''uid'', VStr (actorUID (specActor spec)))]),
             (''resource'', VMap [(''apiGroup'', VStr (resAPIGroup (specResource spec))), (''kind'', VStr (resKind (specResource spec))),
                                 (''name'', VStr (resName (specResource spec))), (''namespace'', VStr (resNamespace (specResource spec))),
                                 (''uid'', VStr (resUID (specResource spec)))]),
             (''origin'', VMap [(''type'', VStr (originType (specOrigin spec)))])]),
          (''metadata'', VMap [(''namespace'', VStr (actNamespace activity)), (''name'', VStr (actName activity))])])"

section \<open>errors.go\<close>

text \<open>\<open>strings.Index\<close> and \<open>strings.ReplaceAll(s, old, "")\<close>.\<close>

fun indexStr :: "string \<Rightarrow> string \<Rightarrow> nat option" where
  "indexStr [] sub = (if sub = [] then Some 0 else None)"
| "indexStr (c # s) sub = (if hasPrefix (c # s) sub then Some 0 else map_option Suc (indexStr s sub))"

function removeAll :: "string \<Rightarrow> string \<Rightarrow> string" where
  "removeAll s old =
     (if old = [] then s
      else case s of
        [] \<Rightarrow> []
      | c # t \<Rightarrow> if hasPrefix s old then removeAll (drop (length old) s) old else c # removeAll t old)"
  by pat_completeness auto
termination
  by (relation "measure (length \<circ> fst)") auto

declare removeAll.simps [simp del]

definition newline :: char where "newline = char_of (10 :: nat)"

text \<open>\<open>strconv.Atoi\<close> of a string of digits: zero when it does not fit an \<open>int\<close>, as the caller keeps zero.\<close>

definition atoiDigits :: "string \<Rightarrow> int" where
  "atoiDigits ds = (let n = foldl (\<lambda>acc c. acc * 10 + (int (of_char c) - 48)) 0 ds in if n < 2 ^ 63 then n else 0)"

text \<open>
  \<open>celErrorRegex\<close> at the start of a string: the two digit groups. After the second colon the
  expression needs a space and then a byte that is not a newline, for which \<open>\s+\<close> may give back.
\<close>

definition celErrorAt :: "string \<Rightarrow> (string \<times> string) option" where
  "celErrorAt s =
     (let p1 = ''ERROR:''; p2 = ''<input>:''; r1 = drop (length p1) s; r2 = dropWhile isReSpace r1
      in if \<not> hasPrefix s p1 \<or> takeWhile isReSpace r1 = [] \<or> \<not> hasPrefix r2 p2 then None
         else (let r3 = drop (length p2) r2; d1 = takeWhile isDigit r3; r4 = dropWhile isDigit r3;
                   r5 = drop 1 r4; d2 = takeWhile isDigit r5; r6 = dropWhile isDigit r5; r7 = drop 1 r6;
                   sp = takeWhile isReSpace r7
               in if d1 = [] \<or> \<not> hasPrefix r4 '':'' \<or> d2 = [] \<or> \<not> hasPrefix r6 '':'' \<or> sp = [] then None
                  else if dropWhile isReSpace r7 \<noteq> [] \<or> (\<exists>c \<in> set (tl sp). c \<noteq> newline) then Some (d1, d2) else None))"

fun celErrorMatch :: "string \<Rightarrow> (string \<times> string) option" where
  "celErrorMatch [] = None"
| "celErrorMatch (c # s) = (case celErrorAt (c # s) of Some m \<Rightarrow> Some m | None \<Rightarrow> celErrorMatch s)"

definition extractErrorPosition :: "string \<Rightarrow> int \<times> int" where
  "extractErrorPosition err =
     (case celErrorMatch err of None \<Rightarrow> (0, 0) | Some (l, c) \<Rightarrow> (atoiDigits l, atoiDigits c))"

definition simplifyErrorMessage :: "string \<Rightarrow> string" where
  "simplifyErrorMessage celError =
     (let m1 = removeAll celError ''ERROR: <input>:'';
          m2 = (case indexStr m1 '': '' of Some i \<Rightarrow> if i < 10 then drop (i + 2) m1 else m1 | None \<Rightarrow> m1);
          m3 = (case indexByte m2 newline of Some i \<Rightarrow> take i m2 | None \<Rightarrow> m2)
      in trimSpace m3)"

definition formatFilterError :: "string \<Rightarrow> string" where
  "formatFilterError err =
     (let (line, column) = extractErrorPosition err; msg = simplifyErrorMessage err
      in (if column > 0 then ''Invalid filter at line '' @ fmtInt line @ '', column '' @ fmtInt column @ '': '' @ msg
          else ''Invalid filter: '' @ msg)
         @ ''. Available fields: auditID, verb, requestReceivedTimestamp, objectRef.namespace, objectRef.resource, objectRef.name, user.username, user.groups, responseStatus.code''
         @ ''. See https://cel.dev for CEL syntax'')"

definition formatActivityFilterError :: "string \<Rightarrow> string" where
  "formatActivityFilterError message =
     (if \<not> containsStr message ''undeclared reference'' then message
      else joinStr [newline]
        [message, '''', ''Available fields for activity filtering:'',
         ''  - spec.changeSource - '' @ quoteQ ''human'' @ '' or '' @ quoteQ ''system'',
         ''  - spec.actor.name, spec.actor.type, spec.actor.uid'',
         ''  - spec.resource.apiGroup, spec.resource.kind, spec.resource.name'',
         ''  - spec.resource.namespace, spec.resource.uid'',
         ''  - spec.summary, spec.origin.type'',
         ''  - spec.source.planeType, spec.source.cluster, spec.source.region, spec.source.city'',
         ''  - spec.relatedUIDs (list; use '' @ quoteQ ''<uid>'' @ '' in spec.relatedUIDs)'',
         ''  - metadata.namespace, metadata.name'', '''',
         ''Example: spec.changeSource == '' @ quoteQ ''human'' @ '' && spec.resource.kind == '' @ quoteQ ''Deployment''])"

section \<open>Compilation and conversion of filters\<close>

text \<open>What cel-go makes of a filter text: the environment failed, an error, or a tree and its type.\<close>

datatype filter_compile = EnvFailed | CompileFailed string | Compiled cexpr cel_type

definition unprocessable :: string where
  "unprocessable = ''unable to process filter expression. Try again or contact support if the problem persists''"

definition compileFilterWith ::
  "(string \<Rightarrow> string) \<Rightarrow> FieldValidator \<Rightarrow> (string \<Rightarrow> filter_compile) \<Rightarrow> string \<Rightarrow> string + cexpr" where
  "compileFilterWith fmt validator celc filterExpr =
     (if filterExpr = '''' then Inl ''filter expression cannot be empty''
      else (case celc filterExpr of
              EnvFailed \<Rightarrow> Inl unprocessable
            | CompileFailed err \<Rightarrow> Inl (fmt err)
            | Compiled ast t \<Rightarrow>
                if t \<noteq> CelBool then Inl (fmt (''filter expression must return a boolean, got '' @ celTypeName t))
                else (case ValidateFieldAccess validator ast of
                        Some err \<Rightarrow> Inl (fmt err)
                      | None \<Rightarrow> Inr ast)))"

definition CompileFilter :: "(string \<Rightarrow> filter_compile) \<Rightarrow> string \<Rightarrow> string + cexpr" where
  "CompileFilter celc filterExpr = compileFilterWith formatFilterError AuditLogFieldValidator celc filterExpr"

definition CompileActivityFilter :: "(string \<Rightarrow> filter_compile) \<Rightarrow> string \<Rightarrow> string + cexpr" where
  "CompileActivityFilter celc filterExpr = compileFilterWith formatActivityFilterError ActivityFieldValidator celc filterExpr"

definition convertFilter :: "FieldMapper \<Rightarrow> string + cexpr \<Rightarrow> sql_error + (string \<times> sql_arg list)" where
  "convertFilter m compiled =
     (case compiled of
        Inl err \<Rightarrow> Inl (SqlError err)
      | Inr ast \<Rightarrow> bind_r (ConvertExpr m ast NewBaseSQLConverter) (\<lambda>(sql, st). Inr (sql, sqArgs st)))"

definition ConvertToClickHouseSQL :: "(string \<Rightarrow> filter_compile) \<Rightarrow> string \<Rightarrow> sql_error + (string \<times> sql_arg list)" where
  "ConvertToClickHouseSQL celc filterExpr =
     (if filterExpr = '''' then Inr ('''', []) else convertFilter AuditLogFieldMapper (CompileFilter celc filterExpr))"

definition ConvertActivityToClickHouseSQL :: "(string \<Rightarrow> filter_compile) \<Rightarrow> string \<Rightarrow> sql_error + (string \<times> sql_arg list)" where
  "ConvertActivityToClickHouseSQL celc filterExpr =
     (if filterExpr = '''' then Inr ('''', []) else convertFilter ActivityFieldMapper (CompileActivityFilter celc filterExpr))"

text \<open>\<open>env.Program\<close> of the checked tree is a parameter.\<close>

definition CompileActivityFilterProgram ::
  "(string \<Rightarrow> filter_compile) \<Rightarrow> (cexpr \<Rightarrow> string + (gomap \<Rightarrow> string + gval)) \<Rightarrow> string \<Rightarrow> string + (gomap \<Rightarrow> string + gval)" where
  "CompileActivityFilterProgram celc prog filterExpr =
     (case compileFilterWith formatActivityFilterError ActivityFieldValidator celc filterExpr of
        Inl err \<Rightarrow> Inl err
      | Inr ast \<Rightarrow> (case prog ast of Inl _ \<Rightarrow> Inl unprocessable | Inr p \<Rightarrow> Inr p))"

text \<open>Watch filters: the compiled program, as a function of the variables; \<open>None\<close> is a nil filter.\<close>

definition EvaluateActivity :: "(gomap \<Rightarrow> string + gval) option \<Rightarrow> Activity \<Rightarrow> string + bool" where
  "EvaluateActivity f activity =
     (case f of
        None \<Rightarrow> Inr True
      | Some program \<Rightarrow>
          (case program (ActivityToMap activity) of
             Inl _ \<Rightarrow> Inl ''unable to evaluate filter expression. Verify the filter syntax is correct''
           | Inr v \<Rightarrow>
               (case asBool v of
                  None \<Rightarrow> Inl ''filter expression must return a boolean result. Verify your filter uses comparison operators''
                | Some b \<Rightarrow> Inr b)))"

section \<open>The mapper contract\<close>

text \<open>SQL text as a sequence of fixed fragments, column names and parameters.\<close>

datatype sqltok = Text string | Param nat

definition tokText :: "sqltok \<Rightarrow> string" where
  "tokText t = (case t of Text s \<Rightarrow> s | Param i \<Rightarrow> placeholder i)"

definition tokParams :: "sqltok list \<Rightarrow> nat list" where
  "tokParams ts = concat (map (\<lambda>t. case t of Text _ \<Rightarrow> [] | Param i \<Rightarrow> [i]) ts)"

definition sqlFragments :: "string list" where
  "sqlFragments =
     [''NOT ('', ''('', '')'', '' '', ''AND'', ''OR'', ''IN'', ''='', ''!='', ''>='', ''<='', ''>'', ''<'', ''has('', '', '',
      ''position('', '') > 0'', ''startsWith('', ''endsWith('', ''['', '']'', ''0'', ''1'', '''']"

definition parametrised :: "string set \<Rightarrow> nat \<Rightarrow> nat \<Rightarrow> string \<Rightarrow> bool" where
  "parametrised cols i j sql =
     (i \<le> j \<and> (\<exists>ts. sql = concat (map tokText ts) \<and> (\<forall>s. Text s \<in> set ts \<longrightarrow> s \<in> cols \<or> s \<in> set sqlFragments) \<and> tokParams ts = [i..<j]))"

lemma parametrised_text: "s \<in> cols \<or> s \<in> set sqlFragments \<Longrightarrow> parametrised cols i i s"
  unfolding parametrised_def by (intro conjI exI [of _ "[Text s]"]) (auto simp: tokText_def tokParams_def)

lemma parametrised_param: "parametrised cols i (Suc i) (placeholder i)"
  unfolding parametrised_def by (intro conjI exI [of _ "[Param i]"]) (auto simp: tokText_def tokParams_def)

lemma parametrised_append:
  assumes "parametrised cols i j a" "parametrised cols j k b"
  shows "parametrised cols i k (a @ b)"
proof -
  from assms obtain ts us where "a = concat (map tokText ts)" "b = concat (map tokText us)"
    "\<forall>s. Text s \<in> set (ts @ us) \<longrightarrow> s \<in> cols \<or> s \<in> set sqlFragments" "tokParams ts = [i..<j]" "tokParams us = [j..<k]" "i \<le> j" "j \<le> k"
    by (auto simp: parametrised_def)
  moreover from \<open>i \<le> j\<close> \<open>j \<le> k\<close> have "[i..<j] @ [j..<k] = [i..<k]"
    using upt_add_eq_append [of i j "k - j"] by simp
  ultimately show ?thesis
    unfolding parametrised_def by (intro conjI exI [of _ "ts @ us"]) (auto simp: tokParams_def)
qed

text \<open>What a conversion step guarantees: numbered parameters and as many arguments.\<close>

definition goodStep :: "string set \<Rightarrow> SqlState \<Rightarrow> string \<Rightarrow> SqlState \<Rightarrow> bool" where
  "goodStep cols st sql st' =
     (parametrised cols (sqIndex st) (sqIndex st') sql
      \<and> (\<exists>new. sqArgs st' = sqArgs st @ new \<and> sqIndex st' = sqIndex st + length new))"

lemma goodStep_text: "s \<in> cols \<or> s \<in> set sqlFragments \<Longrightarrow> goodStep cols st s st"
  by (simp add: goodStep_def parametrised_text)

lemma goodStep_append: "goodStep cols st a st1 \<Longrightarrow> goodStep cols st1 b st2 \<Longrightarrow> goodStep cols st (a @ b) st2"
  by (auto simp: goodStep_def intro: parametrised_append)

lemma goodStep_wrap:
  assumes "goodStep cols st x st'" "p \<in> cols \<or> p \<in> set sqlFragments" "q \<in> cols \<or> q \<in> set sqlFragments"
  shows "goodStep cols st (p @ x @ q) st'"
  using goodStep_append [OF goodStep_text [OF assms(2)] goodStep_append [OF assms(1) goodStep_text [OF assms(3)]]] .

lemma goodStep_two:
  assumes "goodStep cols st x st1" "goodStep cols st1 y st2"
    and "\<forall>s \<in> {p, sep, q}. s \<in> cols \<or> s \<in> set sqlFragments"
  shows "goodStep cols st (p @ x @ sep @ y @ q) st2"
proof -
  have "goodStep cols st (x @ sep @ y) st2"
    using assms by (intro goodStep_append [OF assms(1)] goodStep_append [OF goodStep_text assms(2)]) auto
  from goodStep_wrap [OF this, of p q] assms(3) show ?thesis by simp
qed

lemma goodStep_binText:
  assumes "goodStep cols st x st1" "goodStep cols st1 y st2" "op \<in> set sqlFragments"
  shows "goodStep cols st (binText op x y) st2"
proof -
  have sp: "'' '' \<in> set sqlFragments" by (simp add: sqlFragments_def)
  have "goodStep cols st1 ('' '' @ op @ '' '' @ y) st2"
    using assms(2,3) sp by (intro goodStep_append [OF goodStep_text] goodStep_append [OF goodStep_text] goodStep_append [OF goodStep_text]) auto
  from goodStep_append [OF assms(1) this] show ?thesis by (simp add: binText_def)
qed

lemma goodStep_addArg: "addArg v st = (sql, st') \<Longrightarrow> goodStep cols st sql st'"
  by (auto simp: addArg_def goodStep_def parametrised_param)

lemma convertConstExpr_good: "convertConstExpr k st = Inr (sql, st') \<Longrightarrow> goodStep cols st sql st'"
  by (auto simp: convertConstExpr_def sqlFragments_def split: cconst.splits if_splits intro: goodStep_addArg intro!: goodStep_text)

lemma convertTimestamp_good: "convertTimestamp args st = Inr (sql, st') \<Longrightarrow> goodStep cols st sql st'"
  by (auto simp: convertTimestamp_def split: list.splits cexpr.splits cconst.splits if_splits option.splits intro: goodStep_addArg)

lemma both_Inr:
  "both f g h st = Inr (sql, st') \<longleftrightarrow> (\<exists>l st1 r. f st = Inr (l, st1) \<and> g st1 = Inr (r, st') \<and> sql = h l r)"
  by (fastforce simp: both_def bind_r_eq_Inr)

lemma binaryOp_fragment: "binaryOp fn = Some op \<Longrightarrow> op \<in> set sqlFragments"
  by (auto simp: binaryOp_def sqlFragments_def split: if_splits)

lemma goodStep_refl: "goodStep cols st '''' st"
  by (simp add: goodStep_text sqlFragments_def)

lemma goodStep_has:
  assumes "goodStep cols st l st'" "column \<in> cols"
  shows "goodStep cols st (''has('' @ column @ '', '' @ l @ '')'') st'"
proof -
  have l: "goodStep cols st ('', '' @ l @ '')'') st'"
    by (rule goodStep_wrap [OF assms(1)]) (simp_all add: sqlFragments_def)
  have c: "goodStep cols st (column @ '', '' @ l @ '')'') st'"
    by (rule goodStep_append [OF goodStep_text l]) (simp add: assms(2))
  show ?thesis
    by (rule goodStep_append [OF goodStep_text c]) (simp add: sqlFragments_def)
qed

text \<open>A conversion all of whose results are good steps.\<close>

definition goodConv :: "string set \<Rightarrow> conv \<Rightarrow> bool" where
  "goodConv cols f = (\<forall>st sql st'. f st = Inr (sql, st') \<longrightarrow> goodStep cols st sql st')"

lemma goodConvD: "goodConv cols f \<Longrightarrow> f st = Inr (sql, st') \<Longrightarrow> goodStep cols st sql st'"
  by (simp add: goodConv_def)

lemma goodConv_both:
  assumes "goodConv cols f" "goodConv cols g" "both f g h st = Inr (sql, st')"
    and "\<And>st st1 st2 x y. goodStep cols st x st1 \<Longrightarrow> goodStep cols st1 y st2 \<Longrightarrow> goodStep cols st (h x y) st2"
  shows "goodStep cols st sql st'"
  using assms unfolding both_Inr by (blast dest: goodConvD)

lemma goodConv_args:
  assumes "\<And>e. e \<in> set es \<Longrightarrow> goodConv cols (ConvertExpr m e)" "convertArgs m es st = Inr (xs, st')"
  shows "goodStep cols st (joinStr '', '' xs) st'"
  using assms
proof (induction es arbitrary: st xs)
  case Nil
  then show ?case by (simp add: goodStep_refl)
next
  case (Cons e es)
  then obtain x st1 ys where x: "ConvertExpr m e st = Inr (x, st1)" and ys: "convertArgs m es st1 = Inr (ys, st')" and xs: "xs = x # ys"
    by (auto simp: bind_r_eq_Inr)
  from Cons.prems(1) x have gx: "goodStep cols st x st1" by (auto intro: goodConvD)
  from Cons.IH [OF _ ys] Cons.prems(1) have gys: "goodStep cols st1 (joinStr '', '' ys) st'" by simp
  from goodStep_two [OF gx gys, of "[]" "'', ''" "[]"] have two: "goodStep cols st (x @ '', '' @ joinStr '', '' ys) st'"
    by (simp add: sqlFragments_def)
  show ?case
  proof (cases ys)
    case Nil
    with goodStep_append [OF gx gys] xs show ?thesis by simp
  next
    case (Cons y zs)
    with two xs show ?thesis by simp
  qed
qed

text \<open>
  The contract of a field mapper: whatever it returns is one of a fixed set of column names. The
  conversion of any tree then yields a parametrised text, whatever the literals of the tree are.
\<close>

lemma logical_not_binaryOp:
  "binaryOp ''_&&_'' = None" "binaryOp ''_||_'' = None" "binaryOp ''@in'' = None" "binaryOp ''!_'' = None"
  "binaryOp ''startsWith'' = None" "binaryOp ''endsWith'' = None" "binaryOp ''contains'' = None"
  by (simp_all add: binaryOp_def)

lemma ConvertExpr_call_cases:
  assumes "ConvertExpr m (ECall target fn args) st = Inr r"
  obtains (neg) a rest where "fn = ''!_''" "args = a # rest"
    | (binary) a b rest where "binaryOp fn \<noteq> None \<or> fn = ''_&&_'' \<or> fn = ''_||_'' \<or> fn = ''@in''" "args = a # b # rest"
    | (stringCall) t a rest where "fn \<in> {''startsWith'', ''endsWith'', ''contains''}" "target = Some t" "args = a # rest"
    | (timestamp) "fn = ''timestamp''" "convertTimestamp args st = Inr r"
proof (cases "fn = ''!_''")
  case True
  with assms neg show thesis by (cases args) auto
next
  case nn: False
  show thesis
  proof (cases "binaryOp fn \<noteq> None \<or> fn = ''_&&_'' \<or> fn = ''_||_'' \<or> fn = ''@in''")
    case True
    with assms nn have "args \<noteq> [] \<and> tl args \<noteq> []"
      by (cases args; cases "tl args") (auto simp: bind_r_eq_Inr)
    with True binary show thesis by (cases args; cases "tl args") auto
  next
    case nb: False
    show thesis
    proof (cases "fn = ''startsWith'' \<or> fn = ''endsWith'' \<or> fn = ''contains''")
      case True
      with assms nn nb have "target \<noteq> None \<and> args \<noteq> []"
        by (cases target; cases args) (auto simp: bind_r_eq_Inr)
      with True stringCall show thesis by (cases target; cases args) auto
    next
      case False
      with assms nn nb timestamp show thesis by (auto split: if_splits)
    qed
  qed
qed

locale field_mapper =
  fixes m :: FieldMapper and cols :: "string set"
  assumes ident_cols: "MapIdentExpr m n = Inr c \<Longrightarrow> c \<in> cols"
    and select_cols: "MapSelectExpr m opd f = Inr c \<Longrightarrow> c \<in> cols"
    and array_cols: "arrayColumn m e = Some c \<Longrightarrow> c \<in> cols"
begin

lemma binary_good:
  assumes "goodConv cols (ConvertExpr m a)" "goodConv cols (ConvertExpr m b)"
    and "binaryOp fn \<noteq> None \<or> fn = ''_&&_'' \<or> fn = ''_||_'' \<or> fn = ''@in''"
    and "ConvertExpr m (ECall target fn (a # b # rest)) st = Inr (sql, st')"
  shows "goodStep cols st sql st'"
proof -
  have ops: "''AND'' \<in> set sqlFragments" "''OR'' \<in> set sqlFragments" "''IN'' \<in> set sqlFragments"
    "''('' \<in> set sqlFragments" "'')'' \<in> set sqlFragments" by (simp_all add: sqlFragments_def)
  consider "fn = ''_&&_''" | "fn = ''_||_''" | column where "fn = ''@in''" "arrayColumn m b = Some column"
    | "fn = ''@in''" "arrayColumn m b = None"
    | op where "binaryOp fn = Some op" "fn \<noteq> ''_&&_''" "fn \<noteq> ''_||_''" "fn \<noteq> ''@in''" "fn \<noteq> ''!_''"
    using assms(3) logical_not_binaryOp by (cases "arrayColumn m b") (metis option.exhaust, metis option.exhaust)
  then show ?thesis
  proof cases
    case 1
    with assms(4) have "both (ConvertExpr m a) (ConvertExpr m b) (\<lambda>l r. ''('' @ binText ''AND'' l r @ '')'') st = Inr (sql, st')"
      by simp
    from goodConv_both [OF assms(1,2) this] ops show ?thesis by (blast intro: goodStep_wrap goodStep_binText)
  next
    case 2
    with assms(4) have "both (ConvertExpr m a) (ConvertExpr m b) (\<lambda>l r. ''('' @ binText ''OR'' l r @ '')'') st = Inr (sql, st')"
      by simp
    from goodConv_both [OF assms(1,2) this] ops show ?thesis by (blast intro: goodStep_wrap goodStep_binText)
  next
    case 3
    with assms(4) obtain l where l: "ConvertExpr m a st = Inr (l, st')" "sql = ''has('' @ column @ '', '' @ l @ '')''"
      by (auto simp: bind_r_eq_Inr)
    show ?thesis unfolding l(2) by (rule goodStep_has [OF goodConvD [OF assms(1) l(1)] array_cols [OF 3(2)]])
  next
    case 4
    with assms(4) have "both (ConvertExpr m a) (ConvertExpr m b) (binText ''IN'') st = Inr (sql, st')" by simp
    from goodConv_both [OF assms(1,2) this] ops show ?thesis by (blast intro: goodStep_binText)
  next
    case 5
    with assms(4) have "both (ConvertExpr m a) (ConvertExpr m b) (binText op) st = Inr (sql, st')" by simp
    from goodConv_both [OF assms(1,2) this] binaryOp_fragment [OF 5(1)] show ?thesis by (blast intro: goodStep_binText)
  qed
qed

lemma method_good:
  assumes "goodConv cols (ConvertExpr m t)" "goodConv cols (ConvertExpr m a)" "fn \<in> {''startsWith'', ''endsWith'', ''contains''}"
    and "ConvertExpr m (ECall (Some t) fn (a # rest)) st = Inr (sql, st')"
  shows "goodStep cols st sql st'"
proof -
  have frag: "{''startsWith('', ''endsWith('', ''position('', '', '', '')'', '') > 0''} \<subseteq> set sqlFragments"
    by (simp add: sqlFragments_def)
  have step: "goodStep cols st (if fn = ''contains'' then ''position('' @ x @ '', '' @ y @ '') > 0'' else fn @ ''('' @ x @ '', '' @ y @ '')'') st2"
    if "goodStep cols st x st1" "goodStep cols st1 y st2" for st st1 st2 x y
  proof (cases "fn = ''contains''")
    case True
    then show ?thesis using goodStep_two [OF that, of "''position(''" "'', ''" "'') > 0''"] frag by simp
  next
    case False
    with assms(3) frag have "fn @ ''('' \<in> set sqlFragments" by auto
    with frag False show ?thesis using goodStep_two [OF that, of "fn @ ''(''" "'', ''" "'')''"] by simp
  qed
  have fn: "fn \<noteq> ''!_''" "\<not> (binaryOp fn \<noteq> None \<or> fn = ''_&&_'' \<or> fn = ''_||_'' \<or> fn = ''@in'')"
    "fn = ''startsWith'' \<or> fn = ''endsWith'' \<or> fn = ''contains''"
    using assms(3) logical_not_binaryOp by auto
  from assms(4) have "both (ConvertExpr m t) (ConvertExpr m a)
      (\<lambda>x y. if fn = ''contains'' then ''position('' @ x @ '', '' @ y @ '') > 0'' else fn @ ''('' @ x @ '', '' @ y @ '')'') st = Inr (sql, st')"
    unfolding ConvertExpr.simps if_not_P [OF fn(1)] if_not_P [OF fn(2)] if_P [OF fn(3)] by simp
  then show ?thesis by (rule goodConv_both [OF assms(1,2) _ step])
qed

lemma not_good:
  assumes "goodConv cols (ConvertExpr m a)" "ConvertExpr m (ECall target ''!_'' (a # rest)) st = Inr (sql, st')"
  shows "goodStep cols st sql st'"
proof -
  from assms(2) obtain x where x: "ConvertExpr m a st = Inr (x, st')" "sql = ''NOT ('' @ x @ '')''"
    by (auto simp: bind_r_eq_Inr)
  show ?thesis
    unfolding x(2) by (rule goodStep_wrap [OF goodConvD [OF assms(1) x(1)]]) (simp_all add: sqlFragments_def)
qed

lemma call_good:
  assumes "\<And>t. t \<in> set_option target \<Longrightarrow> goodConv cols (ConvertExpr m t)"
    and "\<And>e. e \<in> set args \<Longrightarrow> goodConv cols (ConvertExpr m e)"
    and conv: "ConvertExpr m (ECall target fn args) st = Inr (sql, st')"
  shows "goodStep cols st sql st'"
proof -
  show ?thesis
    using conv
  proof (cases rule: ConvertExpr_call_cases)
    case (neg a rest)
    show ?thesis by (rule not_good [of a target rest]) (use neg assms in auto)
  next
    case (binary a b rest)
    show ?thesis by (rule binary_good [of a b fn target rest]) (use binary assms in auto)
  next
    case (stringCall t a rest)
    show ?thesis by (rule method_good [of t a fn rest]) (use stringCall assms in auto)
  next
    case timestamp
    then show ?thesis by (simp add: convertTimestamp_good)
  qed
qed

lemma convert_good: "goodConv cols (ConvertExpr m e)"
proof (induction e)
  case (EConst k)
  then show ?case by (simp add: goodConv_def convertConstExpr_good)
next
  case (EIdent n)
  then show ?case
    by (auto simp: goodConv_def liftMap_def split: sum.splits intro!: goodStep_text dest: ident_cols)
next
  case (ESelect opd f)
  then show ?case
    by (auto simp: goodConv_def liftMap_def split: sum.splits intro!: goodStep_text dest: select_cols)
next
  case (ECall target fn args)
  then show ?case using call_good [of target args fn] unfolding goodConv_def [of cols "ConvertExpr m (ECall target fn args)"] by blast
next
  case (EList es)
  have "goodStep cols st (''['' @ joinStr '', '' xs @ '']'') st'" if "convertArgs m es st = Inr (xs, st')" for st xs st'
    using goodStep_wrap [OF goodConv_args [OF EList that], of "''[''" "'']''"] by (simp add: sqlFragments_def)
  then show ?case by (auto simp: goodConv_def bind_r_eq_Inr)
qed (simp_all add: goodConv_def)

lemma filter_parametrised:
  assumes "convertFilter m compiled = Inr (sql, args)"
  shows "parametrised cols 1 (Suc (length args)) sql"
proof -
  from assms obtain ast st where c: "ConvertExpr m ast NewBaseSQLConverter = Inr (sql, st)" "args = sqArgs st"
    by (auto simp: convertFilter_def bind_r_eq_Inr split: sum.splits)
  from goodConvD [OF convert_good c(1)] c(2) show ?thesis by (auto simp: goodStep_def NewBaseSQLConverter_def)
qed

end

definition auditColumns :: "string list" where
  "auditColumns =
     [''audit_id'', ''verb'', ''timestamp'', ''namespace'', ''resource'', ''resource_name'', ''api_group'', ''user'', ''user_uid'',
      ''status_code'']"

definition activityColumns :: "string list" where
  "activityColumns =
     [''actor_name'', ''actor_type'', ''actor_uid'', ''api_group'', ''resource_kind'', ''resource_name'', ''resource_namespace'',
      ''resource_uid'', ''origin_type'', ''source_plane_type'', ''source_cluster'', ''source_region'', ''source_city'',
      ''change_source'', ''summary'', ''activity_namespace'', ''activity_name'', ''related_uids'']"

lemma auditMapSelectExpr_cols: "auditMapSelectExpr opd f = Inr c \<Longrightarrow> c \<in> set auditColumns"
  by (auto simp: auditMapSelectExpr_def auditColumns_def split: if_splits option.splits)

lemma mapNestedField_cols: "mapNestedField b p f = Inr c \<Longrightarrow> c \<in> set activityColumns"
  by (auto simp: mapNestedField_def activityColumns_def split: if_splits)

lemma mapDirectField_cols: "mapDirectField b f = Inr c \<Longrightarrow> c \<in> set activityColumns"
  by (auto simp: mapDirectField_def activityColumns_def split: if_splits)

interpretation audit_filter: field_mapper AuditLogFieldMapper "set auditColumns"
proof
  show "c \<in> set auditColumns" if "MapIdentExpr AuditLogFieldMapper n = Inr c" for n c
    using that by (auto simp: AuditLogFieldMapper_def auditMapIdentExpr_def auditColumns_def split: if_splits)
  show "c \<in> set auditColumns" if "MapSelectExpr AuditLogFieldMapper opd f = Inr c" for opd f c
    using that by (simp add: AuditLogFieldMapper_def auditMapSelectExpr_cols)
  show "c \<in> set auditColumns" if "arrayColumn AuditLogFieldMapper e = Some c" for e c
    using that by (simp add: arrayColumn_def AuditLogFieldMapper_def split: option.splits prod.splits)
qed

interpretation activity_filter: field_mapper ActivityFieldMapper "set activityColumns"
proof
  show "c \<in> set activityColumns" if "MapIdentExpr ActivityFieldMapper n = Inr c" for n c
    using that by (simp add: ActivityFieldMapper_def activityMapIdentExpr_def split: if_splits)
  show "c \<in> set activityColumns" if "MapSelectExpr ActivityFieldMapper opd f = Inr c" for opd f c
    using that
    by (auto simp: ActivityFieldMapper_def activityMapSelectExpr_def mapNestedField_cols mapDirectField_cols split: if_splits option.splits)
  show "c \<in> set activityColumns" if "arrayColumn ActivityFieldMapper e = Some c" for e c
    using that
    by (auto simp: arrayColumn_def ActivityFieldMapper_def activityMapArraySelectExpr_def activityColumns_def split: option.splits if_splits)
qed

section \<open>Properties\<close>

text \<open>
  C34: the SQL of a filter is made only of fixed fragments, column names of the table queried and
  the parameters \<open>{arg1}\<close> to \<open>{argN}\<close> in order, one for each argument: no text of a literal of
  the filter ever reaches the query, for audit logs and for activities alike.
\<close>

theorem filter_sql_parametrised:
  "(ConvertToClickHouseSQL celc filterExpr = Inr (sql, args) \<longrightarrow> parametrised (set auditColumns) 1 (Suc (length args)) sql)
   \<and> (ConvertActivityToClickHouseSQL celc filterExpr = Inr (sql, args) \<longrightarrow> parametrised (set activityColumns) 1 (Suc (length args)) sql)"
proof -
  have "parametrised cols 1 1 []" for cols by (rule parametrised_text) (simp add: sqlFragments_def)
  then show ?thesis
    unfolding ConvertToClickHouseSQL_def ConvertActivityToClickHouseSQL_def
    by (auto split: if_splits dest: audit_filter.filter_parametrised activity_filter.filter_parametrised)
qed

definition sampleCompile :: "string \<Rightarrow> filter_compile" where
  "sampleCompile s =
     Compiled (ECall None ''_&&_''
       [ECall None ''_==_'' [EIdent ''verb'', EConst (KString s)],
        ECall (Some (ESelect (Some (EIdent ''objectRef'')) ''name'')) ''startsWith'' [EConst (KString ''a'')]]) CelBool"

lemma filter_sql_parametrised_witness:
  "ConvertToClickHouseSQL sampleCompile ''1) OR (1'' =
     Inr (''(verb = {arg1} AND startsWith(resource_name, {arg2}))'', [AString ''1) OR (1'', AString ''a''])
   \<and> parametrised (set auditColumns) 1 3 ''(verb = {arg1} AND startsWith(resource_name, {arg2}))''"
proof -
  have c: "ConvertToClickHouseSQL sampleCompile ''1) OR (1'' =
     Inr (''(verb = {arg1} AND startsWith(resource_name, {arg2}))'', [AString ''1) OR (1'', AString ''a''])"
    by code_simp
  with filter_sql_parametrised [of sampleCompile "''1) OR (1''" "''(verb = {arg1} AND startsWith(resource_name, {arg2}))''" "[AString ''1) OR (1'', AString ''a'']"]
  show ?thesis by (simp add: numeral_3_eq_3)
qed

text \<open>
  Validation and mapping of audit log fields agree. A field of a known object maps to a column
  exactly when the validator's table lists it, and the validator accepts a field of a known object
  exactly when the mapper has a column for it.
\<close>

theorem audit_fields_agree:
  "((\<exists>c. auditMapSelectExpr (Some (EIdent base)) field = Inr c)
      \<longleftrightarrow> (\<exists>allowed. map_of validFields base = Some allowed \<and> field \<in> set allowed))
   \<and> (base \<in> fst ` set validFields \<longrightarrow>
        (AuditLogFieldValidator (Some (EIdent base)) field = None \<longleftrightarrow> (\<exists>c. auditMapSelectExpr (Some (EIdent base)) field = Inr c)))"
  by (auto simp: auditMapSelectExpr_def AuditLogFieldValidator_def validFields_def GetIdentExpr_def)

lemma audit_fields_agree_witness:
  "AuditLogFieldValidator (Some (EIdent ''user'')) ''uid'' = None \<and> AuditLogFieldValidator (Some (EIdent ''user'')) ''groups'' \<noteq> None
   \<and> (\<exists>c. auditMapSelectExpr (Some (EIdent ''user'')) ''uid'' = Inr c)"
  using audit_fields_agree [of "''user''" "''uid''"] audit_fields_agree [of "''user''" "''groups''"]
  by (simp add: validFields_def)

text \<open>
  Of the fields of an activity that the validator's table lists, exactly the nested ones and
  the scalar direct ones map to a column; the only listed leaf without a column is
  \<open>spec.relatedUIDs\<close>, which is usable on the right of \<open>in\<close>, and everything that maps to a column
  is listed.
\<close>

theorem activity_fields_agree:
  "((\<exists>c. mapNestedField base parent field = Inr c)
      \<longleftrightarrow> base = ''spec'' \<and> parent \<in> {''actor'', ''resource'', ''origin'', ''source''}
        \<and> field \<in> set (the (map_of activityValidFields (base @ ''.'' @ parent))))
   \<and> ((\<exists>c. mapDirectField base field = Inr c)
      \<longleftrightarrow> (\<exists>allowed. map_of activityValidFields base = Some allowed \<and> field \<in> set allowed \<and> base \<in> {''spec'', ''metadata''}
            \<and> field \<notin> {''actor'', ''resource'', ''origin'', ''source'', ''relatedUIDs''}))
   \<and> activityMapArraySelectExpr (Some (EIdent ''spec'')) ''relatedUIDs'' = Some ''related_uids''"
  by (intro conjI)
    (auto simp: mapNestedField_def mapDirectField_def activityValidFields_def activityMapArraySelectExpr_def GetIdentExpr_def)

lemma addUID_set: "set (foldl addUID us xs) = set us \<union> (set xs - {[]})"
  by (induction xs arbitrary: us) (auto simp: addUID_def)

lemma addUID_distinct: "distinct us \<Longrightarrow> distinct (foldl addUID us xs)"
  by (induction xs arbitrary: us) (auto simp: addUID_def)

text \<open>
  The related UIDs of an activity, which a filter can search, are exactly the non-empty UIDs of
  its resource, its related resources and its link targets, each once.
\<close>

theorem RelatedUIDs_exact:
  "distinct (RelatedUIDs activity)
   \<and> set (RelatedUIDs activity)
       = ({resUID (specResource (actSpec activity))} \<union> resUID ` set (specRelated (actSpec activity))
          \<union> (resUID \<circ> linkResource) ` set (specLinks (actSpec activity))) - {[]}"
  by (auto simp: RelatedUIDs_def Let_def addUID_set addUID_def intro!: addUID_distinct)

text \<open>
  The text of a comparison carries no parentheses, so the two groupings of a chain of equality
  tests convert to the same SQL although they mean different things.
\<close>

theorem chained_equality_loses_grouping:
  "ConvertExpr m (ECall None ''_==_'' [a, ECall None ''_==_'' [b, c]]) st
   = ConvertExpr m (ECall None ''_==_'' [ECall None ''_==_'' [a, b], c]) st"
  by (cases "ConvertExpr m a st") (auto simp: binaryOp_def both_def binText_def bind_r_def split: sum.splits)

text \<open>
  Every activity field a query can filter on is also bound, to a string, in the variables a
  watch filter is evaluated with, for every activity; and the array field is bound to the list of
  the related UIDs.
\<close>

theorem filter_fields_bound_for_watch:
  "(mapDirectField base field = Inr c \<longrightarrow>
      (\<exists>m s. map_of (ActivityToMap activity) base = Some (VMap m) \<and> map_of m field = Some (VStr s)))
   \<and> (mapNestedField base parent field = Inr c \<longrightarrow>
      (\<exists>m m' s. map_of (ActivityToMap activity) base = Some (VMap m) \<and> map_of m parent = Some (VMap m') \<and> map_of m' field = Some (VStr s)))
   \<and> (\<exists>m. map_of (ActivityToMap activity) ''spec'' = Some (VMap m)
        \<and> map_of m ''relatedUIDs'' = Some (VList (map VStr (RelatedUIDs activity))))"
  by (intro conjI impI) (auto simp: mapDirectField_def mapNestedField_def ActivityToMap_def Let_def split: if_splits)

definition sampleActivity :: Activity where
  "sampleActivity =
     \<lparr>actAPIVersion = schemeGroupVersion, actKind = ''Activity'', actName = ''act-0'', actNamespace = ''default'',
      actCreationTimestamp = 0, actLabels = [],
      actSpec = \<lparr>specSummary = ''s'', specChangeSource = ''human'',
        specActor = \<lparr>actorType = ''user'', actorName = ''alice'', actorUID = ''u-1'', actorEmail = ''''\<rparr>,
        specResource = \<lparr>resAPIGroup = ''apps'', resAPIVersion = ''v1'', resKind = ''Deployment'', resName = ''web'', resNamespace = ''default'', resUID = ''r-1''\<rparr>,
        specLinks = [], specRelated = [], specTenant = \<lparr>tenantType = ''project'', tenantName = ''p''\<rparr>,
        specOrigin = \<lparr>originType = ''audit'', originID = ''a-1''\<rparr>, specSource = None\<rparr>\<rparr>"

lemma filter_fields_bound_for_watch_witness:
  "(\<exists>m m' s. map_of (ActivityToMap sampleActivity) ''spec'' = Some (VMap m) \<and> map_of m ''actor'' = Some (VMap m') \<and> map_of m' ''name'' = Some (VStr s))
   \<and> (\<exists>m s. map_of (ActivityToMap sampleActivity) ''metadata'' = Some (VMap m) \<and> map_of m ''name'' = Some (VStr s))"
  using filter_fields_bound_for_watch [of "''metadata''" "''name''" "''activity_name''" sampleActivity]
    filter_fields_bound_for_watch [of "''spec''" "''name''" "''actor_name''" sampleActivity "''actor''"]
  by (simp add: mapDirectField_def mapNestedField_def)

end
