(* ===== verification/Cursors.thy ===== *)
theory Cursors
  imports Sha256 Time_Util
begin

text \<open>
  The pagination cursors of internal/storage: clickhouse.go for audit logs and activities,
  event_query_clickhouse.go for events. A cursor is a JSON object in URL-safe base64 that holds
  the position, a hash of the query parameters and the time of issue. Base64 is modelled in full;
  the JSON text of the object is a codec that the definitions take as an argument, and what the
  round trip needs of it is a hypothesis on the one object that is encoded.
\<close>

section \<open>base64.URLEncoding\<close>

definition b64Alphabet :: string where
  "b64Alphabet = ''ABCDEFGHIJKLMNOPQRSTUVWXYZabcdefghijklmnopqrstuvwxyz0123456789-_''"

definition b64Char :: "nat \<Rightarrow> char" where
  "b64Char n = b64Alphabet ! n"

definition b64Val :: "char \<Rightarrow> nat option" where
  "b64Val c = indexByte b64Alphabet c"

definition byteVal :: "char \<Rightarrow> nat" where
  "byteVal c = of_char c"

fun b64Encode :: "string \<Rightarrow> string" where
  "b64Encode [] = []"
| "b64Encode [a] = [b64Char (byteVal a div 4), b64Char (byteVal a mod 4 * 16), CHR ''='', CHR ''='']"
| "b64Encode [a, b] =
     [b64Char (byteVal a div 4), b64Char (byteVal a mod 4 * 16 + byteVal b div 16), b64Char (byteVal b mod 16 * 4), CHR ''='']"
| "b64Encode (a # b # c # s) =
     b64Char (byteVal a div 4) # b64Char (byteVal a mod 4 * 16 + byteVal b div 16)
     # b64Char (byteVal b mod 16 * 4 + byteVal c div 64) # b64Char (byteVal c mod 64) # b64Encode s"

text \<open>Decoding skips line breaks; padding closes the last group of four; spare bits are ignored.\<close>

definition b64Byte1 :: "nat \<Rightarrow> nat \<Rightarrow> char" where
  "b64Byte1 w x = char_of (w * 4 + x div 16)"

definition b64Byte2 :: "nat \<Rightarrow> nat \<Rightarrow> char" where
  "b64Byte2 x y = char_of (x mod 16 * 16 + y div 4)"

definition b64Byte3 :: "nat \<Rightarrow> nat \<Rightarrow> char" where
  "b64Byte3 y z = char_of (y mod 4 * 64 + z)"

fun b64Groups :: "string \<Rightarrow> string option" where
  "b64Groups [] = Some []"
| "b64Groups (p # q # r # t # s) =
     (if s = [] \<and> r = CHR ''='' \<and> t = CHR ''=''
      then (case (b64Val p, b64Val q) of (Some w, Some x) \<Rightarrow> Some [b64Byte1 w x] | _ \<Rightarrow> None)
      else if s = [] \<and> t = CHR ''=''
      then (case (b64Val p, b64Val q, b64Val r) of
              (Some w, Some x, Some y) \<Rightarrow> Some [b64Byte1 w x, b64Byte2 x y] | _ \<Rightarrow> None)
      else (case (b64Val p, b64Val q, b64Val r, b64Val t) of
              (Some w, Some x, Some y, Some z) \<Rightarrow>
                map_option (\<lambda>rest. b64Byte1 w x # b64Byte2 x y # b64Byte3 y z # rest) (b64Groups s)
            | _ \<Rightarrow> None))"
| "b64Groups _ = None"

definition isLineBreak :: "char \<Rightarrow> bool" where
  "isLineBreak c = ((of_char c :: nat) \<in> {10, 13})"

definition b64Decode :: "string \<Rightarrow> string option" where
  "b64Decode s = b64Groups (filter (\<lambda>c. \<not> isLineBreak c) s)"

lemma b64_table: "list_all (\<lambda>n. b64Val (b64Char n) = Some n \<and> b64Char n \<noteq> CHR ''='' \<and> \<not> isLineBreak (b64Char n)) [0..<64]"
  by code_simp

lemma isLineBreak_pad: "\<not> isLineBreak (CHR ''='')"
  by (simp add: isLineBreak_def)

lemma b64Val_Char: "n < 64 \<Longrightarrow> b64Val (b64Char n) = Some n"
  and b64Char_not_pad: "n < 64 \<Longrightarrow> b64Char n \<noteq> CHR ''=''"
  and b64Char_not_break: "n < 64 \<Longrightarrow> \<not> isLineBreak (b64Char n)"
  using b64_table by (auto simp: list_all_iff)

lemma byteVal_less: "byteVal c < 256"
  using mod_less_divisor [of 256 "of_char c :: nat"] by (simp add: byteVal_def)

lemma byteVal_quarter: "byteVal c div 4 < 64" "byteVal c div 16 < 16" "byteVal c div 64 < 4"
  using byteVal_less [of c] by auto

lemma b64_sextets:
  "byteVal a mod 4 * 16 + byteVal b div 16 < 64" "byteVal b mod 16 * 4 + byteVal c div 64 < 64" "byteVal a mod 4 * 16 < 64"
  "byteVal b mod 16 * 4 < 64" "byteVal c mod 64 < 64"
  using byteVal_quarter [of b] byteVal_quarter [of c] mod_less_divisor [of 4 "byteVal a"] mod_less_divisor [of 16 "byteVal b"]
    mod_less_divisor [of 64 "byteVal c"] by linarith+

lemma char_of_byteVal [simp]: "char_of (byteVal c) = c"
  by (simp add: byteVal_def)

lemma b64Byte1_join: "v < 16 \<Longrightarrow> b64Byte1 (byteVal a div 4) (byteVal a mod 4 * 16 + v) = a"
proof -
  assume "v < 16"
  then have "byteVal a div 4 * 4 + (byteVal a mod 4 * 16 + v) div 16 = byteVal a" by simp
  then show ?thesis by (simp only: b64Byte1_def char_of_byteVal)
qed

lemma b64Byte2_join: "v < 4 \<Longrightarrow> b64Byte2 (u * 16 + byteVal b div 16) (byteVal b mod 16 * 4 + v) = b"
proof -
  assume "v < 4"
  then have "(u * 16 + byteVal b div 16) mod 16 * 16 + (byteVal b mod 16 * 4 + v) div 4 = byteVal b"
    using byteVal_quarter(2) [of b] by simp
  then show ?thesis by (simp only: b64Byte2_def char_of_byteVal)
qed

lemma b64Byte3_join: "b64Byte3 (u * 4 + byteVal c div 64) (byteVal c mod 64) = c"
proof -
  have "(u * 4 + byteVal c div 64) mod 4 * 64 + byteVal c mod 64 = byteVal c"
    using byteVal_quarter(3) [of c] by simp
  then show ?thesis by (simp only: b64Byte3_def char_of_byteVal)
qed

lemma b64_char_facts:
  "b64Val (b64Char (byteVal a div 4)) = Some (byteVal a div 4)"
  "b64Val (b64Char (byteVal a mod 4 * 16)) = Some (byteVal a mod 4 * 16)"
  "b64Val (b64Char (byteVal a mod 4 * 16 + byteVal b div 16)) = Some (byteVal a mod 4 * 16 + byteVal b div 16)"
  "b64Val (b64Char (byteVal b mod 16 * 4)) = Some (byteVal b mod 16 * 4)"
  "b64Val (b64Char (byteVal b mod 16 * 4 + byteVal c div 64)) = Some (byteVal b mod 16 * 4 + byteVal c div 64)"
  "b64Val (b64Char (byteVal c mod 64)) = Some (byteVal c mod 64)"
  "b64Char (byteVal b mod 16 * 4) \<noteq> CHR ''=''"
  "b64Char (byteVal c mod 64) \<noteq> CHR ''=''"
  by (intro b64Val_Char b64Char_not_pad b64_sextets byteVal_quarter)+

lemma b64Groups_Encode: "b64Groups (b64Encode s) = Some s"
proof (induction s rule: b64Encode.induct)
  case (2 a)
  then show ?case using b64Byte1_join [of 0 a] by (simp add: b64_char_facts)
next
  case (3 a b)
  then show ?case
    using b64Byte1_join [of "byteVal b div 16" a] b64Byte2_join [of 0 "byteVal a mod 4" b] byteVal_quarter(2) [of b]
    by (simp add: b64_char_facts)
next
  case (4 a b c s)
  then show ?case
    using b64Byte1_join [of "byteVal b div 16" a] b64Byte2_join [of "byteVal c div 64" "byteVal a mod 4" b]
      byteVal_quarter(2) [of b] byteVal_quarter(3) [of c] b64Byte3_join [of "byteVal b mod 16" c]
    by (simp add: b64_char_facts)
qed simp

lemma b64Encode_no_break: "list_all (\<lambda>d. \<not> isLineBreak d) (b64Encode s)"
  by (induction s rule: b64Encode.induct)
    (simp_all add: b64Char_not_break b64_sextets byteVal_quarter isLineBreak_pad)

lemma b64_roundtrip: "b64Decode (b64Encode s) = Some s"
proof -
  have "filter (\<lambda>c. \<not> isLineBreak c) (b64Encode s) = b64Encode s"
    using b64Encode_no_break [of s] by (simp add: filter_id_conv list_all_iff)
  then show ?thesis by (simp add: b64Decode_def b64Groups_Encode)
qed

section \<open>Query specifications\<close>

record AuditLogQuerySpec =
  aqStartTime :: string
  aqEndTime :: string
  aqFilter :: string
  aqLimit :: int
  aqContinue :: string

record ActivityQuerySpec =
  acStartTime :: string
  acEndTime :: string
  acSearch :: string
  acFilter :: string
  acLimit :: int
  acContinue :: string

record EventQuerySpec =
  eqStartTime :: string
  eqEndTime :: string
  eqNamespace :: string
  eqFieldSelector :: string
  eqLimit :: int
  eqContinue :: string

section \<open>Cursors\<close>

definition cursorTTL :: int where "cursorTTL = hour"

record cursorData =
  cdTimestamp :: instant
  cdAuditID :: string
  cdQueryHash :: string
  cdIssuedAt :: instant

record activityCursorData =
  acdTimestamp :: instant
  acdName :: string
  acdQueryHash :: string
  acdIssuedAt :: instant

record eventQueryCursorData =
  ecdOffset :: int
  ecdQueryHash :: string
  ecdIssuedAt :: instant

text \<open>\<open>json.Marshal\<close> and \<open>json.Unmarshal\<close> at one of these types.\<close>

record 'd json_codec =
  jcMarshal :: "'d \<Rightarrow> string"
  jcUnmarshal :: "string \<Rightarrow> 'd option"

text \<open>The reasons a cursor is refused; the message of an expired one names its age.\<close>

datatype cursor_error = CursorUndecodable | CursorInvalid | CursorQueryChanged | CursorExpired int

definition hash16 :: "string list \<Rightarrow> string" where
  "hash16 parts = b64Encode (take 16 (sha256 (joinStr ''|'' parts)))"

definition hashQueryParams :: "AuditLogQuerySpec \<Rightarrow> string" where
  "hashQueryParams spec = hash16 [aqStartTime spec, aqEndTime spec, aqFilter spec, fmtInt (aqLimit spec)]"

definition encodeCursor :: "cursorData json_codec \<Rightarrow> instant \<Rightarrow> instant \<Rightarrow> string \<Rightarrow> AuditLogQuerySpec \<Rightarrow> string" where
  "encodeCursor codec now timestamp aid spec =
     b64Encode (jcMarshal codec
       \<lparr>cdTimestamp = timestamp, cdAuditID = aid, cdQueryHash = hashQueryParams spec, cdIssuedAt = now\<rparr>)"

definition decodeCursor :: "cursorData json_codec \<Rightarrow> instant \<Rightarrow> string \<Rightarrow> AuditLogQuerySpec \<Rightarrow> cursor_error + instant \<times> string" where
  "decodeCursor codec now cursor spec =
     (case b64Decode cursor of
        None \<Rightarrow> Inl CursorUndecodable
      | Some decoded \<Rightarrow>
          (case jcUnmarshal codec decoded of
             None \<Rightarrow> Inl CursorInvalid
           | Some d \<Rightarrow>
               if cdQueryHash d \<noteq> hashQueryParams spec then Inl CursorQueryChanged
               else if isZeroTime (cdIssuedAt d) then Inl CursorInvalid
               else if now - cdIssuedAt d > cursorTTL then Inl (CursorExpired (now - cdIssuedAt d))
               else Inr (cdTimestamp d, cdAuditID d)))"

definition ValidateCursor :: "cursorData json_codec \<Rightarrow> instant \<Rightarrow> string \<Rightarrow> AuditLogQuerySpec \<Rightarrow> cursor_error option" where
  "ValidateCursor codec now cursor spec = (case decodeCursor codec now cursor spec of Inl e \<Rightarrow> Some e | Inr _ \<Rightarrow> None)"

definition hashActivityQueryParams :: "ActivityQuerySpec \<Rightarrow> string" where
  "hashActivityQueryParams spec =
     hash16 [acStartTime spec, acEndTime spec, acFilter spec, acSearch spec, fmtInt (acLimit spec)]"

text \<open>\<open>decodeMeta\<close> reads the name and the creation timestamp of an activity's JSON text; a
  timestamp that does not parse is the zero time, text that is no such object gives no cursor.\<close>

definition encodeActivityCursor ::
  "activityCursorData json_codec \<Rightarrow> (string \<Rightarrow> (string \<times> string) option) \<Rightarrow> instant \<Rightarrow> string \<Rightarrow> ActivityQuerySpec \<Rightarrow> string" where
  "encodeActivityCursor codec decodeMeta now lastActivityJSON spec =
     (case decodeMeta lastActivityJSON of
        None \<Rightarrow> ''''
      | Some (name, created) \<Rightarrow>
          (let timestamp = (case parseRFC3339 created of Some t \<Rightarrow> t | None \<Rightarrow> zeroTime)
           in b64Encode (jcMarshal codec
                \<lparr>acdTimestamp = timestamp, acdName = name, acdQueryHash = hashActivityQueryParams spec, acdIssuedAt = now\<rparr>)))"

definition decodeActivityCursor ::
  "activityCursorData json_codec \<Rightarrow> instant \<Rightarrow> string \<Rightarrow> ActivityQuerySpec \<Rightarrow> cursor_error + instant \<times> string" where
  "decodeActivityCursor codec now cursor spec =
     (case b64Decode cursor of
        None \<Rightarrow> Inl CursorUndecodable
      | Some decoded \<Rightarrow>
          (case jcUnmarshal codec decoded of
             None \<Rightarrow> Inl CursorInvalid
           | Some d \<Rightarrow>
               if acdName d = '''' then Inl CursorInvalid
               else if acdQueryHash d \<noteq> hashActivityQueryParams spec then Inl CursorQueryChanged
               else if now - acdIssuedAt d > cursorTTL then Inl (CursorExpired (now - acdIssuedAt d))
               else Inr (acdTimestamp d, acdName d)))"

definition eventQueryDefaultLimit :: int where "eventQueryDefaultLimit = 100"
definition eventQueryMaxLimit :: int where "eventQueryMaxLimit = 1000"

definition resolveEventQueryLimit :: "int \<Rightarrow> int" where
  "resolveEventQueryLimit requested =
     (if requested \<le> 0 then eventQueryDefaultLimit
      else if requested > eventQueryMaxLimit then eventQueryMaxLimit else requested)"

definition hashEventQueryParams :: "EventQuerySpec \<Rightarrow> string" where
  "hashEventQueryParams spec =
     hash16 [eqStartTime spec, eqEndTime spec, eqNamespace spec, eqFieldSelector spec, fmtInt (eqLimit spec)]"

definition decodeEventQueryCursor :: "eventQueryCursorData json_codec \<Rightarrow> instant \<Rightarrow> string \<Rightarrow> EventQuerySpec \<Rightarrow> cursor_error + int" where
  "decodeEventQueryCursor codec now cursor spec =
     (case b64Decode cursor of
        None \<Rightarrow> Inl CursorUndecodable
      | Some decoded \<Rightarrow>
          (case jcUnmarshal codec decoded of
             None \<Rightarrow> Inl CursorInvalid
           | Some d \<Rightarrow>
               if ecdQueryHash d \<noteq> hashEventQueryParams spec then Inl CursorQueryChanged
               else if isZeroTime (ecdIssuedAt d) then Inl CursorInvalid
               else if now - ecdIssuedAt d > cursorTTL then Inl (CursorExpired (now - ecdIssuedAt d))
               else Inr (ecdOffset d)))"

definition ValidateEventQueryCursor :: "eventQueryCursorData json_codec \<Rightarrow> instant \<Rightarrow> string \<Rightarrow> EventQuerySpec \<Rightarrow> cursor_error option" where
  "ValidateEventQueryCursor codec now cursor spec =
     (case decodeEventQueryCursor codec now cursor spec of Inl e \<Rightarrow> Some e | Inr _ \<Rightarrow> None)"

text \<open>Conversion to \<open>int32\<close>, the type of offsets.\<close>

definition wrap32 :: "int \<Rightarrow> int" where
  "wrap32 x = (x + 2 ^ 31) mod 2 ^ 32 - 2 ^ 31"

text \<open>The next offset is that of the current page plus the page size; a cursor that does not decode counts as none.\<close>

definition encodeEventQueryCursor :: "eventQueryCursorData json_codec \<Rightarrow> instant \<Rightarrow> EventQuerySpec \<Rightarrow> string" where
  "encodeEventQueryCursor codec now spec =
     (let currentOffset =
            (if eqContinue spec = '''' then 0
             else case decodeEventQueryCursor codec now (eqContinue spec) spec of Inr offset \<Rightarrow> offset | Inl _ \<Rightarrow> 0)
      in b64Encode (jcMarshal codec
           \<lparr>ecdOffset = wrap32 (currentOffset + resolveEventQueryLimit (eqLimit spec)),
            ecdQueryHash = hashEventQueryParams spec, ecdIssuedAt = now\<rparr>))"

section \<open>Properties\<close>

text \<open>
  C36: an audit log cursor decodes to the position it was issued for, for any query with the same
  parameters, whatever its own continue field is, and for one hour; after that it is refused as
  expired, and for a query whose parameters hash differently it is refused as well. What JSON has
  to give is that the one object encoded is read back.
\<close>

theorem audit_cursor_roundtrip:
  assumes "jcUnmarshal codec (jcMarshal codec \<lparr>cdTimestamp = timestamp, cdAuditID = aid, cdQueryHash = hashQueryParams spec, cdIssuedAt = now\<rparr>)
           = Some \<lparr>cdTimestamp = timestamp, cdAuditID = aid, cdQueryHash = hashQueryParams spec, cdIssuedAt = now\<rparr>"
    and "\<not> isZeroTime now"
  shows "decodeCursor codec now' (encodeCursor codec now timestamp aid spec) spec'
         = (if hashQueryParams spec' \<noteq> hashQueryParams spec then Inl CursorQueryChanged
            else if now' - now > cursorTTL then Inl (CursorExpired (now' - now))
            else Inr (timestamp, aid))
       \<and> hashQueryParams (spec\<lparr>aqContinue := c\<rparr>) = hashQueryParams spec"
  using assms by (simp add: decodeCursor_def encodeCursor_def b64_roundtrip hashQueryParams_def)

definition sampleSpec :: AuditLogQuerySpec where
  "sampleSpec = \<lparr>aqStartTime = ''now-7d'', aqEndTime = ''now'', aqFilter = '''', aqLimit = 10, aqContinue = ''''\<rparr>"

definition oneObjectCodec :: "'d \<Rightarrow> 'd json_codec" where
  "oneObjectCodec d = \<lparr>jcMarshal = (\<lambda>_. ''{}''), jcUnmarshal = (\<lambda>s. if s = ''{}'' then Some d else None)\<rparr>"

lemma audit_cursor_roundtrip_witness:
  "let codec = oneObjectCodec \<lparr>cdTimestamp = 5, cdAuditID = ''id'', cdQueryHash = hashQueryParams sampleSpec, cdIssuedAt = 7\<rparr>
   in decodeCursor codec (7 + minute) (encodeCursor codec 7 5 ''id'' sampleSpec) (sampleSpec\<lparr>aqContinue := ''x''\<rparr>) = Inr (5, ''id'')"
proof -
  let ?codec = "oneObjectCodec \<lparr>cdTimestamp = 5, cdAuditID = ''id'', cdQueryHash = hashQueryParams sampleSpec, cdIssuedAt = 7\<rparr>"
  have "\<not> isZeroTime 7" by (simp add: isZeroTime_def zeroTime_def second_def)
  with audit_cursor_roundtrip [of ?codec 5 "''id''" sampleSpec 7 "7 + minute" "sampleSpec\<lparr>aqContinue := ''x''\<rparr>" "''x''"]
  show ?thesis by (simp add: Let_def oneObjectCodec_def cursorTTL_def minute_def hour_def second_def)
qed

text \<open>
  The parameters are joined with a bar that may also occur in them, so a cursor of one query
  is accepted by a different one: moving text across a bar between two fields keeps the hash.
\<close>

theorem cursor_hash_collides:
  "\<exists>spec spec'. acFilter spec \<noteq> acFilter spec' \<and> acSearch spec \<noteq> acSearch spec'
     \<and> hashActivityQueryParams spec = hashActivityQueryParams spec'"
proof -
  let ?s = "\<lparr>acStartTime = '''', acEndTime = '''', acSearch = ''y|z'', acFilter = ''x'', acLimit = 1, acContinue = ''''\<rparr>"
  let ?t = "\<lparr>acStartTime = '''', acEndTime = '''', acSearch = ''z'', acFilter = ''x|y'', acLimit = 1, acContinue = ''''\<rparr>"
  have "hashActivityQueryParams ?s = hashActivityQueryParams ?t" by (simp add: hashActivityQueryParams_def hash16_def)
  then show ?thesis by (intro exI [of _ ?s] exI [of _ ?t]) simp
qed

end
