(* ===== verification/Storage_Fields.thy ===== *)
theory Storage_Fields
  imports Sql_Filter Cursors "HOL-Library.List_Lexorder" "HOL-Library.Char_ord" "HOL-Library.Product_Lexorder"
begin

text \<open>
  internal/storage: fields.go and events_fields.go, the fields that facet queries group by and the
  field selectors of event queries, each a table from an API path to a ClickHouse column. Strings
  are ordered bytewise, as Go and ClickHouse order them.
\<close>

section \<open>fields.go: facets\<close>

definition AuditLogFacetFields :: "(string \<times> string) list" where
  "AuditLogFacetFields =
     [(''verb'', ''The API verb (get, list, create, update, delete, etc.)''),
      (''user.username'', ''The username of the actor''), (''user.uid'', ''The UID of the actor''),
      (''responseStatus.code'', ''The HTTP response status code''),
      (''objectRef.namespace'', ''The namespace of the target object''),
      (''objectRef.resource'', ''The resource type''),
      (''objectRef.apiGroup'', ''The API group of the target resource'')]"

definition auditLogFacetColumnMapping :: "(string \<times> string) list" where
  "auditLogFacetColumnMapping =
     [(''verb'', ''verb''), (''user.username'', ''user''), (''user.uid'', ''user_uid''),
      (''responseStatus.code'', ''status_code''), (''objectRef.namespace'', ''namespace''),
      (''objectRef.resource'', ''resource''), (''objectRef.apiGroup'', ''api_group'')]"

definition ActivityFacetFields :: "(string \<times> string) list" where
  "ActivityFacetFields =
     [(''spec.actor.name'', ''The name of the actor who performed the action''),
      (''spec.actor.type'', ''The type of actor (user, service, system)''),
      (''spec.resource.apiGroup'', ''The API group of the target resource''),
      (''spec.resource.kind'', ''The kind of the target resource''),
      (''spec.resource.namespace'', ''The namespace of the target resource''),
      (''spec.changeSource'', ''The source of the change (human, automation, system)''),
      (''spec.source.planeType'', ''The plane the underlying event originated from (management, edge)''),
      (''spec.source.cluster'', ''The cluster the underlying event originated from''),
      (''spec.source.region'', ''The region the underlying event originated from''),
      (''spec.source.city'', ''The city the underlying event originated from'')]"

definition activityFacetColumnMapping :: "(string \<times> string) list" where
  "activityFacetColumnMapping =
     [(''spec.actor.name'', ''actor_name''), (''spec.actor.type'', ''actor_type''),
      (''spec.resource.apiGroup'', ''api_group''), (''spec.resource.kind'', ''resource_kind''),
      (''spec.resource.namespace'', ''resource_namespace''), (''spec.changeSource'', ''change_source''),
      (''spec.source.planeType'', ''source_plane_type''), (''spec.source.cluster'', ''source_cluster''),
      (''spec.source.region'', ''source_region''), (''spec.source.city'', ''source_city'')]"

definition EventFacetFields :: "(string \<times> string) list" where
  "EventFacetFields =
     [(''regarding.kind'', ''The kind of resource the event is about (Pod, Deployment, etc.)''),
      (''regarding.namespace'', ''The namespace of the regarding object''),
      (''related.kind'', ''The kind of the related secondary object (if present)''),
      (''related.namespace'', ''The namespace of the related secondary object (if present)''),
      (''reason'', ''The event reason (Scheduled, Pulled, Created, etc.)''),
      (''type'', ''The event type (Normal, Warning)''),
      (''source.component'', ''The component that generated the event (kubelet, scheduler, etc.)''),
      (''namespace'', ''The namespace of the event itself''),
      (''sourcePlaneType'', ''The plane the event originated from (management, edge)''),
      (''sourceCluster'', ''The cluster the event originated from''),
      (''sourceRegion'', ''The region the event originated from''),
      (''sourceCity'', ''The city the event originated from'')]"

definition eventFacetColumnMapping :: "(string \<times> string) list" where
  "eventFacetColumnMapping =
     [(''regarding.kind'', ''regarding_kind''), (''regarding.namespace'', ''regarding_namespace''),
      (''related.kind'', ''related_kind''), (''related.namespace'', ''related_namespace''),
      (''reason'', ''reason''), (''type'', ''type''), (''source.component'', ''source_component''),
      (''namespace'', ''namespace''), (''sourcePlaneType'', ''source_plane_type''),
      (''sourceCluster'', ''source_cluster''), (''sourceRegion'', ''source_region''),
      (''sourceCity'', ''source_city'')]"

definition tableKey :: "(string \<times> string) list \<Rightarrow> string \<Rightarrow> bool" where
  "tableKey t k = (map_of t k \<noteq> None)"

definition sortedKeys :: "(string \<times> string) list \<Rightarrow> string list" where
  "sortedKeys m = sort (map fst m)"

definition FormatSupportedFields :: "(string \<times> string) list \<Rightarrow> string" where
  "FormatSupportedFields fs = joinStr '', '' (sortedKeys fs)"

definition IsValidAuditLogFacetField :: "string \<Rightarrow> bool" where
  "IsValidAuditLogFacetField field = tableKey AuditLogFacetFields field"

definition IsValidActivityFacetField :: "string \<Rightarrow> bool" where
  "IsValidActivityFacetField field = tableKey ActivityFacetFields field"

definition IsValidEventFacetField :: "string \<Rightarrow> bool" where
  "IsValidEventFacetField field = tableKey EventFacetFields field"

definition facetColumn :: "string \<Rightarrow> (string \<times> string) list \<Rightarrow> string \<Rightarrow> string + string" where
  "facetColumn what t field =
     (case map_of t field of None \<Rightarrow> Inl (''unsupported '' @ what @ '' facet field: '' @ field) | Some col \<Rightarrow> Inr col)"

definition GetAuditLogFacetColumn :: "string \<Rightarrow> string + string" where
  "GetAuditLogFacetColumn field = facetColumn ''audit log'' auditLogFacetColumnMapping field"

definition GetActivityFacetColumn :: "string \<Rightarrow> string + string" where
  "GetActivityFacetColumn field = facetColumn ''activity'' activityFacetColumnMapping field"

definition GetEventFacetColumn :: "string \<Rightarrow> string + string" where
  "GetEventFacetColumn field = facetColumn ''event'' eventFacetColumnMapping field"

text \<open>The startup check of the three pairs of tables; \<open>False\<close> is its panic.\<close>

definition fieldsInit :: bool where
  "fieldsInit =
     list_all (\<lambda>(fs, cs). list_all (tableKey cs) (map fst fs) \<and> list_all (tableKey fs) (map fst cs))
       [(AuditLogFacetFields, auditLogFacetColumnMapping), (ActivityFacetFields, activityFacetColumnMapping),
        (EventFacetFields, eventFacetColumnMapping)]"

section \<open>fields.go: reading a field of an event\<close>

record ObjRef =
  refAPIVersion :: string
  refKind :: string
  refNamespace :: string
  refName :: string
  refUID :: string
  refResourceVersion :: string
  refFieldPath :: string

record CoreEvent =
  cevNamespace :: string
  cevName :: string
  cevUID :: string
  cevResourceVersion :: string
  cevAnnotations :: "(string \<times> string) list"
  cevInvolvedObject :: ObjRef
  cevRelated :: "ObjRef option"
  cevReason :: string
  cevMessage :: string
  cevType :: string
  cevCount :: int
  cevFirstTimestamp :: instant
  cevLastTimestamp :: instant
  cevSourceComponent :: string
  cevSourceHost :: string

definition relatedField :: "CoreEvent \<Rightarrow> (ObjRef \<Rightarrow> string) \<Rightarrow> string" where
  "relatedField event f = (case cevRelated event of None \<Rightarrow> '''' | Some r \<Rightarrow> f r)"

definition annotation :: "CoreEvent \<Rightarrow> string \<Rightarrow> string" where
  "annotation event k = (case map_of (cevAnnotations event) k of Some v \<Rightarrow> v | None \<Rightarrow> '''')"

definition GetEventFieldValue :: "CoreEvent \<Rightarrow> string \<Rightarrow> string" where
  "GetEventFieldValue event column =
     (if column = ''namespace'' then cevNamespace event
      else if column = ''name'' then cevName event
      else if column = ''uid'' then cevUID event
      else if column = ''regarding_api_version'' then refAPIVersion (cevInvolvedObject event)
      else if column = ''regarding_kind'' then refKind (cevInvolvedObject event)
      else if column = ''regarding_namespace'' then refNamespace (cevInvolvedObject event)
      else if column = ''regarding_name'' then refName (cevInvolvedObject event)
      else if column = ''regarding_uid'' then refUID (cevInvolvedObject event)
      else if column = ''regarding_field_path'' then refFieldPath (cevInvolvedObject event)
      else if column = ''related_api_version'' then relatedField event refAPIVersion
      else if column = ''related_kind'' then relatedField event refKind
      else if column = ''related_namespace'' then relatedField event refNamespace
      else if column = ''related_name'' then relatedField event refName
      else if column = ''reason'' then cevReason event
      else if column = ''type'' then cevType event
      else if column = ''source_component'' then cevSourceComponent event
      else if column = ''source_host'' then cevSourceHost event
      else if column = ''source_plane_type'' then annotation event SourcePlaneTypeAnnotation
      else if column = ''source_cluster'' then annotation event SourceClusterAnnotation
      else if column = ''source_region'' then annotation event SourceRegionAnnotation
      else if column = ''source_city'' then annotation event SourceCityAnnotation
      else '''')"

section \<open>events_fields.go: field selectors\<close>

definition EventsFieldSelectors :: "(string \<times> string) list" where
  "EventsFieldSelectors =
     [(''metadata.namespace'', ''namespace''), (''metadata.name'', ''name''), (''metadata.uid'', ''uid''),
      (''regarding.apiVersion'', ''regarding_api_version''), (''regarding.kind'', ''regarding_kind''),
      (''regarding.namespace'', ''regarding_namespace''), (''regarding.name'', ''regarding_name''),
      (''regarding.uid'', ''regarding_uid''), (''regarding.fieldPath'', ''regarding_field_path''),
      (''related.apiVersion'', ''related_api_version''), (''related.kind'', ''related_kind''),
      (''related.namespace'', ''related_namespace''), (''related.name'', ''related_name''),
      (''reason'', ''reason''), (''type'', ''type''), (''source.component'', ''source_component''),
      (''source.host'', ''source_host''), (''reportingComponent'', ''source_component''),
      (''reportingInstance'', ''source_host'')]"

definition EventsFieldSelectorAliases :: "(string \<times> string) list" where
  "EventsFieldSelectorAliases =
     [(''namespace'', ''metadata.namespace''), (''name'', ''metadata.name''), (''uid'', ''metadata.uid'')]"

definition ResolveEventFieldSelector :: "string \<Rightarrow> string + string" where
  "ResolveEventFieldSelector field =
     (let path = (case map_of EventsFieldSelectorAliases field of Some fullPath \<Rightarrow> fullPath | None \<Rightarrow> field)
      in case map_of EventsFieldSelectors path of
           None \<Rightarrow> Inl (''unsupported field selector: '' @ path)
         | Some column \<Rightarrow> Inr column)"

datatype FieldSelectorOp = FieldSelectorEqual | FieldSelectorNotEqual

record FieldSelectorTerm =
  fstColumn :: string
  fstOperator :: FieldSelectorOp
  fstValue :: string

text \<open>The first occurrence of the operator splits a part into field and value.\<close>

definition cutAt :: "string \<Rightarrow> string \<Rightarrow> (string \<times> string) option" where
  "cutAt part op =
     (case indexStr part op of
        None \<Rightarrow> None
      | Some i \<Rightarrow> Some (trimSpace (take i part), trimSpace (drop (i + length op) part)))"

definition splitSelector :: "string \<Rightarrow> (string \<times> FieldSelectorOp \<times> string) option" where
  "splitSelector part =
     (case cutAt part ''!='' of
        Some (f, v) \<Rightarrow> Some (f, FieldSelectorNotEqual, v)
      | None \<Rightarrow>
          (case cutAt part ''=='' of
             Some (f, v) \<Rightarrow> Some (f, FieldSelectorEqual, v)
           | None \<Rightarrow>
               (case cutAt part ''='' of
                  Some (f, v) \<Rightarrow> Some (f, FieldSelectorEqual, v)
                | None \<Rightarrow> None)))"

text \<open>The supported fields are listed in the order of the table; Go's map order is unspecified.\<close>

fun parseSelectorParts :: "string list \<Rightarrow> string + FieldSelectorTerm list" where
  "parseSelectorParts [] = Inr []"
| "parseSelectorParts (raw # parts) =
     (let part = trimSpace raw
      in if part = '''' then parseSelectorParts parts
         else (case splitSelector part of
                 None \<Rightarrow> Inl (''invalid field selector syntax: '' @ part @ '' (expected field=value or field!=value)'')
               | Some (field, op, v) \<Rightarrow>
                   (case ResolveEventFieldSelector field of
                      Inl err \<Rightarrow> Inl (err @ ''. Supported fields: '' @ joinStr '', '' (map fst EventsFieldSelectors))
                    | Inr column \<Rightarrow>
                        bind_r (parseSelectorParts parts)
                          (\<lambda>terms. Inr (\<lparr>fstColumn = column, fstOperator = op, fstValue = v\<rparr> # terms)))))"

definition ParseFieldSelector :: "string \<Rightarrow> string + FieldSelectorTerm list" where
  "ParseFieldSelector selector =
     (if selector = '''' then Inr [] else parseSelectorParts (splitByte (CHR '','') selector))"

definition ToSQL :: "FieldSelectorTerm \<Rightarrow> string \<times> string" where
  "ToSQL t =
     ((case fstOperator t of
         FieldSelectorNotEqual \<Rightarrow> fstColumn t @ '' != ?''
       | FieldSelectorEqual \<Rightarrow> fstColumn t @ '' = ?''), fstValue t)"

definition FieldSelectorTermsToSQL :: "FieldSelectorTerm list \<Rightarrow> string list \<times> string list" where
  "FieldSelectorTermsToSQL terms = (map (fst \<circ> ToSQL) terms, map (snd \<circ> ToSQL) terms)"

section \<open>Lemmas\<close>

text \<open>The startup check passes: no start of the service panics here, and every facet field that
  validation accepts has a column.\<close>

lemma fieldsInit_ok: fieldsInit
  by code_simp

lemma facet_fields_have_columns:
  "IsValidAuditLogFacetField f \<longleftrightarrow> isOk (GetAuditLogFacetColumn f)"
  "IsValidActivityFacetField f \<longleftrightarrow> isOk (GetActivityFacetColumn f)"
  "IsValidEventFacetField f \<longleftrightarrow> isOk (GetEventFacetColumn f)"
proof -
  have keys: "map fst AuditLogFacetFields = map fst auditLogFacetColumnMapping" "map fst ActivityFacetFields = map fst activityFacetColumnMapping"
    "map fst EventFacetFields = map fst eventFacetColumnMapping"
    by code_simp+
  have ok: "isOk (facetColumn w t f) \<longleftrightarrow> f \<in> set (map fst t)" for w t
  proof (cases "map_of t f")
    case None
    then have "f \<notin> fst ` set t" by (simp add: map_of_eq_None_iff)
    with None show ?thesis by (simp add: facetColumn_def)
  next
    case (Some c)
    then have "f \<in> fst ` set t" by (metis map_of_eq_None_iff option.discI)
    with Some show ?thesis by (simp add: facetColumn_def)
  qed
  have key: "tableKey t f \<longleftrightarrow> f \<in> set (map fst t)" for t
    by (simp add: tableKey_def map_of_eq_None_iff)
  show "IsValidAuditLogFacetField f \<longleftrightarrow> isOk (GetAuditLogFacetColumn f)"
    unfolding IsValidAuditLogFacetField_def GetAuditLogFacetColumn_def ok key keys ..
  show "IsValidActivityFacetField f \<longleftrightarrow> isOk (GetActivityFacetColumn f)"
    unfolding IsValidActivityFacetField_def GetActivityFacetColumn_def ok key keys ..
  show "IsValidEventFacetField f \<longleftrightarrow> isOk (GetEventFacetColumn f)"
    unfolding IsValidEventFacetField_def GetEventFacetColumn_def ok key keys ..
qed

end
