(* ===== verification/Storage_Query.thy ===== *)
theory Storage_Query
  imports Storage_Fields
begin

text \<open>
  The queries of internal/storage: clickhouse.go (audit logs, activities and their facets),
  event_query_clickhouse.go and events_facets.go. A query is a value whose rendering is the text
  the source sends: a selection, conditions with their arguments, an order and a limit. The
  driver is a parameter that answers a query with rows or an error. What a condition means of a
  row is ClickHouse's own meaning of that text; it is written down once and the properties are
  stated with it. Spans, metrics and log lines are left out.
\<close>

section \<open>Conditions and queries\<close>

text \<open>
  A comparison of a column with an argument, the two parts of a user's scope, a full-text search,
  a converted filter, a field that must not be empty, and the position after a cursor, with the
  column that breaks ties.
\<close>

datatype sql_cond =
    CCompare string string sql_arg
  | CUserScope string
  | CSearch "string list"
  | CFilter string "sql_arg list"
  | CNotEmpty string
  | CAfterCursor string instant string

definition condText :: "sql_cond \<Rightarrow> string" where
  "condText c =
     (case c of
        CCompare column op _ \<Rightarrow> column @ '' '' @ op @ '' ?''
      | CUserScope _ \<Rightarrow>
          ''(actor_uid = ? OR (origin_type = '' @ [CHR 0x27] @ ''event'' @ [CHR 0x27] @ '' AND api_group = '' @ [CHR 0x27] @ ''iam.miloapis.com''
          @ [CHR 0x27] @ '' AND resource_kind = '' @ [CHR 0x27] @ ''User'' @ [CHR 0x27] @ '' AND resource_name = ?))''
      | CSearch _ \<Rightarrow> ''multiSearchAnyCaseInsensitive(summary, ?) > 0''
      | CFilter sql _ \<Rightarrow> sql
      | CNotEmpty column \<Rightarrow> column @ '' != '' @ [CHR 0x27, CHR 0x27]
      | CAfterCursor tie _ _ \<Rightarrow>
          ''(toStartOfHour(timestamp) < toStartOfHour(?) OR (toStartOfHour(timestamp) = toStartOfHour(?) AND timestamp < ?) OR (timestamp = ? AND ''
          @ tie @ '' < ?))'')"

definition condArgs :: "sql_cond \<Rightarrow> sql_arg list" where
  "condArgs c =
     (case c of
        CCompare _ _ v \<Rightarrow> [v]
      | CUserScope uid \<Rightarrow> [AString uid, AString uid]
      | CSearch terms \<Rightarrow> [AStrings terms]
      | CFilter _ args \<Rightarrow> args
      | CNotEmpty _ \<Rightarrow> []
      | CAfterCursor _ t i \<Rightarrow> [ATime t, ATime t, ATime t, ATime t, AString i])"

text \<open>The text before the conditions, the conditions, what follows them, and the two numbers at the end.\<close>

record sql_query =
  sqSelect :: string
  sqConds :: "sql_cond list"
  sqGroup :: string
  sqOrder :: "string list"
  sqOrderText :: string
  sqLimit :: int
  sqOffset :: "int option"

definition whereClause :: "sql_cond list \<Rightarrow> string" where
  "whereClause conditions =
     (if conditions = [] then '''' else '' WHERE '' @ joinStr '' AND '' (map condText conditions))"

definition renderQuery :: "sql_query \<Rightarrow> string" where
  "renderQuery q =
     sqSelect q @ whereClause (sqConds q) @ sqGroup q @ sqOrderText q @ '' LIMIT '' @ fmtInt (sqLimit q)
     @ (case sqOffset q of None \<Rightarrow> '''' | Some o' \<Rightarrow> '' OFFSET '' @ fmtInt o')"

definition queryArgs :: "sql_query \<Rightarrow> sql_arg list" where
  "queryArgs q = concat (map condArgs (sqConds q))"

definition descOrder :: "string list \<Rightarrow> string" where
  "descOrder columns = '' ORDER BY '' @ joinStr '', '' (map (\<lambda>c. c @ '' DESC'') columns)"

datatype query_error =
    QTime string time_error | QFilter sql_error | QCursor cursor_error | QSelector string | QFacet string | QStorage string | QPanic

section \<open>Parts that the queries share\<close>

text \<open>\<open>strings.ReplaceAll\<close> for a non-empty old text, \<open>strings.Fields\<close> on ASCII text.\<close>

function replaceAllStr :: "string \<Rightarrow> string \<Rightarrow> string \<Rightarrow> string" where
  "replaceAllStr s old new =
     (if old = [] then s
      else case s of
        [] \<Rightarrow> []
      | c # t \<Rightarrow> if hasPrefix s old then new @ replaceAllStr (drop (length old) s) old new else c # replaceAllStr t old new)"
  by pat_completeness auto
termination
  by (relation "measure (length \<circ> fst)") auto

declare replaceAllStr.simps [simp del]

definition wordsOf :: "string \<Rightarrow> string list" where
  "wordsOf s = filter (\<lambda>t. t \<noteq> []) (splitByte (CHR '' '') (map (\<lambda>c. if isSpace c then CHR '' '' else c) s))"

definition processWhere :: "string \<Rightarrow> nat \<Rightarrow> string" where
  "processWhere celWhere n = foldl (\<lambda>w i. replaceAllStr w (placeholder (Suc i)) ''?'') celWhere [0..<n]"

definition filterConds :: "(string \<Rightarrow> sql_error + (string \<times> sql_arg list)) \<Rightarrow> string \<Rightarrow> query_error + sql_cond list" where
  "filterConds conv filterExpr =
     (if filterExpr = '''' then Inr []
      else (case conv filterExpr of
              Inl e \<Rightarrow> Inl (QFilter e)
            | Inr (celWhere, celArgs) \<Rightarrow>
                Inr (if celWhere = '''' then [] else [CFilter (processWhere celWhere (length celArgs)) celArgs])))"

definition timeCond :: "string \<Rightarrow> string \<Rightarrow> string \<Rightarrow> string \<Rightarrow> instant \<Rightarrow> query_error + sql_cond list" where
  "timeCond column op what timeStr now =
     (if timeStr = '''' then Inr []
      else (case ParseFlexibleTime timeStr now of
              Inl e \<Rightarrow> Inl (QTime what e)
            | Inr t \<Rightarrow> Inr [CCompare column op (ATime t)]))"

definition timeConds :: "string \<Rightarrow> string \<Rightarrow> string \<Rightarrow> instant \<Rightarrow> query_error + sql_cond list" where
  "timeConds column startTime endTime now =
     bind_r (timeCond column ''>='' ''startTime'' startTime now) (\<lambda>s.
       bind_r (timeCond column ''<'' ''endTime'' endTime now) (\<lambda>e. Inr (s @ e)))"

definition pageLimit :: "int \<Rightarrow> int \<Rightarrow> int" where
  "pageLimit maxPageSize requested =
     (let limit = (if requested \<le> 0 then 100 else requested) in if limit > maxPageSize then maxPageSize else limit)"

definition facetLimit :: "int \<Rightarrow> int" where
  "facetLimit requested = (let limit = (if requested \<le> 0 then 20 else requested) in if limit > 100 then 100 else limit)"

text \<open>The scope of audit logs, of activities and of events.\<close>

definition auditScopeConds :: "ScopeContext \<Rightarrow> sql_cond list" where
  "auditScopeConds scope =
     (if scopeType scope = TenantTypePlatform then []
      else if scopeType scope = TenantTypeUser then [CCompare ''user_uid'' ''='' (AString (scopeName scope))]
      else [CCompare ''scope_type'' ''='' (AString (scopeType scope)), CCompare ''scope_name'' ''='' (AString (scopeName scope))])"

definition userScopeActivityCondition :: "string \<Rightarrow> sql_cond" where
  "userScopeActivityCondition uid = CUserScope uid"

definition activityScopeConds :: "ScopeContext \<Rightarrow> sql_cond list" where
  "activityScopeConds scope =
     (if scopeType scope = TenantTypePlatform then []
      else if scopeType scope = TenantTypeUser then [userScopeActivityCondition (scopeName scope)]
      else [CCompare ''tenant_type'' ''='' (AString (scopeType scope)), CCompare ''tenant_name'' ''='' (AString (scopeName scope))])"

definition buildScopeConditions :: "ScopeContext \<Rightarrow> sql_cond list" where
  "buildScopeConditions scope =
     (if scopeType scope = '''' \<or> scopeType scope = TenantTypePlatform then []
      else if scopeType scope \<in> {TenantTypeOrganization, TenantTypeProject, TenantTypeUser}
      then [CCompare ''scope_type'' ''='' (AString (scopeType scope)), CCompare ''scope_name'' ''='' (AString (scopeName scope))]
      else [])"

section \<open>clickhouse.go: audit logs\<close>

record StorageConfig =
  cfgDatabase :: string
  cfgMaxPageSize :: int

definition hasUserFilter :: "string \<Rightarrow> bool" where
  "hasUserFilter f =
     (f \<noteq> '''' \<and> (containsStr f ''user.username'' \<or> containsStr f ''user.groups'' \<or> containsStr f ''user.uid''
        \<or> (containsStr f ''user'' \<and> (containsStr f ''=='' \<or> containsStr f ''!=''))))"

definition hasAPIGroupFilter :: "string \<Rightarrow> bool" where
  "hasAPIGroupFilter f = (f \<noteq> '''' \<and> (containsStr f ''resource.apiGroup'' \<or> containsStr f ''api_group''))"

definition auditOrder :: "ScopeContext \<Rightarrow> string \<Rightarrow> string list" where
  "auditOrder scope f =
     [''toStartOfHour(timestamp)'', ''timestamp'']
     @ (if scopeType scope = ''platform''
        then (if hasUserFilter f then [''user'', ''api_group'', ''resource'', ''audit_id''] else [''api_group'', ''resource'', ''audit_id''])
        else if scopeType scope = TenantTypeUser then [''user_uid'', ''api_group'', ''resource'', ''audit_id'']
        else [''scope_type'', ''scope_name'', ''user'', ''audit_id''])"

definition auditCursorConds :: "cursorData json_codec \<Rightarrow> instant \<Rightarrow> AuditLogQuerySpec \<Rightarrow> query_error + sql_cond list" where
  "auditCursorConds codec now spec =
     (if aqContinue spec = '''' then Inr []
      else (case decodeCursor codec now (aqContinue spec) spec of
              Inl e \<Rightarrow> Inl (QCursor e)
            | Inr (t, i) \<Rightarrow> Inr [CAfterCursor ''audit_id'' t i]))"

text \<open>The clock is read once for the two bounds and once for the age of the cursor.\<close>

definition buildQuery ::
  "StorageConfig \<Rightarrow> (string \<Rightarrow> filter_compile) \<Rightarrow> cursorData json_codec \<Rightarrow> instant \<Rightarrow> instant \<Rightarrow> AuditLogQuerySpec \<Rightarrow> ScopeContext \<Rightarrow>
   query_error + sql_query" where
  "buildQuery cfg celc codec now now' spec scope =
     bind_r (timeConds ''timestamp'' (aqStartTime spec) (aqEndTime spec) now) (\<lambda>times.
       bind_r (filterConds (ConvertToClickHouseSQL celc) (aqFilter spec)) (\<lambda>filters.
         bind_r (auditCursorConds codec now' spec) (\<lambda>cursor.
           Inr \<lparr>sqSelect = ''SELECT event_json FROM '' @ cfgDatabase cfg @ ''.audit_logs'',
                sqConds = auditScopeConds scope @ times @ filters @ cursor, sqGroup = '''',
                sqOrder = auditOrder scope (aqFilter spec), sqOrderText = descOrder (auditOrder scope (aqFilter spec)),
                sqLimit = wrap32 (pageLimit (cfgMaxPageSize cfg) (aqLimit spec) + 1), sqOffset = None\<rparr>)))"

text \<open>
  The driver's answer: an error of the call, or the rows in order, a row that fails to scan being
  \<open>None\<close>, and whether the iteration ended with an error.
\<close>

record query_rows =
  qrRows :: "string option list"
  qrErr :: bool

text \<open>Rows that do not decode are skipped.\<close>

fun scanRows :: "(string \<Rightarrow> 'e option) \<Rightarrow> string option list \<Rightarrow> 'e list option" where
  "scanRows decode [] = Some []"
| "scanRows decode (None # rows) = None"
| "scanRows decode (Some txt # rows) =
     (case scanRows decode rows of
        None \<Rightarrow> None
      | Some es \<Rightarrow> Some (case decode txt of None \<Rightarrow> es | Some e \<Rightarrow> e # es))"

definition unable :: "string \<Rightarrow> query_error" where
  "unable what = QStorage (''unable to retrieve '' @ what @ ''. Try again or contact support if the problem persists'')"

definition readRows :: "string \<Rightarrow> (string \<Rightarrow> 'e option) \<Rightarrow> string + query_rows \<Rightarrow> query_error + 'e list" where
  "readRows what decode answer =
     (case answer of
        Inl _ \<Rightarrow> Inl (unable what)
      | Inr rows \<Rightarrow>
          (case scanRows decode (qrRows rows) of
             None \<Rightarrow> Inl (unable what)
           | Some es \<Rightarrow> if qrErr rows then Inl (unable what) else Inr es))"

text \<open>One page: with more events than the limit, the first ones and a cursor after the last of them.\<close>

definition cutPage :: "int \<Rightarrow> ('e \<Rightarrow> string) \<Rightarrow> 'e list \<Rightarrow> query_error + 'e list \<times> string" where
  "cutPage limit token es =
     (if int (length es) > limit
      then (if limit < 0 then Inl QPanic
            else (let page = take (nat limit) es in Inr (page, if page = [] then '''' else token (last page))))
      else Inr (es, ''''))"

record StoredAudit =
  saStageTimestamp :: instant
  saAuditID :: string
  saEvent :: AuditEvent

type_synonym driver = "sql_query \<Rightarrow> string + query_rows"

definition QueryAuditLogs ::
  "StorageConfig \<Rightarrow> (string \<Rightarrow> filter_compile) \<Rightarrow> cursorData json_codec \<Rightarrow> (string \<Rightarrow> StoredAudit option) \<Rightarrow> driver \<Rightarrow>
   instant \<Rightarrow> AuditLogQuerySpec \<Rightarrow> ScopeContext \<Rightarrow> query_error + StoredAudit list \<times> string" where
  "QueryAuditLogs cfg celc codec decode conn now spec scope =
     bind_r (buildQuery cfg celc codec now now spec scope) (\<lambda>q.
       bind_r (readRows ''audit logs'' decode (conn q)) (\<lambda>events.
         cutPage (pageLimit (cfgMaxPageSize cfg) (aqLimit spec))
           (\<lambda>e. encodeCursor codec now (saStageTimestamp e) (saAuditID e) spec) events))"

section \<open>clickhouse.go: activities\<close>

definition activityCursorConds :: "activityCursorData json_codec \<Rightarrow> instant \<Rightarrow> ActivityQuerySpec \<Rightarrow> query_error + sql_cond list" where
  "activityCursorConds codec now spec =
     (if acContinue spec = '''' then Inr []
      else (case decodeActivityCursor codec now (acContinue spec) spec of
              Inl e \<Rightarrow> Inl (QCursor e)
            | Inr (t, n) \<Rightarrow> Inr [CAfterCursor ''activity_name'' t n]))"

definition searchConds :: "string \<Rightarrow> sql_cond list" where
  "searchConds search = (if search = '''' \<or> wordsOf search = [] then [] else [CSearch (wordsOf search)])"

definition activityOrder :: "string list" where
  "activityOrder = [''toStartOfHour(timestamp)'', ''timestamp'', ''activity_name'']"

definition activityBaseConds ::
  "(string \<Rightarrow> filter_compile) \<Rightarrow> instant \<Rightarrow> ActivityQuerySpec \<Rightarrow> ScopeContext \<Rightarrow> query_error + sql_cond list" where
  "activityBaseConds celc now spec scope =
     bind_r (timeConds ''timestamp'' (acStartTime spec) (acEndTime spec) now) (\<lambda>times.
       bind_r (filterConds (ConvertActivityToClickHouseSQL celc) (acFilter spec)) (\<lambda>filters.
         Inr (activityScopeConds scope @ times @ searchConds (acSearch spec) @ filters)))"

definition buildActivityQuery ::
  "StorageConfig \<Rightarrow> (string \<Rightarrow> filter_compile) \<Rightarrow> activityCursorData json_codec \<Rightarrow> instant \<Rightarrow> instant \<Rightarrow> ActivityQuerySpec \<Rightarrow> ScopeContext \<Rightarrow>
   query_error + sql_query" where
  "buildActivityQuery cfg celc codec now now' spec scope =
     bind_r (activityBaseConds celc now spec scope) (\<lambda>base.
       bind_r (activityCursorConds codec now' spec) (\<lambda>cursor.
         Inr \<lparr>sqSelect = ''SELECT activity_json FROM '' @ cfgDatabase cfg @ ''.activities'',
              sqConds = base @ cursor, sqGroup = '''', sqOrder = activityOrder, sqOrderText = descOrder activityOrder,
              sqLimit = wrap32 (pageLimit (cfgMaxPageSize cfg) (acLimit spec) + 1), sqOffset = None\<rparr>))"

definition QueryActivities ::
  "StorageConfig \<Rightarrow> (string \<Rightarrow> filter_compile) \<Rightarrow> activityCursorData json_codec \<Rightarrow> (string \<Rightarrow> (string \<times> string) option) \<Rightarrow> driver \<Rightarrow>
   instant \<Rightarrow> ActivityQuerySpec \<Rightarrow> ScopeContext \<Rightarrow> query_error + string list \<times> string" where
  "QueryActivities cfg celc codec decodeMeta conn now spec scope =
     bind_r (buildActivityQuery cfg celc codec now now spec scope) (\<lambda>q.
       bind_r (readRows ''activities'' Some (conn q)) (\<lambda>activities.
         cutPage (pageLimit (cfgMaxPageSize cfg) (acLimit spec))
           (\<lambda>a. encodeActivityCursor codec decodeMeta now a spec) activities))"

section \<open>event_query_clickhouse.go\<close>

definition selectorConds :: "string \<Rightarrow> query_error + sql_cond list" where
  "selectorConds selector =
     (if selector = '''' then Inr []
      else (case ParseFieldSelector selector of
              Inl e \<Rightarrow> Inl (QSelector e)
            | Inr terms \<Rightarrow>
                Inr (map (\<lambda>t. CCompare (fstColumn t) (case fstOperator t of FieldSelectorNotEqual \<Rightarrow> ''!='' | FieldSelectorEqual \<Rightarrow> ''='')
                       (AString (fstValue t))) terms)))"

definition buildEventQueryOrderBy :: "ScopeContext \<Rightarrow> string list" where
  "buildEventQueryOrderBy scope =
     [''toStartOfHour(last_timestamp)'', ''last_timestamp'']
     @ (if scopeType scope = '''' \<or> scopeType scope = TenantTypePlatform then [] else [''scope_type'', ''scope_name''])
     @ [''regarding_api_group'', ''regarding_kind'', ''type'', ''uid'']"

definition eventBaseConds :: "instant \<Rightarrow> EventQuerySpec \<Rightarrow> ScopeContext \<Rightarrow> query_error + sql_cond list" where
  "eventBaseConds now spec scope =
     bind_r (timeConds ''last_timestamp'' (eqStartTime spec) (eqEndTime spec) now) (\<lambda>times.
       bind_r (selectorConds (eqFieldSelector spec)) (\<lambda>sel.
         Inr (buildScopeConditions scope
              @ (if eqNamespace spec = '''' then [] else [CCompare ''namespace'' ''='' (AString (eqNamespace spec))]) @ times @ sel)))"

definition buildEventQuery ::
  "StorageConfig \<Rightarrow> eventQueryCursorData json_codec \<Rightarrow> instant \<Rightarrow> instant \<Rightarrow> EventQuerySpec \<Rightarrow> ScopeContext \<Rightarrow> query_error + sql_query" where
  "buildEventQuery cfg codec now now' spec scope =
     bind_r (eventBaseConds now spec scope) (\<lambda>base.
       bind_r (if eqContinue spec = '''' then Inr None
               else (case decodeEventQueryCursor codec now' (eqContinue spec) spec of
                       Inl e \<Rightarrow> Inl (QCursor e)
                     | Inr offset \<Rightarrow> Inr (Some offset))) (\<lambda>offset.
         Inr \<lparr>sqSelect = ''SELECT event_json FROM '' @ cfgDatabase cfg @ ''.k8s_events'',
              sqConds = base, sqGroup = '''', sqOrder = buildEventQueryOrderBy scope, sqOrderText = descOrder (buildEventQueryOrderBy scope),
              sqLimit = resolveEventQueryLimit (eqLimit spec) + 1, sqOffset = offset\<rparr>))"

text \<open>A decoded event is wrapped in an \<open>EventRecord\<close>; the wrapper adds nothing that is read here.\<close>

definition QueryEvents ::
  "StorageConfig \<Rightarrow> eventQueryCursorData json_codec \<Rightarrow> (string \<Rightarrow> 'e option) \<Rightarrow> driver \<Rightarrow> instant \<Rightarrow> EventQuerySpec \<Rightarrow> ScopeContext \<Rightarrow>
   query_error + 'e list \<times> string" where
  "QueryEvents cfg codec decode conn now spec scope =
     bind_r (buildEventQuery cfg codec now now spec scope) (\<lambda>q.
       bind_r (readRows ''events'' decode (conn q)) (\<lambda>events.
         cutPage (resolveEventQueryLimit (eqLimit spec)) (\<lambda>_. encodeEventQueryCursor codec now spec) events))"

section \<open>Facets\<close>

record FacetFieldSpec =
  ffField :: string
  ffLimit :: int

record FacetQuerySpec =
  fqStartTime :: string
  fqEndTime :: string
  fqFilter :: string
  fqFacets :: "FacetFieldSpec list"

text \<open>Rows of a facet query: a value and its count.\<close>

type_synonym facet_driver = "sql_query \<Rightarrow> string + (string \<times> int) option list \<times> bool"

definition readFacet :: "query_error \<Rightarrow> string + (string \<times> int) option list \<times> bool \<Rightarrow> query_error + (string \<times> int) list" where
  "readFacet err answer =
     (case answer of
        Inl _ \<Rightarrow> Inl err
      | Inr (rows, failed) \<Rightarrow> if None \<in> set rows \<or> failed then Inl err else Inr (map the rows))"

definition facetUnable :: "string \<Rightarrow> query_error" where
  "facetUnable field =
     QStorage (''unable to retrieve facet data for field '' @ [CHR 0x27] @ field @ [CHR 0x27] @ ''. Try again or contact support if the problem persists'')"

definition buildAuditLogFacetQuery ::
  "StorageConfig \<Rightarrow> (string \<Rightarrow> filter_compile) \<Rightarrow> instant \<Rightarrow> FacetFieldSpec \<Rightarrow> FacetQuerySpec \<Rightarrow> ScopeContext \<Rightarrow> query_error + sql_query" where
  "buildAuditLogFacetQuery cfg celc now facet spec scope =
     (case GetAuditLogFacetColumn (ffField facet) of
        Inl e \<Rightarrow> Inl (QFacet e)
      | Inr column \<Rightarrow>
          bind_r (timeConds ''timestamp'' (fqStartTime spec) (fqEndTime spec) now) (\<lambda>times.
            bind_r (filterConds (ConvertToClickHouseSQL celc) (fqFilter spec)) (\<lambda>filters.
              Inr \<lparr>sqSelect = ''SELECT toString('' @ column @ '') as value, COUNT(*) as count FROM '' @ cfgDatabase cfg @ ''.audit_logs'',
                   sqConds = auditScopeConds scope @ times @ filters, sqGroup = '' GROUP BY '' @ column,
                   sqOrder = [], sqOrderText = '' ORDER BY count DESC, value ASC'', sqLimit = facetLimit (ffLimit facet), sqOffset = None\<rparr>)))"

definition queryAuditLogFacet ::
  "StorageConfig \<Rightarrow> (string \<Rightarrow> filter_compile) \<Rightarrow> facet_driver \<Rightarrow> instant \<Rightarrow> FacetFieldSpec \<Rightarrow> FacetQuerySpec \<Rightarrow> ScopeContext \<Rightarrow>
   query_error + string \<times> (string \<times> int) list" where
  "queryAuditLogFacet cfg celc conn now facet spec scope =
     bind_r (buildAuditLogFacetQuery cfg celc now facet spec scope) (\<lambda>q.
       bind_r (readFacet (facetUnable (ffField facet)) (conn q)) (\<lambda>vs. Inr (ffField facet, vs)))"

definition buildFacetQuery ::
  "StorageConfig \<Rightarrow> (string \<Rightarrow> filter_compile) \<Rightarrow> instant \<Rightarrow> FacetFieldSpec \<Rightarrow> FacetQuerySpec \<Rightarrow> ScopeContext \<Rightarrow> query_error + sql_query" where
  "buildFacetQuery cfg celc now facet spec scope =
     (case GetActivityFacetColumn (ffField facet) of
        Inl e \<Rightarrow> Inl (QFacet e)
      | Inr column \<Rightarrow>
          bind_r (timeConds ''timestamp'' (fqStartTime spec) (fqEndTime spec) now) (\<lambda>times.
            bind_r (filterConds (ConvertActivityToClickHouseSQL celc) (fqFilter spec)) (\<lambda>filters.
              Inr \<lparr>sqSelect = ''SELECT '' @ column @ '', COUNT(*) as count FROM '' @ cfgDatabase cfg @ ''.activities'',
                   sqConds = activityScopeConds scope @ times @ filters, sqGroup = '' GROUP BY '' @ column,
                   sqOrder = [], sqOrderText = '' ORDER BY count DESC, '' @ column @ '' ASC'', sqLimit = facetLimit (ffLimit facet), sqOffset = None\<rparr>)))"

definition queryFacet ::
  "StorageConfig \<Rightarrow> (string \<Rightarrow> filter_compile) \<Rightarrow> facet_driver \<Rightarrow> instant \<Rightarrow> FacetFieldSpec \<Rightarrow> FacetQuerySpec \<Rightarrow> ScopeContext \<Rightarrow>
   query_error + string \<times> (string \<times> int) list" where
  "queryFacet cfg celc conn now facet spec scope =
     bind_r (buildFacetQuery cfg celc now facet spec scope) (\<lambda>q.
       bind_r (readFacet (facetUnable (ffField facet)) (conn q)) (\<lambda>vs. Inr (ffField facet, vs)))"

text \<open>Event facets take no filter; the empty value of an absent related object is left out.\<close>

definition buildEventFacetQuery ::
  "StorageConfig \<Rightarrow> instant \<Rightarrow> FacetFieldSpec \<Rightarrow> FacetQuerySpec \<Rightarrow> ScopeContext \<Rightarrow> query_error + sql_query" where
  "buildEventFacetQuery cfg now facet spec scope =
     (case GetEventFacetColumn (ffField facet) of
        Inl e \<Rightarrow> Inl (QFacet e)
      | Inr column \<Rightarrow>
          bind_r (timeConds ''last_timestamp'' (fqStartTime spec) (fqEndTime spec) now) (\<lambda>times.
            Inr \<lparr>sqSelect = ''SELECT '' @ column @ '', COUNT(*) as count FROM '' @ cfgDatabase cfg @ ''.k8s_events'',
                 sqConds = buildScopeConditions scope @ times @ (if hasPrefix (ffField facet) ''related.'' then [CNotEmpty column] else []),
                 sqGroup = '' GROUP BY '' @ column, sqOrder = [], sqOrderText = '' ORDER BY count DESC, '' @ column @ '' ASC'',
                 sqLimit = facetLimit (ffLimit facet), sqOffset = None\<rparr>))"

definition queryEventFacet ::
  "StorageConfig \<Rightarrow> facet_driver \<Rightarrow> instant \<Rightarrow> FacetFieldSpec \<Rightarrow> FacetQuerySpec \<Rightarrow> ScopeContext \<Rightarrow>
   query_error + string \<times> (string \<times> int) list" where
  "queryEventFacet cfg conn now facet spec scope =
     bind_r (buildEventFacetQuery cfg now facet spec scope) (\<lambda>q.
       bind_r (readFacet (QStorage ''failed to execute event facet query'') (conn q)) (\<lambda>vs. Inr (ffField facet, vs)))"

text \<open>The three loops over the requested facets stop at the first error; two of them add the field to it.\<close>

fun queryEach :: "(FacetFieldSpec \<Rightarrow> query_error + 'r) \<Rightarrow> FacetFieldSpec list \<Rightarrow> (FacetFieldSpec \<times> query_error) + 'r list" where
  "queryEach f [] = Inr []"
| "queryEach f (facet # facets) =
     (case f facet of
        Inl e \<Rightarrow> Inl (facet, e)
      | Inr r \<Rightarrow> bind_r (queryEach f facets) (\<lambda>rs. Inr (r # rs)))"

definition QueryAuditLogFacets where
  "QueryAuditLogFacets cfg celc conn now spec scope = queryEach (\<lambda>facet. queryAuditLogFacet cfg celc conn now facet spec scope) (fqFacets spec)"

definition QueryFacets where
  "QueryFacets cfg celc conn now spec scope = queryEach (\<lambda>facet. queryFacet cfg celc conn now facet spec scope) (fqFacets spec)"

definition QueryEventFacets where
  "QueryEventFacets cfg conn now spec scope = queryEach (\<lambda>facet. queryEventFacet cfg conn now facet spec scope) (fqFacets spec)"

end
