(* ===== verification/Storage_Props.thy ===== *)
theory Storage_Props
  imports Storage_Query
begin

text \<open>
  Properties of the queries of Storage_Query: rows stay in the scope asked for, every placeholder
  is bound, following the cursors of an activity query returns every activity once, and where the
  cursors of audit logs fall short. The meaning of the query texts is ClickHouse's: comparisons
  by value, strings bytewise, \<open>ORDER BY\<close> with \<open>DESC\<close> on each column, then \<open>OFFSET\<close> and \<open>LIMIT\<close>.
\<close>

section \<open>What a query means\<close>

text \<open>
  A row is the value of each column and the stored JSON text. \<open>hr\<close> is \<open>toStartOfHour\<close> in the
  server's time zone; the meaning of filters and searches is a parameter as well.
\<close>

record row =
  rowCol :: "string \<Rightarrow> sql_arg"
  rowJSON :: string

record sql_semantics =
  semHour :: "instant \<Rightarrow> instant"
  semFilter :: "string \<Rightarrow> sql_arg list \<Rightarrow> row \<Rightarrow> bool"
  semSearch :: "string list \<Rightarrow> row \<Rightarrow> bool"

definition timeOf :: "sql_arg \<Rightarrow> instant" where
  "timeOf v = (case v of ATime t \<Rightarrow> t | _ \<Rightarrow> 0)"

definition textOf :: "sql_arg \<Rightarrow> string" where
  "textOf v = (case v of AString s \<Rightarrow> s | _ \<Rightarrow> [])"

lemma timeOf_ATime [simp]: "timeOf (ATime t) = t"
  by (simp add: timeOf_def)

lemma timeOf_AString [simp]: "timeOf (AString s) = 0"
  by (simp add: timeOf_def)

lemma textOf_AString [simp]: "textOf (AString s) = s"
  by (simp add: textOf_def)

definition condHolds :: "sql_semantics \<Rightarrow> row \<Rightarrow> sql_cond \<Rightarrow> bool" where
  "condHolds sem r c =
     (case c of
        CCompare column op v \<Rightarrow>
          if op = ''='' then rowCol r column = v
          else if op = ''!='' then rowCol r column \<noteq> v
          else if op = ''>='' then timeOf v \<le> timeOf (rowCol r column)
          else if op = ''<'' then timeOf (rowCol r column) < timeOf v
          else False
      | CUserScope uid \<Rightarrow>
          rowCol r ''actor_uid'' = AString uid
          \<or> (rowCol r ''origin_type'' = AString ''event'' \<and> rowCol r ''api_group'' = AString ''iam.miloapis.com''
              \<and> rowCol r ''resource_kind'' = AString ''User'' \<and> rowCol r ''resource_name'' = AString uid)
      | CSearch terms \<Rightarrow> semSearch sem terms r
      | CFilter sql args \<Rightarrow> semFilter sem sql args r
      | CNotEmpty column \<Rightarrow> rowCol r column \<noteq> AString []
      | CAfterCursor tie t i \<Rightarrow>
          (let ts = timeOf (rowCol r ''timestamp'')
           in semHour sem ts < semHour sem t \<or> (semHour sem ts = semHour sem t \<and> ts < t) \<or> (ts = t \<and> textOf (rowCol r tie) < i)))"

definition selected :: "sql_semantics \<Rightarrow> sql_query \<Rightarrow> row list \<Rightarrow> row list" where
  "selected sem q table = filter (\<lambda>r. list_all (condHolds sem r) (sqConds q)) table"

text \<open>The sort key of a row: an hour, an instant or a text for each column of the order.\<close>

definition orderValue :: "sql_semantics \<Rightarrow> row \<Rightarrow> string \<Rightarrow> int \<times> string" where
  "orderValue sem r c =
     (if c = ''toStartOfHour(timestamp)'' then (semHour sem (timeOf (rowCol r ''timestamp'')), [])
      else if c = ''toStartOfHour(last_timestamp)'' then (semHour sem (timeOf (rowCol r ''last_timestamp'')), [])
      else (timeOf (rowCol r c), textOf (rowCol r c)))"

definition orderKey :: "sql_semantics \<Rightarrow> string list \<Rightarrow> row \<Rightarrow> (int \<times> string) list" where
  "orderKey sem columns r = map (orderValue sem r) columns"

definition ordered :: "sql_semantics \<Rightarrow> string list \<Rightarrow> row list \<Rightarrow> row list" where
  "ordered sem columns rows = rev (sort_key (orderKey sem columns) rows)"

definition runQuery :: "sql_semantics \<Rightarrow> row list \<Rightarrow> sql_query \<Rightarrow> row list" where
  "runQuery sem table q =
     take (nat (sqLimit q)) (drop (case sqOffset q of None \<Rightarrow> 0 | Some n \<Rightarrow> nat n) (ordered sem (sqOrder q) (selected sem q table)))"

definition tableDriver :: "sql_semantics \<Rightarrow> row list \<Rightarrow> driver" where
  "tableDriver sem table q = Inr \<lparr>qrRows = map (Some \<circ> rowJSON) (runQuery sem table q), qrErr = False\<rparr>"

section \<open>Tenant isolation\<close>

lemma selected_conds: "r \<in> set (selected sem q table) \<Longrightarrow> c \<in> set (sqConds q) \<Longrightarrow> condHolds sem r c"
  by (auto simp: selected_def list_all_iff)

lemma runQuery_selected: "r \<in> set (runQuery sem table q) \<Longrightarrow> r \<in> set (selected sem q table)"
  by (auto simp: runQuery_def ordered_def dest!: in_set_takeD in_set_dropD)

text \<open>What it means that a row of a table lies in a scope.\<close>

definition auditInScope :: "ScopeContext \<Rightarrow> row \<Rightarrow> bool" where
  "auditInScope scope r =
     (if scopeType scope = TenantTypePlatform then True
      else if scopeType scope = TenantTypeUser then rowCol r ''user_uid'' = AString (scopeName scope)
      else rowCol r ''scope_type'' = AString (scopeType scope) \<and> rowCol r ''scope_name'' = AString (scopeName scope))"

definition activityInScope :: "ScopeContext \<Rightarrow> row \<Rightarrow> bool" where
  "activityInScope scope r =
     (if scopeType scope = TenantTypePlatform then True
      else if scopeType scope = TenantTypeUser
      then rowCol r ''actor_uid'' = AString (scopeName scope)
           \<or> (rowCol r ''origin_type'' = AString ''event'' \<and> rowCol r ''api_group'' = AString ''iam.miloapis.com''
               \<and> rowCol r ''resource_kind'' = AString ''User'' \<and> rowCol r ''resource_name'' = AString (scopeName scope))
      else rowCol r ''tenant_type'' = AString (scopeType scope) \<and> rowCol r ''tenant_name'' = AString (scopeName scope))"

definition eventInScope :: "ScopeContext \<Rightarrow> row \<Rightarrow> bool" where
  "eventInScope scope r =
     (scopeType scope \<in> {TenantTypeOrganization, TenantTypeProject, TenantTypeUser} \<longrightarrow>
        rowCol r ''scope_type'' = AString (scopeType scope) \<and> rowCol r ''scope_name'' = AString (scopeName scope))"

lemma auditScopeConds_sound: "list_all (condHolds sem r) (auditScopeConds scope) \<longleftrightarrow> auditInScope scope r"
  by (simp add: auditScopeConds_def auditInScope_def condHolds_def)

lemma activityScopeConds_sound: "list_all (condHolds sem r) (activityScopeConds scope) \<Longrightarrow> activityInScope scope r"
  by (auto simp: activityScopeConds_def activityInScope_def condHolds_def userScopeActivityCondition_def split: if_splits)

lemma eventScopeConds_sound: "list_all (condHolds sem r) (buildScopeConditions scope) \<longleftrightarrow> eventInScope scope r"
  by (auto simp: buildScopeConditions_def eventInScope_def condHolds_def tenant_type_defs)

lemma selected_scope:
  assumes "r \<in> set (runQuery sem table q)" "sqConds q = scopeConds @ rest"
  shows "list_all (condHolds sem r) scopeConds"
  using runQuery_selected [OF assms(1)] assms(2) by (simp add: selected_def)

text \<open>
  C2: every query that reads audit logs, activities or events, for lists and for facets, returns
  only rows of the scope it was asked for: rows of the organisation or project, or of the user.
\<close>

theorem queries_stay_in_scope:
  "(buildQuery cfg celc codec now now' spec scope = Inr q \<or> buildAuditLogFacetQuery cfg celc now facet fspec scope = Inr q
      \<longrightarrow> list_all (auditInScope scope) (runQuery sem table q))
   \<and> (buildActivityQuery cfg celc acodec now now' aspec scope = Inr q \<or> buildFacetQuery cfg celc now facet fspec scope = Inr q
      \<longrightarrow> list_all (activityInScope scope) (runQuery sem table q))
   \<and> (buildEventQuery cfg ecodec now now' espec scope = Inr q \<or> buildEventFacetQuery cfg now facet fspec scope = Inr q
      \<longrightarrow> list_all (eventInScope scope) (runQuery sem table q))"
proof (intro conjI impI)
  assume "buildQuery cfg celc codec now now' spec scope = Inr q \<or> buildAuditLogFacetQuery cfg celc now facet fspec scope = Inr q"
  then obtain rest where "sqConds q = auditScopeConds scope @ rest"
    by (auto simp: buildQuery_def buildAuditLogFacetQuery_def bind_r_eq_Inr split: sum.splits)
  then show "list_all (auditInScope scope) (runQuery sem table q)"
    using selected_scope auditScopeConds_sound unfolding list_all_iff by metis
next
  assume "buildActivityQuery cfg celc acodec now now' aspec scope = Inr q \<or> buildFacetQuery cfg celc now facet fspec scope = Inr q"
  then obtain rest where "sqConds q = activityScopeConds scope @ rest"
    by (auto simp: buildActivityQuery_def activityBaseConds_def buildFacetQuery_def bind_r_eq_Inr split: sum.splits)
  then show "list_all (activityInScope scope) (runQuery sem table q)"
    using selected_scope activityScopeConds_sound unfolding list_all_iff by metis
next
  assume "buildEventQuery cfg ecodec now now' espec scope = Inr q \<or> buildEventFacetQuery cfg now facet fspec scope = Inr q"
  then obtain rest where "sqConds q = buildScopeConditions scope @ rest"
    by (auto simp: buildEventQuery_def eventBaseConds_def buildEventFacetQuery_def bind_r_eq_Inr split: sum.splits)
  then show "list_all (eventInScope scope) (runQuery sem table q)"
    using selected_scope eventScopeConds_sound unfolding list_all_iff by metis
qed

definition sampleRow :: "instant \<Rightarrow> string \<Rightarrow> string \<Rightarrow> string \<Rightarrow> row" where
  "sampleRow t tenant name json =
     \<lparr>rowCol = (\<lambda>c. if c = ''timestamp'' then ATime t else if c = ''activity_name'' then AString name
                   else if c = ''tenant_type'' then AString ''Project'' else if c = ''tenant_name'' then AString tenant else AString []),
      rowJSON = json\<rparr>"

definition sampleSem :: sql_semantics where
  "sampleSem = \<lparr>semHour = (\<lambda>t. t - t mod hour), semFilter = (\<lambda>_ _ _. True), semSearch = (\<lambda>_ _. True)\<rparr>"

definition sampleCfg :: StorageConfig where
  "sampleCfg = \<lparr>cfgDatabase = ''audit'', cfgMaxPageSize = 1000\<rparr>"

definition sampleActivitySpec :: ActivityQuerySpec where
  "sampleActivitySpec = \<lparr>acStartTime = [], acEndTime = [], acSearch = [], acFilter = [], acLimit = 1, acContinue = []\<rparr>"

definition sampleScope :: ScopeContext where
  "sampleScope = \<lparr>scopeType = TenantTypeProject, scopeName = ''p''\<rparr>"

definition sampleTable :: "row list" where
  "sampleTable = [sampleRow (5 * second) ''p'' ''a'' ''A'', sampleRow (6 * second) ''q'' ''b'' ''B'', sampleRow (5 * second) ''p'' ''c'' ''C'']"

definition sampleActivityQuery :: sql_query where
  "sampleActivityQuery =
     \<lparr>sqSelect = ''SELECT activity_json FROM audit.activities'', sqConds = activityScopeConds sampleScope, sqGroup = [],
      sqOrder = activityOrder, sqOrderText = descOrder activityOrder, sqLimit = 2, sqOffset = None\<rparr>"

lemma sampleActivityQuery_built:
  "buildActivityQuery sampleCfg celc codec 0 0 sampleActivitySpec sampleScope = Inr sampleActivityQuery"
  by (simp add: buildActivityQuery_def activityBaseConds_def timeConds_def timeCond_def filterConds_def searchConds_def activityCursorConds_def
      sampleActivitySpec_def sampleCfg_def sampleActivityQuery_def pageLimit_def wrap32_def)

lemma queries_stay_in_scope_witness:
  "map rowJSON (runQuery sampleSem sampleTable sampleActivityQuery) = [''C'', ''A'']
   \<and> list_all (activityInScope sampleScope) (runQuery sampleSem sampleTable sampleActivityQuery)"
proof
  show "map rowJSON (runQuery sampleSem sampleTable sampleActivityQuery) = [''C'', ''A'']" by code_simp
  show "list_all (activityInScope sampleScope) (runQuery sampleSem sampleTable sampleActivityQuery)"
    using queries_stay_in_scope [of sampleCfg sampleCompile undefined 0 0 undefined sampleScope sampleActivityQuery undefined undefined sampleSem sampleTable
        undefined sampleActivitySpec undefined undefined]
      sampleActivityQuery_built by blast
qed

section \<open>Pagination of activities\<close>

text \<open>The hypotheses on the table: its columns are the ones extracted from the JSON text.\<close>

definition storedActivity :: "(string \<Rightarrow> (string \<times> string) option) \<Rightarrow> row \<Rightarrow> bool" where
  "storedActivity decodeMeta r =
     (\<exists>t name created. rowCol r ''timestamp'' = ATime t \<and> rowCol r ''activity_name'' = AString name \<and> name \<noteq> []
        \<and> decodeMeta (rowJSON r) = Some (name, created) \<and> parseRFC3339 created = Some t)"

definition rowTime :: "row \<Rightarrow> instant" where "rowTime r = timeOf (rowCol r ''timestamp'')"
definition rowName :: "row \<Rightarrow> string" where "rowName r = textOf (rowCol r ''activity_name'')"

definition readsBack :: "'d json_codec \<Rightarrow> 'd \<Rightarrow> bool" where
  "readsBack codec d = (jcMarshal codec d \<noteq> [] \<and> jcUnmarshal codec (jcMarshal codec d) = Some d)"

definition activityCursorOf :: "ActivityQuerySpec \<Rightarrow> instant \<Rightarrow> row \<Rightarrow> activityCursorData" where
  "activityCursorOf spec now r =
     \<lparr>acdTimestamp = rowTime r, acdName = rowName r, acdQueryHash = hashActivityQueryParams spec, acdIssuedAt = now\<rparr>"

lemma activity_key_less:
  assumes "storedActivity dm r" "storedActivity dm r'"
  shows "orderKey sem activityOrder r < orderKey sem activityOrder r'
    \<longleftrightarrow> condHolds sem r (CAfterCursor ''activity_name'' (rowTime r') (rowName r'))"
  using assms
  by (auto simp: storedActivity_def orderKey_def activityOrder_def orderValue_def condHolds_def rowTime_def rowName_def Let_def
      textOf_def less_prod_def')

lemma activity_key_inject:
  assumes "storedActivity dm r" "storedActivity dm r'" "orderKey sem activityOrder r = orderKey sem activityOrder r'"
  shows "(rowTime r, rowName r) = (rowTime r', rowName r')"
  using assms by (auto simp: storedActivity_def orderKey_def activityOrder_def orderValue_def rowTime_def rowName_def)

lemma ordered_strict:
  assumes "distinct (map k rows)"
  shows "sorted_wrt (\<lambda>a b. (k b :: 'b :: linorder) < k a) (rev (sort_key k rows))"
proof -
  have "sorted (map k (sort_key k rows))" "distinct (map k (sort_key k rows))"
    using assms by (simp_all add: distinct_map)
  then have "sorted_wrt (<) (map k (sort_key k rows))" by (simp add: strict_sorted_iff)
  then show ?thesis by (simp add: sorted_wrt_rev sorted_wrt_map)
qed

lemma strict_filter_after:
  assumes "sorted_wrt (\<lambda>a b. (k b :: 'b :: linorder) < k a) S" "i < length S"
  shows "filter (\<lambda>r. k r < k (S ! i)) S = drop (Suc i) S"
  using assms
proof (induction S arbitrary: i)
  case (Cons x S)
  show ?case
  proof (cases i)
    case 0
    with Cons.prems show ?thesis by (auto simp: filter_id_conv)
  next
    case (Suc j)
    with Cons.prems have "k (S ! j) < k x" by simp
    with Suc Cons show ?thesis by (simp add: less_not_sym)
  qed
qed simp

text \<open>A client that follows the continue tokens; \<open>None\<close> is running out of requests.\<close>

fun fetchPages ::
  "(instant \<Rightarrow> ActivityQuerySpec \<Rightarrow> query_error + string list \<times> string) \<Rightarrow> (nat \<Rightarrow> instant) \<Rightarrow> nat \<Rightarrow> nat \<Rightarrow> ActivityQuerySpec \<Rightarrow>
   (query_error + string list) option" where
  "fetchPages query clk i 0 spec = None"
| "fetchPages query clk i (Suc fuel) spec =
     (case query (clk i) spec of
        Inl e \<Rightarrow> Some (Inl e)
      | Inr (page, token) \<Rightarrow>
          if token = [] then Some (Inr page)
          else map_option (map_sum id ((@) page)) (fetchPages query clk (Suc i) fuel (spec\<lparr>acContinue := token\<rparr>)))"

lemma ordered_filter: "ordered sem cs (filter P rows) = filter P (ordered sem cs rows)"
  by (simp add: ordered_def rev_filter [symmetric] filter_sort)

text \<open>A page from the rows that match the query's own conditions and those of its cursor.\<close>

lemma query_window_page:
  assumes base: "activityBaseConds celc now spec scope = Inr base" and cur: "activityCursorConds codec now spec = Inr cur"
    and L: "int L = pageLimit (cfgMaxPageSize cfg) (acLimit spec)" "0 < L" "L < 2 ^ 31 - 1"
    and X: "X = filter (\<lambda>r. list_all (condHolds sem r) cur) (ordered sem activityOrder (filter (\<lambda>r. list_all (condHolds sem r) base) table))"
  shows "QueryActivities cfg celc codec dm (tableDriver sem table) now spec scope
     = Inr (map rowJSON (take L X), if L < length X then encodeActivityCursor codec dm now (rowJSON (X ! (L - 1))) spec else [])"
proof -
  obtain q where q: "buildActivityQuery cfg celc codec now now spec scope = Inr q" "sqConds q = base @ cur" "sqOrder q = activityOrder"
    "sqOffset q = None" "sqLimit q = wrap32 (pageLimit (cfgMaxPageSize cfg) (acLimit spec) + 1)"
    using base cur by (simp add: buildActivityQuery_def)
  have lim: "nat (sqLimit q) = Suc L" using L by (simp add: q wrap32_def flip: L(1))
  have "selected sem q table = filter (\<lambda>r. list_all (condHolds sem r) cur) (filter (\<lambda>r. list_all (condHolds sem r) base) table)"
    unfolding selected_def filter_filter q(2) by (rule filter_cong) auto
  then have run: "runQuery sem table q = take (Suc L) X" using lim by (simp add: runQuery_def q X ordered_filter)
  have scan: "scanRows Some (map (Some \<circ> rowJSON) xs) = Some (map rowJSON xs)" for xs
    by (induction xs) simp_all
  have read: "readRows ''activities'' Some (tableDriver sem table q) = Inr (map rowJSON (take (Suc L) X))"
    by (simp add: readRows_def tableDriver_def run scan)
  show ?thesis
  proof (cases "L < length X")
    case True
    then have ne: "take L X \<noteq> []" using L(2) by auto
    then have "last (take L X) = X ! (L - 1)" using True L(2) by (simp add: last_conv_nth)
    with ne True L(2) show ?thesis
      by (simp add: QueryActivities_def q read cutPage_def Let_def take_map last_map min_def flip: L(1))
  qed (simp add: QueryActivities_def q read cutPage_def take_map flip: L(1))
qed

text \<open>One page, from position \<open>j\<close> of the complete result \<open>S\<close>.\<close>

lemma activity_page:
  fixes S L spec
  assumes base: "activityBaseConds celc now spec scope = Inr base"
    and rows: "list_all (storedActivity dm) table"
    and dist: "distinct (map (\<lambda>r. (rowTime r, rowName r)) table)"
    and S: "S = ordered sem activityOrder (filter (\<lambda>r. list_all (condHolds sem r) base) table)"
    and L: "int L = pageLimit (cfgMaxPageSize cfg) (acLimit spec)" "0 < L" "L < 2 ^ 31 - 1"
    and cur: "activityCursorConds codec now spec = Inr (if j = 0 then [] else [CAfterCursor ''activity_name'' (rowTime (S ! (j - 1))) (rowName (S ! (j - 1)))])"
    and j: "j \<le> length S"
  shows "QueryActivities cfg celc codec dm (tableDriver sem table) now spec scope
     = Inr (map rowJSON (take L (drop j S)),
         if L < length S - j then encodeActivityCursor codec dm now (rowJSON (S ! (j + L - 1))) spec else [])"
proof -
  let ?k = "orderKey sem activityOrder"
  let ?base = "\<lambda>r. list_all (condHolds sem r) base"
  let ?cur = "if j = 0 then [] else [CAfterCursor ''activity_name'' (rowTime (S ! (j - 1))) (rowName (S ! (j - 1)))]"
  have inj: "inj_on ?k (set table)"
    using rows dist activity_key_inject unfolding inj_on_def list_all_iff distinct_map
    by (metis (no_types, lifting) inj_on_def)
  then have strict: "sorted_wrt (\<lambda>a b. ?k b < ?k a) S"
    using dist unfolding S ordered_def
    by (intro ordered_strict) (auto simp: distinct_map intro: inj_on_subset)
  have stored: "storedActivity dm r" if "r \<in> set S" for r
    using that rows by (auto simp: S ordered_def list_all_iff)
  have sel: "filter (\<lambda>r. list_all (condHolds sem r) ?cur) S = drop j S"
  proof (cases j)
    case (Suc i)
    with j have i: "i < length S" by simp
    have "filter (\<lambda>r. list_all (condHolds sem r) ?cur) S = filter (\<lambda>r. ?k r < ?k (S ! i)) S"
      using Suc i by (intro filter_cong) (simp_all add: activity_key_less [OF stored stored])
    with strict_filter_after [OF strict i] Suc show ?thesis by simp
  qed simp
  have "drop j S = filter (\<lambda>r. list_all (condHolds sem r) ?cur) (ordered sem activityOrder (filter ?base table))"
    using sel by (simp only: S)
  from query_window_page [OF base cur L this] j L(2) show ?thesis by (cases L) simp_all
qed

lemma activity_token:
  assumes "storedActivity dm r" "readsBack codec (activityCursorOf spec c r)" "now - c \<le> cursorTTL"
    and "tok = encodeActivityCursor codec dm c (rowJSON r) spec"
  shows "tok \<noteq> []" "activityCursorConds codec now (spec\<lparr>acContinue := tok\<rparr>) = Inr [CAfterCursor ''activity_name'' (rowTime r) (rowName r)]"
proof -
  from assms(1) obtain t name created where r: "rowTime r = t" "rowName r = name" "name \<noteq> []" "dm (rowJSON r) = Some (name, created)"
    "parseRFC3339 created = Some t"
    by (auto simp: storedActivity_def rowTime_def rowName_def)
  then have tok: "tok = b64Encode (jcMarshal codec (activityCursorOf spec c r))"
    by (simp add: assms(4) encodeActivityCursor_def activityCursorOf_def)
  have "b64Encode s = [] \<longleftrightarrow> s = []" for s by (cases s rule: b64Encode.cases) simp_all
  with tok assms(2) show ne: "tok \<noteq> []" by (simp add: readsBack_def)
  have "hashActivityQueryParams (spec\<lparr>acContinue := tok\<rparr>) = hashActivityQueryParams spec" by (simp add: hashActivityQueryParams_def)
  then have "decodeActivityCursor codec now tok (spec\<lparr>acContinue := tok\<rparr>) = Inr (t, name)"
    using assms(2,3) r by (simp add: decodeActivityCursor_def tok b64_roundtrip readsBack_def activityCursorOf_def)
  with ne r show "activityCursorConds codec now (spec\<lparr>acContinue := tok\<rparr>) = Inr [CAfterCursor ''activity_name'' (rowTime r) (rowName r)]"
    by (simp add: activityCursorConds_def)
qed

lemma encodeActivityCursor_continue:
  "encodeActivityCursor codec dm now json (spec\<lparr>acContinue := x\<rparr>) = encodeActivityCursor codec dm now json spec"
proof -
  have h: "hashActivityQueryParams (spec\<lparr>acContinue := x\<rparr>) = hashActivityQueryParams spec" by (simp add: hashActivityQueryParams_def)
  show ?thesis unfolding encodeActivityCursor_def h ..
qed

lemma activity_pages:
  fixes S L spec
  assumes base: "\<And>i. activityBaseConds celc (clk i) spec scope = Inr base"
    and rows: "list_all (storedActivity dm) table"
    and dist: "distinct (map (\<lambda>r. (rowTime r, rowName r)) table)"
    and codec: "\<And>i r. r \<in> set table \<Longrightarrow> readsBack codec (activityCursorOf spec (clk i) r)"
    and clk: "\<And>i. clk (Suc i) - clk i \<le> cursorTTL"
    and S: "S = ordered sem activityOrder (filter (\<lambda>r. list_all (condHolds sem r) base) table)"
    and L: "int L = pageLimit (cfgMaxPageSize cfg) (acLimit spec)" "0 < L" "L < 2 ^ 31 - 1"
    and cur: "activityCursorConds codec (clk i) (spec\<lparr>acContinue := tok\<rparr>)
                = Inr (if j = 0 then [] else [CAfterCursor ''activity_name'' (rowTime (S ! (j - 1))) (rowName (S ! (j - 1)))])"
    and "j \<le> length S" "length S - j < fuel"
  shows "fetchPages (\<lambda>now spec. QueryActivities cfg celc codec dm (tableDriver sem table) now spec scope) clk i fuel (spec\<lparr>acContinue := tok\<rparr>)
     = Some (Inr (map rowJSON (drop j S)))"
  using cur \<open>j \<le> length S\<close> \<open>length S - j < fuel\<close>
proof (induction fuel arbitrary: i j tok)
  case (Suc fuel)
  let ?spec = "spec\<lparr>acContinue := tok\<rparr>"
  let ?tok = "encodeActivityCursor codec dm (clk i) (rowJSON (S ! (j + L - 1))) spec"
  have "activityBaseConds celc (clk i) ?spec scope = Inr base"
    using base [of i] by (simp add: activityBaseConds_def)
  from activity_page [OF this rows dist S _ L(2,3) Suc.prems(1,2), of cfg] L(1)
  have page: "QueryActivities cfg celc codec dm (tableDriver sem table) (clk i) ?spec scope
    = Inr (map rowJSON (take L (drop j S)), if L < length S - j then ?tok else [])"
    by (simp add: encodeActivityCursor_continue)
  show ?case
  proof (cases "L < length S - j")
    case False
    with page show ?thesis by simp
  next
    case True
    let ?r = "S ! (j + L - 1)"
    have "?r \<in> set S" using True L(2) by (intro nth_mem) simp
    then have r: "?r \<in> set table" by (auto simp: S ordered_def)
    note tk = activity_token [OF _ codec [OF r, of i] clk [of i], where tok = ?tok]
    have st: "storedActivity dm ?r" using rows r by (simp add: list_all_iff)
    have "fetchPages (\<lambda>now spec. QueryActivities cfg celc codec dm (tableDriver sem table) now spec scope) clk (Suc i) fuel (spec\<lparr>acContinue := ?tok\<rparr>)
      = Some (Inr (map rowJSON (drop (j + L) S)))"
      using tk [OF st] True L(2) Suc.prems by (intro Suc.IH) simp_all
    with page True tk(1) [OF st] show ?thesis
      by (simp add: flip: map_append) (metis add.commute append_take_drop_id drop_drop)
  qed
qed simp

text \<open>
  C3: following the continue tokens of an activity query returns every matching activity exactly
  once, newest first, and ends: after more requests than there are rows the client has the whole
  result, for any page size and any number of activities with the same timestamp. The columns are
  those of the JSON text, no two activities agree in timestamp and name, the window does not move
  between the requests, and each request follows the previous one within an hour.
\<close>

theorem activity_pagination_complete:
  assumes "\<And>i. activityBaseConds celc (clk i) spec scope = Inr base" "acContinue spec = []"
    and "list_all (storedActivity decodeMeta) table" "distinct (map (\<lambda>r. (rowTime r, rowName r)) table)"
    and "\<And>i r. r \<in> set table \<Longrightarrow> readsBack codec (activityCursorOf spec (clk i) r)"
    and "\<And>i. clk (Suc i) - clk i \<le> cursorTTL"
    and "0 < pageLimit (cfgMaxPageSize cfg) (acLimit spec)" "pageLimit (cfgMaxPageSize cfg) (acLimit spec) < 2 ^ 31 - 1"
    and "length table < fuel"
  shows "fetchPages (\<lambda>now spec. QueryActivities cfg celc codec decodeMeta (tableDriver sem table) now spec scope) clk 0 fuel spec
     = Some (Inr (map rowJSON (ordered sem activityOrder (filter (\<lambda>r. list_all (condHolds sem r) base) table))))"
proof -
  let ?S = "ordered sem activityOrder (filter (\<lambda>r. list_all (condHolds sem r) base) table)"
  let ?L = "nat (pageLimit (cfgMaxPageSize cfg) (acLimit spec))"
  have "length ?S \<le> length table" by (simp add: ordered_def)
  with assms(9) have f: "length ?S - 0 < fuel" by simp
  have c: "activityCursorConds codec (clk 0) (spec\<lparr>acContinue := []\<rparr>) = Inr (if (0::nat) = 0 then []
      else [CAfterCursor ''activity_name'' (rowTime (?S ! (0 - 1))) (rowName (?S ! (0 - 1)))])"
    by (simp add: activityCursorConds_def)
  have L: "int ?L = pageLimit (cfgMaxPageSize cfg) (acLimit spec)" "0 < ?L" "?L < 2 ^ 31 - 1" using assms(7,8) by simp_all
  have "spec\<lparr>acContinue := []\<rparr> = spec" using assms(2) by simp
  with activity_pages [OF assms(1,3,4,5,6) refl L c le0 f] show ?thesis by simp
qed

definition sampleMeta :: "string \<Rightarrow> (string \<times> string) option" where
  "sampleMeta json =
     (if json = ''A'' then Some (''a'', ''1970-01-01T00:00:05Z'') else if json = ''B'' then Some (''b'', ''1970-01-01T00:00:06Z'')
      else if json = ''C'' then Some (''c'', ''1970-01-01T00:00:05Z'') else None)"

text \<open>A codec that knows the cursors of the three rows.\<close>

definition sampleCodec :: "activityCursorData json_codec" where
  "sampleCodec =
     \<lparr>jcMarshal = acdName,
      jcUnmarshal = (\<lambda>s. if s = ''b'' then Some (activityCursorOf sampleActivitySpec 0 (sampleTable ! 1))
        else if s = ''a'' then Some (activityCursorOf sampleActivitySpec 0 (sampleTable ! 0))
        else Some (activityCursorOf sampleActivitySpec 0 (sampleTable ! 2)))\<rparr>"

lemma sampleTable_stored: "list_all (storedActivity sampleMeta) sampleTable"
proof -
  have "parseRFC3339 ''1970-01-01T00:00:05Z'' = Some (5 * second)" "parseRFC3339 ''1970-01-01T00:00:06Z'' = Some (6 * second)"
    by code_simp+
  then show ?thesis by (simp add: sampleTable_def sampleRow_def storedActivity_def sampleMeta_def)
qed

lemma activity_pagination_complete_witness:
  "fetchPages (\<lambda>now spec. QueryActivities sampleCfg sampleCompile sampleCodec sampleMeta (tableDriver sampleSem sampleTable) now spec sampleScope)
     (\<lambda>_. 0) 0 4 sampleActivitySpec
   = Some (Inr [''C'', ''A''])"
proof -
  have rows: "r = sampleTable ! 0 \<or> r = sampleTable ! 1 \<or> r = sampleTable ! 2" if "r \<in> set sampleTable" for r
    using that by (auto simp: sampleTable_def)
  have names: "rowName (sampleTable ! 0) = ''a''" "rowName (sampleTable ! 1) = ''b''" "rowName (sampleTable ! 2) = ''c''"
    by (simp_all add: sampleTable_def sampleRow_def rowName_def)
  have codec: "readsBack sampleCodec (activityCursorOf sampleActivitySpec 0 r)" if "r \<in> set sampleTable" for r
    using rows [OF that] by (auto simp: readsBack_def sampleCodec_def names [unfolded One_nat_def] activityCursorOf_def)
  have base: "activityBaseConds sampleCompile 0 sampleActivitySpec sampleScope = Inr (activityScopeConds sampleScope)"
    by (simp add: activityBaseConds_def sampleActivitySpec_def timeConds_def timeCond_def filterConds_def searchConds_def)
  have dist: "distinct (map (\<lambda>r. (rowTime r, rowName r)) sampleTable)"
    by (simp add: sampleTable_def sampleRow_def rowTime_def rowName_def second_def)
  have lim: "0 < pageLimit (cfgMaxPageSize sampleCfg) (acLimit sampleActivitySpec)" "pageLimit (cfgMaxPageSize sampleCfg) (acLimit sampleActivitySpec) < 2 ^ 31 - 1"
    "acContinue sampleActivitySpec = []" "length sampleTable < 4"
    by (simp_all add: pageLimit_def sampleCfg_def sampleActivitySpec_def sampleTable_def)
  have ttl: "(0::int) - 0 \<le> cursorTTL" by (simp add: cursorTTL_def duration_defs)
  have res: "map rowJSON (ordered sampleSem activityOrder (filter (\<lambda>r. list_all (condHolds sampleSem r) (activityScopeConds sampleScope)) sampleTable)) = [''C'', ''A'']"
    by code_simp
  show ?thesis
    using activity_pagination_complete [of sampleCompile "\<lambda>_. 0" sampleActivitySpec sampleScope "activityScopeConds sampleScope" sampleMeta sampleTable
        sampleCodec sampleCfg 4 sampleSem] base lim sampleTable_stored dist codec ttl res
    by (simp del: map_map)
qed

section \<open>Pagination of audit logs\<close>

text \<open>
  The cursor of an audit log page carries the stage timestamp of its last event, while the
  rows are ordered and compared by the time the request was received. An event whose response
  came later than its request is therefore admitted again by the cursor made from it: whenever a
  page ends with such an event, the next page repeats it.
\<close>

theorem audit_cursor_repeats_last_row:
  assumes "rowCol r ''timestamp'' = ATime received" "received < saStageTimestamp e" "mono (semHour sem)"
    and "readsBack codec \<lparr>cdTimestamp = saStageTimestamp e, cdAuditID = saAuditID e, cdQueryHash = hashQueryParams spec, cdIssuedAt = now\<rparr>"
    and "\<not> isZeroTime now" "now' - now \<le> cursorTTL"
  shows "\<exists>cursor. auditCursorConds codec now' (spec\<lparr>aqContinue := encodeCursor codec now (saStageTimestamp e) (saAuditID e) spec\<rparr>) = Inr cursor
     \<and> list_all (condHolds sem r) cursor"
proof -
  let ?tok = "encodeCursor codec now (saStageTimestamp e) (saAuditID e) spec"
  have "hashQueryParams (spec\<lparr>aqContinue := ?tok\<rparr>) = hashQueryParams spec" by (simp add: hashQueryParams_def)
  then have dec: "decodeCursor codec now' ?tok (spec\<lparr>aqContinue := ?tok\<rparr>) = Inr (saStageTimestamp e, saAuditID e)"
    using assms(4-6) by (simp add: encodeCursor_def decodeCursor_def b64_roundtrip readsBack_def)
  have "semHour sem received \<le> semHour sem (saStageTimestamp e)" using assms(2,3) by (simp add: monoD)
  then have "condHolds sem r (CAfterCursor ''audit_id'' (saStageTimestamp e) (saAuditID e))"
    using assms(1,2) by (auto simp: condHolds_def Let_def)
  with dec show ?thesis by (cases "?tok = []") (simp_all add: auditCursorConds_def)
qed

text \<open>
  Within one timestamp the audit log rows are ordered by other columns before the audit id
  that the cursor compares, so even with exact timestamps rows are skipped: of two events with
  the same timestamp the second in the order of the query is not admitted by the cursor of the
  first when its audit id is larger.
\<close>

theorem audit_cursor_skips_ties:
  assumes "rowCol a ''timestamp'' = ATime t" "rowCol b ''timestamp'' = ATime t"
    and "rowCol a ''scope_type'' = rowCol b ''scope_type''" "rowCol a ''scope_name'' = rowCol b ''scope_name''"
    and "rowCol a ''user'' = AString ua" "rowCol b ''user'' = AString ub" "ub < ua"
    and "rowCol a ''audit_id'' = AString ia" "rowCol b ''audit_id'' = AString ib" "ia < ib"
    and "scopeType scope = TenantTypeProject"
  shows "orderKey sem (auditOrder scope f) b < orderKey sem (auditOrder scope f) a
     \<and> \<not> condHolds sem b (CAfterCursor ''audit_id'' t ia)"
  using assms
  by (auto simp: orderKey_def auditOrder_def orderValue_def tenant_type_defs condHolds_def Let_def less_prod_def')

definition sampleAuditRow :: "string \<Rightarrow> string \<Rightarrow> row" where
  "sampleAuditRow user aid =
     \<lparr>rowCol = (\<lambda>c. if c = ''timestamp'' then ATime 5 else if c = ''user'' then AString user else if c = ''audit_id'' then AString aid else AString []),
      rowJSON = []\<rparr>"

lemma audit_cursor_skips_ties_witness:
  "orderKey sampleSem (auditOrder sampleScope []) (sampleAuditRow ''alice'' ''2'') < orderKey sampleSem (auditOrder sampleScope []) (sampleAuditRow ''bob'' ''1'')
   \<and> \<not> condHolds sampleSem (sampleAuditRow ''alice'' ''2'') (CAfterCursor ''audit_id'' 5 ''1'')"
  by (rule audit_cursor_skips_ties [where ua = "''bob''" and ub = "''alice''" and ib = "''2''"])
    (simp_all add: sampleAuditRow_def sampleScope_def less_char_def)

lemma audit_cursor_repeats_last_row_witness:
  "let e = \<lparr>saStageTimestamp = 9, saAuditID = ''1'', saEvent = undefined\<rparr>;
       codec = oneObjectCodec \<lparr>cdTimestamp = 9, cdAuditID = ''1'', cdQueryHash = hashQueryParams sampleSpec, cdIssuedAt = 7\<rparr>
   in \<exists>cursor. auditCursorConds codec 8 (sampleSpec\<lparr>aqContinue := encodeCursor codec 7 9 ''1'' sampleSpec\<rparr>) = Inr cursor
        \<and> list_all (condHolds sampleSem (sampleAuditRow ''bob'' ''1'')) cursor"
proof -
  let ?codec = "oneObjectCodec \<lparr>cdTimestamp = 9, cdAuditID = ''1'', cdQueryHash = hashQueryParams sampleSpec, cdIssuedAt = 7\<rparr>"
  have "mono (semHour sampleSem)"
  proof (rule monoI)
    fix x y :: instant
    assume "x \<le> y"
    then have "x div hour * hour \<le> y div hour * hour"
      by (intro mult_right_mono zdiv_mono1) (simp_all add: duration_defs)
    then show "semHour sampleSem x \<le> semHour sampleSem y" by (simp add: sampleSem_def minus_mod_eq_div_mult)
  qed
  moreover have "rowCol (sampleAuditRow ''bob'' ''1'') ''timestamp'' = ATime 5" by (simp add: sampleAuditRow_def)
  moreover have "\<not> isZeroTime 7" by (simp add: isZeroTime_def zeroTime_def second_def)
  ultimately show ?thesis
    using audit_cursor_repeats_last_row [of "sampleAuditRow ''bob'' ''1''" 5 "\<lparr>saStageTimestamp = 9, saAuditID = ''1'', saEvent = undefined\<rparr>" sampleSem ?codec sampleSpec 7 8]
    by (simp add: Let_def readsBack_def oneObjectCodec_def cursorTTL_def duration_defs)
qed

lemma scanRows_decoded: "scanRows decode (map Some txts) = Some (List.map_filter decode txts)"
  by (induction txts) (auto simp: List.map_filter_simps split: option.splits)

lemma map_filter_length_less: "t \<in> set txts \<Longrightarrow> decode t = None \<Longrightarrow> length (List.map_filter decode txts) < length txts"
proof (induction txts)
  case (Cons x txts)
  have "length (List.map_filter decode txts) \<le> length txts" by (simp add: List.map_filter_def)
  with Cons show ?case by (auto simp: List.map_filter_simps split: option.splits)
qed simp

text \<open>
  Rows that do not decode are dropped after the limit was applied, so one of them hides the
  rest of the result: when the database returned a row more than the page holds and one row does
  not decode, the page is returned without a continue token.
\<close>

theorem undecodable_row_ends_pagination:
  assumes "buildQuery cfg celc codec now now spec scope = Inr q" "conn q = Inr \<lparr>qrRows = map Some txts, qrErr = False\<rparr>"
    and "int (length txts) = pageLimit (cfgMaxPageSize cfg) (aqLimit spec) + 1" "bad \<in> set txts" "decode bad = None"
  shows "QueryAuditLogs cfg celc codec decode conn now spec scope = Inr (List.map_filter decode txts, [])"
proof -
  have "int (length (List.map_filter decode txts)) \<le> pageLimit (cfgMaxPageSize cfg) (aqLimit spec)"
    using map_filter_length_less [of bad txts decode] assms(3-5) by linarith
  then show ?thesis using assms(1,2) by (simp add: QueryAuditLogs_def readRows_def scanRows_decoded cutPage_def)
qed

lemma undecodable_row_ends_pagination_witness:
  "QueryAuditLogs sampleCfg sampleCompile (oneObjectCodec undefined) (\<lambda>t. if t = ''bad'' then None else Some \<lparr>saStageTimestamp = 0, saAuditID = t, saEvent = undefined\<rparr>)
     (\<lambda>_. Inr \<lparr>qrRows = [Some ''bad'', Some ''x''], qrErr = False\<rparr>) 0
     \<lparr>aqStartTime = [], aqEndTime = [], aqFilter = [], aqLimit = 1, aqContinue = []\<rparr> sampleScope
   = Inr ([\<lparr>saStageTimestamp = 0, saAuditID = ''x'', saEvent = undefined\<rparr>], [])"
proof -
  let ?spec = "\<lparr>aqStartTime = [], aqEndTime = [], aqFilter = [], aqLimit = 1, aqContinue = []\<rparr>"
  obtain q where "buildQuery sampleCfg sampleCompile (oneObjectCodec undefined) 0 0 ?spec sampleScope = Inr q"
    by (simp add: buildQuery_def timeConds_def timeCond_def filterConds_def auditCursorConds_def)
  from undecodable_row_ends_pagination [OF this, of "\<lambda>_. Inr \<lparr>qrRows = [Some ''bad'', Some ''x''], qrErr = False\<rparr>" "[''bad'', ''x'']" "''bad''"
      "\<lambda>t. if t = ''bad'' then None else Some \<lparr>saStageTimestamp = 0, saAuditID = t, saEvent = undefined\<rparr>"]
  show ?thesis by (simp add: pageLimit_def sampleCfg_def List.map_filter_simps)
qed

section \<open>Parameters\<close>

abbreviation qmark :: char where "qmark \<equiv> CHR ''?''"

lemma replaceAllStr_Nil [simp]: "replaceAllStr [] old new = []"
  by (simp add: replaceAllStr.simps)

lemma replaceAllStr_skip: "d \<notin> set s \<Longrightarrow> replaceAllStr (s @ rest) (d # old) new = s @ replaceAllStr rest (d # old) new"
proof (induction s)
  case (Cons c s)
  then have "\<not> hasPrefix ((c # s) @ rest) (d # old)" by (auto simp: hasPrefix_iff)
  with Cons show ?case by (subst replaceAllStr.simps) simp
qed simp

lemma replaceAllStr_hit: "old \<noteq> [] \<Longrightarrow> replaceAllStr (old @ rest) old new = new @ replaceAllStr rest old new"
  by (cases old) (simp, subst replaceAllStr.simps, simp add: hasPrefix_def)

lemma natDigits_inject: "natDigits m = natDigits n \<Longrightarrow> m = n"
  by (metis digitsVal_natDigits of_nat_eq_iff)

lemma placeholder_prefix:
  assumes "hasPrefix (placeholder i @ rest) (placeholder k)"
  shows "i = k"
proof -
  have no: "CHR ''}'' \<notin> set (natDigits n)" for n using natDigits_digits [of n] by (auto simp: isDigit_def)
  from assms obtain t where "placeholder i @ rest = placeholder k @ t" by (auto simp: hasPrefix_iff)
  then have "natDigits i @ CHR ''}'' # rest = natDigits k @ CHR ''}'' # t" by (simp add: placeholder_def fmtInt_def)
  with append_sep_inject [OF no no] have "natDigits i = natDigits k" by blast
  then show ?thesis by (rule natDigits_inject)
qed

lemma replaceAllStr_other:
  assumes "i \<noteq> k"
  shows "replaceAllStr (placeholder i @ rest) (placeholder k) new = placeholder i @ replaceAllStr rest (placeholder k) new"
proof -
  obtain ph where ph: "placeholder i = CHR ''{'' # ph" "CHR ''{'' \<notin> set ph"
  proof
    show "placeholder i = CHR ''{'' # (''arg'' @ natDigits i @ ''}'')" by (simp add: placeholder_def fmtInt_def)
    show "CHR ''{'' \<notin> set (''arg'' @ natDigits i @ ''}'')" using natDigits_digits [of i] by (auto simp: isDigit_def)
  qed
  obtain pk where pk: "placeholder k = CHR ''{'' # pk" by (simp add: placeholder_def)
  have "\<not> hasPrefix (placeholder i @ rest) (placeholder k)" using assms placeholder_prefix by blast
  then have "replaceAllStr (placeholder i @ rest) (placeholder k) new = CHR ''{'' # replaceAllStr (ph @ rest) (placeholder k) new"
    by (subst replaceAllStr.simps) (simp add: ph(1) pk)
  then show ?thesis using replaceAllStr_skip [OF ph(2)] by (simp add: ph(1) pk)
qed

text \<open>The text of a token after the first \<open>n\<close> parameters were replaced.\<close>

definition tokBound :: "nat \<Rightarrow> sqltok \<Rightarrow> string" where
  "tokBound n t = (case t of Text s \<Rightarrow> s | Param i \<Rightarrow> if 1 \<le> i \<and> i \<le> n then ''?'' else placeholder i)"

lemma tokBound_simps [simp]:
  "tokBound n (Text s) = s" "tokBound n (Param i) = (if 1 \<le> i \<and> i \<le> n then ''?'' else placeholder i)"
  by (simp_all add: tokBound_def)

lemma replace_step:
  assumes "\<And>s. Text s \<in> set ts \<Longrightarrow> CHR ''{'' \<notin> set s"
  shows "replaceAllStr (concat (map (tokBound n) ts)) (placeholder (Suc n)) ''?'' = concat (map (tokBound (Suc n)) ts)"
  using assms
proof (induction ts)
  case (Cons t ts)
  obtain pk where pk: "placeholder (Suc n) = CHR ''{'' # pk" by (simp add: placeholder_def)
  note IH = Cons.IH [OF Cons.prems, simplified]
  show ?case
  proof (cases t)
    case (Text s)
    with Cons.prems have "CHR ''{'' \<notin> set s" by simp
    from replaceAllStr_skip [OF this] IH Text show ?thesis by (simp add: pk)
  next
    case (Param i)
    consider "1 \<le> i \<and> i \<le> n" | "i = Suc n" | "\<not> (1 \<le> i \<and> i \<le> n)" "i \<noteq> Suc n" by blast
    then show ?thesis
    proof cases
      case 1
      with replaceAllStr_skip [of "CHR ''{''" "''?''"] IH Param show ?thesis by (simp add: pk)
    next
      case 2
      with replaceAllStr_hit [of "placeholder (Suc n)"] IH Param pk show ?thesis by simp
    next
      case 3
      with replaceAllStr_other [of i "Suc n"] IH Param show ?thesis by auto
    qed
  qed
qed simp

lemma processWhere_tokens:
  assumes "\<And>s. Text s \<in> set ts \<Longrightarrow> CHR ''{'' \<notin> set s"
  shows "processWhere (concat (map tokText ts)) n = concat (map (tokBound n) ts)"
proof (induction n)
  case 0
  have "tokBound 0 = tokText" by (rule ext) (simp add: tokBound_def tokText_def split: sqltok.splits)
  then show ?case by (simp add: processWhere_def)
next
  case (Suc n)
  then show ?case using replace_step [OF assms] by (simp add: processWhere_def)
qed

lemma clean_vocabulary:
  "list_all (\<lambda>s. CHR ''{'' \<notin> set s \<and> qmark \<notin> set s) (auditColumns @ activityColumns @ sqlFragments)"
  by code_simp

lemma count_concat: "count_list (concat xss) c = sum_list (map (\<lambda>xs. count_list xs c) xss)"
  by (induction xss) simp_all

lemma processWhere_count:
  assumes "parametrised cols 1 (Suc n) sql" "cols \<subseteq> set (auditColumns @ activityColumns)"
  shows "count_list (processWhere sql n) qmark = n"
proof -
  from assms(1) obtain ts where ts: "sql = concat (map tokText ts)" "\<forall>s. Text s \<in> set ts \<longrightarrow> s \<in> cols \<or> s \<in> set sqlFragments"
    "tokParams ts = [1..<Suc n]"
    by (auto simp: parametrised_def)
  have clean: "CHR ''{'' \<notin> set s \<and> qmark \<notin> set s" if "Text s \<in> set ts" for s
    using clean_vocabulary ts(2) assms(2) that by (auto simp: list_all_iff)
  have "count_list (concat (map (tokBound n) us)) qmark = length (tokParams us)"
    if "set us \<subseteq> set ts" "\<forall>i \<in> set (tokParams us). 1 \<le> i \<and> i \<le> n" for us
    using that
  proof (induction us)
    case (Cons u us)
    then show ?case
      using clean by (cases u) (auto simp: tokParams_def count_notin)
  qed (simp add: tokParams_def)
  from this [of ts] ts(3) have "count_list (concat (map (tokBound n) ts)) qmark = n" by (auto simp del: upt_Suc)
  with processWhere_tokens [of ts n] clean ts(1) show ?thesis by simp
qed

lemma count_joinStr: "qmark \<notin> set sep \<Longrightarrow> count_list (joinStr sep xs) qmark = sum_list (map (\<lambda>x. count_list x qmark) xs)"
  by (induction sep xs rule: joinStr.induct) (simp_all add: count_notin)

lemma fmtInt_no_qmark: "qmark \<notin> set (fmtInt n)"
proof -
  have "qmark \<notin> set (natDigits m)" for m using natDigits_digits [of m] by (auto simp: isDigit_def)
  then show ?thesis by (simp add: fmtInt_def)
qed

text \<open>A condition whose text has one question mark for each argument.\<close>

definition bindsAll :: "sql_cond \<Rightarrow> bool" where
  "bindsAll c = (count_list (condText c) qmark = length (condArgs c))"

lemma bindsAll_compare: "qmark \<notin> set column \<Longrightarrow> qmark \<notin> set op \<Longrightarrow> bindsAll (CCompare column op v)"
  by (simp add: bindsAll_def condText_def condArgs_def count_notin)

lemma bindsAll_fixed: "bindsAll (CUserScope u)" "bindsAll (CSearch ts)" "qmark \<notin> set column \<Longrightarrow> bindsAll (CNotEmpty column)"
  "qmark \<notin> set tie \<Longrightarrow> bindsAll (CAfterCursor tie t i)"
  by (simp_all add: bindsAll_def condText_def condArgs_def count_notin)

lemma renderQuery_binds:
  assumes "list_all bindsAll (sqConds q)" "qmark \<notin> set (sqSelect q)" "qmark \<notin> set (sqGroup q)" "qmark \<notin> set (sqOrderText q)"
  shows "count_list (renderQuery q) qmark = length (queryArgs q)"
proof -
  have "(\<Sum>c \<leftarrow> sqConds q. count_list (condText c) qmark) = (\<Sum>c \<leftarrow> sqConds q. length (condArgs c))"
    using assms(1) by (intro arg_cong [of _ _ sum_list] map_cong) (simp_all add: bindsAll_def list_all_iff)
  then have "count_list (whereClause (sqConds q)) qmark = length (queryArgs q)"
    by (simp add: whereClause_def queryArgs_def count_joinStr length_concat comp_def)
  then show ?thesis
    using assms(2-4) fmtInt_no_qmark by (auto simp: renderQuery_def count_notin split: option.splits)
qed

lemma timeConds_bind: "timeConds column s e now = Inr cs \<Longrightarrow> qmark \<notin> set column \<Longrightarrow> list_all bindsAll cs"
  by (auto simp: timeConds_def timeCond_def bind_r_eq_Inr bindsAll_compare split: if_splits sum.splits)

lemma filterConds_bind:
  assumes "filterConds conv f = Inr cs" "\<And>sql args. conv f = Inr (sql, args) \<Longrightarrow> parametrised cols 1 (Suc (length args)) sql"
    and "cols \<subseteq> set (auditColumns @ activityColumns)"
  shows "list_all bindsAll cs"
proof (cases "conv f")
  case (Inl e)
  with assms(1) show ?thesis by (simp add: filterConds_def split: if_splits)
next
  case (Inr p)
  then obtain sql args where p: "conv f = Inr (sql, args)" by (cases p) simp
  from processWhere_count [OF assms(2) [OF p] assms(3)]
  have "bindsAll (CFilter (processWhere sql (length args)) args)" by (simp add: bindsAll_def condText_def condArgs_def)
  with assms(1) p show ?thesis by (auto simp: filterConds_def split: if_splits)
qed

lemma audit_filter_parametrised:
  "ConvertToClickHouseSQL celc f = Inr (sql, args) \<Longrightarrow> f \<noteq> [] \<Longrightarrow> parametrised (set auditColumns) 1 (Suc (length args)) sql"
  using audit_filter.filter_parametrised [of "CompileFilter celc f" sql args] by (simp add: ConvertToClickHouseSQL_def)

lemma activity_filter_parametrised:
  "ConvertActivityToClickHouseSQL celc f = Inr (sql, args) \<Longrightarrow> f \<noteq> [] \<Longrightarrow> parametrised (set activityColumns) 1 (Suc (length args)) sql"
  using activity_filter.filter_parametrised [of "CompileActivityFilter celc f" sql args] by (simp add: ConvertActivityToClickHouseSQL_def)

lemma auditFilter_bind: "filterConds (ConvertToClickHouseSQL celc) f = Inr cs \<Longrightarrow> list_all bindsAll cs"
  by (cases "f = []") (auto simp: filterConds_def intro: filterConds_bind audit_filter_parametrised)

lemma activityFilter_bind: "filterConds (ConvertActivityToClickHouseSQL celc) f = Inr cs \<Longrightarrow> list_all bindsAll cs"
  by (cases "f = []") (auto simp: filterConds_def intro: filterConds_bind activity_filter_parametrised)

lemma clean_tables:
  "list_all (\<lambda>(_, c). qmark \<notin> set c) (EventsFieldSelectors @ auditLogFacetColumnMapping @ activityFacetColumnMapping @ eventFacetColumnMapping)"
  by code_simp

lemma clean_lookup:
  assumes "map_of t k = Some c" "t \<in> {EventsFieldSelectors, auditLogFacetColumnMapping, activityFacetColumnMapping, eventFacetColumnMapping}"
  shows "qmark \<notin> set c"
  using clean_tables map_of_SomeD [OF assms(1)] assms(2) by (auto simp: list_all_iff)

lemma parseSelectorParts_clean: "parseSelectorParts ps = Inr terms \<Longrightarrow> t \<in> set terms \<Longrightarrow> qmark \<notin> set (fstColumn t)"
proof (induction ps arbitrary: terms)
  case (Cons p ps)
  show ?case
  proof (cases "trimSpace p = []")
    case True
    with Cons show ?thesis by (simp add: Let_def)
  next
    case False
    with Cons.prems(1) obtain f op v c rest where "splitSelector (trimSpace p) = Some (f, op, v)" "ResolveEventFieldSelector f = Inr c"
      "parseSelectorParts ps = Inr rest" "terms = \<lparr>fstColumn = c, fstOperator = op, fstValue = v\<rparr> # rest"
      by (auto simp: Let_def bind_r_eq_Inr split: option.splits sum.splits)
    with Cons show ?thesis
      by (auto simp: ResolveEventFieldSelector_def Let_def split: option.splits dest: clean_lookup)
  qed
qed simp

lemma selectorConds_bind: "selectorConds s = Inr cs \<Longrightarrow> list_all bindsAll cs"
  by (auto simp: selectorConds_def ParseFieldSelector_def list_all_iff split: if_splits sum.splits FieldSelectorOp.splits
      intro!: bindsAll_compare dest: parseSelectorParts_clean)

lemma scope_bind: "list_all bindsAll (auditScopeConds scope)" "list_all bindsAll (activityScopeConds scope)" "list_all bindsAll (buildScopeConditions scope)"
  by (simp_all add: auditScopeConds_def activityScopeConds_def buildScopeConditions_def userScopeActivityCondition_def bindsAll_compare bindsAll_fixed)

lemmas cond_bind = scope_bind timeConds_bind auditFilter_bind activityFilter_bind selectorConds_bind bindsAll_fixed bindsAll_compare

lemma descOrder_clean: "list_all (\<lambda>c. qmark \<notin> set c) cs \<Longrightarrow> qmark \<notin> set (descOrder cs)"
proof -
  have "qmark \<notin> set (joinStr '', '' xs)" if "list_all (\<lambda>c. qmark \<notin> set c) xs" for xs
    using that by (induction "'', ''" xs rule: joinStr.induct) simp_all
  then show "list_all (\<lambda>c. qmark \<notin> set c) cs \<Longrightarrow> ?thesis" by (simp add: descOrder_def list_all_iff)
qed

lemma order_clean:
  "qmark \<notin> set (descOrder (auditOrder scope f))" "qmark \<notin> set (descOrder activityOrder)" "qmark \<notin> set (descOrder (buildEventQueryOrderBy scope))"
  by (rule descOrder_clean, simp add: auditOrder_def activityOrder_def buildEventQueryOrderBy_def)+

lemma facet_clean:
  "facetColumn w auditLogFacetColumnMapping f = Inr c \<Longrightarrow> qmark \<notin> set c"
  "facetColumn w activityFacetColumnMapping f = Inr c \<Longrightarrow> qmark \<notin> set c"
  "facetColumn w eventFacetColumnMapping f = Inr c \<Longrightarrow> qmark \<notin> set c"
  by (auto simp: facetColumn_def split: option.splits dest: clean_lookup)

text \<open>
  C35: every query the storage layer sends has exactly as many placeholders as arguments, for any
  filter, search, selector, scope and cursor: the numbered placeholders of a converted filter are
  all replaced, and nothing else of the text is a placeholder.
\<close>

theorem queries_bind_every_parameter:
  assumes "qmark \<notin> set (cfgDatabase cfg)"
    and "buildQuery cfg celc codec now now' spec scope = Inr q \<or> buildAuditLogFacetQuery cfg celc now facet fspec scope = Inr q
      \<or> buildActivityQuery cfg celc acodec now now' aspec scope = Inr q \<or> buildFacetQuery cfg celc now facet fspec scope = Inr q
      \<or> buildEventQuery cfg ecodec now now' espec scope = Inr q \<or> buildEventFacetQuery cfg now facet fspec scope = Inr q"
  shows "count_list (renderQuery q) qmark = length (queryArgs q)"
proof -
  from assms(2) show ?thesis
  proof (elim disjE)
    assume "buildQuery cfg celc codec now now' spec scope = Inr q"
    then show ?thesis
      using assms(1) by (intro renderQuery_binds)
        (auto simp: buildQuery_def auditCursorConds_def bind_r_eq_Inr cond_bind order_clean split: if_splits sum.splits)
  next
    assume "buildAuditLogFacetQuery cfg celc now facet fspec scope = Inr q"
    then show ?thesis
      using assms(1) by (intro renderQuery_binds)
        (auto simp: buildAuditLogFacetQuery_def GetAuditLogFacetColumn_def bind_r_eq_Inr cond_bind split: sum.splits dest: facet_clean)
  next
    assume "buildActivityQuery cfg celc acodec now now' aspec scope = Inr q"
    then show ?thesis
      using assms(1) by (intro renderQuery_binds)
        (auto simp: buildActivityQuery_def activityBaseConds_def searchConds_def activityCursorConds_def bind_r_eq_Inr cond_bind order_clean
          split: if_splits sum.splits)
  next
    assume "buildFacetQuery cfg celc now facet fspec scope = Inr q"
    then show ?thesis
      using assms(1) by (intro renderQuery_binds)
        (auto simp: buildFacetQuery_def GetActivityFacetColumn_def bind_r_eq_Inr cond_bind split: sum.splits dest: facet_clean)
  next
    assume "buildEventQuery cfg ecodec now now' espec scope = Inr q"
    then show ?thesis
      using assms(1) by (intro renderQuery_binds)
        (auto simp: buildEventQuery_def eventBaseConds_def bind_r_eq_Inr cond_bind order_clean split: if_splits sum.splits)
  next
    assume "buildEventFacetQuery cfg now facet fspec scope = Inr q"
    then show ?thesis
      using assms(1) by (intro renderQuery_binds)
        (auto simp: buildEventFacetQuery_def GetEventFacetColumn_def bind_r_eq_Inr cond_bind split: if_splits sum.splits dest: facet_clean)
  qed
qed

lemma queries_bind_every_parameter_witness:
  "count_list (renderQuery sampleActivityQuery) qmark = length (queryArgs sampleActivityQuery) \<and> length (queryArgs sampleActivityQuery) = 2"
proof
  have "qmark \<notin> set (cfgDatabase sampleCfg)" by (simp add: sampleCfg_def)
  then show "count_list (renderQuery sampleActivityQuery) qmark = length (queryArgs sampleActivityQuery)"
    using queries_bind_every_parameter [of sampleCfg sampleCompile undefined 0 0 undefined sampleScope sampleActivityQuery undefined undefined
        undefined sampleActivitySpec undefined undefined] sampleActivityQuery_built by blast
  show "length (queryArgs sampleActivityQuery) = 2" by code_simp
qed

end
