(* ===== verification/Events_Store.thy ===== *)
theory Events_Store
  imports Storage_Props
begin

text \<open>
  The store of Kubernetes events: the ClickHouse backend of internal/storage/events_clickhouse.go
  with its publisher (events_publisher.go), the conversions between the two event APIs
  (internal/registry/activity/events/conversion.go) and the REST operations of
  internal/registry/activity/events/storage.go. The table is a list of events with their insertion
  times; encoding an event as JSON and reading it back is a parameter, as are the answers of the
  driver and the broker and the clock.
\<close>

section \<open>Events\<close>

record EventSeries =
  serCount :: int
  serLastObserved :: instant

record EventV1 =
  evNamespace :: string
  evName :: string
  evUID :: string
  evResourceVersion :: string
  evAnnotations :: "(string \<times> string) list"
  evRegarding :: ObjRef
  evRelated :: "ObjRef option"
  evReason :: string
  evNote :: string
  evType :: string
  evAction :: string
  evReportingController :: string
  evReportingInstance :: string
  evEventTime :: instant
  evFirstTimestamp :: instant
  evLastTimestamp :: instant
  evCount :: int
  evSeries :: "EventSeries option"

definition setAnnotation :: "string \<Rightarrow> string \<Rightarrow> (string \<times> string) list \<Rightarrow> (string \<times> string) list" where
  "setAnnotation k v m = (k, v) # filter (\<lambda>(k', _). k' \<noteq> k) m"

definition annotationOf :: "(string \<times> string) list \<Rightarrow> string \<Rightarrow> string" where
  "annotationOf m k = (case map_of m k of Some v \<Rightarrow> v | None \<Rightarrow> '''')"

section \<open>conversion.go\<close>

definition ConvertCoreV1ToEventsV1 :: "CoreEvent \<Rightarrow> EventV1" where
  "ConvertCoreV1ToEventsV1 c =
     (let hasFirst = \<not> isZeroTime (cevFirstTimestamp c); hasLast = \<not> isZeroTime (cevLastTimestamp c)
      in \<lparr>evNamespace = cevNamespace c, evName = cevName c, evUID = cevUID c, evResourceVersion = cevResourceVersion c,
          evAnnotations = cevAnnotations c, evRegarding = cevInvolvedObject c, evRelated = cevRelated c,
          evReason = cevReason c, evNote = cevMessage c, evType = cevType c, evAction = ''Event'',
          evReportingController = cevSourceComponent c, evReportingInstance = cevSourceHost c,
          evEventTime = (if hasFirst then cevFirstTimestamp c else zeroTime),
          evFirstTimestamp = (if hasFirst then cevFirstTimestamp c else zeroTime),
          evLastTimestamp = (if hasLast then cevLastTimestamp c else zeroTime),
          evCount = cevCount c,
          evSeries = (if hasLast \<and> cevCount c > 1 then Some \<lparr>serCount = cevCount c, serLastObserved = cevLastTimestamp c\<rparr> else None)\<rparr>)"

definition ConvertEventsV1ToCoreV1 :: "EventV1 \<Rightarrow> CoreEvent" where
  "ConvertEventsV1ToCoreV1 v =
     (let old = isZeroTime (evEventTime v)
      in \<lparr>cevNamespace = evNamespace v, cevName = evName v, cevUID = evUID v, cevResourceVersion = evResourceVersion v,
          cevAnnotations = evAnnotations v, cevInvolvedObject = evRegarding v, cevRelated = evRelated v,
          cevReason = evReason v, cevMessage = evNote v, cevType = evType v,
          cevCount = (case evSeries v of Some s \<Rightarrow> if old then evCount v else serCount s | None \<Rightarrow> evCount v),
          cevFirstTimestamp = (if old then evFirstTimestamp v else evEventTime v),
          cevLastTimestamp =
            (if old then evLastTimestamp v
             else case evSeries v of Some s \<Rightarrow> serLastObserved s | None \<Rightarrow> evEventTime v),
          cevSourceComponent = evReportingController v, cevSourceHost = evReportingInstance v\<rparr>)"

section \<open>events_publisher.go\<close>

text \<open>The message: its subject, its deduplication id and the event.\<close>

record event_message =
  emSubject :: string
  emMsgID :: string
  emEvent :: EventV1

definition eventMessage :: "string \<Rightarrow> EventV1 \<Rightarrow> event_message" where
  "eventMessage prefix event =
     \<lparr>emSubject = EventSubject prefix '''' (evNamespace event),
      emMsgID = (if evResourceVersion event \<noteq> '''' \<and> evResourceVersion event \<noteq> ''0'' then evUID event @ ''-'' @ evResourceVersion event else evUID event),
      emEvent = event\<rparr>"

text \<open>The state: rows of the table with their insertion times, and the messages the broker has stored.\<close>

record EventsState =
  esRows :: "(EventV1 \<times> instant) list"
  esMessages :: "event_message list"

text \<open>
  What one operation takes from outside: the answers of the driver and the broker, a fresh UUID,
  the current time and the time of the insertion; \<open>eoStored\<close> is an event after its JSON encoding
  was read back, or nothing when the text does not decode.
\<close>

record event_env =
  eoPublisher :: "string option"
  eoExecOK :: bool
  eoQueryOK :: bool
  eoPublishErr :: "string option"
  eoUUID :: string
  eoNow :: instant
  eoInsertTime :: instant
  eoStored :: "EventV1 \<Rightarrow> EventV1 option"

datatype event_error = ENotFound string | EBadRequest string | EFailed string | EPanic

definition eventPublish :: "event_env \<Rightarrow> string \<Rightarrow> EventV1 \<Rightarrow> EventsState \<Rightarrow> string option \<times> EventsState" where
  "eventPublish env prefix event st =
     (case eoPublishErr env of
        Some e \<Rightarrow> (Some (''failed to publish event to NATS: '' @ e), st)
      | None \<Rightarrow> (None, st\<lparr>esMessages := esMessages st @ [eventMessage prefix event]\<rparr>))"

section \<open>events_clickhouse.go\<close>

definition stampScope :: "ScopeContext \<Rightarrow> EventV1 \<Rightarrow> EventV1" where
  "stampScope scope event =
     (if scopeType scope \<noteq> '''' \<and> scopeType scope \<noteq> TenantTypePlatform
      then event\<lparr>evAnnotations := setAnnotation ScopeNameAnnotation (scopeName scope)
                   (setAnnotation ScopeTypeAnnotation (scopeType scope) (evAnnotations event))\<rparr>
      else event)"

text \<open>The write that ends Create and Update: to the broker when there is a publisher, else to the table.\<close>

definition writeEvent :: "event_env \<Rightarrow> string \<Rightarrow> string \<Rightarrow> EventV1 \<Rightarrow> EventsState \<Rightarrow> event_error + EventV1 \<times> EventsState" where
  "writeEvent env pubErr execErr event st =
     (let versioned = event\<lparr>evResourceVersion := fmtInt (eoInsertTime env)\<rparr>
      in case eoPublisher env of
           Some prefix \<Rightarrow>
             (case eventPublish env prefix event st of
                (Some e, st') \<Rightarrow> Inl (EFailed (pubErr @ e))
              | (None, st') \<Rightarrow> Inr (versioned, st'))
         | None \<Rightarrow>
             if \<not> eoExecOK env then Inl (EFailed execErr)
             else Inr (versioned, st\<lparr>esRows := esRows st @ [(event, eoInsertTime env)]\<rparr>))"

definition Create :: "event_env \<Rightarrow> EventV1 \<Rightarrow> ScopeContext \<Rightarrow> EventsState \<Rightarrow> event_error + EventV1 \<times> EventsState" where
  "Create env event scope st =
     (let e1 = (if evUID event = '''' then event\<lparr>evUID := eoUUID env\<rparr> else event);
          e2 = (if isZeroTime (evEventTime e1) then e1\<lparr>evEventTime := eoNow env\<rparr> else e1);
          e3 = (if isZeroTime (evFirstTimestamp e2) then e2\<lparr>evFirstTimestamp := eoNow env\<rparr> else e2);
          e4 = (if isZeroTime (evLastTimestamp e3) then e3\<lparr>evLastTimestamp := eoNow env\<rparr> else e3);
          e5 = (if evCount e4 = 0 then e4\<lparr>evCount := 1\<rparr> else e4)
      in writeEvent env ''failed to publish event to NATS: '' ''failed to insert event'' (stampScope scope e5) st)"

text \<open>The columns of a row of the table, extracted from the event's JSON text.\<close>

definition eventRow :: "EventV1 \<Rightarrow> row" where
  "eventRow e =
     \<lparr>rowCol = (\<lambda>c.
        if c = ''namespace'' then AString (evNamespace e)
        else if c = ''name'' then AString (evName e)
        else if c = ''uid'' then AString (evUID e)
        else if c = ''scope_type'' then AString (annotationOf (evAnnotations e) ScopeTypeAnnotation)
        else if c = ''scope_name'' then AString (annotationOf (evAnnotations e) ScopeNameAnnotation)
        else if c = ''regarding_kind'' then AString (refKind (evRegarding e))
        else if c = ''regarding_name'' then AString (refName (evRegarding e))
        else if c = ''regarding_namespace'' then AString (refNamespace (evRegarding e))
        else if c = ''regarding_uid'' then AString (refUID (evRegarding e))
        else if c = ''reason'' then AString (evReason e)
        else if c = ''type'' then AString (evType e)
        else if c = ''source_component'' then AString (evReportingController e)
        else if c = ''source_host'' then AString (evReportingInstance e)
        else if c = ''last_timestamp'' then ATime (evLastTimestamp e)
        else AString []),
      rowJSON = []\<rparr>"

definition eventSem :: sql_semantics where
  "eventSem = \<lparr>semHour = (\<lambda>t. t - t mod hour), semFilter = (\<lambda>_ _ _. True), semSearch = (\<lambda>_ _. True)\<rparr>"

definition matchingRows :: "sql_cond list \<Rightarrow> (EventV1 \<times> instant) list \<Rightarrow> (EventV1 \<times> instant) list" where
  "matchingRows conds rows = filter (\<lambda>(e, _). list_all (condHolds eventSem (eventRow e)) conds) rows"

definition byKey :: "string \<Rightarrow> string \<Rightarrow> ScopeContext \<Rightarrow> sql_cond list" where
  "byKey namespace name scope =
     [CCompare ''namespace'' ''='' (AString namespace), CCompare ''name'' ''='' (AString name)] @ buildScopeConditions scope"

text \<open>\<open>ORDER BY inserted_at DESC LIMIT 1\<close>; the version read is the insertion time.\<close>

definition withVersion :: "event_env \<Rightarrow> EventV1 \<times> instant \<Rightarrow> EventV1 option" where
  "withVersion env row = map_option (\<lambda>e. e\<lparr>evResourceVersion := fmtInt (snd row)\<rparr>) (eoStored env (fst row))"

definition newestFirst :: "(EventV1 \<times> instant) list \<Rightarrow> (EventV1 \<times> instant) list" where
  "newestFirst rows = rev (sort_key snd rows)"

definition GetEvent :: "event_env \<Rightarrow> string \<Rightarrow> string \<Rightarrow> ScopeContext \<Rightarrow> EventsState \<Rightarrow> event_error + EventV1" where
  "GetEvent env namespace name scope st =
     (if \<not> eoQueryOK env then Inl (EFailed ''failed to get event'')
      else (case newestFirst (matchingRows (byKey namespace name scope) (esRows st)) of
              [] \<Rightarrow> Inl (ENotFound name)
            | row # _ \<Rightarrow> (case withVersion env row of None \<Rightarrow> Inl (EFailed ''failed to unmarshal event'') | Some e \<Rightarrow> Inr e)))"

definition UpdateEvent :: "event_env \<Rightarrow> EventV1 \<Rightarrow> ScopeContext \<Rightarrow> EventsState \<Rightarrow> event_error + EventV1 \<times> EventsState" where
  "UpdateEvent env event scope st =
     bind_r (GetEvent env (evNamespace event) (evName event) scope st) (\<lambda>existing.
       let e1 = (if evUID event = '''' then event\<lparr>evUID := evUID existing\<rparr> else event);
           e2 = e1\<lparr>evEventTime := eoNow env, evLastTimestamp := eoNow env\<rparr>
       in case evSeries existing of
            None \<Rightarrow> Inl EPanic
          | Some s \<Rightarrow>
              let e3 = e2\<lparr>evSeries := Some \<lparr>serCount = wrap32 (serCount s + 1), serLastObserved = eoNow env\<rparr>, evCount := wrap32 (serCount s + 1)\<rparr>;
                  e4 = (if isZeroTime (evFirstTimestamp e3) then e3\<lparr>evFirstTimestamp := evFirstTimestamp existing\<rparr> else e3)
              in writeEvent env ''failed to publish event update to NATS: '' ''failed to update event'' (stampScope scope e4) st)"

definition DeleteEvent :: "event_env \<Rightarrow> string \<Rightarrow> string \<Rightarrow> ScopeContext \<Rightarrow> EventsState \<Rightarrow> event_error + EventsState" where
  "DeleteEvent env namespace name scope st =
     (case GetEvent env namespace name scope st of
        Inl (ENotFound _) \<Rightarrow> Inr st
      | Inl e \<Rightarrow> Inl e
      | Inr _ \<Rightarrow>
          if \<not> eoExecOK env then Inl (EFailed ''failed to delete event'')
          else Inr (st\<lparr>esRows := filter (\<lambda>(e, _). \<not> list_all (condHolds eventSem (eventRow e)) (byKey namespace name scope)) (esRows st)\<rparr>))"

text \<open>\<open>strconv.ParseInt(s, 10, 64)\<close>.\<close>

definition parseInt64 :: "string \<Rightarrow> int option" where
  "parseInt64 s =
     (let neg = hasPrefix s ''-''; ds = (if neg \<or> hasPrefix s ''+'' then tl s else s);
          v = (if neg then - digitsVal ds else digitsVal ds)
      in if ds = [] \<or> \<not> list_all isDigit ds \<or> v < - (2 ^ 63) \<or> v \<ge> 2 ^ 63 then None else Some v)"

record ListOptions =
  loLimit :: int
  loContinue :: string
  loFieldSelector :: string

definition listConds :: "instant \<Rightarrow> string \<Rightarrow> ListOptions \<Rightarrow> ScopeContext \<Rightarrow> event_error + sql_cond list" where
  "listConds now namespace opts scope =
     (case selectorConds (loFieldSelector opts) of
        Inl (QSelector e) \<Rightarrow> Inl (EBadRequest (''invalid field selector: '' @ e))
      | Inl _ \<Rightarrow> Inl EPanic
      | Inr sel \<Rightarrow>
          Inr ([CCompare ''last_timestamp'' ''>='' (ATime (now - 24 * hour))]
               @ (if namespace = '''' then [] else [CCompare ''namespace'' ''='' (AString namespace)])
               @ buildScopeConditions scope @ sel))"

definition listWindow :: "string \<Rightarrow> (EventV1 \<times> instant) list \<Rightarrow> (EventV1 \<times> instant) list" where
  "listWindow cont rows =
     (case (if cont = '''' then None else parseInt64 cont) of
        None \<Rightarrow> rows
      | Some rv \<Rightarrow> filter (\<lambda>(_, inserted). inserted < rv) rows)"

text \<open>
  The items, the continue token and the list's own version, that of the last row that decodes. A row
  that does not decode is skipped after it was counted against the limit.
\<close>

definition ListEvents ::
  "event_env \<Rightarrow> string \<Rightarrow> ListOptions \<Rightarrow> ScopeContext \<Rightarrow> EventsState \<Rightarrow> event_error + EventV1 list \<times> string \<times> string" where
  "ListEvents env namespace opts scope st =
     bind_r (listConds (eoNow env) namespace opts scope) (\<lambda>conds.
       if \<not> eoQueryOK env then Inl (EFailed ''failed to list events'')
       else (let limit = (if loLimit opts > 0 then loLimit opts else 500);
                 rows = take (nat (limit + 1)) (newestFirst (listWindow (loContinue opts) (matchingRows conds (esRows st))));
                 items = List.map_filter (withVersion env) rows;
                 page = take (nat limit) items
             in Inr (if int (length items) > limit then page else items,
                     if int (length items) > limit \<and> page \<noteq> [] then evResourceVersion (last page) else '''',
                     if items = [] then '''' else evResourceVersion (last items))))"

section \<open>registry/activity/events/storage.go\<close>

text \<open>A request: its namespace and the extra fields of its user, either of which may be missing.\<close>

record event_request =
  erNamespace :: "string option"
  erUserExtra :: "(string \<times> string list) list option"

datatype rest_error = RBadRequest string | RInternal string | RNotFound string | RUnavailable string | RPanic

definition convertToStatusError :: "event_error \<Rightarrow> rest_error" where
  "convertToStatusError e =
     (case e of
        ENotFound n \<Rightarrow> RNotFound n
      | EBadRequest m \<Rightarrow> RBadRequest m
      | EFailed _ \<Rightarrow> RUnavailable ''Failed to access events storage. Please try again later.''
      | EPanic \<Rightarrow> RPanic)"

definition requestScope :: "event_request \<Rightarrow> rest_error + string \<times> ScopeContext" where
  "requestScope req =
     (case erNamespace req of
        None \<Rightarrow> Inl (RBadRequest ''namespace is required'')
      | Some ns \<Rightarrow>
          if ns = '''' then Inl (RBadRequest ''namespace is required'')
          else (case erUserExtra req of
                  None \<Rightarrow> Inl (RInternal ''no user in context'')
                | Some extra \<Rightarrow> Inr (ns, ExtractScopeFromUser extra)))"

definition liftEvent :: "event_error + 'a \<Rightarrow> rest_error + 'a" where
  "liftEvent r = (case r of Inl e \<Rightarrow> Inl (convertToStatusError e) | Inr a \<Rightarrow> Inr a)"

text \<open>Admission's validation functions answer with an error or nothing.\<close>

definition CreateREST ::
  "event_env \<Rightarrow> (CoreEvent \<Rightarrow> rest_error option) \<Rightarrow> event_request \<Rightarrow> CoreEvent \<Rightarrow> EventsState \<Rightarrow> rest_error + CoreEvent \<times> EventsState" where
  "CreateREST env validate req event st =
     bind_r (requestScope req) (\<lambda>(ns, scope).
       if cevNamespace event \<noteq> '''' \<and> cevNamespace event \<noteq> ns then Inl (RBadRequest ''event namespace does not match request namespace'')
       else (let event' = event\<lparr>cevNamespace := ns\<rparr>
             in case validate event' of
                  Some e \<Rightarrow> Inl e
                | None \<Rightarrow>
                    bind_r (liftEvent (Create env (ConvertCoreV1ToEventsV1 event') scope st)) (\<lambda>(v, st'). Inr (ConvertEventsV1ToCoreV1 v, st'))))"

definition GetREST :: "event_env \<Rightarrow> event_request \<Rightarrow> string \<Rightarrow> EventsState \<Rightarrow> rest_error + CoreEvent" where
  "GetREST env req name st =
     bind_r (requestScope req) (\<lambda>(ns, scope).
       bind_r (liftEvent (GetEvent env ns name scope st)) (\<lambda>v. Inr (ConvertEventsV1ToCoreV1 v)))"

text \<open>\<open>updated\<close> computes the new object from the existing one, or from none.\<close>

definition UpdateREST ::
  "event_env \<Rightarrow> (CoreEvent \<Rightarrow> rest_error option) \<Rightarrow> (CoreEvent \<Rightarrow> CoreEvent \<Rightarrow> rest_error option) \<Rightarrow> bool \<Rightarrow>
   (CoreEvent option \<Rightarrow> rest_error + CoreEvent) \<Rightarrow> event_request \<Rightarrow> string \<Rightarrow> EventsState \<Rightarrow> rest_error + (CoreEvent \<times> bool) \<times> EventsState" where
  "UpdateREST env createValidation updateValidation forceAllowCreate updated req name st =
     bind_r (requestScope req) (\<lambda>(ns, scope).
       case GetEvent env ns name scope st of
         Inl err \<Rightarrow>
           (case err of
              ENotFound _ \<Rightarrow>
                if \<not> forceAllowCreate then Inl (convertToStatusError err)
                else bind_r (updated None) (\<lambda>event.
                  let event' = event\<lparr>cevNamespace := ns, cevName := name\<rparr>
                  in case createValidation event' of
                       Some e \<Rightarrow> Inl e
                     | None \<Rightarrow>
                         bind_r (liftEvent (Create env (ConvertCoreV1ToEventsV1 event') scope st)) (\<lambda>(v, st').
                           Inr ((ConvertEventsV1ToCoreV1 v, True), st')))
            | _ \<Rightarrow> Inl (convertToStatusError err))
       | Inr existingV1 \<Rightarrow>
           (let existing = ConvertEventsV1ToCoreV1 existingV1
            in bind_r (updated (Some existing)) (\<lambda>event.
                 case updateValidation event existing of
                   Some e \<Rightarrow> Inl e
                 | None \<Rightarrow>
                     bind_r (liftEvent (UpdateEvent env (ConvertCoreV1ToEventsV1 event) scope st)) (\<lambda>(v, st').
                       Inr ((ConvertEventsV1ToCoreV1 v, False), st')))))"

definition DeleteREST ::
  "event_env \<Rightarrow> (CoreEvent \<Rightarrow> rest_error option) \<Rightarrow> event_request \<Rightarrow> string \<Rightarrow> EventsState \<Rightarrow> rest_error + CoreEvent option \<times> EventsState" where
  "DeleteREST env validate req name st =
     bind_r (requestScope req) (\<lambda>(ns, scope).
       case GetEvent env ns name scope st of
         Inl err \<Rightarrow> (case err of ENotFound _ \<Rightarrow> Inr (None, st) | _ \<Rightarrow> Inl (convertToStatusError err))
       | Inr existingV1 \<Rightarrow>
           (let existing = ConvertEventsV1ToCoreV1 existingV1
            in case validate existing of
                 Some e \<Rightarrow> Inl e
               | None \<Rightarrow> bind_r (liftEvent (DeleteEvent env ns name scope st)) (\<lambda>st'. Inr (Some existing, st'))))"

section \<open>Lemmas\<close>

lemma annotationOf_set [simp]:
  "annotationOf (setAnnotation k v m) k' = (if k' = k then v else annotationOf m k')"
  by (induction m) (auto simp: setAnnotation_def annotationOf_def)

lemma stampScope_scope:
  assumes "scopeType scope \<in> {TenantTypeOrganization, TenantTypeProject, TenantTypeUser}"
  shows "annotationOf (evAnnotations (stampScope scope e)) ScopeTypeAnnotation = scopeType scope"
    and "annotationOf (evAnnotations (stampScope scope e)) ScopeNameAnnotation = scopeName scope"
  using assms by (auto simp: stampScope_def tenant_type_defs ScopeTypeAnnotation_def ScopeNameAnnotation_def)

lemma stampScope_keeps [simp]:
  "evNamespace (stampScope scope e) = evNamespace e" "evName (stampScope scope e) = evName e" "evSeries (stampScope scope e) = evSeries e"
  "evUID (stampScope scope e) = evUID e"
  by (simp_all add: stampScope_def)

text \<open>Which rows a key selects, and that a stamped event is selected by its own scope and no other.\<close>

lemma byKey_holds:
  "list_all (condHolds sem (eventRow e)) (byKey ns n scope)
    \<longleftrightarrow> evNamespace e = ns \<and> evName e = n \<and> list_all (condHolds sem (eventRow e)) (buildScopeConditions scope)"
  by (auto simp: byKey_def condHolds_def eventRow_def)

lemma stamped_in_scope:
  assumes "scopeType scope \<in> {TenantTypeOrganization, TenantTypeProject, TenantTypeUser}"
    and "scopeType scope' \<in> {TenantTypeOrganization, TenantTypeProject, TenantTypeUser}"
  shows "list_all (condHolds sem (eventRow (stampScope scope e))) (buildScopeConditions scope')
    \<longleftrightarrow> scopeType scope' = scopeType scope \<and> scopeName scope' = scopeName scope"
  using stampScope_scope [OF assms(1), of e] assms(2) unfolding eventScopeConds_sound eventInScope_def
  by (auto simp: eventRow_def)

lemma newestFirst_snoc:
  assumes "\<forall>r \<in> set rows. snd r < t"
  shows "newestFirst (rows @ [(e, t)]) = (e, t) # newestFirst rows"
proof -
  have stable: "filter (\<lambda>x. snd k = snd x) (sort_key snd rows) = filter (\<lambda>x. snd k = snd x) rows" for k :: "EventV1 \<times> instant"
    using sort_key_stable [of snd "snd k" rows] by (simp add: eq_commute [of "snd k"])
  have "sort_key snd (rows @ [(e, t)]) = sort_key snd rows @ [(e, t)]"
  proof (rule properties_for_sort_key)
    show "sorted (map snd (sort_key snd rows @ [(e, t)]))"
      using assms by (auto simp: sorted_append)
  qed (simp_all add: stable)
  then show ?thesis by (simp add: newestFirst_def)
qed

lemma writeEvent_direct:
  assumes "eoPublisher env = None" "writeEvent env pe xe event st = Inr (v, st')"
  shows "st' = st\<lparr>esRows := esRows st @ [(event, eoInsertTime env)]\<rparr>"
  using assms by (auto simp: writeEvent_def Let_def split: if_splits)

text \<open>The row that Create adds: the event with its defaults and the scope stamped on it.\<close>

lemma Create_direct:
  assumes "eoPublisher env = None" "Create env event scope st = Inr (v, st')"
  obtains e where "st' = st\<lparr>esRows := esRows st @ [(stampScope scope e, eoInsertTime env)]\<rparr>"
    "evNamespace e = evNamespace event" "evName e = evName event" "evSeries e = evSeries event"
proof -
  from assms(2) obtain e where e: "writeEvent env ''failed to publish event to NATS: '' ''failed to insert event'' (stampScope scope e) st = Inr (v, st')"
    "evNamespace e = evNamespace event" "evName e = evName event" "evSeries e = evSeries event"
    unfolding Create_def Let_def by (simp split: if_splits)
  from writeEvent_direct [OF assms(1) e(1)] e that show thesis by blast
qed

text \<open>What reading an event back from its JSON text has to keep.\<close>

definition keepsSeries :: "(EventV1 \<Rightarrow> EventV1 option) \<Rightarrow> bool" where
  "keepsSeries stored = (\<forall>e. \<exists>e'. stored e = Some e' \<and> (evSeries e' = None \<longleftrightarrow> evSeries e = None))"

lemma getEvent_newest:
  assumes "esRows st = rows @ [(e, t)]" "\<forall>r \<in> set rows. snd r < t" "eoQueryOK env"
    and "list_all (condHolds eventSem (eventRow e)) (byKey ns name scope)"
  shows "GetEvent env ns name scope st =
    (case eoStored env e of None \<Rightarrow> Inl (EFailed ''failed to unmarshal event'') | Some e' \<Rightarrow> Inr (e'\<lparr>evResourceVersion := fmtInt t\<rparr>))"
proof -
  have "matchingRows (byKey ns name scope) (esRows st) = matchingRows (byKey ns name scope) rows @ [(e, t)]"
    using assms(1,4) by (simp add: matchingRows_def)
  moreover have "\<forall>r \<in> set (matchingRows (byKey ns name scope) rows). snd r < t" using assms(2) by (auto simp: matchingRows_def)
  ultimately show ?thesis using assms(3) by (simp add: GetEvent_def newestFirst_snoc withVersion_def split: option.split)
qed

section \<open>Tenants\<close>

text \<open>
  One operation of a tenant's client, and what it leaves: a failed operation leaves the store as it
  was. A history is a list of operations, each with its tenant and what it takes from outside.
\<close>

datatype event_op = OpCreate EventV1 | OpUpdate EventV1 | OpDelete string string

definition applyOp :: "event_env \<Rightarrow> ScopeContext \<Rightarrow> event_op \<Rightarrow> EventsState \<Rightarrow> EventsState" where
  "applyOp env scope op st =
     (case (case op of
              OpCreate event \<Rightarrow> map_sum id snd (Create env event scope st)
            | OpUpdate event \<Rightarrow> map_sum id snd (UpdateEvent env event scope st)
            | OpDelete ns name \<Rightarrow> DeleteEvent env ns name scope st) of
        Inl _ \<Rightarrow> st
      | Inr st' \<Rightarrow> st')"

fun applyOps :: "(event_env \<times> ScopeContext \<times> event_op) list \<Rightarrow> EventsState \<Rightarrow> EventsState" where
  "applyOps [] st = st"
| "applyOps ((env, scope, op) # ops) st = applyOps ops (applyOp env scope op st)"

definition isTenant :: "ScopeContext \<Rightarrow> bool" where
  "isTenant scope \<longleftrightarrow> scopeType scope \<in> {TenantTypeOrganization, TenantTypeProject, TenantTypeUser}"

definition sameTenant :: "ScopeContext \<Rightarrow> ScopeContext \<Rightarrow> bool" where
  "sameTenant a b \<longleftrightarrow> scopeType a = scopeType b \<and> scopeName a = scopeName b"

text \<open>The rows a tenant can reach, and the operations that depend on them only.\<close>

definition tenantRows :: "ScopeContext \<Rightarrow> EventsState \<Rightarrow> (EventV1 \<times> instant) list" where
  "tenantRows scope st = matchingRows (buildScopeConditions scope) (esRows st)"

lemma matchingRows_tenant:
  assumes "set (buildScopeConditions scope) \<subseteq> set conds" "tenantRows scope st = tenantRows scope st'"
  shows "matchingRows conds (esRows st) = matchingRows conds (esRows st')"
proof -
  have "matchingRows conds rows = matchingRows conds (matchingRows (buildScopeConditions scope) rows)" for rows
    using assms(1) by (auto simp: matchingRows_def list_all_iff intro!: filter_cong)
  from this [of "esRows st"] this [of "esRows st'"] assms(2) show ?thesis by (simp add: tenantRows_def)
qed

lemma reads_tenant:
  assumes "tenantRows scope st = tenantRows scope st'"
  shows "GetEvent env ns name scope st = GetEvent env ns name scope st'"
    and "ListEvents env ns opts scope st = ListEvents env ns opts scope st'"
proof -
  have "set (buildScopeConditions scope) \<subseteq> set (byKey ns name scope)" by (auto simp: byKey_def)
  from matchingRows_tenant [OF this assms] show "GetEvent env ns name scope st = GetEvent env ns name scope st'" by (simp add: GetEvent_def)
  have "matchingRows conds (esRows st) = matchingRows conds (esRows st')" if "listConds (eoNow env) ns opts scope = Inr conds" for conds
    using that assms by (intro matchingRows_tenant [of scope]) (auto simp: listConds_def split: sum.splits query_error.splits)
  then show "ListEvents env ns opts scope st = ListEvents env ns opts scope st'"
    by (cases "listConds (eoNow env) ns opts scope") (simp_all add: ListEvents_def)
qed

lemma stamped_elsewhere:
  assumes "isTenant me" "isTenant scope" "\<not> sameTenant scope me"
  shows "\<not> list_all (condHolds sem (eventRow (stampScope scope e))) (buildScopeConditions me)"
  using stamped_in_scope [of scope me] assms by (auto simp: isTenant_def sameTenant_def)

lemma writeEvent_elsewhere:
  assumes "isTenant me" "isTenant scope" "\<not> sameTenant scope me" "writeEvent env pe xe (stampScope scope e) st = Inr (v, st')"
  shows "tenantRows me st' = tenantRows me st"
  using assms(4) stamped_elsewhere [OF assms(1-3)]
  by (auto simp: writeEvent_def eventPublish_def tenantRows_def matchingRows_def Let_def split: option.splits if_splits)

lemma keyed_elsewhere:
  assumes "isTenant me" "isTenant scope" "\<not> sameTenant scope me" "list_all (condHolds sem (eventRow e)) (byKey ns name scope)"
  shows "\<not> list_all (condHolds sem (eventRow e)) (buildScopeConditions me)"
  using assms by (auto simp: byKey_holds eventScopeConds_sound eventInScope_def isTenant_def sameTenant_def)

lemma Create_form: "\<exists>e. Create env event scope st = writeEvent env ''failed to publish event to NATS: '' ''failed to insert event'' (stampScope scope e) st"
  unfolding Create_def Let_def by (rule exI, rule refl)

lemma Update_form:
  assumes "UpdateEvent env event scope st = Inr r"
  shows "\<exists>e. writeEvent env ''failed to publish event update to NATS: '' ''failed to update event'' (stampScope scope e) st = Inr r"
proof -
  from assms obtain existing where "GetEvent env (evNamespace event) (evName event) scope st = Inr existing"
    unfolding UpdateEvent_def bind_r_def by (auto split: sum.splits)
  moreover from this assms obtain s where "evSeries existing = Some s"
    unfolding UpdateEvent_def bind_r_def Let_def by (cases "evSeries existing") simp_all
  ultimately show ?thesis using assms unfolding UpdateEvent_def bind_r_def Let_def by (simp only: sum.case option.case) (rule exI)
qed

lemma applyOp_elsewhere:
  assumes "isTenant me" "isTenant scope" "\<not> sameTenant scope me"
  shows "tenantRows me (applyOp env scope op st) = tenantRows me st"
proof (cases op)
  case (OpCreate event)
  show ?thesis
  proof (cases "Create env event scope st")
    case (Inl err)
    with OpCreate show ?thesis by (simp add: applyOp_def)
  next
    case (Inr r)
    with Create_form [of env event scope st] obtain e where
      "writeEvent env ''failed to publish event to NATS: '' ''failed to insert event'' (stampScope scope e) st = Inr (fst r, snd r)" by auto
    from writeEvent_elsewhere [OF assms this] OpCreate Inr show ?thesis by (simp add: applyOp_def)
  qed
next
  case (OpUpdate event)
  show ?thesis
  proof (cases "UpdateEvent env event scope st")
    case (Inl err)
    with OpUpdate show ?thesis by (simp add: applyOp_def)
  next
    case (Inr r)
    from Update_form [OF Inr] obtain e where
      "writeEvent env ''failed to publish event update to NATS: '' ''failed to update event'' (stampScope scope e) st = Inr (fst r, snd r)" by auto
    from writeEvent_elsewhere [OF assms this] OpUpdate Inr show ?thesis by (simp add: applyOp_def)
  qed
next
  case (OpDelete ns name)
  have "matchingRows (buildScopeConditions me) (filter (\<lambda>(e, _). \<not> list_all (condHolds eventSem (eventRow e)) (byKey ns name scope)) rows)
      = matchingRows (buildScopeConditions me) rows" for rows
    using keyed_elsewhere [OF assms] by (auto simp: matchingRows_def intro!: filter_cong)
  with OpDelete show ?thesis
    by (auto simp: applyOp_def DeleteEvent_def tenantRows_def split: sum.splits event_error.splits)
qed

lemma applyOps_elsewhere:
  assumes "isTenant me" "\<forall>(env, scope, op) \<in> set ops. isTenant scope \<and> \<not> sameTenant scope me"
  shows "tenantRows me (applyOps ops st) = tenantRows me st"
  using assms(2) by (induction ops st rule: applyOps.induct) (simp_all add: applyOp_elsewhere [OF assms(1)])

text \<open>What the event that Create stores or publishes keeps of the event it was given.\<close>

definition stampedFrom :: "ScopeContext \<Rightarrow> EventV1 \<Rightarrow> EventV1 \<Rightarrow> bool" where
  "stampedFrom scope event e \<longleftrightarrow>
     evNamespace e = evNamespace event \<and> evName e = evName event \<and> evRegarding e = evRegarding event \<and> evReason e = evReason event
     \<and> evNote e = evNote event \<and> evType e = evType event \<and> evSeries e = evSeries event
     \<and> annotationOf (evAnnotations e) ''platform.miloapis.com/scope.type'' = scopeType scope
     \<and> annotationOf (evAnnotations e) ''platform.miloapis.com/scope.name'' = scopeName scope"

lemma stampScope_from:
  assumes "isTenant scope" "evNamespace e = evNamespace event" "evName e = evName event" "evRegarding e = evRegarding event"
    "evReason e = evReason event" "evNote e = evNote event" "evType e = evType event" "evSeries e = evSeries event"
  shows "stampedFrom scope event (stampScope scope e)"
  using assms stampScope_scope [of scope e]
  by (simp add: stampedFrom_def isTenant_def stampScope_def ScopeTypeAnnotation_def ScopeNameAnnotation_def)

lemma Create_writes:
  assumes "isTenant scope"
  obtains e where "stampedFrom scope event (stampScope scope e)" "Create env event scope st =
    writeEvent env ''failed to publish event to NATS: '' ''failed to insert event'' (stampScope scope e) st"
proof -
  define e1 where "e1 = (if evUID event = '''' then event\<lparr>evUID := eoUUID env\<rparr> else event)"
  define e2 where "e2 = (if isZeroTime (evEventTime e1) then e1\<lparr>evEventTime := eoNow env\<rparr> else e1)"
  define e3 where "e3 = (if isZeroTime (evFirstTimestamp e2) then e2\<lparr>evFirstTimestamp := eoNow env\<rparr> else e2)"
  define e4 where "e4 = (if isZeroTime (evLastTimestamp e3) then e3\<lparr>evLastTimestamp := eoNow env\<rparr> else e3)"
  define e5 where "e5 = (if evCount e4 = 0 then e4\<lparr>evCount := 1\<rparr> else e4)"
  note defs = e1_def e2_def e3_def e4_def e5_def
  have keep: "f e5 = f event" if "\<And>e x. f (e\<lparr>evUID := x\<rparr>) = f e" "\<And>e x. f (e\<lparr>evEventTime := x\<rparr>) = f e" "\<And>e x. f (e\<lparr>evFirstTimestamp := x\<rparr>) = f e"
    "\<And>e x. f (e\<lparr>evLastTimestamp := x\<rparr>) = f e" "\<And>e x. f (e\<lparr>evCount := x\<rparr>) = f e" for f :: "EventV1 \<Rightarrow> 'x"
  proof -
    have "f e1 = f event" "f e2 = f e1" "f e3 = f e2" "f e4 = f e3" "f e5 = f e4" by (simp_all add: defs that)
    then show ?thesis by simp
  qed
  have "stampedFrom scope event (stampScope scope e5)" by (rule stampScope_from [OF assms]) (rule keep; simp)+
  moreover have "Create env event scope st =
      writeEvent env ''failed to publish event to NATS: '' ''failed to insert event'' (stampScope scope e5) st"
    by (simp only: Create_def Let_def defs)
  ultimately show thesis by (rule that)
qed

text \<open>
  C4: tenants (organisations, projects, users) do not see each other's events. Whatever creates,
  updates and deletes other tenants make, with or without a publisher, what a tenant reads, lists and
  can delete is as before. An event that a tenant creates is stamped with that tenant's scope: written
  to the table it is read back by its name, as the newest version, also after everything the others
  did; with a publisher the table is unchanged and the message carries the stamped event, whose row is
  in the scope of that tenant alone.
\<close>

theorem events_isolated_between_tenants:
  assumes "isTenant me" "\<forall>(env, scope, op) \<in> set ops. isTenant scope \<and> \<not> sameTenant scope me"
  shows "GetEvent env' ns name me (applyOps ops st) = GetEvent env' ns name me st
    \<and> ListEvents env' ns opts me (applyOps ops st) = ListEvents env' ns opts me st
    \<and> (\<forall>env event v st'. Create env event me st = Inr (v, st') \<longrightarrow>
        (\<exists>e. stampedFrom me event e
           \<and> (\<forall>other. isTenant other \<longrightarrow> list_all (condHolds eventSem (eventRow e)) (buildScopeConditions other) = sameTenant other me)
           \<and> (case eoPublisher env of
                None \<Rightarrow> (\<forall>r \<in> set (esRows st). snd r < eoInsertTime env) \<and> eoQueryOK env' \<longrightarrow>
                  GetEvent env' (evNamespace event) (evName event) me (applyOps ops st') =
                    (case eoStored env' e of None \<Rightarrow> Inl (EFailed ''failed to unmarshal event'')
                     | Some e' \<Rightarrow> Inr (e'\<lparr>evResourceVersion := fmtInt (eoInsertTime env)\<rparr>))
              | Some prefix \<Rightarrow> esRows st' = esRows st \<and> (\<exists>m. esMessages st' = esMessages st @ [m] \<and> emEvent m = e
                  \<and> emSubject m = EventSubject prefix '''' (evNamespace event)))))"
proof (intro conjI allI impI)
  note keep = reads_tenant [OF applyOps_elsewhere [OF assms]]
  show "GetEvent env' ns name me (applyOps ops st) = GetEvent env' ns name me st"
    "ListEvents env' ns opts me (applyOps ops st) = ListEvents env' ns opts me st" by (rule keep)+
  fix env event v st' assume create: "Create env event me st = Inr (v, st')"
  obtain e where e: "stampedFrom me event (stampScope me e)"
    and w: "writeEvent env ''failed to publish event to NATS: '' ''failed to insert event'' (stampScope me e) st = Inr (v, st')"
    using Create_writes [OF assms(1), of event env st] create by metis
  have scope: "list_all (condHolds eventSem (eventRow (stampScope me e))) (buildScopeConditions other) = sameTenant other me"
    if "isTenant other" for other
    using stamped_in_scope [of me other] assms(1) that by (simp add: isTenant_def sameTenant_def)
  have key: "list_all (condHolds eventSem (eventRow (stampScope me e))) (byKey (evNamespace event) (evName event) me)"
    using e scope [OF assms(1)] by (simp add: byKey_holds stampedFrom_def sameTenant_def)
  have stored: "GetEvent env' (evNamespace event) (evName event) me (applyOps ops st') =
      (case eoStored env' (stampScope me e) of None \<Rightarrow> Inl (EFailed ''failed to unmarshal event'')
       | Some e' \<Rightarrow> Inr (e'\<lparr>evResourceVersion := fmtInt (eoInsertTime env)\<rparr>))"
    if "eoPublisher env = None" "\<forall>r \<in> set (esRows st). snd r < eoInsertTime env" "eoQueryOK env'"
  proof -
    have "esRows st' = esRows st @ [(stampScope me e, eoInsertTime env)]" using writeEvent_direct [OF that(1) w] by simp
    from getEvent_newest [OF this that(2,3) key] show ?thesis by (simp add: keep)
  qed
  have published: "esRows st' = esRows st \<and> (\<exists>m. esMessages st' = esMessages st @ [m] \<and> emEvent m = stampScope me e
      \<and> emSubject m = EventSubject prefix '''' (evNamespace event))" if "eoPublisher env = Some prefix" for prefix
    using w that e by (auto simp: writeEvent_def eventPublish_def eventMessage_def stampedFrom_def Let_def split: option.splits)
  show "\<exists>e. stampedFrom me event e
           \<and> (\<forall>other. isTenant other \<longrightarrow> list_all (condHolds eventSem (eventRow e)) (buildScopeConditions other) = sameTenant other me)
           \<and> (case eoPublisher env of
                None \<Rightarrow> (\<forall>r \<in> set (esRows st). snd r < eoInsertTime env) \<and> eoQueryOK env' \<longrightarrow>
                  GetEvent env' (evNamespace event) (evName event) me (applyOps ops st') =
                    (case eoStored env' e of None \<Rightarrow> Inl (EFailed ''failed to unmarshal event'')
                     | Some e' \<Rightarrow> Inr (e'\<lparr>evResourceVersion := fmtInt (eoInsertTime env)\<rparr>))
              | Some prefix \<Rightarrow> esRows st' = esRows st \<and> (\<exists>m. esMessages st' = esMessages st @ [m] \<and> emEvent m = e
                  \<and> emSubject m = EventSubject prefix '''' (evNamespace event)))"
    by (rule exI [of _ "stampScope me e"]) (use e scope stored published in \<open>simp split: option.split\<close>)
qed

text \<open>
  A row that does not decode takes a place of its page. The page then looks like the last one: it has
  no continue token, however many rows are left, and a client that follows the tokens never sees them.
\<close>

lemma map_filter_shorter: "x \<in> set xs \<Longrightarrow> f x = None \<Longrightarrow> length (List.map_filter f xs) < length xs"
  by (simp add: List.map_filter_def length_filter_less)

lemma undecodable_row_ends_list:
  assumes "ListEvents env ns opts scope st = Inr (items, cont, version)" "listConds (eoNow env) ns opts scope = Inr conds"
    and "row \<in> set (take (nat ((if loLimit opts > 0 then loLimit opts else 500) + 1))
           (newestFirst (listWindow (loContinue opts) (matchingRows conds (esRows st)))))"
    and "eoStored env (fst row) = None"
  shows "cont = ''''"
proof -
  define limit where "limit = (if loLimit opts > 0 then loLimit opts else 500)"
  define rows where "rows = take (nat (limit + 1)) (newestFirst (listWindow (loContinue opts) (matchingRows conds (esRows st))))"
  have "length (List.map_filter (withVersion env) rows) < length rows"
    using assms(3,4) by (intro map_filter_shorter [of row]) (simp_all add: rows_def limit_def withVersion_def)
  moreover have "length rows \<le> nat (limit + 1)" by (simp add: rows_def)
  ultimately have "\<not> int (length (List.map_filter (withVersion env) rows)) > limit" by (simp add: limit_def split: if_splits)
  with assms(1,2) show ?thesis by (auto simp: ListEvents_def bind_r_def Let_def rows_def limit_def split: if_splits)
qed

text \<open>
  Update reads the count of the existing series without checking that there is one. An event
  that was created once has none, so the first update of it fails with a nil dereference.
\<close>

theorem first_update_of_event_panics:
  assumes "eoPublisher env = None" "Create env event scope st = Inr (v, st')" "\<forall>r \<in> set (esRows st). snd r < eoInsertTime env"
    and "scopeType scope \<in> {TenantTypeOrganization, TenantTypeProject, TenantTypeUser}"
    and "evSeries event = None" "eoQueryOK env'" "keepsSeries (eoStored env')"
    and "evNamespace update = evNamespace event" "evName update = evName event"
  shows "UpdateEvent env' update scope st' = Inl EPanic"
proof -
  from Create_direct [OF assms(1,2)] obtain e where e: "st' = st\<lparr>esRows := esRows st @ [(stampScope scope e, eoInsertTime env)]\<rparr>"
    "evNamespace e = evNamespace event" "evName e = evName event" "evSeries e = evSeries event" by blast
  have key: "list_all (condHolds eventSem (eventRow (stampScope scope e))) (byKey (evNamespace event) (evName event) scope)"
    using e stamped_in_scope [OF assms(4,4)] by (simp add: byKey_holds)
  obtain e' where e': "eoStored env' (stampScope scope e) = Some e'" "evSeries e' = None"
    using assms(5,7) e(4) unfolding keepsSeries_def by (metis stampScope_keeps(3))
  have "GetEvent env' (evNamespace event) (evName event) scope st' = Inr (e'\<lparr>evResourceVersion := fmtInt (eoInsertTime env)\<rparr>)"
    using getEvent_newest [OF _ assms(3,6) key, of st'] e(1) e'(1) by simp
  with e'(2) assms(8,9) show ?thesis by (simp add: UpdateEvent_def Let_def)
qed

text \<open>
  A core event survives the conversion to the events API and back, except that the action is
  not part of it, when it has a first timestamp and either occurred more than once with a last
  timestamp or its two timestamps agree.
\<close>

theorem event_conversion_roundtrip:
  assumes "\<not> isZeroTime (cevFirstTimestamp c)"
    and "(cevCount c > 1 \<and> \<not> isZeroTime (cevLastTimestamp c)) \<or> cevLastTimestamp c = cevFirstTimestamp c"
  shows "ConvertEventsV1ToCoreV1 (ConvertCoreV1ToEventsV1 c) = c"
  using assms by (auto simp: ConvertEventsV1ToCoreV1_def ConvertCoreV1ToEventsV1_def Let_def intro!: CoreEvent.equality)

definition sampleRef :: ObjRef where
  "sampleRef = \<lparr>refAPIVersion = ''v1'', refKind = ''Pod'', refNamespace = ''default'', refName = ''web'', refUID = ''u'', refResourceVersion = '''', refFieldPath = ''''\<rparr>"

definition sampleCore :: CoreEvent where
  "sampleCore =
     \<lparr>cevNamespace = ''default'', cevName = ''web.1'', cevUID = ''e-1'', cevResourceVersion = '''', cevAnnotations = [],
      cevInvolvedObject = sampleRef, cevRelated = None, cevReason = ''Pulled'', cevMessage = ''m'', cevType = ''Normal'',
      cevCount = 1, cevFirstTimestamp = 5, cevLastTimestamp = 5, cevSourceComponent = ''kubelet'', cevSourceHost = ''n1''\<rparr>"

definition sampleEnv :: event_env where
  "sampleEnv =
     \<lparr>eoPublisher = None, eoExecOK = True, eoQueryOK = True, eoPublishErr = None, eoUUID = ''x'', eoNow = 5, eoInsertTime = 7, eoStored = Some\<rparr>"

definition emptyEvents :: EventsState where
  "emptyEvents = \<lparr>esRows = [], esMessages = []\<rparr>"

lemma sampleCreate_ok: "\<exists>v st'. Create sampleEnv (ConvertCoreV1ToEventsV1 sampleCore) sampleScope emptyEvents = Inr (v, st')"
  by (simp add: Create_def Let_def writeEvent_def sampleEnv_def)

lemma sampleCore_series: "evSeries (ConvertCoreV1ToEventsV1 sampleCore) = None"
  by (simp add: ConvertCoreV1ToEventsV1_def sampleCore_def Let_def)

lemma first_update_of_event_panics_witness:
  "\<exists>v st'. Create sampleEnv (ConvertCoreV1ToEventsV1 sampleCore) sampleScope emptyEvents = Inr (v, st')
     \<and> UpdateEvent sampleEnv (ConvertCoreV1ToEventsV1 sampleCore) sampleScope st' = Inl EPanic"
proof -
  from sampleCreate_ok obtain v st' where c: "Create sampleEnv (ConvertCoreV1ToEventsV1 sampleCore) sampleScope emptyEvents = Inr (v, st')" by blast
  have "UpdateEvent sampleEnv (ConvertCoreV1ToEventsV1 sampleCore) sampleScope st' = Inl EPanic"
    by (rule first_update_of_event_panics [OF _ c])
      (simp_all add: sampleEnv_def emptyEvents_def sampleScope_def sampleCore_series keepsSeries_def)
  with c show ?thesis by blast
qed

definition otherScope :: ScopeContext where
  "otherScope = \<lparr>scopeType = TenantTypeProject, scopeName = ''q''\<rparr>"

text \<open>One tenant creates an event and another one deletes an event of the same name.\<close>

lemma events_isolated_between_tenants_witness:
  "\<exists>v st'. Create sampleEnv (ConvertCoreV1ToEventsV1 sampleCore) sampleScope emptyEvents = Inr (v, st')
     \<and> (\<exists>found. GetEvent sampleEnv ''default'' ''web.1'' sampleScope
          (applyOps [(sampleEnv, otherScope, OpDelete ''default'' ''web.1'')] st') = Inr found \<and> evResourceVersion found = fmtInt 7)"
proof -
  let ?ops = "[(sampleEnv, otherScope, OpDelete ''default'' ''web.1'')]"
  from sampleCreate_ok obtain v st' where c: "Create sampleEnv (ConvertCoreV1ToEventsV1 sampleCore) sampleScope emptyEvents = Inr (v, st')" by blast
  have tenants: "isTenant sampleScope" "\<forall>(env, scope, op) \<in> set ?ops. isTenant scope \<and> \<not> sameTenant scope sampleScope"
    by (simp_all add: isTenant_def sameTenant_def sampleScope_def otherScope_def)
  have at: "evNamespace (ConvertCoreV1ToEventsV1 sampleCore) = ''default''" "evName (ConvertCoreV1ToEventsV1 sampleCore) = ''web.1''"
    "eoPublisher sampleEnv = None" "eoQueryOK sampleEnv" "eoInsertTime sampleEnv = 7" "eoStored sampleEnv = Some" "esRows emptyEvents = []"
    by (simp_all add: ConvertCoreV1ToEventsV1_def sampleCore_def Let_def sampleEnv_def emptyEvents_def)
  from events_isolated_between_tenants [OF tenants, of sampleEnv "''default''" "''web.1''" emptyEvents] c
  have "\<exists>found. GetEvent sampleEnv ''default'' ''web.1'' sampleScope (applyOps ?ops st') = Inr found \<and> evResourceVersion found = fmtInt 7"
    by (fastforce simp: at)
  with c show ?thesis by blast
qed

lemma event_conversion_roundtrip_witness: "ConvertEventsV1ToCoreV1 (ConvertCoreV1ToEventsV1 sampleCore) = sampleCore"
  by (rule event_conversion_roundtrip) (simp_all add: sampleCore_def isZeroTime_def zeroTime_def second_def)

end
