(* ===== verification/Watch.thy ===== *)
theory Watch
  imports Events_Store
begin

text \<open>
  internal/watch: watcher.go and events_watcher.go. A watch subscribes to a subject pattern on the
  message broker, filters what the pattern does not cover, and forwards the rest to a channel.
  NATS matches a pattern token by token: a star stands for one token, a final \<open>>\<close> for one or
  more. A message is what one receive call returns: a heartbeat, bytes that do not decode, or a
  decoded object with its stream sequence, which may be missing.
\<close>

section \<open>Subjects\<close>

fun tokensMatch :: "string list \<Rightarrow> string list \<Rightarrow> bool" where
  "tokensMatch [] [] = True"
| "tokensMatch [] (x # xs) = False"
| "tokensMatch (p # ps) [] = False"
| "tokensMatch (p # ps) (x # xs) = ((p = ''>'' \<and> ps = []) \<or> ((p = ''*'' \<or> p = x) \<and> tokensMatch ps xs))"

definition subjectMatches :: "string \<Rightarrow> string \<Rightarrow> bool" where
  "subjectMatches pattern subject = tokensMatch (subjectTokens pattern) (subjectTokens subject)"

section \<open>watcher.go\<close>

record WatchFilter =
  wfResourceVersion :: nat
  wfNamespace :: string
  wfChangeSource :: string
  wfAPIGroup :: string
  wfResourceKind :: string
  wfCELFilter :: string

definition orStar :: "string \<Rightarrow> string" where
  "orStar s = (if s = '''' then ''*'' else s)"

definition normalizeGroup :: "string \<Rightarrow> string" where
  "normalizeGroup g = map (\<lambda>c. if c = CHR ''.'' then CHR ''_'' else c) g"

definition buildWatchSubject :: "string \<Rightarrow> ScopeContext \<Rightarrow> WatchFilter \<Rightarrow> string" where
  "buildWatchSubject prefix scope f =
     (if scopeType scope = ''platform'' then joinStr ''.'' [prefix, ''>'']
      else joinStr ''.'' [prefix, scopeType scope, scopeName scope,
             (if wfAPIGroup f = '''' then ''*'' else normalizeGroup (wfAPIGroup f)), ''*'',
             orStar (wfResourceKind f), orStar (wfNamespace f), ''>''])"

text \<open>Where the consumer starts: at a sequence number, or at new messages.\<close>

datatype deliver_policy = DeliverByStartSequence nat | DeliverNew

definition deliverPolicy :: "nat \<Rightarrow> deliver_policy" where
  "deliverPolicy rv = (if rv > 0 then DeliverByStartSequence rv else DeliverNew)"

record consumer_config =
  ccFilterSubject :: string
  ccDeliverPolicy :: deliver_policy

type_synonym cel_program = "gomap \<Rightarrow> string + gval"

text \<open>
  \<open>Watch\<close>: the filter is compiled first, then the consumer is created. The answers of the
  broker to the two calls are parameters; on a failed subscription the consumer is deleted again.
\<close>

datatype watch_error = WatchUnavailable | WatchTryAgain | WatchBadFilter string | WatchConsumer string | WatchSubscribe string

definition StartWatch ::
  "(string \<Rightarrow> string + cel_program) \<Rightarrow> bool \<Rightarrow> string \<Rightarrow> (consumer_config \<Rightarrow> string option) \<Rightarrow> string option \<Rightarrow> ScopeContext \<Rightarrow> WatchFilter \<Rightarrow>
   watch_error + consumer_config \<times> cel_program option" where
  "StartWatch compileProgram configured prefix addConsumer subscribeErr scope f =
     (if \<not> configured then Inl WatchUnavailable
      else bind_r (if wfCELFilter f = '''' then Inr None
                   else (case compileProgram (wfCELFilter f) of Inl e \<Rightarrow> Inl (WatchBadFilter e) | Inr p \<Rightarrow> Inr (Some p))) (\<lambda>celFilter.
        let cfg = \<lparr>ccFilterSubject = buildWatchSubject prefix scope f, ccDeliverPolicy = deliverPolicy (wfResourceVersion f)\<rparr>
        in case addConsumer cfg of
             Some e \<Rightarrow> Inl (WatchConsumer e)
           | None \<Rightarrow> (case subscribeErr of Some e \<Rightarrow> Inl (WatchSubscribe e) | None \<Rightarrow> Inr (cfg, celFilter))))"

definition matchesFilter :: "WatchFilter \<Rightarrow> cel_program option \<Rightarrow> Activity \<Rightarrow> bool" where
  "matchesFilter f celFilter activity =
     (if wfChangeSource f \<noteq> '''' \<and> specChangeSource (actSpec activity) \<noteq> wfChangeSource f then False
      else (case celFilter of
              None \<Rightarrow> True
            | Some _ \<Rightarrow> (case EvaluateActivity celFilter activity of Inl _ \<Rightarrow> False | Inr b \<Rightarrow> b)))"

text \<open>
  What one turn of the receive loop meets: the context is done, the receive failed, a heartbeat,
  bytes that do not decode, or an object, with whether the client takes it before the context ends.
\<close>

datatype 'o watch_input =
    WDone | WReceiveError | WHeartbeat | WMalformed | WObject 'o "nat option" bool

datatype ack = Acked | Naked | Responded

record 'o watch_state =
  wsResult :: "('o \<times> string) list"
  wsAcks :: "ack list"
  wsLastSequence :: nat
  wsStopped :: bool

definition emptyWatch :: "'o watch_state" where
  "emptyWatch = \<lparr>wsResult = [], wsAcks = [], wsLastSequence = 0, wsStopped = False\<rparr>"

definition noteSequence :: "nat option \<Rightarrow> 'o watch_state \<Rightarrow> 'o watch_state" where
  "noteSequence meta w = (case meta of Some n \<Rightarrow> w\<lparr>wsLastSequence := n\<rparr> | None \<Rightarrow> w)"

text \<open>The version set on the object: the sequence, or what the object carried.\<close>

definition versionOf :: "('o \<Rightarrow> string) \<Rightarrow> 'o \<Rightarrow> nat option \<Rightarrow> string" where
  "versionOf ownVersion o' meta = (case meta of Some n \<Rightarrow> natDigits n | None \<Rightarrow> ownVersion o')"

text \<open>\<open>processMessages\<close>, for both kinds of watches; it stops the watch when it returns.\<close>

fun processMessages :: "('o \<Rightarrow> bool) \<Rightarrow> ('o \<Rightarrow> string) \<Rightarrow> 'o watch_input list \<Rightarrow> 'o watch_state \<Rightarrow> 'o watch_state" where
  "processMessages matches ownVersion [] w = w"
| "processMessages matches ownVersion (WDone # ins) w = w\<lparr>wsStopped := True\<rparr>"
| "processMessages matches ownVersion (WReceiveError # ins) w = processMessages matches ownVersion ins w"
| "processMessages matches ownVersion (WHeartbeat # ins) w = processMessages matches ownVersion ins (w\<lparr>wsAcks := wsAcks w @ [Responded]\<rparr>)"
| "processMessages matches ownVersion (WMalformed # ins) w = processMessages matches ownVersion ins (w\<lparr>wsAcks := wsAcks w @ [Naked]\<rparr>)"
| "processMessages matches ownVersion (WObject o' meta taken # ins) w =
     (let w1 = noteSequence meta w
      in if \<not> matches o' then processMessages matches ownVersion ins (w1\<lparr>wsAcks := wsAcks w1 @ [Acked]\<rparr>)
         else if taken
         then processMessages matches ownVersion ins
                (w1\<lparr>wsResult := wsResult w1 @ [(o', versionOf ownVersion o' meta)], wsAcks := wsAcks w1 @ [Acked]\<rparr>)
         else w1\<lparr>wsStopped := True\<rparr>)"

definition LastResourceVersion :: "'o watch_state \<Rightarrow> string" where
  "LastResourceVersion w = natDigits (wsLastSequence w)"

section \<open>events_watcher.go\<close>

record EventsWatchFilter =
  ewResourceVersion :: nat
  ewNamespace :: string
  ewInvolvedObjectKind :: string
  ewInvolvedObjectNamespace :: string
  ewInvolvedObjectName :: string
  ewInvolvedObjectUID :: string
  ewReason :: string
  ewType :: string
  ewSource :: string

definition buildEventsSubject :: "string \<Rightarrow> ScopeContext \<Rightarrow> EventsWatchFilter \<Rightarrow> string" where
  "buildEventsSubject subjectPrefix scope f =
     (let prefix = (if subjectPrefix = '''' then ''events'' else subjectPrefix)
      in if scopeType scope = ''platform'' then joinStr ''.'' [prefix, ''>'']
         else joinStr ''.'' [prefix, scopeType scope, scopeName scope,
                (if ewNamespace f \<noteq> '''' then ewNamespace f
                 else if ewInvolvedObjectNamespace f \<noteq> '''' then ewInvolvedObjectNamespace f else ''*''),
                orStar (ewInvolvedObjectKind f), ''>''])"

text \<open>\<open>EventsWatcher.Watch\<close>: the broker's errors are logged and reported as a temporary failure.\<close>

definition StartEventsWatch ::
  "bool \<Rightarrow> string \<Rightarrow> (consumer_config \<Rightarrow> string option) \<Rightarrow> string option \<Rightarrow> ScopeContext \<Rightarrow> EventsWatchFilter \<Rightarrow> watch_error + consumer_config" where
  "StartEventsWatch configured prefix addConsumer subscribeErr scope f =
     (if \<not> configured then Inl WatchUnavailable
      else (let cfg = \<lparr>ccFilterSubject = buildEventsSubject prefix scope f, ccDeliverPolicy = deliverPolicy (ewResourceVersion f)\<rparr>
            in if addConsumer cfg \<noteq> None \<or> subscribeErr \<noteq> None then Inl WatchTryAgain else Inr cfg))"

definition wanted :: "string \<Rightarrow> string \<Rightarrow> bool" where
  "wanted f v = (f = '''' \<or> v = f)"

definition eventMatchesFilter :: "EventsWatchFilter \<Rightarrow> EventV1 \<Rightarrow> bool" where
  "eventMatchesFilter f e =
     (wanted (ewInvolvedObjectName f) (refName (evRegarding e)) \<and> wanted (ewInvolvedObjectUID f) (refUID (evRegarding e))
      \<and> wanted (ewReason f) (evReason e) \<and> wanted (ewType f) (evType e) \<and> wanted (ewSource f) (evReportingController e))"

text \<open>\<open>parseFieldSelectorForWatch\<close>: the exact matches a selector requires, by field.\<close>

definition exactMatch :: "(string \<times> string) list \<Rightarrow> string \<Rightarrow> string \<Rightarrow> string" where
  "exactMatch sel field dflt = (case map_of sel field of Some v \<Rightarrow> v | None \<Rightarrow> dflt)"

definition parseFieldSelectorForWatch :: "(string \<times> string) list \<Rightarrow> EventsWatchFilter \<Rightarrow> EventsWatchFilter" where
  "parseFieldSelectorForWatch sel f =
     f\<lparr>ewInvolvedObjectKind := exactMatch sel ''regarding.kind'' (ewInvolvedObjectKind f),
       ewInvolvedObjectNamespace := exactMatch sel ''regarding.namespace'' (ewInvolvedObjectNamespace f),
       ewInvolvedObjectName := exactMatch sel ''regarding.name'' (ewInvolvedObjectName f),
       ewInvolvedObjectUID := exactMatch sel ''regarding.uid'' (ewInvolvedObjectUID f),
       ewReason := exactMatch sel ''reason'' (ewReason f),
       ewType := exactMatch sel ''type'' (ewType f),
       ewSource := exactMatch sel ''source'' (ewSource f)\<rparr>"

section \<open>Lemmas\<close>

lemma subjectTokens_join:
  assumes "list_all (\<lambda>t. CHR ''.'' \<notin> set t) ts" "ts \<noteq> []"
  shows "subjectTokens (prefix @ ''.'' @ joinStr ''.'' ts) = subjectTokens prefix @ ts"
  using assms
proof (induction ts arbitrary: prefix)
  case (Cons t ts)
  show ?case
  proof (cases ts)
    case Nil
    with Cons.prems subjectTokens_snoc [of t prefix] show ?thesis by simp
  next
    case (Cons u us)
    with Cons.prems have "subjectTokens ((prefix @ ''.'' @ t) @ ''.'' @ joinStr ''.'' ts) = subjectTokens (prefix @ ''.'' @ t) @ ts"
      by (intro Cons.IH) simp_all
    with Cons.prems Cons show ?thesis using subjectTokens_snoc [of t prefix] by simp
  qed
qed simp

lemma joinStr_Cons: "ts \<noteq> [] \<Longrightarrow> joinStr sep (x # ts) = x @ sep @ joinStr sep ts"
  by (cases ts) simp_all

lemma subjectTokens_joined:
  assumes "list_all (\<lambda>t. CHR ''.'' \<notin> set t) ts" "ts \<noteq> []"
  shows "subjectTokens (joinStr ''.'' (prefix # ts)) = subjectTokens prefix @ ts"
  using subjectTokens_join [OF assms] assms(2) by (simp add: joinStr_Cons)

lemma tokensMatch_self:
  assumes "list_all (\<lambda>t. t \<noteq> ''>'') pre"
  shows "tokensMatch (pre @ ps) (pre @ xs) \<longleftrightarrow> tokensMatch ps xs"
  using assms by (induction pre) auto

lemma tokensMatch_length: "tokensMatch ps xs \<Longrightarrow> length ps \<le> length xs"
  by (induction ps xs rule: tokensMatch.induct) auto

section \<open>Subject patterns select what the filter asks for\<close>

text \<open>A value that can stand in a subject as one token of its own.\<close>

definition plainToken :: "string \<Rightarrow> bool" where
  "plainToken t = (CHR ''.'' \<notin> set t \<and> t \<noteq> ''*'' \<and> t \<noteq> ''>'')"

definition plainPrefix :: "string \<Rightarrow> bool" where
  "plainPrefix prefix = list_all (\<lambda>t. t \<noteq> ''>'') (subjectTokens prefix)"

definition orDefault :: "string \<Rightarrow> string \<Rightarrow> string" where
  "orDefault d s = (if s = '''' then d else s)"

lemma splitByte_sep: "splitByte c (s @ c # t) = splitByte c s @ splitByte c t"
proof -
  have "butlast (splitByte c s) @ [last (splitByte c s)] = splitByte c s"
    by (rule append_butlast_last_id) simp
  then show ?thesis by (simp add: splitByte_append_sep)
qed

lemma subjectTokens_concat: "ts \<noteq> [] \<Longrightarrow> subjectTokens (joinStr ''.'' ts) = concat (map subjectTokens ts)"
proof (induction "''.''" ts rule: joinStr.induct)
  case (3 x y zs)
  then show ?case using splitByte_sep [of "CHR ''.''" x] by (simp add: subjectTokens_def)
qed (simp_all add: subjectTokens_def)

lemma subjectTokens_plain: "plainToken t \<Longrightarrow> subjectTokens t = [t]"
  by (simp add: subjectTokens_def plainToken_def splitByte_no_sep)

text \<open>
  The tokens of an activity's subject after its tenant: those of the API group, as many as it has
  labels, then the origin, the kind and the namespace.
\<close>

definition resourceTokens :: "Activity \<Rightarrow> string list" where
  "resourceTokens a =
     subjectTokens (orDefault ''core'' (resAPIGroup (specResource (actSpec a))))
     @ [originType (specOrigin (actSpec a)), resKind (specResource (actSpec a)), orDefault ''_'' (resNamespace (specResource (actSpec a)))]"

lemma buildActivitySubject_tokens:
  assumes "list_all plainToken [tenantType (specTenant (actSpec a)), tenantName (specTenant (actSpec a)),
      originType (specOrigin (actSpec a)), resKind (specResource (actSpec a)), resNamespace (specResource (actSpec a))]"
  shows "subjectTokens (buildActivitySubject prefix a) = subjectTokens prefix
    @ [orDefault ''platform'' (tenantType (specTenant (actSpec a))), orDefault ''_'' (tenantName (specTenant (actSpec a)))]
    @ resourceTokens a @ subjectTokens (actName a)"
proof -
  let ?g = "orDefault ''core'' (resAPIGroup (specResource (actSpec a)))"
    and ?t = "orDefault ''platform'' (tenantType (specTenant (actSpec a)))" and ?n = "orDefault ''_'' (tenantName (specTenant (actSpec a)))"
    and ?o = "originType (specOrigin (actSpec a))" and ?k = "resKind (specResource (actSpec a))"
    and ?ns = "orDefault ''_'' (resNamespace (specResource (actSpec a)))"
  have eq: "buildActivitySubject prefix a = joinStr ''.'' [prefix, ?t, ?n, ?g, ?o, ?k, ?ns, actName a]"
    unfolding buildActivitySubject_def Let_def orDefault_def by simp
  have p: "plainToken (orDefault d t)" if "plainToken t" "plainToken d" for d t using that by (simp add: orDefault_def)
  have d: "plainToken ''platform''" "plainToken ''_''" by (simp_all add: plainToken_def)
  from assms have pl: "plainToken ?t" "plainToken ?n" "plainToken ?o" "plainToken ?k" "plainToken ?ns" using d by (simp_all add: p)
  have "subjectTokens (buildActivitySubject prefix a) = concat (map subjectTokens [prefix, ?t, ?n, ?g, ?o, ?k, ?ns, actName a])"
    unfolding eq by (rule subjectTokens_concat) simp
  with pl show ?thesis by (simp add: subjectTokens_plain resourceTokens_def)
qed

lemma buildWatchSubject_tokens:
  assumes "scopeType scope \<noteq> ''platform''" "list_all plainToken [scopeType scope, scopeName scope, wfResourceKind f, wfNamespace f]"
  shows "subjectTokens (buildWatchSubject prefix scope f) = subjectTokens prefix
    @ [scopeType scope, scopeName scope, orStar (normalizeGroup (wfAPIGroup f)), ''*'', orStar (wfResourceKind f), orStar (wfNamespace f), ''>'']"
proof -
  have eq: "buildWatchSubject prefix scope f
    = joinStr ''.'' (prefix # [scopeType scope, scopeName scope, orStar (normalizeGroup (wfAPIGroup f)), ''*'', orStar (wfResourceKind f), orStar (wfNamespace f), ''>''])"
    using assms by (simp add: buildWatchSubject_def orStar_def normalizeGroup_def)
  show ?thesis unfolding eq
    by (rule subjectTokens_joined) (use assms in \<open>auto simp: plainToken_def orStar_def normalizeGroup_def\<close>)
qed

lemma resourceTokens_nth:
  obtains r0 r1 r2 r3 r4 rest where "resourceTokens a @ subjectTokens (actName a) = r0 # r1 # r2 # r3 # r4 # rest"
    "resourceTokens a ! 0 = r0" "resourceTokens a ! 2 = r2" "resourceTokens a ! 3 = r3"
proof -
  let ?r = "resourceTokens a" and ?m = "subjectTokens (actName a)"
  have ne: "1 \<le> length (subjectTokens t)" for t by (simp add: subjectTokens_def Suc_le_eq)
  have len: "4 \<le> length ?r" using ne [of "orDefault ''core'' (resAPIGroup (specResource (actSpec a)))"] by (simp add: resourceTokens_def)
  then have "5 \<le> length (?r @ ?m)" using ne [of "actName a"] by simp
  then have "\<exists>r0 r1 r2 r3 r4 rest. xs = r0 # r1 # r2 # r3 # r4 # rest" if "xs = ?r @ ?m" for xs
    using that [symmetric] by (simp only: numeral_eq_Suc Suc_le_length_iff pred_numeral_simps BitM.simps) blast
  then obtain r0 r1 r2 r3 r4 rest where r: "?r @ ?m = r0 # r1 # r2 # r3 # r4 # rest" by blast
  have "?r ! i = (?r @ ?m) ! i" if "i < 4" for i using len that by (simp add: nth_append)
  from this [of 0] this [of 2] this [of 3] show thesis by (intro that [OF r]) (simp_all add: r numeral_eq_Suc)
qed


lemma sampleActivity_plain:
  "list_all plainToken [tenantType (specTenant (actSpec sampleActivity)), tenantName (specTenant (actSpec sampleActivity)),
      originType (specOrigin (actSpec sampleActivity)), resKind (specResource (actSpec sampleActivity)), resNamespace (specResource (actSpec sampleActivity))]"
  by (simp add: sampleActivity_def plainToken_def)

definition anyFilter :: WatchFilter where
  "anyFilter = \<lparr>wfResourceVersion = 0, wfNamespace = '''', wfChangeSource = '''', wfAPIGroup = '''', wfResourceKind = '''', wfCELFilter = ''''\<rparr>"


text \<open>
  API groups with a dot are published as they are but watched with underscores, so an
  activity of such a group is never delivered to a tenant's watch for its group.
\<close>

theorem dotted_group_never_watched:
  assumes "scopeType scope \<noteq> ''platform''" "list_all plainToken [scopeType scope, scopeName scope, wfResourceKind f, wfNamespace f]"
    and "wfAPIGroup f = resAPIGroup (specResource (actSpec a))" "CHR ''.'' \<in> set (wfAPIGroup f)"
    and "list_all plainToken [tenantType (specTenant (actSpec a)), tenantName (specTenant (actSpec a))]" "CHR ''_'' \<notin> set (wfAPIGroup f)"
    and "plainPrefix prefix"
  shows "\<not> subjectMatches (buildWatchSubject prefix scope f) (buildActivitySubject prefix a)"
proof
  assume m: "subjectMatches (buildWatchSubject prefix scope f) (buildActivitySubject prefix a)"
  let ?g = "wfAPIGroup f"
  let ?t = "orDefault ''platform'' (tenantType (specTenant (actSpec a)))" and ?n = "orDefault ''_'' (tenantName (specTenant (actSpec a)))"
  let ?w = "[scopeType scope, scopeName scope, normalizeGroup ?g, ''*'', orStar (wfResourceKind f), orStar (wfNamespace f), ''>'']"
  have eq: "buildWatchSubject prefix scope f = joinStr ''.'' (prefix # ?w)"
    using assms(1,4) by (auto simp: buildWatchSubject_def)
  have w: "subjectTokens (buildWatchSubject prefix scope f) = subjectTokens prefix @ ?w"
    unfolding eq by (rule subjectTokens_joined) (use assms(2) in \<open>auto simp: plainToken_def orStar_def normalizeGroup_def\<close>)
  have ne: "?g \<noteq> ''''" using assms(4) by auto
  obtain rest where "buildActivitySubject prefix a = joinStr ''.'' (prefix # [?t, ?n]) @ ''.'' @ ?g @ CHR ''.'' # rest"
    using ne assms(3) by (auto simp: buildActivitySubject_def Let_def orDefault_def)
  then have a: "subjectTokens (buildActivitySubject prefix a) = (subjectTokens prefix @ [?t, ?n]) @ splitByte (CHR ''.'') (?g @ CHR ''.'' # rest)"
    using subjectTokens_joined [of "[?t, ?n]" prefix] assms(5)
    by (simp add: subjectTokens_def splitByte_append_sep plainToken_def orDefault_def)
  obtain h ts where h: "splitByte (CHR ''.'') (?g @ CHR ''.'' # rest) = h # ts" by (cases "splitByte (CHR ''.'') (?g @ CHR ''.'' # rest)") auto
  from m have "tokensMatch ?w ([?t, ?n] @ h # ts)"
    unfolding subjectMatches_def w a h using tokensMatch_self [OF assms(7) [unfolded plainPrefix_def]] by simp
  then have "normalizeGroup ?g = h \<or> normalizeGroup ?g = ''*''" by auto
  moreover have "CHR ''_'' \<in> set (normalizeGroup ?g)" using assms(4) by (force simp: normalizeGroup_def)
  moreover have "set h \<subseteq> set ?g"
  proof -
    from assms(4) obtain u v where g: "?g = u @ CHR ''.'' # v" "CHR ''.'' \<notin> set u" by (meson split_list_first)
    with h have "h = u" by (simp add: splitByte_token)
    with g show ?thesis by auto
  qed
  ultimately show False using assms(6) by auto
qed

definition dottedActivity :: Activity where
  "dottedActivity = sampleActivity\<lparr>actSpec := (actSpec sampleActivity)\<lparr>specResource := (specResource (actSpec sampleActivity))\<lparr>resAPIGroup := ''networking.k8s.io''\<rparr>\<rparr>\<rparr>"

lemma dotted_group_never_watched_witness:
  "\<not> subjectMatches (buildWatchSubject ''activities'' \<lparr>scopeType = ''project'', scopeName = ''p''\<rparr> (anyFilter\<lparr>wfAPIGroup := ''networking.k8s.io''\<rparr>))
       (buildActivitySubject ''activities'' dottedActivity)"
  by (rule dotted_group_never_watched)
     (simp_all add: dottedActivity_def sampleActivity_def anyFilter_def plainToken_def plainPrefix_def subjectTokens_def)

lemma length_splitByte_sep: "length (splitByte c (s @ c # t)) = length (splitByte c s) + length (splitByte c t)"
proof -
  have "splitByte c s \<noteq> []" by (cases s) (auto split: list.splits)
  then show ?thesis by (simp add: splitByte_append_sep)
qed

lemma subjectTokens_joined_length:
  assumes "ts \<noteq> []"
  shows "length (subjectTokens prefix) + length ts \<le> length (subjectTokens (joinStr ''.'' (prefix # ts)))"
  using assms
proof (induction ts arbitrary: prefix)
  case (Cons t ts)
  have one: "1 \<le> length (splitByte (CHR ''.'') u)" for u by (cases u) (auto split: list.splits)
  show ?case
  proof (cases "ts = []")
    case True
    then show ?thesis using one [of t] by (simp add: subjectTokens_def length_splitByte_sep)
  next
    case False
    have "length (subjectTokens t) + length ts \<le> length (subjectTokens (joinStr ''.'' (t # ts)))"
      using Cons.IH False by blast
    moreover have "length (subjectTokens (joinStr ''.'' (prefix # t # ts)))
        = length (subjectTokens prefix) + length (subjectTokens (joinStr ''.'' (t # ts)))"
      using length_splitByte_sep [of "CHR ''.''" prefix "joinStr ''.'' (t # ts)"] by (simp add: subjectTokens_def)
    ultimately show ?thesis using one [of t] by (simp add: subjectTokens_def)
  qed
qed simp

text \<open>
  The subject of a published event has at most two tokens after the prefix, the cluster and the
  namespace, while the pattern of a tenant's event watch asks for at least five. Whatever its
  filter, a tenant's watch of events is never sent one.
\<close>

theorem tenant_event_watch_is_silent:
  assumes "scopeType scope \<noteq> ''platform''" "CHR ''.'' \<notin> set cluster" "CHR ''.'' \<notin> set namespace" "prefix \<noteq> ''''"
  shows "\<not> subjectMatches (buildEventsSubject prefix scope f) (EventSubject prefix cluster namespace)"
proof -
  let ?ns = "if ewNamespace f \<noteq> '''' then ewNamespace f else if ewInvolvedObjectNamespace f \<noteq> '''' then ewInvolvedObjectNamespace f else ''*''"
  let ?ts = "[scopeType scope, scopeName scope, ?ns, orStar (ewInvolvedObjectKind f), ''>'']"
  have eq: "buildEventsSubject prefix scope f = joinStr ''.'' (prefix # ?ts)"
    using assms(1,4) by (simp add: buildEventsSubject_def)
  have "length (subjectTokens prefix) + length ?ts \<le> length (subjectTokens (buildEventsSubject prefix scope f))"
    unfolding eq by (rule subjectTokens_joined_length) simp
  moreover have "length (subjectTokens (EventSubject prefix cluster namespace)) \<le> length (subjectTokens prefix) + 2"
    using subjectTokens_snoc [OF assms(2), of prefix] subjectTokens_snoc [OF assms(3), of prefix] subjectTokens_snoc [OF assms(3), of "prefix @ ''.'' @ cluster"]
    by (simp add: EventSubject_def)
  ultimately have "\<not> length (subjectTokens (buildEventsSubject prefix scope f)) \<le> length (subjectTokens (EventSubject prefix cluster namespace))"
    by simp
  then show ?thesis unfolding subjectMatches_def using tokensMatch_length by blast
qed

definition anyEventsFilter :: EventsWatchFilter where
  "anyEventsFilter = \<lparr>ewResourceVersion = 0, ewNamespace = '''', ewInvolvedObjectKind = '''', ewInvolvedObjectNamespace = '''',
     ewInvolvedObjectName = '''', ewInvolvedObjectUID = '''', ewReason = '''', ewType = '''', ewSource = ''''\<rparr>"

lemma tenant_event_watch_is_silent_witness:
  "\<not> subjectMatches (buildEventsSubject ''events'' \<lparr>scopeType = ''project'', scopeName = ''p''\<rparr> anyEventsFilter) (EventSubject ''events'' ''us-1'' ''default'')"
  by (rule tenant_event_watch_is_silent) simp_all

section \<open>Delivery\<close>

text \<open>The inputs that one run of the loop handles: up to the end of the watch.\<close>

fun handled :: "('o \<Rightarrow> bool) \<Rightarrow> 'o watch_input list \<Rightarrow> 'o watch_input list" where
  "handled matches [] = []"
| "handled matches (WDone # ins) = []"
| "handled matches (WObject o' meta taken # ins) = (if matches o' \<and> \<not> taken then [] else WObject o' meta taken # handled matches ins)"
| "handled matches (i # ins) = i # handled matches ins"

text \<open>What each handled input gives: the answer to the broker, and the object delivered.\<close>

fun answerTo :: "'o watch_input \<Rightarrow> ack list" where
  "answerTo WHeartbeat = [Responded]"
| "answerTo WMalformed = [Naked]"
| "answerTo (WObject o' meta taken) = [Acked]"
| "answerTo _ = []"

fun deliveredBy :: "('o \<Rightarrow> bool) \<Rightarrow> ('o \<Rightarrow> string) \<Rightarrow> 'o watch_input \<Rightarrow> ('o \<times> string) list" where
  "deliveredBy matches ownVersion (WObject o' meta taken) = (if matches o' then [(o', versionOf ownVersion o' meta)] else [])"
| "deliveredBy matches ownVersion _ = []"

lemma noteSequence_keeps [simp]:
  "wsResult (noteSequence meta w) = wsResult w" "wsAcks (noteSequence meta w) = wsAcks w" "wsStopped (noteSequence meta w) = wsStopped w"
  by (simp_all add: noteSequence_def split: option.split)

text \<open>
  C27: a watch delivers exactly the objects that pass its filter, in the order of the stream and
  each with its stream sequence as the resource version, up to the first one the client did not
  take. Every message handled is answered once: what does not decode is sent back, and an object
  is acknowledged only when it was delivered or is filtered out, so the one the client did not
  take stays with the broker.
\<close>

theorem watch_delivers_in_order:
  "wsResult (processMessages matches ownVersion ins w) = wsResult w @ concat (map (deliveredBy matches ownVersion) (handled matches ins))
   \<and> wsAcks (processMessages matches ownVersion ins w) = wsAcks w @ concat (map answerTo (handled matches ins))"
  by (induction matches ownVersion ins w rule: processMessages.induct) (simp_all add: Let_def)

text \<open>
  On the platform scope neither the subject pattern nor the later check looks at the API group,
  the kind and the namespace of the filter: every activity that passes the change source and the
  expression is delivered, whatever group, kind or namespace was asked for.
\<close>

theorem platform_watch_ignores_filters:
  assumes "scopeType scope = ''platform''"
  shows "buildWatchSubject prefix scope (f\<lparr>wfAPIGroup := g, wfResourceKind := k, wfNamespace := n\<rparr>) = buildWatchSubject prefix scope f
    \<and> matchesFilter (f\<lparr>wfAPIGroup := g, wfResourceKind := k, wfNamespace := n\<rparr>) = matchesFilter f"
  using assms by (auto simp: buildWatchSubject_def matchesFilter_def fun_eq_iff split: option.splits)

lemma platform_watch_ignores_filters_witness:
  "buildWatchSubject ''activities'' \<lparr>scopeType = ''platform'', scopeName = ''''\<rparr> (anyFilter\<lparr>wfAPIGroup := ''apps'', wfResourceKind := ''Pod'', wfNamespace := ''x''\<rparr>)
     = ''activities.>''"
  using platform_watch_ignores_filters [where scope = "\<lparr>scopeType = ''platform'', scopeName = ''''\<rparr>" and prefix = "''activities''" and f = anyFilter and g = "''apps''" and k = "''Pod''" and n = "''x''"]
  by (simp add: buildWatchSubject_def)

end
