(* ===== verification/Events_Rest.thy ===== *)
theory Events_Rest
  imports Watch
begin

text \<open>
  The rest of internal/registry/activity/events: list and watch of storage.go, and
  eventsv1_storage.go, which serves the same backend in the events.k8s.io/v1 shape without
  converting. The last section shows that the core/v1 endpoint is a view of the other one.
\<close>

section \<open>conversion.go: lists\<close>

text \<open>A list: its items, continue token and resource version.\<close>

type_synonym 'e event_list = "'e list \<times> string \<times> string"

definition ConvertEventsV1EventListToCoreV1 :: "EventV1 event_list \<Rightarrow> CoreEvent event_list" where
  "ConvertEventsV1EventListToCoreV1 l = (map ConvertEventsV1ToCoreV1 (fst l), snd l)"

definition ConvertCoreV1EventListToEventsV1 :: "CoreEvent event_list \<Rightarrow> EventV1 event_list" where
  "ConvertCoreV1EventListToEventsV1 l = (map ConvertCoreV1ToEventsV1 (fst l), snd l)"

section \<open>storage.go: list and watch\<close>

text \<open>
  Neither needs a namespace. The field selector of a list is a text; that of a watch is given by
  the exact matches it requires.
\<close>

definition listScope :: "event_request \<Rightarrow> rest_error + string \<times> ScopeContext" where
  "listScope req =
     (case erUserExtra req of
        None \<Rightarrow> Inl (RInternal ''no user in context'')
      | Some extra \<Rightarrow> Inr (case erNamespace req of None \<Rightarrow> '''' | Some ns \<Rightarrow> ns, ExtractScopeFromUser extra))"

definition ListREST :: "event_env \<Rightarrow> event_request \<Rightarrow> ListOptions \<Rightarrow> EventsState \<Rightarrow> rest_error + CoreEvent event_list" where
  "ListREST env req opts st =
     bind_r (listScope req) (\<lambda>(ns, scope).
       bind_r (liftEvent (ListEvents env ns opts scope st)) (\<lambda>l. Inr (ConvertEventsV1EventListToCoreV1 l)))"

text \<open>\<open>strconv.ParseUint(s, 10, 64)\<close>.\<close>

definition parseUint64 :: "string \<Rightarrow> nat option" where
  "parseUint64 s = (if s = [] \<or> \<not> list_all isDigit s \<or> digitsVal s \<ge> 2 ^ 64 then None else Some (nat (digitsVal s)))"

definition watchVersion :: "string \<Rightarrow> nat" where
  "watchVersion rv = (if rv = '''' \<or> rv = ''0'' then 0 else case parseUint64 rv of None \<Rightarrow> 0 | Some n \<Rightarrow> n)"

record WatchOptions =
  woResourceVersion :: string
  woExactMatches :: "(string \<times> string) list"

definition eventsWatchFilter :: "string \<Rightarrow> WatchOptions \<Rightarrow> EventsWatchFilter" where
  "eventsWatchFilter ns opts =
     \<lparr>ewResourceVersion = watchVersion (woResourceVersion opts), ewNamespace = ns, ewInvolvedObjectKind = '''', ewInvolvedObjectNamespace = '''',
      ewInvolvedObjectName = '''', ewInvolvedObjectUID = '''', ewReason = '''', ewType = '''', ewSource = ''''\<rparr>"

definition watchScope :: "bool \<Rightarrow> event_request \<Rightarrow> rest_error + string \<times> ScopeContext" where
  "watchScope hasWatcher req =
     (if \<not> hasWatcher then Inl (RUnavailable ''Watch API is not available. NATS is not configured.'')
      else (case erUserExtra req of
              None \<Rightarrow> Inl (RUnavailable ''Unable to process request. Please try again.'')
            | Some extra \<Rightarrow> Inr (case erNamespace req of None \<Rightarrow> '''' | Some ns \<Rightarrow> ns, ExtractScopeFromUser extra)))"

text \<open>The watcher's own error is returned as it is.\<close>

type_synonym watch_start = "ScopeContext \<Rightarrow> EventsWatchFilter \<Rightarrow> watch_error + consumer_config"

definition startOn :: "watch_start \<Rightarrow> ScopeContext \<Rightarrow> EventsWatchFilter \<Rightarrow> (rest_error + watch_error) + consumer_config" where
  "startOn start scope f = (case start scope f of Inl e \<Rightarrow> Inl (Inr e) | Inr c \<Rightarrow> Inr c)"

definition WatchREST :: "bool \<Rightarrow> watch_start \<Rightarrow> event_request \<Rightarrow> WatchOptions \<Rightarrow> (rest_error + watch_error) + consumer_config" where
  "WatchREST hasWatcher start req opts =
     (case watchScope hasWatcher req of
        Inl e \<Rightarrow> Inl (Inl e)
      | Inr (ns, scope) \<Rightarrow> startOn start scope (parseFieldSelectorForWatch (woExactMatches opts) (eventsWatchFilter ns opts)))"

section \<open>eventsv1_storage.go\<close>

definition CreateV1REST ::
  "event_env \<Rightarrow> (EventV1 \<Rightarrow> rest_error option) \<Rightarrow> event_request \<Rightarrow> EventV1 \<Rightarrow> EventsState \<Rightarrow> rest_error + EventV1 \<times> EventsState" where
  "CreateV1REST env validate req event st =
     bind_r (requestScope req) (\<lambda>(ns, scope).
       if evNamespace event \<noteq> '''' \<and> evNamespace event \<noteq> ns then Inl (RBadRequest ''event namespace does not match request namespace'')
       else (let event' = event\<lparr>evNamespace := ns\<rparr>
             in case validate event' of
                  Some e \<Rightarrow> Inl e
                | None \<Rightarrow> liftEvent (Create env event' scope st)))"

definition GetV1REST :: "event_env \<Rightarrow> event_request \<Rightarrow> string \<Rightarrow> EventsState \<Rightarrow> rest_error + EventV1" where
  "GetV1REST env req name st = bind_r (requestScope req) (\<lambda>(ns, scope). liftEvent (GetEvent env ns name scope st))"

definition ListV1REST :: "event_env \<Rightarrow> event_request \<Rightarrow> ListOptions \<Rightarrow> EventsState \<Rightarrow> rest_error + EventV1 event_list" where
  "ListV1REST env req opts st = bind_r (listScope req) (\<lambda>(ns, scope). liftEvent (ListEvents env ns opts scope st))"

definition UpdateV1REST ::
  "event_env \<Rightarrow> (EventV1 \<Rightarrow> rest_error option) \<Rightarrow> (EventV1 \<Rightarrow> EventV1 \<Rightarrow> rest_error option) \<Rightarrow> bool \<Rightarrow>
   (EventV1 option \<Rightarrow> rest_error + EventV1) \<Rightarrow> event_request \<Rightarrow> string \<Rightarrow> EventsState \<Rightarrow> rest_error + (EventV1 \<times> bool) \<times> EventsState" where
  "UpdateV1REST env createValidation updateValidation forceAllowCreate updated req name st =
     bind_r (requestScope req) (\<lambda>(ns, scope).
       case GetEvent env ns name scope st of
         Inl err \<Rightarrow>
           (case err of
              ENotFound _ \<Rightarrow>
                if \<not> forceAllowCreate then Inl (convertToStatusError err)
                else bind_r (updated None) (\<lambda>event.
                  let event' = event\<lparr>evNamespace := ns, evName := name\<rparr>
                  in case createValidation event' of
                       Some e \<Rightarrow> Inl e
                     | None \<Rightarrow> bind_r (liftEvent (Create env event' scope st)) (\<lambda>(v, st'). Inr ((v, True), st')))
            | _ \<Rightarrow> Inl (convertToStatusError err))
       | Inr existing \<Rightarrow>
           bind_r (updated (Some existing)) (\<lambda>event.
             case updateValidation event existing of
               Some e \<Rightarrow> Inl e
             | None \<Rightarrow> bind_r (liftEvent (UpdateEvent env event scope st)) (\<lambda>(v, st'). Inr ((v, False), st'))))"

definition DeleteV1REST ::
  "event_env \<Rightarrow> (EventV1 \<Rightarrow> rest_error option) \<Rightarrow> event_request \<Rightarrow> string \<Rightarrow> EventsState \<Rightarrow> rest_error + EventV1 option \<times> EventsState" where
  "DeleteV1REST env validate req name st =
     bind_r (requestScope req) (\<lambda>(ns, scope).
       case GetEvent env ns name scope st of
         Inl err \<Rightarrow> (case err of ENotFound _ \<Rightarrow> Inr (None, st) | _ \<Rightarrow> Inl (convertToStatusError err))
       | Inr existing \<Rightarrow>
           (case validate existing of
              Some e \<Rightarrow> Inl e
            | None \<Rightarrow> bind_r (liftEvent (DeleteEvent env ns name scope st)) (\<lambda>st'. Inr (Some existing, st'))))"

definition parseFieldSelectorForWatchV1 :: "(string \<times> string) list \<Rightarrow> EventsWatchFilter \<Rightarrow> EventsWatchFilter" where
  "parseFieldSelectorForWatchV1 sel f =
     (if sel = [] then f
      else f\<lparr>ewInvolvedObjectKind := exactMatch sel ''regarding.kind'' (ewInvolvedObjectKind f),
             ewInvolvedObjectNamespace := exactMatch sel ''regarding.namespace'' (ewInvolvedObjectNamespace f),
             ewInvolvedObjectName := exactMatch sel ''regarding.name'' (ewInvolvedObjectName f),
             ewInvolvedObjectUID := exactMatch sel ''regarding.uid'' (ewInvolvedObjectUID f),
             ewReason := exactMatch sel ''reason'' (ewReason f),
             ewType := exactMatch sel ''type'' (ewType f),
             ewSource := (case map_of sel ''reportingController'' of Some v \<Rightarrow> v | None \<Rightarrow> exactMatch sel ''source'' (ewSource f))\<rparr>)"

definition WatchV1REST :: "bool \<Rightarrow> watch_start \<Rightarrow> event_request \<Rightarrow> WatchOptions \<Rightarrow> (rest_error + watch_error) + consumer_config" where
  "WatchV1REST hasWatcher start req opts =
     (case watchScope hasWatcher req of
        Inl e \<Rightarrow> Inl (Inl e)
      | Inr (ns, scope) \<Rightarrow> startOn start scope (parseFieldSelectorForWatchV1 (woExactMatches opts) (eventsWatchFilter ns opts)))"

section \<open>The core endpoint is a view of the other one\<close>

lemma bind_r_assoc: "bind_r (bind_r m f) g = bind_r m (\<lambda>a. bind_r (f a) g)"
  by (cases m) simp_all

lemma ConvertCoreV1ToEventsV1_namespace:
  "evNamespace (ConvertCoreV1ToEventsV1 e) = cevNamespace e"
  "ConvertCoreV1ToEventsV1 (e\<lparr>cevNamespace := ns\<rparr>) = (ConvertCoreV1ToEventsV1 e)\<lparr>evNamespace := ns\<rparr>"
  by (simp_all add: ConvertCoreV1ToEventsV1_def Let_def)

text \<open>
  The two endpoints of the events API answer alike: get, list, create and delete of the
  core/v1 endpoint give exactly what the events.k8s.io/v1 endpoint gives for the converted object,
  with the same errors and the same change of the stored events, converted back.
\<close>

theorem core_api_is_view_of_v1:
  "GetREST env req name st = bind_r (GetV1REST env req name st) (\<lambda>v. Inr (ConvertEventsV1ToCoreV1 v))
   \<and> ListREST env req opts st = bind_r (ListV1REST env req opts st) (\<lambda>l. Inr (ConvertEventsV1EventListToCoreV1 l))
   \<and> CreateREST env validate req event st
      = bind_r (CreateV1REST env (\<lambda>v. validate (event\<lparr>cevNamespace := evNamespace v\<rparr>)) req (ConvertCoreV1ToEventsV1 event) st)
          (\<lambda>(v, st'). Inr (ConvertEventsV1ToCoreV1 v, st'))
   \<and> DeleteREST env validate req name st
      = bind_r (DeleteV1REST env (\<lambda>v. validate (ConvertEventsV1ToCoreV1 v)) req name st)
          (\<lambda>(v, st'). Inr (map_option ConvertEventsV1ToCoreV1 v, st'))"
proof (intro conjI)
  show "GetREST env req name st = bind_r (GetV1REST env req name st) (\<lambda>v. Inr (ConvertEventsV1ToCoreV1 v))"
    by (simp add: GetREST_def GetV1REST_def bind_r_assoc case_prod_unfold)
  show "ListREST env req opts st = bind_r (ListV1REST env req opts st) (\<lambda>l. Inr (ConvertEventsV1EventListToCoreV1 l))"
    by (simp add: ListREST_def ListV1REST_def bind_r_assoc case_prod_unfold)
  show "CreateREST env validate req event st
      = bind_r (CreateV1REST env (\<lambda>v. validate (event\<lparr>cevNamespace := evNamespace v\<rparr>)) req (ConvertCoreV1ToEventsV1 event) st)
          (\<lambda>(v, st'). Inr (ConvertEventsV1ToCoreV1 v, st'))"
    by (cases "requestScope req")
      (auto simp: CreateREST_def CreateV1REST_def ConvertCoreV1ToEventsV1_namespace Let_def split: option.splits)
  show "DeleteREST env validate req name st
      = bind_r (DeleteV1REST env (\<lambda>v. validate (ConvertEventsV1ToCoreV1 v)) req name st)
          (\<lambda>(v, st'). Inr (map_option ConvertEventsV1ToCoreV1 v, st'))"
    by (cases "requestScope req")
      (auto simp: DeleteREST_def DeleteV1REST_def Let_def bind_r_assoc split: sum.splits event_error.splits option.splits)
qed

text \<open>A source selector of a watch is honoured by both endpoints, the reporting controller's name only by the other one.\<close>

lemma core_watch_ignores_reportingController:
  "ewSource (parseFieldSelectorForWatch [(''reportingController'', c)] f) = ewSource f"
  "ewSource (parseFieldSelectorForWatchV1 [(''reportingController'', c)] f) = c"
  by (simp_all add: parseFieldSelectorForWatch_def parseFieldSelectorForWatchV1_def exactMatch_def)

end
