(* ===== verification/Rule_Eval.thy ===== *)
theory Rule_Eval
  imports Cel_Policy Activity_Builder
begin

text \<open>
  internal/processor: kind_resolver.go and evaluate.go, the interpreted evaluation of a policy's
  rules that previews and reindexing use. API discovery and the JSON encoding of the audit API
  type are third-party code: the REST mapper is a record of its operations on a state of its
  own, the encoding an argument.
\<close>

section \<open>kind_resolver.go\<close>

datatype mapper_error = NoMatch string | MapperError string

definition mapperMsg :: "mapper_error \<Rightarrow> string" where
  "mapperMsg e = (case e of NoMatch m \<Rightarrow> m | MapperError m \<Rightarrow> m)"

text \<open>\<open>kindsFor\<close> gives the kinds of a resource, \<open>mappingFor\<close> the plural resource of a kind; either
  may fill the discovery cache, \<open>resetMapper\<close> drops it.\<close>

record 'm rest_mapper =
  kindsFor :: "'m \<Rightarrow> string \<Rightarrow> string \<Rightarrow> (mapper_error + string list) \<times> 'm"
  mappingFor :: "'m \<Rightarrow> string \<Rightarrow> string \<Rightarrow> (mapper_error + string) \<times> 'm"
  resetMapper :: "'m \<Rightarrow> 'm"

definition isNoMatch :: "mapper_error \<Rightarrow> bool" where
  "isNoMatch e = (case e of NoMatch _ \<Rightarrow> True | MapperError _ \<Rightarrow> False)"

definition NewKindResolver :: "'m rest_mapper \<Rightarrow> string \<Rightarrow> string \<Rightarrow> 'm \<Rightarrow> (go_error + string) \<times> 'm" where
  "NewKindResolver mapper apiGroup resource st0 =
     (let failed = (\<lambda>err. Inl (newError (''failed to find kind for '' @ apiGroup @ ''/'' @ resource @ '': '' @ mapperMsg err)));
          pick = (\<lambda>kinds. case kinds of
                     [] \<Rightarrow> Inl (newError (''no kind found for '' @ apiGroup @ ''/'' @ resource))
                   | k # _ \<Rightarrow> Inr k);
          (r1, st1) = kindsFor mapper st0 apiGroup resource
      in case r1 of
           Inr kinds \<Rightarrow> (pick kinds, st1)
         | Inl err \<Rightarrow>
             if isNoMatch err
             then (let (r2, st2) = kindsFor mapper (resetMapper mapper st1) apiGroup resource
                   in case r2 of Inl err2 \<Rightarrow> (failed err2, st2) | Inr kinds \<Rightarrow> (pick kinds, st2))
             else (failed err, st1))"

definition NewResourceResolver :: "'m rest_mapper \<Rightarrow> string \<Rightarrow> string \<Rightarrow> 'm \<Rightarrow> (go_error + string) \<times> 'm" where
  "NewResourceResolver mapper apiGroup kind st0 =
     (let failed = (\<lambda>err. Inl (newError (''failed to find resource mapping for '' @ apiGroup @ ''/'' @ kind @ '': '' @ mapperMsg err)));
          (r1, st1) = mappingFor mapper st0 apiGroup kind
      in case r1 of
           Inr resource \<Rightarrow> (Inr resource, st1)
         | Inl err \<Rightarrow>
             if isNoMatch err
             then (let (r2, st2) = mappingFor mapper (resetMapper mapper st1) apiGroup kind
                   in case r2 of Inl err2 \<Rightarrow> (failed err2, st2) | Inr resource \<Rightarrow> (Inr resource, st2))
             else (failed err, st1))"

section \<open>evaluate.go\<close>

record EvaluationResult =
  erActivity :: "Activity option"
  erRuleIndex :: int
  erRuleType :: string
  erRuleName :: string

definition noRuleMatched :: EvaluationResult where
  "noRuleMatched = \<lparr>erActivity = None, erRuleIndex = -1, erRuleType = '''', erRuleName = ''''\<rparr>"

definition ruleError :: "string \<Rightarrow> nat \<Rightarrow> string \<Rightarrow> go_error \<Rightarrow> go_error" where
  "ruleError pre i what e = wrapError (pre @ fmtInt (int i) @ what @ '': '') e ''''"

fun auditRulesLoop ::
  "('a, 'p) cel_engine \<Rightarrow> ActivityBuilder \<Rightarrow> gomap \<Rightarrow> AuditEvent \<Rightarrow> KindResolver option \<Rightarrow> instant \<Rightarrow>
   nat \<Rightarrow> ActivityPolicyRule list \<Rightarrow> go_error + EvaluationResult" where
  "auditRulesLoop eng builder auditMap audit rk now i [] = Inr noRuleMatched"
| "auditRulesLoop eng builder auditMap audit rk now i (rule # rules) =
     (case EvaluateAuditMatchMap eng (ruleMatch rule) auditMap of
        Inl err \<Rightarrow> Inl (ruleError ''failed to evaluate rule '' i '' match'' err)
      | Inr matched \<Rightarrow>
          if matched
          then (case EvaluateAuditSummaryMap eng (ruleSummary rule) auditMap of
                  Inl err \<Rightarrow> Inl (ruleError ''failed to evaluate rule '' i '' summary'' err)
                | Inr (summary, links) \<Rightarrow>
                    (case BuildFromAudit builder audit summary links rk now of
                       Inl err \<Rightarrow> Inl (ruleError ''failed to build activity for rule '' i '''' err)
                     | Inr activity \<Rightarrow>
                         Inr \<lparr>erActivity = Some activity, erRuleIndex = int i, erRuleType = ''audit'', erRuleName = ruleName rule\<rparr>))
          else auditRulesLoop eng builder auditMap audit rk now (Suc i) rules)"

definition EvaluateAuditRules ::
  "('a, 'p) cel_engine \<Rightarrow> (AuditEvent \<Rightarrow> string + gomap) \<Rightarrow> ActivityPolicySpec \<Rightarrow> AuditEvent \<Rightarrow> KindResolver option \<Rightarrow> instant \<Rightarrow>
   go_error + EvaluationResult" where
  "EvaluateAuditRules eng toMap spec audit rk now =
     (case toMap audit of
        Inl err \<Rightarrow> Inl (newError (''failed to convert audit data: '' @ err))
      | Inr auditMap \<Rightarrow>
          auditRulesLoop eng \<lparr>bldAPIGroup = prAPIGroup (psResource spec), bldKind = prKind (psResource spec)\<rparr>
            auditMap audit rk now 0 (psAuditRules spec))"

fun eventRulesLoop ::
  "('a, 'p) cel_engine \<Rightarrow> ActivityBuilder \<Rightarrow> gomap \<Rightarrow> KindResolver option \<Rightarrow> instant \<Rightarrow>
   nat \<Rightarrow> ActivityPolicyRule list \<Rightarrow> go_error + EvaluationResult" where
  "eventRulesLoop eng builder eventMap rk now i [] = Inr noRuleMatched"
| "eventRulesLoop eng builder eventMap rk now i (rule # rules) =
     (case EvaluateEventMatch eng (ruleMatch rule) eventMap of
        Inl err \<Rightarrow> Inl (ruleError ''failed to evaluate rule '' i '' match'' err)
      | Inr matched \<Rightarrow>
          if matched
          then (case EvaluateEventSummary eng (ruleSummary rule) eventMap of
                  Inl err \<Rightarrow> Inl (ruleError ''failed to evaluate rule '' i '' summary'' err)
                | Inr (summary, links) \<Rightarrow>
                    (case BuildFromEvent builder eventMap summary links rk now of
                       Inl err \<Rightarrow> Inl (ruleError ''failed to build activity for rule '' i '''' err)
                     | Inr activity \<Rightarrow>
                         Inr \<lparr>erActivity = Some activity, erRuleIndex = int i, erRuleType = ''event'', erRuleName = ruleName rule\<rparr>))
          else eventRulesLoop eng builder eventMap rk now (Suc i) rules)"

text \<open>The event arrives as a decoded map, for which \<open>toMap\<close> is the identity.\<close>

definition EvaluateEventRules ::
  "('a, 'p) cel_engine \<Rightarrow> ActivityPolicySpec \<Rightarrow> gomap \<Rightarrow> KindResolver option \<Rightarrow> instant \<Rightarrow> go_error + EvaluationResult" where
  "EvaluateEventRules eng spec eventMap rk now =
     eventRulesLoop eng \<lparr>bldAPIGroup = prAPIGroup (psResource spec), bldKind = prKind (psResource spec)\<rparr>
       eventMap rk now 0 (psEventRules spec)"

section \<open>Lemmas\<close>

text \<open>The rule an evaluation selects: the first whose match expression holds, all earlier ones
  having evaluated to false.\<close>

definition firstMatch :: "('r \<Rightarrow> go_error + bool) \<Rightarrow> 'r list \<Rightarrow> nat \<Rightarrow> bool" where
  "firstMatch m rules i = (i < length rules \<and> m (rules ! i) = Inr True \<and> (\<forall>j < i. m (rules ! j) = Inr False))"

lemma firstMatch_Cons:
  "firstMatch m (r # rs) i \<longleftrightarrow> (i = 0 \<and> m r = Inr True) \<or> (\<exists>j. i = Suc j \<and> m r = Inr False \<and> firstMatch m rs j)"
  by (cases i) (auto simp: firstMatch_def nth_Cons split: nat.splits)

lemma auditRulesLoop_selects:
  "auditRulesLoop eng b am audit rk now k rules = Inr res \<Longrightarrow>
   (erActivity res = None \<and> res = noRuleMatched \<and> (\<forall>r \<in> set rules. EvaluateAuditMatchMap eng (ruleMatch r) am = Inr False))
   \<or> (\<exists>i summary links a. erRuleIndex res = int (k + i) \<and> firstMatch (\<lambda>r. EvaluateAuditMatchMap eng (ruleMatch r) am) rules i
        \<and> EvaluateAuditSummaryMap eng (ruleSummary (rules ! i)) am = Inr (summary, links)
        \<and> BuildFromAudit b audit summary links rk now = Inr a \<and> erActivity res = Some a
        \<and> erRuleName res = ruleName (rules ! i))"
proof (induction rules arbitrary: k)
  case Nil
  then show ?case by (auto simp: noRuleMatched_def)
next
  case (Cons r rules)
  show ?case
  proof (cases "EvaluateAuditMatchMap eng (ruleMatch r) am")
    case (Inl e)
    with Cons.prems show ?thesis by simp
  next
    case (Inr matched)
    show ?thesis
    proof (cases matched)
      case True
      with Inr Cons.prems show ?thesis
        by (intro disjI2 exI [of _ 0]) (auto simp: firstMatch_Cons split: sum.splits)
    next
      case False
      with Inr Cons.prems have "auditRulesLoop eng b am audit rk now (Suc k) rules = Inr res" by simp
      from Cons.IH [OF this] show ?thesis
      proof
        assume "erActivity res = None \<and> res = noRuleMatched \<and> (\<forall>r \<in> set rules. EvaluateAuditMatchMap eng (ruleMatch r) am = Inr False)"
        with Inr False show ?thesis by auto
      next
        assume "\<exists>i summary links a. erRuleIndex res = int (Suc k + i) \<and> firstMatch (\<lambda>r. EvaluateAuditMatchMap eng (ruleMatch r) am) rules i
        \<and> EvaluateAuditSummaryMap eng (ruleSummary (rules ! i)) am = Inr (summary, links)
        \<and> BuildFromAudit b audit summary links rk now = Inr a \<and> erActivity res = Some a
        \<and> erRuleName res = ruleName (rules ! i)"
        then obtain i summary links a where "erRuleIndex res = int (Suc k + i)"
          "firstMatch (\<lambda>r. EvaluateAuditMatchMap eng (ruleMatch r) am) rules i"
          "EvaluateAuditSummaryMap eng (ruleSummary (rules ! i)) am = Inr (summary, links)"
          "BuildFromAudit b audit summary links rk now = Inr a" "erActivity res = Some a" "erRuleName res = ruleName (rules ! i)"
          by blast
        with Inr False show ?thesis
          by (intro disjI2 exI [of _ "Suc i"]) (auto simp: firstMatch_Cons)
      qed
    qed
  qed
qed

lemma eventRulesLoop_selects:
  "eventRulesLoop eng b em rk now k rules = Inr res \<Longrightarrow>
   (res = noRuleMatched \<and> (\<forall>r \<in> set rules. EvaluateEventMatch eng (ruleMatch r) em = Inr False))
   \<or> (\<exists>i summary links a. erRuleIndex res = int (k + i) \<and> firstMatch (\<lambda>r. EvaluateEventMatch eng (ruleMatch r) em) rules i
        \<and> EvaluateEventSummary eng (ruleSummary (rules ! i)) em = Inr (summary, links)
        \<and> BuildFromEvent b em summary links rk now = Inr a \<and> erActivity res = Some a)"
proof (induction rules arbitrary: k)
  case Nil
  then show ?case by simp
next
  case (Cons r rules)
  show ?case
  proof (cases "EvaluateEventMatch eng (ruleMatch r) em = Inr False")
    case True
    with Cons.prems have "eventRulesLoop eng b em rk now (Suc k) rules = Inr res" by simp
    from Cons.IH [OF this] True show ?thesis
    proof (elim disjE exE conjE, goal_cases)
      case (2 i summary links a)
      then show ?case by (intro disjI2 exI [of _ "Suc i"]) (auto simp: firstMatch_Cons)
    qed auto
  next
    case False
    with Cons.prems show ?thesis
      by (intro disjI2 exI [of _ 0]) (auto simp: firstMatch_Cons split: sum.splits if_splits)
  qed
qed

section \<open>Properties\<close>

text \<open>
  The interpreted evaluation of a policy (preview and reindexing) picks the first audit rule
  whose match expression is true: a result without an activity means that every rule evaluated to
  false, and a result with index \<open>i\<close> means that rule \<open>i\<close> matched, every earlier rule evaluated to
  false, and the activity was built from rule \<open>i\<close>'s summary and links. No rule is skipped because its
  evaluation failed.\<close>

theorem audit_rules_first_match:
  assumes "EvaluateAuditRules eng toMap spec audit rk now = Inr res" and "toMap audit = Inr am"
  shows "(erActivity res = None \<longleftrightarrow> erRuleIndex res = -1)
    \<and> (erActivity res = None \<longrightarrow> (\<forall>r \<in> set (psAuditRules spec). EvaluateAuditMatchMap eng (ruleMatch r) am = Inr False))
    \<and> (\<forall>a. erActivity res = Some a \<longrightarrow>
         (\<exists>i summary links. erRuleIndex res = int i
            \<and> firstMatch (\<lambda>r. EvaluateAuditMatchMap eng (ruleMatch r) am) (psAuditRules spec) i
            \<and> EvaluateAuditSummaryMap eng (ruleSummary (psAuditRules spec ! i)) am = Inr (summary, links)
            \<and> BuildFromAudit \<lparr>bldAPIGroup = prAPIGroup (psResource spec), bldKind = prKind (psResource spec)\<rparr>
                audit summary links rk now = Inr a))"
  using auditRulesLoop_selects [of eng "\<lparr>bldAPIGroup = prAPIGroup (psResource spec), bldKind = prKind (psResource spec)\<rparr>"
      am audit rk now 0 "psAuditRules spec" res] assms
  by (auto simp: EvaluateAuditRules_def noRuleMatched_def)

definition exampleAudit :: AuditEvent where
  "exampleAudit = \<lparr>auditID = ''a1'', auditUser = \<lparr>userUsername = ''ann@x'', userUID = ''1'', userExtra = []\<rparr>,
     auditObjectRef = Some \<lparr>objResource = ''pods'', objNamespace = ''ns'', objName = ''p'', objAPIGroup = '''', objAPIVersion = ''v1''\<rparr>,
     auditReceived = 5, auditResponseObject = None\<rparr>"

definition exampleSpec :: ActivityPolicySpec where
  "exampleSpec = \<lparr>psResource = \<lparr>prAPIGroup = '''', prKind = ''Pod''\<rparr>,
     psAuditRules = [\<lparr>ruleName = ''any'', ruleMatch = ''true'', ruleSummary = ''{{ actor }} did it''\<rparr>],
     psEventRules = [\<lparr>ruleName = ''any'', ruleMatch = ''true'', ruleSummary = ''something happened''\<rparr>]\<rparr>"

definition exampleAuditMap :: gomap where
  "exampleAuditMap = [(''user'', VMap [(''username'', VStr ''ann@x'')])]"

lemma example_evaluation:
  "map_option (\<lambda>a. specSummary (actSpec a))
     (case EvaluateAuditRules varEngine (\<lambda>_. Inr exampleAuditMap) exampleSpec exampleAudit None 9 of
        Inr r \<Rightarrow> erActivity r | Inl _ \<Rightarrow> None) = Some ''ann@x did it''"
proof -
  have m: "EvaluateAuditMatchMap varEngine ''true'' exampleAuditMap = Inr True" by code_simp
  have s: "EvaluateAuditSummaryMap varEngine ''{{ actor }} did it'' exampleAuditMap = Inr (''ann@x did it'', [])" by code_simp
  show ?thesis
    by (simp add: EvaluateAuditRules_def exampleSpec_def m s BuildFromAudit_def Let_def case_prod_unfold)
qed

theorem audit_rules_first_match_witness:
  "\<exists>res. EvaluateAuditRules varEngine (\<lambda>_. Inr exampleAuditMap) exampleSpec exampleAudit None 9 = Inr res
     \<and> erRuleIndex res \<noteq> -1 \<and> firstMatch (\<lambda>r. EvaluateAuditMatchMap varEngine (ruleMatch r) exampleAuditMap) (psAuditRules exampleSpec) 0"
proof -
  obtain res where res: "EvaluateAuditRules varEngine (\<lambda>_. Inr exampleAuditMap) exampleSpec exampleAudit None 9 = Inr res"
    and some: "erActivity res \<noteq> None"
    using example_evaluation by (auto split: sum.splits)
  from audit_rules_first_match [OF res refl] some obtain i where "erRuleIndex res \<noteq> -1"
    "firstMatch (\<lambda>r. EvaluateAuditMatchMap varEngine (ruleMatch r) exampleAuditMap) (psAuditRules exampleSpec) i"
    by auto
  moreover have "i = 0" using calculation(2) by (simp add: firstMatch_def exampleSpec_def)
  ultimately show ?thesis using res by auto
qed

text \<open>
  A kind resolver asks discovery at most twice: a failing first answer is final unless it is
  "no match", in which case the cache is reset and the second answer decides; a resolver never
  returns an empty list's kind, so success means that discovery named at least one kind.\<close>

lemma kind_resolver_retries_once:
  "NewKindResolver mapper g r st = (Inr k, st') \<Longrightarrow>
     (\<exists>ks. kindsFor mapper st g r = (Inr (k # ks), st'))
     \<or> (\<exists>m st1 ks. kindsFor mapper st g r = (Inl (NoMatch m), st1)
          \<and> kindsFor mapper (resetMapper mapper st1) g r = (Inr (k # ks), st'))"
  by (auto simp: NewKindResolver_def isNoMatch_def Let_def case_prod_unfold
      split: sum.splits list.splits mapper_error.splits if_splits) (metis prod.collapse)+

end
