(* ===== verification/Policy_Cache.thy ===== *)
theory Policy_Cache
  imports Rule_Eval
begin

text \<open>
  internal/activityprocessor/policycache.go and the informer handlers of processor.go: the
  compiled policies, indexed by API group and plural resource for audit logs and by API group
  and kind for events. An index is an association list from key to slice: one of the orders in
  which Go may iterate the map. The read-write lock serialises the operations, so each is one
  step on the cache.
\<close>

section \<open>Compiled policies\<close>

record 'p compiledTemplate =
  ctFullMatch :: string
  ctExpression :: string
  ctProgram :: 'p

record 'p CompiledRule =
  crMatch :: string
  crSummary :: string
  crMatchProgram :: "'p option"
  crTemplates :: "'p compiledTemplate list"
  crValid :: bool
  crCompileError :: string

record 'p CompiledPolicy =
  cpName :: string
  cpAPIGroup :: string
  cpKind :: string
  cpResource :: string
  cpAuditRules :: "'p CompiledRule list"
  cpEventRules :: "'p CompiledRule list"
  cpResourceVersion :: string
  cpOriginal :: ActivityPolicy

fun compileTemplates ::
  "('a, 'p) cel_engine \<Rightarrow> string \<Rightarrow> (string \<times> string) list \<Rightarrow> string + 'p compiledTemplate list" where
  "compileTemplates eng env [] = Inr []"
| "compileTemplates eng env ((m, g) # ms) =
     (let expr = trimSpace g in
      if expr = '''' then Inl (''empty expression in template: '' @ m)
      else (case celCompile eng env expr of
              Inl err \<Rightarrow> Inl (''expression '' @ [CHR 0x27] @ expr @ [CHR 0x27] @ '': '' @ err)
            | Inr ast \<Rightarrow>
                (case celProgram eng ast of
                   Inl err \<Rightarrow> Inl (''expression '' @ [CHR 0x27] @ expr @ [CHR 0x27] @ '': '' @ err)
                 | Inr prg \<Rightarrow>
                     bind_r (compileTemplates eng env ms)
                       (\<lambda>ts. Inr (\<lparr>ctFullMatch = m, ctExpression = expr, ctProgram = prg\<rparr> # ts)))))"

definition compileSummaryTemplate :: "('a, 'p) cel_engine \<Rightarrow> string \<Rightarrow> string \<Rightarrow> string + 'p compiledTemplate list" where
  "compileSummaryTemplate eng env template = compileTemplates eng env (findAllTemplates template)"

text \<open>
  \<open>compileAuditRule\<close> and \<open>compileEventRule\<close> differ in the environment only. A rule that fails
  to compile stays in the policy, marked invalid.
\<close>

definition compileRule :: "('a, 'p) cel_engine \<Rightarrow> string \<Rightarrow> ActivityPolicyRule \<Rightarrow> 'p CompiledRule" where
  "compileRule eng env rule =
     (let compiled = \<lparr>crMatch = ruleMatch rule, crSummary = ruleSummary rule, crMatchProgram = None,
                      crTemplates = [], crValid = True, crCompileError = ''''\<rparr>
      in case celNewEnv eng env of
           Some err \<Rightarrow> compiled\<lparr>crValid := False, crCompileError := ''failed to create CEL environment: '' @ err\<rparr>
         | None \<Rightarrow>
        (case celCompile eng env (ruleMatch rule) of
           Inl err \<Rightarrow> compiled\<lparr>crValid := False, crCompileError := ''match: '' @ err\<rparr>
         | Inr ast \<Rightarrow>
        (case celProgram eng ast of
           Inl err \<Rightarrow> compiled\<lparr>crValid := False, crCompileError := ''match program: '' @ err\<rparr>
         | Inr prg \<Rightarrow>
        (let compiled' = compiled\<lparr>crMatchProgram := Some prg\<rparr>
         in case compileSummaryTemplate eng env (ruleSummary rule) of
              Inl err \<Rightarrow> compiled'\<lparr>crValid := False, crCompileError := ''summary: '' @ err\<rparr>
            | Inr ts \<Rightarrow> compiled'\<lparr>crTemplates := ts\<rparr>))))"

definition compileAuditRule :: "('a, 'p) cel_engine \<Rightarrow> ActivityPolicyRule \<Rightarrow> 'p CompiledRule" where
  "compileAuditRule eng rule = compileRule eng AuditRule rule"

definition compileEventRule :: "('a, 'p) cel_engine \<Rightarrow> ActivityPolicyRule \<Rightarrow> 'p CompiledRule" where
  "compileEventRule eng rule = compileRule eng EventRule rule"

text \<open>\<open>compile\<close>: its error result is always nil, so it is a total function.\<close>

definition compilePolicy :: "('a, 'p) cel_engine \<Rightarrow> ActivityPolicy \<Rightarrow> string \<Rightarrow> 'p CompiledPolicy" where
  "compilePolicy eng policy resource =
     \<lparr>cpName = polName policy, cpAPIGroup = prAPIGroup (psResource (polSpec policy)),
      cpKind = prKind (psResource (polSpec policy)), cpResource = resource,
      cpAuditRules = map (compileAuditRule eng) (psAuditRules (polSpec policy)),
      cpEventRules = map (compileEventRule eng) (psEventRules (polSpec policy)),
      cpResourceVersion = polResourceVersion policy, cpOriginal = policy\<rparr>"

section \<open>The cache\<close>

type_synonym 'v index = "(string \<times> 'v list) list"

record 'p PolicyCache =
  policies :: "'p CompiledPolicy index"
  policiesByKind :: "'p CompiledPolicy index"

definition NewPolicyCache :: "'p PolicyCache" where
  "NewPolicyCache = \<lparr>policies = [], policiesByKind = []\<rparr>"

definition policyKey :: "string \<Rightarrow> string \<Rightarrow> string" where
  "policyKey apiGroup kindOrResource = apiGroup @ ''/'' @ kindOrResource"

text \<open>\<open>m[key]\<close> of a map of slices: the nil slice for an absent key.\<close>

definition indexGet :: "'v index \<Rightarrow> string \<Rightarrow> 'v list" where
  "indexGet m key = (case map_of m key of Some xs \<Rightarrow> xs | None \<Rightarrow> [])"

definition indexAppend :: "string \<Rightarrow> 'v \<Rightarrow> 'v index \<Rightarrow> 'v index" where
  "indexAppend key v m = AList.update key (indexGet m key @ [v]) m"

text \<open>The first position holding a policy of the given name.\<close>

fun findName :: "string \<Rightarrow> 'p CompiledPolicy list \<Rightarrow> nat option" where
  "findName n [] = None"
| "findName n (p # ps) = (if cpName p = n then Some 0 else map_option Suc (findName n ps))"

text \<open>Swap with the last element and truncate, then drop an emptied key.\<close>

definition indexRemove :: "string \<Rightarrow> string \<Rightarrow> 'p CompiledPolicy index \<Rightarrow> 'p CompiledPolicy index" where
  "indexRemove key policyName m =
     (let ps = indexGet m key;
          m' = (case findName policyName ps of
                  Some i \<Rightarrow> AList.update key (butlast (ps[i := last ps])) m
                | None \<Rightarrow> m)
      in if indexGet m' key = [] then AList.delete key m' else m')"

definition removeLocked :: "string \<Rightarrow> string \<Rightarrow> 'p PolicyCache \<Rightarrow> 'p PolicyCache" where
  "removeLocked key policyName c = c\<lparr>policies := indexRemove key policyName (policies c)\<rparr>"

definition removeKindLocked :: "string \<Rightarrow> string \<Rightarrow> 'p PolicyCache \<Rightarrow> 'p PolicyCache" where
  "removeKindLocked kindKey policyName c = c\<lparr>policiesByKind := indexRemove kindKey policyName (policiesByKind c)\<rparr>"

text \<open>The two keys of a compiled policy and the two appends that \<open>Add\<close> and \<open>Update\<close> share.\<close>

definition resourceKey :: "'p CompiledPolicy \<Rightarrow> string" where
  "resourceKey p = policyKey (cpAPIGroup p) (cpResource p)"

definition kindKey :: "'p CompiledPolicy \<Rightarrow> string" where
  "kindKey p = policyKey (cpAPIGroup p) (cpKind p)"

definition insertCompiled :: "'p CompiledPolicy \<Rightarrow> 'p PolicyCache \<Rightarrow> 'p PolicyCache" where
  "insertCompiled p c =
     c\<lparr>policies := indexAppend (resourceKey p) p (policies c),
       policiesByKind := indexAppend (kindKey p) p (policiesByKind c)\<rparr>"

definition Add :: "('a, 'p) cel_engine \<Rightarrow> ActivityPolicy \<Rightarrow> string \<Rightarrow> 'p PolicyCache \<Rightarrow> 'p PolicyCache" where
  "Add eng policy resource c = insertCompiled (compilePolicy eng policy resource) c"

definition Remove :: "ActivityPolicy \<Rightarrow> string \<Rightarrow> 'p PolicyCache \<Rightarrow> 'p PolicyCache" where
  "Remove policy resource c =
     (let apiGroup = prAPIGroup (psResource (polSpec policy));
          c' = removeLocked (policyKey apiGroup resource) (polName policy) c
      in removeKindLocked (policyKey apiGroup (prKind (psResource (polSpec policy)))) (polName policy) c')"

definition Update ::
  "('a, 'p) cel_engine \<Rightarrow> ActivityPolicy \<Rightarrow> ActivityPolicy \<Rightarrow> string \<Rightarrow> string \<Rightarrow> 'p PolicyCache \<Rightarrow> 'p PolicyCache" where
  "Update eng oldPolicy newPolicy oldResource newResource c =
     (let oldGroup = prAPIGroup (psResource (polSpec oldPolicy));
          c1 = removeLocked (policyKey oldGroup oldResource) (polName oldPolicy) c;
          c2 = removeKindLocked (policyKey oldGroup (prKind (psResource (polSpec oldPolicy)))) (polName oldPolicy) c1
      in insertCompiled (compilePolicy eng newPolicy newResource) c2)"

definition Get :: "'p PolicyCache \<Rightarrow> string \<Rightarrow> string \<Rightarrow> 'p CompiledPolicy list" where
  "Get c apiGroup resource = indexGet (policies c) (policyKey apiGroup resource)"

definition GetByKind :: "'p PolicyCache \<Rightarrow> string \<Rightarrow> string \<Rightarrow> 'p CompiledPolicy list" where
  "GetByKind c apiGroup kind = indexGet (policiesByKind c) (policyKey apiGroup kind)"

definition Len :: "'p PolicyCache \<Rightarrow> nat" where
  "Len c = foldl (\<lambda>count kv. count + length (snd kv)) 0 (policies c)"

text \<open>The nested loops of \<open>Generation\<close> return at the first policy of that name.\<close>

definition Generation :: "'p PolicyCache \<Rightarrow> string \<Rightarrow> int" where
  "Generation c name =
     (case find (\<lambda>p. cpName p = name) (concat (map snd (policies c))) of
        Some p \<Rightarrow> polGeneration (cpOriginal p)
      | None \<Rightarrow> 0)"

text \<open>policy_ownership.go \<open>Collect\<close>: one metric per policy, its name and two owner labels.\<close>

definition labelOf :: "(string \<times> string) list \<Rightarrow> string \<Rightarrow> string" where
  "labelOf labels k = (case map_of labels k of Some v \<Rightarrow> v | None \<Rightarrow> '''')"

definition CollectOwners :: "'p PolicyCache \<Rightarrow> (string \<times> string \<times> string) list" where
  "CollectOwners c =
     map (\<lambda>p. (cpName p, labelOf (polLabels (cpOriginal p)) ''meta.datumapis.com/service'',
                        labelOf (polLabels (cpOriginal p)) ''meta.datumapis.com/team''))
       (concat (map snd (policies c)))"

section \<open>Evaluation with compiled programs\<close>

definition evalMatchProgram :: "('a, 'p) cel_engine \<Rightarrow> 'p CompiledRule \<Rightarrow> gomap \<Rightarrow> go_error + bool" where
  "evalMatchProgram eng r vars =
     (case crMatchProgram r of
        None \<Rightarrow> Inr False
      | Some prg \<Rightarrow>
          (if \<not> crValid r then Inr False
           else (case fst (celEval eng prg vars) of
                   Inl err \<Rightarrow> Inl (newError (''failed to evaluate match: '' @ err))
                 | Inr out \<Rightarrow>
                     (case asBool out of
                        None \<Rightarrow> Inl (newError ''match expression did not return boolean'')
                      | Some result \<Rightarrow> Inr result))))"

definition ruleEvaluateAuditMatch :: "('a, 'p) cel_engine \<Rightarrow> 'p CompiledRule \<Rightarrow> gomap \<Rightarrow> go_error + bool" where
  "ruleEvaluateAuditMatch eng r auditMap = evalMatchProgram eng r (BuildAuditVars auditMap)"

definition ruleEvaluateEventMatch :: "('a, 'p) cel_engine \<Rightarrow> 'p CompiledRule \<Rightarrow> gomap \<Rightarrow> go_error + bool" where
  "ruleEvaluateEventMatch eng r eventMap = evalMatchProgram eng r (BuildEventVars eventMap)"

text \<open>\<open>strings.Replace(s, old, new, 1)\<close> for a non-empty \<open>old\<close>.\<close>

fun replaceFirst :: "string \<Rightarrow> string \<Rightarrow> string \<Rightarrow> string" where
  "replaceFirst [] old new = []"
| "replaceFirst (c # s) old new =
     (if hasPrefix (c # s) old then new @ drop (length old) (c # s) else c # replaceFirst s old new)"

fun evalTemplates :: "('a, 'p) cel_engine \<Rightarrow> gomap \<Rightarrow> string \<Rightarrow> 'p compiledTemplate list \<Rightarrow> go_error + string" where
  "evalTemplates eng vars result [] = Inr result"
| "evalTemplates eng vars result (t # ts) =
     (case fst (celEval eng (ctProgram t) vars) of
        Inl err \<Rightarrow> Inl (newError (''failed to evaluate summary expression '' @ [CHR 0x27] @ ctExpression t @ [CHR 0x27] @ '': '' @ err))
      | Inr out \<Rightarrow> evalTemplates eng vars (replaceFirst result (ctFullMatch t) (fmtV out)) ts)"

definition EvaluateSummary :: "('a, 'p) cel_engine \<Rightarrow> 'p CompiledRule \<Rightarrow> gomap \<Rightarrow> go_error + string" where
  "EvaluateSummary eng r vars =
     (if crTemplates r = [] then Inr (crSummary r) else evalTemplates eng vars (crSummary r) (crTemplates r))"

text \<open>
  \<open>EvaluateCompiledAuditRules\<close> returns an activity, a rule index and an error: here the error
  with its rule index, or the activity with its rule index when a rule matched.
\<close>

fun compiledAuditLoop ::
  "('a, 'p) cel_engine \<Rightarrow> ActivityBuilder \<Rightarrow> gomap \<Rightarrow> AuditEvent \<Rightarrow> KindResolver option \<Rightarrow> instant \<Rightarrow>
   nat \<Rightarrow> 'p CompiledRule list \<Rightarrow> (nat \<times> go_error) + (Activity \<times> nat) option" where
  "compiledAuditLoop eng builder auditMap audit rk now i [] = Inr None"
| "compiledAuditLoop eng builder auditMap audit rk now i (rule # rules) =
     (if \<not> crValid rule then compiledAuditLoop eng builder auditMap audit rk now (Suc i) rules
      else (case ruleEvaluateAuditMatch eng rule auditMap of
              Inl err \<Rightarrow> Inl (i, ruleError ''rule '' i '' match'' err)
            | Inr matched \<Rightarrow>
                if matched
                then (case EvaluateAuditSummaryMap eng (crSummary rule) auditMap of
                        Inl err \<Rightarrow> Inl (i, ruleError ''rule '' i '' summary'' err)
                      | Inr (summary, links) \<Rightarrow>
                          (case BuildFromAudit builder audit summary links rk now of
                             Inl err \<Rightarrow> Inl (i, ruleError ''rule '' i '' build'' err)
                           | Inr activity \<Rightarrow> Inr (Some (activity, i))))
                else compiledAuditLoop eng builder auditMap audit rk now (Suc i) rules))"

definition EvaluateCompiledAuditRules ::
  "('a, 'p) cel_engine \<Rightarrow> 'p CompiledPolicy \<Rightarrow> gomap \<Rightarrow> AuditEvent \<Rightarrow> KindResolver option \<Rightarrow> instant \<Rightarrow>
   (nat \<times> go_error) + (Activity \<times> nat) option" where
  "EvaluateCompiledAuditRules eng policy auditMap audit rk now =
     compiledAuditLoop eng \<lparr>bldAPIGroup = cpAPIGroup policy, bldKind = cpKind policy\<rparr> auditMap audit rk now 0 (cpAuditRules policy)"

text \<open>
  The inner loop of \<open>MatchEvent\<close>: a rule whose match fails is skipped, the first that matches
  ends the search with its summary or with a policy evaluation error.
\<close>

fun matchEventRules ::
  "('a, 'p) cel_engine \<Rightarrow> 'p CompiledPolicy \<Rightarrow> gomap \<Rightarrow> nat \<Rightarrow> 'p CompiledRule list \<Rightarrow> go_error + MatchedPolicy option" where
  "matchEventRules eng policy eventMap i [] = Inr None"
| "matchEventRules eng policy eventMap i (rule # rules) =
     (if \<not> crValid rule then matchEventRules eng policy eventMap (Suc i) rules
      else (case ruleEvaluateEventMatch eng rule eventMap of
              Inl _ \<Rightarrow> matchEventRules eng policy eventMap (Suc i) rules
            | Inr matched \<Rightarrow>
                if matched
                then (case EvaluateEventSummary eng (crSummary rule) eventMap of
                        Inl err \<Rightarrow> Inl (NewPolicyEvaluationError (cpName policy) (int i)
                                          (wrapError ''failed to evaluate summary: '' err ''''))
                      | Inr (summary, links) \<Rightarrow>
                          Inr (Some \<lparr>mpPolicyName = cpName policy, mpGeneration = polGeneration (cpOriginal policy),
                                     mpAPIGroup = cpAPIGroup policy, mpKind = cpKind policy,
                                     mpSummary = summary, mpLinks = links\<rparr>))
                else matchEventRules eng policy eventMap (Suc i) rules))"

fun matchEventPolicies ::
  "('a, 'p) cel_engine \<Rightarrow> 'p CompiledPolicy list \<Rightarrow> gomap \<Rightarrow> go_error + MatchedPolicy option" where
  "matchEventPolicies eng [] eventMap = Inr None"
| "matchEventPolicies eng (policy # ps) eventMap =
     (case matchEventRules eng policy eventMap 0 (cpEventRules policy) of
        Inl err \<Rightarrow> Inl err
      | Inr (Some m) \<Rightarrow> Inr (Some m)
      | Inr None \<Rightarrow> matchEventPolicies eng ps eventMap)"

definition MatchEvent ::
  "('a, 'p) cel_engine \<Rightarrow> 'p PolicyCache \<Rightarrow> string \<Rightarrow> string \<Rightarrow> gomap \<Rightarrow> go_error + MatchedPolicy option" where
  "MatchEvent eng c apiGroup kind eventMap = matchEventPolicies eng (GetByKind c apiGroup kind) eventMap"

section \<open>Informer handlers of processor.go\<close>

definition isPolicyReady :: "ActivityPolicy \<Rightarrow> bool" where
  "isPolicyReady policy =
     (case find (\<lambda>c. condType c = ''Ready'') (polConditions policy) of Some c \<Rightarrow> condTrue c | None \<Rightarrow> False)"

type_synonym ResourceResolver = "string \<Rightarrow> string \<Rightarrow> go_error + string"

definition resolvePolicy :: "ResourceResolver \<Rightarrow> ActivityPolicy \<Rightarrow> go_error + string" where
  "resolvePolicy kindToResource p = kindToResource (prAPIGroup (psResource (polSpec p))) (prKind (psResource (polSpec p)))"

definition onPolicyAdd :: "('a, 'p) cel_engine \<Rightarrow> ResourceResolver \<Rightarrow> ActivityPolicy \<Rightarrow> 'p PolicyCache \<Rightarrow> 'p PolicyCache" where
  "onPolicyAdd eng kindToResource policy c =
     (if \<not> isPolicyReady policy then c
      else (case resolvePolicy kindToResource policy of
              Inl _ \<Rightarrow> c
            | Inr resource \<Rightarrow> Add eng policy resource c))"

text \<open>
  The new cache, and the policy whose dead letters are retried: only when a retry controller
  exists and the processor is not shutting down (\<open>retryOn\<close>).
\<close>

definition onPolicyUpdate ::
  "('a, 'p) cel_engine \<Rightarrow> ResourceResolver \<Rightarrow> bool \<Rightarrow> ActivityPolicy \<Rightarrow> ActivityPolicy \<Rightarrow> 'p PolicyCache \<Rightarrow>
   'p PolicyCache \<times> ActivityPolicy option" where
  "onPolicyUpdate eng kindToResource retryOn oldPolicy newPolicy c =
     (let wasReady = isPolicyReady oldPolicy;
          isReady = isPolicyReady newPolicy;
          oldResource = resolvePolicy kindToResource oldPolicy;
          newResource = resolvePolicy kindToResource newPolicy
      in if \<not> isOk newResource \<and> isReady then (c, None)
         else (let c1 = (case oldResource of Inr r \<Rightarrow> if wasReady then Remove oldPolicy r c else c | Inl _ \<Rightarrow> c)
               in case newResource of
                    Inr r \<Rightarrow> if isReady then (Add eng newPolicy r c1, if retryOn then Some newPolicy else None) else (c1, None)
                  | Inl _ \<Rightarrow> (c1, None)))"

text \<open>The object of a delete notification: the policy, a tombstone around an object, or neither.\<close>

datatype deleted_object = DelPolicy ActivityPolicy | DelTombstone "ActivityPolicy option" | DelOther

definition onPolicyDelete :: "ResourceResolver \<Rightarrow> deleted_object \<Rightarrow> 'p PolicyCache \<Rightarrow> 'p PolicyCache" where
  "onPolicyDelete kindToResource obj c =
     (case (case obj of DelPolicy p \<Rightarrow> Some p | DelTombstone t \<Rightarrow> t | DelOther \<Rightarrow> None) of
        None \<Rightarrow> c
      | Some policy \<Rightarrow>
          (case resolvePolicy kindToResource policy of
             Inl _ \<Rightarrow> c
           | Inr resource \<Rightarrow> Remove policy resource c))"

section \<open>The index contract\<close>

text \<open>
  What the processor relies on of either index: a lookup sees an inserted policy at its key and
  nothing else changes; deleting a name at a key takes away one policy of that name, if there is
  one, and keeps all others. The order of a slice is not promised.
\<close>

locale policy_index =
  fixes look :: "'c \<Rightarrow> string \<Rightarrow> 'v list"
    and ins :: "'v \<Rightarrow> 'c \<Rightarrow> 'c"
    and del :: "string \<Rightarrow> string \<Rightarrow> 'c \<Rightarrow> 'c"
    and keyOf :: "'v \<Rightarrow> string"
    and nameOf :: "'v \<Rightarrow> string"
  assumes look_ins: "mset (look (ins v c) k) = (if k = keyOf v then add_mset v (mset (look c k)) else mset (look c k))"
    and look_del_other: "k' \<noteq> k \<Longrightarrow> look (del k n c) k' = look c k'"
    and look_del_absent: "\<forall>v \<in> set (look c k). nameOf v \<noteq> n \<Longrightarrow> look (del k n c) k = look c k"
    and look_del_present: "\<exists>v \<in> set (look c k). nameOf v = n \<Longrightarrow>
      \<exists>v \<in> set (look c k). nameOf v = n \<and> mset (look (del k n c) k) = mset (look c k) - {#v#}"
begin

text \<open>
  What the index holds under one name: nothing, or one value, once and under its own key only.
\<close>

definition holds :: "'c \<Rightarrow> string \<Rightarrow> 'v option \<Rightarrow> bool" where
  "holds c n x \<longleftrightarrow> (\<forall>k. filter_mset (\<lambda>v. nameOf v = n) (mset (look c k)) =
     (case x of Some v \<Rightarrow> if keyOf v = k \<and> nameOf v = n then {#v#} else {#} | None \<Rightarrow> {#}))"

lemma holds_member:
  assumes "holds c n x"
  shows "v \<in> set (look c k) \<and> nameOf v = n \<longleftrightarrow> x = Some v \<and> keyOf v = k \<and> nameOf v = n"
proof -
  have "v \<in> set (look c k) \<and> nameOf v = n \<longleftrightarrow> v \<in># filter_mset (\<lambda>w. nameOf w = n) (mset (look c k))" by simp
  also have "\<dots> \<longleftrightarrow> x = Some v \<and> keyOf v = k \<and> nameOf v = n"
    using assms unfolding holds_def by (auto split: option.splits if_splits)
  finally show ?thesis .
qed

lemma holds_filter:
  assumes "holds c n x"
  shows "filter (\<lambda>v. nameOf v = n) (look c k) = (case x of Some v \<Rightarrow> if keyOf v = k \<and> nameOf v = n then [v] else [] | None \<Rightarrow> [])"
proof -
  have "mset (filter (\<lambda>v. nameOf v = n) (look c k)) = (case x of Some v \<Rightarrow> if keyOf v = k \<and> nameOf v = n then {#v#} else {#} | None \<Rightarrow> {#})"
    using assms by (simp add: holds_def)
  then show ?thesis by (cases x) (auto simp del: mset_filter split: if_splits)
qed

lemma holds_ins_other: "nameOf v \<noteq> n \<Longrightarrow> holds (ins v c) n x = holds c n x"
  by (auto simp: holds_def look_ins)

lemma holds_ins: "holds c n None \<Longrightarrow> nameOf v = n \<Longrightarrow> holds (ins v c) n (Some v)"
  by (auto simp: holds_def look_ins)

lemma look_del_filter_other:
  assumes "m \<noteq> n"
  shows "filter_mset (\<lambda>v. nameOf v = n) (mset (look (del k m c) k')) = filter_mset (\<lambda>v. nameOf v = n) (mset (look c k'))"
proof (cases "k' = k \<and> (\<exists>v \<in> set (look c k). nameOf v = m)")
  case False
  then have "mset (look (del k m c) k') = mset (look c k')" using look_del_other look_del_absent by metis
  then show ?thesis by simp
next
  case True
  then obtain w where "nameOf w = m" "mset (look (del k m c) k') = mset (look c k') - {#w#}"
    using look_del_present by metis
  with assms show ?thesis by (simp add: filter_diff_mset)
qed

lemma holds_del_other: "m \<noteq> n \<Longrightarrow> holds (del k m c) n x = holds c n x"
  by (simp add: holds_def look_del_filter_other)

lemma holds_del_none:
  assumes "holds c n None"
  shows "holds (del k n c) n None"
proof -
  have "look (del k n c) k' = look c k'" for k'
  proof (cases "k' = k")
    case True
    then show ?thesis using look_del_absent holds_member [OF assms] by (metis option.distinct(1))
  qed (simp add: look_del_other)
  with assms show ?thesis by (simp add: holds_def)
qed

lemma holds_del:
  assumes "holds c n (Some v)" "nameOf v = n"
  shows "holds (del (keyOf v) n c) n None"
  unfolding holds_def
proof (intro allI)
  fix k
  show "filter_mset (\<lambda>v. nameOf v = n) (mset (look (del (keyOf v) n c) k))
    = (case None of Some v \<Rightarrow> if keyOf v = k \<and> nameOf v = n then {#v#} else {#} | None \<Rightarrow> {#})"
  proof (cases "k = keyOf v")
    case False
    with assms(1) show ?thesis by (simp add: look_del_other holds_def)
  next
    case True
    from holds_member [OF assms(1), of v k] assms(2) True have "v \<in> set (look c k)" by simp
    with assms(2) True obtain w where w: "w \<in> set (look c k)" "nameOf w = n" "mset (look (del k n c) k) = mset (look c k) - {#w#}"
      using look_del_present [of c k n] by blast
    from holds_member [OF assms(1), of w k] w have "w = v" by simp
    moreover have "filter_mset (\<lambda>v. nameOf v = n) (mset (look c k)) = {#v#}"
      using assms True unfolding holds_def by simp
    ultimately show ?thesis using w True assms(2) by (simp add: filter_diff_mset)
  qed
qed

end

subsection \<open>The two indexes implement it\<close>

lemma indexGet_append:
  "indexGet (indexAppend k v m) k' = (if k' = k then indexGet m k @ [v] else indexGet m k')"
  by (simp add: indexGet_def indexAppend_def update_conv')

lemma indexGet_remove:
  "indexGet (indexRemove k n m) k' =
     (if k' = k then (case findName n (indexGet m k) of
                        Some i \<Rightarrow> butlast ((indexGet m k)[i := last (indexGet m k)]) | None \<Rightarrow> indexGet m k)
      else indexGet m k')"
  by (auto simp: indexRemove_def indexGet_def Let_def update_conv' delete_conv' split: option.splits)

lemma findName_None: "findName n ps = None \<longleftrightarrow> (\<forall>p \<in> set ps. cpName p \<noteq> n)"
  by (induction ps) auto

lemma findName_Some: "findName n ps = Some i \<Longrightarrow> i < length ps \<and> cpName (ps ! i) = n"
  by (induction ps arbitrary: i) (auto split: if_splits)

lemma indexRemove_other: "k' \<noteq> k \<Longrightarrow> indexGet (indexRemove k n m) k' = indexGet m k'"
  by (simp add: indexGet_remove)

lemma indexRemove_absent: "\<forall>v \<in> set (indexGet m k). cpName v \<noteq> n \<Longrightarrow> indexGet (indexRemove k n m) k = indexGet m k"
  by (simp add: indexGet_remove findName_None [THEN iffD2])

lemma indexRemove_present:
  assumes "\<exists>v \<in> set (indexGet m k). cpName v = n"
  shows "\<exists>v \<in> set (indexGet m k). cpName v = n \<and> mset (indexGet (indexRemove k n m) k) = mset (indexGet m k) - {#v#}"
proof -
  from assms obtain i where i: "findName n (indexGet m k) = Some i"
    using findName_None [of n "indexGet m k"] by (cases "findName n (indexGet m k)") auto
  from findName_Some [OF i] show ?thesis
    by (intro bexI [of _ "indexGet m k ! i"]) (simp_all add: indexGet_remove i butlast_swap_mset)
qed

interpretation audit_index: policy_index
  "\<lambda>c. indexGet (policies c)" insertCompiled removeLocked resourceKey cpName
  by unfold_locales
    (auto simp: insertCompiled_def removeLocked_def indexGet_append indexRemove_present
      indexRemove_other indexRemove_absent)

interpretation kind_index: policy_index
  "\<lambda>c. indexGet (policiesByKind c)" insertCompiled removeKindLocked kindKey cpName
  by unfold_locales
    (auto simp: insertCompiled_def removeKindLocked_def indexGet_append indexRemove_present
      indexRemove_other indexRemove_absent)

section \<open>The cache follows the API server\<close>

text \<open>
  Notifications of the informer, in the order it delivers them, against the store of policies of
  the API server: names are unique there and a name never changes.
\<close>

datatype policy_event = PolicyAdded ActivityPolicy | PolicyUpdated ActivityPolicy ActivityPolicy | PolicyDeleted ActivityPolicy

type_synonym policy_store = "string \<rightharpoonup> ActivityPolicy"

definition handlePolicyEvent ::
  "('a, 'p) cel_engine \<Rightarrow> ResourceResolver \<Rightarrow> bool \<Rightarrow> policy_event \<Rightarrow> 'p PolicyCache \<Rightarrow> 'p PolicyCache" where
  "handlePolicyEvent eng res retryOn e c =
     (case e of
        PolicyAdded p \<Rightarrow> onPolicyAdd eng res p c
      | PolicyUpdated p q \<Rightarrow> fst (onPolicyUpdate eng res retryOn p q c)
      | PolicyDeleted p \<Rightarrow> onPolicyDelete res (DelPolicy p) c)"

inductive store_step :: "policy_store \<Rightarrow> policy_event \<Rightarrow> policy_store \<Rightarrow> bool" where
  added: "S (polName p) = None \<Longrightarrow> store_step S (PolicyAdded p) (S(polName p \<mapsto> p))"
| updated: "S (polName p) = Some p \<Longrightarrow> polName q = polName p \<Longrightarrow> store_step S (PolicyUpdated p q) (S(polName p \<mapsto> q))"
| deleted: "S (polName p) = Some p \<Longrightarrow> store_step S (PolicyDeleted p) (S(polName p := None))"

inductive_simps store_step_simps:
  "store_step S (PolicyAdded p) S'" "store_step S (PolicyUpdated p q) S'" "store_step S (PolicyDeleted p) S'"

text \<open>
  A history of notifications, the latest first, each with the API discovery its handler asked:
  discovery may fail for one notification and answer for the next. Cache and store after it, from
  the empty cache and the empty store.
\<close>

type_synonym policy_history = "(ResourceResolver \<times> policy_event) list"

inductive cache_run :: "('a, 'p) cel_engine \<Rightarrow> bool \<Rightarrow> policy_history \<Rightarrow> 'p PolicyCache \<Rightarrow> policy_store \<Rightarrow> bool"
  for eng retryOn where
  start: "cache_run eng retryOn [] NewPolicyCache Map.empty"
| step: "cache_run eng retryOn h c S \<Longrightarrow> store_step S e S' \<Longrightarrow>
    cache_run eng retryOn ((res, e) # h) (handlePolicyEvent eng res retryOn e c) S'"

text \<open>The compiled form of a policy of the store, if it is ready and discovery knows its resource.\<close>

definition active :: "('a, 'p) cel_engine \<Rightarrow> ResourceResolver \<Rightarrow> ActivityPolicy option \<Rightarrow> 'p CompiledPolicy option" where
  "active eng res po =
     (case po of
        None \<Rightarrow> None
      | Some p \<Rightarrow> if isPolicyReady p then (case resolvePolicy res p of Inr r \<Rightarrow> Some (compilePolicy eng p r) | Inl _ \<Rightarrow> None)
                  else None)"

text \<open>
  What a policy's name is to show in the cache: the compiled form of its last version that
  discovery could answer for, as long as its later versions are ready.
\<close>

definition eventName :: "policy_event \<Rightarrow> string" where
  "eventName e = (case e of PolicyAdded p \<Rightarrow> polName p | PolicyUpdated p q \<Rightarrow> polName p | PolicyDeleted p \<Rightarrow> polName p)"

definition keepsOld :: "ResourceResolver \<Rightarrow> ActivityPolicy \<Rightarrow> bool" where
  "keepsOld res q \<longleftrightarrow> isPolicyReady q \<and> \<not> isOk (resolvePolicy res q)"

definition shownAfter ::
  "('a, 'p) cel_engine \<Rightarrow> ResourceResolver \<Rightarrow> policy_event \<Rightarrow> 'p CompiledPolicy option \<Rightarrow> 'p CompiledPolicy option" where
  "shownAfter eng res e x =
     (case e of
        PolicyAdded p \<Rightarrow> active eng res (Some p)
      | PolicyUpdated p q \<Rightarrow> if keepsOld res q then x else active eng res (Some q)
      | PolicyDeleted p \<Rightarrow> None)"

fun shown :: "('a, 'p) cel_engine \<Rightarrow> policy_history \<Rightarrow> string \<Rightarrow> 'p CompiledPolicy option" where
  "shown eng [] n = None"
| "shown eng ((res, e) # h) n = (if eventName e = n then shownAfter eng res e (shown eng h n) else shown eng h n)"

text \<open>
  A compiled form must leave the cache when its policy is deleted, is no longer ready, or has a new
  form: discovery has to name the resource of the old version then, the one it was cached under.
\<close>

definition answersFor :: "ResourceResolver \<Rightarrow> ActivityPolicy \<Rightarrow> 'p CompiledPolicy option \<Rightarrow> bool" where
  "answersFor res p x =
     (case x of
        None \<Rightarrow> True
      | Some v \<Rightarrow> kindKey v = policyKey (prAPIGroup (psResource (polSpec p))) (prKind (psResource (polSpec p)))
          \<and> (case resolvePolicy res p of Inr r \<Rightarrow> resourceKey v = policyKey (prAPIGroup (psResource (polSpec p))) r | Inl _ \<Rightarrow> False))"

definition removalAnswered :: "ResourceResolver \<Rightarrow> policy_event \<Rightarrow> 'p CompiledPolicy option \<Rightarrow> bool" where
  "removalAnswered res e x =
     (case e of
        PolicyAdded p \<Rightarrow> True
      | PolicyUpdated p q \<Rightarrow> keepsOld res q \<or> answersFor res p x
      | PolicyDeleted p \<Rightarrow> answersFor res p x)"

fun removalsAnswered :: "('a, 'p) cel_engine \<Rightarrow> policy_history \<Rightarrow> string \<Rightarrow> bool" where
  "removalsAnswered eng [] n = True"
| "removalsAnswered eng ((res, e) # h) n =
     (removalsAnswered eng h n \<and> (eventName e = n \<longrightarrow> removalAnswered res e (shown eng h n)))"

text \<open>The discovery at the last notification about a name.\<close>

fun lastDiscovery :: "policy_history \<Rightarrow> string \<Rightarrow> ResourceResolver option" where
  "lastDiscovery [] n = None"
| "lastDiscovery ((res, e) # h) n = (if eventName e = n then Some res else lastDiscovery h n)"

lemma compilePolicy_sel [simp]:
  "cpName (compilePolicy eng p r) = polName p" "cpOriginal (compilePolicy eng p r) = p"
  "resourceKey (compilePolicy eng p r) = policyKey (prAPIGroup (psResource (polSpec p))) r"
  "kindKey (compilePolicy eng p r) = policyKey (prAPIGroup (psResource (polSpec p))) (prKind (psResource (polSpec p)))"
  by (simp_all add: compilePolicy_def resourceKey_def kindKey_def)

lemma remove_policies [simp]: "policies (removeKindLocked k n c) = policies c"
  "policiesByKind (removeLocked k n c) = policiesByKind c"
  by (simp_all add: removeKindLocked_def removeLocked_def)

text \<open>Both indexes hold the same under a name.\<close>

definition cached :: "'p PolicyCache \<Rightarrow> string \<Rightarrow> 'p CompiledPolicy option \<Rightarrow> bool" where
  "cached c n x \<longleftrightarrow> audit_index.holds c n x \<and> kind_index.holds c n x"

lemma holds_other_index [simp]:
  "audit_index.holds (removeKindLocked k m c) n x = audit_index.holds c n x"
  "kind_index.holds (removeLocked k m c) n x = kind_index.holds c n x"
  by (simp_all add: audit_index.holds_def kind_index.holds_def)

lemma cached_Add_other: "polName p \<noteq> n \<Longrightarrow> cached (Add eng p r c) n x = cached c n x"
  by (simp add: cached_def Add_def audit_index.holds_ins_other kind_index.holds_ins_other)

lemma cached_Remove_other: "polName p \<noteq> n \<Longrightarrow> cached (Remove p r c) n x = cached c n x"
  by (simp add: cached_def Remove_def Let_def audit_index.holds_del_other kind_index.holds_del_other)

lemma cached_Add: "cached c (polName p) None \<Longrightarrow> cached (Add eng p r c) (polName p) (Some (compilePolicy eng p r))"
  by (simp add: cached_def Add_def audit_index.holds_ins kind_index.holds_ins)

lemma cached_Remove:
  assumes "cached c (polName p) x" "\<And>v. x = Some v \<Longrightarrow> cpName v = polName p"
    and "answersFor res p x" "resolvePolicy res p = Inr r"
  shows "cached (Remove p r c) (polName p) None"
proof (cases x)
  case None
  with assms(1) show ?thesis
    by (simp add: cached_def Remove_def Let_def audit_index.holds_del_none kind_index.holds_del_none)
next
  case (Some v)
  with assms have "policyKey (prAPIGroup (psResource (polSpec p))) r = resourceKey v"
    "policyKey (prAPIGroup (psResource (polSpec p))) (prKind (psResource (polSpec p))) = kindKey v" "cpName v = polName p"
    by (simp_all add: answersFor_def)
  with assms(1) Some show ?thesis
    using audit_index.holds_del [of c "polName p" v] kind_index.holds_del [of "removeLocked (resourceKey v) (polName p) c" "polName p" v]
    by (simp add: cached_def Remove_def Let_def)
qed

text \<open>A handler touches the entries of its own policy's name only.\<close>

lemma handlePolicyEvent_other:
  assumes "store_step S e S'" "eventName e \<noteq> n"
  shows "cached (handlePolicyEvent eng res retryOn e c) n x = cached c n x"
  using assms
  by (cases rule: store_step.cases)
    (auto simp: handlePolicyEvent_def eventName_def onPolicyAdd_def onPolicyUpdate_def onPolicyDelete_def Let_def
      cached_Add_other cached_Remove_other split: sum.splits)

lemma store_other: "store_step S e S' \<Longrightarrow> eventName e \<noteq> n \<Longrightarrow> S' n = S n"
  by (cases rule: store_step.cases) (auto simp: eventName_def)

text \<open>What is shown has the policy's name, and its policy is ready in the store.\<close>

definition shownFrom :: "string \<Rightarrow> ActivityPolicy option \<Rightarrow> 'p CompiledPolicy option \<Rightarrow> bool" where
  "shownFrom n po x \<longleftrightarrow> (\<forall>p. po = Some p \<longrightarrow> polName p = n)
     \<and> (\<forall>v. x = Some v \<longrightarrow> cpName v = n \<and> (\<exists>p. po = Some p \<and> isPolicyReady p))"

lemma active_cases:
  obtains "active eng res (Some p) = None" "\<not> isPolicyReady p \<or> \<not> isOk (resolvePolicy res p)"
  | r where "isPolicyReady p" "resolvePolicy res p = Inr r" "active eng res (Some p) = Some (compilePolicy eng p r)"
  by (cases "resolvePolicy res p") (auto simp: active_def)

lemma shownFrom_step:
  assumes "store_step S e S'" "eventName e = n" "shownFrom n (S n) x"
  shows "shownFrom n (S' n) (shownAfter eng res e x)"
  using assms(1)
proof (cases rule: store_step.cases)
  case (added p)
  with assms show ?thesis
    by (cases rule: active_cases [of eng res p]) (auto simp: shownFrom_def shownAfter_def eventName_def)
next
  case (updated p q)
  with assms show ?thesis
    by (cases rule: active_cases [of eng res q]) (auto simp: shownFrom_def shownAfter_def eventName_def keepsOld_def)
next
  case (deleted p)
  with assms show ?thesis by (auto simp: shownFrom_def shownAfter_def eventName_def)
qed

lemma cached_added:
  assumes "cached c (polName p) None"
  shows "cached (onPolicyAdd eng res p c) (polName p) (active eng res (Some p))"
  using assms cached_Add
  by (cases rule: active_cases [of eng res p]) (auto simp: onPolicyAdd_def split: sum.splits)

lemma cached_updated:
  assumes "cached c (polName p) x" "shownFrom (polName p) (Some p) x" "polName q = polName p"
    and "removalAnswered res (PolicyUpdated p q) x"
  shows "cached (fst (onPolicyUpdate eng res retryOn p q c)) (polName p) (shownAfter eng res (PolicyUpdated p q) x)"
proof (cases "keepsOld res q")
  case True
  with assms(1) show ?thesis by (auto simp: keepsOld_def onPolicyUpdate_def shownAfter_def Let_def)
next
  case False
  with assms(4) have a: "answersFor res p x" by (simp add: removalAnswered_def)
  let ?c1 = "case resolvePolicy res p of Inr r \<Rightarrow> if isPolicyReady p then Remove p r c else c | Inl _ \<Rightarrow> c"
  have c1: "cached ?c1 (polName p) None"
  proof (cases "x = None")
    case True
    with assms(1) cached_Remove [of c p None res] show ?thesis by (auto simp: answersFor_def split: sum.splits)
  next
    case False
    with assms(2) a obtain r where "isPolicyReady p" "resolvePolicy res p = Inr r"
      by (cases "resolvePolicy res p") (auto simp: shownFrom_def answersFor_def)
    with assms(1,2) a show ?thesis by (auto simp: shownFrom_def intro: cached_Remove)
  qed
  show ?thesis
  proof (cases rule: active_cases [of eng res q])
    case 1
    with False have "\<not> isPolicyReady q" by (auto simp: keepsOld_def)
    with 1 False c1 show ?thesis
      by (simp add: onPolicyUpdate_def shownAfter_def Let_def split: sum.splits)
  next
    case (2 r)
    have "fst (onPolicyUpdate eng res retryOn p q c) = Add eng q r ?c1"
      using 2 by (simp add: onPolicyUpdate_def Let_def)
    moreover have "cached (Add eng q r ?c1) (polName p) (Some (compilePolicy eng q r))"
      using cached_Add [of ?c1 q eng r] c1 assms(3) by simp
    ultimately show ?thesis using 2 False by (simp add: shownAfter_def)
  qed
qed

lemma cached_deleted:
  assumes "cached c (polName p) x" "shownFrom (polName p) (Some p) x" "answersFor res p x"
  shows "cached (onPolicyDelete res (DelPolicy p) c) (polName p) None"
proof (cases "resolvePolicy res p")
  case (Inl err)
  with assms(3) have "x = None" by (auto simp: answersFor_def split: option.splits)
  with Inl assms(1) show ?thesis by (simp add: onPolicyDelete_def)
next
  case (Inr r)
  with assms have "cached (Remove p r c) (polName p) None" by (auto simp: shownFrom_def intro: cached_Remove)
  with Inr show ?thesis by (simp add: onPolicyDelete_def)
qed

lemma cached_step:
  assumes "store_step S e S'" "eventName e = n" "shownFrom n (S n) x" "cached c n x" "removalAnswered res e x"
  shows "cached (handlePolicyEvent eng res retryOn e c) n (shownAfter eng res e x)"
  using assms(1)
proof (cases rule: store_step.cases)
  case (added p)
  with assms have "x = None" by (cases x) (auto simp: shownFrom_def eventName_def)
  with added assms cached_added [of c p eng res] show ?thesis by (auto simp: handlePolicyEvent_def shownAfter_def eventName_def)
next
  case (updated p q)
  with assms have "polName p = n" "shownFrom n (Some p) x" by (simp_all add: eventName_def)
  with updated assms cached_updated [of c p x q res eng retryOn] show ?thesis by (simp add: handlePolicyEvent_def)
next
  case (deleted p)
  with assms have "polName p = n" "shownFrom n (Some p) x" "answersFor res p x" by (simp_all add: eventName_def removalAnswered_def)
  with deleted assms cached_deleted [of c p x res] show ?thesis by (simp add: handlePolicyEvent_def shownAfter_def)
qed

lemma cache_run_shownFrom: "cache_run eng retryOn h c S \<Longrightarrow> shownFrom n (S n) (shown eng h n)"
proof (induction rule: cache_run.induct)
  case (step h c S e S' res)
  then show ?case using shownFrom_step store_other by (cases "eventName e = n") fastforce+
qed (simp add: shownFrom_def)

lemma cache_run_cached:
  "cache_run eng retryOn h c S \<Longrightarrow> removalsAnswered eng h n \<Longrightarrow> cached c n (shown eng h n)"
proof (induction rule: cache_run.induct)
  case start
  show ?case by (simp add: cached_def audit_index.holds_def kind_index.holds_def NewPolicyCache_def indexGet_def)
next
  case (step h c S e S' res)
  then show ?case
    using cached_step [OF step.hyps(2) _ cache_run_shownFrom [OF step.hyps(1)], where n = n and res = res and eng = eng and retryOn = retryOn]
      handlePolicyEvent_other [OF step.hyps(2), where n = n and eng = eng and res = res and retryOn = retryOn and c = c and x = "shown eng h n"]
    by (cases "eventName e = n") auto
qed

text \<open>When discovery answered for the current version, what is shown is that version.\<close>

lemma shown_current:
  "cache_run eng retryOn h c S \<Longrightarrow> lastDiscovery h n = Some res \<Longrightarrow>
   (\<And>p. S n = Some p \<Longrightarrow> isPolicyReady p \<Longrightarrow> isOk (resolvePolicy res p)) \<Longrightarrow> shown eng h n = active eng res (S n)"
proof (induction rule: cache_run.induct)
  case (step h c S e S' res')
  show ?case
  proof (cases "eventName e = n")
    case False
    with step show ?thesis using store_other [OF step.hyps(2)] by simp
  next
    case True
    with step.prems have "res' = res" by simp
    from step.hyps(2) show ?thesis
    proof (cases rule: store_step.cases)
      case (updated p q)
      moreover from this True have "polName p = n" by (simp add: eventName_def)
      moreover from this updated step.prems(2) have "\<not> keepsOld res q" using \<open>res' = res\<close> by (auto simp: keepsOld_def)
      ultimately show ?thesis using True \<open>res' = res\<close> by (simp add: shownAfter_def)
    qed (use True \<open>res' = res\<close> in \<open>auto simp: eventName_def shownAfter_def active_def\<close>)
  qed
qed simp

section \<open>Properties\<close>


text \<open>
  The condition is needed: a delete that discovery does not answer for leaves the deleted policy in
  the cache.
\<close>

lemma unanswered_delete_stays:
  "\<not> isOk (resolvePolicy res p) \<Longrightarrow> handlePolicyEvent eng res retryOn (PolicyDeleted p) c = c"
  by (auto simp: handlePolicyEvent_def onPolicyDelete_def isOk_def split: sum.splits)

definition examplePolicy :: "string \<Rightarrow> string \<Rightarrow> ActivityPolicy" where
  "examplePolicy name summary = \<lparr>polName = name, polGeneration = 1, polResourceVersion = ''1'', polLabels = [],
     polSpec = exampleSpec\<lparr>psEventRules := [\<lparr>ruleName = ''any'', ruleMatch = ''true'', ruleSummary = summary\<rparr>]\<rparr>,
     polConditions = [\<lparr>condType = ''Ready'', condTrue = True\<rparr>]\<rparr>"

definition exampleResolver :: ResourceResolver where
  "exampleResolver apiGroup kind = Inr (toLower kind @ ''s'')"

definition noDiscovery :: ResourceResolver where
  "noDiscovery apiGroup kind = Inl (newError ''discovery is down'')"


text \<open>
  Removing a policy reorders the others. The last policy of the slice takes the removed
  one's place, so with three policies on one kind that all match, deleting the first changes which of the
  two remaining policies wins, although neither changed.\<close>

theorem removal_changes_first_match:
  "let p = examplePolicy; add = (\<lambda>q. Add varEngine q ''pods'');
       c = add (p ''c'' ''three'') (add (p ''b'' ''two'') (add (p ''a'' ''one'') NewPolicyCache));
       c' = Remove (p ''a'' ''one'') ''pods'' c
   in map cpName (GetByKind c '''' ''Pod'') = [''a'', ''b'', ''c'']
      \<and> map cpName (GetByKind c' '''' ''Pod'') = [''c'', ''b'']
      \<and> (\<exists>m. MatchEvent varEngine c' '''' ''Pod'' [] = Inr (Some m) \<and> mpPolicyName m = ''c'' \<and> mpSummary m = ''three'')"
proof -
  let ?add = "\<lambda>q. Add varEngine q ''pods''"
  let ?c = "?add (examplePolicy ''c'' ''three'') (?add (examplePolicy ''b'' ''two'') (?add (examplePolicy ''a'' ''one'') NewPolicyCache))"
  let ?c' = "Remove (examplePolicy ''a'' ''one'') ''pods'' ?c"
  have "map cpName (GetByKind ?c '''' ''Pod'') = [''a'', ''b'', ''c'']" by code_simp
  moreover have "map cpName (GetByKind ?c' '''' ''Pod'') = [''c'', ''b'']" by code_simp
  moreover have "(case MatchEvent varEngine ?c' '''' ''Pod'' [] of Inr (Some m) \<Rightarrow> (mpPolicyName m, mpSummary m) | _ \<Rightarrow> ('''', ''''))
      = (''c'', ''three'')" by code_simp
  ultimately show ?thesis unfolding Let_def by (auto split: sum.splits option.splits)
qed

section \<open>Compiled against interpreted evaluation\<close>

lemma compileRule_sel [simp]:
  "crMatch (compileRule eng env r) = ruleMatch r" "crSummary (compileRule eng env r) = ruleSummary r"
  by (simp_all add: compileRule_def Let_def split: option.splits sum.splits)

lemma compileRule_valid:
  "crValid (compileRule eng env r) \<Longrightarrow>
     celNewEnv eng env = None \<and> (\<exists>ast prg. celCompile eng env (ruleMatch r) = Inr ast \<and> celProgram eng ast = Inr prg
       \<and> crMatchProgram (compileRule eng env r) = Some prg)"
  by (auto simp: compileRule_def Let_def split: option.splits sum.splits)

text \<open>A valid compiled rule decides a match as the interpreter does; only error texts differ.\<close>

lemma evalMatchProgram_interpreted:
  assumes "crValid (compileRule eng env r)"
  shows "evalMatchProgram eng (compileRule eng env r) vars = Inr b \<longleftrightarrow> evaluateMatch eng env (ruleMatch r) vars = Inr b"
  using compileRule_valid [OF assms] assms
  by (auto simp: evalMatchProgram_def evaluateMatch_def split: sum.splits option.splits)

text \<open>Agreement of the two result types.\<close>

definition sameOutcome :: "(nat \<times> go_error) + (Activity \<times> nat) option \<Rightarrow> go_error + EvaluationResult \<Rightarrow> bool" where
  "sameOutcome x y =
     (case x of
        Inl _ \<Rightarrow> \<not> isOk y
      | Inr None \<Rightarrow> y = Inr noRuleMatched
      | Inr (Some (a, i)) \<Rightarrow> (case y of Inr er \<Rightarrow> erActivity er = Some a \<and> erRuleIndex er = int i | Inl _ \<Rightarrow> False))"

lemma compiledAuditLoop_interpreted:
  "\<forall>r \<in> set rules. crValid (compileRule eng AuditRule r) \<Longrightarrow>
   sameOutcome (compiledAuditLoop eng b am audit rk now i (map (compileRule eng AuditRule) rules))
     (auditRulesLoop eng b am audit rk now i rules)"
proof (induction rules arbitrary: i)
  case Nil
  then show ?case by (simp add: sameOutcome_def)
next
  case (Cons r rules)
  then have v: "crValid (compileRule eng AuditRule r)"
    and IH: "sameOutcome (compiledAuditLoop eng b am audit rk now (Suc i) (map (compileRule eng AuditRule) rules))
      (auditRulesLoop eng b am audit rk now (Suc i) rules)" by auto
  let ?c = "ruleEvaluateAuditMatch eng (compileRule eng AuditRule r) am"
  let ?m = "EvaluateAuditMatchMap eng (ruleMatch r) am"
  have same: "?c = Inr x \<longleftrightarrow> ?m = Inr x" for x
    using evalMatchProgram_interpreted [OF v] by (simp add: ruleEvaluateAuditMatch_def EvaluateAuditMatchMap_def)
  consider e where "?m = Inl e" | "?m = Inr True" | "?m = Inr False" by (metis sumE)
  then show ?case
  proof cases
    case 1
    moreover from this have "\<not> isOk ?c" using same by (auto simp: isOk_iff)
    then obtain e' where "?c = Inl e'" by (cases ?c) auto
    ultimately show ?thesis using v by (simp add: sameOutcome_def)
  next
    case 2
    with same have "?c = Inr True" by simp
    with 2 v show ?thesis by (auto simp: sameOutcome_def split: sum.splits)
  next
    case 3
    with same have "?c = Inr False" by simp
    with 3 v IH show ?thesis by simp
  qed
qed

text \<open>
  C31: a policy whose rules all compile behaves in the ingest path, which evaluates pre-compiled
  programs, as it does in a preview, which interprets the rule texts: both select the same rule and build
  the same activity, both find that no rule matches, or both fail.\<close>

theorem compiled_rules_equal_interpreted:
  assumes "\<forall>r \<in> set (psAuditRules (polSpec p)). crValid (compileAuditRule eng r)" and "toMap audit = Inr am"
  shows "sameOutcome (EvaluateCompiledAuditRules eng (compilePolicy eng p resource) am audit rk now)
    (EvaluateAuditRules eng toMap (polSpec p) audit rk now)"
  using compiledAuditLoop_interpreted [of "psAuditRules (polSpec p)" eng
      "\<lparr>bldAPIGroup = prAPIGroup (psResource (polSpec p)), bldKind = prKind (psResource (polSpec p))\<rparr>" am audit rk now 0]
    assms
  by (simp add: EvaluateCompiledAuditRules_def EvaluateAuditRules_def compilePolicy_def compileAuditRule_def [abs_def])

theorem compiled_rules_equal_interpreted_witness:
  "crValid (compileAuditRule varEngine (psAuditRules exampleSpec ! 0)) \<and>
   sameOutcome (EvaluateCompiledAuditRules varEngine (compilePolicy varEngine (examplePolicy ''p'' ''s'') ''pods'')
       exampleAuditMap exampleAudit None 9)
     (EvaluateAuditRules varEngine (\<lambda>_. Inr exampleAuditMap) (polSpec (examplePolicy ''p'' ''s'')) exampleAudit None 9)"
proof -
  have v: "crValid (compileAuditRule varEngine (psAuditRules exampleSpec ! 0))" by code_simp
  then have all: "\<forall>r \<in> set (psAuditRules (polSpec (examplePolicy ''p'' ''s''))). crValid (compileAuditRule varEngine r)"
    by (simp add: examplePolicy_def exampleSpec_def)
  show ?thesis
    by (rule conjI [OF v compiled_rules_equal_interpreted [where toMap = "\<lambda>_. Inr exampleAuditMap", OF all refl]])
qed

text \<open>Match errors of the compiled evaluation carry a rule index, as every other of its errors.\<close>

lemma compiledAuditLoop_error:
  "compiledAuditLoop eng b am audit rk now k rules = Inl (i, e) \<Longrightarrow>
   k \<le> i \<and> i < k + length rules \<and> crValid (rules ! (i - k))"
proof (induction rules arbitrary: k)
  case (Cons r rules)
  show ?case
  proof (cases "compiledAuditLoop eng b am audit rk now (Suc k) rules = Inl (i, e)")
    case True
    from Cons.IH [OF this] have "Suc k \<le> i" "i < Suc k + length rules" "crValid (rules ! (i - Suc k))" by simp_all
    then show ?thesis by (simp add: nth_Cons')
  next
    case False
    with Cons.prems show ?thesis by (auto split: if_splits sum.splits)
  qed
qed simp

end
