(* ===== verification/Dead_Letter.thy ===== *)
theory Dead_Letter
  imports Policy_Cache
begin

text \<open>
  internal/processor/dlq.go: dead letters and their publishers, with the message broker the
  processor writes to. NATS JetStream is third-party code: a publish call either stores the
  message, rejects it, or stores it and loses the acknowledgement; which of these happens is
  decided by an oracle indexed by the number of publish calls made so far. The log of stored
  messages is the state the claims are about. The \<open>DLQPublisher\<close> interface is a record of its two
  methods.
\<close>

section \<open>Broker\<close>

datatype pub_outcome = Stored | Rejected string | AckLost string

type_synonym nats_oracle = "nat \<Rightarrow> pub_outcome"

definition EventTypeAudit :: string where "EventTypeAudit = ''audit''"
definition EventTypeK8sEvent :: string where "EventTypeK8sEvent = ''k8s-event''"

datatype ErrorType = ErrorTypeCELMatch | ErrorTypeCELSummary | ErrorTypeUnmarshal | ErrorTypeKindResolve

record DeadLetterTenant =
  dltType :: string
  dltName :: string

record DeadLetterResource =
  dlrAPIGroup :: string
  dlrKind :: string
  dlrName :: string
  dlrNamespace :: string

record DeadLetterEvent =
  dleType :: string
  dleOriginalPayload :: json_text
  dleError :: string
  dleErrorType :: ErrorType
  dlePolicyName :: string
  dlePolicyVersion :: int
  dleRuleIndex :: int
  dleTimestamp :: instant
  dleTenant :: "DeadLetterTenant option"
  dleResource :: "DeadLetterResource option"
  dleRetryCount :: int
  dleLastRetryAt :: "instant option"
  dleNextRetryAfter :: "instant option"

text \<open>What a stored message is, with its subject and deduplication id: an activity, a dead letter
  (a first one has no id), or an original payload put back on an input subject, under the name of
  the stream that the publisher expects to take it.\<close>

datatype publication =
    PubActivity string string Activity
  | PubDeadLetter string "string option" DeadLetterEvent
  | PubOriginal string string string json_text

record world =
  wLog :: "publication list"
  wCalls :: nat
  wEmitted :: "(string \<times> string) list"

definition jsPublish :: "nats_oracle \<Rightarrow> publication \<Rightarrow> world \<Rightarrow> string option \<times> world" where
  "jsPublish oracle pub w =
     (let w' = w\<lparr>wCalls := Suc (wCalls w)\<rparr>
      in case oracle (wCalls w) of
           Stored \<Rightarrow> (None, w'\<lparr>wLog := wLog w @ [pub]\<rparr>)
         | Rejected err \<Rightarrow> (Some err, w')
         | AckLost err \<Rightarrow> (Some err, w'\<lparr>wLog := wLog w @ [pub]\<rparr>))"

section \<open>Publishers\<close>

definition NewDeadLetterTenantFromActivity :: "string \<Rightarrow> string \<Rightarrow> DeadLetterTenant option" where
  "NewDeadLetterTenantFromActivity tType tName =
     (if tType = '''' \<and> tName = '''' then None else Some \<lparr>dltType = tType, dltName = tName\<rparr>)"

record DLQConfig =
  dlqEnabled :: bool
  dlqStreamName :: string
  dlqSubjectPrefix :: string

definition DefaultDLQConfig :: DLQConfig where
  "DefaultDLQConfig = \<lparr>dlqEnabled = True, dlqStreamName = ''ACTIVITY_DEAD_LETTER'', dlqSubjectPrefix = ''activity.dlq''\<rparr>"

text \<open>The arguments of the two publish methods.\<close>

record failure =
  flPayload :: json_text
  flPolicyName :: string
  flPolicyVersion :: int
  flRuleIndex :: int
  flErrorType :: ErrorType
  flErr :: "go_error option"
  flResource :: "DeadLetterResource option"
  flTenant :: "DeadLetterTenant option"

type_synonym publish_method = "failure \<Rightarrow> world \<Rightarrow> string option \<times> world"

record DLQPublisher =
  PublishAuditFailure :: publish_method
  PublishEventFailure :: publish_method

definition deadLetter :: "string \<Rightarrow> instant \<Rightarrow> failure \<Rightarrow> DeadLetterEvent" where
  "deadLetter eventType now f =
     \<lparr>dleType = eventType, dleOriginalPayload = flPayload f,
      dleError = (case flErr f of Some e \<Rightarrow> errMsg e | None \<Rightarrow> ''''),
      dleErrorType = flErrorType f, dlePolicyName = flPolicyName f, dlePolicyVersion = flPolicyVersion f,
      dleRuleIndex = flRuleIndex f, dleTimestamp = now, dleTenant = flTenant f, dleResource = flResource f,
      dleRetryCount = 0, dleLastRetryAt = None, dleNextRetryAfter = None\<rparr>"

definition deadLetterSubject :: "string \<Rightarrow> string \<Rightarrow> DeadLetterResource option \<Rightarrow> string" where
  "deadLetterSubject prefix eventType resource =
     (let (apiGroup, kind) =
        (case resource of
           None \<Rightarrow> (''unknown'', ''unknown'')
         | Some r \<Rightarrow> (if dlrAPIGroup r \<noteq> '''' then dlrAPIGroup r else ''core'',
                      if dlrKind r \<noteq> '''' then dlrKind r else ''unknown''))
      in joinStr ''.'' [prefix, eventType, apiGroup, kind])"

text \<open>
  \<open>json.Marshal\<close> of a dead letter: \<open>json.RawMessage\<close> is re-validated when it is encoded, so a
  payload that is not well-formed JSON makes the encoding fail.
\<close>

definition marshalDeadLetter :: "DeadLetterEvent \<Rightarrow> string option" where
  "marshalDeadLetter e =
     (case dleOriginalPayload e of
        JValue _ \<Rightarrow> None
      | JEmpty \<Rightarrow> Some ''json: error calling MarshalJSON for type json.RawMessage: unexpected end of JSON input''
      | JInvalid \<Rightarrow> Some ''json: error calling MarshalJSON for type json.RawMessage: invalid character'')"

definition dlqPublish :: "nats_oracle \<Rightarrow> string \<Rightarrow> instant \<Rightarrow> string \<Rightarrow> publish_method" where
  "dlqPublish oracle prefix now eventType f w =
     (let dlEvent = deadLetter eventType now f
      in case marshalDeadLetter dlEvent of
           Some err \<Rightarrow> (Some (''failed to marshal DLQ event: '' @ err), w)
         | None \<Rightarrow>
             (case jsPublish oracle (PubDeadLetter (deadLetterSubject prefix eventType (flResource f)) None dlEvent) w of
                (Some err, w') \<Rightarrow> (Some (''failed to publish to DLQ: '' @ err), w')
              | (None, w') \<Rightarrow> (None, w')))"

definition noopDLQPublisher :: DLQPublisher where
  "noopDLQPublisher = \<lparr>PublishAuditFailure = (\<lambda>f w. (None, w)), PublishEventFailure = (\<lambda>f w. (None, w))\<rparr>"

definition NATSDLQPublisher :: "nats_oracle \<Rightarrow> string \<Rightarrow> instant \<Rightarrow> DLQPublisher" where
  "NATSDLQPublisher oracle prefix now =
     \<lparr>PublishAuditFailure = dlqPublish oracle prefix now EventTypeAudit,
      PublishEventFailure = dlqPublish oracle prefix now EventTypeK8sEvent\<rparr>"

definition NewDLQPublisher :: "nats_oracle \<Rightarrow> DLQConfig \<Rightarrow> instant \<Rightarrow> DLQPublisher" where
  "NewDLQPublisher oracle config now =
     (if \<not> dlqEnabled config then noopDLQPublisher else NATSDLQPublisher oracle (dlqSubjectPrefix config) now)"

text \<open>\<open>initDLQPublisher\<close> of processor.go: a missing stream disables the queue.\<close>

definition initDLQPublisher :: "nats_oracle \<Rightarrow> (string \<Rightarrow> bool) \<Rightarrow> DLQConfig \<Rightarrow> instant \<Rightarrow> DLQConfig \<times> DLQPublisher" where
  "initDLQPublisher oracle streamExists config now =
     (let config' = (if dlqEnabled config \<and> \<not> streamExists (dlqStreamName config) then config\<lparr>dlqEnabled := False\<rparr> else config)
      in (config', NewDLQPublisher oracle config' now))"

section \<open>The publisher contract\<close>

text \<open>
  What a client of \<open>DLQPublisher\<close> relies on. \<open>entry f pub\<close> says that \<open>pub\<close> is the dead letter of a
  failure. An enabled publisher that returns nil has stored it; a disabled one returns nil and stores
  nothing; a failing one has stored at most that dead letter.
\<close>

locale dlq_method =
  fixes publishM :: publish_method
    and enabled :: bool
    and entry :: "failure \<Rightarrow> publication \<Rightarrow> bool"
  assumes stored: "enabled \<Longrightarrow> publishM f w = (None, w') \<Longrightarrow> \<exists>pub. entry f pub \<and> wLog w' = wLog w @ [pub]"
    and disabled: "\<not> enabled \<Longrightarrow> publishM f w = (None, w)"
    and failed: "publishM f w = (Some err, w') \<Longrightarrow> wLog w' = wLog w \<or> (\<exists>pub. entry f pub \<and> wLog w' = wLog w @ [pub])"
    and emits_nothing: "publishM f w = (r, w') \<Longrightarrow> wEmitted w' = wEmitted w"
begin

lemma success_log:
  "publishM f w = (None, w') \<Longrightarrow> \<exists>pubs. wLog w' = wLog w @ pubs \<and> length pubs = (if enabled then 1 else 0) \<and> (\<forall>p \<in> set pubs. entry f p)"
  using stored disabled by (cases enabled) force+

lemma log_grows: "publishM f w = (r, w') \<Longrightarrow> \<exists>pubs. wLog w' = wLog w @ pubs \<and> (\<forall>p \<in> set pubs. entry f p)"
  using success_log failed by (cases r) force+

end

definition deadLetterOf :: "string \<Rightarrow> failure \<Rightarrow> publication \<Rightarrow> bool" where
  "deadLetterOf eventType f pub =
     (case pub of PubDeadLetter _ None e \<Rightarrow> e = deadLetter eventType (dleTimestamp e) f | _ \<Rightarrow> False)"

lemma jsPublish_cases:
  assumes "jsPublish oracle pub w = (r, w')"
  shows "r = None \<Longrightarrow> wLog w' = wLog w @ [pub]"
    and "wLog w' = wLog w \<or> wLog w' = wLog w @ [pub]" and "wEmitted w' = wEmitted w"
  using assms by (auto simp: jsPublish_def Let_def split: pub_outcome.splits)

lemma dlqPublish_method: "dlq_method (dlqPublish oracle prefix now t) True (deadLetterOf t)"
proof
  fix f w w'
  assume "dlqPublish oracle prefix now t f w = (None, w')"
  then show "\<exists>pub. deadLetterOf t f pub \<and> wLog w' = wLog w @ [pub]"
    by (auto simp: dlqPublish_def Let_def deadLetterOf_def deadLetter_def split: option.splits prod.splits dest: jsPublish_cases(1))
next
  fix f w err w'
  assume "dlqPublish oracle prefix now t f w = (Some err, w')"
  then show "wLog w' = wLog w \<or> (\<exists>pub. deadLetterOf t f pub \<and> wLog w' = wLog w @ [pub])"
    by (auto simp: dlqPublish_def Let_def deadLetterOf_def deadLetter_def split: option.splits prod.splits dest!: jsPublish_cases(2))
next
  fix f w r w'
  assume "dlqPublish oracle prefix now t f w = (r, w')"
  then show "wEmitted w' = wEmitted w"
    by (auto simp: dlqPublish_def Let_def split: option.splits prod.splits dest: jsPublish_cases(3))
qed simp

interpretation nats_audit: dlq_method
  "PublishAuditFailure (NATSDLQPublisher orc pfx now)" True "deadLetterOf EventTypeAudit" for orc and pfx and now
  using dlqPublish_method by (simp add: NATSDLQPublisher_def)

interpretation nats_event: dlq_method
  "PublishEventFailure (NATSDLQPublisher orc pfx now)" True "deadLetterOf EventTypeK8sEvent" for orc and pfx and now
  using dlqPublish_method by (simp add: NATSDLQPublisher_def)

interpretation noop_audit: dlq_method "PublishAuditFailure noopDLQPublisher" False "deadLetterOf EventTypeAudit"
  by unfold_locales (simp_all add: noopDLQPublisher_def)

interpretation noop_event: dlq_method "PublishEventFailure noopDLQPublisher" False "deadLetterOf EventTypeK8sEvent"
  by unfold_locales (simp_all add: noopDLQPublisher_def)

text \<open>The publisher the processor starts with, whatever its configuration.\<close>

lemma NewDLQPublisher_methods:
  "dlq_method (PublishAuditFailure (NewDLQPublisher oracle cfg now)) (dlqEnabled cfg) (deadLetterOf EventTypeAudit)"
  "dlq_method (PublishEventFailure (NewDLQPublisher oracle cfg now)) (dlqEnabled cfg) (deadLetterOf EventTypeK8sEvent)"
  by (simp_all add: NewDLQPublisher_def nats_audit.dlq_method_axioms nats_event.dlq_method_axioms
      noop_audit.dlq_method_axioms noop_event.dlq_method_axioms)

section \<open>Properties\<close>

text \<open>
  A payload that is not well-formed JSON can never be dead-lettered by an enabled queue: the
  publisher fails while encoding the letter, before any message is sent, on every attempt.\<close>

theorem malformed_payload_never_dead_lettered:
  assumes "\<nexists>v. flPayload f = JValue v"
  shows "\<exists>err. dlqPublish oracle prefix now t f w = (Some err, w)"
  using assms by (cases "flPayload f") (auto simp: dlqPublish_def marshalDeadLetter_def deadLetter_def)

theorem malformed_payload_never_dead_lettered_witness:
  "\<exists>err. dlqPublish (\<lambda>_. Stored) ''activity.dlq'' 0 ''audit''
     \<lparr>flPayload = JInvalid, flPolicyName = '''', flPolicyVersion = 0, flRuleIndex = -1, flErrorType = ErrorTypeUnmarshal,
      flErr = None, flResource = None, flTenant = None\<rparr> \<lparr>wLog = [], wCalls = 0, wEmitted = []\<rparr>
   = (Some err, \<lparr>wLog = [], wCalls = 0, wEmitted = []\<rparr>)"
  by (rule malformed_payload_never_dead_lettered) simp

end
