(* ===== verification/Ingest.thy ===== *)
theory Ingest
  imports Dead_Letter
begin

text \<open>
  The ingest paths: \<open>processMessage\<close> and the worker loop of
  internal/activityprocessor/processor.go for audit logs and of internal/processor/event.go for
  Kubernetes events, with publishing, event emission, error classification and the re-evaluation
  of dead letters. Typed decoding of audit events, API discovery, the CEL engine and NATS are
  parameters, gathered in one record per processor. Metrics and logs are not modelled.
\<close>

section \<open>Environment of the audit processor\<close>

record ('a, 'p) ProcessorEnv =
  peEngine :: "('a, 'p) cel_engine"
  peUnmarshal :: "json_text \<Rightarrow> string + AuditEvent"
  peAuditToMap :: "AuditEvent \<Rightarrow> string + gomap"
  peResolveKind :: KindResolver
  peNats :: nats_oracle
  peDLQ :: DLQPublisher
  pePrefix :: string
  pePolicyExists :: "string \<Rightarrow> bool"
  peNow :: instant

section \<open>event_emitter.go\<close>

definition truncateString :: "string \<Rightarrow> nat \<Rightarrow> string" where
  "truncateString s maxLen = (if length s \<le> maxLen then s else take maxLen s)"

text \<open>A Warning event on the policy, unless fetching the policy fails.\<close>

definition EmitEvaluationError :: "(string \<Rightarrow> bool) \<Rightarrow> string \<Rightarrow> nat \<Rightarrow> go_error \<Rightarrow> world \<Rightarrow> world" where
  "EmitEvaluationError policyExists policyName ruleIndex err w =
     (if \<not> policyExists policyName then w
      else w\<lparr>wEmitted := wEmitted w @ [(policyName,
             ''CEL evaluation failed on rule '' @ fmtInt (int ruleIndex) @ '': '' @ truncateString (errMsg err) 200)]\<rparr>)"

section \<open>processor.go: audit logs\<close>

definition classifyEvaluationError :: "go_error \<Rightarrow> int \<Rightarrow> ErrorType" where
  "classifyEvaluationError err ruleIndex =
     (if ruleIndex < 0 then ErrorTypeCELMatch
      else if errorsIs err SKindResolution \<or> errorsIs err SActivityBuild then ErrorTypeKindResolve
      else ErrorTypeCELSummary)"

text \<open>The activity's name is the deduplication id of the message.\<close>

definition activityPublication :: "string \<Rightarrow> Activity \<Rightarrow> publication" where
  "activityPublication pfx activity = PubActivity (buildActivitySubject pfx activity) (actName activity) activity"

definition publishActivity :: "nats_oracle \<Rightarrow> string \<Rightarrow> Activity \<Rightarrow> world \<Rightarrow> string option \<times> world" where
  "publishActivity js pfx activity w =
     (case jsPublish js (activityPublication pfx activity) w of
        (Some err, w') \<Rightarrow> (Some (''failed to publish to NATS: '' @ err), w')
      | (None, w') \<Rightarrow> (None, w'))"

definition evaluateCompiledAuditRules ::
  "('a, 'p) ProcessorEnv \<Rightarrow> 'p CompiledPolicy \<Rightarrow> gomap \<Rightarrow> AuditEvent \<Rightarrow> (nat \<times> go_error) + (Activity \<times> nat) option" where
  "evaluateCompiledAuditRules env policy auditMap audit =
     EvaluateCompiledAuditRules (peEngine env) policy auditMap audit (Some (peResolveKind env)) (peNow env)"

text \<open>The failure reported for a policy whose evaluation failed.\<close>

definition evaluationFailure ::
  "json_text \<Rightarrow> DeadLetterResource \<Rightarrow> DeadLetterTenant option \<Rightarrow> 'p CompiledPolicy \<Rightarrow> nat \<Rightarrow> go_error \<Rightarrow> failure" where
  "evaluationFailure payload res tenant policy i err =
     \<lparr>flPayload = payload, flPolicyName = cpName policy, flPolicyVersion = polGeneration (cpOriginal policy),
      flRuleIndex = int i, flErrorType = classifyEvaluationError err (int i), flErr = Some err,
      flResource = Some (res\<lparr>dlrKind := cpKind policy\<rparr>), flTenant = tenant\<rparr>"

fun processPolicies ::
  "('a, 'p) ProcessorEnv \<Rightarrow> json_text \<Rightarrow> AuditEvent \<Rightarrow> gomap \<Rightarrow> DeadLetterResource \<Rightarrow> DeadLetterTenant option \<Rightarrow>
   'p CompiledPolicy list \<Rightarrow> world \<Rightarrow> string option \<times> world" where
  "processPolicies env payload audit auditMap res tenant [] w = (None, w)"
| "processPolicies env payload audit auditMap res tenant (policy # ps) w =
     (case evaluateCompiledAuditRules env policy auditMap audit of
        Inl (i, err) \<Rightarrow>
          (let w1 = EmitEvaluationError (pePolicyExists env) (cpName policy) i err w
           in case PublishAuditFailure (peDLQ env) (evaluationFailure payload res tenant policy i err) w1 of
                (Some dlqErr, w2) \<Rightarrow> (Some (''failed to evaluate policy and publish to DLQ: '' @ dlqErr), w2)
              | (None, w2) \<Rightarrow> processPolicies env payload audit auditMap res tenant ps w2)
      | Inr None \<Rightarrow> processPolicies env payload audit auditMap res tenant ps w
      | Inr (Some (activity, _)) \<Rightarrow>
          (case publishActivity (peNats env) (pePrefix env) activity w of
             (Some err, w') \<Rightarrow> (Some (''failed to publish activity: '' @ err), w')
           | (None, w') \<Rightarrow> (None, w')))"

definition undecodable :: "json_text \<Rightarrow> string \<Rightarrow> DeadLetterResource option \<Rightarrow> DeadLetterTenant option \<Rightarrow> failure" where
  "undecodable payload err res tenant =
     \<lparr>flPayload = payload, flPolicyName = '''', flPolicyVersion = 0, flRuleIndex = -1, flErrorType = ErrorTypeUnmarshal,
      flErr = Some (newError err), flResource = res, flTenant = tenant\<rparr>"

text \<open>The kind of the dead letter's resource, best effort.\<close>

definition auditDlqResource :: "('a, 'p) ProcessorEnv \<Rightarrow> ObjectReference \<Rightarrow> DeadLetterResource" where
  "auditDlqResource env ref =
     \<lparr>dlrAPIGroup = objAPIGroup ref,
      dlrKind = (case peResolveKind env (objAPIGroup ref) (objResource ref) of Inr k \<Rightarrow> k | Inl _ \<Rightarrow> ''''),
      dlrName = objName ref, dlrNamespace = objNamespace ref\<rparr>"

definition processMessage :: "('a, 'p) ProcessorEnv \<Rightarrow> 'p PolicyCache \<Rightarrow> json_text \<Rightarrow> world \<Rightarrow> string option \<times> world" where
  "processMessage env cache payload w =
     (case peUnmarshal env payload of
        Inl err \<Rightarrow>
          (case PublishAuditFailure (peDLQ env) (undecodable payload err None None) w of
             (Some _, w') \<Rightarrow> (Some (''failed to unmarshal audit event: '' @ err), w')
           | (None, w') \<Rightarrow> (None, w'))
      | Inr audit \<Rightarrow>
          (let activityTenant = ExtractTenant (auditUser audit);
               dlqTenant = NewDeadLetterTenantFromActivity (tenantType activityTenant) (tenantName activityTenant)
           in case auditObjectRef audit of
                None \<Rightarrow> (None, w)
              | Some ref \<Rightarrow>
                  (let ps = Get cache (objAPIGroup ref) (objResource ref)
                   in if ps = [] then (None, w)
                      else (case peAuditToMap env audit of
                              Inl err \<Rightarrow>
                                (case PublishAuditFailure (peDLQ env)
                                        (undecodable payload err (Some (auditDlqResource env ref)) dlqTenant) w of
                                   (Some _, w') \<Rightarrow> (Some (''failed to convert audit to map: '' @ err), w')
                                 | (None, w') \<Rightarrow> (None, w'))
                            | Inr auditMap \<Rightarrow>
                                processPolicies env payload audit auditMap (auditDlqResource env ref) dlqTenant ps w))))"

text \<open>The body of the worker loop: each fetched message in turn, acknowledged when it was processed.\<close>

datatype disposition = Ack | Nak

fun workerBatch ::
  "(json_text \<Rightarrow> world \<Rightarrow> string option \<times> world) \<Rightarrow> json_text list \<Rightarrow> world \<Rightarrow> disposition list \<times> world" where
  "workerBatch proc [] w = ([], w)"
| "workerBatch proc (m # ms) w =
     (let (r, w1) = proc m w;
          (ds, w2) = workerBatch proc ms w1
      in ((if r = None then Ack else Nak) # ds, w2))"

section \<open>Re-evaluation of dead letters\<close>

record RetryOutcome =
  roResolved :: bool
  roErrorType :: "ErrorType option"
  roErr :: "go_error option"

definition resolvedOutcome :: RetryOutcome where
  "resolvedOutcome = \<lparr>roResolved = True, roErrorType = None, roErr = None\<rparr>"

definition failedOutcome :: "ErrorType \<Rightarrow> go_error \<Rightarrow> RetryOutcome" where
  "failedOutcome t e = \<lparr>roResolved = False, roErrorType = Some t, roErr = Some e\<rparr>"

fun reEvaluatePolicies ::
  "('a, 'p) ProcessorEnv \<Rightarrow> gomap \<Rightarrow> AuditEvent \<Rightarrow> 'p CompiledPolicy list \<Rightarrow> RetryOutcome" where
  "reEvaluatePolicies env auditMap audit [] = resolvedOutcome"
| "reEvaluatePolicies env auditMap audit (policy # ps) =
     (case evaluateCompiledAuditRules env policy auditMap audit of
        Inl (i, err) \<Rightarrow> failedOutcome (classifyEvaluationError err (int i)) err
      | Inr _ \<Rightarrow> reEvaluatePolicies env auditMap audit ps)"

text \<open>\<open>None\<close> is the nil dereference of \<open>audit.ObjectRef\<close>, a panic.\<close>

definition reEvaluateDeadLetter :: "('a, 'p) ProcessorEnv \<Rightarrow> 'p PolicyCache \<Rightarrow> DeadLetterEvent \<Rightarrow> RetryOutcome option" where
  "reEvaluateDeadLetter env cache event =
     (case peUnmarshal env (dleOriginalPayload event) of
        Inl err \<Rightarrow> Some (failedOutcome ErrorTypeUnmarshal (newError err))
      | Inr audit \<Rightarrow>
          (case peAuditToMap env audit of
             Inl err \<Rightarrow> Some (failedOutcome ErrorTypeUnmarshal (newError err))
           | Inr auditMap \<Rightarrow>
               (case auditObjectRef audit of
                  None \<Rightarrow> None
                | Some ref \<Rightarrow>
                    (let ps = Get cache (objAPIGroup ref) (objResource ref)
                     in if ps = [] then Some resolvedOutcome else Some (reEvaluatePolicies env auditMap audit ps)))))"

section \<open>event.go: Kubernetes events\<close>

text \<open>The \<open>EventPolicyLookup\<close> interface: its one method.\<close>

type_synonym EventPolicyLookup = "string \<Rightarrow> string \<Rightarrow> gomap \<Rightarrow> go_error + MatchedPolicy option"

record EventEnv =
  eeLookup :: EventPolicyLookup
  eeNats :: nats_oracle
  eeDLQ :: DLQPublisher
  eePrefix :: string
  eeNow :: instant

definition publishEventActivity :: "nats_oracle \<Rightarrow> string \<Rightarrow> Activity \<Rightarrow> world \<Rightarrow> string option \<times> world" where
  "publishEventActivity js pfx activity w =
     (case jsPublish js (activityPublication pfx activity) w of
        (Some err, w') \<Rightarrow> (Some (''failed to publish activity to NATS: '' @ err), w')
      | (None, w') \<Rightarrow> (None, w'))"

definition normalizeEvent :: "gomap \<Rightarrow> gomap \<Rightarrow> gomap" where
  "normalizeEvent event involvedObject =
     (if map_of event ''regarding'' \<noteq> None then event else (''regarding'', VMap involvedObject) # event)"

text \<open>\<open>json.Unmarshal\<close> of a message into a \<open>map[string]interface{}\<close>; \<open>null\<close> leaves the map nil.\<close>

definition unmarshalMap :: "json_text \<Rightarrow> string + gomap" where
  "unmarshalMap t =
     (case t of
        JValue (VMap m) \<Rightarrow> Inr m
      | JValue VNull \<Rightarrow> Inr []
      | JValue _ \<Rightarrow> Inl ''json: cannot unmarshal into Go value of type map[string]interface {}''
      | JEmpty \<Rightarrow> Inl ''unexpected end of JSON input''
      | JInvalid \<Rightarrow> Inl ''invalid character'')"

definition eventFailure :: "json_text \<Rightarrow> DeadLetterResource \<Rightarrow> go_error \<Rightarrow> failure" where
  "eventFailure payload res err =
     (let (policyName, ruleIndex) = (case errPolicy err of Some (n, i) \<Rightarrow> (n, i) | None \<Rightarrow> ('''', -1))
      in \<lparr>flPayload = payload, flPolicyName = policyName, flPolicyVersion = 0, flRuleIndex = ruleIndex,
          flErrorType = ErrorTypeCELSummary, flErr = Some err, flResource = Some res, flTenant = None\<rparr>)"

definition processEventMessage :: "EventEnv \<Rightarrow> json_text \<Rightarrow> world \<Rightarrow> string option \<times> world" where
  "processEventMessage env payload w =
     (case unmarshalMap payload of
        Inl err \<Rightarrow>
          (case PublishEventFailure (eeDLQ env) (undecodable payload err None None) w of
             (Some _, w') \<Rightarrow> (Some (''failed to unmarshal event: '' @ err), w')
           | (None, w') \<Rightarrow> (None, w'))
      | Inr event \<Rightarrow>
          (case ResolveInvolvedObject event of
             None \<Rightarrow> (None, w)
           | Some involvedObject \<Rightarrow>
               (let (kind, apiGroup) = resolveKindAndAPIGroup involvedObject
                in if kind = '''' then (None, w)
                   else (let dlqResource = \<lparr>dlrAPIGroup = apiGroup, dlrKind = kind,
                                            dlrName = getStringFromMap involvedObject ''name'',
                                            dlrNamespace = getStringFromMap involvedObject ''namespace''\<rparr>
                         in case eeLookup env apiGroup kind (normalizeEvent event involvedObject) of
                              Inl err \<Rightarrow>
                                (case PublishEventFailure (eeDLQ env) (eventFailure payload dlqResource err) w of
                                   (Some _, w') \<Rightarrow> (Some (''failed to match event against policies: '' @ errMsg err), w')
                                 | (None, w') \<Rightarrow> (None, w'))
                            | Inr None \<Rightarrow> (None, w)
                            | Inr (Some matched) \<Rightarrow>
                                (case publishEventActivity (eeNats env) (eePrefix env)
                                        (buildActivity event matched (mpSummary matched) (mpLinks matched) (eeNow env)) w of
                                   (Some err, w') \<Rightarrow> (Some (''failed to publish activity: '' @ err), w')
                                 | (None, w') \<Rightarrow> (None, w'))))))"


section \<open>What a message must leave behind\<close>

text \<open>
  The reference outcome of the policies of a message, in slice order: a failure for every policy whose
  evaluation fails, up to and with the activity of the first policy that matches.
\<close>

datatype expected = ExpFailure failure | ExpActivity Activity

fun expectedOutcomes ::
  "('a, 'p) ProcessorEnv \<Rightarrow> json_text \<Rightarrow> AuditEvent \<Rightarrow> gomap \<Rightarrow> DeadLetterResource \<Rightarrow> DeadLetterTenant option \<Rightarrow>
   'p CompiledPolicy list \<Rightarrow> expected list" where
  "expectedOutcomes env payload audit am res tenant [] = []"
| "expectedOutcomes env payload audit am res tenant (policy # ps) =
     (case evaluateCompiledAuditRules env policy am audit of
        Inl (i, err) \<Rightarrow> ExpFailure (evaluationFailure payload res tenant policy i err) # expectedOutcomes env payload audit am res tenant ps
      | Inr None \<Rightarrow> expectedOutcomes env payload audit am res tenant ps
      | Inr (Some (a, _)) \<Rightarrow> [ExpActivity a])"

definition isExpActivity :: "expected \<Rightarrow> bool" where
  "isExpActivity x = (case x of ExpActivity _ \<Rightarrow> True | ExpFailure _ \<Rightarrow> False)"

text \<open>The outcomes that leave a message on the broker: failures only with a dead-letter queue.\<close>

definition visible :: "bool \<Rightarrow> expected list \<Rightarrow> expected list" where
  "visible on xs = (if on then xs else filter isExpActivity xs)"

lemma visible_Nil [simp]: "visible on [] = []"
  by (simp add: visible_def)

lemma visible_activity [simp]: "visible on (ExpActivity a # xs) = ExpActivity a # visible on xs"
  by (simp add: visible_def isExpActivity_def)

lemma visible_failure: "visible on (ExpFailure f # xs) = (if on then [ExpFailure f] else []) @ visible on xs"
  by (simp add: visible_def isExpActivity_def)

definition realises :: "(failure \<Rightarrow> publication \<Rightarrow> bool) \<Rightarrow> string \<Rightarrow> expected \<Rightarrow> publication \<Rightarrow> bool" where
  "realises entry pfx x pub =
     (case x of ExpFailure f \<Rightarrow> entry f pub | ExpActivity a \<Rightarrow> pub = activityPublication pfx a)"

lemma realises_simps [simp]:
  "realises entry pfx (ExpFailure f) pub = entry f pub"
  "realises entry pfx (ExpActivity a) pub \<longleftrightarrow> pub = activityPublication pfx a"
  by (simp_all add: realises_def)

lemma EmitEvaluationError_log [simp]: "wLog (EmitEvaluationError pe n i e w) = wLog w"
  by (simp add: EmitEvaluationError_def)

lemma publishActivity_log:
  assumes "publishActivity js pfx a w = (r, w')"
  shows "r = None \<Longrightarrow> wLog w' = wLog w @ [activityPublication pfx a]"
    and "wLog w' = wLog w \<or> wLog w' = wLog w @ [activityPublication pfx a]"
  using assms by (auto simp: publishActivity_def split: prod.splits option.splits dest: jsPublish_cases(1) jsPublish_cases(2))

lemma publishEventActivity_log:
  assumes "publishEventActivity js pfx a w = (r, w')"
  shows "r = None \<Longrightarrow> wLog w' = wLog w @ [activityPublication pfx a]"
    and "wLog w' = wLog w \<or> wLog w' = wLog w @ [activityPublication pfx a]"
  using assms by (auto simp: publishEventActivity_def split: prod.splits option.splits dest: jsPublish_cases(1) jsPublish_cases(2))

text \<open>\<open>pubs\<close> realises the first outcomes of \<open>xs\<close>, and all of them when nothing failed.\<close>

definition accounts :: "(failure \<Rightarrow> publication \<Rightarrow> bool) \<Rightarrow> string \<Rightarrow> expected list \<Rightarrow> string option \<Rightarrow> publication list \<Rightarrow> bool" where
  "accounts entry pfx xs r pubs =
     ((\<exists>k \<le> length xs. list_all2 (realises entry pfx) (take k xs) pubs)
      \<and> (r = None \<longrightarrow> list_all2 (realises entry pfx) xs pubs))"

lemma accounts_Nil [simp]: "accounts entry pfx xs r [] \<longleftrightarrow> (r = None \<longrightarrow> xs = [])"
  by (auto simp: accounts_def intro: exI [of _ 0])

lemma accounts_Cons: "realises entry pfx x pub \<Longrightarrow> accounts entry pfx xs r pubs \<Longrightarrow> accounts entry pfx (x # xs) r (pub # pubs)"
  unfolding accounts_def by (metis Suc_le_mono length_Cons list.rel_intros(2) take_Suc_Cons)

lemma accounts_single: "realises entry pfx x pub \<Longrightarrow> accounts entry pfx (x # xs) (Some e) [pub]"
  by (rule accounts_Cons) simp_all

text \<open>All outcomes of an audit message, whatever branch it takes.\<close>

definition auditOutcomes :: "('a, 'p) ProcessorEnv \<Rightarrow> 'p PolicyCache \<Rightarrow> json_text \<Rightarrow> expected list" where
  "auditOutcomes env cache payload =
     (case peUnmarshal env payload of
        Inl err \<Rightarrow> [ExpFailure (undecodable payload err None None)]
      | Inr audit \<Rightarrow>
          (case auditObjectRef audit of
             None \<Rightarrow> []
           | Some ref \<Rightarrow>
               (let ps = Get cache (objAPIGroup ref) (objResource ref);
                    t = ExtractTenant (auditUser audit);
                    tenant = NewDeadLetterTenantFromActivity (tenantType t) (tenantName t);
                    res = auditDlqResource env ref
                in if ps = [] then []
                   else (case peAuditToMap env audit of
                           Inl err \<Rightarrow> [ExpFailure (undecodable payload err (Some res) tenant)]
                         | Inr am \<Rightarrow> expectedOutcomes env payload audit am res tenant ps))))"

text \<open>All outcomes of an event message.\<close>

definition eventOutcomes :: "EventEnv \<Rightarrow> json_text \<Rightarrow> expected list" where
  "eventOutcomes env payload =
     (case unmarshalMap payload of
        Inl err \<Rightarrow> [ExpFailure (undecodable payload err None None)]
      | Inr event \<Rightarrow>
          (case ResolveInvolvedObject event of
             None \<Rightarrow> []
           | Some obj \<Rightarrow>
               (let (kind, apiGroup) = resolveKindAndAPIGroup obj
                in if kind = '''' then []
                   else (case eeLookup env apiGroup kind (normalizeEvent event obj) of
                           Inl err \<Rightarrow> [ExpFailure (eventFailure payload
                             \<lparr>dlrAPIGroup = apiGroup, dlrKind = kind, dlrName = getStringFromMap obj ''name'',
                              dlrNamespace = getStringFromMap obj ''namespace''\<rparr> err)]
                         | Inr None \<Rightarrow> []
                         | Inr (Some m) \<Rightarrow> [ExpActivity (buildActivity event m (mpSummary m) (mpLinks m) (eeNow env))]))))"

context dlq_method
begin

lemma processPolicies_accounts:
  assumes "PublishAuditFailure (peDLQ env) = publishM"
    and "processPolicies env payload audit am res tenant ps w = (r, w')"
  shows "\<exists>pubs. wLog w' = wLog w @ pubs
    \<and> accounts entry (pePrefix env) (visible enabled (expectedOutcomes env payload audit am res tenant ps)) r pubs"
  using assms(2)
proof (induction ps arbitrary: w)
  case Nil
  then show ?case by simp
next
  case (Cons p ps)
  let ?xs = "expectedOutcomes env payload audit am res tenant ps"
  consider (err) i e where "evaluateCompiledAuditRules env p am audit = Inl (i, e)"
    | (none) "evaluateCompiledAuditRules env p am audit = Inr None"
    | (act) a i where "evaluateCompiledAuditRules env p am audit = Inr (Some (a, i))"
    by (metis old.prod.exhaust option.exhaust sumE)
  then show ?case
  proof cases
    case err
    let ?f = "evaluationFailure payload res tenant p i e"
    obtain r1 w2 where pub: "publishM ?f (EmitEvaluationError (pePolicyExists env) (cpName p) i e w) = (r1, w2)" by force
    show ?thesis
    proof (cases r1)
      case None
      from success_log [OF pub [unfolded None]] obtain pubs1 where p1: "wLog w2 = wLog w @ pubs1"
        "length pubs1 = (if enabled then 1 else 0)" "\<forall>q \<in> set pubs1. entry ?f q" by auto
      from Cons.prems err pub None assms(1) have "processPolicies env payload audit am res tenant ps w2 = (r, w')" by simp
      from Cons.IH [OF this] obtain pubs where p2: "wLog w' = wLog w2 @ pubs"
        "accounts entry (pePrefix env) (visible enabled ?xs) r pubs" by blast
      show ?thesis
      proof (cases enabled)
        case True
        with p1 obtain q where "pubs1 = [q]" "entry ?f q" by (cases pubs1) auto
        with p1 p2 err True show ?thesis by (auto simp: visible_failure intro!: accounts_Cons)
      next
        case False
        with p1 p2 err show ?thesis by (auto simp: visible_failure)
      qed
    next
      case (Some m)
      with Cons.prems err pub assms(1) have rw: "r \<noteq> None" "w' = w2" by auto
      have en: enabled using pub Some disabled by (metis option.distinct(1) prod.inject)
      from failed [OF pub [unfolded Some]] rw en err show ?thesis
        by (auto simp: visible_failure intro!: accounts_single)
    qed
  next
    case none
    with Cons show ?thesis by simp
  next
    case act
    obtain r1 w1 where pub: "publishActivity (peNats env) (pePrefix env) a w = (r1, w1)" by force
    with Cons.prems act have rw: "w' = w1" "r = None \<longleftrightarrow> r1 = None" by (auto split: option.splits)
    show ?thesis
    proof (cases r1)
      case None
      with rw act publishActivity_log(1) [OF pub] show ?thesis by (auto intro!: accounts_Cons)
    next
      case (Some m)
      with rw act publishActivity_log(2) [OF pub] show ?thesis
        by (auto intro!: accounts_single)
    qed
  qed
qed

text \<open>One failure, published or not.\<close>

lemma single_failure_accounts:
  assumes "publishM f w = (r, w')"
  shows "\<exists>pubs. wLog w' = wLog w @ pubs \<and> accounts entry pfx (visible enabled [ExpFailure f]) r pubs"
proof (cases r)
  case None
  from success_log [OF assms [unfolded None]] obtain pubs where p: "wLog w' = wLog w @ pubs"
    "length pubs = (if enabled then 1 else 0)" "\<forall>q \<in> set pubs. entry f q" by auto
  then show ?thesis
    by (cases pubs) (auto simp: visible_failure split: if_splits intro!: accounts_Cons)
next
  case (Some e)
  then have enabled using assms disabled by (metis option.distinct(1) prod.inject)
  with failed [OF assms [unfolded Some]] Some show ?thesis
    by (auto simp: visible_failure intro!: accounts_single)
qed

lemma accounts_result: "accounts entry pfx xs r pubs \<Longrightarrow> (r = None \<longleftrightarrow> r' = None) \<Longrightarrow> accounts entry pfx xs r' pubs"
  by (simp add: accounts_def)

lemma processMessage_accounts:
  assumes m: "PublishAuditFailure (peDLQ env) = publishM" and p: "processMessage env cache payload w = (r, w')"
  shows "\<exists>pubs. wLog w' = wLog w @ pubs \<and> accounts entry (pePrefix env) (visible enabled (auditOutcomes env cache payload)) r pubs"
proof (cases "peUnmarshal env payload")
  case (Inl err)
  obtain r1 w1 where "publishM (undecodable payload err None None) w = (r1, w1)" by force
  with single_failure_accounts [OF this, of "pePrefix env"] p m Inl show ?thesis
    by (auto simp: processMessage_def auditOutcomes_def split: option.splits elim!: accounts_result)
next
  case (Inr audit)
  show ?thesis
  proof (cases "\<exists>ref. auditObjectRef audit = Some ref \<and> Get cache (objAPIGroup ref) (objResource ref) \<noteq> []")
    case False
    with p Inr show ?thesis
      by (auto simp: processMessage_def auditOutcomes_def Let_def split: option.splits if_splits)
  next
    case True
    then obtain ref where ref: "auditObjectRef audit = Some ref" "Get cache (objAPIGroup ref) (objResource ref) \<noteq> []" by blast
    let ?t = "ExtractTenant (auditUser audit)"
    let ?tenant = "NewDeadLetterTenantFromActivity (tenantType ?t) (tenantName ?t)"
    show ?thesis
    proof (cases "peAuditToMap env audit")
      case (Inl err)
      obtain r1 w1 where "publishM (undecodable payload err (Some (auditDlqResource env ref)) ?tenant) w = (r1, w1)" by force
      with single_failure_accounts [OF this, of "pePrefix env"] p m Inl Inr ref show ?thesis
        by (auto simp: processMessage_def auditOutcomes_def Let_def split: option.splits elim!: accounts_result)
    next
      case am: (Inr am)
      with p Inr ref have "processPolicies env payload audit am (auditDlqResource env ref) ?tenant
          (Get cache (objAPIGroup ref) (objResource ref)) w = (r, w')"
        by (simp add: processMessage_def Let_def)
      from processPolicies_accounts [OF m this] Inr ref am show ?thesis
        by (simp add: auditOutcomes_def Let_def)
    qed
  qed
qed

lemma processEventMessage_accounts:
  assumes m: "PublishEventFailure (eeDLQ env) = publishM" and p: "processEventMessage env payload w = (r, w')"
  shows "\<exists>pubs. wLog w' = wLog w @ pubs \<and> accounts entry (eePrefix env) (visible enabled (eventOutcomes env payload)) r pubs"
proof (cases "eventOutcomes env payload")
  case Nil
  with p show ?thesis
    by (auto simp: processEventMessage_def eventOutcomes_def Let_def split: sum.splits option.splits if_splits prod.splits)
next
  case (Cons x xs)
  show ?thesis
  proof (cases x)
    case (ExpFailure f)
    obtain r1 w1 where pub: "publishM f w = (r1, w1)" by force
    from Cons ExpFailure p m pub have "w' = w1" "r = None \<longleftrightarrow> r1 = None" "xs = []"
      by (auto simp: processEventMessage_def eventOutcomes_def Let_def split: sum.splits option.splits if_splits prod.splits)
    with single_failure_accounts [OF pub, of "eePrefix env"] Cons ExpFailure show ?thesis by (auto elim!: accounts_result)
  next
    case (ExpActivity a)
    obtain r1 w1 where pub: "publishEventActivity (eeNats env) (eePrefix env) a w = (r1, w1)" by force
    from Cons ExpActivity p pub have rw: "w' = w1" "r = None \<longleftrightarrow> r1 = None" "xs = []"
      by (auto simp: processEventMessage_def eventOutcomes_def Let_def split: sum.splits option.splits if_splits prod.splits)
    show ?thesis
    proof (cases r1)
      case None
      with publishEventActivity_log(1) [OF pub] rw Cons ExpActivity show ?thesis by (auto intro!: accounts_Cons)
    next
      case (Some e)
      with publishEventActivity_log(2) [OF pub] rw Cons ExpActivity show ?thesis by (auto intro!: accounts_single)
    qed
  qed
qed

end

section \<open>Batches\<close>

text \<open>What holds of a processing function message by message holds of a worker's batch.\<close>

definition dispositionResult :: "disposition \<Rightarrow> string option" where
  "dispositionResult d = (case d of Ack \<Rightarrow> None | Nak \<Rightarrow> Some '''')"

lemma workerBatch_accounts:
  assumes step: "\<And>m w r w'. proc m w = (r, w') \<Longrightarrow>
      \<exists>pubs. wLog w' = wLog w @ pubs \<and> accounts entry pfx (outcomes m) r pubs"
    and "workerBatch proc ms w = (ds, w')"
  shows "\<exists>pss. wLog w' = wLog w @ concat pss \<and> length ds = length ms \<and>
    list_all2 (\<lambda>(m, d) pubs. accounts entry pfx (outcomes m) (dispositionResult d) pubs) (zip ms ds) pss"
  using assms(2)
proof (induction ms arbitrary: w ds)
  case Nil
  then show ?case by simp
next
  case (Cons m ms)
  obtain r w1 where pm: "proc m w = (r, w1)" by force
  obtain ds' w2 where rest: "workerBatch proc ms w1 = (ds', w2)" by force
  from Cons.prems pm rest have ds: "ds = (if r = None then Ack else Nak) # ds'" "w' = w2" by auto
  from step [OF pm] obtain pubs where p: "wLog w1 = wLog w @ pubs" "accounts entry pfx (outcomes m) r pubs" by blast
  from Cons.IH [OF rest [folded ds(2)]] obtain pss where q: "wLog w' = wLog w1 @ concat pss" "length ds' = length ms"
    "list_all2 (\<lambda>(m, d) pubs. accounts entry pfx (outcomes m) (dispositionResult d) pubs) (zip ms ds') pss" by blast
  have "accounts entry pfx (outcomes m) (dispositionResult (if r = None then Ack else Nak)) pubs"
    using p(2) by (auto simp: dispositionResult_def accounts_def)
  with ds p q show ?case by (intro exI [of _ "pubs # pss"]) auto
qed

section \<open>Properties\<close>

text \<open>
  C1: no audit message is lost or half-accounted. For every batch a worker fetches, whatever the
  broker does, the messages it stores are the concatenation of one segment per input message, in
  order. The segment of an acknowledged message is complete: a dead letter for its undecodable
  payload or for each policy whose evaluation failed (with the queue enabled), followed by the activity of the first
  policy that matched, and nothing else. The segment of a rejected message is a prefix of that,
  so redelivery repeats and completes it.\<close>

theorem audit_batch_accounted:
  assumes "peDLQ env = NewDLQPublisher orc cfg now"
    and "workerBatch (processMessage env cache) ms w = (ds, w')"
  shows "\<exists>pss. wLog w' = wLog w @ concat pss \<and> length ds = length ms \<and>
    list_all2 (\<lambda>(m, d) pubs. accounts (deadLetterOf EventTypeAudit) (pePrefix env)
        (visible (dlqEnabled cfg) (auditOutcomes env cache m)) (dispositionResult d) pubs) (zip ms ds) pss"
proof (rule workerBatch_accounts [OF _ assms(2)])
  fix m w r w'
  assume "processMessage env cache m w = (r, w')"
  then show "\<exists>pubs. wLog w' = wLog w @ pubs \<and> accounts (deadLetterOf EventTypeAudit) (pePrefix env)
      (visible (dlqEnabled cfg) (auditOutcomes env cache m)) r pubs"
    using dlq_method.processMessage_accounts [OF NewDLQPublisher_methods(1)] assms(1) by metis
qed

text \<open>
  C30: the same accounting for Kubernetes events: an acknowledged event is skipped, has its activity
  published, or is in the dead-letter queue; a rejected one has left at most that message.\<close>

theorem event_batch_accounted:
  assumes "eeDLQ env = NewDLQPublisher orc cfg now"
    and "workerBatch (processEventMessage env) ms w = (ds, w')"
  shows "\<exists>pss. wLog w' = wLog w @ concat pss \<and> length ds = length ms \<and>
    list_all2 (\<lambda>(m, d) pubs. accounts (deadLetterOf EventTypeK8sEvent) (eePrefix env)
        (visible (dlqEnabled cfg) (eventOutcomes env m)) (dispositionResult d) pubs) (zip ms ds) pss"
proof (rule workerBatch_accounts [OF _ assms(2)])
  fix m w r w'
  assume "processEventMessage env m w = (r, w')"
  then show "\<exists>pubs. wLog w' = wLog w @ pubs \<and> accounts (deadLetterOf EventTypeK8sEvent) (eePrefix env)
      (visible (dlqEnabled cfg) (eventOutcomes env m)) r pubs"
    using dlq_method.processEventMessage_accounts [OF NewDLQPublisher_methods(2)] assms(1) by metis
qed

definition exampleWorld :: world where
  "exampleWorld = \<lparr>wLog = [], wCalls = 0, wEmitted = []\<rparr>"

definition exampleEnv :: "nats_oracle \<Rightarrow> (string, string) ProcessorEnv" where
  "exampleEnv js = \<lparr>peEngine = varEngine,
     peUnmarshal = (\<lambda>t. case t of JValue _ \<Rightarrow> Inr exampleAudit | _ \<Rightarrow> Inl ''bad json''),
     peAuditToMap = (\<lambda>_. Inr exampleAuditMap), peResolveKind = (\<lambda>_ _. Inr ''Pod''), peNats = js,
     peDLQ = NewDLQPublisher js DefaultDLQConfig 7, pePrefix = ''activities'', pePolicyExists = (\<lambda>_. True), peNow = 7\<rparr>"

theorem audit_batch_accounted_witness:
  "\<exists>pss. wLog (snd (workerBatch (processMessage (exampleEnv (\<lambda>_. Stored)) NewPolicyCache) [JValue VNull] exampleWorld)) = concat pss
     \<and> list_all2 (\<lambda>(m, d) pubs. accounts (deadLetterOf EventTypeAudit) ''activities''
          (visible True (auditOutcomes (exampleEnv (\<lambda>_. Stored)) NewPolicyCache m)) (dispositionResult d) pubs)
        (zip [JValue VNull] (fst (workerBatch (processMessage (exampleEnv (\<lambda>_. Stored)) NewPolicyCache) [JValue VNull] exampleWorld))) pss"
  using audit_batch_accounted [of "exampleEnv (\<lambda>_. Stored)" "\<lambda>_. Stored" DefaultDLQConfig 7 NewPolicyCache "[JValue VNull]" exampleWorld
      "fst (workerBatch (processMessage (exampleEnv (\<lambda>_. Stored)) NewPolicyCache) [JValue VNull] exampleWorld)"
      "snd (workerBatch (processMessage (exampleEnv (\<lambda>_. Stored)) NewPolicyCache) [JValue VNull] exampleWorld)"]
  by (auto simp: exampleEnv_def exampleWorld_def DefaultDLQConfig_def)

definition exampleEventEnv :: EventEnv where
  "exampleEventEnv = \<lparr>eeLookup = MatchEvent varEngine (Add varEngine (examplePolicy ''p'' ''seen'') ''pods'' NewPolicyCache),
     eeNats = (\<lambda>_. Stored), eeDLQ = NewDLQPublisher (\<lambda>_. Stored) DefaultDLQConfig 7, eePrefix = ''activities'', eeNow = 7\<rparr>"

definition exampleEventMessage :: json_text where
  "exampleEventMessage = JValue (VMap [(''regarding'', VMap [(''kind'', VStr ''Pod''), (''name'', VStr ''a'')])])"

theorem event_batch_accounted_witness:
  "\<exists>pss. wLog (snd (workerBatch (processEventMessage exampleEventEnv) [exampleEventMessage] exampleWorld)) = concat pss
     \<and> list_all2 (\<lambda>(m, d) pubs. accounts (deadLetterOf EventTypeK8sEvent) ''activities''
          (visible True (eventOutcomes exampleEventEnv m)) (dispositionResult d) pubs)
        (zip [exampleEventMessage] (fst (workerBatch (processEventMessage exampleEventEnv) [exampleEventMessage] exampleWorld))) pss"
  using event_batch_accounted [of exampleEventEnv "\<lambda>_. Stored" DefaultDLQConfig 7 "[exampleEventMessage]" exampleWorld
      "fst (workerBatch (processEventMessage exampleEventEnv) [exampleEventMessage] exampleWorld)"
      "snd (workerBatch (processEventMessage exampleEventEnv) [exampleEventMessage] exampleWorld)"]
  by (auto simp: exampleEventEnv_def exampleWorld_def DefaultDLQConfig_def)

text \<open>The reference outcome when policy \<open>k\<close> is the first to match: the failures before it, then its activity.\<close>

lemma expectedOutcomes_first_match:
  assumes "k < length ps" "evaluateCompiledAuditRules env (ps ! k) am audit = Inr (Some (a, i))"
    and "\<forall>j < k. \<forall>b l. evaluateCompiledAuditRules env (ps ! j) am audit \<noteq> Inr (Some (b, l))"
  shows "\<exists>fs. expectedOutcomes env payload audit am res tenant ps = map ExpFailure fs @ [ExpActivity a]
    \<and> length fs = length (filter (\<lambda>p. \<not> isOk (evaluateCompiledAuditRules env p am audit)) (take k ps))"
  using assms
proof (induction ps arbitrary: k)
  case Nil
  then show ?case by simp
next
  case (Cons p ps)
  show ?case
  proof (cases k)
    case 0
    with Cons.prems show ?thesis by (intro exI [of _ "[]"]) simp
  next
    case (Suc k')
    obtain fs where fs: "expectedOutcomes env payload audit am res tenant ps = map ExpFailure fs @ [ExpActivity a]"
      "length fs = length (filter (\<lambda>p. \<not> isOk (evaluateCompiledAuditRules env p am audit)) (take k' ps))"
      using Cons.IH [of k'] Cons.prems Suc by fastforce
    have nm: "\<forall>b l. evaluateCompiledAuditRules env p am audit \<noteq> Inr (Some (b, l))" using Cons.prems(3) Suc by force
    show ?thesis
    proof (cases "evaluateCompiledAuditRules env p am audit")
      case (Inl ie)
      then show ?thesis
        using fs Suc by (cases ie) (auto intro!: exI [of _ "evaluationFailure payload res tenant p (fst ie) (snd ie) # fs"])
    next
      case (Inr x)
      with nm have "x = None" by (cases x) auto
      with Inr fs Suc show ?thesis by auto
    qed
  qed
qed

lemma deadLetterOf_letter: "deadLetterOf t f pub \<Longrightarrow> \<exists>s e. pub = PubDeadLetter s None e"
  by (auto simp: deadLetterOf_def split: publication.splits option.splits)

lemma list_all2_failures:
  "list_all2 (realises (deadLetterOf t) pfx) (map ExpFailure fs) pubs \<Longrightarrow>
   length pubs = length fs \<and> (\<forall>q \<in> set pubs. \<exists>s e. q = PubDeadLetter s None e)"
  by (induction fs arbitrary: pubs) (auto simp: list_all2_Cons1 dest: deadLetterOf_letter)

text \<open>
  The first matching policy wins. When processing succeeds and policy \<open>k\<close>, in cache order, is the
  first whose rules match, the broker stores exactly one activity for the message, that of policy \<open>k\<close>, as the last message; before it
  there is one dead letter for each earlier policy whose evaluation failed (none with the queue
  disabled), and later policies are not evaluated.\<close>

theorem first_matching_policy_wins:
  assumes "peDLQ env = NewDLQPublisher orc cfg now"
    and "processPolicies env payload audit am res tenant ps w = (None, w')"
    and "k < length ps" "evaluateCompiledAuditRules env (ps ! k) am audit = Inr (Some (a, i))"
    and "\<forall>j < k. \<forall>b l. evaluateCompiledAuditRules env (ps ! j) am audit \<noteq> Inr (Some (b, l))"
  shows "\<exists>dls. wLog w' = wLog w @ dls @ [activityPublication (pePrefix env) a]
    \<and> (\<forall>q \<in> set dls. \<exists>s e. q = PubDeadLetter s None e)
    \<and> length dls = (if dlqEnabled cfg then length (filter (\<lambda>p. \<not> isOk (evaluateCompiledAuditRules env p am audit)) (take k ps)) else 0)"
proof -
  obtain fs where fs: "expectedOutcomes env payload audit am res tenant ps = map ExpFailure fs @ [ExpActivity a]"
    "length fs = length (filter (\<lambda>p. \<not> isOk (evaluateCompiledAuditRules env p am audit)) (take k ps))"
    using expectedOutcomes_first_match [OF assms(3-5)] by blast
  have pub: "PublishAuditFailure (peDLQ env) = PublishAuditFailure (NewDLQPublisher orc cfg now)" using assms(1) by simp
  let ?fs = "if dlqEnabled cfg then fs else []"
  have vis: "visible (dlqEnabled cfg) (map ExpFailure fs @ [ExpActivity a]) = map ExpFailure ?fs @ [ExpActivity a]"
    by (auto simp: visible_def isExpActivity_def filter_empty_conv)
  obtain pubs where p: "wLog w' = wLog w @ pubs"
    "list_all2 (realises (deadLetterOf EventTypeAudit) (pePrefix env)) (map ExpFailure ?fs @ [ExpActivity a]) pubs"
    using dlq_method.processPolicies_accounts [OF NewDLQPublisher_methods(1) pub assms(2)] unfolding fs(1) vis accounts_def by auto
  then obtain dls x where "pubs = dls @ [x]" "list_all2 (realises (deadLetterOf EventTypeAudit) (pePrefix env)) (map ExpFailure ?fs) dls"
    "x = activityPublication (pePrefix env) a"
    by (auto simp: list_all2_append1 list_all2_Cons1)
  with p list_all2_failures fs(2) show ?thesis by (intro exI [of _ dls]) (auto split: if_splits)
qed

lemma example_audit_matches:
  "\<exists>a. evaluateCompiledAuditRules (exampleEnv js) (compilePolicy varEngine (examplePolicy n s) ''pods'') exampleAuditMap exampleAudit
     = Inr (Some (a, 0))"
proof -
  have v: "compileAuditRule varEngine \<lparr>ruleName = ''any'', ruleMatch = ''true'', ruleSummary = ''{{ actor }} did it''\<rparr> =
      \<lparr>crMatch = ''true'', crSummary = ''{{ actor }} did it'', crMatchProgram = Some ''true'',
       crTemplates = [\<lparr>ctFullMatch = ''{{ actor }}'', ctExpression = ''actor'', ctProgram = ''actor''\<rparr>], crValid = True, crCompileError = ''''\<rparr>"
    by code_simp
  have m: "ruleEvaluateAuditMatch varEngine \<lparr>crMatch = ''true'', crSummary = ''{{ actor }} did it'', crMatchProgram = Some ''true'',
       crTemplates = [\<lparr>ctFullMatch = ''{{ actor }}'', ctExpression = ''actor'', ctProgram = ''actor''\<rparr>], crValid = True, crCompileError = ''''\<rparr>
       exampleAuditMap = Inr True"
    by (simp add: ruleEvaluateAuditMatch_def evalMatchProgram_def varEngine_def)
  have e: "EvaluateAuditSummaryMap varEngine ''{{ actor }} did it'' exampleAuditMap = Inr (''ann@x did it'', [])" by code_simp
  show ?thesis
    by (simp add: evaluateCompiledAuditRules_def EvaluateCompiledAuditRules_def compilePolicy_def examplePolicy_def exampleSpec_def
        exampleEnv_def v m e BuildFromAudit_def Let_def case_prod_unfold)
qed

theorem first_matching_policy_wins_witness:
  "\<exists>a w'. processPolicies (exampleEnv (\<lambda>_. Stored)) JEmpty exampleAudit exampleAuditMap
      \<lparr>dlrAPIGroup = '''', dlrKind = '''', dlrName = '''', dlrNamespace = ''''\<rparr> None
      [compilePolicy varEngine (examplePolicy ''p'' ''s'') ''pods''] exampleWorld = (None, w')
    \<and> wLog w' = [activityPublication ''activities'' a]"
proof -
  let ?c = "compilePolicy varEngine (examplePolicy ''p'' ''s'') ''pods''"
  let ?res = "\<lparr>dlrAPIGroup = '''', dlrKind = '''', dlrName = '''', dlrNamespace = ''''\<rparr>"
  obtain a where a: "evaluateCompiledAuditRules (exampleEnv (\<lambda>_. Stored)) ?c exampleAuditMap exampleAudit = Inr (Some (a, 0))"
    using example_audit_matches by blast
  have env: "peDLQ (exampleEnv (\<lambda>_. Stored)) = NewDLQPublisher (\<lambda>_. Stored) DefaultDLQConfig 7"
    "peNats (exampleEnv (\<lambda>_. Stored)) = (\<lambda>_. Stored)" "pePrefix (exampleEnv (\<lambda>_. Stored)) = ''activities''"
    by (simp_all add: exampleEnv_def)
  obtain w' where w': "processPolicies (exampleEnv (\<lambda>_. Stored)) JEmpty exampleAudit exampleAuditMap ?res None [?c] exampleWorld = (None, w')"
    using a env by (simp add: publishActivity_def jsPublish_def)
  have "\<exists>dls. wLog w' = wLog exampleWorld @ dls @ [activityPublication ''activities'' a] \<and> length dls = 0"
    using first_matching_policy_wins [OF env(1) w', of 0 a 0] a env(3) by (auto split: if_splits)
  with w' show ?thesis by (auto simp: exampleWorld_def)
qed

section \<open>Dead letters of the ingest paths\<close>

text \<open>
  An evaluation failure of the audit path is never classified as a match failure. The
  evaluator reports a rule index for every error, also when the match expression failed, and the
  classifier reserves \<open>cel_match\<close> for a negative index.\<close>

theorem match_failures_misclassified:
  assumes "evaluateCompiledAuditRules env policy am audit = Inl (i, err)"
  shows "classifyEvaluationError err (int i) \<noteq> ErrorTypeCELMatch \<and> i < length (cpAuditRules policy)"
  using assms compiledAuditLoop_error [of "peEngine env" _ am audit "Some (peResolveKind env)" "peNow env" 0 "cpAuditRules policy" i err]
  by (auto simp: classifyEvaluationError_def evaluateCompiledAuditRules_def EvaluateCompiledAuditRules_def)

text \<open>An engine on which the match expression fails at run time.\<close>

definition failingEngine :: "(string, string) cel_engine" where
  "failingEngine = varEngine\<lparr>celEval := (\<lambda>p vars. (Inl ''no such key'', []))\<rparr>"

lemma failingEngine_eval: "celEval failingEngine p vars = (Inl ''no such key'', [])"
  by (simp add: failingEngine_def)

lemma failing_match:
  "\<exists>err. evaluateCompiledAuditRules ((exampleEnv js)\<lparr>peEngine := failingEngine\<rparr>)
     (compilePolicy failingEngine (examplePolicy n s) ''pods'') am exampleAudit = Inl (0, err)"
proof -
  have v: "compileAuditRule failingEngine \<lparr>ruleName = ''any'', ruleMatch = ''true'', ruleSummary = ''{{ actor }} did it''\<rparr> =
      \<lparr>crMatch = ''true'', crSummary = ''{{ actor }} did it'', crMatchProgram = Some ''true'',
       crTemplates = [\<lparr>ctFullMatch = ''{{ actor }}'', ctExpression = ''actor'', ctProgram = ''actor''\<rparr>], crValid = True, crCompileError = ''''\<rparr>"
    by code_simp
  show ?thesis
    by (simp add: evaluateCompiledAuditRules_def EvaluateCompiledAuditRules_def compilePolicy_def examplePolicy_def exampleSpec_def
        exampleEnv_def v ruleEvaluateAuditMatch_def evalMatchProgram_def failingEngine_eval)
qed

theorem match_failures_misclassified_witness:
  "\<exists>err. evaluateCompiledAuditRules ((exampleEnv (\<lambda>_. Stored))\<lparr>peEngine := failingEngine\<rparr>)
      (compilePolicy failingEngine (examplePolicy ''p'' ''s'') ''pods'') exampleAuditMap exampleAudit = Inl (0, err)
    \<and> classifyEvaluationError err 0 \<noteq> ErrorTypeCELMatch"
proof -
  obtain err where e: "evaluateCompiledAuditRules ((exampleEnv (\<lambda>_. Stored))\<lparr>peEngine := failingEngine\<rparr>)
      (compilePolicy failingEngine (examplePolicy ''p'' ''s'') ''pods'') exampleAuditMap exampleAudit = Inl (0, err)"
    using failing_match by blast
  with match_failures_misclassified [OF e] show ?thesis by auto
qed

text \<open>
  Re-evaluation is sound for ingest: when the retry controller finds a dead letter resolved,
  processing its payload again leaves no failure behind, only an activity or nothing.\<close>

theorem resolved_dead_letter_reprocesses_cleanly:
  assumes "reEvaluateDeadLetter env cache e = Some outcome" and "roResolved outcome"
  shows "\<forall>f. ExpFailure f \<notin> set (auditOutcomes env cache (dleOriginalPayload e))"
proof -
  have clean: "roResolved (reEvaluatePolicies env am audit ps) \<Longrightarrow>
      ExpFailure f \<notin> set (expectedOutcomes env p audit am res tenant ps)" for am audit ps f p res tenant
    by (induction ps) (auto simp: failedOutcome_def split: sum.splits option.splits prod.splits)
  show ?thesis
    using assms clean
    by (auto simp: reEvaluateDeadLetter_def auditOutcomes_def failedOutcome_def Let_def
        split: sum.splits option.splits if_splits)
qed

theorem resolved_dead_letter_reprocesses_cleanly_witness:
  "\<forall>f. ExpFailure f \<notin> set (auditOutcomes (exampleEnv (\<lambda>_. Stored)) NewPolicyCache (JValue VNull))"
proof -
  have r: "reEvaluateDeadLetter (exampleEnv (\<lambda>_. Stored)) NewPolicyCache
      (deadLetter EventTypeAudit 0 (undecodable (JValue VNull) '''' None None)) = Some resolvedOutcome"
    by (simp add: reEvaluateDeadLetter_def exampleEnv_def deadLetter_def undecodable_def exampleAudit_def Get_def
        NewPolicyCache_def indexGet_def Let_def)
  have "roResolved resolvedOutcome" by (simp add: resolvedOutcome_def)
  from resolved_dead_letter_reprocesses_cleanly [OF r this] show ?thesis by (simp add: deadLetter_def undecodable_def)
qed

section \<open>The event lookup contract\<close>

text \<open>
  What \<open>EventProcessor\<close> relies on of its \<open>EventPolicyLookup\<close>: an error names the policy and the
  rule that failed, so that the dead letter can be retried when that policy changes.
\<close>

lemma eventOutcomes_failure:
  assumes "ExpFailure f \<in> set (eventOutcomes env payload)"
  shows "(\<exists>err. f = undecodable payload err None None)
    \<or> (\<exists>g k e err res. eeLookup env g k e = Inl err \<and> f = eventFailure payload res err)"
proof (cases "unmarshalMap payload")
  case (Inl err)
  with assms show ?thesis by (auto simp: eventOutcomes_def)
next
  case (Inr event)
  with assms obtain obj where obj: "ResolveInvolvedObject event = Some obj"
    by (cases "ResolveInvolvedObject event") (simp_all add: eventOutcomes_def)
  obtain kind apiGroup where ka: "resolveKindAndAPIGroup obj = (kind, apiGroup)" by force
  have k: "kind \<noteq> ''''" using assms Inr obj ka by (auto simp: eventOutcomes_def)
  show ?thesis
  proof (cases "eeLookup env apiGroup kind (normalizeEvent event obj)")
    case (Inl err)
    with assms Inr obj ka k have "f = eventFailure payload \<lparr>dlrAPIGroup = apiGroup, dlrKind = kind,
        dlrName = getStringFromMap obj ''name'', dlrNamespace = getStringFromMap obj ''namespace''\<rparr> err"
      by (simp add: eventOutcomes_def)
    with Inl show ?thesis by blast
  next
    case r: (Inr mo)
    with assms Inr obj ka k show ?thesis by (cases mo) (auto simp: eventOutcomes_def)
  qed
qed

locale event_policy_lookup =
  fixes lookup :: EventPolicyLookup
  assumes errors_name_policy: "lookup g k e = Inl err \<Longrightarrow> \<exists>n i. errPolicy err = Some (n, i) \<and> 0 \<le> i"
begin

lemma failure_names_policy:
  assumes "lookup g k e = Inl err"
  shows "\<exists>n. flPolicyName (eventFailure payload res err) = n \<and> 0 \<le> flRuleIndex (eventFailure payload res err)
    \<and> flPolicyVersion (eventFailure payload res err) = 0
    \<and> errPolicy err = Some (n, flRuleIndex (eventFailure payload res err))"
  using errors_name_policy [OF assms] by (auto simp: eventFailure_def)

text \<open>Every failure of an event message is the undecodable payload or names its policy.\<close>

lemma event_failures:
  assumes "eeLookup env = lookup" "ExpFailure f \<in> set (eventOutcomes env payload)"
  shows "flPolicyVersion f = 0 \<and> (flErrorType f = ErrorTypeUnmarshal \<or> 0 \<le> flRuleIndex f)"
proof -
  consider err where "f = undecodable payload err None None"
    | g k e err res where "lookup g k e = Inl err" "f = eventFailure payload res err"
    using eventOutcomes_failure [OF assms(2)] assms(1) by blast
  then show ?thesis
  proof cases
    case 1
    then show ?thesis by (simp add: undecodable_def)
  next
    case 2
    then show ?thesis using failure_names_policy [OF 2(1)] by auto
  qed
qed

end

lemma matchEventRules_error:
  "matchEventRules eng p ev i rules = Inl err \<Longrightarrow> \<exists>j. errPolicy err = Some (cpName p, j) \<and> 0 \<le> j"
  by (induction eng p ev i rules rule: matchEventRules.induct)
    (auto simp: NewPolicyEvaluationError_def split: if_splits sum.splits)

lemma matchEventPolicies_error:
  "matchEventPolicies eng ps ev = Inl err \<Longrightarrow> \<exists>n j. errPolicy err = Some (n, j) \<and> 0 \<le> j"
  by (induction eng ps ev rule: matchEventPolicies.induct)
    (auto split: sum.splits option.splits dest: matchEventRules_error)

interpretation cache_lookup: event_policy_lookup "MatchEvent eng c" for eng :: "('a, 'p) cel_engine" and c
  by unfold_locales (simp add: MatchEvent_def matchEventPolicies_error)

text \<open>
  A Kubernetes event dead-lettered because of a policy names that policy's rule, but always
  with policy version 0, although the matching policy's generation is known to the cache.\<close>

theorem event_dead_letters_have_version_zero:
  assumes "eeLookup env = MatchEvent eng cache" and "ExpFailure f \<in> set (eventOutcomes env payload)"
  shows "flPolicyVersion f = 0 \<and> (flErrorType f = ErrorTypeUnmarshal \<or> 0 \<le> flRuleIndex f)"
  using cache_lookup.event_failures [OF assms] .

theorem event_dead_letters_have_version_zero_witness:
  "flPolicyVersion (undecodable JInvalid ''invalid character'' None None) = 0"
proof -
  have l: "eeLookup exampleEventEnv = MatchEvent varEngine (Add varEngine (examplePolicy ''p'' ''seen'') ''pods'' NewPolicyCache)"
    by (simp add: exampleEventEnv_def)
  have "ExpFailure (undecodable JInvalid ''invalid character'' None None) \<in> set (eventOutcomes exampleEventEnv JInvalid)"
    by (simp add: eventOutcomes_def unmarshalMap_def)
  from event_dead_letters_have_version_zero [OF l this] show ?thesis by simp
qed

end
