(* ===== verification/Float64.thy ===== *)
theory Float64
  imports Complex_Main
begin

text \<open>
  The float64 arithmetic of the retry backoff, on non-negative finite values: a float64 is the
  rational it denotes, every operation rounds to 53 significant bits, ties to even, as IEEE 754
  prescribes. \<open>mathPow\<close> follows the loop of Go's \<open>math.Pow\<close> for a non-negative integral
  exponent. Subnormal results do not occur (the factors are at least one half). \<open>None\<close> is
  positive infinity.
\<close>

section \<open>Rounding\<close>

function bitLen :: "int \<Rightarrow> int" where
  "bitLen n = (if n \<le> 0 then 0 else 1 + bitLen (n div 2))"
  by pat_completeness auto
termination
  by (relation "measure nat") auto

declare bitLen.simps [simp del]

definition pow2 :: "int \<Rightarrow> rat" where
  "pow2 e = (if 0 \<le> e then 2 ^ nat e else 1 / 2 ^ nat (- e))"

definition roundEven :: "rat \<Rightarrow> int" where
  "roundEven x =
     (let f = \<lfloor>x\<rfloor>; d = x - of_int f
      in if d < 1 / 2 then f else if d > 1 / 2 then f + 1 else if even f then f else f + 1)"

text \<open>The exponent that scales a positive rational into \<open>[2\<^sup>5\<^sup>2, 2\<^sup>5\<^sup>3)\<close>.\<close>

definition scaleExp :: "rat \<Rightarrow> int" where
  "scaleExp x =
     (let (p, q) = quotient_of x;
          e = bitLen p - bitLen q - 53
      in if x / pow2 e \<ge> 2 ^ 53 then e + 1 else if x / pow2 e < 2 ^ 52 then e - 1 else e)"

definition rnd64 :: "rat \<Rightarrow> rat" where
  "rnd64 x = (if x \<le> 0 then 0 else (let e = scaleExp x in of_int (roundEven (x / pow2 e)) * pow2 e))"

definition fmul :: "rat \<Rightarrow> rat \<Rightarrow> rat" where
  "fmul a b = rnd64 (a * b)"

section \<open>math.Pow\<close>

text \<open>\<open>math.Frexp\<close>: a fraction in \<open>[1/2, 1)\<close> and an exponent.\<close>

definition frexp :: "rat \<Rightarrow> rat \<times> int" where
  "frexp x = (if x = 0 then (0, 0) else (let e = scaleExp x + 53 in (x / pow2 e, e)))"

text \<open>
  The squaring loop over the bits of the exponent, with the accumulator \<open>a1 * 2 ^ ae\<close>. The guard
  against huge exponents ends the loop as the source of \<open>math.Pow\<close> does.
\<close>

function powLoop :: "nat \<Rightarrow> rat \<Rightarrow> int \<Rightarrow> rat \<Rightarrow> int \<Rightarrow> rat \<times> int" where
  "powLoop i x1 xe a1 ae =
     (if i = 0 then (a1, ae)
      else if xe < - 4096 \<or> 4096 < xe then (a1, ae + xe)
      else (let (a1', ae') = (if odd i then (fmul a1 x1, ae + xe) else (a1, ae));
                s = fmul x1 x1;
                (s', xe') = (if s < 1 / 2 then (s + s, 2 * xe - 1) else (s, 2 * xe))
            in powLoop (i div 2) s' xe' a1' ae'))"
  by pat_completeness auto
termination
  by (relation "measure (\<lambda>(i, _). i)") auto

declare powLoop.simps [simp del]

text \<open>Beyond the largest float64: the scaled exponent of a value of at least \<open>2\<close> to the 1024.\<close>

definition overflows :: "rat \<Rightarrow> bool" where
  "overflows v = (0 < v \<and> 971 < scaleExp v)"

definition ldexp :: "rat \<Rightarrow> int \<Rightarrow> rat option" where
  "ldexp a e = (let v = a * pow2 e in if overflows v then None else Some v)"

definition mathPow :: "rat \<Rightarrow> nat \<Rightarrow> rat option" where
  "mathPow x n =
     (if n = 0 \<or> x = 1 then Some 1
      else if n = 1 then Some x
      else if x = 0 then Some 0
      else (let (x1, xe) = frexp x; (a1, ae) = powLoop n x1 xe 1 0 in ldexp a1 ae))"

section \<open>Durations\<close>

text \<open>
  \<open>float64(d)\<close> of a non-negative duration and \<open>time.Duration(f)\<close>: truncation, and the amd64
  result, the least \<open>int64\<close>, for a value outside the range.
\<close>

definition durationOfFloat :: "rat option \<Rightarrow> int" where
  "durationOfFloat f =
     (case f of
        None \<Rightarrow> - (2 ^ 63)
      | Some x \<Rightarrow> if x < 2 ^ 63 then \<lfloor>x\<rfloor> else - (2 ^ 63))"

definition fmulInf :: "rat \<Rightarrow> rat option \<Rightarrow> rat option" where
  "fmulInf a b = (case b of None \<Rightarrow> None | Some y \<Rightarrow> let v = fmul a y in if overflows v then None else Some v)"

section \<open>Exactness\<close>

lemma pow2_powi: "pow2 e = 2 powi e"
  by (simp add: pow2_def power_int_def inverse_eq_divide power_one_over)

lemma pow2_add: "pow2 (a + b) = pow2 a * pow2 b"
  by (simp add: pow2_powi power_int_add)

lemma pow2_pos [simp]: "0 < pow2 e"
  by (simp add: pow2_def)

lemma pow2_diff: "pow2 (a - b) = pow2 a / pow2 b"
  by (simp add: pow2_powi power_int_diff)

lemma bitLen_nonneg: "0 \<le> bitLen n"
  by (induction n rule: bitLen.induct) (subst bitLen.simps, simp)

lemma bitLen_bounds: "0 < n \<Longrightarrow> pow2 (bitLen n - 1) \<le> of_int n \<and> of_int n < pow2 (bitLen n)"
proof (induction n rule: bitLen.induct)
  case (1 n)
  have b: "bitLen n = 1 + bitLen (n div 2)" using 1 by (subst bitLen.simps) simp
  show ?case
  proof (cases "n = 1")
    case True
    moreover have "bitLen 1 = 1" by (simp add: bitLen.simps)
    ultimately show ?thesis by (simp add: pow2_def)
  next
    case False
    with 1 have "pow2 (bitLen (n div 2) - 1) \<le> of_int (n div 2)" "of_int (n div 2) < pow2 (bitLen (n div 2))" by auto
    moreover have "(of_int (2 * (n div 2)) :: rat) \<le> of_int n" "(of_int n :: rat) \<le> of_int (2 * (n div 2) + 1)"
      by (simp_all only: of_int_le_iff)
    then have h: "2 * (of_int (n div 2) :: rat) \<le> of_int n" "(of_int n :: rat) \<le> 2 * of_int (n div 2) + 1"
      by simp_all
    have up: "pow2 (bitLen n) = 2 * pow2 (bitLen (n div 2))" "pow2 (bitLen n - 1) = 2 * pow2 (bitLen (n div 2) - 1)"
      using b pow2_add [of 1 "bitLen (n div 2)"] pow2_add [of 1 "bitLen (n div 2) - 1"] by (simp_all add: pow2_def [of 1])
    have "bitLen (n div 2) \<ge> 1"
      using 1 False by (subst bitLen.simps) (use bitLen_nonneg in \<open>auto simp: add_increasing2\<close>)
    then obtain k where "pow2 (bitLen (n div 2)) = of_int (2 ^ k)"
      by (auto simp: pow2_def)
    with calculation(2) have "of_int (n div 2) + 1 \<le> pow2 (bitLen (n div 2))"
      by (metis of_int_less_iff of_int_le_iff of_int_add of_int_1 zless_imp_add1_zle)
    with calculation(1) h up show ?thesis by linarith
  qed
qed

lemma scaleExp_bounds:
  assumes "0 < x"
  shows "2 ^ 52 \<le> x / pow2 (scaleExp x) \<and> x / pow2 (scaleExp x) < 2 ^ 53"
proof -
  obtain p q where pq: "quotient_of x = (p, q)" by force
  then have q: "0 < q" and x: "x = of_int p / of_int q"
    using quotient_of_denom_pos quotient_of_div by auto
  with assms have p: "0 < p" by (simp add: zero_less_divide_iff)
  let ?e = "bitLen p - bitLen q - 53"
  have "pow2 (bitLen p - 1) / pow2 (bitLen q) < x" "x < pow2 (bitLen p) / pow2 (bitLen q - 1)"
    using bitLen_bounds [OF p] bitLen_bounds [OF q] p q unfolding x
    by (auto intro: frac_less2 frac_less less_imp_le)
  then have "pow2 52 < x / pow2 ?e" "x / pow2 ?e < pow2 54"
    by (simp_all add: pow2_diff pow2_add pow2_def [of 1] pow2_def [of 52] pow2_def [of 53] pow2_def [of 54] field_simps)
  then have b: "2 ^ 52 < x / pow2 ?e" "x / pow2 ?e < 2 ^ 54" by (simp_all add: pow2_def)
  have s: "scaleExp x = (if x / pow2 ?e \<ge> 2 ^ 53 then ?e + 1 else ?e)"
    using b by (simp add: scaleExp_def pq Let_def)
  have "x / pow2 (?e + 1) = x / pow2 ?e / 2" using pow2_add [of ?e 1] by (simp add: pow2_def [of 1])
  with b s show ?thesis by auto
qed

lemma overflows_large:
  assumes "overflows x"
  shows "2 ^ 152 \<le> x"
proof -
  from assms have x: "0 < x" and e: "971 < scaleExp x" by (simp_all add: overflows_def)
  have "(2 :: rat) ^ 152 = 2 ^ 52 * 2 ^ 100" by (simp flip: power_add)
  also have "\<dots> \<le> 2 ^ 52 * 2 ^ nat (scaleExp x)" using e by (intro mult_left_mono power_increasing) auto
  also have "\<dots> = 2 ^ 52 * pow2 (scaleExp x)" using e by (simp add: pow2_def)
  also have "\<dots> \<le> x" using scaleExp_bounds [OF x] by (simp add: pos_le_divide_eq)
  finally show ?thesis .
qed

lemma roundEven_int [simp]: "roundEven (of_int k) = k"
  by (simp add: roundEven_def)

text \<open>A value with an integral significand of at most 53 bits is not rounded.\<close>

lemma rnd64_exact:
  assumes "0 < k" "k < 2 ^ 53"
  shows "rnd64 (of_int k * pow2 f) = of_int k * pow2 f"
proof -
  let ?x = "of_int k * pow2 f" let ?e = "scaleExp ?x"
  have pos: "0 < ?x" using assms by simp
  have eq: "?x / pow2 ?e = of_int k * pow2 (f - ?e)" by (simp add: pow2_diff)
  have "2 ^ 52 \<le> of_int k * pow2 (f - ?e)" using scaleExp_bounds [OF pos] eq by simp
  moreover have "(of_int k :: rat) < 2 ^ 53" using assms(2) by (metis of_int_less_iff of_int_numeral of_int_power)
  moreover have "pow2 (f - ?e) \<le> 1 / 2" if "f - ?e < 0"
  proof -
    have "pow2 (f - ?e) = 1 / 2 ^ nat (?e - f)" using that by (simp add: pow2_def)
    also have "\<dots> \<le> 1 / 2 ^ 1" using that by (intro divide_left_mono power_increasing) auto
    finally show ?thesis by simp
  qed
  ultimately have "0 \<le> f - ?e"
  proof (cases "f - ?e < 0")
    case True
    have "of_int k * pow2 (f - ?e) \<le> of_int k * (1 / 2)"
      using \<open>f - ?e < 0 \<Longrightarrow> pow2 (f - ?e) \<le> 1 / 2\<close> [OF True] assms(1) by (intro mult_left_mono) auto
    then show ?thesis using \<open>2 ^ 52 \<le> of_int k * pow2 (f - ?e)\<close> \<open>(of_int k :: rat) < 2 ^ 53\<close> by simp
  qed simp
  then have "?x / pow2 ?e = of_int (k * 2 ^ nat (f - ?e))"
    unfolding eq by (simp add: pow2_def [of "f - ?e"])
  then have "roundEven (?x / pow2 ?e) = k * 2 ^ nat (f - ?e)" by (simp only: roundEven_int)
  moreover have "of_int (k * 2 ^ nat (f - ?e)) * pow2 ?e = ?x"
    using \<open>?x / pow2 ?e = of_int (k * 2 ^ nat (f - ?e))\<close> by (metis nonzero_divide_eq_eq pow2_pos order_less_irrefl)
  ultimately show ?thesis using pos by (simp add: rnd64_def Let_def not_le)
qed

lemma rnd64_pow2 [simp]: "rnd64 (pow2 f) = pow2 f"
  using rnd64_exact [of 1 f] by simp

section \<open>Powers of two\<close>

lemma pow2_half: "1 / 2 = pow2 (- 1)"
  by (simp add: pow2_def)

text \<open>Starting from a power of two the loop computes an exact power of two.\<close>

lemma powLoop_half:
  "1 \<le> xe - 1 \<Longrightarrow> (xe - 1) * int i \<le> 4095 \<Longrightarrow>
   \<exists>j ae'. powLoop i (1 / 2) xe (pow2 a) ae = (pow2 j, ae') \<and> j + ae' = a + ae + (xe - 1) * int i"
proof (induction i arbitrary: xe a ae rule: less_induct)
  case (less i)
  show ?case
  proof (cases "i = 0")
    case True
    then show ?thesis by (subst powLoop.simps) simp
  next
    case False
    have "(xe - 1) * 1 \<le> (xe - 1) * int i" using less.prems False by (intro mult_left_mono) auto
    then have "xe - 1 \<le> 4095" using order_trans [OF _ less.prems(2)] by simp
    then have xe: "\<not> (xe < - 4096 \<or> 4096 < xe)" using less.prems(1) by auto
    have sq: "fmul (1 / 2) (1 / 2) = 1 / 4"
      using rnd64_pow2 [of "- 2"] by (simp add: fmul_def pow2_def)
    have fm: "fmul (pow2 a) (1 / 2) = pow2 (a - 1)"
      using rnd64_pow2 [of "a - 1"] by (simp add: fmul_def pow2_diff pow2_def [of 1])
    let ?a = "if odd i then a - 1 else a" let ?ae = "if odd i then ae + xe else ae"
    have step: "powLoop i (1 / 2) xe (pow2 a) ae = powLoop (i div 2) (1 / 2) (2 * xe - 1) (pow2 ?a) ?ae"
      using False xe by (subst powLoop.simps) (simp add: sq fm)
    have half: "2 * int (i div 2) \<le> int i" by linarith
    have "(2 * xe - 1 - 1) * int (i div 2) = (xe - 1) * (2 * int (i div 2))" by (simp add: algebra_simps)
    also have "\<dots> \<le> (xe - 1) * int i" using less.prems half by (intro mult_left_mono) auto
    finally have b: "(2 * xe - 1 - 1) * int (i div 2) \<le> 4095" using less.prems by linarith
    obtain j ae' where r: "powLoop (i div 2) (1 / 2) (2 * xe - 1) (pow2 ?a) ?ae = (pow2 j, ae')"
      "j + ae' = ?a + ?ae + (2 * xe - 1 - 1) * int (i div 2)"
      using less.IH [of "i div 2" "2 * xe - 1" ?a ?ae] False b less.prems by auto
    have "int i = 2 * int (i div 2) + (if odd i then 1 else 0)" by (simp add: zdiv_int odd_iff_mod_2_eq_one) presburger
    then have "?a + ?ae + (2 * xe - 1 - 1) * int (i div 2) = a + ae + (xe - 1) * int i"
      by (auto simp: algebra_simps split: if_splits)
    with r step show ?thesis by auto
  qed
qed

lemma mathPow_two:
  assumes "n \<le> 40"
  shows "mathPow 2 n = Some (2 ^ n)"
proof (cases "n \<le> 1")
  case True
  then have "n = 0 \<or> n = 1" by linarith
  then show ?thesis by (auto simp: mathPow_def)
next
  case False
  have "scaleExp 2 = - 51" by code_simp
  then have fr: "frexp 2 = (1 / 2, 2)" by (simp add: frexp_def pow2_def)
  obtain j ae where p: "powLoop n (1 / 2) 2 (pow2 0) 0 = (pow2 j, ae)" "j + ae = int n"
    using powLoop_half [of 2 n 0 0] assms by auto
  then have v: "pow2 j * pow2 ae = 2 ^ n" by (metis pow2_add pow2_def nat_int of_nat_0_le_iff)
  have "(2::rat) ^ n < 2 ^ 152" using assms by (intro power_strict_increasing) auto
  then have small: "\<not> overflows (2 ^ n)" using overflows_large [of "2 ^ n"] by auto
  show ?thesis
    using False p v small by (simp add: mathPow_def fr ldexp_def pow2_def [of 0])
qed

end
