(* ===== verification/Dlq_Retry.thy ===== *)
theory Dlq_Retry
  imports Ingest Float64
begin

text \<open>
  internal/activityprocessor/dlq_retry.go: the dead-letter retry controller. A fetched message is
  a dead letter or bytes that do not decode to one; the clock readings and the result of each
  fetch come from the caller, publishing goes through the broker of Dead_Letter. Counters of
  metrics are not modelled, the three results of a batch are. Retry counts are never negative.
\<close>

section \<open>Configuration\<close>

record DLQRetryConfig =
  rcEnabled :: bool
  rcInterval :: int
  rcBatchSize :: int
  rcBackoffBase :: int
  rcBackoffMultiplier :: rat
  rcBackoffMax :: int
  rcAlertThreshold :: int
  rcAuditRetrySubject :: string
  rcEventRetrySubject :: string

definition DefaultDLQRetryConfig :: DLQRetryConfig where
  "DefaultDLQRetryConfig =
     \<lparr>rcEnabled = True, rcInterval = 5 * minute, rcBatchSize = 100, rcBackoffBase = 1 * minute,
      rcBackoffMultiplier = 2, rcBackoffMax = 24 * hour, rcAlertThreshold = 10,
      rcAuditRetrySubject = ''audit.k8s.retry'', rcEventRetrySubject = ''events.retry''\<rparr>"

definition maxPeriodicRunDuration :: int where "maxPeriodicRunDuration = 2 * minute"
definition maxPolicyRunDuration :: int where "maxPolicyRunDuration = 30 * second"
definition policySkipRedeliveryDelay :: int where "policySkipRedeliveryDelay = maxPolicyRunDuration + 5 * second"

text \<open>
  The controller: its configuration, the optional evaluator and policy generation reader, stream
  names, and what it takes from outside: the broker, the bytes of a payload and the local
  rendering of a time.
\<close>

record DLQRetryController =
  ctlConfig :: DLQRetryConfig
  ctlEvaluator :: "(DeadLetterEvent \<Rightarrow> RetryOutcome) option"
  ctlGeneration :: "(string \<Rightarrow> int) option"
  ctlAuditStream :: string
  ctlEventStream :: string
  ctlDlqPrefix :: string
  ctlNats :: nats_oracle
  ctlBytes :: "json_text \<Rightarrow> string"
  ctlFormatTime :: "instant \<Rightarrow> string"

record retryFilter =
  rfAPIGroup :: string
  rfKind :: string
  rfPolicyName :: string
  rfMaxPolicyVersion :: int

section \<open>Operations\<close>

definition extractResourceInfo :: "DeadLetterEvent \<Rightarrow> string \<times> string" where
  "extractResourceInfo event =
     (case dleResource event of
        None \<Rightarrow> (''unknown'', ''unknown'')
      | Some r \<Rightarrow> (if dlrAPIGroup r \<noteq> '''' then dlrAPIGroup r else ''core'', if dlrKind r \<noteq> '''' then dlrKind r else ''unknown''))"

definition computePayloadHash :: "string \<Rightarrow> string" where
  "computePayloadHash payload = hexEncode (take 4 (sha256 payload))"

definition calculateBackoff :: "DLQRetryConfig \<Rightarrow> int \<Rightarrow> int" where
  "calculateBackoff cfg retryCount =
     (if retryCount > 40 then rcBackoffMax cfg
      else (let multiplier = mathPow (rcBackoffMultiplier cfg) (nat retryCount);
                backoff = durationOfFloat (fmulInf (rnd64 (of_int (rcBackoffBase cfg))) multiplier)
            in if backoff > rcBackoffMax cfg \<or> backoff < 0 then rcBackoffMax cfg else backoff))"

definition isEligibleForRetry :: "DLQRetryController \<Rightarrow> DeadLetterEvent \<Rightarrow> instant \<Rightarrow> bool" where
  "isEligibleForRetry c event now =
     ((case ctlGeneration c of Some g \<Rightarrow> g (dlePolicyName event) > dlePolicyVersion event | None \<Rightarrow> False)
      \<or> (case dleNextRetryAfter event of None \<Rightarrow> True | Some t \<Rightarrow> now > t))"

definition republishEvent :: "DLQRetryController \<Rightarrow> DeadLetterEvent \<Rightarrow> world \<Rightarrow> string option \<times> world" where
  "republishEvent c event w =
     (case (if dleType event = EventTypeAudit then Some (ctlAuditStream c, rcAuditRetrySubject (ctlConfig c))
            else if dleType event = EventTypeK8sEvent then Some (ctlEventStream c, rcEventRetrySubject (ctlConfig c))
            else None) of
        None \<Rightarrow> (Some (''unknown event type: '' @ dleType event), w)
      | Some (targetStream, subject) \<Rightarrow>
          (let msgID = ''dlq-retry-'' @ joinStr ''-'' [dleType event, dlePolicyName event,
                 computePayloadHash (ctlBytes c (dleOriginalPayload event)), ctlFormatTime c (dleTimestamp event)]
           in case jsPublish (ctlNats c) (PubOriginal targetStream subject msgID (dleOriginalPayload event)) w of
                (Some err, w') \<Rightarrow> (Some (''failed to publish to '' @ targetStream @ '': '' @ err), w')
              | (None, w') \<Rightarrow> (None, w')))"

text \<open>The updated event; the source updates it in place before it publishes.\<close>

definition updateMetadata :: "DLQRetryController \<Rightarrow> DeadLetterEvent \<Rightarrow> instant \<Rightarrow> DeadLetterEvent" where
  "updateMetadata c event now =
     (let n = dleRetryCount event + 1
      in event\<lparr>dleRetryCount := n, dleLastRetryAt := Some now,
               dleNextRetryAfter := Some (now + calculateBackoff (ctlConfig c) n)\<rparr>)"

definition updateAndRepublishMetadata ::
  "DLQRetryController \<Rightarrow> DeadLetterEvent \<Rightarrow> instant \<Rightarrow> world \<Rightarrow> string option \<times> world" where
  "updateAndRepublishMetadata c event now w =
     (let event' = updateMetadata c event now
      in case marshalDeadLetter event' of
           Some err \<Rightarrow> (Some (''failed to marshal updated DLQ event: '' @ err), w)
         | None \<Rightarrow>
             (let (apiGroup, kind) = extractResourceInfo event';
                  subject = joinStr ''.'' [ctlDlqPrefix c, dleType event', apiGroup, kind];
                  msgID = ''dlq-'' @ joinStr ''-'' [dleType event', dlePolicyName event',
                    computePayloadHash (ctlBytes c (dleOriginalPayload event')), ctlFormatTime c (dleTimestamp event'),
                    fmtInt (dleRetryCount event')]
              in case jsPublish (ctlNats c) (PubDeadLetter subject (Some msgID) event') w of
                   (Some err, w') \<Rightarrow> (Some (''failed to republish updated DLQ event: '' @ err), w')
                 | (None, w') \<Rightarrow> (None, w')))"

section \<open>One message\<close>

datatype retry_disposition = RAck | RNak | RNakDelay int

datatype retry_count = Skipped | Failed | Succeeded

text \<open>A skip of the scan, with the delay it asks for.\<close>

definition filterSkips :: "retryFilter \<Rightarrow> DeadLetterEvent \<Rightarrow> bool" where
  "filterSkips f event =
     ((rfPolicyName f \<noteq> '''' \<and> dlePolicyName event \<noteq> rfPolicyName f)
      \<or> (rfMaxPolicyVersion f > 0 \<and> dlePolicyVersion event \<ge> rfMaxPolicyVersion f))"

definition deferDelay :: "DLQRetryConfig \<Rightarrow> DeadLetterEvent \<Rightarrow> instant \<Rightarrow> int" where
  "deferDelay cfg event later =
     (let delay = (case dleNextRetryAfter event of
                     Some t \<Rightarrow> if t - later > 0 then t - later else rcBackoffBase cfg
                   | None \<Rightarrow> rcBackoffBase cfg)
      in if delay > rcInterval cfg then rcInterval cfg else delay)"

definition skipDelay :: "DLQRetryController \<Rightarrow> retryFilter option \<Rightarrow> instant \<Rightarrow> instant \<Rightarrow> DeadLetterEvent \<Rightarrow> int option" where
  "skipDelay c flt now later event =
     (case flt of
        Some f \<Rightarrow> if filterSkips f event then Some policySkipRedeliveryDelay else None
      | None \<Rightarrow> if isEligibleForRetry c event now then None else Some (deferDelay (ctlConfig c) event later))"

text \<open>The version recorded for an attempt.\<close>

definition recordVersion :: "DLQRetryController \<Rightarrow> DeadLetterEvent \<Rightarrow> DeadLetterEvent" where
  "recordVersion c event =
     (case ctlGeneration c of
        Some g \<Rightarrow> if g (dlePolicyName event) > dlePolicyVersion event then event\<lparr>dlePolicyVersion := g (dlePolicyName event)\<rparr> else event
      | None \<Rightarrow> event)"

text \<open>\<open>handleReEvaluationFailure\<close>, and the same tail after a failed republish.\<close>

definition handleReEvaluationFailure ::
  "DLQRetryController \<Rightarrow> DeadLetterEvent \<Rightarrow> instant \<Rightarrow> world \<Rightarrow> retry_disposition \<times> world" where
  "handleReEvaluationFailure c event now w =
     (case updateAndRepublishMetadata c event now w of
        (Some _, w') \<Rightarrow> (RNak, w')
      | (None, w') \<Rightarrow> (RAck, w'))"

definition evaluatorRejects :: "DLQRetryController \<Rightarrow> DeadLetterEvent \<Rightarrow> bool" where
  "evaluatorRejects c event =
     (case ctlEvaluator c of Some ev \<Rightarrow> dleType event = EventTypeAudit \<and> \<not> roResolved (ev event) | None \<Rightarrow> False)"

text \<open>\<open>None\<close> as the message: data that does not decode. \<open>later\<close> is the clock read by \<open>time.Until\<close>.\<close>

definition retryOne ::
  "DLQRetryController \<Rightarrow> retryFilter option \<Rightarrow> instant \<Rightarrow> instant \<Rightarrow> DeadLetterEvent option \<Rightarrow> world \<Rightarrow>
   retry_disposition \<times> retry_count \<times> world" where
  "retryOne c flt now later msg w =
     (case msg of
        None \<Rightarrow> (RAck, Failed, w)
      | Some event0 \<Rightarrow>
          (case skipDelay c flt now later event0 of
             Some d \<Rightarrow> (RNakDelay d, Skipped, w)
           | None \<Rightarrow>
               (let event = recordVersion c event0
                in if evaluatorRejects c event
                   then (let (d, w') = handleReEvaluationFailure c event now w in (d, Failed, w'))
                   else (case republishEvent c event w of
                           (Some _, w1) \<Rightarrow> (let (d, w') = handleReEvaluationFailure c event now w1 in (d, Failed, w'))
                         | (None, w1) \<Rightarrow> (RAck, Succeeded, w1)))))"

section \<open>Batches and runs\<close>

text \<open>A fetch: binding or fetching failed, or the messages, each with the clock reading of its turn.\<close>

datatype retry_fetch = FetchFailed | Fetched "(DeadLetterEvent option \<times> instant) list"

fun retryMessages ::
  "DLQRetryController \<Rightarrow> retryFilter option \<Rightarrow> instant \<Rightarrow> (DeadLetterEvent option \<times> instant) list \<Rightarrow> world \<Rightarrow>
   (retry_disposition \<times> retry_count) list \<times> world" where
  "retryMessages c flt now [] w = ([], w)"
| "retryMessages c flt now ((msg, later) # ms) w =
     (let (d, k, w1) = retryOne c flt now later msg w;
          (rs, w2) = retryMessages c flt now ms w1
      in ((d, k) # rs, w2))"

definition countOf :: "retry_count \<Rightarrow> (retry_disposition \<times> retry_count) list \<Rightarrow> nat" where
  "countOf k rs = length (filter (\<lambda>r. snd r = k) rs)"

definition processRetryBatch ::
  "DLQRetryController \<Rightarrow> retryFilter option \<Rightarrow> instant \<Rightarrow> retry_fetch \<Rightarrow> world \<Rightarrow> (nat \<times> nat \<times> nat) \<times> world" where
  "processRetryBatch c flt now fetch w =
     (case fetch of
        FetchFailed \<Rightarrow> ((0, 0, 0), w)
      | Fetched ms \<Rightarrow>
          (let (rs, w') = retryMessages c flt now ms w
           in ((length rs, countOf Succeeded rs, countOf Failed rs), w')))"

text \<open>One turn of a drain loop: cancelled, clock, and what the fetch of the turn returns.\<close>

record retry_turn =
  rtCancelled :: bool
  rtNow :: instant
  rtFetch :: retry_fetch

text \<open>
  The loop shared by \<open>periodicRetry\<close> and \<open>RetryForPolicy\<close>, over the turns the environment
  offers: the totals, whether the loop ended, and the world.
\<close>

fun drainLoop ::
  "DLQRetryController \<Rightarrow> retryFilter option \<Rightarrow> instant \<Rightarrow> retry_turn list \<Rightarrow> nat \<times> nat \<times> nat \<Rightarrow> world \<Rightarrow>
   (nat \<times> nat \<times> nat) \<times> bool \<times> world" where
  "drainLoop c flt deadline [] tot w = (tot, False, w)"
| "drainLoop c flt deadline (t # ts) (tp, tsu, tf) w =
     (if rtCancelled t \<or> rtNow t > deadline then ((tp, tsu, tf), True, w)
      else (let ((p, s, f), w') = processRetryBatch c flt (rtNow t) (rtFetch t) w
            in if p = 0 then ((tp + p, tsu + s, tf + f), True, w')
               else drainLoop c flt deadline ts (tp + p, tsu + s, tf + f) w'))"

definition periodicRetry ::
  "DLQRetryController \<Rightarrow> instant \<Rightarrow> retry_turn list \<Rightarrow> world \<Rightarrow> (nat \<times> nat \<times> nat) \<times> bool \<times> world" where
  "periodicRetry c start turns w =
     (let runDuration = (if rcInterval (ctlConfig c) < maxPeriodicRunDuration then rcInterval (ctlConfig c) else maxPeriodicRunDuration)
      in drainLoop c None (start + runDuration) turns (0, 0, 0) w)"

definition policyFilter :: "ActivityPolicy \<Rightarrow> retryFilter" where
  "policyFilter policy =
     \<lparr>rfAPIGroup = (let g = prAPIGroup (psResource (polSpec policy)) in if g = '''' then ''core'' else g),
      rfKind = prKind (psResource (polSpec policy)), rfPolicyName = polName policy, rfMaxPolicyVersion = polGeneration policy\<rparr>"

text \<open>\<open>active\<close> is the set of policies with a retry in progress; \<open>None\<close> when the call returns at once.\<close>

definition RetryForPolicy ::
  "DLQRetryController \<Rightarrow> string set \<Rightarrow> ActivityPolicy option \<Rightarrow> instant \<Rightarrow> retry_turn list \<Rightarrow> world \<Rightarrow>
   ((nat \<times> nat \<times> nat) \<times> bool \<times> world) option" where
  "RetryForPolicy c activeRetries po start turns w =
     (case po of
        None \<Rightarrow> None
      | Some policy \<Rightarrow>
          if \<not> rcEnabled (ctlConfig c) then None
          else if polName policy \<in> activeRetries then None
          else Some (drainLoop c (Some (policyFilter policy)) (start + maxPolicyRunDuration) turns (0, 0, 0) w))"

section \<open>Lemmas\<close>

lemma recordVersion_keeps:
  "dleOriginalPayload (recordVersion c e) = dleOriginalPayload e" "dleType (recordVersion c e) = dleType e"
  "dlePolicyName (recordVersion c e) = dlePolicyName e" "dleRetryCount (recordVersion c e) = dleRetryCount e"
  "dlePolicyVersion e \<le> dlePolicyVersion (recordVersion c e)"
  by (auto simp: recordVersion_def split: option.splits)

lemma recordVersion_current:
  "ctlGeneration c = Some g \<Longrightarrow> g (dlePolicyName e) \<le> dlePolicyVersion (recordVersion c e)"
  by (simp add: recordVersion_def)

lemma updateMetadata_keeps [simp]:
  "dleOriginalPayload (updateMetadata c e now) = dleOriginalPayload e" "dleType (updateMetadata c e now) = dleType e"
  "dlePolicyName (updateMetadata c e now) = dlePolicyName e" "dlePolicyVersion (updateMetadata c e now) = dlePolicyVersion e"
  "dleRetryCount (updateMetadata c e now) = dleRetryCount e + 1" "dleTimestamp (updateMetadata c e now) = dleTimestamp e"
  "dleNextRetryAfter (updateMetadata c e now) = Some (now + calculateBackoff (ctlConfig c) (dleRetryCount e + 1))"
  by (simp_all add: updateMetadata_def Let_def)

text \<open>
  What a retry may publish for a message. Its payload goes back to the stream its type came from, on
  that stream's retry subject, under an id that names the type, the policy, the payload's hash and the
  time but not the number of retries.
\<close>

definition isOriginalOf :: "DLQRetryController \<Rightarrow> DeadLetterEvent \<Rightarrow> publication \<Rightarrow> bool" where
  "isOriginalOf c e pub =
     (case pub of
        PubOriginal stream subject msgID payload \<Rightarrow>
          payload = dleOriginalPayload e
          \<and> (dleType e = ''audit'' \<and> stream = ctlAuditStream c \<and> subject = rcAuditRetrySubject (ctlConfig c)
             \<or> dleType e = ''k8s-event'' \<and> stream = ctlEventStream c \<and> subject = rcEventRetrySubject (ctlConfig c))
          \<and> msgID = ''dlq-retry-'' @ dleType e @ ''-'' @ dlePolicyName e @ ''-''
              @ computePayloadHash (ctlBytes c (dleOriginalPayload e)) @ ''-'' @ ctlFormatTime c (dleTimestamp e)
      | _ \<Rightarrow> False)"

text \<open>
  The updated dead letter is the old one, with one more retry, the version that was tried, the time of
  the attempt and the time of the next; it goes to the dead-letter subject of its type, group and kind,
  under an id that does name the number of retries.
\<close>

definition isUpdateOf :: "DLQRetryController \<Rightarrow> instant \<Rightarrow> DeadLetterEvent \<Rightarrow> publication \<Rightarrow> bool" where
  "isUpdateOf c now e pub =
     (case pub of
        PubDeadLetter subject msgID e' \<Rightarrow>
          e' = e\<lparr>dlePolicyVersion := (case ctlGeneration c of Some g \<Rightarrow> max (g (dlePolicyName e)) (dlePolicyVersion e) | None \<Rightarrow> dlePolicyVersion e),
                 dleRetryCount := dleRetryCount e + 1, dleLastRetryAt := Some now,
                 dleNextRetryAfter := Some (now + calculateBackoff (ctlConfig c) (dleRetryCount e + 1))\<rparr>
          \<and> subject = ctlDlqPrefix c @ ''.'' @ dleType e
              @ (case dleResource e of
                   None \<Rightarrow> ''.unknown.unknown''
                 | Some r \<Rightarrow> ''.'' @ (if dlrAPIGroup r = '''' then ''core'' else dlrAPIGroup r)
                     @ ''.'' @ (if dlrKind r = '''' then ''unknown'' else dlrKind r))
          \<and> msgID = Some (''dlq-'' @ dleType e @ ''-'' @ dlePolicyName e @ ''-'' @ computePayloadHash (ctlBytes c (dleOriginalPayload e))
              @ ''-'' @ ctlFormatTime c (dleTimestamp e) @ ''-'' @ fmtInt (dleRetryCount e + 1))
      | _ \<Rightarrow> False)"

lemma recordVersion_timestamp: "dleTimestamp (recordVersion c e) = dleTimestamp e" "dleResource (recordVersion c e) = dleResource e"
  by (auto simp: recordVersion_def split: option.splits)

lemma republishEvent_log:
  assumes "republishEvent c (recordVersion c e) w = (r, w')"
  shows "\<exists>pubs. wLog w' = wLog w @ pubs \<and> (\<forall>p \<in> set pubs. isOriginalOf c e p) \<and> length pubs \<le> 1 \<and> (r = None \<longrightarrow> pubs \<noteq> [])"
proof (cases "dleType e = EventTypeAudit \<or> dleType e = EventTypeK8sEvent")
  case False
  with assms show ?thesis by (auto simp: republishEvent_def recordVersion_keeps)
next
  case True
  then obtain t s i r1 where "jsPublish (ctlNats c) (PubOriginal t s i (dleOriginalPayload e)) w = (r1, w')" "r = None \<longrightarrow> r1 = None"
    "isOriginalOf c e (PubOriginal t s i (dleOriginalPayload e))"
    using assms by (auto simp: republishEvent_def recordVersion_keeps recordVersion_timestamp isOriginalOf_def EventTypeAudit_def
        EventTypeK8sEvent_def Let_def split: prod.splits option.splits if_splits)
  from jsPublish_cases [OF this(1)] this(2,3) show ?thesis by auto
qed

lemma updated_letter:
  "updateMetadata c (recordVersion c e) now = e\<lparr>dlePolicyVersion := (case ctlGeneration c of Some g \<Rightarrow> max (g (dlePolicyName e)) (dlePolicyVersion e)
       | None \<Rightarrow> dlePolicyVersion e), dleRetryCount := dleRetryCount e + 1, dleLastRetryAt := Some now,
     dleNextRetryAfter := Some (now + calculateBackoff (ctlConfig c) (dleRetryCount e + 1))\<rparr>"
  by (simp add: updateMetadata_def recordVersion_def Let_def max_def split: option.split)

lemma updateAndRepublish_publishes:
  fixes c e now
  defines "e' \<equiv> updateMetadata c (recordVersion c e) now"
  assumes "marshalDeadLetter e' = None"
  obtains s i where "isUpdateOf c now e (PubDeadLetter s i e')"
    "\<And>w. updateAndRepublishMetadata c (recordVersion c e) now w =
       (case jsPublish (ctlNats c) (PubDeadLetter s i e') w of
          (Some err, w') \<Rightarrow> (Some (''failed to republish updated DLQ event: '' @ err), w')
        | (None, w') \<Rightarrow> (None, w'))"
proof -
  obtain g k where gk: "extractResourceInfo e' = (g, k)" by force
  show thesis
  proof (rule that)
    show "isUpdateOf c now e (PubDeadLetter (joinStr ''.'' [ctlDlqPrefix c, dleType e', g, k])
        (Some (''dlq-'' @ joinStr ''-'' [dleType e', dlePolicyName e', computePayloadHash (ctlBytes c (dleOriginalPayload e')),
           ctlFormatTime c (dleTimestamp e'), fmtInt (dleRetryCount e')])) e')"
      using gk by (auto simp: isUpdateOf_def e'_def updated_letter extractResourceInfo_def split: option.splits)
  qed (simp add: updateAndRepublishMetadata_def assms(2) gk Let_def flip: e'_def)
qed

lemma handleReEvaluationFailure_log:
  assumes "handleReEvaluationFailure c (recordVersion c e) now w = (d, w')"
  shows "\<exists>pubs. wLog w' = wLog w @ pubs \<and> (\<forall>p \<in> set pubs. isUpdateOf c now e p) \<and> length pubs \<le> 1
    \<and> (d = RAck \<longrightarrow> pubs \<noteq> []) \<and> d \<in> {RAck, RNak}"
proof (cases "marshalDeadLetter (updateMetadata c (recordVersion c e) now)")
  case (Some err)
  with assms show ?thesis by (auto simp: handleReEvaluationFailure_def updateAndRepublishMetadata_def)
next
  case None
  then obtain s i r1 where "isUpdateOf c now e (PubDeadLetter s i (updateMetadata c (recordVersion c e) now))"
    "jsPublish (ctlNats c) (PubDeadLetter s i (updateMetadata c (recordVersion c e) now)) w = (r1, w')" "d = (if r1 = None then RAck else RNak)"
    using assms by (elim updateAndRepublish_publishes) (auto simp: handleReEvaluationFailure_def split: prod.splits option.splits)
  from jsPublish_cases [OF this(2)] this(1,3) show ?thesis by (auto split: if_splits)
qed

text \<open>The account of one message: what was published for it, how it was answered, how it was counted.\<close>

definition retryAccount ::
  "DLQRetryController \<Rightarrow> instant \<Rightarrow> DeadLetterEvent option \<times> instant \<Rightarrow> retry_disposition \<times> retry_count \<Rightarrow> publication list \<Rightarrow> bool" where
  "retryAccount c now m r pubs =
     (case m of
        (None, _) \<Rightarrow> pubs = [] \<and> r = (RAck, Failed)
      | (Some e, _) \<Rightarrow>
          (\<forall>p \<in> set pubs. isOriginalOf c e p \<or> isUpdateOf c now e p)
          \<and> (case snd r of
               Skipped \<Rightarrow> pubs = [] \<and> (\<exists>d. fst r = RNakDelay d)
             | Succeeded \<Rightarrow> fst r = RAck \<and> \<not> evaluatorRejects c (recordVersion c e) \<and> (\<exists>p. pubs = [p] \<and> isOriginalOf c e p)
             | Failed \<Rightarrow> (fst r = RAck \<and> (\<exists>p \<in> set pubs. isUpdateOf c now e p)) \<or> fst r = RNak))"

lemma retryOne_account:
  assumes "retryOne c flt now later msg w = (d, k, w')"
  shows "\<exists>pubs. wLog w' = wLog w @ pubs \<and> retryAccount c now (msg, later) (d, k) pubs"
proof (cases msg)
  case None
  with assms show ?thesis by (simp add: retryOne_def retryAccount_def)
next
  case (Some e)
  show ?thesis
  proof (cases "skipDelay c flt now later e")
    case (Some x)
    with assms \<open>msg = Some e\<close> show ?thesis by (auto simp: retryOne_def retryAccount_def)
  next
    case go: None
    obtain r1 w1 where rep: "republishEvent c (recordVersion c e) w = (r1, w1)" by force
    show ?thesis
    proof (cases "evaluatorRejects c (recordVersion c e)")
      case True
      with assms Some go have "handleReEvaluationFailure c (recordVersion c e) now w = (d, w')" "k = Failed"
        by (auto simp: retryOne_def Let_def split: prod.splits)
      with handleReEvaluationFailure_log [OF this(1)] Some show ?thesis by (fastforce simp: retryAccount_def neq_Nil_conv)
    next
      case False
      show ?thesis
      proof (cases r1)
        case None
        with assms Some go False rep have "d = RAck" "k = Succeeded" "w' = w1" by (auto simp: retryOne_def Let_def)
        moreover obtain p where "wLog w1 = wLog w @ [p]" "isOriginalOf c e p"
          using republishEvent_log [OF rep] None by (auto simp: le_Suc_eq length_Suc_conv)
        ultimately show ?thesis using Some False \<open>msg = Some e\<close> by (simp add: retryAccount_def)
      next
        case (Some err)
        with assms \<open>msg = Some e\<close> go False rep have h: "handleReEvaluationFailure c (recordVersion c e) now w1 = (d, w')" "k = Failed"
          by (auto simp: retryOne_def Let_def split: prod.splits)
        obtain p1 where "wLog w1 = wLog w @ p1" "\<forall>p \<in> set p1. isOriginalOf c e p" using republishEvent_log [OF rep] by blast
        moreover obtain p2 where "wLog w' = wLog w1 @ p2" "\<forall>p \<in> set p2. isUpdateOf c now e p" "d = RAck \<longrightarrow> p2 \<noteq> []" "d \<in> {RAck, RNak}"
          using handleReEvaluationFailure_log [OF h(1)] by blast
        ultimately show ?thesis using \<open>msg = Some e\<close> h(2)
          by (intro exI [of _ "p1 @ p2"]) (cases p2; auto simp: retryAccount_def)
      qed
    qed
  qed
qed

lemma retryMessages_account:
  assumes "retryMessages c flt now ms w = (rs, w')"
  shows "\<exists>pss. wLog w' = wLog w @ concat pss \<and> length rs = length ms \<and>
    list_all2 (\<lambda>(m, r) pubs. retryAccount c now m r pubs) (zip ms rs) pss"
  using assms
proof (induction ms arbitrary: w rs)
  case Nil
  then show ?case by simp
next
  case (Cons m ms)
  obtain msg later where m: "m = (msg, later)" by force
  obtain d k w1 where one: "retryOne c flt now later msg w = (d, k, w1)" by (metis prod_cases3)
  obtain rs' w2 where rest: "retryMessages c flt now ms w1 = (rs', w2)" by force
  from Cons.prems m one rest have eq: "rs = (d, k) # rs'" "w' = w2" by auto
  obtain pubs where "wLog w1 = wLog w @ pubs" "retryAccount c now m (d, k) pubs" using retryOne_account [OF one] m by auto
  moreover obtain pss where "wLog w' = wLog w1 @ concat pss" "length rs' = length ms"
    "list_all2 (\<lambda>(m, r) pubs. retryAccount c now m r pubs) (zip ms rs') pss"
    using Cons.IH [OF rest [folded eq(2)]] by blast
  ultimately show ?case using eq by (intro exI [of _ "pubs # pss"]) auto
qed

lemma calculateBackoff_bounds:
  assumes "0 \<le> rcBackoffMax cfg"
  shows "0 \<le> calculateBackoff cfg n \<and> calculateBackoff cfg n \<le> rcBackoffMax cfg"
  using assms by (auto simp: calculateBackoff_def Let_def)

section \<open>Properties\<close>

text \<open>
  C28: the retry controller never drops a dead letter. Over every batch, the messages the broker
  stores split into one segment per fetched message; a message is acknowledged only when its
  data was unreadable, its original payload passed re-evaluation and was put back on the stream and retry
  subject of its type, or its dead letter, unchanged but for the recorded attempt, was stored under its
  own dead-letter subject. A skipped message is only deferred, and nothing is published for it; a message whose update could not be stored is
  rejected and stays in the queue.\<close>

theorem retry_batch_never_drops:
  assumes "retryMessages c flt now ms w = (rs, w')"
  shows "\<exists>pss. wLog w' = wLog w @ concat pss \<and> length rs = length ms \<and>
    list_all2 (\<lambda>(m, r) pubs. retryAccount c now m r pubs) (zip ms rs) pss"
  using retryMessages_account [OF assms] .

definition exampleController :: DLQRetryController where
  "exampleController = \<lparr>ctlConfig = DefaultDLQRetryConfig, ctlEvaluator = Some (\<lambda>_. resolvedOutcome), ctlGeneration = Some (\<lambda>_. 2),
     ctlAuditStream = ''AUDIT_LOGS'', ctlEventStream = ''EVENTS'', ctlDlqPrefix = ''activity.dlq'', ctlNats = (\<lambda>_. Stored),
     ctlBytes = (\<lambda>_. ''{}''), ctlFormatTime = (\<lambda>_. ''1970-01-01T00:00:00Z'')\<rparr>"

definition exampleLetter :: DeadLetterEvent where
  "exampleLetter = deadLetter EventTypeAudit 0 (undecodable (JValue (VMap [])) ''boom'' None None)"

lemma example_retry:
  "\<exists>w'. retryMessages exampleController None 10 [(Some exampleLetter, 11)] exampleWorld = ([(RAck, Succeeded)], w')"
  by (simp add: retryOne_def exampleController_def exampleLetter_def deadLetter_def undecodable_def skipDelay_def isEligibleForRetry_def
      recordVersion_def evaluatorRejects_def resolvedOutcome_def republishEvent_def jsPublish_def EventTypeAudit_def Let_def)

theorem retry_batch_never_drops_witness:
  "\<exists>pss. wLog (snd (retryMessages exampleController None 10 [(Some exampleLetter, 11)] exampleWorld)) = concat pss \<and>
     list_all2 (\<lambda>(m, r) pubs. retryAccount exampleController 10 m r pubs) [((Some exampleLetter, 11), (RAck, Succeeded))] pss"
proof -
  obtain w' where w': "retryMessages exampleController None 10 [(Some exampleLetter, 11)] exampleWorld = ([(RAck, Succeeded)], w')"
    using example_retry by blast
  show ?thesis using retry_batch_never_drops [OF w'] w' by (auto simp: exampleWorld_def)
qed

text \<open>
  A failed retry is remembered. The dead letter stored after it keeps the payload, type,
  policy and timestamp, counts one more retry, records at least the policy version that was tried, and
  becomes eligible again only after a backoff between zero and the configured maximum: until then a periodic run
  defers it, unless the policy has moved on to a later generation.\<close>

theorem failed_retry_backs_off:
  assumes "0 \<le> rcBackoffMax (ctlConfig c)" and "ctlGeneration c = Some g"
    and "e' = updateMetadata c (recordVersion c e) now"
  shows "dleOriginalPayload e' = dleOriginalPayload e \<and> dleType e' = dleType e \<and> dlePolicyName e' = dlePolicyName e
    \<and> dleRetryCount e' = dleRetryCount e + 1 \<and> g (dlePolicyName e) \<le> dlePolicyVersion e' \<and> dlePolicyVersion e \<le> dlePolicyVersion e'
    \<and> (\<exists>t. dleNextRetryAfter e' = Some t \<and> now \<le> t \<and> t \<le> now + rcBackoffMax (ctlConfig c)
         \<and> (\<forall>later \<le> t. \<not> isEligibleForRetry c e' later) \<and> (\<forall>later > t. isEligibleForRetry c e' later))"
  using calculateBackoff_bounds [OF assms(1), of "dleRetryCount e + 1"] recordVersion_current [OF assms(2), of e]
  by (auto simp: assms recordVersion_keeps isEligibleForRetry_def)

theorem failed_retry_backs_off_witness:
  "\<exists>t. dleNextRetryAfter (updateMetadata exampleController (recordVersion exampleController exampleLetter) 100) = Some t
     \<and> 100 \<le> t \<and> t \<le> 100 + 24 * hour"
proof -
  have c: "0 \<le> rcBackoffMax (ctlConfig exampleController)" "ctlGeneration exampleController = Some (\<lambda>_. 2)"
    "rcBackoffMax (ctlConfig exampleController) = 24 * hour"
    by (simp_all add: exampleController_def DefaultDLQRetryConfig_def duration_defs)
  show ?thesis using failed_retry_backs_off [OF c(1,2) refl, of exampleLetter 100] c(3) by auto
qed

text \<open>
  With the default configuration the backoff is exactly
  \<open>min (1 minute * 2 ^ n) (24 hours)\<close> for every retry count \<open>n\<close>: the float64 computation rounds
  nowhere, and neither its overflow nor the cut-off at 40 retries can be observed.\<close>

theorem default_backoff_exact:
  "calculateBackoff DefaultDLQRetryConfig (int n) = min (minute * 2 ^ n) (24 * hour)"
proof (cases "n \<le> 40")
  case False
  have "(2::int) ^ 41 \<le> 2 ^ n" using False by (intro power_increasing) auto
  then have "24 * hour \<le> minute * 2 ^ n" by (simp add: duration_defs)
  with False show ?thesis by (simp add: calculateBackoff_def DefaultDLQRetryConfig_def)
next
  case True
  have base: "rnd64 (of_int (1 * minute)) = of_int minute"
    using rnd64_exact [of minute 0] by (simp add: duration_defs pow2_def)
  have prod: "rnd64 (of_int minute * 2 ^ n) = of_int (minute * 2 ^ n)"
    using rnd64_exact [of minute "int n"] by (simp add: duration_defs pow2_def)
  have le: "minute * 2 ^ n \<le> minute * 2 ^ 40"
    using True by (intro mult_left_mono power_increasing) (auto simp: duration_defs)
  have "(of_int (minute * 2 ^ n) :: rat) \<le> of_int (minute * 2 ^ 40)" using le by (simp only: of_int_le_iff)
  also have "\<dots> < 2 ^ 152" by (simp add: duration_defs)
  finally have small: "\<not> overflows (of_int (minute * 2 ^ n))" using overflows_large [of "of_int (minute * 2 ^ n)"] by linarith
  have fl: "\<lfloor>rat_of_int minute * 2 ^ n\<rfloor> = minute * 2 ^ n"
    by (metis floor_of_int of_int_mult of_int_numeral of_int_power)
  have d: "durationOfFloat (fmulInf (rnd64 (of_int (1 * minute))) (mathPow 2 n)) =
      (if minute * 2 ^ n < 2 ^ 63 then minute * 2 ^ n else - (2 ^ 63))"
    unfolding base mathPow_two [OF True] fmulInf_def fmul_def
    using small prod fl by (simp add: durationOfFloat_def Let_def flip: of_int_less_iff [where 'a = rat])
  show ?thesis
    using d True by (auto simp: calculateBackoff_def DefaultDLQRetryConfig_def Let_def duration_defs)
qed

text \<open>
  For other configurations the backoff stays within the configured maximum, but beyond 40
  retries it is the maximum whatever the multiplier is: with a multiplier of one, the documented
  \<open>min (base * multiplier ^ n, max)\<close> would stay at the base.\<close>

theorem backoff_jumps_after_forty_retries:
  "let cfg = DefaultDLQRetryConfig\<lparr>rcBackoffMultiplier := 1\<rparr>
   in calculateBackoff cfg 40 = 1 * minute \<and> calculateBackoff cfg 41 = 24 * hour"
proof -
  have base: "rnd64 (of_int (1 * minute)) = of_int minute"
    using rnd64_exact [of minute 0] by (simp add: duration_defs pow2_def)
  have "\<not> overflows (of_int minute)" by (simp add: duration_defs) code_simp
  then show ?thesis
    using base by (simp add: calculateBackoff_def DefaultDLQRetryConfig_def mathPow_def fmulInf_def fmul_def durationOfFloat_def
        duration_defs Let_def)
qed

text \<open>
  A deferred message comes back neither too early nor too late. A policy scan defers what it
  skips beyond the longest time the scan may run, so a scan never meets a message twice; a periodic
  run defers by a positive delay of at most the polling interval, so a policy fix is noticed at the next poll.
  Deferring changes nothing else.\<close>

theorem deferral_delays:
  assumes "retryOne c flt now later (Some e) w = (RNakDelay d, k, w')"
    and "0 < rcInterval (ctlConfig c)" "0 < rcBackoffBase (ctlConfig c)"
  shows "w' = w \<and> k = Skipped \<and> 0 < d
    \<and> (flt = None \<longrightarrow> d \<le> rcInterval (ctlConfig c) \<and> \<not> isEligibleForRetry c e now)
    \<and> (\<forall>f. flt = Some f \<longrightarrow> maxPolicyRunDuration < d \<and> filterSkips f e)"
proof (cases "skipDelay c flt now later e")
  case None
  with assms(1) show ?thesis
    by (auto simp: retryOne_def handleReEvaluationFailure_def Let_def split: if_splits prod.splits option.splits)
next
  case (Some x)
  with assms(1) have "x = d" "w' = w" "k = Skipped" by (auto simp: retryOne_def)
  with Some assms(2,3) show ?thesis
    by (auto simp: skipDelay_def deferDelay_def policySkipRedeliveryDelay_def maxPolicyRunDuration_def duration_defs Let_def
        split: option.splits if_splits)
qed

theorem deferral_delays_witness:
  "\<exists>d w'. retryOne exampleController (Some \<lparr>rfAPIGroup = ''core'', rfKind = ''Pod'', rfPolicyName = ''other'', rfMaxPolicyVersion = 2\<rparr>)
      10 11 (Some exampleLetter) exampleWorld = (RNakDelay d, Skipped, w') \<and> maxPolicyRunDuration < d"
proof -
  let ?f = "\<lparr>rfAPIGroup = ''core'', rfKind = ''Pod'', rfPolicyName = ''other'', rfMaxPolicyVersion = 2\<rparr>"
  have r: "retryOne exampleController (Some ?f) 10 11 (Some exampleLetter) exampleWorld
      = (RNakDelay policySkipRedeliveryDelay, Skipped, exampleWorld)"
    by (simp add: retryOne_def skipDelay_def filterSkips_def exampleLetter_def deadLetter_def undecodable_def)
  have pos: "0 < rcInterval (ctlConfig exampleController)" "0 < rcBackoffBase (ctlConfig exampleController)"
    by (simp_all add: exampleController_def DefaultDLQRetryConfig_def duration_defs)
  show ?thesis using r deferral_delays [OF r pos] by blast
qed

text \<open>
  A dead-lettered Kubernetes event has no backoff. A fresh dead letter of that type is
  eligible at once and is put back on the event stream without being evaluated first; when it fails
  there again, the new dead letter starts over with retry count zero and is again eligible at once. The
  failure is never counted.\<close>

theorem k8s_dead_letters_never_back_off:
  assumes "deadLetterOf EventTypeK8sEvent f (PubDeadLetter s None e)"
  shows "dleRetryCount e = 0 \<and> (\<forall>now. isEligibleForRetry c e now) \<and> \<not> evaluatorRejects c (recordVersion c e)
    \<and> (\<forall>now later w w1. republishEvent c (recordVersion c e) w = (None, w1) \<longrightarrow>
         retryOne c None now later (Some e) w = (RAck, Succeeded, w1))"
proof -
  from assms have e: "e = deadLetter EventTypeK8sEvent (dleTimestamp e) f" by (simp add: deadLetterOf_def)
  have t: "dleType e = EventTypeK8sEvent" by (subst e) (simp add: deadLetter_def)
  have n: "dleNextRetryAfter e = None" "dleRetryCount e = 0" by (subst e, simp add: deadLetter_def)+
  have el: "isEligibleForRetry c e now" for now using n by (simp add: isEligibleForRetry_def)
  have ev: "\<not> evaluatorRejects c (recordVersion c e)"
    using t by (simp add: evaluatorRejects_def recordVersion_keeps EventTypeAudit_def EventTypeK8sEvent_def split: option.splits)
  from n el ev show ?thesis by (simp add: retryOne_def skipDelay_def Let_def)
qed

theorem k8s_dead_letters_never_back_off_witness:
  "isEligibleForRetry exampleController
     (deadLetter EventTypeK8sEvent 0 (undecodable (JValue VNull) ''x'' None None)) 5"
  using k8s_dead_letters_never_back_off [of "undecodable (JValue VNull) ''x'' None None" "''s''"
      "deadLetter EventTypeK8sEvent 0 (undecodable (JValue VNull) ''x'' None None)" exampleController]
  by (simp add: deadLetterOf_def deadLetter_def)

text \<open>Only payloads with an object reference, or undecodable ones, are dead-lettered.\<close>

lemma expectedOutcomes_payload:
  "ExpFailure f \<in> set (expectedOutcomes env p audit am res tenant ps) \<Longrightarrow> flPayload f = p"
  by (induction ps) (auto simp: evaluationFailure_def split: sum.splits option.splits prod.splits)

lemma auditOutcomes_failure:
  assumes "ExpFailure f \<in> set (auditOutcomes env cache payload)"
  shows "flPayload f = payload \<and> (\<forall>audit. peUnmarshal env payload = Inr audit \<longrightarrow> auditObjectRef audit \<noteq> None)"
proof (cases "peUnmarshal env payload")
  case (Inl err)
  with assms show ?thesis by (simp add: auditOutcomes_def undecodable_def)
next
  case (Inr audit)
  with assms obtain ref where ref: "auditObjectRef audit = Some ref"
    by (cases "auditObjectRef audit") (simp_all add: auditOutcomes_def)
  have ps: "Get cache (objAPIGroup ref) (objResource ref) \<noteq> []"
    using assms Inr ref by (auto simp: auditOutcomes_def)
  show ?thesis
  proof (cases "peAuditToMap env audit")
    case (Inl err)
    with assms Inr ref ps show ?thesis by (simp add: auditOutcomes_def undecodable_def Let_def)
  next
    case am: (Inr am)
    with assms Inr ref ps show ?thesis by (auto simp: auditOutcomes_def Let_def dest: expectedOutcomes_payload)
  qed
qed

text \<open>
  Re-evaluating a dead letter that the audit path wrote never dereferences a missing object
  reference: a payload without one is skipped at ingest and never dead-lettered by the same decoder.\<close>

theorem ingest_letters_never_crash_reevaluation:
  assumes "ExpFailure f \<in> set (auditOutcomes env cache payload)"
  shows "reEvaluateDeadLetter env cache' (deadLetter EventTypeAudit t f) \<noteq> None"
proof -
  note auditOutcomes_failure [OF assms]
  then show ?thesis
    by (auto simp: reEvaluateDeadLetter_def deadLetter_def Let_def split: sum.splits option.splits)
qed

theorem ingest_letters_never_crash_reevaluation_witness:
  "reEvaluateDeadLetter (exampleEnv (\<lambda>_. Stored)) NewPolicyCache
     (deadLetter EventTypeAudit 0 (undecodable JInvalid ''bad json'' None None)) \<noteq> None"
  by (rule ingest_letters_never_crash_reevaluation [of _ _ NewPolicyCache JInvalid])
    (simp add: auditOutcomes_def exampleEnv_def)

lemma countOf_partition: "countOf Skipped rs + countOf Failed rs + countOf Succeeded rs = length rs"
proof (induction rs)
  case (Cons r rs)
  then show ?case by (cases "snd r") (simp_all add: countOf_def)
qed (simp add: countOf_def)

text \<open>The results of a batch add up: what neither succeeded nor failed was deferred.\<close>

lemma processRetryBatch_counts:
  assumes "processRetryBatch c flt now fetch w = ((p, s, f), w')"
  shows "s + f \<le> p \<and> p = (case fetch of FetchFailed \<Rightarrow> 0 | Fetched ms \<Rightarrow> length ms)"
proof (cases fetch)
  case FetchFailed
  with assms show ?thesis by (simp add: processRetryBatch_def)
next
  case (Fetched ms)
  obtain rs w1 where r: "retryMessages c flt now ms w = (rs, w1)" by force
  from retryMessages_account [OF r] have "length rs = length ms" by blast
  with assms Fetched r countOf_partition [of rs] show ?thesis by (auto simp: processRetryBatch_def)
qed

end
