(* ===== verification/Go_Text.thy ===== *)
theory Go_Text
  imports Time_Util
begin

text \<open>
  Parts of Go's text handling that several components use: the width of the first rune of a byte
  string, as \<open>range\<close> over a string decodes it, and the rendering of an instant as RFC 3339 text
  in UTC with whole seconds.
\<close>

section \<open>Runes\<close>

text \<open>
  UTF-8 as \<open>unicode/utf8\<close> decodes it: a byte that starts no valid sequence is one rune of width
  one. Only the width is needed here, because the callers treat all runes beyond ASCII alike.
\<close>

definition byteIn :: "nat \<Rightarrow> nat \<Rightarrow> char \<Rightarrow> bool" where
  "byteIn lo hi c = (lo \<le> of_char c \<and> of_char c \<le> (hi::nat))"

definition isCont :: "char \<Rightarrow> bool" where
  "isCont c = byteIn 0x80 0xBF c"

definition runeWidth :: "string \<Rightarrow> nat" where
  "runeWidth s =
     (case s of
        b0 # b1 # b2 # b3 # _ \<Rightarrow>
          if byteIn 0xC2 0xDF b0 \<and> isCont b1 then 2
          else if ((byteIn 0xE0 0xE0 b0 \<and> byteIn 0xA0 0xBF b1) \<or> (byteIn 0xED 0xED b0 \<and> byteIn 0x80 0x9F b1)
                   \<or> ((byteIn 0xE1 0xEC b0 \<or> byteIn 0xEE 0xEF b0) \<and> isCont b1)) \<and> isCont b2 then 3
          else if ((byteIn 0xF0 0xF0 b0 \<and> byteIn 0x90 0xBF b1) \<or> (byteIn 0xF4 0xF4 b0 \<and> byteIn 0x80 0x8F b1)
                   \<or> (byteIn 0xF1 0xF3 b0 \<and> isCont b1)) \<and> isCont b2 \<and> isCont b3 then 4
          else 1
      | [b0, b1, b2] \<Rightarrow>
          if byteIn 0xC2 0xDF b0 \<and> isCont b1 then 2
          else if ((byteIn 0xE0 0xE0 b0 \<and> byteIn 0xA0 0xBF b1) \<or> (byteIn 0xED 0xED b0 \<and> byteIn 0x80 0x9F b1)
                   \<or> ((byteIn 0xE1 0xEC b0 \<or> byteIn 0xEE 0xEF b0) \<and> isCont b1)) \<and> isCont b2 then 3
          else 1
      | [b0, b1] \<Rightarrow> if byteIn 0xC2 0xDF b0 \<and> isCont b1 then 2 else 1
      | _ \<Rightarrow> 1)"

lemma runeWidth_pos [simp]: "0 < runeWidth s"
  unfolding runeWidth_def by (auto split: list.splits)

lemma runeWidth_neq [simp]: "runeWidth s \<noteq> 0"
  using runeWidth_pos [of s] by simp

lemma runeWidth_ascii: "of_char c < (0x80::nat) \<Longrightarrow> runeWidth (c # s) = 1"
  unfolding runeWidth_def byteIn_def isCont_def by (auto split: list.splits)

text \<open>The bytes of each rune.\<close>

function runes :: "string \<Rightarrow> string list" where
  "runes s = (if s = [] then [] else take (runeWidth s) s # runes (drop (runeWidth s) s))"
  by pat_completeness auto
termination
  by (relation "measure length") auto

declare runes.simps [simp del]

lemma runes_Nil [simp]: "runes [] = []"
  by (simp add: runes.simps)

lemma runes_ascii: "of_char c < (0x80::nat) \<Longrightarrow> runes (c # s) = [c] # runes s"
  by (subst runes.simps) (simp add: runeWidth_ascii)

lemma concat_runes [simp]: "concat (runes s) = s"
  by (induction s rule: runes.induct) (subst runes.simps, simp)

section \<open>RFC 3339 text\<close>

text \<open>The civil date of a day count since 1970-01-01.\<close>

definition civilFromDays :: "int \<Rightarrow> int \<times> int \<times> int" where
  "civilFromDays z0 =
     (let z = z0 + 719468;
          era = z div 146097;
          doe = z - era * 146097;
          yoe = (doe - doe div 1460 + doe div 36524 - doe div 146096) div 365;
          doy = doe - (365 * yoe + yoe div 4 - yoe div 100);
          mp = (5 * doy + 2) div 153;
          d = doy - (153 * mp + 2) div 5 + 1;
          m = (if mp < 10 then mp + 3 else mp - 9)
      in (yoe + era * 400 + (if m \<le> 2 then 1 else 0), m, d))"

definition padDigits :: "nat \<Rightarrow> int \<Rightarrow> string" where
  "padDigits n k = (let ds = natDigits (nat k) in replicate (n - length ds) (CHR ''0'') @ ds)"

definition formatRFC3339 :: "instant \<Rightarrow> string" where
  "formatRFC3339 t =
     (let secs = t div second; days = secs div 86400; sod = secs mod 86400;
          (y, m, d) = civilFromDays days
      in padDigits 4 y @ ''-'' @ padDigits 2 m @ ''-'' @ padDigits 2 d @ ''T''
         @ padDigits 2 (sod div 3600) @ '':'' @ padDigits 2 (sod mod 3600 div 60) @ '':'' @ padDigits 2 (sod mod 60) @ ''Z'')"

text \<open>Year, month and day in eight digits, the layout of metric labels.\<close>

definition formatYMD :: "instant \<Rightarrow> string" where
  "formatYMD t = (let (y, m, d) = civilFromDays (t div second div 86400) in padDigits 4 y @ padDigits 2 m @ padDigits 2 d)"

lemma formatRFC3339_epoch: "formatRFC3339 0 = ''1970-01-01T00:00:00Z''"
  by code_simp

end
