(* ===== verification/Reindex.thy ===== *)
theory Reindex
  imports Events_Rest Dlq_Retry Go_Text
begin

text \<open>
  internal/reindex: reindexer.go, batch.go, publisher.go and ratelimiter.go. A run compiles the
  selected policies into a cache of its own, walks the pages of the audit-log and event queries,
  evaluates every page and publishes what it gives. The API client, the broker, the token bucket
  of golang.org/x/time/rate and the cancellation of the context are parameters; metrics and logs
  are left out. The loops follow cursors that the server chooses, so they carry fuel, and running
  out of it is the result \<open>None\<close>.
\<close>

section \<open>Environment and state\<close>

text \<open>
  \<open>reCancelled n\<close> is the answer of the n-th look at the context. \<open>reReserve burst n k\<close> is what
  the bucket answers to the n-th reservation when it is asked for k tokens: no reservation, or
  the time to wait.
\<close>

record ('a, 'p) reindex_env =
  reEngine :: "('a, 'p) cel_engine"
  reAuditToMap :: "AuditEvent \<Rightarrow> string + gomap"
  reResolveKind :: KindResolver
  reResolveResource :: ResourceResolver
  reNats :: nats_oracle
  reCancelled :: "nat \<Rightarrow> bool"
  reReserve :: "int \<Rightarrow> nat \<Rightarrow> int \<Rightarrow> int option"
  reNow :: instant

record Progress =
  pgTotalEvents :: int
  pgProcessedEvents :: int
  pgActivitiesGenerated :: int
  pgErrors :: int
  pgCurrentBatch :: int
  pgTotalBatches :: int

text \<open>The broker, the looks at the context and the reservations so far, the time slept, and the progress with its reports.\<close>

record rstate =
  rsWorld :: world
  rsLooks :: nat
  rsReservations :: nat
  rsSlept :: "int list"
  rsProgress :: Progress
  rsReports :: "Progress list"

definition look :: "('a, 'p) reindex_env \<Rightarrow> rstate \<Rightarrow> bool \<times> rstate" where
  "look env st = (reCancelled env (rsLooks st), st\<lparr>rsLooks := Suc (rsLooks st)\<rparr>)"

definition ctxErr :: string where "ctxErr = ''context canceled''"

section \<open>ratelimiter.go\<close>

definition NewRateLimiter :: "int \<Rightarrow> int \<Rightarrow> int" where
  "NewRateLimiter eventsPerSecond batchSize =
     (let burst = eventsPerSecond * 2;
          burst' = (if batchSize > burst then batchSize else burst)
      in if burst' < 1 then 1 else burst')"

definition Wait :: "('a, 'p) reindex_env \<Rightarrow> int \<Rightarrow> int \<Rightarrow> rstate \<Rightarrow> string option \<times> rstate" where
  "Wait env burst n st =
     (if n \<le> 0 then (None, st)
      else (let st1 = st\<lparr>rsReservations := Suc (rsReservations st)\<rparr>
            in case reReserve env burst (rsReservations st) n of
                 None \<Rightarrow> (Some (''rate limit exceeded: cannot reserve '' @ fmtInt n @ '' tokens''), st1)
               | Some delay \<Rightarrow>
                   if delay \<le> 0 then (None, st1)
                   else (case look env st1 of
                           (True, st2) \<Rightarrow> (Some ctxErr, st2)
                         | (False, st2) \<Rightarrow> (None, st2\<lparr>rsSlept := rsSlept st2 @ [delay]\<rparr>))))"

section \<open>publisher.go\<close>

definition ReindexSubjectPrefix :: string where "ReindexSubjectPrefix = ''activity_miloapis_com_reindex''"

record Publisher =
  puMaxRetries :: nat
  puInitialBackoff :: int
  puMaxBackoff :: int
  puMultiplier :: rat

definition NewPublisher :: Publisher where
  "NewPublisher = \<lparr>puMaxRetries = 3, puInitialBackoff = 1 * second, puMaxBackoff = 30 * second, puMultiplier = 2\<rparr>"

definition sanitizeRune :: "string \<Rightarrow> string" where
  "sanitizeRune r =
     (if r = ''.'' then ''-''
      else (case r of
              [c] \<Rightarrow> if c \<in> {CHR ''a''..CHR ''z''} \<or> c \<in> {CHR ''A''..CHR ''Z''} \<or> isDigit c \<or> c = CHR ''-'' \<or> c = CHR ''_'' then [c] else ''_''
            | _ \<Rightarrow> ''_''))"

definition sanitizeSubjectToken :: "string \<Rightarrow> string" where
  "sanitizeSubjectToken s = concat (map sanitizeRune (runes s))"

definition buildReindexSubject :: "Activity \<Rightarrow> string" where
  "buildReindexSubject activity =
     (let spec = actSpec activity;
          tType = (if tenantType (specTenant spec) = '''' then ''unknown'' else sanitizeSubjectToken (tenantType (specTenant spec)));
          apiGroup = (if resAPIGroup (specResource spec) = '''' then ''core'' else resAPIGroup (specResource spec));
          kind = (if resKind (specResource spec) = '''' then ''unknown'' else resKind (specResource spec))
      in joinStr ''.'' [ReindexSubjectPrefix, tType, sanitizeSubjectToken apiGroup, sanitizeSubjectToken kind])"

text \<open>A message without a deduplication id.\<close>

definition reindexPublication :: "Activity \<Rightarrow> publication" where
  "reindexPublication activity = PubActivity (buildReindexSubject activity) '''' activity"

definition nextBackoff :: "Publisher \<Rightarrow> int \<Rightarrow> int" where
  "nextBackoff p backoff =
     (let b = durationOfFloat (Some (fmul (rnd64 (of_int backoff)) (puMultiplier p))) in if b > puMaxBackoff p then puMaxBackoff p else b)"

text \<open>The attempts that are left, the wait before the next one, and the last error.\<close>

fun publishAttempts ::
  "('a, 'p) reindex_env \<Rightarrow> Publisher \<Rightarrow> publication \<Rightarrow> nat \<Rightarrow> int \<Rightarrow> string \<Rightarrow> rstate \<Rightarrow> string option \<times> rstate" where
  "publishAttempts env p pub 0 backoff lastErr st =
     (Some (''failed after '' @ fmtInt (int (puMaxRetries p)) @ '' retries: '' @ lastErr), st)"
| "publishAttempts env p pub (Suc left) backoff lastErr st =
     (case look env st of
        (True, st1) \<Rightarrow> (Some ctxErr, st1)
      | (False, st1) \<Rightarrow>
          (case jsPublish (reNats env) pub (rsWorld st1) of
             (None, w) \<Rightarrow> (None, st1\<lparr>rsWorld := w\<rparr>)
           | (Some err, w) \<Rightarrow>
               (let st2 = st1\<lparr>rsWorld := w\<rparr>
                in if left = 0 then publishAttempts env p pub left backoff err st2
                   else (case look env st2 of
                           (True, st3) \<Rightarrow> (Some ctxErr, st3)
                         | (False, st3) \<Rightarrow>
                             publishAttempts env p pub left (nextBackoff p backoff) err (st3\<lparr>rsSlept := rsSlept st3 @ [backoff]\<rparr>)))))"

definition publishWithRetry :: "('a, 'p) reindex_env \<Rightarrow> Publisher \<Rightarrow> Activity \<Rightarrow> rstate \<Rightarrow> string option \<times> rstate" where
  "publishWithRetry env p activity st =
     publishAttempts env p (reindexPublication activity) (puMaxRetries p) (puInitialBackoff p) ''%!w(<nil>)'' st"

fun PublishActivities :: "('a, 'p) reindex_env \<Rightarrow> Publisher \<Rightarrow> Activity list \<Rightarrow> rstate \<Rightarrow> string option \<times> rstate" where
  "PublishActivities env p [] st = (None, st)"
| "PublishActivities env p (a # as) st =
     (case publishWithRetry env p a st of
        (Some err, st') \<Rightarrow> (Some (''failed to publish activity '' @ actName a @ '': '' @ err), st')
      | (None, st') \<Rightarrow> PublishActivities env p as st')"

section \<open>batch.go\<close>

record Options =
  opStartTime :: instant
  opEndTime :: instant
  opBatchSize :: int
  opRateLimit :: int
  opDryRun :: bool
  opPolicyNames :: "string list"
  opMatchLabels :: "(string \<times> string) list"

type_synonym ('s, 'r) query_api = "'s \<Rightarrow> string + 'r list \<times> string"

definition fetchAuditLogBatch :: "(AuditLogQuerySpec, AuditEvent) query_api \<Rightarrow> Options \<Rightarrow> string \<Rightarrow> string + AuditEvent list \<times> string" where
  "fetchAuditLogBatch api opts cursor =
     (case api \<lparr>aqStartTime = formatRFC3339 (opStartTime opts), aqEndTime = formatRFC3339 (opEndTime opts), aqFilter = '''',
                aqLimit = opBatchSize opts, aqContinue = cursor\<rparr> of
        Inl err \<Rightarrow> Inl (''failed to create AuditLogQuery: '' @ err)
      | Inr r \<Rightarrow> Inr r)"

definition refMap :: "ObjRef \<Rightarrow> gval" where
  "refMap r =
     VMap [(''apiVersion'', VStr (refAPIVersion r)), (''kind'', VStr (refKind r)), (''name'', VStr (refName r)),
           (''namespace'', VStr (refNamespace r)), (''uid'', VStr (refUID r))]"

definition eventRecordToMap :: "EventV1 \<Rightarrow> gomap" where
  "eventRecordToMap e =
     [(''metadata'', VMap [(''name'', VStr (evName e)), (''namespace'', VStr (evNamespace e)), (''uid'', VStr (evUID e))]),
      (''regarding'', refMap (evRegarding e)),
      (''reason'', VStr (evReason e)), (''note'', VStr (evNote e)), (''type'', VStr (evType e)),
      (''eventTime'', VTime (evEventTime e)),
      (''reportingController'', VStr (evReportingController e)), (''reportingInstance'', VStr (evReportingInstance e)),
      (''action'', VStr (evAction e))]
     @ (case evSeries e of None \<Rightarrow> [] | Some s \<Rightarrow> [(''series'', VMap [(''count'', VInt (serCount s)), (''lastObservedTime'', VTime (serLastObserved s))])])
     @ (case evRelated e of None \<Rightarrow> [] | Some r \<Rightarrow> [(''related'', refMap r)])"

definition fetchEventBatch :: "(EventQuerySpec, EventV1) query_api \<Rightarrow> Options \<Rightarrow> string \<Rightarrow> string + gomap list \<times> string" where
  "fetchEventBatch api opts cursor =
     (case api \<lparr>eqStartTime = formatRFC3339 (opStartTime opts), eqEndTime = formatRFC3339 (opEndTime opts), eqNamespace = '''',
                eqFieldSelector = '''', eqLimit = opBatchSize opts, eqContinue = cursor\<rparr> of
        Inl err \<Rightarrow> Inl (''failed to create EventQuery: '' @ err)
      | Inr (records, next) \<Rightarrow> Inr (map eventRecordToMap records, next))"

definition withPolicyName :: "string \<Rightarrow> Activity \<Rightarrow> Activity" where
  "withPolicyName name a = a\<lparr>actLabels := setAnnotation ''activity.miloapis.com/policy-name'' name (actLabels a)\<rparr>"

text \<open>The first policy that gives an activity; a policy whose rules fail is passed over.\<close>

fun firstActivity :: "('a, 'p) reindex_env \<Rightarrow> gomap \<Rightarrow> AuditEvent \<Rightarrow> 'p CompiledPolicy list \<Rightarrow> Activity option" where
  "firstActivity env auditMap audit [] = None"
| "firstActivity env auditMap audit (policy # ps) =
     (case EvaluateCompiledAuditRules (reEngine env) policy auditMap audit (Some (reResolveKind env)) (reNow env) of
        Inr (Some (activity, _)) \<Rightarrow> Some (withPolicyName (cpName policy) activity)
      | _ \<Rightarrow> firstActivity env auditMap audit ps)"

definition evaluateAudit :: "('a, 'p) reindex_env \<Rightarrow> 'p PolicyCache \<Rightarrow> AuditEvent \<Rightarrow> Activity option" where
  "evaluateAudit env cache audit =
     (case auditObjectRef audit of
        None \<Rightarrow> None
      | Some ref \<Rightarrow>
          (let ps = Get cache (objAPIGroup ref) (objResource ref)
           in if ps = [] then None
              else (case reAuditToMap env audit of Inl _ \<Rightarrow> None | Inr auditMap \<Rightarrow> firstActivity env auditMap audit ps)))"

definition evaluateAuditBatch :: "('a, 'p) reindex_env \<Rightarrow> 'p PolicyCache \<Rightarrow> AuditEvent list \<Rightarrow> Activity list" where
  "evaluateAuditBatch env cache batch = List.map_filter (evaluateAudit env cache) batch"

definition evaluateEvent :: "('a, 'p) reindex_env \<Rightarrow> 'p PolicyCache \<Rightarrow> gomap \<Rightarrow> Activity option" where
  "evaluateEvent env cache eventMap =
     (case ResolveInvolvedObject eventMap of
        None \<Rightarrow> None
      | Some regarding \<Rightarrow>
          (let apiVersion = (case asStr (map_of regarding ''apiVersion'') of Some v \<Rightarrow> v | None \<Rightarrow> '''');
               kind = (case asStr (map_of regarding ''kind'') of Some v \<Rightarrow> v | None \<Rightarrow> '''');
               apiGroup = (case indexByte apiVersion (CHR ''/'') of Some i \<Rightarrow> take i apiVersion | None \<Rightarrow> '''')
           in if kind = '''' then None
              else (case MatchEvent (reEngine env) cache apiGroup kind eventMap of
                      Inr (Some matched) \<Rightarrow>
                        (case BuildFromEvent \<lparr>bldAPIGroup = mpAPIGroup matched, bldKind = mpKind matched\<rparr> eventMap
                                (mpSummary matched) (mpLinks matched) (Some (reResolveKind env)) (reNow env) of
                           Inl _ \<Rightarrow> None
                         | Inr activity \<Rightarrow> Some (withPolicyName (mpPolicyName matched) activity))
                    | _ \<Rightarrow> None)))"

definition evaluateEventBatch :: "('a, 'p) reindex_env \<Rightarrow> 'p PolicyCache \<Rightarrow> gomap list \<Rightarrow> Activity list" where
  "evaluateEventBatch env cache batch = List.map_filter (evaluateEvent env cache) batch"

section \<open>reindexer.go\<close>

definition matchesLabels :: "(string \<times> string) list \<Rightarrow> (string \<times> string) list \<Rightarrow> bool" where
  "matchesLabels resourceLabels selectorLabels =
     (if selectorLabels = [] then True
      else if resourceLabels = [] then False
      else list_all (\<lambda>(key, v). labelOf resourceLabels key = v) selectorLabels)"

definition fetchActivePolicies :: "string + ActivityPolicy list \<Rightarrow> string list \<Rightarrow> (string \<times> string) list \<Rightarrow> string + ActivityPolicy list" where
  "fetchActivePolicies listed policyNames matchLabels =
     (case listed of
        Inl err \<Rightarrow> Inl (''failed to list ActivityPolicy resources: '' @ err)
      | Inr items \<Rightarrow>
          if items = [] then Inr []
          else if policyNames \<noteq> [] then Inr (filter (\<lambda>p. polName p \<in> set policyNames) items)
          else if matchLabels \<noteq> [] then Inr (filter (\<lambda>p. matchesLabels (polLabels p) matchLabels) items)
          else Inr items)"

fun compilePolicies :: "('a, 'p) reindex_env \<Rightarrow> ActivityPolicy list \<Rightarrow> 'p PolicyCache \<Rightarrow> 'p PolicyCache" where
  "compilePolicies env [] cache = cache"
| "compilePolicies env (p # ps) cache =
     (case resolvePolicy (reResolveResource env) p of
        Inl _ \<Rightarrow> compilePolicies env ps cache
      | Inr resource \<Rightarrow> compilePolicies env ps (Add (reEngine env) p resource cache))"

text \<open>What differs between the two loops: how a page is fetched and evaluated, and the names in their errors.\<close>

record 'r source_loop =
  slFetch :: "string \<Rightarrow> string + 'r list \<times> string"
  slEvaluate :: "'r list \<Rightarrow> Activity list"
  slFetchName :: string
  slEvalName :: string

definition bumpProgress :: "nat \<Rightarrow> nat \<Rightarrow> Progress \<Rightarrow> Progress" where
  "bumpProgress processed generated p =
     p\<lparr>pgProcessedEvents := wrap64 (pgProcessedEvents p + int processed),
       pgActivitiesGenerated := wrap64 (pgActivitiesGenerated p + int generated)\<rparr>"

definition publishBatch :: "('a, 'p) reindex_env \<Rightarrow> Publisher \<Rightarrow> bool \<Rightarrow> Activity list \<Rightarrow> rstate \<Rightarrow> string option \<times> rstate" where
  "publishBatch env p dryRun activities st =
     (if \<not> dryRun \<and> activities \<noteq> [] then PublishActivities env p activities st else (None, st))"

definition report :: "nat \<Rightarrow> nat \<Rightarrow> rstate \<Rightarrow> rstate" where
  "report processed generated st =
     (let pg = bumpProgress processed generated (rsProgress st) in st\<lparr>rsProgress := pg, rsReports := rsReports st @ [pg]\<rparr>)"

text \<open>\<open>burst\<close> is the bucket's size, absent when no rate limit is set.\<close>

definition throttle :: "('a, 'p) reindex_env \<Rightarrow> int option \<Rightarrow> nat \<Rightarrow> rstate \<Rightarrow> string option \<times> rstate" where
  "throttle env burst n st = (case burst of None \<Rightarrow> (None, st) | Some b \<Rightarrow> Wait env b (int n) st)"

fun processBatches ::
  "('a, 'p) reindex_env \<Rightarrow> Publisher \<Rightarrow> int option \<Rightarrow> bool \<Rightarrow> 'r source_loop \<Rightarrow> nat \<Rightarrow> string \<Rightarrow> int \<Rightarrow> rstate \<Rightarrow> (string option \<times> rstate) option" where
  "processBatches env p burst dryRun loop 0 cursor batchNum st = None"
| "processBatches env p burst dryRun loop (Suc fuel) cursor batchNum st =
     (case look env st of
        (True, st1) \<Rightarrow> Some (Some ctxErr, st1)
      | (False, st1) \<Rightarrow>
          (let n = wrap32 (batchNum + 1);
               st2 = st1\<lparr>rsProgress := (rsProgress st1)\<lparr>pgCurrentBatch := n\<rparr>\<rparr>
           in case slFetch loop cursor of
                Inl err \<Rightarrow> Some (Some (''failed to fetch '' @ slFetchName loop @ '' batch '' @ fmtInt n @ '': '' @ err), st2)
              | Inr (batch, nextCursor) \<Rightarrow>
                  if batch = [] then Some (None, st2)
                  else (let activities = slEvaluate loop batch
                        in case publishBatch env p dryRun activities st2 of
                             (Some err, st3) \<Rightarrow> Some (Some (''failed to publish activities for batch '' @ fmtInt n @ '': '' @ err), st3)
                           | (None, st3) \<Rightarrow>
                               (case throttle env burst (length batch) (report (length batch) (length activities) st3) of
                                  (Some err, st5) \<Rightarrow> Some (Some err, st5)
                                | (None, st5) \<Rightarrow>
                                    if nextCursor = '''' then Some (None, st5)
                                    else processBatches env p burst dryRun loop fuel nextCursor n st5))))"

definition auditLoop :: "('a, 'p) reindex_env \<Rightarrow> 'p PolicyCache \<Rightarrow> (AuditLogQuerySpec, AuditEvent) query_api \<Rightarrow> Options \<Rightarrow> AuditEvent source_loop" where
  "auditLoop env cache api opts =
     \<lparr>slFetch = fetchAuditLogBatch api opts, slEvaluate = evaluateAuditBatch env cache, slFetchName = ''audit log'', slEvalName = ''audit''\<rparr>"

definition eventLoop :: "('a, 'p) reindex_env \<Rightarrow> 'p PolicyCache \<Rightarrow> (EventQuerySpec, EventV1) query_api \<Rightarrow> Options \<Rightarrow> gomap source_loop" where
  "eventLoop env cache api opts =
     \<lparr>slFetch = fetchEventBatch api opts, slEvaluate = evaluateEventBatch env cache, slFetchName = ''event'', slEvalName = ''event''\<rparr>"

definition burstOf :: "Options \<Rightarrow> int option" where
  "burstOf opts = (if opRateLimit opts > 0 then Some (NewRateLimiter (opRateLimit opts) (opBatchSize opts)) else None)"

definition processAuditLogs where
  "processAuditLogs env p cache api opts fuel st = processBatches env p (burstOf opts) (opDryRun opts) (auditLoop env cache api opts) fuel '''' 0 st"

definition processEvents where
  "processEvents env p cache api opts fuel st = processBatches env p (burstOf opts) (opDryRun opts) (eventLoop env cache api opts) fuel '''' 0 st"

definition emptyProgress :: Progress where
  "emptyProgress = \<lparr>pgTotalEvents = 0, pgProcessedEvents = 0, pgActivitiesGenerated = 0, pgErrors = 0, pgCurrentBatch = 0, pgTotalBatches = 0\<rparr>"

definition Run ::
  "('a, 'p) reindex_env \<Rightarrow> string + ActivityPolicy list \<Rightarrow> (AuditLogQuerySpec, AuditEvent) query_api \<Rightarrow> (EventQuerySpec, EventV1) query_api \<Rightarrow>
   Options \<Rightarrow> nat \<Rightarrow> 'p PolicyCache \<Rightarrow> rstate \<Rightarrow> (string option \<times> rstate) option" where
  "Run env listed auditAPI eventAPI opts fuel cache0 st =
     (case fetchActivePolicies listed (opPolicyNames opts) (opMatchLabels opts) of
        Inl err \<Rightarrow> Some (Some (''failed to fetch policies: '' @ err), st)
      | Inr chosen \<Rightarrow>
          if chosen = [] then Some (None, st)
          else (let cache = compilePolicies env chosen cache0;
                    st0 = st\<lparr>rsProgress := emptyProgress\<rparr>
                in case processAuditLogs env NewPublisher cache auditAPI opts fuel st0 of
                     None \<Rightarrow> None
                   | Some (Some err, st1) \<Rightarrow> Some (Some (''failed to process audit logs: '' @ err), st1)
                   | Some (None, st1) \<Rightarrow>
                       (case processEvents env NewPublisher cache eventAPI opts fuel st1 of
                          None \<Rightarrow> None
                        | Some (Some err, st2) \<Rightarrow> Some (Some (''failed to process events: '' @ err), st2)
                        | Some (None, st2) \<Rightarrow> Some (None, st2))))"

text \<open>Labels of the metrics.\<close>

definition formatTimeRange :: "instant \<Rightarrow> instant \<Rightarrow> string" where
  "formatTimeRange s e = formatYMD s @ ''_'' @ formatYMD e"

definition formatPolicyNames :: "string list \<Rightarrow> string" where
  "formatPolicyNames names =
     (case names of [] \<Rightarrow> ''all'' | [n] \<Rightarrow> n | _ \<Rightarrow> fmtInt (int (length names)) @ ''_policies'')"

definition formatBool :: "bool \<Rightarrow> string" where
  "formatBool b = (if b then ''true'' else ''false'')"

section \<open>Publishing\<close>

lemma look_keeps [simp]:
  "rsWorld (snd (look env st)) = rsWorld st" "rsProgress (snd (look env st)) = rsProgress st" "rsReports (snd (look env st)) = rsReports st"
  by (simp_all add: look_def)

lemma look_eqD: "look env st = (b, st') \<Longrightarrow> rsWorld st' = rsWorld st \<and> rsProgress st' = rsProgress st \<and> rsReports st' = rsReports st"
  by (auto simp: look_def)

text \<open>What a number of activities leaves on the broker: each one at least once and at most m times, in order.\<close>

inductive sends :: "nat \<Rightarrow> Activity list \<Rightarrow> publication list \<Rightarrow> bool" for m where
  sends_Nil: "sends m [] []"
| sends_Cons: "1 \<le> k \<Longrightarrow> k \<le> m \<Longrightarrow> sends m as pubs \<Longrightarrow> sends m (a # as) (replicate k (reindexPublication a) @ pubs)"

lemma sends_append: "sends m as ps \<Longrightarrow> sends m bs qs \<Longrightarrow> sends m (as @ bs) (ps @ qs)"
  by (induction rule: sends.induct) (auto intro: sends_Cons)

lemma sends_range:
  assumes "sends m as pubs"
  shows "set pubs = reindexPublication ` set as \<and> length as \<le> length pubs \<and> length pubs \<le> m * length as"
  using assms by (induction rule: sends.induct) auto

lemma publishAttempts_log:
  assumes "publishAttempts env p pub n b e st = (r, st')"
  shows "\<exists>k \<le> n. wLog (rsWorld st') = wLog (rsWorld st) @ replicate k pub \<and> (r = None \<longrightarrow> 1 \<le> k)"
  using assms
proof (induction n arbitrary: b e st)
  case (Suc left)
  obtain c st1 where l: "look env st = (c, st1)" by fastforce
  obtain o' w where js: "jsPublish (reNats env) pub (rsWorld st1) = (o', w)" by fastforce
  note w1 = look_eqD [OF l]
  consider "c" | "\<not> c" "o' = None" | err where "\<not> c" "o' = Some err" by (cases o') auto
  then show ?case
  proof cases
    case 1
    with Suc.prems l w1 show ?thesis by (auto intro: exI [of _ 0])
  next
    case 2
    with Suc.prems l js w1 jsPublish_cases(1) [OF js] show ?thesis by (auto intro!: exI [of _ 1])
  next
    case 3
    let ?st2 = "st1\<lparr>rsWorld := w\<rparr>"
    obtain c2 st3 where l2: "look env ?st2 = (c2, st3)" by fastforce
    obtain j where j: "j \<le> 1" "wLog w = wLog (rsWorld st) @ replicate j pub"
      using jsPublish_cases(2) [OF js] w1 by (metis One_nat_def append_Nil2 le_zero_eq nat_le_linear replicate_0 replicate_Suc)
    have more: ?thesis if "publishAttempts env p pub left b' err st4 = (r, st')" "rsWorld st4 = w" for b' st4
    proof -
      note w4 = that(2)
      from Suc.IH [OF that(1)] obtain k where "k \<le> left" "wLog (rsWorld st') = wLog w @ replicate k pub" "r = None \<longrightarrow> 1 \<le> k"
        unfolding w4 by blast
      with j show ?thesis by (intro exI [of _ "j + k"]) (auto simp: replicate_add)
    qed
    have step: "(if left = 0 then publishAttempts env p pub left b err ?st2
        else if c2 then (Some ctxErr, st3) else publishAttempts env p pub left (nextBackoff p b) err (st3\<lparr>rsSlept := rsSlept st3 @ [b]\<rparr>)) = (r, st')"
      using Suc.prems 3 l js l2 by (cases c2; cases "left = 0") (simp_all add: Let_def)
    have w3: "rsWorld st3 = w" using look_eqD [OF l2] by simp
    consider "left = 0" | "left \<noteq> 0" "c2" | "left \<noteq> 0" "\<not> c2" by blast
    then show ?thesis
    proof cases
      case 1
      with step have "publishAttempts env p pub left b err ?st2 = (r, st')" by (simp del: publishAttempts.simps)
      then show ?thesis by (rule more) simp
    next
      case 2
      with step w3 j show ?thesis by (auto intro!: exI [of _ j])
    next
      case 3
      with step have "publishAttempts env p pub left (nextBackoff p b) err (st3\<lparr>rsSlept := rsSlept st3 @ [b]\<rparr>) = (r, st')" by simp
      then show ?thesis by (rule more) (simp add: w3)
    qed
  qed
qed auto

lemma PublishActivities_log:
  assumes "PublishActivities env p as st = (None, st')"
  shows "\<exists>pubs. wLog (rsWorld st') = wLog (rsWorld st) @ pubs \<and> sends (puMaxRetries p) as pubs"
  using assms
proof (induction as arbitrary: st)
  case Nil
  then show ?case by (auto intro: sends_Nil)
next
  case (Cons a as)
  obtain r st1 where p: "publishWithRetry env p a st = (r, st1)" by fastforce
  with Cons.prems have r: "r = None" and rest: "PublishActivities env p as st1 = (None, st')" by (auto split: option.splits)
  obtain k where "k \<le> puMaxRetries p" "1 \<le> k" "wLog (rsWorld st1) = wLog (rsWorld st) @ replicate k (reindexPublication a)"
    using publishAttempts_log [OF p [unfolded publishWithRetry_def]] r by auto
  with Cons.IH [OF rest] show ?case by (auto intro: sends_Cons simp del: One_nat_def)
qed
section \<open>A run that succeeds is complete\<close>

text \<open>The pages that following the cursors gives, up to an empty page or an empty cursor.\<close>

fun pagesFrom :: "'r source_loop \<Rightarrow> nat \<Rightarrow> string \<Rightarrow> 'r list list option" where
  "pagesFrom loop 0 cursor = None"
| "pagesFrom loop (Suc n) cursor =
     (case slFetch loop cursor of
        Inl _ \<Rightarrow> None
      | Inr (batch, nextCursor) \<Rightarrow>
          if batch = [] then Some []
          else if nextCursor = '''' then Some [batch]
          else map_option ((#) batch) (pagesFrom loop n nextCursor))"

lemma throttle_keeps:
  assumes "throttle env burst n st = (r, st')"
  shows "rsWorld st' = rsWorld st \<and> rsProgress st' = rsProgress st \<and> rsReports st' = rsReports st"
  using assms by (auto simp: throttle_def Wait_def Let_def look_def split: option.splits if_splits bool.splits)

lemma report_world [simp]: "rsWorld (report k g st) = rsWorld st"
  by (simp add: report_def Let_def)

lemma publishBatch_log:
  assumes "publishBatch env p dryRun as st = (None, st')"
  shows "\<exists>pubs. wLog (rsWorld st') = wLog (rsWorld st) @ pubs \<and> (if dryRun then pubs = [] else sends (puMaxRetries p) as pubs)"
  using assms PublishActivities_log [of env p as st st'] by (auto simp: publishBatch_def intro: sends_Nil split: if_splits)

text \<open>One turn of the loop that does not end in an error: what it published, and how it goes on.\<close>

lemma processBatches_turn:
  assumes "processBatches env p burst dryRun loop (Suc fuel) cursor n st = Some (None, st')"
    and "slFetch loop cursor = Inr (batch, nextCursor)" "batch \<noteq> []"
  obtains st5 pubs where "wLog (rsWorld st5) = wLog (rsWorld st) @ pubs"
    "if dryRun then pubs = [] else sends (puMaxRetries p) (slEvaluate loop batch) pubs"
    "if nextCursor = '''' then st' = st5 else processBatches env p burst dryRun loop fuel nextCursor (wrap32 (n + 1)) st5 = Some (None, st')"
proof -
  obtain c st1 where l: "look env st = (c, st1)" by fastforce
  let ?n = "wrap32 (n + 1)" and ?as = "slEvaluate loop batch"
  let ?st2 = "st1\<lparr>rsProgress := (rsProgress st1)\<lparr>pgCurrentBatch := ?n\<rparr>\<rparr>"
  obtain r st3 where pub: "publishBatch env p dryRun ?as ?st2 = (r, st3)" by fastforce
  obtain r5 st5 where w: "throttle env burst (length batch) (report (length batch) (length ?as) st3) = (r5, st5)" by fastforce
  have ok: "r = None \<and> r5 = None \<and> (if nextCursor = '''' then st' = st5
      else processBatches env p burst dryRun loop fuel nextCursor ?n st5 = Some (None, st'))"
    using assms l pub w by (cases c; cases r; cases r5) (auto simp: Let_def split: if_splits)
  with publishBatch_log [of env p dryRun ?as ?st2 st3] pub obtain pubs
    where "wLog (rsWorld st3) = wLog (rsWorld st1) @ pubs" "if dryRun then pubs = [] else sends (puMaxRetries p) ?as pubs" by auto
  with look_eqD [OF l] throttle_keeps [OF w] have "wLog (rsWorld st5) = wLog (rsWorld st) @ pubs" by simp
  then show thesis by (rule that) (use ok \<open>if dryRun then _ else _\<close> in simp_all)
qed

text \<open>
  C12: a pass over a source that ends without an error has followed the cursors to the last page,
  and, unless it was a dry run, every activity that any page gives is on the broker, in the order
  of the pages, each at least once and no more often than the publisher retries. A dry run leaves
  nothing on the broker. This holds for every behaviour of the broker, the bucket and the context.
\<close>

theorem reindex_success_is_complete:
  assumes "processBatches env p burst dryRun loop fuel cursor n st = Some (None, st')"
  shows "\<exists>pages pubs. pagesFrom loop fuel cursor = Some pages \<and> wLog (rsWorld st') = wLog (rsWorld st) @ pubs
     \<and> (if dryRun then pubs = [] else sends (puMaxRetries p) (concat (map (slEvaluate loop) pages)) pubs)"
  using assms(1)
proof (induction fuel arbitrary: cursor n st)
  case (Suc fuel)
  obtain c st1 where l: "look env st = (c, st1)" by fastforce
  with Suc.prems have "slFetch loop cursor \<noteq> Inl e" for e by (auto simp: Let_def split: bool.splits)
  then obtain batch nextCursor where f: "slFetch loop cursor = Inr (batch, nextCursor)" by (cases "slFetch loop cursor") auto
  show ?case
  proof (cases "batch = []")
    case True
    with Suc.prems l f look_eqD [OF l] show ?thesis by (cases c) (auto simp: Let_def intro: sends_Nil)
  next
    case False
    from processBatches_turn [OF Suc.prems f False] obtain st5 pubs where
      t: "wLog (rsWorld st5) = wLog (rsWorld st) @ pubs" "if dryRun then pubs = [] else sends (puMaxRetries p) (slEvaluate loop batch) pubs"
      "if nextCursor = '''' then st' = st5 else processBatches env p burst dryRun loop fuel nextCursor (wrap32 (n + 1)) st5 = Some (None, st')"
      by metis
    show ?thesis
    proof (cases "nextCursor = ''''")
      case True
      with t f False show ?thesis by (intro exI [of _ "[batch]"] exI [of _ pubs]) simp
    next
      case more: False
      with t(3) Suc.IH obtain pages pubs2 where "pagesFrom loop fuel nextCursor = Some pages" "wLog (rsWorld st') = wLog (rsWorld st5) @ pubs2"
        "if dryRun then pubs2 = [] else sends (puMaxRetries p) (concat (map (slEvaluate loop) pages)) pubs2"
        by metis
      with t f False more show ?thesis
        by (intro exI [of _ "batch # pages"] exI [of _ "pubs @ pubs2"]) (auto intro: sends_append split: if_splits)
    qed
  qed
qed simp

definition reindexExampleEnv :: "nats_oracle \<Rightarrow> (string, string) reindex_env" where
  "reindexExampleEnv js = \<lparr>reEngine = varEngine, reAuditToMap = (\<lambda>_. Inr exampleAuditMap), reResolveKind = (\<lambda>_ _. Inr ''Pod''),
     reResolveResource = exampleResolver, reNats = js, reCancelled = (\<lambda>_. False),
     reReserve = (\<lambda>burst _ n. if n \<le> burst then Some 0 else None), reNow = 7\<rparr>"

definition reindexStart :: rstate where
  "reindexStart = \<lparr>rsWorld = exampleWorld, rsLooks = 0, rsReservations = 0, rsSlept = [], rsProgress = emptyProgress, rsReports = []\<rparr>"

text \<open>Two pages, each with one event that gives one activity; the broker loses the first acknowledgement.\<close>

definition twoPages :: "Activity \<Rightarrow> nat source_loop" where
  "twoPages a = \<lparr>slFetch = (\<lambda>c. if c = '''' then Inr ([0], ''next'') else Inr ([1], '''')), slEvaluate = map (\<lambda>_. a),
     slFetchName = ''audit log'', slEvalName = ''audit''\<rparr>"

lemma reindex_success_is_complete_witness:
  fixes a0 :: Activity
  defines "a0 \<equiv> sampleActivity"
  defines "env0 \<equiv> reindexExampleEnv (\<lambda>n. if n = 0 then AckLost ''timeout'' else Stored)"
  shows "\<exists>st'. processBatches env0 NewPublisher None False (twoPages a0) 2 '''' 0 reindexStart = Some (None, st')
     \<and> (\<exists>pubs. wLog (rsWorld st') = pubs \<and> sends 3 [a0, a0] pubs)"
proof -
  have "\<exists>st'. processBatches env0 NewPublisher None False (twoPages a0) 2 '''' 0 reindexStart = Some (None, st')"
    by (simp add: env0_def reindexExampleEnv_def reindexStart_def twoPages_def numeral_2_eq_2 numeral_3_eq_3 publishBatch_def
        publishWithRetry_def NewPublisher_def throttle_def look_def jsPublish_def exampleWorld_def report_def Let_def)
  then obtain st' where run: "processBatches env0 NewPublisher None False (twoPages a0) 2 '''' 0 reindexStart = Some (None, st')" by blast
  have "pagesFrom (twoPages a0) 2 '''' = Some [[0], [1]]" by (simp add: twoPages_def numeral_2_eq_2)
  with run reindex_success_is_complete [OF run] show ?thesis
    by (auto simp: reindexStart_def exampleWorld_def twoPages_def NewPublisher_def)
qed

section \<open>Subjects and rates\<close>

lemma sanitizeRune_shape:
  "r \<noteq> [] \<Longrightarrow> sanitizeRune r \<noteq> [] \<and> CHR ''.'' \<notin> set (sanitizeRune r) \<and> CHR ''*'' \<notin> set (sanitizeRune r) \<and> CHR ''>'' \<notin> set (sanitizeRune r)"
  by (auto simp: sanitizeRune_def isDigit_def split: list.splits if_splits)

lemma runes_nonempty: "r \<in> set (runes s) \<Longrightarrow> r \<noteq> []"
  by (induction s rule: runes.induct) (subst (asm) (2) runes.simps, auto split: if_splits)

lemma sanitizeSubjectToken_shape:
  "CHR ''.'' \<notin> set (sanitizeSubjectToken s) \<and> CHR ''*'' \<notin> set (sanitizeSubjectToken s) \<and> CHR ''>'' \<notin> set (sanitizeSubjectToken s)
   \<and> (s \<noteq> [] \<longrightarrow> sanitizeSubjectToken s \<noteq> [])"
proof -
  have "s \<noteq> [] \<Longrightarrow> runes s \<noteq> []" by (subst runes.simps) simp
  then show ?thesis unfolding sanitizeSubjectToken_def using runes_nonempty [of _ s] sanitizeRune_shape
    by (fastforce simp: concat_eq_Nil_conv)
qed

text \<open>
  Whatever bytes the tenant type, the API group and the kind of a reindexed activity hold,
  its subject has exactly three tokens after the stream's prefix, none of them empty or a wildcard.
\<close>

theorem reindex_subject_wellformed:
  "\<exists>t g k. subjectTokens (buildReindexSubject a) = [ReindexSubjectPrefix, t, g, k]
     \<and> (\<forall>x \<in> {t, g, k}. x \<noteq> [] \<and> CHR ''*'' \<notin> set x \<and> CHR ''>'' \<notin> set x)"
proof -
  obtain t g k where s: "buildReindexSubject a = joinStr ''.'' (ReindexSubjectPrefix # [t, g, k])"
    and ok: "\<forall>x \<in> {t, g, k}. x \<noteq> [] \<and> CHR ''.'' \<notin> set x \<and> CHR ''*'' \<notin> set x \<and> CHR ''>'' \<notin> set x"
    unfolding buildReindexSubject_def Let_def using sanitizeSubjectToken_shape by (auto split: if_splits)
  have "subjectTokens (buildReindexSubject a) = subjectTokens ReindexSubjectPrefix @ [t, g, k]"
    unfolding s by (rule subjectTokens_joined) (use ok in auto)
  moreover have "subjectTokens ReindexSubjectPrefix = [ReindexSubjectPrefix]" by code_simp
  ultimately show ?thesis using ok by auto
qed

end
