(* ===== verification/Reindex_Props.thy ===== *)
theory Reindex_Props
  imports Reindex
begin

text \<open>
  Properties of reindexing beyond the completeness of a successful pass: pages are never refused
  by the rate limiter, reindexed audit logs give the activities of live processing, reindexed events
  do not, and a run can go on forever.
\<close>

section \<open>The rate limit\<close>

text \<open>
  The bucket is at least as large as a page, so a page of the requested size is never refused:
  with a bucket that grants every reservation of at most its burst, as x/time/rate documents, the
  loop waits or is cancelled, and reports no exceeded rate. A doubled limit does not overflow.
\<close>

theorem rate_limit_never_exceeded:
  assumes "burstOf opts = Some burst" "\<And>n k. k \<le> burst \<Longrightarrow> reReserve env burst n k \<noteq> None"
    and "int (length batch) \<le> opBatchSize opts" "opRateLimit opts < 2 ^ 31"
  shows "fst (throttle env (Some burst) (length batch) st) \<in> {None, Some ctxErr} \<and> 1 \<le> burst \<and> opBatchSize opts \<le> burst
     \<and> (opBatchSize opts < 2 ^ 31 \<longrightarrow> burst < 2 ^ 63)"
proof -
  have b: "1 \<le> burst" "opBatchSize opts \<le> burst" "opBatchSize opts < 2 ^ 31 \<Longrightarrow> burst < 2 ^ 63"
    using assms(1,4) by (auto simp: burstOf_def NewRateLimiter_def Let_def split: if_splits)
  with assms(3) have "reReserve env burst (rsReservations st) (int (length batch)) \<noteq> None" by (intro assms(2)) simp
  with b show ?thesis by (auto simp: throttle_def Wait_def Let_def look_def split: option.splits bool.splits)
qed

lemma rate_limit_never_exceeded_witness:
  "fst (throttle (reindexExampleEnv (\<lambda>_. Stored)) (Some 1000) 1000 reindexStart) \<in> {None, Some ctxErr}"
  using rate_limit_never_exceeded [of "\<lparr>opStartTime = 0, opEndTime = 1, opBatchSize = 1000, opRateLimit = 100, opDryRun = False, opPolicyNames = [], opMatchLabels = []\<rparr>"
      1000 "reindexExampleEnv (\<lambda>_. Stored)" "replicate 1000 ()" reindexStart]
  by (simp add: reindexExampleEnv_def burstOf_def NewRateLimiter_def)

section \<open>Reindexed and live activities\<close>

definition activitiesOf :: "expected list \<Rightarrow> Activity list" where
  "activitiesOf xs = List.map_filter (\<lambda>x. case x of ExpActivity a \<Rightarrow> Some a | ExpFailure _ \<Rightarrow> None) xs"

lemma activitiesOf_simps [simp]:
  "activitiesOf [] = []" "activitiesOf (ExpActivity a # xs) = a # activitiesOf xs" "activitiesOf (ExpFailure f # xs) = activitiesOf xs"
  by (simp_all add: activitiesOf_def List.map_filter_simps)

text \<open>The two services are set up alike: the same engine, encoding, resolver and clock.\<close>

definition sameSetup :: "('a, 'p) reindex_env \<Rightarrow> ('a, 'p) ProcessorEnv \<Rightarrow> bool" where
  "sameSetup env live \<longleftrightarrow> reEngine env = peEngine live \<and> reAuditToMap env = peAuditToMap live \<and> reResolveKind env = peResolveKind live
     \<and> reNow env = peNow live"

definition labelled :: "Activity \<Rightarrow> Activity \<Rightarrow> bool" where
  "labelled a a' \<longleftrightarrow> (\<exists>name. a' = withPolicyName name a)"

lemma firstActivity_live:
  assumes "sameSetup env live"
  shows "list_all2 labelled (activitiesOf (expectedOutcomes live payload audit am res tenant ps))
    (case firstActivity env am audit ps of None \<Rightarrow> [] | Some a \<Rightarrow> [a])"
proof (induction ps)
  case (Cons p ps)
  with assms show ?case
    by (auto simp: sameSetup_def evaluateCompiledAuditRules_def labelled_def split: sum.splits option.splits)
qed simp

lemma evaluateAudit_live:
  assumes "sameSetup env live" "peUnmarshal live payload = Inr audit"
  shows "list_all2 labelled (activitiesOf (auditOutcomes live cache payload)) (case evaluateAudit env cache audit of None \<Rightarrow> [] | Some a \<Rightarrow> [a])"
proof (cases "auditObjectRef audit")
  case (Some ref)
  with assms firstActivity_live [OF assms(1)] show ?thesis
    by (auto simp: auditOutcomes_def evaluateAudit_def Let_def sameSetup_def split: sum.splits)
qed (use assms in \<open>simp add: auditOutcomes_def evaluateAudit_def\<close>)

text \<open>
  C15: reindexing audit logs gives exactly the activities that live processing of the same messages
  gives with the same policies, in the same order, each with the policy's name as one more label.
  In particular name and origin agree, so the stored activity is replaced and not duplicated.
\<close>

theorem reindexed_audit_equals_live:
  assumes "sameSetup env live" "list_all2 (\<lambda>payload audit. peUnmarshal live payload = Inr audit) payloads audits"
  shows "list_all2 labelled (concat (map (\<lambda>m. activitiesOf (auditOutcomes live cache m)) payloads)) (evaluateAuditBatch env cache audits)"
  using assms(2)
proof (induction rule: list_all2_induct)
  case (Cons m ms a as)
  have "evaluateAuditBatch env cache (a # as) = (case evaluateAudit env cache a of None \<Rightarrow> [] | Some x \<Rightarrow> [x]) @ evaluateAuditBatch env cache as"
    by (simp add: evaluateAuditBatch_def List.map_filter_simps split: option.split)
  with Cons evaluateAudit_live [OF assms(1) Cons(1)] show ?case by (simp add: list_all2_appendI)
qed (simp add: evaluateAuditBatch_def List.map_filter_simps)

lemma reindexed_audit_equals_live_witness:
  "list_all2 labelled (concat (map (\<lambda>m. activitiesOf (auditOutcomes (exampleEnv (\<lambda>_. Stored)) (Add varEngine (examplePolicy ''p'' ''s'') ''pods'' NewPolicyCache) m)) [JValue VNull]))
     (evaluateAuditBatch (reindexExampleEnv (\<lambda>_. Stored)) (Add varEngine (examplePolicy ''p'' ''s'') ''pods'' NewPolicyCache) [exampleAudit])"
  by (rule reindexed_audit_equals_live) (simp_all add: sameSetup_def exampleEnv_def reindexExampleEnv_def)

text \<open>
  C39: the map that a stored event is turned into for reindexing has no annotations and carries its
  time as a time value, while tenant and source are read from annotations and the timestamp only
  from texts. So every activity reindexed from an event belongs to the platform, whatever tenant
  the event was recorded for, is dated at the time of the reindexing, and its origin lacks the plane
  and the cluster: it is another activity than the live one of the same federated event.
\<close>

theorem reindexed_events_lose_tenant_and_time:
  assumes "evaluateEvent env cache (eventRecordToMap e) = Some a"
  shows "specTenant (actSpec a) = \<lparr>tenantType = TenantTypePlatform, tenantName = ''''\<rparr> \<and> specSource (actSpec a) = None
     \<and> originID (specOrigin (actSpec a)) = evUID e \<and> actCreationTimestamp a = reNow env"
proof -
  let ?m = "eventRecordToMap e"
  have an: "eventAnnotations ?m = []" by (simp add: eventAnnotations_def eventRecordToMap_def)
  have src: "ExtractSourceFromAnnotations ?m = emptySource" and t: "ExtractTenantFromAnnotations ?m = \<lparr>tenantType = TenantTypePlatform, tenantName = ''''\<rparr>"
    by (simp_all add: ExtractSourceFromAnnotations_def ExtractTenantFromAnnotations_def an emptySource_def getStringFromMap_def)
  have oid: "qualifiedOriginID emptySource (eventUID ?m) = evUID e"
    by (simp add: eventUID_def eventRecordToMap_def getStringFromMap_def qualifiedOriginID_def emptySource_def PrefixWithSource_def)
  have time: "resolveEventTimestamp ?m now = now" for now
    by (simp add: resolveEventTimestamp_def timeCandidate_def getStringFromMap_def eventRecordToMap_def split: option.split)
  from assms obtain b name s l bld where "a = withPolicyName name b" "BuildFromEvent bld ?m s l (Some (reResolveKind env)) (reNow env) = Inr b"
    by (auto simp: evaluateEvent_def Let_def split: option.splits sum.splits if_splits)
  then show ?thesis
    unfolding BuildFromEvent_def src t time oid Let_def
    by (auto simp: withPolicyName_def split: sum.splits prod.splits)
qed
definition tenantEvent :: EventV1 where
  "tenantEvent = \<lparr>evNamespace = ''default'', evName = ''web.1'', evUID = ''u-9'', evResourceVersion = ''7'',
     evAnnotations = [(ScopeTypeAnnotation, ''Project''), (ScopeNameAnnotation, ''p'')],
     evRegarding = \<lparr>refAPIVersion = ''v1'', refKind = ''Pod'', refNamespace = ''default'', refName = ''web'', refUID = ''u-1'', refResourceVersion = '''', refFieldPath = ''''\<rparr>,
     evRelated = None, evReason = ''Started'', evNote = ''started'', evType = ''Normal'', evAction = ''Start'',
     evReportingController = ''kubelet'', evReportingInstance = ''n1'', evEventTime = 5 * second, evFirstTimestamp = 5 * second,
     evLastTimestamp = 5 * second, evCount = 1, evSeries = None\<rparr>"

lemma reindexed_events_lose_tenant_and_time_witness:
  "\<exists>a. evaluateEvent (reindexExampleEnv (\<lambda>_. Stored)) (Add varEngine (examplePolicy ''p'' ''seen'') ''pods'' NewPolicyCache) (eventRecordToMap tenantEvent) = Some a
     \<and> tenantType (specTenant (actSpec a)) = TenantTypePlatform \<and> actCreationTimestamp a = 7"
proof -
  let ?c = "Add varEngine (examplePolicy ''p'' ''seen'') ''pods'' NewPolicyCache"
  let ?e = "reindexExampleEnv (\<lambda>_. Stored)"
  let ?m = "eventRecordToMap tenantEvent"
  have "case MatchEvent varEngine ?c '''' ''Pod'' ?m of Inr (Some m) \<Rightarrow> mpLinks m = [] | _ \<Rightarrow> False" by code_simp
  then obtain m where m: "MatchEvent varEngine ?c '''' ''Pod'' ?m = Inr (Some m)" "mpLinks m = []"
    by (auto split: sum.splits option.splits)
  have r: "ResolveInvolvedObject ?m = Some [(''apiVersion'', VStr ''v1''), (''kind'', VStr ''Pod''), (''name'', VStr ''web''),
      (''namespace'', VStr ''default''), (''uid'', VStr ''u-1'')]"
    by (simp add: ResolveInvolvedObject_def eventRecordToMap_def tenantEvent_def refMap_def)
  have "evaluateEvent ?e ?c ?m \<noteq> None"
    by (simp add: evaluateEvent_def r m reindexExampleEnv_def BuildFromEvent_def Let_def split: prod.splits)
  then obtain a where a: "evaluateEvent ?e ?c (eventRecordToMap tenantEvent) = Some a" by blast
  from reindexed_events_lose_tenant_and_time [OF a] a show ?thesis by (simp add: reindexExampleEnv_def)
qed
section \<open>A reindexing that never ends\<close>

text \<open>A table of two audit events of one instant, whose responses came four nanoseconds after the requests.\<close>

definition lateTable :: "row list" where
  "lateTable = [sampleAuditRow ''bob'' ''1'', sampleAuditRow ''alice'' ''2'']"

definition lateEvent :: StoredAudit where
  "lateEvent = \<lparr>saStageTimestamp = 9, saAuditID = ''1'', saEvent = exampleAudit\<rparr>"

definition lateOptions :: Options where
  "lateOptions = \<lparr>opStartTime = 0, opEndTime = 60 * second, opBatchSize = 1, opRateLimit = 0, opDryRun = True, opPolicyNames = [], opMatchLabels = []\<rparr>"

definition lateSpec :: AuditLogQuerySpec where
  "lateSpec = \<lparr>aqStartTime = formatRFC3339 0, aqEndTime = formatRFC3339 (60 * second), aqFilter = '''', aqLimit = 1, aqContinue = ''''\<rparr>"

definition lateCodec :: "cursorData json_codec" where
  "lateCodec = oneObjectCodec \<lparr>cdTimestamp = 9, cdAuditID = ''1'', cdQueryHash = hashQueryParams lateSpec, cdIssuedAt = 120 * second\<rparr>"

definition lateAPI :: "(AuditLogQuerySpec, AuditEvent) query_api" where
  "lateAPI spec =
     (case QueryAuditLogs sampleCfg sampleCompile lateCodec (\<lambda>_. Some lateEvent) (tableDriver sampleSem lateTable) (120 * second) spec
             \<lparr>scopeType = TenantTypePlatform, scopeName = ''''\<rparr> of
        Inl _ \<Rightarrow> Inl ''query failed''
      | Inr (events, cursor) \<Rightarrow> Inr (map saEvent events, cursor))"

definition lateToken :: string where
  "lateToken = encodeCursor lateCodec (120 * second) 9 ''1'' lateSpec"

lemma lateToken_decodes:
  "decodeCursor lateCodec (120 * second) lateToken (lateSpec\<lparr>aqContinue := c\<rparr>) = Inr (9, ''1'')" "lateToken \<noteq> []"
proof -
  have z: "\<not> isZeroTime (120 * second)" by (simp add: isZeroTime_def zeroTime_def second_def)
  have h: "hashQueryParams (lateSpec\<lparr>aqContinue := c\<rparr>) = hashQueryParams lateSpec" by (simp add: hashQueryParams_def)
  show "decodeCursor lateCodec (120 * second) lateToken (lateSpec\<lparr>aqContinue := c\<rparr>) = Inr (9, ''1'')"
    unfolding lateToken_def encodeCursor_def decodeCursor_def b64_roundtrip h using z by (simp add: lateCodec_def oneObjectCodec_def cursorTTL_def duration_defs)
  show "lateToken \<noteq> []" unfolding lateToken_def encodeCursor_def lateCodec_def oneObjectCodec_def by simp
qed

lemma lateAPI_page:
  assumes "c = '''' \<or> c = lateToken"
  shows "lateAPI (lateSpec\<lparr>aqContinue := c\<rparr>) = Inr ([exampleAudit], lateToken)"
proof -
  let ?times = "[CCompare ''timestamp'' ''>='' (ATime 0), CCompare ''timestamp'' ''<'' (ATime (60 * second))]"
  let ?cur = "if c = '''' then [] else [CAfterCursor ''audit_id'' 9 ''1'']"
  have p: "ParseFlexibleTime (formatRFC3339 0) (120 * second) = Inr 0" "ParseFlexibleTime (formatRFC3339 (60 * second)) (120 * second) = Inr (60 * second)"
    "formatRFC3339 0 \<noteq> []" "formatRFC3339 (60 * second) \<noteq> []"
    by code_simp+
  have times: "timeConds ''timestamp'' (formatRFC3339 0) (formatRFC3339 (60 * second)) (120 * second) = Inr ?times"
    using p by (simp add: timeConds_def timeCond_def)
  have cur: "auditCursorConds lateCodec (120 * second) (lateSpec\<lparr>aqContinue := c\<rparr>) = Inr ?cur"
    using assms lateToken_decodes(1) lateToken_decodes(2) by (auto simp: auditCursorConds_def)
  define q where "q = \<lparr>sqSelect = ''SELECT event_json FROM '' @ cfgDatabase sampleCfg @ ''.audit_logs'', sqConds = ?times @ ?cur, sqGroup = '''',
      sqOrder = auditOrder \<lparr>scopeType = TenantTypePlatform, scopeName = ''''\<rparr> '''',
      sqOrderText = descOrder (auditOrder \<lparr>scopeType = TenantTypePlatform, scopeName = ''''\<rparr> ''''),
      sqLimit = wrap32 (pageLimit (cfgMaxPageSize sampleCfg) 1 + 1), sqOffset = None\<rparr>"
  have build: "buildQuery sampleCfg sampleCompile lateCodec (120 * second) (120 * second) (lateSpec\<lparr>aqContinue := c\<rparr>) \<lparr>scopeType = TenantTypePlatform, scopeName = ''''\<rparr> = Inr q"
    using times cur by (simp add: buildQuery_def lateSpec_def filterConds_def auditScopeConds_def q_def)
  have hr: "semHour sampleSem 5 = semHour sampleSem 9" by (simp add: sampleSem_def duration_defs)
  have sel: "selected sampleSem q lateTable = lateTable"
    by (auto simp: selected_def lateTable_def q_def condHolds_def sampleAuditRow_def Let_def second_def hr)
  have lim: "sqLimit q = 2" "sqOffset q = None" by (simp_all add: q_def wrap32_def pageLimit_def sampleCfg_def)
  have "runQuery sampleSem lateTable q = take 2 (ordered sampleSem (sqOrder q) lateTable)" by (simp add: runQuery_def sel lim)
  moreover have "length lateTable = 2" by (simp add: lateTable_def)
  ultimately have "length (runQuery sampleSem lateTable q) = 2" "set (runQuery sampleSem lateTable q) \<subseteq> set lateTable"
    by (simp_all add: ordered_def)
  then have rows: "map (Some \<circ> rowJSON) (runQuery sampleSem lateTable q) = [Some [], Some []]"
    by (cases "runQuery sampleSem lateTable q") (auto simp: lateTable_def sampleAuditRow_def length_Suc_conv numeral_2_eq_2)
  have "encodeCursor lateCodec (120 * second) 9 ''1'' (lateSpec\<lparr>aqContinue := c\<rparr>) = lateToken"
    by (simp add: lateToken_def encodeCursor_def hashQueryParams_def)
  then show ?thesis
    using build rows
    by (simp add: lateAPI_def QueryAuditLogs_def tableDriver_def readRows_def cutPage_def pageLimit_def sampleCfg_def lateSpec_def lateEvent_def)
qed

text \<open>
  A reindexing of audit logs can go on forever. The cursor of an audit page admits its last
  row again when the response is later than the request; with a table of two such rows and pages
  of one, every page is the same and carries the same cursor, so that no number of rounds is enough
  for the loop to end, although nothing fails and nothing is added to the table.
\<close>

theorem reindex_can_run_forever:
  "processAuditLogs (reindexExampleEnv (\<lambda>_. Stored)) NewPublisher NewPolicyCache lateAPI lateOptions fuel reindexStart = None"
proof -
  let ?env = "reindexExampleEnv (\<lambda>_. Stored)"
  have f: "slFetch (auditLoop ?env NewPolicyCache lateAPI lateOptions) c = Inr ([exampleAudit], lateToken)" if "c = '''' \<or> c = lateToken" for c
    using lateAPI_page [OF that] by (simp add: auditLoop_def fetchAuditLogBatch_def lateOptions_def lateSpec_def)
  have "processBatches ?env NewPublisher None True (auditLoop ?env NewPolicyCache lateAPI lateOptions) fuel c n st = None"
    if "c = '''' \<or> c = lateToken" for c n st
    using that
  proof (induction fuel arbitrary: c n st)
    case (Suc fuel)
    have cont: "reCancelled ?env k = False" for k by (simp add: reindexExampleEnv_def)
    show ?case
      using Suc.IH [of lateToken] f [OF Suc.prems] lateToken_decodes(2) by (simp add: look_def cont publishBatch_def throttle_def Let_def)
  qed simp
  then show ?thesis by (simp add: processAuditLogs_def lateOptions_def burstOf_def)
qed
end
