(* ===== verification/Event_Exporter.thy ===== *)
theory Event_Exporter
  imports Watch "HOL-Library.Sublist"
begin

text \<open>
  The event exporter of a workload cluster: internal/eventexporter (exporter.go, scope.go,
  identity.go), and the endpoint settings of internal/natsconn/endpoint.go. The informer's callback
  queues events in a bounded channel, one goroutine publishes them, and acknowledgements arrive
  later. The namespace lister, the location service, JSON encoding, certificate loading and the
  broker's answers are parameters; logs and metrics other than the counted drops and errors are left
  out. The life of the process and its probes are in Exporter_Life.
\<close>

section \<open>natsconn\<close>

record TLSFiles =
  tlsEnabled :: bool
  tlsCertFile :: string
  tlsKeyFile :: string
  tlsCAFile :: string

definition TLSIsZero :: "TLSFiles \<Rightarrow> bool" where
  "TLSIsZero t = (\<not> tlsEnabled t \<and> tlsCertFile t = '''' \<and> tlsKeyFile t = '''' \<and> tlsCAFile t = '''')"

definition InheritFrom :: "TLSFiles \<Rightarrow> TLSFiles \<Rightarrow> TLSFiles" where
  "InheritFrom t base =
     (if TLSIsZero t then base
      else t\<lparr>tlsCertFile := (if tlsCertFile t = '''' then tlsCertFile base else tlsCertFile t),
             tlsKeyFile := (if tlsKeyFile t = '''' then tlsKeyFile base else tlsKeyFile t),
             tlsCAFile := (if tlsCAFile t = '''' then tlsCAFile base else tlsCAFile t)\<rparr>)"

text \<open>
  The client certificate and the authorities of a TLS configuration. \<open>loadPair\<close> is
  \<open>tls.LoadX509KeyPair\<close>, \<open>readCA\<close> reads a file and \<open>parseCA\<close> says whether it holds a certificate.
\<close>

record 'c tls_files_env =
  tfLoadPair :: "string \<Rightarrow> string \<Rightarrow> string + 'c"
  tfReadCA :: "string \<Rightarrow> string + string"
  tfParseCA :: "string \<Rightarrow> bool"

definition clientCertificate :: "'c tls_files_env \<Rightarrow> TLSFiles \<Rightarrow> string + 'c option" where
  "clientCertificate env t =
     (if tlsCertFile t \<noteq> '''' \<and> tlsKeyFile t \<noteq> ''''
      then (case tfLoadPair env (tlsCertFile t) (tlsKeyFile t) of
              Inl err \<Rightarrow> Inl (''failed to load NATS client certificate: '' @ err)
            | Inr cert \<Rightarrow> Inr (Some cert))
      else if tlsCertFile t \<noteq> '''' then Inl (''failed to load NATS client certificate: no key file configured for '' @ tlsCertFile t)
      else if tlsKeyFile t \<noteq> '''' then Inl (''failed to load NATS client certificate: no certificate file configured for '' @ tlsKeyFile t)
      else Inr None)"

definition TLSConfig :: "'c tls_files_env \<Rightarrow> TLSFiles \<Rightarrow> string + 'c option \<times> string option" where
  "TLSConfig env t =
     bind_r (clientCertificate env t)
       (\<lambda>cert. if tlsCAFile t = '''' then Inr (cert, None)
          else (case tfReadCA env (tlsCAFile t) of
                  Inl err \<Rightarrow> Inl (''failed to read NATS CA certificate: '' @ err)
                | Inr pem \<Rightarrow> if tfParseCA env pem then Inr (cert, Some pem) else Inl ''failed to parse NATS CA certificate''))"

record Endpoint =
  epURL :: string
  epTLS :: TLSFiles

definition EndpointIsSet :: "Endpoint \<Rightarrow> bool" where
  "EndpointIsSet e = (epURL e \<noteq> '''')"

text \<open>The name, the caller's options and, with TLS, the configuration that \<open>Connect\<close> dials with.\<close>

definition endpointOptions ::
  "'c tls_files_env \<Rightarrow> Endpoint \<Rightarrow> string \<Rightarrow> 'o list \<Rightarrow> string + (string \<times> 'o list \<times> ('c option \<times> string option) option)" where
  "endpointOptions env e name extra =
     (if tlsEnabled (epTLS e)
      then (case TLSConfig env (epTLS e) of
              Inl err \<Rightarrow> Inl (''failed to build NATS TLS config: '' @ err)
            | Inr cfg \<Rightarrow> Inr (name, extra, Some cfg))
      else Inr (name, extra, None))"

section \<open>scope.go\<close>

definition upstreamClusterNameLabel :: string where "upstreamClusterNameLabel = ''meta.datumapis.com/upstream-cluster-name''"
definition upstreamNamespaceLabel :: string where "upstreamNamespaceLabel = ''meta.datumapis.com/upstream-namespace''"

record eventScope =
  escType :: string
  escName :: string
  escNamespace :: string

definition upstreamClusterNameFromLabel :: "string \<Rightarrow> string" where
  "upstreamClusterNameFromLabel v =
     trimPrefix (trimPrefix (map (\<lambda>c. if c = CHR ''_'' then CHR ''/'' else c) v) ''cluster-'') ''/''"

text \<open>\<open>lister\<close> gives the labels of a namespace it knows.\<close>

definition ResolveScope :: "(string \<Rightarrow> (string \<times> string) list option) \<Rightarrow> string \<Rightarrow> eventScope option" where
  "ResolveScope lister namespace =
     (case lister namespace of
        None \<Rightarrow> None
      | Some labels \<Rightarrow>
          (let project = upstreamClusterNameFromLabel (annotationOf labels upstreamClusterNameLabel);
               upstreamNamespace = annotationOf labels upstreamNamespaceLabel
           in if project = '''' then None
              else if upstreamNamespace = '''' then None
              else Some \<lparr>escType = TenantTypeProject, escName = project, escNamespace = upstreamNamespace\<rparr>))"

section \<open>identity.go\<close>

text \<open>
  What the location service answers: an error, or whether the identity was delivered to this cell
  and its name; and the read of the delivered location with its city code.
\<close>

datatype location_reply = LocationError | LocationConfigured string | LocationDelivered string

definition locationResolveRetryInterval :: int where "locationResolveRetryInterval = 30 * second"
definition locationResolveInterval :: int where "locationResolveInterval = 5 * minute"

text \<open>Whether the city was resolved, and the cached city afterwards.\<close>

definition resolveOnce :: "location_reply \<Rightarrow> (string \<Rightarrow> string option) \<Rightarrow> string \<Rightarrow> bool \<times> string" where
  "resolveOnce reply readCity city =
     (case reply of
        LocationDelivered name \<Rightarrow> (case readCity name of None \<Rightarrow> (False, city) | Some code \<Rightarrow> (True, code))
      | _ \<Rightarrow> (False, city))"

text \<open>The ticks of the resolver's loop: the interval and the city after each attempt.\<close>

fun cityTicks :: "(location_reply \<times> (string \<Rightarrow> string option)) list \<Rightarrow> int \<times> string \<Rightarrow> int \<times> string" where
  "cityTicks [] s = s"
| "cityTicks ((reply, readCity) # rest) (interval, city) =
     (let (ok, city') = resolveOnce reply readCity city
      in cityTicks rest (if ok \<and> interval \<noteq> locationResolveInterval then locationResolveInterval else interval, city'))"

definition cityRun :: "location_reply \<times> (string \<Rightarrow> string option) \<Rightarrow> (location_reply \<times> (string \<Rightarrow> string option)) list \<Rightarrow> string \<Rightarrow> int \<times> string" where
  "cityRun attempt rest city =
     (let (ok, city') = resolveOnce (fst attempt) (snd attempt) city
      in cityTicks rest (if ok then locationResolveInterval else locationResolveRetryInterval, city'))"

section \<open>exporter.go\<close>

definition planeTypeEdge :: string where "planeTypeEdge = ''edge''"
definition publishQueueSize :: nat where "publishQueueSize = 1000"

text \<open>\<open>xpScope\<close> is present on an edge deployment, \<open>xpCity\<close> when the deployment resolves its city.\<close>

record Exporter =
  xpSubjectPrefix :: string
  xpScopeType :: string
  xpScopeName :: string
  xpPlaneType :: string
  xpClusterName :: string
  xpClusterRegion :: string
  xpScope :: "(string \<Rightarrow> (string \<times> string) list option) option"
  xpCity :: "string option"

definition resolveScope :: "Exporter \<Rightarrow> string \<Rightarrow> eventScope" where
  "resolveScope e namespace =
     (case xpScope e of
        Some lister \<Rightarrow>
          if xpPlaneType e \<noteq> planeTypeEdge then \<lparr>escType = xpScopeType e, escName = xpScopeName e, escNamespace = ''''\<rparr>
          else (case ResolveScope lister namespace of Some scope \<Rightarrow> scope | None \<Rightarrow> \<lparr>escType = '''', escName = '''', escNamespace = ''''\<rparr>)
      | None \<Rightarrow> \<lparr>escType = xpScopeType e, escName = xpScopeName e, escNamespace = ''''\<rparr>)"

definition stampExportScope :: "Exporter \<Rightarrow> (string \<times> string) list \<Rightarrow> string \<Rightarrow> (string \<times> string) list" where
  "stampExportScope e annotations namespace =
     (let scope = resolveScope e namespace;
          a = setAnnotation ScopeNameAnnotation (escName scope) (setAnnotation ScopeTypeAnnotation (escType scope) annotations)
      in if escNamespace scope \<noteq> '''' then setAnnotation ScopeNamespaceAnnotation (escNamespace scope) a else a)"

definition sourceAnnotations :: "Exporter \<Rightarrow> string \<times> string \<times> string \<times> string" where
  "sourceAnnotations e = (xpPlaneType e, xpClusterName e, xpClusterRegion e, case xpCity e of Some c \<Rightarrow> c | None \<Rightarrow> '''')"

definition qualifiedMsgID :: "Exporter \<Rightarrow> EventV1 \<Rightarrow> string \<Rightarrow> string" where
  "qualifiedMsgID e event eventType =
     (let msgID = (if eventType = ''MODIFIED'' then evUID event @ ''-'' @ evResourceVersion event else evUID event)
      in PrefixWithSource (xpPlaneType e) (xpClusterName e) msgID)"

definition FederatedCluster :: "string \<Rightarrow> string \<Rightarrow> string" where
  "FederatedCluster planeType clusterName = (if planeType = '''' \<or> clusterName = '''' then '''' else clusterName)"

definition exportSubject :: "Exporter \<Rightarrow> string \<Rightarrow> string" where
  "exportSubject e namespace = EventSubject (xpSubjectPrefix e) (FederatedCluster (xpPlaneType e) (xpClusterName e)) namespace"

text \<open>The inbox prefix of the connection, when the options set one.\<close>

definition natsInboxPrefix :: "string \<Rightarrow> string \<Rightarrow> string option" where
  "natsInboxPrefix planeType clusterName =
     (if FederatedCluster planeType clusterName \<noteq> '''' then Some (EventInboxPrefix (FederatedCluster planeType clusterName)) else None)"

text \<open>The event as it is published; its type is set to events.k8s.io/v1, which this record always is.\<close>

definition exportedEvent :: "Exporter \<Rightarrow> EventV1 \<Rightarrow> EventV1" where
  "exportedEvent e event =
     (let (planeType, cluster, region, city) = sourceAnnotations e
      in event\<lparr>evAnnotations :=
           setAnnotation SourceCityAnnotation city (setAnnotation SourceRegionAnnotation region
             (setAnnotation SourceClusterAnnotation cluster (setAnnotation SourcePlaneTypeAnnotation planeType
               (stampExportScope e (evAnnotations event) (evNamespace event)))))\<rparr>)"

record eventJob =
  ejEvent :: EventV1
  ejType :: string

record export_message =
  emxSubject :: string
  emxMsgID :: string
  emxEvent :: EventV1

text \<open>Publishing: the encoding fails, the broker takes no publish, or the message is in flight.\<close>

datatype publish_reply = MarshalFailed string | PublishFailed string | InFlight

definition publishEvent :: "Exporter \<Rightarrow> publish_reply \<Rightarrow> EventV1 \<Rightarrow> string \<Rightarrow> string + export_message" where
  "publishEvent e reply event eventType =
     (case reply of
        MarshalFailed err \<Rightarrow> Inl (''failed to marshal event: '' @ err)
      | PublishFailed err \<Rightarrow> Inl (''failed to publish to NATS: '' @ err)
      | InFlight \<Rightarrow>
          Inr \<lparr>emxSubject = exportSubject e (evNamespace event), emxMsgID = qualifiedMsgID e event eventType, emxEvent = exportedEvent e event\<rparr>)"

text \<open>
  The exporter at work. The queue's content, the jobs dropped, the messages handed to the broker in
  order, those in flight and those acknowledged, the error counter, and whether it has stopped.
\<close>

record exporter_state =
  xsQueue :: "eventJob list"
  xsDropped :: "eventJob list"
  xsSent :: "export_message list"
  xsInFlight :: "export_message list"
  xsPublished :: "export_message list"
  xsErrors :: nat
  xsStopped :: bool

definition tryEnqueue :: "nat \<Rightarrow> eventJob \<Rightarrow> exporter_state \<Rightarrow> bool \<times> exporter_state" where
  "tryEnqueue cap job st = (if length (xsQueue st) < cap then (True, st\<lparr>xsQueue := xsQueue st @ [job]\<rparr>) else (False, st))"

definition evictOldest :: "exporter_state \<Rightarrow> exporter_state" where
  "evictOldest st =
     (case xsQueue st of
        [] \<Rightarrow> st
      | job # rest \<Rightarrow> st\<lparr>xsQueue := rest, xsDropped := xsDropped st @ [job]\<rparr>)"

text \<open>What the informer's update callback queues, given the old object when it is an event.\<close>

definition onUpdate :: "EventV1 option \<Rightarrow> EventV1 option \<Rightarrow> eventJob option" where
  "onUpdate oldObj newObj =
     (case newObj of
        None \<Rightarrow> None
      | Some event \<Rightarrow>
          if (case oldObj of Some old \<Rightarrow> evResourceVersion old = evResourceVersion event | None \<Rightarrow> False) then None
          else Some \<lparr>ejEvent = event, ejType = ''MODIFIED''\<rparr>)"

text \<open>One job of \<open>drainQueue\<close>. The context may be cancelled between the receive and the publish.\<close>

definition drainOne :: "Exporter \<Rightarrow> bool \<Rightarrow> publish_reply \<Rightarrow> exporter_state \<Rightarrow> exporter_state" where
  "drainOne e cancelled reply st =
     (case xsQueue st of
        [] \<Rightarrow> st
      | job # rest \<Rightarrow>
          (let st1 = st\<lparr>xsQueue := rest\<rparr>
           in if cancelled then st1\<lparr>xsStopped := True\<rparr>
              else (case publishEvent e reply (ejEvent job) (ejType job) of
                      Inl _ \<Rightarrow> st1\<lparr>xsErrors := Suc (xsErrors st1)\<rparr>
                    | Inr msg \<Rightarrow> st1\<lparr>xsSent := xsSent st1 @ [msg], xsInFlight := xsInFlight st1 @ [msg]\<rparr>)))"

text \<open>An acknowledgement, or its failure, for the i-th message in flight.\<close>

definition awaitAck :: "nat \<Rightarrow> bool \<Rightarrow> exporter_state \<Rightarrow> exporter_state" where
  "awaitAck i ok st =
     (if i < length (xsInFlight st)
      then (let st1 = st\<lparr>xsInFlight := take i (xsInFlight st) @ drop (Suc i) (xsInFlight st)\<rparr>
            in if ok then st1\<lparr>xsPublished := xsPublished st1 @ [xsInFlight st ! i]\<rparr> else st1\<lparr>xsErrors := Suc (xsErrors st1)\<rparr>)
      else st)"

text \<open>
  The callback and the publishing goroutine interleave between the channel operations. The callback
  is idle, about to evict, or about to try again; it runs for one event at a time. The world keeps
  what came from outside: the jobs accepted, the outcome of each publish that was tried, and
  whether each message was acknowledged or its acknowledgement failed. \<open>stop\<close> is the cancelled
  context seen between two jobs, \<open>drain\<close> with \<open>cancelled\<close> the one seen after a receive.
\<close>

datatype producer = Idle | Evicting eventJob | Retrying eventJob

record exporter_world =
  xwState :: exporter_state
  xwProducer :: producer
  xwAccepted :: "eventJob list"
  xwReplies :: "publish_reply list"
  xwAcks :: "bool list"

inductive exporterStep :: "Exporter \<Rightarrow> nat \<Rightarrow> exporter_world \<Rightarrow> exporter_world \<Rightarrow> bool" for e cap where
  enqueue_fits: "xwProducer w = Idle \<Longrightarrow> tryEnqueue cap job (xwState w) = (True, st') \<Longrightarrow>
    exporterStep e cap w (w\<lparr>xwState := st', xwAccepted := xwAccepted w @ [job]\<rparr>)"
| enqueue_full: "xwProducer w = Idle \<Longrightarrow> tryEnqueue cap job (xwState w) = (False, st') \<Longrightarrow>
    exporterStep e cap w (w\<lparr>xwState := st', xwProducer := Evicting job\<rparr>)"
| evict: "xwProducer w = Evicting job \<Longrightarrow>
    exporterStep e cap w (w\<lparr>xwState := evictOldest (xwState w), xwProducer := Retrying job\<rparr>)"
| retry_fits: "xwProducer w = Retrying job \<Longrightarrow> tryEnqueue cap job (xwState w) = (True, st') \<Longrightarrow>
    exporterStep e cap w (w\<lparr>xwState := st', xwProducer := Idle, xwAccepted := xwAccepted w @ [job]\<rparr>)"
| retry_drops: "xwProducer w = Retrying job \<Longrightarrow> tryEnqueue cap job (xwState w) = (False, st') \<Longrightarrow>
    exporterStep e cap w (w\<lparr>xwState := st'\<lparr>xsDropped := xsDropped st' @ [job]\<rparr>, xwProducer := Idle\<rparr>)"
| drain: "\<not> xsStopped (xwState w) \<Longrightarrow> xsQueue (xwState w) \<noteq> [] \<Longrightarrow>
    exporterStep e cap w (w\<lparr>xwState := drainOne e cancelled reply (xwState w),
      xwReplies := xwReplies w @ (if cancelled then [] else [reply])\<rparr>)"
| stop: "exporterStep e cap w (w\<lparr>xwState := (xwState w)\<lparr>xsStopped := True\<rparr>\<rparr>)"
| ack: "i < length (xsInFlight (xwState w)) \<Longrightarrow>
    exporterStep e cap w (w\<lparr>xwState := awaitAck i ok (xwState w), xwAcks := xwAcks w @ [ok]\<rparr>)"

definition emptyExporter :: exporter_world where
  "emptyExporter = \<lparr>xwState = \<lparr>xsQueue = [], xsDropped = [], xsSent = [], xsInFlight = [], xsPublished = [], xsErrors = 0, xsStopped = False\<rparr>,
     xwProducer = Idle, xwAccepted = [], xwReplies = [], xwAcks = []\<rparr>"

inductive exporterReach :: "Exporter \<Rightarrow> nat \<Rightarrow> exporter_world \<Rightarrow> bool" for e cap where
  reach_start: "exporterReach e cap emptyExporter"
| reach_next: "exporterReach e cap w \<Longrightarrow> exporterStep e cap w w' \<Longrightarrow> exporterReach e cap w'"

text \<open>The whole callback when nothing comes in between.\<close>

definition enqueueEvent :: "nat \<Rightarrow> eventJob \<Rightarrow> exporter_state \<Rightarrow> exporter_state" where
  "enqueueEvent cap job st =
     (case tryEnqueue cap job st of
        (True, st') \<Rightarrow> st'
      | (False, st') \<Rightarrow>
          (case tryEnqueue cap job (evictOldest st') of
             (True, st'') \<Rightarrow> st''
           | (False, st'') \<Rightarrow> st''\<lparr>xsDropped := xsDropped st'' @ [job]\<rparr>))"

section \<open>The queue\<close>

text \<open>
  What a message carries of the job it was made from: the subject of the event's namespace, the
  object's UID (with its resource version after an update) qualified by the exporting cluster, and
  the event itself up to its annotations.
\<close>

definition carries :: "Exporter \<Rightarrow> eventJob \<Rightarrow> export_message \<Rightarrow> bool" where
  "carries e job m =
     (let ev = ejEvent job
      in emxSubject m = exportSubject e (evNamespace ev)
         \<and> emxMsgID m = PrefixWithSource (xpPlaneType e) (xpClusterName e)
              (if ejType job = ''MODIFIED'' then evUID ev @ ''-'' @ evResourceVersion ev else evUID ev)
         \<and> (emxEvent m)\<lparr>evAnnotations := []\<rparr> = ev\<lparr>evAnnotations := []\<rparr>)"

lemma publishEvent_carries: "publishEvent e reply (ejEvent job) (ejType job) = Inr m \<Longrightarrow> carries e job m"
  by (cases reply) (auto simp: publishEvent_def carries_def qualifiedMsgID_def exportedEvent_def sourceAnnotations_def)

lemma publishEvent_sends: "(\<exists>m. publishEvent e reply ev t = Inr m) \<longleftrightarrow> reply = InFlight"
  by (cases reply) (simp_all add: publishEvent_def)

text \<open>
  The shape of a reachable state: what left the queue was sent, failed, abandoned or dropped; and
  the books of messages, acknowledgements and errors agree with what the broker answered.
\<close>

definition queueInv :: "Exporter \<Rightarrow> nat \<Rightarrow> exporter_world \<Rightarrow> bool" where
  "queueInv e cap w =
     (length (xsQueue (xwState w)) \<le> cap
      \<and> (\<forall>job. xwProducer w = Retrying job \<longrightarrow> length (xsQueue (xwState w)) < cap)
      \<and> (\<exists>removed sent failed abandoned. xwAccepted w = removed @ xsQueue (xwState w)
           \<and> mset removed = mset sent + mset failed + mset abandoned + mset (xsDropped (xwState w))
           \<and> subseq sent removed \<and> list_all2 (carries e) sent (xsSent (xwState w))
           \<and> length failed = length (filter (\<lambda>r. r \<noteq> InFlight) (xwReplies w))
           \<and> length abandoned \<le> of_bool (xsStopped (xwState w))))"

definition booksInv :: "exporter_world \<Rightarrow> bool" where
  "booksInv w =
     (let st = xwState w; refused = length (filter (\<lambda>r. r \<noteq> InFlight) (xwReplies w)) in
        length (xsSent st) = length (filter (\<lambda>r. r = InFlight) (xwReplies w))
        \<and> mset (xsInFlight st) + mset (xsPublished st) \<subseteq># mset (xsSent st)
        \<and> length (xsSent st) = length (xsInFlight st) + length (xwAcks w)
        \<and> length (xsPublished st) = length (filter id (xwAcks w))
        \<and> xsErrors st = refused + length (filter Not (xwAcks w)))"

lemma queueInv_start: "queueInv e cap emptyExporter"
  by (simp add: queueInv_def emptyExporter_def)

lemma booksInv_start: "booksInv emptyExporter"
  by (simp add: booksInv_def emptyExporter_def)

lemma awaitAck_keeps [simp]:
  "xsQueue (awaitAck i ok st) = xsQueue st" "xsDropped (awaitAck i ok st) = xsDropped st" "xsSent (awaitAck i ok st) = xsSent st"
  "xsStopped (awaitAck i ok st) = xsStopped st"
  by (simp_all add: awaitAck_def Let_def)

lemma drainOne_queue:
  "xsQueue st = job # rest \<Longrightarrow> xsQueue (drainOne e c r st) = rest \<and> xsDropped (drainOne e c r st) = xsDropped st
     \<and> xsPublished (drainOne e c r st) = xsPublished st"
  by (auto simp: drainOne_def Let_def split: sum.split)

lemma drainOne_cancelled: "xsQueue st = job # rest \<Longrightarrow> drainOne e True r st = st\<lparr>xsQueue := rest, xsStopped := True\<rparr>"
  by (simp add: drainOne_def)

lemma drainOne_refused:
  "xsQueue st = job # rest \<Longrightarrow> r \<noteq> InFlight \<Longrightarrow> drainOne e False r st = st\<lparr>xsQueue := rest, xsErrors := Suc (xsErrors st)\<rparr>"
  by (cases r) (simp_all add: drainOne_def publishEvent_def)

lemma drainOne_sent:
  assumes "xsQueue st = job # rest"
  obtains m where "carries e job m"
    "drainOne e False InFlight st = st\<lparr>xsQueue := rest, xsSent := xsSent st @ [m], xsInFlight := xsInFlight st @ [m]\<rparr>"
proof -
  obtain m where m: "publishEvent e InFlight (ejEvent job) (ejType job) = Inr m" using publishEvent_sends by blast
  show thesis by (rule that [OF publishEvent_carries [OF m]]) (simp add: drainOne_def assms m)
qed

lemma queueInvE:
  assumes "queueInv e cap w"
  obtains removed sent failed abandoned where "xwAccepted w = removed @ xsQueue (xwState w)"
    "mset removed = mset sent + mset failed + mset abandoned + mset (xsDropped (xwState w))"
    "subseq sent removed" "list_all2 (carries e) sent (xsSent (xwState w))"
    "length failed = length (filter (\<lambda>r. r \<noteq> InFlight) (xwReplies w))" "length abandoned \<le> of_bool (xsStopped (xwState w))"
    "length (xsQueue (xwState w)) \<le> cap" "\<And>job. xwProducer w = Retrying job \<Longrightarrow> length (xsQueue (xwState w)) < cap"
  using assms unfolding queueInv_def by blast

lemma queueInvI:
  "xwAccepted w = removed @ xsQueue (xwState w)
   \<Longrightarrow> mset removed = mset sent + mset failed + mset abandoned + mset (xsDropped (xwState w))
   \<Longrightarrow> subseq sent removed \<Longrightarrow> list_all2 (carries e) sent (xsSent (xwState w))
   \<Longrightarrow> length failed = length (filter (\<lambda>r. r \<noteq> InFlight) (xwReplies w)) \<Longrightarrow> length abandoned \<le> of_bool (xsStopped (xwState w))
   \<Longrightarrow> length (xsQueue (xwState w)) \<le> cap \<Longrightarrow> (\<And>job. xwProducer w = Retrying job \<Longrightarrow> length (xsQueue (xwState w)) < cap)
   \<Longrightarrow> queueInv e cap w"
  unfolding queueInv_def by blast

lemma queueInv_drain:
  assumes inv: "queueInv e cap w" and queue: "xsQueue (xwState w) = job # rest" and run: "\<not> xsStopped (xwState w)"
  shows "queueInv e cap (w\<lparr>xwState := drainOne e cancelled reply (xwState w),
      xwReplies := xwReplies w @ (if cancelled then [] else [reply])\<rparr>)"
proof -
  from inv obtain removed sent failed abandoned where
    i: "xwAccepted w = removed @ job # rest" "mset removed = mset sent + mset failed + mset abandoned + mset (xsDropped (xwState w))"
      "subseq sent removed" "list_all2 (carries e) sent (xsSent (xwState w))"
      "length failed = length (filter (\<lambda>r. r \<noteq> InFlight) (xwReplies w))" "length abandoned \<le> of_bool (xsStopped (xwState w))"
      "length (job # rest) \<le> cap"
    by (rule queueInvE) (simp add: queue)
  have room: "length rest < cap" using i(7) by simp
  consider "cancelled" | "\<not> cancelled" "reply \<noteq> InFlight" | "\<not> cancelled" "reply = InFlight" by blast
  then show ?thesis
  proof cases
    case 1
    with i run room show ?thesis
      by (intro queueInvI [of _ "removed @ [job]" sent failed "[job]"]) (simp_all add: drainOne_cancelled [OF queue] subseq_rev_drop_many)
  next
    case 2
    with i run room show ?thesis
      by (intro queueInvI [of _ "removed @ [job]" sent "failed @ [job]" "[]"]) (simp_all add: drainOne_refused [OF queue] subseq_rev_drop_many)
  next
    case 3
    obtain m where m: "carries e job m" "drainOne e False InFlight (xwState w)
        = (xwState w)\<lparr>xsQueue := rest, xsSent := xsSent (xwState w) @ [m], xsInFlight := xsInFlight (xwState w) @ [m]\<rparr>"
      by (rule drainOne_sent [OF queue])
    from 3 i run room m show ?thesis
      by (intro queueInvI [of _ "removed @ [job]" "sent @ [job]" failed "[]"]) (simp_all add: list_all2_appendI)
  qed
qed

lemma queueInv_step:
  assumes "exporterStep e cap w w'" "queueInv e cap w" "0 < cap"
  shows "queueInv e cap w'"
proof -
  from assms(2) obtain removed sent failed abandoned where
    i: "xwAccepted w = removed @ xsQueue (xwState w)"
      "mset removed = mset sent + mset failed + mset abandoned + mset (xsDropped (xwState w))"
      "subseq sent removed" "list_all2 (carries e) sent (xsSent (xwState w))"
      "length failed = length (filter (\<lambda>r. r \<noteq> InFlight) (xwReplies w))" "length abandoned \<le> of_bool (xsStopped (xwState w))"
      "length (xsQueue (xwState w)) \<le> cap" "\<And>job. xwProducer w = Retrying job \<Longrightarrow> length (xsQueue (xwState w)) < cap"
    by (rule queueInvE) blast
  from assms(1) show ?thesis
  proof (cases rule: exporterStep.cases)
    case (evict job)
    show ?thesis
    proof (cases "xsQueue (xwState w)")
      case Nil
      with evict i assms(3) show ?thesis
        by (intro queueInvI [of _ removed sent failed abandoned]) (simp_all add: evictOldest_def)
    next
      case (Cons q qs)
      with evict i show ?thesis
        by (intro queueInvI [of _ "removed @ [q]" sent failed abandoned]) (simp_all add: evictOldest_def subseq_rev_drop_many)
    qed
  next
    case (drain cancelled reply)
    then obtain job rest where "xsQueue (xwState w) = job # rest" by (cases "xsQueue (xwState w)") auto
    with drain queueInv_drain [OF assms(2)] show ?thesis by simp
  qed (use i in \<open>intro queueInvI [of _ removed sent failed abandoned];
         auto simp: tryEnqueue_def split: if_splits intro: order_trans\<close>)+
qed

lemma mset_remove_nth: "i < length xs \<Longrightarrow> mset xs = add_mset (xs ! i) (mset (take i xs @ drop (Suc i) xs))"
  by (metis append_take_drop_id Cons_nth_drop_Suc mset.simps(2) mset_append union_mset_add_mset_right)

lemma booksInv_step:
  assumes "exporterStep e cap w w'" "booksInv w"
  shows "booksInv w'"
  using assms(1)
proof (cases rule: exporterStep.cases)
  case (evict job)
  with assms(2) show ?thesis by (simp add: booksInv_def evictOldest_def Let_def split: list.split)
next
  case (drain cancelled reply)
  then obtain job rest where queue: "xsQueue (xwState w) = job # rest" by (cases "xsQueue (xwState w)") auto
  consider "cancelled" | "\<not> cancelled" "reply \<noteq> InFlight" | "\<not> cancelled" "reply = InFlight" by blast
  then show ?thesis
  proof cases
    case 3
    obtain m where m: "drainOne e False InFlight (xwState w)
        = (xwState w)\<lparr>xsQueue := rest, xsSent := xsSent (xwState w) @ [m], xsInFlight := xsInFlight (xwState w) @ [m]\<rparr>"
      by (rule drainOne_sent [OF queue])
    from 3 drain assms(2) m show ?thesis by (simp add: booksInv_def Let_def)
  qed (use drain assms(2) in \<open>simp_all add: booksInv_def Let_def drainOne_cancelled [OF queue] drainOne_refused [OF queue]\<close>)
next
  case (ack i ok)
  with assms(2) mset_remove_nth [of i "xsInFlight (xwState w)"] show ?thesis
    by (cases ok) (auto simp: booksInv_def awaitAck_def Let_def dest!: mset_subset_eq_insertD subset_mset.less_imp_le)
qed (use assms(2) in \<open>auto simp: booksInv_def tryEnqueue_def Let_def split: if_splits\<close>)

lemma queueInv_reach: "exporterReach e cap w \<Longrightarrow> 0 < cap \<Longrightarrow> queueInv e cap w"
  by (induction rule: exporterReach.induct) (auto intro: queueInv_start queueInv_step)

lemma booksInv_reach: "exporterReach e cap w \<Longrightarrow> booksInv w"
  by (induction rule: exporterReach.induct) (auto intro: booksInv_start booksInv_step)

text \<open>
  C23: however the informer's callback, the publishing goroutine and the acknowledgements interleave,
  the queue never exceeds its capacity and an event that arrives at a full queue always gets a place:
  only older events are shed. Every event that was queued is, exactly once, sent to the broker, failed
  to publish, dropped, still queued, or the one job abandoned by a shutdown. The messages sent carry
  the sent events, in the order in which they were queued, one for each publish the broker took; each
  is in flight or has been acknowledged or refused, the acknowledged ones are the published ones, and
  the error counter counts the failed publishes and the failed acknowledgements.
\<close>

theorem exporter_sheds_only_older_events:
  assumes "exporterReach e cap w" "0 < cap"
  shows "length (xsQueue (xwState w)) \<le> cap
     \<and> (\<forall>job. xwProducer w = Retrying job \<longrightarrow> fst (tryEnqueue cap job (xwState w)))
     \<and> (\<exists>sent failed abandoned.
          mset (xwAccepted w) = mset sent + mset failed + mset abandoned + mset (xsDropped (xwState w)) + mset (xsQueue (xwState w))
          \<and> list_all2 (carries e) sent (xsSent (xwState w)) \<and> subseq sent (xwAccepted w)
          \<and> length sent = length (filter (\<lambda>r. r = InFlight) (xwReplies w))
          \<and> length failed = length (filter (\<lambda>r. r \<noteq> InFlight) (xwReplies w))
          \<and> length abandoned \<le> of_bool (xsStopped (xwState w)))
     \<and> mset (xsInFlight (xwState w)) + mset (xsPublished (xwState w)) \<subseteq># mset (xsSent (xwState w))
     \<and> length (xsSent (xwState w)) = length (xsInFlight (xwState w)) + length (xwAcks w)
     \<and> length (xsPublished (xwState w)) = length (filter id (xwAcks w))
     \<and> xsErrors (xwState w) = length (filter (\<lambda>r. r \<noteq> InFlight) (xwReplies w)) + length (filter Not (xwAcks w))"
proof -
  have books: "booksInv w" by (rule booksInv_reach [OF assms(1)])
  from queueInv_reach [OF assms] obtain removed sent failed abandoned where
    i: "xwAccepted w = removed @ xsQueue (xwState w)"
      "mset removed = mset sent + mset failed + mset abandoned + mset (xsDropped (xwState w))"
      "subseq sent removed" "list_all2 (carries e) sent (xsSent (xwState w))"
      "length failed = length (filter (\<lambda>r. r \<noteq> InFlight) (xwReplies w))" "length abandoned \<le> of_bool (xsStopped (xwState w))"
      "length (xsQueue (xwState w)) \<le> cap" "\<And>job. xwProducer w = Retrying job \<Longrightarrow> length (xsQueue (xwState w)) < cap"
    by (rule queueInvE) blast
  have "length sent = length (filter (\<lambda>r. r = InFlight) (xwReplies w))"
    using books list_all2_lengthD [OF i(4)] by (simp add: booksInv_def Let_def)
  with i have "\<exists>sent failed abandoned.
      mset (xwAccepted w) = mset sent + mset failed + mset abandoned + mset (xsDropped (xwState w)) + mset (xsQueue (xwState w))
      \<and> list_all2 (carries e) sent (xsSent (xwState w)) \<and> subseq sent (xwAccepted w)
      \<and> length sent = length (filter (\<lambda>r. r = InFlight) (xwReplies w))
      \<and> length failed = length (filter (\<lambda>r. r \<noteq> InFlight) (xwReplies w))
      \<and> length abandoned \<le> of_bool (xsStopped (xwState w))"
    by (intro exI [of _ sent] exI [of _ failed] exI [of _ abandoned]) (simp add: subseq_drop_many subseq_rev_drop_many)
  with i(7,8) books show ?thesis by (simp add: booksInv_def Let_def tryEnqueue_def)
qed

definition exportSample :: EventV1 where
  "exportSample = \<lparr>evNamespace = ''ns-1'', evName = ''web.1'', evUID = ''u-9'', evResourceVersion = ''7'', evAnnotations = [],
     evRegarding = \<lparr>refAPIVersion = ''v1'', refKind = ''Pod'', refNamespace = ''ns-1'', refName = ''web'', refUID = ''u-1'', refResourceVersion = '''', refFieldPath = ''''\<rparr>,
     evRelated = None, evReason = ''Started'', evNote = ''started'', evType = ''Normal'', evAction = ''Start'',
     evReportingController = ''kubelet'', evReportingInstance = ''n1'', evEventTime = 5 * second, evFirstTimestamp = 5 * second,
     evLastTimestamp = 5 * second, evCount = 1, evSeries = None\<rparr>"

definition sampleExporter :: Exporter where
  "sampleExporter = \<lparr>xpSubjectPrefix = ''activity.federated'', xpScopeType = '''', xpScopeName = '''', xpPlaneType = ''edge'', xpClusterName = ''us-1'',
     xpClusterRegion = ''us'', xpScope = Some (\<lambda>ns. if ns = ''ns-1''
       then Some [(upstreamClusterNameLabel, ''cluster-_p1''), (upstreamNamespaceLabel, ''default'')] else None), xpCity = Some ''NYC''\<rparr>"

lemma exporter_sheds_only_older_events_witness:
  fixes j1 j2 :: eventJob
  defines "j1 \<equiv> \<lparr>ejEvent = exportSample, ejType = ''ADDED''\<rparr>" and "j2 \<equiv> \<lparr>ejEvent = exportSample, ejType = ''MODIFIED''\<rparr>"
  shows "\<exists>w. exporterReach sampleExporter 1 w \<and> xwProducer w = Retrying j2 \<and> xsDropped (xwState w) = [j1] \<and> fst (tryEnqueue 1 j2 (xwState w))"
proof -
  let ?w1 = "emptyExporter\<lparr>xwState := (xwState emptyExporter)\<lparr>xsQueue := [j1]\<rparr>, xwAccepted := [j1]\<rparr>"
  let ?w2 = "?w1\<lparr>xwProducer := Evicting j2\<rparr>"
  let ?w3 = "?w2\<lparr>xwState := evictOldest (xwState ?w2), xwProducer := Retrying j2\<rparr>"
  have "exporterStep sampleExporter 1 emptyExporter (emptyExporter\<lparr>xwState := (xwState emptyExporter)\<lparr>xsQueue := [j1]\<rparr>, xwAccepted := xwAccepted emptyExporter @ [j1]\<rparr>)"
    by (rule enqueue_fits) (simp_all add: emptyExporter_def tryEnqueue_def)
  then have 1: "exporterReach sampleExporter 1 ?w1" using reach_next [OF reach_start] by (simp add: emptyExporter_def)
  have "exporterStep sampleExporter 1 ?w1 (?w1\<lparr>xwState := xwState ?w1, xwProducer := Evicting j2\<rparr>)"
    by (rule enqueue_full [of _ _ j2]) (simp_all add: emptyExporter_def tryEnqueue_def)
  then have "exporterReach sampleExporter 1 ?w2" using reach_next [OF 1] by (simp add: emptyExporter_def)
  moreover have "exporterStep sampleExporter 1 ?w2 ?w3" by (rule evict) simp
  ultimately have 3: "exporterReach sampleExporter 1 ?w3" by (rule reach_next)
  have "fst (tryEnqueue 1 j2 (xwState ?w3))" using exporter_sheds_only_older_events [OF 3] by simp
  with 3 show ?thesis by (intro exI [of _ ?w3]) (simp add: emptyExporter_def evictOldest_def)
qed

section \<open>What is published\<close>

lemma tokensMatch_tail: "tokensMatch [''>''] xs \<longleftrightarrow> xs \<noteq> []"
  by (cases xs) simp_all

lemma map_of_setAnnotation: "map_of (setAnnotation k v m) = (map_of m)(k \<mapsto> v)"
proof
  fix x
  have "x \<noteq> k \<Longrightarrow> map_of (filter (\<lambda>(k', _). k' \<noteq> k) m) x = map_of m x" by (induction m) auto
  then show "map_of (setAnnotation k v m) x = ((map_of m)(k \<mapsto> v)) x" by (simp add: setAnnotation_def)
qed

lemmas annotation_keys = SourceCityAnnotation_def SourceRegionAnnotation_def SourceClusterAnnotation_def SourcePlaneTypeAnnotation_def
  ScopeTypeAnnotation_def ScopeNameAnnotation_def ScopeNamespaceAnnotation_def

text \<open>A decoded event has the annotations and the UID of the event that was encoded.\<close>

definition decodedFrom :: "EventV1 \<Rightarrow> gomap \<Rightarrow> bool" where
  "decodedFrom event m =
     ((\<forall>k. getStringFromMap (eventAnnotations m) k = annotationOf (evAnnotations event) k) \<and> eventUID m = evUID event)"

lemma exportedEvent_annotations:
  "map_of (evAnnotations (exportedEvent e event)) SourcePlaneTypeAnnotation = Some (xpPlaneType e)"
  "map_of (evAnnotations (exportedEvent e event)) SourceClusterAnnotation = Some (xpClusterName e)"
  "map_of (evAnnotations (exportedEvent e event)) ScopeTypeAnnotation = Some (escType (resolveScope e (evNamespace event)))"
  "map_of (evAnnotations (exportedEvent e event)) ScopeNameAnnotation = Some (escName (resolveScope e (evNamespace event)))"
  "escNamespace (resolveScope e (evNamespace event)) \<noteq> '''' \<Longrightarrow>
     map_of (evAnnotations (exportedEvent e event)) ScopeNamespaceAnnotation = Some (escNamespace (resolveScope e (evNamespace event)))"
  by (simp_all add: exportedEvent_def sourceAnnotations_def stampExportScope_def Let_def map_of_setAnnotation annotation_keys)

text \<open>
  The message id of a newly added event is exactly the origin id that the processor derives from
  the source annotations of the published event, and that of a modified event is the origin id with
  the resource version, so that the broker's deduplication and the activity's identity cannot drift
  apart, and an update of an event is never taken for a repetition of it.
\<close>

theorem export_id_matches_origin:
  assumes "decodedFrom (exportedEvent e event) m"
  shows "qualifiedMsgID e event ''ADDED'' = qualifiedOriginID (ExtractSourceFromAnnotations m) (eventUID m)
     \<and> qualifiedMsgID e event ''MODIFIED'' = qualifiedOriginID (ExtractSourceFromAnnotations m) (eventUID m) @ ''-'' @ evResourceVersion event"
proof -
  have "srcPlaneType (ExtractSourceFromAnnotations m) = xpPlaneType e" "srcCluster (ExtractSourceFromAnnotations m) = xpClusterName e"
    using assms by (simp_all add: ExtractSourceFromAnnotations_def decodedFrom_def annotationOf_def exportedEvent_annotations)
  moreover have "eventUID m = evUID event" using assms by (simp add: decodedFrom_def exportedEvent_def Let_def split: prod.split)
  ultimately show ?thesis by (simp add: qualifiedOriginID_def qualifiedMsgID_def PrefixWithSource_def)
qed

definition asEventMap :: "EventV1 \<Rightarrow> gomap" where
  "asEventMap event =
     [(''metadata'', VMap [(''uid'', VStr (evUID event)), (''annotations'', VMap (map (\<lambda>(k, v). (k, VStr v)) (evAnnotations event)))])]"

lemma asEventMap_decoded: "decodedFrom event (asEventMap event)"
proof -
  have "getStringFromMap (map (\<lambda>(k, v). (k, VStr v)) a) k = annotationOf a k" for a k
    by (induction a) (auto simp: getStringFromMap_def annotationOf_def)
  then show ?thesis by (simp add: decodedFrom_def asEventMap_def eventAnnotations_def eventUID_def getStringFromMap_def)
qed

lemma export_id_matches_origin_witness:
  "qualifiedMsgID sampleExporter exportSample ''ADDED''
     = qualifiedOriginID (ExtractSourceFromAnnotations (asEventMap (exportedEvent sampleExporter exportSample))) (eventUID (asEventMap (exportedEvent sampleExporter exportSample)))"
  using export_id_matches_origin [OF asEventMap_decoded] by blast

text \<open>
  C24: an edge exporter never gives an event to the wrong tenant: the tenant that the processor reads
  from a published event is the project named by the labels of the event's own namespace, with the
  upstream namespace beside it, or the platform when the labels do not name one. The deployment's
  own scope flags play no part, whatever they hold.
\<close>

theorem edge_event_tenant_exact:
  assumes "xpPlaneType e = planeTypeEdge" "xpScope e = Some lister" "decodedFrom (exportedEvent e event) m"
  shows "(case ResolveScope lister (evNamespace event) of
        Some scope \<Rightarrow> ExtractTenantFromAnnotations m = \<lparr>tenantType = TenantTypeProject, tenantName = escName scope\<rparr> \<and> escName scope \<noteq> ''''
          \<and> getStringFromMap (eventAnnotations m) ScopeNamespaceAnnotation = escNamespace scope
      | None \<Rightarrow> ExtractTenantFromAnnotations m = \<lparr>tenantType = TenantTypePlatform, tenantName = ''''\<rparr>)
     \<and> exportedEvent (e\<lparr>xpScopeType := t, xpScopeName := n\<rparr>) event = exportedEvent e event"
proof -
  let ?s = "resolveScope e (evNamespace event)"
  have s: "?s = (case ResolveScope lister (evNamespace event) of Some scope \<Rightarrow> scope | None \<Rightarrow> \<lparr>escType = '''', escName = '''', escNamespace = ''''\<rparr>)"
    using assms by (simp add: resolveScope_def)
  have flags: "resolveScope (e\<lparr>xpScopeType := t, xpScopeName := n\<rparr>) ns = resolveScope e ns" for ns
    using assms by (simp add: resolveScope_def)
  have a: "getStringFromMap (eventAnnotations m) ScopeTypeAnnotation = escType ?s" "getStringFromMap (eventAnnotations m) ScopeNameAnnotation = escName ?s"
    "escNamespace ?s \<noteq> '''' \<Longrightarrow> getStringFromMap (eventAnnotations m) ScopeNamespaceAnnotation = escNamespace ?s"
    using assms(3) by (simp_all add: decodedFrom_def annotationOf_def exportedEvent_annotations)
  have norm: "NormalizeTenantType TenantTypeProject = TenantTypeProject" "TenantTypeProject \<noteq> ''''" by code_simp+
  have "case ResolveScope lister (evNamespace event) of
        Some scope \<Rightarrow> ExtractTenantFromAnnotations m = \<lparr>tenantType = TenantTypeProject, tenantName = escName scope\<rparr> \<and> escName scope \<noteq> ''''
          \<and> getStringFromMap (eventAnnotations m) ScopeNamespaceAnnotation = escNamespace scope
      | None \<Rightarrow> ExtractTenantFromAnnotations m = \<lparr>tenantType = TenantTypePlatform, tenantName = ''''\<rparr>"
  proof (cases "ResolveScope lister (evNamespace event)")
    case None
    with s a show ?thesis by (simp add: ExtractTenantFromAnnotations_def)
  next
    case (Some scope)
    then have "escType scope = TenantTypeProject" "escName scope \<noteq> ''''" "escNamespace scope \<noteq> ''''"
      by (auto simp: ResolveScope_def Let_def split: option.splits if_splits)
    with Some s a norm show ?thesis by (simp add: ExtractTenantFromAnnotations_def)
  qed
  then show ?thesis by (simp add: exportedEvent_def stampExportScope_def sourceAnnotations_def flags)
qed

lemma edge_event_tenant_exact_witness:
  "ExtractTenantFromAnnotations (asEventMap (exportedEvent sampleExporter (exportSample\<lparr>evNamespace := ''ns-1''\<rparr>)))
     = \<lparr>tenantType = TenantTypeProject, tenantName = ''p1''\<rparr>"
proof -
  let ?l = "\<lambda>ns. if ns = ''ns-1'' then Some [(upstreamClusterNameLabel, ''cluster-_p1''), (upstreamNamespaceLabel, ''default'')] else None"
  have "ResolveScope ?l ''ns-1'' = Some \<lparr>escType = TenantTypeProject, escName = ''p1'', escNamespace = ''default''\<rparr>" by code_simp
  with edge_event_tenant_exact [of sampleExporter ?l "exportSample\<lparr>evNamespace := ''ns-1''\<rparr>" _ "''t''" "''n''", OF _ _ asEventMap_decoded]
  show ?thesis by (simp add: sampleExporter_def planeTypeEdge_def)
qed

lemma grant_covers_own_cluster:
  assumes "ValidClusterName c" "ValidClusterName other" "CHR ''.'' \<notin> set ns" "plainPrefix pre"
  shows "subjectMatches (EventSubjectGrant pre other) (EventSubject pre c ns) \<longleftrightarrow> other = c"
proof -
  have iso: "subjectTokens (EventSubject pre c ns) = subjectTokens pre @ [c, ns]"
    "subjectTokens (EventSubjectGrant pre other) = subjectTokens pre @ [other, ''*'']"
    using event_subject_isolation [OF assms(1,3)] event_subject_isolation [OF assms(2,3)] by simp_all
  have star: "other \<noteq> ''*''" "other \<noteq> ''>''" using ValidClusterName_clean [OF assms(2)] by auto
  show ?thesis unfolding subjectMatches_def iso tokensMatch_self [OF assms(4) [unfolded plainPrefix_def]] using star by simp
qed

text \<open>
  C25: a federated exporter with a valid cluster name publishes only on subjects that the grant of its
  own cluster covers and that the grant of no other cluster covers, receives its acknowledgements under
  its own inbox grant, and neither of these reaches the default inbox.
\<close>

theorem export_stays_within_grant:
  assumes "ValidClusterName (xpClusterName e)" "ValidClusterName other" "xpPlaneType e \<noteq> ''''" "evNamespace event \<noteq> ''''" "CHR ''.'' \<notin> set (evNamespace event)"
    and "publishEvent e reply event eventType = Inr msg"
    and "plainPrefix (xpSubjectPrefix e)"
  shows "(subjectMatches (EventSubjectGrant (xpSubjectPrefix e) other) (emxSubject msg) \<longleftrightarrow> other = xpClusterName e)
     \<and> natsInboxPrefix (xpPlaneType e) (xpClusterName e) = Some (EventInboxPrefix (xpClusterName e))
     \<and> (subjectMatches (EventInboxGrant other) (EventInboxPrefix (xpClusterName e) @ ''.'' @ reply') \<longleftrightarrow> other = xpClusterName e)
     \<and> \<not> subjectMatches (EventInboxGrant other) (''_INBOX.'' @ reply')"
proof -
  let ?c = "xpClusterName e"
  have f: "FederatedCluster (xpPlaneType e) ?c = ?c" using assms(3) by (simp add: FederatedCluster_def)
  have msg: "emxSubject msg = EventSubject (xpSubjectPrefix e) ?c (evNamespace event)"
    using assms(6) f by (auto simp: publishEvent_def exportSubject_def split: publish_reply.splits)
  have m: "subjectMatches (EventSubjectGrant (xpSubjectPrefix e) other) (emxSubject msg) \<longleftrightarrow> other = ?c"
    unfolding msg by (rule grant_covers_own_cluster [OF assms(1,2,5,7)])
  have inbox: "subjectMatches (EventInboxGrant other) (EventInboxPrefix ?c @ ''.'' @ reply') \<longleftrightarrow> other = ?c"
    using ValidClusterName_clean(1) [OF assms(1)] ValidClusterName_clean(1) [OF assms(2)]
    by (auto simp: subjectMatches_def subjectTokens_def EventInboxGrant_def EventInboxPrefix_def splitByte_token splitByte_no_sep tokensMatch_tail)
  have default_inbox: "\<not> subjectMatches (EventInboxGrant other) (''_INBOX.'' @ reply')"
    using ValidClusterName_clean(1) [OF assms(2)]
    by (auto simp: subjectMatches_def subjectTokens_def EventInboxGrant_def EventInboxPrefix_def splitByte_token splitByte_no_sep tokensMatch_tail)
  show ?thesis using m inbox default_inbox f ValidClusterName_nonempty [OF assms(1)] by (simp add: natsInboxPrefix_def)
qed

lemma export_stays_within_grant_witness:
  "subjectMatches (EventSubjectGrant ''activity.federated'' ''us-1'') (exportSubject sampleExporter ''ns-1'')
   \<and> \<not> subjectMatches (EventSubjectGrant ''activity.federated'' ''us-2'') (exportSubject sampleExporter ''ns-1'')"
proof -
  have v: "ValidClusterName ''us-1''" "ValidClusterName ''us-2''" by code_simp+
  have e: "xpClusterName sampleExporter = ''us-1''" "xpPlaneType sampleExporter = ''edge''" "xpSubjectPrefix sampleExporter = ''activity.federated''"
    by (simp_all add: sampleExporter_def)
  have p: "plainPrefix ''activity.federated''" by code_simp
  obtain msg where msg: "publishEvent sampleExporter InFlight exportSample ''ADDED'' = Inr msg" "emxSubject msg = exportSubject sampleExporter ''ns-1''"
    by (simp add: publishEvent_def exportSample_def)
  have ns: "evNamespace exportSample = ''ns-1''" by (simp add: exportSample_def)
  show ?thesis
    using export_stays_within_grant [of sampleExporter "''us-1''" exportSample InFlight "''ADDED''" msg "''''"]
      export_stays_within_grant [of sampleExporter "''us-2''" exportSample InFlight "''ADDED''" msg "''''"] v e p msg ns by simp
qed

text \<open>Once the city has been resolved, the resolver never goes back to its fast interval.\<close>

lemma cityTicks_slow: "fst (cityTicks attempts (locationResolveInterval, city)) = locationResolveInterval"
  by (induction attempts arbitrary: city) (auto simp: Let_def split: prod.split)

end
