(* ===== verification/Nkey_Generator.thy ===== *)
theory Nkey_Generator
  imports Event_Exporter
begin

text \<open>
  internal/nkeygenerator/generator.go: one run lists the enabled clusters, makes sure that each has a
  key in a Secret and a PushSecret that mirrors it, and rewrites the ConfigMap with the users of the
  hub's account. The hub cluster is a state; the failures of its API calls, the writes of others that
  come just before a creation, key generation and YAML are parameters.
\<close>

section \<open>State and environment\<close>

record NkeyConfig =
  ncSecretPrefix :: string
  ncConfigMapName :: string
  ncSecretStoreName :: string
  ncSecretStoreKind :: string
  ncSubjectPrefix :: string

text \<open>The data of a key Secret; an absent entry reads as empty.\<close>

record NkeySecret =
  nsSeed :: string
  nsPublic :: string
  nsNkey :: string

record PushSecret =
  pshStoreName :: string
  pshStoreKind :: string
  pshSecret :: string
  pshRemoteKey :: string

text \<open>The objects of the generator's namespace by name, the \<open>values.yaml\<close> of the ConfigMap, and the calls and keys so far.\<close>

record hub =
  hbSecrets :: "string \<rightharpoonup> NkeySecret"
  hbPushSecrets :: "string \<rightharpoonup> PushSecret"
  hbValues :: "string option"
  hbCalls :: nat
  hbKeys :: nat

datatype api_error = ApiNotFound string | ApiOther string

fun errText :: "api_error \<Rightarrow> string" where
  "errText (ApiNotFound m) = m"
| "errText (ApiOther m) = m"

fun wrapApi :: "string \<Rightarrow> api_error \<Rightarrow> api_error" where
  "wrapApi what (ApiNotFound m) = ApiNotFound (what @ '': '' @ m)"
| "wrapApi what (ApiOther m) = ApiOther (what @ '': '' @ m)"

text \<open>
  \<open>neFail n\<close> is the failure, other than a missing object, of the call that n calls came before;
  \<open>neRace n\<close> is what another writer has stored under the same name just before a creation that is
  the n-th call; \<open>neUsers\<close> decodes the users out of a \<open>values.yaml\<close>.
\<close>

record nkey_env =
  neFail :: "nat \<Rightarrow> string option"
  neRace :: "nat \<Rightarrow> NkeySecret option"
  neGenerate :: "nat \<Rightarrow> string + (string \<times> string)"
  neMarshal :: "gomap \<Rightarrow> string + string"
  neUsers :: "string \<Rightarrow> gomap list option"

type_synonym 'a hub_op = "hub \<Rightarrow> (api_error + 'a) \<times> hub"

definition bindH :: "'a hub_op \<Rightarrow> ('a \<Rightarrow> 'b hub_op) \<Rightarrow> 'b hub_op" where
  "bindH m f st = (case m st of (Inl e, st') \<Rightarrow> (Inl e, st') | (Inr a, st') \<Rightarrow> f a st')"

text \<open>One API call: counted, and done unless it fails.\<close>

definition apiCall :: "nkey_env \<Rightarrow> 'a hub_op \<Rightarrow> 'a hub_op" where
  "apiCall env f st =
     (let st1 = st\<lparr>hbCalls := Suc (hbCalls st)\<rparr>
      in case neFail env (hbCalls st) of Some err \<Rightarrow> (Inl (ApiOther err), st1) | None \<Rightarrow> f st1)"

section \<open>Users\<close>

definition connTypeStandard :: string where "connTypeStandard = ''STANDARD''"
definition connTypeLeafnode :: string where "connTypeLeafnode = ''LEAFNODE''"

definition toAny :: "string list \<Rightarrow> gval" where
  "toAny ss = VList (map VStr ss)"

definition userEntry :: "(string \<times> string) list \<Rightarrow> string list \<Rightarrow> string list \<Rightarrow> string list \<Rightarrow> gomap" where
  "userEntry identity connTypes publish subscribe =
     map (\<lambda>(k, v). (k, VStr v)) identity
     @ [(''allowed_connection_types'', toAny connTypes),
        (''permissions'', VMap [(''publish'', VMap [(''allow'', toAny publish)]), (''subscribe'', VMap [(''allow'', toAny subscribe)])])]"

definition staticUsers :: "gomap list" where
  "staticUsers =
     [userEntry [(''user'', ''CN=nack.nats.client'')] [connTypeStandard] [''>''] [''>''],
      userEntry [(''user'', ''CN=activity-processor-nats-client'')] [connTypeStandard] [''$JS.API.>'', ''$JS.ACK.>''] [''_INBOX.>'']]"

definition nkeyUser :: "string \<Rightarrow> string \<Rightarrow> string \<Rightarrow> gomap" where
  "nkeyUser subjectPrefix cluster publicKey =
     userEntry [(''nkey'', publicKey)] [connTypeLeafnode] [EventSubjectGrant subjectPrefix cluster] [EventInboxGrant cluster]"

definition userNkey :: "gomap \<Rightarrow> string option" where
  "userNkey u = asStr (map_of u ''nkey'')"

definition cutPrefix :: "string \<Rightarrow> string \<Rightarrow> string option" where
  "cutPrefix s p = (if hasPrefix s p then Some (drop (length p) s) else None)"

definition cutSuffix :: "string \<Rightarrow> string \<Rightarrow> string option" where
  "cutSuffix s p = map_option rev (cutPrefix (rev s) (rev p))"

fun clusterFromSubjects :: "string \<Rightarrow> string \<Rightarrow> gval list \<Rightarrow> string" where
  "clusterFromSubjects subjectPrefix fallback [] = fallback"
| "clusterFromSubjects subjectPrefix fallback (v # vs) =
     (case v of
        VStr subj \<Rightarrow>
          (case cutPrefix subj (subjectPrefix @ ''.'') of
             None \<Rightarrow> clusterFromSubjects subjectPrefix fallback vs
           | Some rest \<Rightarrow>
               (case cutSuffix rest ''.*'' of
                  Some cluster \<Rightarrow> cluster
                | None \<Rightarrow> clusterFromSubjects subjectPrefix fallback vs))
      | _ \<Rightarrow> clusterFromSubjects subjectPrefix fallback vs)"

definition clusterFromUser :: "gomap \<Rightarrow> string \<Rightarrow> string \<Rightarrow> string" where
  "clusterFromUser u subjectPrefix fallback =
     (case asMap (map_of u ''permissions'') of
        None \<Rightarrow> fallback
      | Some perms \<Rightarrow>
          (case asMap (map_of perms ''publish'') of
             None \<Rightarrow> fallback
           | Some publish \<Rightarrow>
               (case map_of publish ''allow'' of
                  Some (VList allow) \<Rightarrow> clusterFromSubjects subjectPrefix fallback allow
                | _ \<Rightarrow> fallback)))"

section \<open>Keys\<close>

definition secretNameOf :: "NkeyConfig \<Rightarrow> string \<Rightarrow> string" where
  "secretNameOf cfg cluster = ncSecretPrefix cfg @ ''-'' @ cluster"

definition getSecret :: "nkey_env \<Rightarrow> string \<Rightarrow> NkeySecret hub_op" where
  "getSecret env name =
     apiCall env (\<lambda>st. (case hbSecrets st name of None \<Rightarrow> Inl (ApiNotFound (''secrets '' @ quoteQ name @ '' not found'')) | Some s \<Rightarrow> Inr s, st))"

definition publicKeyOf :: "NkeySecret \<Rightarrow> string" where
  "publicKeyOf s = (if nsPublic s = '''' then nsNkey s else nsPublic s)"

definition storedPublicKey :: "nkey_env \<Rightarrow> string \<Rightarrow> string hub_op" where
  "storedPublicKey env secretName st =
     (case getSecret env secretName st of
        (Inl err, st') \<Rightarrow> (Inl (wrapApi (''get secret '' @ secretName) err), st')
      | (Inr s, st') \<Rightarrow>
          if publicKeyOf s = '''' then (Inl (ApiOther (''secret '' @ secretName @ '' exists but has no public key'')), st')
          else (Inr (publicKeyOf s), st'))"

definition pushSecretFor :: "NkeyConfig \<Rightarrow> string \<Rightarrow> PushSecret" where
  "pushSecretFor cfg secretName =
     \<lparr>pshStoreName = ncSecretStoreName cfg, pshStoreKind = ncSecretStoreKind cfg, pshSecret = secretName, pshRemoteKey = secretName\<rparr>"

definition putPushSecret :: "nkey_env \<Rightarrow> NkeyConfig \<Rightarrow> string \<Rightarrow> unit hub_op" where
  "putPushSecret env cfg secretName =
     apiCall env (\<lambda>st. (Inr (), st\<lparr>hbPushSecrets := (hbPushSecrets st)(secretName \<mapsto> pushSecretFor cfg secretName)\<rparr>))"

text \<open>An update or a creation, which write the same object.\<close>

definition ensurePushSecret :: "nkey_env \<Rightarrow> NkeyConfig \<Rightarrow> string \<Rightarrow> unit hub_op" where
  "ensurePushSecret env cfg secretName st =
     (case apiCall env (\<lambda>st. (Inr (hbPushSecrets st secretName), st)) st of
        (Inl err, st') \<Rightarrow> (Inl (wrapApi (''get pushsecret '' @ secretName) err), st')
      | (Inr _, st') \<Rightarrow> putPushSecret env cfg secretName st')"

text \<open>Creating the Secret: \<open>False\<close> when it exists by now.\<close>

definition createSecret :: "nkey_env \<Rightarrow> string \<Rightarrow> NkeySecret \<Rightarrow> bool hub_op" where
  "createSecret env name s =
     apiCall env (\<lambda>st.
       (case hbSecrets st name of
          Some _ \<Rightarrow> (Inr False, st)
        | None \<Rightarrow>
            (case neRace env (hbCalls st) of
               Some other \<Rightarrow> (Inr False, st\<lparr>hbSecrets := (hbSecrets st)(name \<mapsto> other)\<rparr>)
             | None \<Rightarrow> (Inr True, st\<lparr>hbSecrets := (hbSecrets st)(name \<mapsto> s)\<rparr>))))"

definition generateNKey :: "nkey_env \<Rightarrow> string \<Rightarrow> (string \<times> string) hub_op" where
  "generateNKey env cluster st =
     (let st1 = st\<lparr>hbKeys := Suc (hbKeys st)\<rparr>
      in case neGenerate env (hbKeys st) of
           Inl err \<Rightarrow> (Inl (ApiOther (''generate nkey for '' @ cluster @ '': '' @ err)), st1)
         | Inr kp \<Rightarrow> (Inr kp, st1))"

definition storeKey :: "nkey_env \<Rightarrow> string \<Rightarrow> string \<times> string \<Rightarrow> string hub_op" where
  "storeKey env secretName kp st =
     (case createSecret env secretName \<lparr>nsSeed = fst kp, nsPublic = snd kp, nsNkey = snd kp\<rparr> st of
        (Inl err, st') \<Rightarrow> (Inl (wrapApi (''create secret '' @ secretName) err), st')
      | (Inr True, st') \<Rightarrow> (Inr (snd kp), st')
      | (Inr False, st') \<Rightarrow> storedPublicKey env secretName st')"

definition ensureKey :: "nkey_env \<Rightarrow> NkeyConfig \<Rightarrow> string \<Rightarrow> string hub_op" where
  "ensureKey env cfg cluster st =
     (let secretName = secretNameOf cfg cluster;
          finish = (\<lambda>pub. bindH (ensurePushSecret env cfg secretName) (\<lambda>_ st. (Inr pub, st)))
      in case storedPublicKey env secretName st of
           (Inr pub, st') \<Rightarrow> finish pub st'
         | (Inl (ApiOther err), st') \<Rightarrow> (Inl (ApiOther err), st')
         | (Inl (ApiNotFound _), st') \<Rightarrow>
             bindH (generateNKey env cluster) (\<lambda>kp. bindH (storeKey env secretName kp) finish) st')"

section \<open>The published users\<close>

text \<open>A missing ConfigMap and one that does not decode give no users.\<close>

definition previousUsers :: "nkey_env \<Rightarrow> NkeyConfig \<Rightarrow> gomap list hub_op" where
  "previousUsers env cfg st =
     (case apiCall env (\<lambda>st. (Inr (hbValues st), st)) st of
        (Inl err, st') \<Rightarrow> (Inl (wrapApi (''get configmap '' @ ncConfigMapName cfg) err), st')
      | (Inr None, st') \<Rightarrow> (Inr [], st')
      | (Inr (Some raw), st') \<Rightarrow> (Inr (case neUsers env raw of None \<Rightarrow> [] | Some us \<Rightarrow> us), st'))"

text \<open>\<open>have\<close> are the keys of the new users.\<close>

fun droppedNkeys :: "nkey_env \<Rightarrow> NkeyConfig \<Rightarrow> string list \<Rightarrow> gomap list \<Rightarrow> string list hub_op" where
  "droppedNkeys env cfg kept [] st = (Inr [], st)"
| "droppedNkeys env cfg kept (u # us) st =
     (case userNkey u of
        None \<Rightarrow> droppedNkeys env cfg kept us st
      | Some pub \<Rightarrow>
          if pub \<in> set kept then droppedNkeys env cfg kept us st
          else (let cluster = clusterFromUser u (ncSubjectPrefix cfg) pub
                in case getSecret env (secretNameOf cfg cluster) st of
                     (Inr _, st') \<Rightarrow> bindH (droppedNkeys env cfg kept us) (\<lambda>rest st. (Inr (cluster # rest), st)) st'
                   | (Inl (ApiNotFound _), st') \<Rightarrow> droppedNkeys env cfg kept us st'
                   | (Inl (ApiOther err), st') \<Rightarrow>
                       (Inl (ApiOther (''checking secret '' @ secretNameOf cfg cluster @ '' for dropped cluster '' @ cluster @ '': '' @ err)), st')))"

definition valuesDoc :: "gomap list \<Rightarrow> gomap" where
  "valuesDoc users =
     [(''config'', VMap [(''merge'', VMap [(''accounts'', VMap [(''ACTIVITY'',
        VMap [(''jetstream'', VStr ''enabled''), (''users'', VList (map VMap users))])])])])]"

definition putConfigMap :: "nkey_env \<Rightarrow> NkeyConfig \<Rightarrow> string \<Rightarrow> unit hub_op" where
  "putConfigMap env cfg raw st =
     (case apiCall env (\<lambda>st. (Inr (), st)) st of
        (Inl err, st') \<Rightarrow> (Inl (wrapApi (''get configmap '' @ ncConfigMapName cfg) err), st')
      | (Inr _, st') \<Rightarrow> apiCall env (\<lambda>st. (Inr (), st\<lparr>hbValues := Some raw\<rparr>)) st')"

definition refusal :: "NkeyConfig \<Rightarrow> string list \<Rightarrow> string" where
  "refusal cfg dropped =
     ''refusing to write authorized-leafs: cluster(s) ['' @ joinStr '' '' dropped @ ''] would be dropped but their nkey Secret ''
     @ ncSecretPrefix cfg @ ''-<cluster> still exists (delete it once the cluster decommission is confirmed, then retry)''"

definition writeConfigMap :: "nkey_env \<Rightarrow> NkeyConfig \<Rightarrow> gomap list \<Rightarrow> unit hub_op" where
  "writeConfigMap env cfg users =
     bindH (previousUsers env cfg) (\<lambda>prev.
       bindH (droppedNkeys env cfg (List.map_filter userNkey users) prev) (\<lambda>dropped st.
         if dropped \<noteq> [] then (Inl (ApiOther (refusal cfg dropped)), st)
         else (case neMarshal env (valuesDoc users) of
                 Inl err \<Rightarrow> (Inl (ApiOther (''marshal values.yaml: '' @ err)), st)
               | Inr raw \<Rightarrow> putConfigMap env cfg raw st)))"

text \<open>The loop over the clusters, with the users so far.\<close>

fun provision :: "nkey_env \<Rightarrow> NkeyConfig \<Rightarrow> string list \<Rightarrow> gomap list \<Rightarrow> gomap list hub_op" where
  "provision env cfg [] users st = (Inr users, st)"
| "provision env cfg (name # names) users st =
     (if \<not> ValidClusterName name then provision env cfg names users st
      else bindH (ensureKey env cfg name) (\<lambda>pub. provision env cfg names (users @ [nkeyUser (ncSubjectPrefix cfg) name pub])) st)"

text \<open>The error of a run, and the hub after it. \<open>listed\<close> is what the Karmada API answered.\<close>

definition sync :: "nkey_env \<Rightarrow> NkeyConfig \<Rightarrow> string + string list \<Rightarrow> hub \<Rightarrow> string option \<times> hub" where
  "sync env cfg listed st =
     (case listed of
        Inl err \<Rightarrow> (Some (''list karmada clusters: '' @ err), st)
      | Inr clusters \<Rightarrow>
          (case bindH (provision env cfg clusters staticUsers)
                 (\<lambda>users st. if users = [] then (Inl (ApiOther ''refusing to write an empty authorized-leafs users list''), st)
                    else writeConfigMap env cfg users st) st of
             (Inl err, st') \<Rightarrow> (Some (errText err), st')
           | (Inr _, st') \<Rightarrow> (None, st')))"

section \<open>What every operation keeps\<close>

text \<open>Secrets are only added, and what is added came from the generator or from another writer.\<close>

definition keepsSecrets :: "nkey_env \<Rightarrow> hub \<Rightarrow> hub \<Rightarrow> bool" where
  "keepsSecrets env st st' =
     (hbSecrets st \<subseteq>\<^sub>m hbSecrets st'
      \<and> (\<forall>name s. hbSecrets st' name = Some s \<longrightarrow> hbSecrets st name = Some s
           \<or> (\<exists>n. neRace env n = Some s) \<or> (\<exists>n seed. neGenerate env n = Inr (seed, nsPublic s) \<and> nsNkey s = nsPublic s)))"

lemma keepsSecrets_refl: "hbSecrets st' = hbSecrets st \<Longrightarrow> keepsSecrets env st st'"
  by (simp add: keepsSecrets_def)

lemma keepsSecrets_trans: "keepsSecrets env a b \<Longrightarrow> keepsSecrets env b c \<Longrightarrow> keepsSecrets env a c"
  unfolding keepsSecrets_def by (meson map_le_trans)

definition keeps :: "nkey_env \<Rightarrow> 'a hub_op \<Rightarrow> bool" where
  "keeps env m = (\<forall>st r st'. m st = (r, st') \<longrightarrow> keepsSecrets env st st' \<and> hbValues st' = hbValues st)"

lemma keepsI: "(\<And>st r st'. m st = (r, st') \<Longrightarrow> hbSecrets st' = hbSecrets st \<and> hbValues st' = hbValues st) \<Longrightarrow> keeps env m"
  by (simp add: keeps_def keepsSecrets_refl)

lemma keepsD: "keeps env m \<Longrightarrow> m st = (r, st') \<Longrightarrow> keepsSecrets env st st' \<and> hbValues st' = hbValues st"
  by (auto simp: keeps_def)

lemma keeps_bind:
  assumes "keeps env m" "\<And>a. keeps env (f a)"
  shows "keeps env (bindH m f)"
  unfolding keeps_def
proof (intro allI impI)
  fix st r st' assume b: "bindH m f st = (r, st')"
  obtain r1 st1 where m: "m st = (r1, st1)" by fastforce
  show "keepsSecrets env st st' \<and> hbValues st' = hbValues st"
  proof (cases r1)
    case (Inl e)
    with b m keepsD [OF assms(1) m] show ?thesis by (auto simp: bindH_def)
  next
    case (Inr a)
    with b m have "f a st1 = (r, st')" by (simp add: bindH_def)
    from keepsD [OF assms(2) this] keepsD [OF assms(1) m] show ?thesis by (auto intro: keepsSecrets_trans)
  qed
qed

lemma getSecret_same: "getSecret env name st = (r, st') \<Longrightarrow> hbSecrets st' = hbSecrets st \<and> hbValues st' = hbValues st"
  by (auto simp: getSecret_def apiCall_def Let_def split: option.splits)

lemma getSecret_found: "getSecret env name st = (Inr s, st') \<Longrightarrow> hbSecrets st' name = Some s"
  by (auto simp: getSecret_def apiCall_def Let_def split: option.splits)

lemma getSecret_missing: "getSecret env name st = (Inl (ApiNotFound m), st') \<Longrightarrow> hbSecrets st' name = None"
  by (auto simp: getSecret_def apiCall_def Let_def split: option.splits)

lemma storedPublicKey_same: "storedPublicKey env name st = (r, st') \<Longrightarrow> hbSecrets st' = hbSecrets st \<and> hbValues st' = hbValues st"
  using getSecret_same by (auto simp: storedPublicKey_def split: prod.splits sum.splits if_splits)

lemma storedPublicKey_found: "storedPublicKey env name st = (Inr pub, st') \<Longrightarrow> \<exists>s. hbSecrets st' name = Some s \<and> publicKeyOf s = pub"
  using getSecret_found by (fastforce simp: storedPublicKey_def split: prod.splits sum.splits if_splits)

lemma ensurePushSecret_same: "ensurePushSecret env cfg name st = (r, st') \<Longrightarrow> hbSecrets st' = hbSecrets st \<and> hbValues st' = hbValues st"
  by (auto simp: ensurePushSecret_def putPushSecret_def apiCall_def Let_def split: option.splits)

lemma createSecret_keeps:
  assumes "neGenerate env n = Inr kp" "createSecret env name \<lparr>nsSeed = fst kp, nsPublic = snd kp, nsNkey = snd kp\<rparr> st = (r, st')"
  shows "keepsSecrets env st st' \<and> hbValues st' = hbValues st \<and> (r = Inr True \<longrightarrow> (\<exists>s. hbSecrets st' name = Some s \<and> publicKeyOf s = snd kp))"
proof (cases kp)
  case (Pair a b)
  from assms(1) Pair have "\<exists>n seed. neGenerate env n = Inr (seed, b)" by blast
  with assms(2) Pair show ?thesis
    by (auto simp: createSecret_def apiCall_def Let_def keepsSecrets_def map_le_def publicKeyOf_def split: option.splits if_splits; blast)
qed


lemma keepsSecrets_stored: "keepsSecrets env st st' \<Longrightarrow> hbSecrets st name = Some s \<Longrightarrow> hbSecrets st' name = Some s"
  by (auto simp: keepsSecrets_def map_le_def dom_def)

lemma storeKey_stores:
  assumes "neGenerate env n = Inr kp" "storeKey env name kp st = (r, st')"
  shows "keepsSecrets env st st' \<and> hbValues st' = hbValues st \<and> (\<forall>pub. r = Inr pub \<longrightarrow> (\<exists>s. hbSecrets st' name = Some s \<and> publicKeyOf s = pub))"
proof -
  obtain r1 st1 where c: "createSecret env name \<lparr>nsSeed = fst kp, nsPublic = snd kp, nsNkey = snd kp\<rparr> st = (r1, st1)" by fastforce
  note k = createSecret_keeps [OF assms(1) c]
  show ?thesis
  proof (cases "r1 = Inr False")
    case True
    with assms(2) c have p: "storedPublicKey env name st1 = (r, st')" by (simp add: storeKey_def)
    from storedPublicKey_same [OF p] k have "keepsSecrets env st st' \<and> hbValues st' = hbValues st"
      by (auto intro: keepsSecrets_trans keepsSecrets_refl)
    with storedPublicKey_found [of env name st1 _ st'] p show ?thesis by blast
  next
    case False
    with assms(2) c k show ?thesis by (auto simp: storeKey_def split: sum.splits bool.splits)
  qed
qed

lemma ensureKey_stores:
  assumes "ensureKey env cfg cluster st = (r, st')"
  shows "keepsSecrets env st st' \<and> hbValues st' = hbValues st
     \<and> (\<forall>pub. r = Inr pub \<longrightarrow> (\<exists>s. hbSecrets st' (secretNameOf cfg cluster) = Some s \<and> publicKeyOf s = pub))"
proof -
  let ?n = "secretNameOf cfg cluster"
  have finish: "hbSecrets b = hbSecrets a \<and> hbValues b = hbValues a \<and> (\<forall>x. q = Inr x \<longrightarrow> x = pub)"
    if "bindH (ensurePushSecret env cfg ?n) (\<lambda>_ st. (Inr pub, st)) a = (q, b)" for pub a q b
    using that ensurePushSecret_same by (auto simp: bindH_def split: prod.splits sum.splits)
  obtain r1 st1 where p: "storedPublicKey env ?n st = (r1, st1)" by fastforce
  note same = storedPublicKey_same [OF p]
  show ?thesis
  proof (cases r1)
    case (Inr pub)
    with assms p have "bindH (ensurePushSecret env cfg ?n) (\<lambda>_ st. (Inr pub, st)) st1 = (r, st')" by (simp add: ensureKey_def Let_def)
    from finish [OF this] same storedPublicKey_found [of env ?n st pub st1] p Inr show ?thesis by (auto intro: keepsSecrets_refl)
  next
    case (Inl e)
    show ?thesis
    proof (cases e)
      case (ApiOther x)
      with assms p Inl same show ?thesis by (auto simp: ensureKey_def Let_def intro: keepsSecrets_refl)
    next
      case (ApiNotFound x)
      with assms p Inl have b: "bindH (generateNKey env cluster) (\<lambda>kp. bindH (storeKey env ?n kp)
          (\<lambda>pub. bindH (ensurePushSecret env cfg ?n) (\<lambda>_ st. (Inr pub, st)))) st1 = (r, st')"
        by (simp add: ensureKey_def Let_def)
      obtain st2 where st2: "st2 = st1\<lparr>hbKeys := Suc (hbKeys st1)\<rparr>" "hbSecrets st2 = hbSecrets st" "hbValues st2 = hbValues st" using same by simp
      show ?thesis
      proof (cases "neGenerate env (hbKeys st1)")
        case (Inl err)
        with b st2 show ?thesis by (auto simp: bindH_def generateNKey_def Let_def intro: keepsSecrets_refl)
      next
        case (Inr kp)
        obtain r3 st3 where s: "storeKey env ?n kp st2 = (r3, st3)" by fastforce
        have k: "keepsSecrets env st st3 \<and> hbValues st3 = hbValues st"
          using storeKey_stores [OF Inr s] st2 keepsSecrets_refl [of st2 st env] by (auto intro: keepsSecrets_trans)
        show ?thesis
        proof (cases r3)
          case (Inl err)
          with b Inr st2 s k show ?thesis by (auto simp: bindH_def [of "generateNKey env cluster"] bindH_def [of "storeKey env ?n kp"] generateNKey_def Let_def)
        next
          case (Inr pub)
          with b \<open>neGenerate env (hbKeys st1) = Inr kp\<close> st2 s
          have "bindH (ensurePushSecret env cfg ?n) (\<lambda>_ st. (Inr pub, st)) st3 = (r, st')"
            by (auto simp: bindH_def [of "generateNKey env cluster"] bindH_def [of "storeKey env ?n kp"] generateNKey_def Let_def)
          from finish [OF this] k storeKey_stores [OF \<open>neGenerate env (hbKeys st1) = Inr kp\<close> s] Inr show ?thesis
            by (auto intro: keepsSecrets_trans keepsSecrets_refl)
        qed
      qed
    qed
  qed
qed

text \<open>The user that a cluster gets, with the key its Secret holds.\<close>

definition leafUser :: "NkeyConfig \<Rightarrow> hub \<Rightarrow> string list \<Rightarrow> gomap \<Rightarrow> bool" where
  "leafUser cfg st clusters u =
     (\<exists>c s. c \<in> set clusters \<and> ValidClusterName c \<and> hbSecrets st (secretNameOf cfg c) = Some s \<and> u = nkeyUser (ncSubjectPrefix cfg) c (publicKeyOf s))"

lemma leafUser_mono: "leafUser cfg st cs u \<Longrightarrow> keepsSecrets env st st' \<Longrightarrow> set cs \<subseteq> set ds \<Longrightarrow> leafUser cfg st' ds u"
  unfolding leafUser_def using keepsSecrets_stored [of env st st'] by blast

lemma provision_users:
  assumes "provision env cfg names users st = (r, st')"
  shows "keepsSecrets env st st' \<and> hbValues st' = hbValues st
     \<and> (\<forall>out. r = Inr out \<longrightarrow> (\<exists>new. out = users @ new \<and> (\<forall>u \<in> set new. leafUser cfg st' names u)
          \<and> (\<forall>c \<in> set names. ValidClusterName c \<longrightarrow>
               (\<exists>s. hbSecrets st' (secretNameOf cfg c) = Some s \<and> nkeyUser (ncSubjectPrefix cfg) c (publicKeyOf s) \<in> set new))))"
  using assms
proof (induction names arbitrary: users st)
  case (Cons name names)
  show ?case
  proof (cases "ValidClusterName name")
    case False
    with Cons show ?thesis by (fastforce simp: leafUser_def)
  next
    case True
    obtain r1 st1 where e: "ensureKey env cfg name st = (r1, st1)" by fastforce
    note k = ensureKey_stores [OF e]
    show ?thesis
    proof (cases r1)
      case (Inl err)
      with Cons.prems True e k show ?thesis by (auto simp: bindH_def)
    next
      case (Inr pub)
      let ?u = "nkeyUser (ncSubjectPrefix cfg) name pub"
      from Cons.prems True e Inr have p: "provision env cfg names (users @ [?u]) st1 = (r, st')" by (simp add: bindH_def)
      note ih = Cons.IH [OF p]
      have keep: "keepsSecrets env st st' \<and> hbValues st' = hbValues st" using ih k by (auto intro: keepsSecrets_trans)
      obtain s where s: "hbSecrets st1 (secretNameOf cfg name) = Some s" "publicKeyOf s = pub" using k Inr by blast
      have s': "hbSecrets st' (secretNameOf cfg name) = Some s" using ih s keepsSecrets_stored by blast
      show ?thesis
      proof (intro conjI allI impI)
        fix out assume "r = Inr out"
        with ih obtain new where new: "out = (users @ [?u]) @ new" "\<forall>u \<in> set new. leafUser cfg st' names u"
          "\<forall>c \<in> set names. ValidClusterName c \<longrightarrow> (\<exists>s. hbSecrets st' (secretNameOf cfg c) = Some s \<and> nkeyUser (ncSubjectPrefix cfg) c (publicKeyOf s) \<in> set new)"
          by blast
        have "leafUser cfg st' (name # names) ?u" using s' s(2) True unfolding leafUser_def by auto
        moreover have "\<forall>u \<in> set new. leafUser cfg st' (name # names) u" using new(2) leafUser_mono [OF _ keepsSecrets_refl [OF refl]] by (meson set_subset_Cons)
        ultimately show "\<exists>new. out = users @ new \<and> (\<forall>u \<in> set new. leafUser cfg st' (name # names) u)
          \<and> (\<forall>c \<in> set (name # names). ValidClusterName c \<longrightarrow>
               (\<exists>s. hbSecrets st' (secretNameOf cfg c) = Some s \<and> nkeyUser (ncSubjectPrefix cfg) c (publicKeyOf s) \<in> set new))"
          using new s' s(2) by (intro exI [of _ "?u # new"]) auto
      qed (use keep in auto)
    qed
  qed
qed (auto intro: keepsSecrets_refl)

section \<open>The guard against dropped keys\<close>

lemma droppedNkeys_guard:
  assumes "droppedNkeys env cfg kept prev st = (r, st')"
  shows "hbSecrets st' = hbSecrets st \<and> hbValues st' = hbValues st
     \<and> (r = Inr [] \<longrightarrow> (\<forall>u \<in> set prev. \<forall>pub. userNkey u = Some pub \<and> pub \<notin> set kept \<longrightarrow>
          hbSecrets st (secretNameOf cfg (clusterFromUser u (ncSubjectPrefix cfg) pub)) = None))"
  using assms
proof (induction prev arbitrary: r st st')
  case (Cons u us)
  show ?case
  proof (cases "\<exists>pub. userNkey u = Some pub \<and> pub \<notin> set kept")
    case False
    with Cons.prems have "droppedNkeys env cfg kept us st = (r, st')" by (auto split: option.splits if_splits)
    from Cons.IH [OF this] False show ?thesis by auto
  next
    case True
    then obtain pub where pub: "userNkey u = Some pub" "pub \<notin> set kept" by blast
    let ?c = "clusterFromUser u (ncSubjectPrefix cfg) pub"
    obtain g st1 where g: "getSecret env (secretNameOf cfg ?c) st = (g, st1)" by fastforce
    note same = getSecret_same [OF g]
    show ?thesis
    proof (cases g)
      case (Inr s)
      obtain r2 st2 where d: "droppedNkeys env cfg kept us st1 = (r2, st2)" by fastforce
      from Cons.prems pub g Inr d have "st' = st2" "r \<noteq> Inr []" by (auto simp: bindH_def Let_def split: sum.splits)
      with Cons.IH [OF d] same show ?thesis by simp
    next
      case (Inl e)
      show ?thesis
      proof (cases e)
        case (ApiOther x)
        with Cons.prems pub g Inl same show ?thesis by (auto simp: Let_def)
      next
        case (ApiNotFound x)
        with Cons.prems pub g Inl have "droppedNkeys env cfg kept us st1 = (r, st')" by (simp add: Let_def)
        from Cons.IH [OF this] same pub getSecret_missing [of env "secretNameOf cfg ?c" st x st1] g Inl ApiNotFound show ?thesis by auto
      qed
    qed
  qed
qed simp

lemma putConfigMap_writes:
  assumes "putConfigMap env cfg raw st = (r, st')"
  shows "hbSecrets st' = hbSecrets st \<and> (case r of Inr _ \<Rightarrow> hbValues st' = Some raw | Inl _ \<Rightarrow> hbValues st' = hbValues st)"
  using assms by (auto simp: putConfigMap_def apiCall_def Let_def split: option.splits)

lemma previousUsers_reads:
  assumes "previousUsers env cfg st = (r, st')"
  shows "hbSecrets st' = hbSecrets st \<and> hbValues st' = hbValues st
     \<and> (\<forall>prev. r = Inr prev \<longrightarrow> prev = (case hbValues st of None \<Rightarrow> [] | Some raw \<Rightarrow> (case neUsers env raw of None \<Rightarrow> [] | Some us \<Rightarrow> us)))"
  using assms by (auto simp: previousUsers_def apiCall_def Let_def split: option.splits)

text \<open>The users that the stored ConfigMap authorizes.\<close>

definition authorized :: "nkey_env \<Rightarrow> hub \<Rightarrow> gomap list" where
  "authorized env st = (case hbValues st of None \<Rightarrow> [] | Some raw \<Rightarrow> (case neUsers env raw of None \<Rightarrow> [] | Some us \<Rightarrow> us))"

lemma writeConfigMap_guarded:
  assumes "writeConfigMap env cfg users st = (r, st')"
  shows "hbSecrets st' = hbSecrets st
     \<and> (case r of
          Inl _ \<Rightarrow> hbValues st' = hbValues st
        | Inr _ \<Rightarrow> (\<exists>raw. neMarshal env (valuesDoc users) = Inr raw \<and> hbValues st' = Some raw)
            \<and> (\<forall>u \<in> set (authorized env st). \<forall>pub. userNkey u = Some pub \<and> pub \<notin> set (List.map_filter userNkey users) \<longrightarrow>
                 hbSecrets st (secretNameOf cfg (clusterFromUser u (ncSubjectPrefix cfg) pub)) = None))"
proof -
  obtain r1 st1 where p: "previousUsers env cfg st = (r1, st1)" by fastforce
  note p' = previousUsers_reads [OF p]
  show ?thesis
  proof (cases r1)
    case (Inl e)
    with assms p p' show ?thesis by (auto simp: writeConfigMap_def bindH_def)
  next
    case (Inr prev)
    then have prev: "prev = authorized env st" using p' by (simp add: authorized_def)
    obtain r2 st2 where d: "droppedNkeys env cfg (List.map_filter userNkey users) prev st1 = (r2, st2)" by fastforce
    note g = droppedNkeys_guard [OF d]
    show ?thesis
    proof (cases "r2 = Inr []")
      case False
      with assms p Inr d p' g show ?thesis by (auto simp: writeConfigMap_def bindH_def split: sum.splits)
    next
      case True
      show ?thesis
      proof (cases "neMarshal env (valuesDoc users)")
        case (Inl e)
        with assms p \<open>r1 = Inr prev\<close> d True p' g show ?thesis by (auto simp: writeConfigMap_def bindH_def)
      next
        case (Inr raw)
        with assms p \<open>r1 = Inr prev\<close> d True have "putConfigMap env cfg raw st2 = (r, st')" by (simp add: writeConfigMap_def bindH_def)
        from putConfigMap_writes [OF this] p' g True prev Inr show ?thesis by (auto split: sum.splits)
      qed
    qed
  qed
qed

section \<open>A run\<close>

lemma sync_cases:
  assumes "sync env cfg (Inr clusters) st = (err, st')"
  obtains (stopped) e where "err = Some e" "keepsSecrets env st st'" "hbValues st' = hbValues st"
  | (written) users new raw where "err = None" "keepsSecrets env st st'" "users = staticUsers @ new" "\<forall>u \<in> set new. leafUser cfg st' clusters u"
      "\<forall>c \<in> set clusters. ValidClusterName c \<longrightarrow>
         (\<exists>s. hbSecrets st' (secretNameOf cfg c) = Some s \<and> nkeyUser (ncSubjectPrefix cfg) c (publicKeyOf s) \<in> set new)"
      "neMarshal env (valuesDoc users) = Inr raw" "hbValues st' = Some raw"
      "\<forall>u \<in> set (authorized env st). \<forall>pub. userNkey u = Some pub \<and> pub \<notin> set (List.map_filter userNkey users) \<longrightarrow>
         hbSecrets st' (secretNameOf cfg (clusterFromUser u (ncSubjectPrefix cfg) pub)) = None"
proof -
  obtain r1 st1 where p: "provision env cfg clusters staticUsers st = (r1, st1)" by fastforce
  note k = provision_users [OF p]
  show thesis
  proof (cases r1)
    case (Inl e)
    with assms p k show thesis by (intro stopped) (auto simp: sync_def bindH_def)
  next
    case (Inr users)
    with k obtain new where new: "users = staticUsers @ new" "\<forall>u \<in> set new. leafUser cfg st1 clusters u"
      "\<forall>c \<in> set clusters. ValidClusterName c \<longrightarrow>
         (\<exists>s. hbSecrets st1 (secretNameOf cfg c) = Some s \<and> nkeyUser (ncSubjectPrefix cfg) c (publicKeyOf s) \<in> set new)" by blast
    have ne: "users \<noteq> []" using new(1) by (simp add: staticUsers_def)
    obtain r2 st2 where w: "writeConfigMap env cfg users st1 = (r2, st2)" by fastforce
    note g = writeConfigMap_guarded [OF w]
    have eq: "authorized env st1 = authorized env st" using k by (simp add: authorized_def)
    have keep: "keepsSecrets env st st2" using k g by (auto intro: keepsSecrets_trans keepsSecrets_refl)
    have r: "(err, st') = (case r2 of Inl e \<Rightarrow> Some (errText e) | Inr _ \<Rightarrow> None, st2)"
      using assms p Inr ne w by (simp add: sync_def bindH_def split: sum.splits)
    show thesis
    proof (cases r2)
      case (Inl e)
      with r g k keep show thesis by (intro stopped) auto
    next
      case (Inr x)
      with g obtain raw where "neMarshal env (valuesDoc users) = Inr raw" "hbValues st2 = Some raw"
        "\<forall>u \<in> set (authorized env st1). \<forall>pub. userNkey u = Some pub \<and> pub \<notin> set (List.map_filter userNkey users) \<longrightarrow>
           hbSecrets st1 (secretNameOf cfg (clusterFromUser u (ncSubjectPrefix cfg) pub)) = None" by auto
      moreover have "hbSecrets st2 = hbSecrets st1" using g by simp
      ultimately show thesis using r Inr new keep eq by (intro written [of users new raw]) (auto simp: leafUser_def)
    qed
  qed
qed

lemma userNkey_nkeyUser [simp]: "userNkey (nkeyUser p c pub) = Some pub"
  by (simp add: userNkey_def nkeyUser_def userEntry_def)

lemma map_filter_nkeys: "\<forall>u \<in> set new. leafUser cfg st cs u \<Longrightarrow> pub \<in> set (List.map_filter userNkey (staticUsers @ new)) \<Longrightarrow>
    \<exists>c s. c \<in> set cs \<and> ValidClusterName c \<and> hbSecrets st (secretNameOf cfg c) = Some s \<and> publicKeyOf s = pub"
proof -
  assume new: "\<forall>u \<in> set new. leafUser cfg st cs u" and pub: "pub \<in> set (List.map_filter userNkey (staticUsers @ new))"
  have "\<forall>u \<in> set staticUsers. userNkey u = None" by (simp add: staticUsers_def userEntry_def userNkey_def)
  with pub obtain u where "u \<in> set new" "userNkey u = Some pub" by (auto simp: List.map_filter_def)
  with new show ?thesis by (force simp: leafUser_def)
qed

text \<open>YAML reads back the users that were written.\<close>

definition yamlRoundtrip :: "nkey_env \<Rightarrow> bool" where
  "yamlRoundtrip env = (\<forall>users raw. neMarshal env (valuesDoc users) = Inr raw \<longrightarrow> neUsers env raw = Some users)"

text \<open>
  What the broker reads of a user entry: who it is, by certificate name or by key, over which kind of
  connection it may come, and the subjects it may publish to and subscribe to.
\<close>

definition grantOf :: "string \<Rightarrow> gomap \<Rightarrow> gval option" where
  "grantOf kind u =
     (case asMap (map_of u ''permissions'') of
        None \<Rightarrow> None
      | Some perms \<Rightarrow> (case asMap (map_of perms kind) of None \<Rightarrow> None | Some p \<Rightarrow> map_of p ''allow''))"

type_synonym user_view = "string option \<times> string option \<times> gval option \<times> gval option \<times> gval option"

definition userView :: "gomap \<Rightarrow> user_view" where
  "userView u = (asStr (map_of u ''user''), asStr (map_of u ''nkey''), map_of u ''allowed_connection_types'',
     grantOf ''publish'' u, grantOf ''subscribe'' u)"

definition fixedViews :: "user_view list" where
  "fixedViews =
     [(Some ''CN=nack.nats.client'', None, Some (VList [VStr ''STANDARD'']), Some (VList [VStr ''>'']), Some (VList [VStr ''>''])),
      (Some ''CN=activity-processor-nats-client'', None, Some (VList [VStr ''STANDARD'']),
       Some (VList [VStr ''$JS.API.>'', VStr ''$JS.ACK.>'']), Some (VList [VStr ''_INBOX.>'']))]"

text \<open>The leaf node of a cluster: its key, its own subjects under the prefix, and its own inbox.\<close>

definition leafView :: "string \<Rightarrow> string \<Rightarrow> string \<Rightarrow> user_view" where
  "leafView subjectPrefix cluster key =
     (None, Some key, Some (VList [VStr ''LEAFNODE'']), Some (VList [VStr (subjectPrefix @ ''.'' @ cluster @ ''.*'')]),
      Some (VList [VStr (''_INBOX_'' @ cluster @ ''.>'')]))"

lemma userView_static: "map userView staticUsers = fixedViews"
  by (simp add: staticUsers_def userView_def grantOf_def userEntry_def toAny_def fixedViews_def connTypeStandard_def)

lemma userView_nkeyUser: "userView (nkeyUser p c key) = leafView p c key"
  by (simp add: nkeyUser_def userView_def grantOf_def userEntry_def toAny_def leafView_def connTypeLeafnode_def
      EventSubjectGrant_def EventInboxGrant_def EventInboxPrefix_def)

lemma userView_userNkey: "userView u = leafView p c key \<Longrightarrow> userNkey u = Some key"
  by (simp add: userView_def leafView_def userNkey_def)

lemma rev_hasPrefix: "hasPrefix (rev (a @ b)) (rev b)"
  by (simp add: hasPrefix_iff)

lemma cutSuffix_append: "cutSuffix (a @ b) b = Some a"
  using rev_hasPrefix [of a b] by (simp add: cutSuffix_def cutPrefix_def)

lemma cutPrefix_append: "cutPrefix (a @ b) a = Some b"
  by (simp add: cutPrefix_def hasPrefix_append)

lemma clusterFromSubjects_own: "clusterFromSubjects p fallback [VStr (p @ ''.'' @ c @ ''.*'')] = c"
  using cutPrefix_append [of "p @ ''.''" "c @ ''.*''"] cutSuffix_append [of c "''.*''"] by simp

text \<open>The cluster that the guard reads off a user is the one whose subjects the user may publish to.\<close>

lemma clusterFromUser_view:
  assumes "userView u = leafView p c key"
  shows "clusterFromUser u p fallback = c"
proof -
  from assms have "grantOf ''publish'' u = Some (VList [VStr (p @ ''.'' @ c @ ''.*'')])" by (simp add: userView_def leafView_def)
  then show ?thesis
    unfolding grantOf_def clusterFromUser_def using clusterFromSubjects_own [of p fallback c] by (auto split: option.splits)
qed


definition sampleNkeyConfig :: NkeyConfig where
  "sampleNkeyConfig = \<lparr>ncSecretPrefix = ''activity-leaf-nkey'', ncConfigMapName = ''authorized-leafs'', ncSecretStoreName = ''gcp'',
     ncSecretStoreKind = ''ClusterSecretStore'', ncSubjectPrefix = ''activity.federated''\<rparr>"

definition emptyHub :: hub where
  "emptyHub = \<lparr>hbSecrets = Map.empty, hbPushSecrets = Map.empty, hbValues = None, hbCalls = 0, hbKeys = 0\<rparr>"

text \<open>YAML for the users of one example cluster.\<close>

definition sampleUsers :: "gomap list" where
  "sampleUsers = staticUsers @ [nkeyUser ''activity.federated'' ''us-1'' ''UA'']"

definition sampleNkeyEnv :: "string \<Rightarrow> nkey_env" where
  "sampleNkeyEnv fresh = \<lparr>neFail = (\<lambda>_. None), neRace = (\<lambda>_. None), neGenerate = (\<lambda>_. Inr (''SU'', fresh)),
     neMarshal = (\<lambda>doc. if doc = valuesDoc sampleUsers then Inr ''v0'' else Inl ''unsupported''),
     neUsers = (\<lambda>raw. if raw = ''v0'' then Some sampleUsers else None)\<rparr>"

lemma valuesDoc_inject: "valuesDoc us = valuesDoc vs \<Longrightarrow> us = vs"
  by (simp add: valuesDoc_def inj_map_eq_map inj_on_def)

lemma sampleNkeyEnv_roundtrip: "yamlRoundtrip (sampleNkeyEnv fresh)"
  by (auto simp: yamlRoundtrip_def sampleNkeyEnv_def dest: valuesDoc_inject split: if_splits)


text \<open>
  The cluster name read back from a user entry is the name it was built for, for every prefix
  and every valid cluster, so that the guard looks at the right Secret.
\<close>

theorem cluster_name_roundtrip:
  "clusterFromUser (nkeyUser subjectPrefix cluster pub) subjectPrefix fallback = cluster"
  by (rule clusterFromUser_view [OF userView_nkeyUser])

text \<open>
  Rotating a cluster's key by deleting its Secret stops the generator. The run makes a new key,
  sees that the published user with the old key would go while the Secret, which it has just made,
  exists, and refuses to write; and what it leaves satisfies the same conditions, so every later run
  is refused as well, until the ConfigMap is edited by hand.
\<close>

theorem deleted_key_blocks_every_sync:
  assumes "sync env cfg (Inr clusters) st = (err, st')" "yamlRoundtrip env"
    and "nkeyUser (ncSubjectPrefix cfg) c old \<in> set (authorized env st)" "c \<in> set clusters" "ValidClusterName c"
    and "\<And>name s. hbSecrets st name = Some s \<Longrightarrow> publicKeyOf s \<noteq> old"
    and "\<And>n s. neRace env n = Some s \<Longrightarrow> publicKeyOf s \<noteq> old" "\<And>n seed. neGenerate env n \<noteq> Inr (seed, old)"
  shows "err \<noteq> None \<and> nkeyUser (ncSubjectPrefix cfg) c old \<in> set (authorized env st')
     \<and> (\<forall>name s. hbSecrets st' name = Some s \<longrightarrow> publicKeyOf s \<noteq> old)"
proof -
  have fresh: "publicKeyOf s \<noteq> old" if "keepsSecrets env st st'" "hbSecrets st' name = Some s" for name s
  proof -
    from that consider "hbSecrets st name = Some s" | n where "neRace env n = Some s"
      | n seed where "neGenerate env n = Inr (seed, nsPublic s)" "nsNkey s = nsPublic s"
      unfolding keepsSecrets_def by blast
    then show ?thesis using assms(6-8) by cases (auto simp: publicKeyOf_def)
  qed
  from assms(1) show ?thesis
  proof (cases rule: sync_cases)
    case (stopped e)
    with assms(3) fresh show ?thesis by (simp add: authorized_def)
  next
    case (written users new raw)
    have "old \<notin> set (List.map_filter userNkey users)"
      using map_filter_nkeys [OF written(4), of old] fresh [OF written(2)] written(3) by blast
    with written(8) assms(3) have "hbSecrets st' (secretNameOf cfg c) = None"
      by (auto simp: cluster_name_roundtrip)
    with written(5) assms(4,5) show ?thesis by auto
  qed
qed

lemma deleted_key_blocks_every_sync_witness:
  "fst (sync (sampleNkeyEnv ''UB'') sampleNkeyConfig (Inr [''us-1'']) (emptyHub\<lparr>hbValues := Some ''v0''\<rparr>)) \<noteq> None"
proof -
  obtain err st' where run: "sync (sampleNkeyEnv ''UB'') sampleNkeyConfig (Inr [''us-1'']) (emptyHub\<lparr>hbValues := Some ''v0''\<rparr>) = (err, st')" by fastforce
  have "ValidClusterName ''us-1''" by code_simp
  with deleted_key_blocks_every_sync [OF run sampleNkeyEnv_roundtrip, of "''us-1''" "''UA''"] run show ?thesis
    by (simp add: authorized_def sampleNkeyEnv_def sampleUsers_def sampleNkeyConfig_def emptyHub_def)
qed

text \<open>
  Under another subject prefix the cluster of a published user is not recognised, its key is taken
  for the cluster's name, no such Secret exists, and the guard lets the key go.
\<close>

lemma prefix_change_disables_guard:
  assumes "\<not> hasPrefix (EventSubjectGrant old c) (new @ ''.'')"
  shows "clusterFromUser (nkeyUser old c pub) new pub = pub"
  using assms by (simp add: clusterFromUser_def nkeyUser_def userEntry_def toAny_def cutPrefix_def)

end
