(* ===== verification/Cel_Text.thy ===== *)
theory Cel_Text
  imports Storage_Query Go_Text
begin

text \<open>
  Filters as text. Several parts of the program write a CEL filter around a value that a user
  gives: the activity list of the API server, the kubectl plugin and the MCP tools. What the text
  means is decided by CEL's lexer; \<open>celTokens\<close> is the part of the lexical grammar of the
  language definition that these texts use (names with dots, numbers, symbols, comments, quoted
  literals with all their escapes; triple-quoted, raw and bytes literals are outside of it and
  give \<open>None\<close>). It is a reference, not code of the repository: the escaping routines are
  judged by what it reads back.
\<close>

section \<open>The lexer\<close>

definition sQuote :: char where "sQuote = CHR 0x27"
definition dQuote :: char where "dQuote = CHR 0x22"
definition backslash :: char where "backslash = CHR 0x5C"

lemmas quote_defs = sQuote_def dQuote_def backslash_def

datatype cel_tok = TWord string | TSym string | TLit string

definition isLineEnd :: "char \<Rightarrow> bool" where
  "isLineEnd c = ((of_char c :: nat) \<in> {10, 13})"

definition hexVal :: "char \<Rightarrow> nat option" where
  "hexVal c =
     (let n = of_char c :: nat in
      if 48 \<le> n \<and> n \<le> 57 then Some (n - 48) else if 97 \<le> n \<and> n \<le> 102 then Some (n - 87)
      else if 65 \<le> n \<and> n \<le> 70 then Some (n - 55) else None)"

text \<open>A fixed number of digits of a base, and the rest.\<close>

fun readDigits :: "nat \<Rightarrow> nat \<Rightarrow> nat \<Rightarrow> string \<Rightarrow> (nat \<times> string) option" where
  "readDigits base 0 acc s = Some (acc, s)"
| "readDigits base (Suc k) acc [] = None"
| "readDigits base (Suc k) acc (c # s) =
     (case hexVal c of Some d \<Rightarrow> if d < base then readDigits base k (acc * base + d) s else None | None \<Rightarrow> None)"

definition utf8 :: "nat \<Rightarrow> string" where
  "utf8 n =
     (if n < 128 then [char_of n]
      else if n < 2048 then [char_of (192 + n div 64), char_of (128 + n mod 64)]
      else if n < 65536 then [char_of (224 + n div 4096), char_of (128 + n div 64 mod 64), char_of (128 + n mod 64)]
      else [char_of (240 + n div 262144), char_of (128 + n div 4096 mod 64), char_of (128 + n div 64 mod 64), char_of (128 + n mod 64)])"

definition simpleEscape :: "char \<Rightarrow> string option" where
  "simpleEscape c =
     (let n = of_char c :: nat in
      if n \<in> {34, 39, 63, 92, 96} then Some [c]
      else if n = 97 then Some [char_of (7 :: nat)] else if n = 98 then Some [char_of (8 :: nat)]
      else if n = 102 then Some [char_of (12 :: nat)] else if n = 110 then Some [char_of (10 :: nat)]
      else if n = 114 then Some [char_of (13 :: nat)] else if n = 116 then Some [char_of (9 :: nat)]
      else if n = 118 then Some [char_of (11 :: nat)] else None)"

definition codeEscape :: "nat \<Rightarrow> nat \<Rightarrow> string \<Rightarrow> (string \<times> string) option" where
  "codeEscape base k s = map_option (\<lambda>(n, r). (utf8 n, r)) (readDigits base k 0 s)"

text \<open>What follows a backslash in a literal: the bytes it stands for and the rest.\<close>

definition readEscape :: "string \<Rightarrow> (string \<times> string) option" where
  "readEscape s =
     (case s of
        [] \<Rightarrow> None
      | c # t \<Rightarrow>
          (case simpleEscape c of
             Some b \<Rightarrow> Some (b, t)
           | None \<Rightarrow>
               if c = CHR ''x'' \<or> c = CHR ''X'' then codeEscape 16 2 t
               else if c = CHR ''u'' then codeEscape 16 4 t
               else if c = CHR ''U'' then codeEscape 16 8 t
               else if c \<in> {CHR ''0'', CHR ''1'', CHR ''2'', CHR ''3''} then codeEscape 8 3 s
               else None))"

lemma readDigits_length: "readDigits base k acc s = Some (n, r) \<Longrightarrow> length r + k = length s"
  by (induction base k acc s rule: readDigits.induct) (auto split: option.splits if_splits)

lemma codeEscape_length: "codeEscape base k s = Some (b, r) \<Longrightarrow> length r + k = length s"
  by (auto simp: codeEscape_def dest: readDigits_length)

lemma readEscape_length:
  assumes "readEscape s = Some (b, r)"
  shows "length r < length s"
proof (cases s)
  case Nil
  with assms show ?thesis by (simp add: readEscape_def)
next
  case (Cons c t)
  consider "r = t" | k where "codeEscape 16 k t = Some (b, r)" | "codeEscape 8 3 s = Some (b, r)"
    using assms Cons by (auto simp only: readEscape_def list.case split: option.splits if_splits)
  then show ?thesis
    by cases (use Cons in \<open>auto dest: codeEscape_length\<close>)
qed

text \<open>The value of a literal opened by the quote \<open>q\<close>, and what follows the closing quote.\<close>

function readLit :: "char \<Rightarrow> string \<Rightarrow> (string \<times> string) option" where
  "readLit q [] = None"
| "readLit q (c # s) =
     (if c = q then Some ([], s)
      else if isLineEnd c then None
      else if c \<noteq> backslash then map_option (\<lambda>(v, r). (c # v, r)) (readLit q s)
      else (case readEscape s of
              None \<Rightarrow> None
            | Some (b, s') \<Rightarrow> map_option (\<lambda>(v, r). (b @ v, r)) (readLit q s')))"
  by pat_completeness auto
termination
  by (relation "measure (length \<circ> snd)") (auto dest: readEscape_length)

declare readLit.simps [simp del]

lemma readLit_length: "readLit q s = Some (v, r) \<Longrightarrow> length r < length s"
proof (induction q s arbitrary: v r rule: readLit.induct)
  case (2 q c s)
  show ?case
    using "2.prems" "2.IH"
    by (fastforce simp: readLit.simps(2) split: if_splits option.splits dest!: readEscape_length)
qed (simp add: readLit.simps)

definition isWordChar :: "char \<Rightarrow> bool" where
  "isWordChar c =
     (let n = of_char c :: nat in
      48 \<le> n \<and> n \<le> 57 \<or> 65 \<le> n \<and> n \<le> 90 \<or> 97 \<le> n \<and> n \<le> 122 \<or> n = 95 \<or> n = 46)"

definition isQuoteChar :: "char \<Rightarrow> bool" where
  "isQuoteChar c = (c = sQuote \<or> c = dQuote)"

definition celSymbols :: "string list" where
  "celSymbols = [''=='', ''!='', ''>='', ''<='', ''&&'', ''||'', ''('', '')'', ''['', '']'', '','', ''!'', ''<'', ''>'', ''+'', ''-'', ''*'', ''/'',
     ''%'', ''?'', '':'', ''{'', ''}'']"

definition readSymbol :: "string \<Rightarrow> string option" where
  "readSymbol s = find (hasPrefix s) celSymbols"

lemma readSymbol_nonempty: "readSymbol s = Some y \<Longrightarrow> y \<noteq> [] \<and> hasPrefix s y"
  by (auto simp: readSymbol_def celSymbols_def split: if_splits)

text \<open>A word directly before a quote would open a raw or bytes literal, three quotes a long one.\<close>

function celTokens :: "string \<Rightarrow> cel_tok list option" where
  "celTokens s =
     (case s of
        [] \<Rightarrow> Some []
      | c # t \<Rightarrow>
          if isSpace c then celTokens t
          else if hasPrefix s ''//'' then celTokens (dropWhile (\<lambda>d. d \<noteq> CHR 0x0A) s)
          else if isWordChar c
          then (let word = takeWhile isWordChar s; rest = dropWhile isWordChar s
                in if rest \<noteq> [] \<and> isQuoteChar (hd rest) then None else map_option (Cons (TWord word)) (celTokens rest))
          else if isQuoteChar c
          then (if hasPrefix t [c, c] then None
                else (case readLit c t of
                        None \<Rightarrow> None
                      | Some (v, rest) \<Rightarrow> map_option (Cons (TLit v)) (celTokens rest)))
          else (case readSymbol s of
                  None \<Rightarrow> None
                | Some y \<Rightarrow> map_option (Cons (TSym y)) (celTokens (drop (length y) s))))"
  by pat_completeness auto
termination
proof (relation "measure length", goal_cases)
  case (3 s c t)
  have "c = CHR ''/''" using 3 by (cases t) (simp_all add: hasPrefix_def)
  then have "dropWhile (\<lambda>d. d \<noteq> CHR 0x0A) s = dropWhile (\<lambda>d. d \<noteq> CHR 0x0A) t" using 3 by simp
  then show ?case using 3 length_dropWhile_le [of "\<lambda>d. d \<noteq> CHR 0x0A" t] by simp
next
  case (4 s c t word rest)
  then show ?case by (auto simp: less_Suc_eq_le length_dropWhile_le)
next
  case (5 s c t y v rest)
  then show ?case by (auto dest!: readLit_length)
next
  case (6 s c t y)
  then show ?case by (auto dest!: readSymbol_nonempty simp: hasPrefix_def)
qed auto

declare celTokens.simps [simp del]

section \<open>What the lexer reads\<close>

lemma celTokens_Nil [simp]: "celTokens [] = Some []"
  by (simp add: celTokens.simps)

lemma celTokens_space [simp]: "celTokens (CHR '' '' # t) = celTokens t"
  by (subst celTokens.simps) (simp add: isSpace_def)

text \<open>Names as the filters use them.\<close>

definition celName :: "string \<Rightarrow> bool" where
  "celName f = (f \<noteq> [] \<and> list_all isWordChar f)"

definition endsWord :: "string \<Rightarrow> bool" where
  "endsWord rest = (rest = [] \<or> \<not> isWordChar (hd rest) \<and> \<not> isQuoteChar (hd rest))"

lemma isWordChar_head: "isWordChar c \<Longrightarrow> \<not> isSpace c \<and> c \<noteq> CHR ''/''"
  by (auto simp: isWordChar_def isSpace_def)

lemma celTokens_word:
  assumes "celName w" and "endsWord rest"
  shows "celTokens (w @ rest) = map_option (Cons (TWord w)) (celTokens rest)"
proof -
  obtain c t where w: "w = c # t" and c: "isWordChar c" and t: "list_all isWordChar t"
    using assms(1) by (cases w) (auto simp: celName_def)
  have tw: "takeWhile isWordChar (w @ rest) = w" and dw: "dropWhile isWordChar (w @ rest) = rest"
    using assms by (cases rest; auto simp: celName_def endsWord_def list_all_iff)+
  have r: "\<not> (rest \<noteq> [] \<and> isQuoteChar (hd rest))" using assms(2) by (auto simp: endsWord_def)
  have nc: "\<not> hasPrefix (c # t @ rest) ''//''" using isWordChar_head [OF c] by (simp add: hasPrefix_def)
  have "celTokens (w @ rest) =
        (let word = takeWhile isWordChar (w @ rest); rest' = dropWhile isWordChar (w @ rest)
         in if rest' \<noteq> [] \<and> isQuoteChar (hd rest') then None else map_option (Cons (TWord word)) (celTokens rest'))"
    unfolding w using nc c isWordChar_head [OF c] by (subst celTokens.simps) simp
  then show ?thesis unfolding tw dw Let_def using r by simp
qed

lemma celTokens_symbol:
  assumes "readSymbol (c # t) = Some y" and "\<not> isSpace c" "\<not> isWordChar c" "\<not> isQuoteChar c" "\<not> hasPrefix (c # t) ''//''"
  shows "celTokens (c # t) = map_option (Cons (TSym y)) (celTokens (drop (length y) (c # t)))"
  using assms by (subst celTokens.simps) simp

lemma symbol_chars:
  "\<forall>c \<in> set ''=!<>&|()[]''. \<not> isSpace c \<and> \<not> isWordChar c \<and> \<not> isQuoteChar c \<and> c \<noteq> CHR ''/''"
  by (simp add: isSpace_def isWordChar_def isQuoteChar_def quote_defs)

lemma hasPrefix_simps: "hasPrefix s []" "\<not> hasPrefix [] (d # p)" "hasPrefix (c # s) (d # p) = (c = d \<and> hasPrefix s p)"
  by (simp_all add: hasPrefix_def)

lemma celTokens_sym:
  assumes "s \<in> {''=='', ''&&'', ''||'', ''>='', ''<='', ''('', '')''}"
  shows "celTokens (s @ rest) = map_option (Cons (TSym s)) (celTokens rest)"
proof -
  have y: "readSymbol (s @ rest) = Some s"
    using assms by (elim insertE emptyE) (simp_all add: readSymbol_def celSymbols_def hasPrefix_simps)
  obtain c t where s: "s = c # t" and c: "c \<in> set ''=!<>&|()[]''" using assms by auto
  have "celTokens (c # t @ rest) = map_option (Cons (TSym s)) (celTokens (drop (length s) (c # t @ rest)))"
    using y by (intro celTokens_symbol) (use s bspec [OF symbol_chars c] in \<open>auto simp: hasPrefix_simps\<close>)
  then show ?thesis by (simp add: s)
qed

text \<open>\<open>body\<close>, between two quotes \<open>q\<close>, is a literal with the value \<open>v\<close>, whatever follows.\<close>

definition litBody :: "char \<Rightarrow> string \<Rightarrow> string \<Rightarrow> bool" where
  "litBody q body v = (\<forall>rest. readLit q (body @ q # rest) = Some (v, rest))"

lemma readLit_close [simp]: "readLit q (q # rest) = Some ([], rest)"
  by (simp add: readLit.simps)

lemma litBody_head:
  assumes "litBody q body v"
  shows "body = [] \<or> hd body \<noteq> q"
proof (rule ccontr)
  assume "\<not> (body = [] \<or> hd body \<noteq> q)"
  then obtain t where "body = q # t" by (cases body) auto
  then have "readLit q (body @ q # []) = Some ([], t @ [q])" by simp
  with assms show False by (auto simp: litBody_def)
qed

lemma celTokens_lit:
  assumes "litBody q body v" and "isQuoteChar q" and "rest = [] \<or> \<not> isQuoteChar (hd rest)"
  shows "celTokens (q # body @ q # rest) = map_option (Cons (TLit v)) (celTokens rest)"
proof -
  have np: "\<not> hasPrefix (body @ q # rest) [q, q]"
    using litBody_head [OF assms(1)] assms(2,3) by (cases body; cases rest) (auto simp: hasPrefix_def)
  have lit: "readLit q (body @ q # rest) = Some (v, rest)" using assms(1) by (simp add: litBody_def)
  have q: "\<not> isSpace q" "\<not> isWordChar q" "\<not> hasPrefix (q # body @ q # rest) ''//''"
    using assms(2) by (auto simp: isQuoteChar_def quote_defs isSpace_def isWordChar_def hasPrefix_def)
  show ?thesis
    using np lit q assms(2) by (subst celTokens.simps) simp
qed

text \<open>A literal written character by character.\<close>

lemma litBody_concat:
  assumes "\<And>d rest v r. d \<in> set s \<Longrightarrow> readLit q rest = Some (v, r) \<Longrightarrow> readLit q (esc d @ rest) = Some (val d @ v, r)"
  shows "litBody q (concat (map esc s)) (concat (map val s))"
proof -
  have "readLit q (concat (map esc s) @ q # rest) = Some (concat (map val s), rest)" for rest
    using assms by (induction s) auto
  then show ?thesis by (simp add: litBody_def)
qed

lemma readLit_plain:
  "\<lbrakk>readLit q rest = Some (v, r); d \<noteq> q; \<not> isLineEnd d; d \<noteq> backslash\<rbrakk> \<Longrightarrow> readLit q (d # rest) = Some (d # v, r)"
  by (simp add: readLit.simps(2))

lemma readLit_escape:
  "\<lbrakk>readLit q rest = Some (v, r); readEscape (e @ rest) = Some (b, rest); q \<noteq> backslash\<rbrakk> \<Longrightarrow>
   readLit q (backslash # e @ rest) = Some (b @ v, r)"
  by (simp add: readLit.simps(2) isLineEnd_def quote_defs)

lemma replaceAllStr_char:
  "replaceAllStr s [c] new = concat (map (\<lambda>d. if d = c then new else [d]) s)"
  by (induction s) (simp_all add: replaceAllStr.simps hasPrefix_def)

section \<open>Clauses\<close>

text \<open>The equality tests that the writers of filters join with \<open>&&\<close>.\<close>

definition clauseText :: "char \<Rightarrow> (string \<Rightarrow> string) \<Rightarrow> string \<times> string \<Rightarrow> string" where
  "clauseText q esc = (\<lambda>(field, v). field @ '' == '' @ [q] @ esc v @ [q])"

definition clauseTokens :: "string \<times> string \<Rightarrow> cel_tok list" where
  "clauseTokens = (\<lambda>(field, v). [TWord field, TSym ''=='', TLit v])"

fun conjTokens :: "cel_tok list list \<Rightarrow> cel_tok list" where
  "conjTokens [] = []"
| "conjTokens [ts] = ts"
| "conjTokens (ts # tss) = ts @ TSym ''&&'' # conjTokens tss"

lemma celTokens_clause:
  assumes "celName f" and "litBody q (esc v) v" and "isQuoteChar q" and "rest = [] \<or> \<not> isQuoteChar (hd rest)"
  shows "celTokens (clauseText q esc (f, v) @ rest) = map_option ((@) (clauseTokens (f, v))) (celTokens rest)"
proof -
  have "celTokens (f @ CHR '' '' # ''=='' @ CHR '' '' # q # esc v @ q # rest)
      = map_option (Cons (TWord f)) (celTokens (CHR '' '' # ''=='' @ CHR '' '' # q # esc v @ q # rest))"
    by (rule celTokens_word [OF assms(1)]) (simp add: endsWord_def isWordChar_def isQuoteChar_def quote_defs)
  also have "\<dots> = map_option (Cons (TWord f) \<circ> Cons (TSym ''==''))
      (celTokens (CHR '' '' # q # esc v @ q # rest))"
    using celTokens_sym [of "''==''"] by (simp add: option.map_comp)
  also have "\<dots> = map_option ((@) (clauseTokens (f, v))) (celTokens rest)"
    by (cases "celTokens rest") (simp_all add: celTokens_lit [OF assms(2,3,4)] clauseTokens_def)
  finally show ?thesis by (simp add: clauseText_def)
qed

lemma celTokens_conj:
  assumes "cs \<noteq> []" and "\<And>f v. (f, v) \<in> set cs \<Longrightarrow> celName f \<and> litBody q (esc v) v"
    and "isQuoteChar q" and "rest = [] \<or> \<not> isQuoteChar (hd rest)"
  shows "celTokens (joinStr '' && '' (map (clauseText q esc) cs) @ rest)
       = map_option ((@) (conjTokens (map clauseTokens cs))) (celTokens rest)"
  using assms(1,2)
proof (induction cs)
  case (Cons c cs)
  obtain f v where c: "c = (f, v)" by (cases c)
  have l: "celName f" "litBody q (esc v) v" using Cons.prems(2) [of f v] by (auto simp: c)
  show ?case
  proof (cases cs)
    case Nil
    then show ?thesis by (simp add: c celTokens_clause [where f = f and v = v and esc = esc and q = q, OF l assms(3,4)])
  next
    case (Cons d ds)
    let ?more = "joinStr '' && '' (map (clauseText q esc) cs) @ rest"
    have h: "'' && '' @ ?more = [] \<or> \<not> isQuoteChar (hd ('' && '' @ ?more))" by (simp add: isQuoteChar_def quote_defs)
    have IH: "celTokens ?more = map_option ((@) (conjTokens (map clauseTokens cs))) (celTokens rest)"
      using Cons.IH Cons.prems Cons by auto
    have amp: "celTokens ('' && '' @ ?more) = map_option (Cons (TSym ''&&'')) (celTokens ?more)"
      using celTokens_sym [of "''&&''" "CHR '' '' # ?more"] by simp
    have "celTokens (clauseText q esc (f, v) @ '' && '' @ ?more)
        = map_option ((@) (clauseTokens (f, v)) \<circ> Cons (TSym ''&&'') \<circ> (@) (conjTokens (map clauseTokens cs))) (celTokens rest)"
      unfolding celTokens_clause [where f = f and v = v and esc = esc and q = q, OF l assms(3) h] amp IH by (simp add: option.map_comp comp_assoc)
    then show ?thesis by (simp add: c Cons comp_def)
  qed
qed simp

end
