(* ===== verification/Go_Quote.thy ===== *)
theory Go_Quote
  imports Cel_Text Go_Text Sha256
begin

text \<open>
  Go's \<open>strconv.Quote\<close>, which the tools of the MCP server use to write CEL literals, and its
  agreement with the CEL lexer. \<open>pr\<close> is \<open>strconv.IsPrint\<close> on the code points beyond ASCII.
\<close>

section \<open>strconv.Quote\<close>

definition runeValue :: "string \<Rightarrow> nat" where
  "runeValue r =
     (let b = (\<lambda>i. of_char (r ! i) :: nat)
      in case length r of
           0 \<Rightarrow> 0
         | Suc 0 \<Rightarrow> b 0
         | Suc (Suc 0) \<Rightarrow> (b 0 - 0xC0) * 64 + (b 1 - 0x80)
         | Suc (Suc (Suc 0)) \<Rightarrow> (b 0 - 0xE0) * 4096 + (b 1 - 0x80) * 64 + (b 2 - 0x80)
         | _ \<Rightarrow> (b 0 - 0xF0) * 262144 + (b 1 - 0x80) * 4096 + (b 2 - 0x80) * 64 + (b 3 - 0x80))"

fun hexFixed :: "nat \<Rightarrow> nat \<Rightarrow> string" where
  "hexFixed 0 n = []"
| "hexFixed (Suc k) n = hexFixed k (n div 16) @ [hexDigit (n mod 16)]"

text \<open>A byte that starts no rune, and a rune, between the quotes.\<close>

definition quoteRune :: "(nat \<Rightarrow> bool) \<Rightarrow> string \<Rightarrow> string" where
  "quoteRune pr r =
     (let n = runeValue r
      in if length r = 1 \<and> 0x80 \<le> n then backslash # ''x'' @ hexFixed 2 n
         else if n = 34 \<or> n = 92 then backslash # r
         else if (if n < 0x80 then 32 \<le> n \<and> n < 127 else pr n) then r
         else if n = 7 then backslash # ''a'' else if n = 8 then backslash # ''b'' else if n = 12 then backslash # ''f''
         else if n = 10 then backslash # ''n'' else if n = 13 then backslash # ''r'' else if n = 9 then backslash # ''t''
         else if n = 11 then backslash # ''v''
         else if n < 32 \<or> n = 127 then backslash # ''x'' @ hexFixed 2 n
         else if n < 0x10000 then backslash # ''u'' @ hexFixed 4 n
         else backslash # ''U'' @ hexFixed 8 n)"

definition quoteBody :: "(nat \<Rightarrow> bool) \<Rightarrow> string \<Rightarrow> string" where
  "quoteBody pr s = concat (map (quoteRune pr) (runes s))"

definition goQuote :: "(nat \<Rightarrow> bool) \<Rightarrow> string \<Rightarrow> string" where
  "goQuote pr s = [dQuote] @ quoteBody pr s @ [dQuote]"

section \<open>Runes are what their values encode\<close>

definition runeOk :: "string \<Rightarrow> bool" where
  "runeOk r = (r \<noteq> [] \<and> runeWidth r = length r \<and> (length r = 1 \<longrightarrow> of_char (hd r) < (0x80 :: nat)))"

lemma runeOk_cases:
  assumes "runeOk r"
  obtains (ascii) c where "r = [c]" "of_char c < (0x80 :: nat)"
    | (two) a b where "r = [a, b]" "byteIn 0xC2 0xDF a" "isCont b"
    | (three) a b c where "r = [a, b, c]" "isCont c" "isCont b" "byteIn 0xE0 0xEF a" "of_char a = (0xE0 :: nat) \<Longrightarrow> byteIn 0xA0 0xBF b"
    | (four) a b c d where "r = [a, b, c, d]" "isCont c" "isCont d" "isCont b" "byteIn 0xF0 0xF4 a" "of_char a = (0xF0 :: nat) \<Longrightarrow> byteIn 0x90 0xBF b"
proof -
  have w: "runeWidth r \<le> 4" unfolding runeWidth_def by (auto split: list.splits)
  with assms consider (1) c where "r = [c]" | (2) a b where "r = [a, b]" | (3) a b c where "r = [a, b, c]" | (4) a b c d where "r = [a, b, c, d]"
    by (cases r rule: remdups_adj.cases; cases "tl (tl r)"; cases "tl (tl (tl r))"; cases "tl (tl (tl (tl r)))") (auto simp: runeOk_def)
  then show ?thesis
  proof cases
    case 1
    with assms ascii show ?thesis by (auto simp: runeOk_def)
  next
    case 2
    with assms two show ?thesis by (auto simp: runeOk_def runeWidth_def split: if_splits)
  next
    case 3
    with assms have "runeWidth [a, b, c] = 3" by (simp add: runeOk_def)
    then have "((byteIn 0xE0 0xE0 a \<and> byteIn 0xA0 0xBF b) \<or> (byteIn 0xED 0xED a \<and> byteIn 0x80 0x9F b)
        \<or> ((byteIn 0xE1 0xEC a \<or> byteIn 0xEE 0xEF a) \<and> isCont b))" "isCont c"
      by (simp_all add: runeWidth_def split: if_splits)
    then have "isCont c" "isCont b" "byteIn 0xE0 0xEF a" "of_char a = (0xE0 :: nat) \<Longrightarrow> byteIn 0xA0 0xBF b"
      by (auto simp: byteIn_def isCont_def)
    with 3 three show ?thesis by blast
  next
    case 4
    with assms have "runeWidth [a, b, c, d] = 4" by (simp add: runeOk_def)
    then have "((byteIn 0xF0 0xF0 a \<and> byteIn 0x90 0xBF b) \<or> (byteIn 0xF4 0xF4 a \<and> byteIn 0x80 0x8F b)
        \<or> (byteIn 0xF1 0xF3 a \<and> isCont b))" "isCont c" "isCont d"
      by (simp_all add: runeWidth_def split: if_splits)
    then have "isCont c" "isCont d" "isCont b" "byteIn 0xF0 0xF4 a" "of_char a = (0xF0 :: nat) \<Longrightarrow> byteIn 0x90 0xBF b"
      by (auto simp: byteIn_def isCont_def)
    with 4 four show ?thesis by blast
  qed
qed

lemma byteIn_offset:
  assumes "byteIn lo hi c" and "base \<le> lo"
  obtains x :: nat where "(of_char c :: nat) = base + x" "char_of (base + x) = c" "base + x \<le> hi" "lo \<le> base + x"
proof -
  have "lo \<le> of_char c" "(of_char c :: nat) \<le> hi" using assms(1) by (auto simp: byteIn_def)
  then have e: "(of_char c :: nat) = base + ((of_char c :: nat) - base)" using assms(2) by simp
  moreover have "char_of (base + ((of_char c :: nat) - base)) = c" using e by (metis char_of_char)
  ultimately show ?thesis using that [of "of_char c - base"] \<open>lo \<le> of_char c\<close> \<open>(of_char c :: nat) \<le> hi\<close> by simp
qed

lemma isCont_offset:
  assumes "isCont c"
  obtains y :: nat where "(of_char c :: nat) = 128 + y" "char_of (128 + y) = c" "y < 64"
proof -
  obtain y :: nat where "(of_char c :: nat) = 128 + y" "char_of (128 + y) = c" "128 + y \<le> 191" "128 \<le> 128 + y"
    using byteIn_offset [of 128 191 c 128] assms unfolding isCont_def by blast
  then show ?thesis using that [of y] by simp
qed

lemma div64: "y < 64 \<Longrightarrow> (x * 64 + y) div 64 = x" "y < 64 \<Longrightarrow> (x * 64 + y) mod 64 = y" for x y :: nat
  by simp_all

lemma div4096: "n div 4096 = n div 64 div 64" "n div 262144 = n div 64 div 64 div 64" for n :: nat
  by (simp_all add: div_mult2_eq [symmetric])

lemma utf8_runeValue:
  assumes "runeOk r"
  shows "utf8 (runeValue r) = r"
  using assms
proof (cases rule: runeOk_cases)
  case (ascii c)
  then show ?thesis by (simp add: runeValue_def utf8_def)
next
  case (two a b)
  obtain x :: nat where x: "(of_char a :: nat) = 192 + x" "char_of (192 + x) = a" "192 + x \<le> 223" "194 \<le> 192 + x"
    using byteIn_offset [OF two(2), of 192] by auto
  obtain y :: nat where y: "(of_char b :: nat) = 128 + y" "char_of (128 + y) = b" "y < 64" by (rule isCont_offset [OF two(3)])
  have v: "runeValue r = x * 64 + y" by (simp add: two(1) runeValue_def x(1) y(1))
  have "(x * 64 + y) div 64 = x" "(x * 64 + y) mod 64 = y" using y(3) by simp_all
  with x y have "utf8 (x * 64 + y) = [a, b]" unfolding utf8_def by simp
  then show ?thesis by (simp only: v) (simp only: two(1))
next
  case (three a b c)
  obtain x :: nat where x: "(of_char a :: nat) = 224 + x" "char_of (224 + x) = a" "224 + x \<le> 239"
    using byteIn_offset [OF three(4), of 224] by auto
  obtain y :: nat where y: "(of_char b :: nat) = 128 + y" "char_of (128 + y) = b" "y < 64" by (rule isCont_offset [OF three(3)])
  obtain z :: nat where z: "(of_char c :: nat) = 128 + z" "char_of (128 + z) = c" "z < 64" by (rule isCont_offset [OF three(2)])
  have low: "x = 0 \<Longrightarrow> 32 \<le> y" using three(5) x(1) y(1) by (auto simp: byteIn_def)
  let ?n = "(x * 64 + y) * 64 + z"
  have v: "runeValue r = ?n" by (simp add: three(1) runeValue_def x(1) y(1) z(1))
  have "?n div 4096 = x" "?n div 64 mod 64 = y" "?n mod 64 = z" by (simp_all only: div4096 div64 [OF y(3)] div64 [OF z(3)])
  moreover have "2048 \<le> ?n" "?n < 65536" using low x(3) y(3) z(3) by (cases "x = 0"; simp)+
  ultimately have "utf8 ?n = [a, b, c]" unfolding utf8_def using x(2) y(2) z(2) by simp
  then show ?thesis by (simp only: v) (simp only: three(1))
next
  case (four a b c d)
  obtain w :: nat where w: "(of_char a :: nat) = 240 + w" "char_of (240 + w) = a" "240 + w \<le> 244"
    using byteIn_offset [OF four(5), of 240] by auto
  obtain x :: nat where x: "(of_char b :: nat) = 128 + x" "char_of (128 + x) = b" "x < 64" by (rule isCont_offset [OF four(4)])
  obtain y :: nat where y: "(of_char c :: nat) = 128 + y" "char_of (128 + y) = c" "y < 64" by (rule isCont_offset [OF four(2)])
  obtain z :: nat where z: "(of_char d :: nat) = 128 + z" "char_of (128 + z) = d" "z < 64" by (rule isCont_offset [OF four(3)])
  have low: "w = 0 \<Longrightarrow> 16 \<le> x" using four(6) w(1) x(1) by (auto simp: byteIn_def)
  let ?n = "((w * 64 + x) * 64 + y) * 64 + z"
  have v: "runeValue r = ?n" by (simp add: four(1) runeValue_def w(1) x(1) y(1) z(1))
  have "?n div 262144 = w" "?n div 4096 mod 64 = x" "?n div 64 mod 64 = y" "?n mod 64 = z"
    by (simp_all only: div4096 div64 [OF x(3)] div64 [OF y(3)] div64 [OF z(3)])
  moreover have "65536 \<le> ?n" using low by (cases "w = 0") simp_all
  ultimately have "utf8 ?n = [a, b, c, d]" unfolding utf8_def using w(2) x(2) y(2) z(2) by simp
  then show ?thesis by (simp only: v) (simp only: four(1))
qed

section \<open>What is quoted reads back\<close>

lemma runes_ok_cases: "runes s = r # rs \<Longrightarrow> r = take (runeWidth s) s \<and> rs = runes (drop (runeWidth s) s)"
  by (subst (asm) runes.simps) (auto split: if_splits)

text \<open>UTF-8 text: every rune of it is one.\<close>

definition validText :: "string \<Rightarrow> bool" where
  "validText s = list_all runeOk (runes s)"

lemma hexDigit_val: "n < 16 \<Longrightarrow> hexVal (hexDigit n) = Some n"
  by (auto simp: hexVal_def hexDigit_def Let_def)

lemma readDigits_add: "readDigits base (k + m) acc s = (case readDigits base k acc s of Some (n, r) \<Rightarrow> readDigits base m n r | None \<Rightarrow> None)"
  by (induction base k acc s rule: readDigits.induct) (auto split: option.splits)

lemma hexFixed_length [simp]: "length (hexFixed k n) = k"
  by (induction k n rule: hexFixed.induct) auto

lemma readDigits_hexFixed: "n < 16 ^ k \<Longrightarrow> readDigits 16 k acc (hexFixed k n @ s) = Some (acc * 16 ^ k + n, s)"
proof (induction k arbitrary: n s)
  case (Suc k)
  have "n div 16 < 16 ^ k" using Suc.prems by (simp add: less_mult_imp_div_less mult.commute)
  note IH = Suc.IH [OF this]
  have "readDigits 16 (k + 1) acc (hexFixed k (n div 16) @ hexDigit (n mod 16) # s) = Some ((acc * 16 ^ k + n div 16) * 16 + n mod 16, s)"
    unfolding readDigits_add [of 16 k 1] IH using hexDigit_val [of "n mod 16"] by simp
  also have "(acc * 16 ^ k + n div 16) * 16 + n mod 16 = acc * 16 ^ Suc k + n" by (simp add: algebra_simps)
  finally show ?case by simp
qed simp

lemma codeEscape_hexFixed: "n < 16 ^ k \<Longrightarrow> codeEscape 16 k (hexFixed k n @ s) = Some (utf8 n, s)"
  using readDigits_hexFixed [of n k 0 s] by (simp add: codeEscape_def)

lemma runeValue_small: "runeOk r \<Longrightarrow> runeValue r < 0x80 \<Longrightarrow> r = [char_of (runeValue r)]"
  using utf8_runeValue [of r] by (simp add: utf8_def)

lemma runeValue_bound: "runeOk r \<Longrightarrow> runeValue r < 16 ^ 8"
  by (erule runeOk_cases) (auto simp: runeValue_def byteIn_def isCont_def)

lemma runeOk_high: "runeOk r \<Longrightarrow> 0x80 \<le> runeValue r \<Longrightarrow> length r \<noteq> 1 \<and> list_all (\<lambda>c. 0x80 \<le> (of_char c :: nat)) r"
  by (erule runeOk_cases) (auto simp: runeValue_def byteIn_def isCont_def)

definition plainChar :: "char \<Rightarrow> bool" where
  "plainChar d = (d \<noteq> dQuote \<and> \<not> isLineEnd d \<and> d \<noteq> backslash)"

lemma readLit_plains: "list_all plainChar r \<Longrightarrow> readLit dQuote rest = Some (v, r') \<Longrightarrow> readLit dQuote (r @ rest) = Some (r @ v, r')"
  by (induction r) (auto simp: plainChar_def intro!: readLit_plain)

lemma plainChar_code: "(of_char c :: nat) \<notin> {34, 92, 10, 13} \<Longrightarrow> plainChar c"
  by (auto simp: plainChar_def isLineEnd_def quote_defs)

text \<open>The named escapes: the letter and the value.\<close>

definition namedEscapes :: "(nat \<times> char) list" where
  "namedEscapes = [(7, CHR ''a''), (8, CHR ''b''), (12, CHR ''f''), (10, CHR ''n''), (13, CHR ''r''), (9, CHR ''t''), (11, CHR ''v''),
     (34, dQuote), (92, backslash)]"

lemma readEscape_named: "(n, e) \<in> set namedEscapes \<Longrightarrow> readEscape (e # rest) = Some ([char_of n], rest)"
proof -
  have "list_all (\<lambda>(n, e). simpleEscape e = Some [char_of n]) namedEscapes" by code_simp
  note all = this [unfolded list_all_iff]
  show "readEscape (e # rest) = Some ([char_of n], rest)" if "(n, e) \<in> set namedEscapes"
    using bspec [OF all that] by (simp add: readEscape_def)
qed

lemma readEscape_code:
  "n < 16 ^ 2 \<Longrightarrow> readEscape (CHR ''x'' # hexFixed 2 n @ rest) = Some (utf8 n, rest)"
  "n < 16 ^ 4 \<Longrightarrow> readEscape (CHR ''u'' # hexFixed 4 n @ rest) = Some (utf8 n, rest)"
  "n < 16 ^ 8 \<Longrightarrow> readEscape (CHR ''U'' # hexFixed 8 n @ rest) = Some (utf8 n, rest)"
proof -
  have "simpleEscape (CHR ''x'') = None" "simpleEscape (CHR ''u'') = None" "simpleEscape (CHR ''U'') = None" by code_simp+
  then show "n < 16 ^ 2 \<Longrightarrow> readEscape (CHR ''x'' # hexFixed 2 n @ rest) = Some (utf8 n, rest)"
    "n < 16 ^ 4 \<Longrightarrow> readEscape (CHR ''u'' # hexFixed 4 n @ rest) = Some (utf8 n, rest)"
    "n < 16 ^ 8 \<Longrightarrow> readEscape (CHR ''U'' # hexFixed 8 n @ rest) = Some (utf8 n, rest)"
    using codeEscape_hexFixed [of n 2 rest] codeEscape_hexFixed [of n 4 rest] codeEscape_hexFixed [of n 8 rest]
    by (simp_all add: readEscape_def)
qed

lemma quoteRune_reads:
  assumes "runeOk r" and "readLit dQuote rest = Some (v, r')"
  shows "readLit dQuote (quoteRune pr r @ rest) = Some (r @ v, r')"
proof -
  let ?n = "runeValue r"
  note esc = readLit_escape [OF assms(2)]
  have b: "dQuote \<noteq> backslash" by (simp add: quote_defs)
  have u: "utf8 ?n = r" by (rule utf8_runeValue [OF assms(1)])
  have one: "\<not> (length r = 1 \<and> 0x80 \<le> ?n)" using runeOk_high [OF assms(1)] by auto
  have named: "readLit dQuote (backslash # e # rest) = Some (r @ v, r')" if "(?n, e) \<in> set namedEscapes" for e
  proof -
    have "?n < 0x80" using that by (auto simp: namedEscapes_def)
    with runeValue_small [OF assms(1)] esc [of "[e]" "[char_of ?n]"] readEscape_named [OF that] b show ?thesis by simp
  qed
  have coded: "readLit dQuote (backslash # e # hexFixed k ?n @ rest) = Some (r @ v, r')"
    if "readEscape (e # hexFixed k ?n @ rest) = Some (utf8 ?n, rest)" for e k
    using esc [of "e # hexFixed k ?n" r] that u b by simp
  have plain: "readLit dQuote (r @ rest) = Some (r @ v, r')" if "if ?n < 0x80 then 32 \<le> ?n \<and> ?n < 127 \<and> ?n \<noteq> 34 \<and> ?n \<noteq> 92 else True"
  proof (rule readLit_plains [OF _ assms(2)])
    show "list_all plainChar r"
    proof (cases "?n < 0x80")
      case True
      then show ?thesis using that by (subst runeValue_small [OF assms(1) True]) (auto intro!: plainChar_code)
    next
      case False
      then show ?thesis using runeOk_high [OF assms(1)] by (auto simp: list_all_iff intro!: plainChar_code)
    qed
  qed
  have quoted: "readLit dQuote (backslash # r @ rest) = Some (r @ v, r')" if "?n = 34 \<or> ?n = 92"
  proof -
    have "?n < 0x80" using that by auto
    then obtain c where c: "r = [c]" "char_of ?n = c" using runeValue_small [OF assms(1)] by blast
    have "char_of (34 :: nat) = dQuote" "char_of (92 :: nat) = backslash" by code_simp+
    then have "?n = 34 \<and> c = dQuote \<or> ?n = 92 \<and> c = backslash" using that c(2) by metis
    then have "(?n, char_of ?n) \<in> set namedEscapes" unfolding c(2) namedEscapes_def by (elim disjE) simp_all
    then have "readLit dQuote (backslash # c # rest) = Some (r @ v, r')" unfolding c(2) by (rule named)
    moreover have "r @ rest = c # rest" using c(1) by simp
    ultimately show ?thesis by (simp only:)
  qed
  show ?thesis
    using one quoted plain named [of "CHR ''a''"] named [of "CHR ''b''"] named [of "CHR ''f''"] named [of "CHR ''n''"] named [of "CHR ''r''"]
      named [of "CHR ''t''"] named [of "CHR ''v''"] coded [OF readEscape_code(1)] coded [OF readEscape_code(2)]
      coded [OF readEscape_code(3) [OF runeValue_bound [OF assms(1)]]]
    unfolding quoteRune_def Let_def by (auto simp: namedEscapes_def)
qed

text \<open>A quoted value that is UTF-8 text is, to the CEL lexer, a literal with that value.\<close>

lemma quoteBody_literal:
  assumes "validText s"
  shows "litBody dQuote (quoteBody pr s) s"
proof -
  have "litBody dQuote (concat (map (quoteRune pr) (runes s))) (concat (map (\<lambda>r. r) (runes s)))"
    by (rule litBody_concat) (use assms quoteRune_reads in \<open>auto simp: validText_def list_all_iff\<close>)
  then show ?thesis by (simp add: quoteBody_def)
qed

end
