(* ===== verification/Selectors.thy ===== *)
theory Selectors
  imports Cel_Text Storage_Fields
begin

text \<open>
  Field selectors as the clients write them, \<open>field=value\<close> terms joined with commas, and what the
  parser of the server reads back. The commands of the kubectl plugin, the tools of the MCP server
  and the policy preview share these facts.
\<close>

definition selectorText :: "string \<times> string \<Rightarrow> string" where
  "selectorText = (\<lambda>(f, v). f @ ''='' @ v)"

lemma splitByte_joined:
  assumes "list_all (\<lambda>t. c \<notin> set t) ts" and "ts \<noteq> []"
  shows "splitByte c (joinStr [c] ts) = ts"
  using assms
proof (induction "[c]" ts rule: joinStr.induct)
  case (3 x y zs)
  then show ?case using splitByte_token [of c x] by simp
qed (simp_all add: splitByte_no_sep)

definition trimmed :: "string \<Rightarrow> bool" where
  "trimmed v = (v = [] \<or> \<not> isSpace (hd v) \<and> \<not> isSpace (last v))"

lemma trimSpace_trimmed: "trimmed v \<Longrightarrow> trimSpace v = v"
proof -
  have keep: "dropWhile isSpace s = s" if "s = [] \<or> \<not> isSpace (hd s)" for s using that by (cases s) auto
  assume "trimmed v"
  then show ?thesis by (auto simp: trimSpace_def trimmed_def keep hd_rev)
qed

lemma indexStr_skip: "c \<notin> set f \<Longrightarrow> indexStr (f @ s) (c # sub) = map_option (\<lambda>i. length f + i) (indexStr s (c # sub))"
  by (cases "indexStr s (c # sub)"; induction f) (auto simp: hasPrefix_def)

lemma indexStr_absent: "d \<in> set sub \<Longrightarrow> d \<notin> set s \<Longrightarrow> indexStr s sub = None"
proof (induction s)
  case (Cons c s)
  then have "\<not> hasPrefix (c # s) sub" by (metis hasPrefix_iff UnI1 set_append)
  with Cons show ?case by simp
qed auto

text \<open>A value that stands for itself in a selector.\<close>

definition selectorValue :: "string \<Rightarrow> bool" where
  "selectorValue v = (trimmed v \<and> list_all (\<lambda>c. c \<noteq> CHR ''='' \<and> c \<noteq> CHR '','' \<and> c \<noteq> backslash) v)"

lemma celName_plain: "celName f \<Longrightarrow> c \<in> set f \<Longrightarrow> c \<noteq> CHR ''='' \<and> c \<noteq> CHR ''!'' \<and> c \<noteq> CHR '','' \<and> \<not> isSpace c"
  using isWordChar_head [of c] by (auto simp: celName_def list_all_iff isWordChar_def)

lemma splitSelector_text:
  assumes "celName f" and "selectorValue v"
  shows "splitSelector (selectorText (f, v)) = Some (f, FieldSelectorEqual, v)"
proof -
  have f: "CHR ''='' \<notin> set f" "CHR ''!'' \<notin> set f" using celName_plain [OF assms(1)] by blast+
  have v: "CHR ''='' \<notin> set v" using assms(2) by (auto simp: selectorValue_def list_all_iff)
  have t: "trimSpace f = f" "trimSpace v = v"
    using assms celName_plain [OF assms(1)] by (auto intro!: trimSpace_trimmed simp: trimmed_def selectorValue_def)
  have "indexStr (f @ CHR ''='' # v) ''!='' = None" "indexStr (f @ CHR ''='' # v) ''=='' = None"
    using f v indexStr_absent [of "CHR ''=''" "''!=''" v] indexStr_absent [of "CHR ''=''" "''==''" v]
    by (auto simp: indexStr_skip hasPrefix_def take_Suc split: if_splits) (cases v; simp)
  moreover have "indexStr (f @ CHR ''='' # v) ''='' = Some (length f)"
    using f by (simp add: indexStr_skip hasPrefix_def)
  ultimately show ?thesis by (simp add: splitSelector_def cutAt_def selectorText_def t)
qed

lemma trimSpace_selector:
  assumes "celName f" and "selectorValue v" and "v \<noteq> []"
  shows "trimSpace (selectorText (f, v)) = selectorText (f, v)"
proof (rule trimSpace_trimmed)
  have "f \<noteq> []" "\<not> isSpace (hd f)" using assms(1) celName_plain [OF assms(1)] by (auto simp: celName_def)
  then show "trimmed (selectorText (f, v))" using assms(2,3) by (simp add: trimmed_def selectorText_def selectorValue_def)
qed

text \<open>A term on a field that events can be selected by.\<close>

definition eventTerm :: "string \<times> string \<Rightarrow> bool" where
  "eventTerm =
     (\<lambda>(f, v). celName f \<and> map_of EventsFieldSelectorAliases f = None \<and> map_of EventsFieldSelectors f \<noteq> None \<and> selectorValue v \<and> v \<noteq> [])"

definition eventTermOf :: "string \<times> string \<Rightarrow> FieldSelectorTerm" where
  "eventTermOf = (\<lambda>(f, v). \<lparr>fstColumn = the (map_of EventsFieldSelectors f), fstOperator = FieldSelectorEqual, fstValue = v\<rparr>)"

lemma selectorText_nonempty [simp]: "selectorText t \<noteq> []"
  by (cases t) (simp add: selectorText_def)

lemma eventTerm_no_comma:
  assumes "eventTerm t"
  shows "CHR '','' \<notin> set (selectorText t)"
proof (cases t)
  case (Pair f v)
  with assms have "celName f" "CHR '','' \<notin> set v" by (auto simp: eventTerm_def selectorValue_def list_all_iff)
  then show ?thesis using celName_plain [of f] by (auto simp: Pair selectorText_def)
qed

lemma parseSelectorParts_term:
  assumes "eventTerm t"
  shows "parseSelectorParts (selectorText t # parts) = bind_r (parseSelectorParts parts) (\<lambda>terms. Inr (eventTermOf t # terms))"
proof (cases t)
  case (Pair f v)
  with assms have "celName f" "selectorValue v" "v \<noteq> []" "map_of EventsFieldSelectorAliases f = None" "map_of EventsFieldSelectors f \<noteq> None"
    by (auto simp: eventTerm_def)
  then show ?thesis
    by (auto simp: Pair trimSpace_selector splitSelector_text ResolveEventFieldSelector_def eventTermOf_def Let_def)
qed

lemma ParseFieldSelector_joined:
  assumes "s = joinStr '','' (map selectorText ts)" and "list_all eventTerm ts"
  shows "ParseFieldSelector s = Inr (map eventTermOf ts)"
proof (cases "ts = []")
  case False
  have parts: "parseSelectorParts (map selectorText ts) = Inr (map eventTermOf ts)"
    using assms(2) by (induction ts) (simp_all add: parseSelectorParts_term del: parseSelectorParts.simps(2))
  have "splitByte (CHR '','') s = map selectorText ts"
    using assms eventTerm_no_comma False by (auto simp: list_all_iff intro!: splitByte_joined)
  moreover have "s \<noteq> []"
    using False by (cases "map selectorText ts" rule: remdups_adj.cases) (auto simp: assms(1))
  ultimately show ?thesis using parts by (simp add: ParseFieldSelector_def)
qed (simp add: assms(1) ParseFieldSelector_def)

text \<open>Whatever the selector, its terms are on columns of the table.\<close>

lemma parseSelectorParts_columns:
  "parseSelectorParts ps = Inr terms \<Longrightarrow> t \<in> set terms \<Longrightarrow> fstColumn t \<in> snd ` set EventsFieldSelectors"
proof (induction ps arbitrary: terms)
  case (Cons p ps)
  show ?case
  proof (cases "trimSpace p = []")
    case True
    with Cons show ?thesis by (simp add: Let_def)
  next
    case False
    with Cons.prems(1) obtain f op v c rest where f: "ResolveEventFieldSelector f = Inr c" "parseSelectorParts ps = Inr rest"
      "terms = \<lparr>fstColumn = c, fstOperator = op, fstValue = v\<rparr> # rest"
      by (auto simp: Let_def bind_r_eq_Inr split: option.splits sum.splits)
    then obtain path where "map_of EventsFieldSelectors path = Some c"
      by (auto simp: ResolveEventFieldSelector_def Let_def split: option.splits)
    then have "c \<in> snd ` set EventsFieldSelectors" by (metis map_of_SomeD image_eqI snd_conv)
    with f(3) Cons.IH [OF f(2)] Cons.prems(2) show ?thesis by (cases "t \<in> set rest") simp_all
  qed
qed simp

end
