(* ===== verification/Query_Api.thy ===== *)
theory Query_Api
  imports Cel_Text Events_Rest
begin

text \<open>
  The query endpoints of internal/registry: the three ephemeral queries (activity/auditlog,
  activity/activityquery, activity/eventquery), the three facet queries (activity/auditlogfacet,
  activity/facet, activity/eventfacet), and the list and watch endpoint of activities
  (activity/record) with the field labels that pkg/apis/activity/v1alpha1/register.go admits.
  The user of a request is the extra map of its identity; a request without one carries
  \<open>None\<close>. The handlers read the clock several times: \<open>clock i\<close> is the i-th reading.
\<close>

section \<open>Validation of a query\<close>

text \<open>What is wrong with a query, one constructor per message of the three \<open>validateQuerySpec\<close>.\<close>

datatype spec_error =
    SpecMissing string
  | SpecBadTime string string time_error
  | SpecEndNotAfterStart string
  | SpecWindowTooLong int int
  | SpecNegativeLimit int
  | SpecLimitTooBig int int
  | SpecBadCursor string cursor_error
  | SpecBadFilter string string

text \<open>\<open>Time.Sub\<close> saturates at the ends of \<open>time.Duration\<close>.\<close>

definition timeSub :: "instant \<Rightarrow> instant \<Rightarrow> int" where
  "timeSub t u = max (- (2 ^ 63)) (min (2 ^ 63 - 1) (t - u))"

definition requiredTime :: "string \<Rightarrow> string \<Rightarrow> instant \<Rightarrow> spec_error list" where
  "requiredTime path s now =
     (if s = '''' then [SpecMissing path]
      else (case ParseFlexibleTime s now of Inl e \<Rightarrow> [SpecBadTime path s e] | Inr _ \<Rightarrow> []))"

definition windowErrors :: "int \<Rightarrow> string \<Rightarrow> string \<Rightarrow> instant \<Rightarrow> spec_error list" where
  "windowErrors maxWindow startTime endTime now =
     (if startTime \<noteq> '''' \<and> endTime \<noteq> ''''
      then (case (ParseFlexibleTime startTime now, ParseFlexibleTime endTime now) of
              (Inr s, Inr e) \<Rightarrow>
                (if s < e then [] else [SpecEndNotAfterStart endTime])
                @ (if maxWindow > 0 \<and> timeSub e s > maxWindow then [SpecWindowTooLong (timeSub e s) maxWindow] else [])
            | _ \<Rightarrow> [])
      else [])"

definition timesErrors :: "int \<Rightarrow> string \<Rightarrow> string \<Rightarrow> instant \<Rightarrow> spec_error list" where
  "timesErrors maxWindow startTime endTime now =
     requiredTime ''spec.startTime'' startTime now @ requiredTime ''spec.endTime'' endTime now
     @ windowErrors maxWindow startTime endTime now"

definition limitErrors :: "int \<Rightarrow> int \<Rightarrow> spec_error list" where
  "limitErrors maxPageSize limit =
     (if limit < 0 then [SpecNegativeLimit limit] else [])
     @ (if maxPageSize > 0 \<and> limit > maxPageSize then [SpecLimitTooBig limit maxPageSize] else [])"

definition cursorErrors :: "string \<Rightarrow> cursor_error option \<Rightarrow> spec_error list" where
  "cursorErrors cursor checked =
     (if cursor = '''' then [] else case checked of Some e \<Rightarrow> [SpecBadCursor cursor e] | None \<Rightarrow> [])"

definition filterErrors :: "(string \<Rightarrow> string + 'x) \<Rightarrow> string \<Rightarrow> spec_error list" where
  "filterErrors compileFilter f =
     (if f = '''' then [] else case compileFilter f of Inl err \<Rightarrow> [SpecBadFilter f err] | Inr _ \<Rightarrow> [])"

text \<open>The clock is read once for the times and once more to check the cursor.\<close>

definition validateAuditLogQuery ::
  "int \<Rightarrow> int \<Rightarrow> (string \<Rightarrow> filter_compile) \<Rightarrow> cursorData json_codec \<Rightarrow> instant \<Rightarrow> instant \<Rightarrow> AuditLogQuerySpec \<Rightarrow> spec_error list" where
  "validateAuditLogQuery maxWindow maxPageSize celc codec now now' spec =
     timesErrors maxWindow (aqStartTime spec) (aqEndTime spec) now @ limitErrors maxPageSize (aqLimit spec)
     @ cursorErrors (aqContinue spec) (ValidateCursor codec now' (aqContinue spec) spec)
     @ filterErrors (CompileFilter celc) (aqFilter spec)"

definition validateActivityQuery ::
  "int \<Rightarrow> int \<Rightarrow> (string \<Rightarrow> filter_compile) \<Rightarrow> instant \<Rightarrow> ActivityQuerySpec \<Rightarrow> spec_error list" where
  "validateActivityQuery maxWindow maxPageSize celc now spec =
     timesErrors maxWindow (acStartTime spec) (acEndTime spec) now @ limitErrors maxPageSize (acLimit spec)
     @ filterErrors (CompileActivityFilter celc) (acFilter spec)"

definition eventQueryMaxWindow :: int where "eventQueryMaxWindow = 60 * 24 * hour"

definition validateEventQuery :: "eventQueryCursorData json_codec \<Rightarrow> instant \<Rightarrow> instant \<Rightarrow> EventQuerySpec \<Rightarrow> spec_error list" where
  "validateEventQuery codec now now' spec =
     timesErrors eventQueryMaxWindow (eqStartTime spec) (eqEndTime spec) now @ limitErrors eventQueryMaxLimit (eqLimit spec)
     @ cursorErrors (eqContinue spec) (ValidateEventQueryCursor codec now' (eqContinue spec) spec)"

section \<open>The ephemeral queries\<close>

datatype facet_error =
    FacetsMissing
  | FacetsTooMany nat
  | FacetFieldMissing nat
  | FacetFieldUnsupported nat string
  | FacetLimitNegative nat int

text \<open>A panic of the handler is answered by the server with an internal error as well.\<close>

datatype api_error =
    ApiInternal string
  | ApiPanic
  | ApiInvalid "spec_error list"
  | ApiFacetsInvalid "facet_error list"
  | ApiBadRequest facet_error
  | ApiUnavailable string

text \<open>The status of an answered query. The two times are written in RFC 3339, in the zone they were given in.\<close>

record 'e query_status =
  qstResults :: "'e list"
  qstContinue :: string
  qstEffectiveStart :: instant
  qstEffectiveEnd :: instant

definition effectiveTime :: "string \<Rightarrow> string \<Rightarrow> instant \<Rightarrow> api_error + instant" where
  "effectiveTime what s now =
     (case ParseFlexibleTime s now of Inl _ \<Rightarrow> Inl (ApiInternal (''failed to parse '' @ what)) | Inr t \<Rightarrow> Inr t)"

text \<open>The frame the three handlers share: validate, compute the effective times, query, fill in the status.\<close>

definition answerQuery ::
  "spec_error list \<Rightarrow> string \<Rightarrow> string \<Rightarrow> instant \<Rightarrow> api_error + 'e list \<times> string \<Rightarrow> api_error + 'e query_status" where
  "answerQuery errs startTime endTime now result =
     (if errs \<noteq> [] then Inl (ApiInvalid errs)
      else bind_r (effectiveTime ''startTime'' startTime now) (\<lambda>s.
             bind_r (effectiveTime ''endTime'' endTime now) (\<lambda>e.
               bind_r result (\<lambda>(es, continue).
                 Inr \<lparr>qstResults = es, qstContinue = continue, qstEffectiveStart = s, qstEffectiveEnd = e\<rparr>))))"

definition tryLater :: string where
  "tryLater = ''Failed to execute query. Please try again later or contact support for help.''"

definition convertToStructuredError :: "string \<Rightarrow> query_error \<Rightarrow> api_error" where
  "convertToStructuredError msg e = (if e = QPanic \<or> e = QFilter SqlPanic then ApiPanic else ApiUnavailable msg)"

definition stored :: "string \<Rightarrow> query_error + 'r \<Rightarrow> api_error + 'r" where
  "stored msg r = (case r of Inl e \<Rightarrow> Inl (convertToStructuredError msg e) | Inr x \<Rightarrow> Inr x)"

type_synonym user_extra = "(string \<times> string list) list"

definition noUser :: api_error where "noUser = ApiInternal ''no user in context''"

definition CreateAuditLogQuery ::
  "StorageConfig \<Rightarrow> int \<Rightarrow> (string \<Rightarrow> filter_compile) \<Rightarrow> cursorData json_codec \<Rightarrow> (string \<Rightarrow> StoredAudit option) \<Rightarrow> driver \<Rightarrow>
   (nat \<Rightarrow> instant) \<Rightarrow> user_extra option \<Rightarrow> AuditLogQuerySpec \<Rightarrow> api_error + StoredAudit query_status" where
  "CreateAuditLogQuery cfg maxWindow celc codec decode conn clock user spec =
     (case user of
        None \<Rightarrow> Inl noUser
      | Some extra \<Rightarrow>
          answerQuery (validateAuditLogQuery maxWindow (cfgMaxPageSize cfg) celc codec (clock 0) (clock 1) spec)
            (aqStartTime spec) (aqEndTime spec) (clock 2)
            (stored tryLater (QueryAuditLogs cfg celc codec decode conn (clock 3) spec (ExtractScopeFromUser extra))))"

text \<open>\<open>json.Unmarshal\<close> of an activity; a record that does not decode ends the request.\<close>

fun decodeActivities :: "(string \<Rightarrow> Activity option) \<Rightarrow> string list \<Rightarrow> api_error + Activity list" where
  "decodeActivities unm [] = Inr []"
| "decodeActivities unm (j # js) =
     (case unm j of
        None \<Rightarrow> Inl (ApiInternal ''unable to load activity records. Please contact support if the problem persists'')
      | Some a \<Rightarrow> bind_r (decodeActivities unm js) (\<lambda>as. Inr (a # as)))"

definition CreateActivityQuery ::
  "StorageConfig \<Rightarrow> int \<Rightarrow> (string \<Rightarrow> filter_compile) \<Rightarrow> activityCursorData json_codec \<Rightarrow> (string \<Rightarrow> (string \<times> string) option) \<Rightarrow>
   (string \<Rightarrow> Activity option) \<Rightarrow> driver \<Rightarrow> (nat \<Rightarrow> instant) \<Rightarrow> user_extra option \<Rightarrow> ActivityQuerySpec \<Rightarrow> api_error + Activity query_status" where
  "CreateActivityQuery cfg maxWindow celc codec decodeMeta unm conn clock user spec =
     (case user of
        None \<Rightarrow> Inl noUser
      | Some extra \<Rightarrow>
          answerQuery (validateActivityQuery maxWindow (cfgMaxPageSize cfg) celc (clock 0) spec)
            (acStartTime spec) (acEndTime spec) (clock 1)
            (bind_r (stored ''Failed to execute query. Try again or contact support if the problem persists.''
                (QueryActivities cfg celc codec decodeMeta conn (clock 2) spec (ExtractScopeFromUser extra)))
              (\<lambda>(js, continue). bind_r (decodeActivities unm js) (\<lambda>as. Inr (as, continue)))))"

definition CreateEventQuery ::
  "StorageConfig \<Rightarrow> eventQueryCursorData json_codec \<Rightarrow> (string \<Rightarrow> 'e option) \<Rightarrow> driver \<Rightarrow> (nat \<Rightarrow> instant) \<Rightarrow> user_extra option \<Rightarrow>
   EventQuerySpec \<Rightarrow> api_error + 'e query_status" where
  "CreateEventQuery cfg codec decode conn clock user spec =
     (case user of
        None \<Rightarrow> Inl noUser
      | Some extra \<Rightarrow>
          answerQuery (validateEventQuery codec (clock 0) (clock 1) spec) (eqStartTime spec) (eqEndTime spec) (clock 2)
            (stored tryLater (QueryEvents cfg codec decode conn (clock 3) spec (ExtractScopeFromUser extra))))"

section \<open>Facet queries\<close>

text \<open>The scope the audit log and event facets use: the parent kind as it is, with or without a name.\<close>

definition extractScopeFromUser :: "user_extra \<Rightarrow> ScopeContext" where
  "extractScopeFromUser extra =
     (case extraValues extra ParentKindExtraKey of
        k # ks \<Rightarrow> \<lparr>scopeType = k, scopeName = (case extraValues extra ParentNameExtraKey of n # ns \<Rightarrow> n | [] \<Rightarrow> '''')\<rparr>
      | [] \<Rightarrow> platformScope)"

definition facetEntryErrors :: "(string \<Rightarrow> bool) \<Rightarrow> nat \<Rightarrow> FacetFieldSpec \<Rightarrow> facet_error list" where
  "facetEntryErrors valid i f =
     (if ffField f = '''' then [FacetFieldMissing i] else if \<not> valid (ffField f) then [FacetFieldUnsupported i (ffField f)] else [])
     @ (if ffLimit f < 0 then [FacetLimitNegative i (ffLimit f)] else [])"

fun facetLoop :: "(string \<Rightarrow> bool) \<Rightarrow> nat \<Rightarrow> FacetFieldSpec list \<Rightarrow> facet_error list" where
  "facetLoop valid i [] = []"
| "facetLoop valid i (f # fs) = facetEntryErrors valid i f @ facetLoop valid (Suc i) fs"

definition facetQueryErrors :: "(string \<Rightarrow> bool) \<Rightarrow> FacetFieldSpec list \<Rightarrow> facet_error list" where
  "facetQueryErrors valid facets =
     (if facets = [] then [FacetsMissing]
      else (if length facets > 10 then [FacetsTooMany (length facets)] else []) @ facetLoop valid 0 facets)"

definition validateFacetQueryInput :: "FacetFieldSpec list \<Rightarrow> facet_error list" where
  "validateFacetQueryInput facets = facetQueryErrors IsValidActivityFacetField facets"

definition validateEventFacetQueryInput :: "FacetFieldSpec list \<Rightarrow> facet_error list" where
  "validateEventFacetQueryInput facets = facetQueryErrors IsValidEventFacetField facets"

text \<open>The audit log endpoint stops at the first error.\<close>

definition auditFacetEntryError :: "nat \<Rightarrow> FacetFieldSpec \<Rightarrow> facet_error option" where
  "auditFacetEntryError i f =
     (if ffField f = '''' then Some (FacetFieldMissing i)
      else if \<not> IsValidAuditLogFacetField (ffField f) then Some (FacetFieldUnsupported i (ffField f))
      else if ffLimit f < 0 then Some (FacetLimitNegative i (ffLimit f)) else None)"

fun auditFacetLoop :: "nat \<Rightarrow> FacetFieldSpec list \<Rightarrow> facet_error option" where
  "auditFacetLoop i [] = None"
| "auditFacetLoop i (f # fs) = (case auditFacetEntryError i f of Some e \<Rightarrow> Some e | None \<Rightarrow> auditFacetLoop (Suc i) fs)"

definition validateAuditLogFacetQueryInput :: "FacetFieldSpec list \<Rightarrow> facet_error option" where
  "validateAuditLogFacetQueryInput facets =
     (if facets = [] then Some FacetsMissing else if length facets > 10 then Some (FacetsTooMany (length facets)) else auditFacetLoop 0 facets)"

definition facetsUnavailable :: api_error where
  "facetsUnavailable = ApiUnavailable ''Failed to retrieve facets. Please try again later or contact support for help.''"

definition facetAnswer :: "(FacetFieldSpec \<times> query_error) + 'r list \<Rightarrow> api_error + 'r list" where
  "facetAnswer r = (case r of Inl _ \<Rightarrow> Inl facetsUnavailable | Inr rs \<Rightarrow> Inr rs)"

definition CreateAuditLogFacetsQuery ::
  "StorageConfig \<Rightarrow> (string \<Rightarrow> filter_compile) \<Rightarrow> facet_driver \<Rightarrow> instant \<Rightarrow> user_extra option \<Rightarrow> FacetQuerySpec \<Rightarrow>
   api_error + (string \<times> (string \<times> int) list) list" where
  "CreateAuditLogFacetsQuery cfg celc conn now user spec =
     (case validateAuditLogFacetQueryInput (fqFacets spec) of
        Some e \<Rightarrow> Inl (ApiBadRequest e)
      | None \<Rightarrow>
          (case user of
             None \<Rightarrow> Inl noUser
           | Some extra \<Rightarrow> facetAnswer (QueryAuditLogFacets cfg celc conn now spec (extractScopeFromUser extra))))"

definition CreateActivityFacetQuery ::
  "StorageConfig \<Rightarrow> (string \<Rightarrow> filter_compile) \<Rightarrow> facet_driver \<Rightarrow> instant \<Rightarrow> user_extra option \<Rightarrow> FacetQuerySpec \<Rightarrow>
   api_error + (string \<times> (string \<times> int) list) list" where
  "CreateActivityFacetQuery cfg celc conn now user spec =
     (if validateFacetQueryInput (fqFacets spec) \<noteq> [] then Inl (ApiFacetsInvalid (validateFacetQueryInput (fqFacets spec)))
      else (case user of
              None \<Rightarrow> Inl noUser
            | Some extra \<Rightarrow> facetAnswer (QueryFacets cfg celc conn now spec (ExtractScopeFromUser extra))))"

definition CreateEventFacetQuery ::
  "StorageConfig \<Rightarrow> facet_driver \<Rightarrow> instant \<Rightarrow> user_extra option \<Rightarrow> FacetQuerySpec \<Rightarrow>
   api_error + (string \<times> (string \<times> int) list) list" where
  "CreateEventFacetQuery cfg conn now user spec =
     (if validateEventFacetQueryInput (fqFacets spec) \<noteq> [] then Inl (ApiFacetsInvalid (validateEventFacetQueryInput (fqFacets spec)))
      else (case user of
              None \<Rightarrow> Inl noUser
            | Some extra \<Rightarrow> facetAnswer (QueryEventFacets cfg conn now spec (extractScopeFromUser extra))))"

section \<open>Activities: field labels, list and watch\<close>

text \<open>The field labels the API server accepts in a selector (register.go); anything else is refused.\<close>

definition SupportedActivityFieldSelectors :: "string list" where
  "SupportedActivityFieldSelectors =
     [''metadata.name'', ''metadata.namespace'', ''spec.changeSource'', ''spec.resource.apiGroup'', ''spec.resource.kind'',
      ''spec.resource.name'', ''spec.resource.namespace'', ''spec.resource.uid'', ''spec.actor.name'', ''spec.actor.type'',
      ''spec.actor.uid'', ''spec.actor.email'']"

definition ActivityFieldLabelConversionFunc :: "string \<Rightarrow> string \<Rightarrow> (string \<times> string) option" where
  "ActivityFieldLabelConversionFunc label v = (if label \<in> set SupportedActivityFieldSelectors then Some (label, v) else None)"

definition SupportedEventFieldSelectors :: "string list" where
  "SupportedEventFieldSelectors =
     [''metadata.name'', ''metadata.namespace'', ''metadata.uid'', ''regarding.apiVersion'', ''regarding.kind'', ''regarding.namespace'',
      ''regarding.name'', ''regarding.uid'', ''regarding.fieldPath'', ''reason'', ''type'', ''source.component'', ''source.host'',
      ''reportingComponent'', ''reportingInstance'']"

definition EventFieldLabelConversionFunc :: "string \<Rightarrow> string \<Rightarrow> (string \<times> string) option" where
  "EventFieldLabelConversionFunc label v = (if label \<in> set SupportedEventFieldSelectors then Some (label, v) else None)"

text \<open>The terms of a Kubernetes field selector; \<open>RequiresExactMatch\<close> looks at equalities only.\<close>

datatype selector_term = SelEquals string string | SelNotEquals string string

fun requiresExactMatch :: "selector_term list \<Rightarrow> string \<Rightarrow> string option" where
  "requiresExactMatch [] field = None"
| "requiresExactMatch (SelEquals f v # ts) field = (if f = field then Some v else requiresExactMatch ts field)"
| "requiresExactMatch (SelNotEquals f v # ts) field = requiresExactMatch ts field"

definition escapeCELString :: "string \<Rightarrow> string" where
  "escapeCELString s = replaceAllStr (replaceAllStr s [backslash] [backslash, backslash]) [sQuote] [backslash, sQuote]"

definition celEquality :: "string \<Rightarrow> string \<Rightarrow> string" where
  "celEquality field v = field @ '' == '' @ [sQuote] @ escapeCELString v @ [sQuote]"

text \<open>The five fields that a list turns into clauses, in the order of the code.\<close>

definition listSelectorFields :: "string list" where
  "listSelectorFields =
     [''spec.changeSource'', ''spec.resource.apiGroup'', ''spec.resource.kind'', ''spec.actor.name'', ''spec.resource.uid'']"

definition selectorClauses :: "selector_term list \<Rightarrow> (string \<times> string) list" where
  "selectorClauses sel =
     concat (map (\<lambda>f. case requiresExactMatch sel f of Some v \<Rightarrow> [(f, v)] | None \<Rightarrow> []) listSelectorFields)"

definition activityFieldSelector :: "selector_term list \<Rightarrow> ActivityQuerySpec \<Rightarrow> ActivityQuerySpec" where
  "activityFieldSelector sel spec =
     (let filters = map (\<lambda>(f, v). celEquality f v) (selectorClauses sel)
      in if sel = [] \<or> filters = [] then spec
         else spec\<lparr>acFilter := (if acFilter spec \<noteq> '''' then ''('' @ acFilter spec @ '') && '' @ joinStr '' && '' filters
                                else joinStr '' && '' filters)\<rparr>)"

record activity_list_options =
  aloLimit :: int
  aloContinue :: string
  aloResourceVersion :: string
  aloSelector :: "selector_term list"

definition DefaultListTimeWindow :: string where "DefaultListTimeWindow = ''now-1h''"

definition listActivitySpec :: "string \<Rightarrow> activity_list_options \<Rightarrow> ActivityQuerySpec" where
  "listActivitySpec namespace options =
     activityFieldSelector (aloSelector options)
       \<lparr>acStartTime = DefaultListTimeWindow, acEndTime = '''', acSearch = '''',
        acFilter = (if namespace = '''' then '''' else ''metadata.namespace == '' @ [sQuote] @ escapeCELString namespace @ [sQuote]),
        acLimit = wrap32 (aloLimit options), acContinue = aloContinue options\<rparr>"

text \<open>Records that do not decode are left out of a list.\<close>

definition ListActivities ::
  "StorageConfig \<Rightarrow> (string \<Rightarrow> filter_compile) \<Rightarrow> activityCursorData json_codec \<Rightarrow> (string \<Rightarrow> (string \<times> string) option) \<Rightarrow>
   (string \<Rightarrow> Activity option) \<Rightarrow> driver \<Rightarrow> instant \<Rightarrow> user_extra option \<Rightarrow> string \<Rightarrow> activity_list_options \<Rightarrow>
   api_error + Activity list \<times> string" where
  "ListActivities cfg celc codec decodeMeta unm conn now user namespace options =
     (case user of
        None \<Rightarrow> Inl (ApiUnavailable ''Unable to process request. Please try again.'')
      | Some extra \<Rightarrow>
          bind_r (stored ''Failed to retrieve activities. Please try again later.''
              (QueryActivities cfg celc codec decodeMeta conn now (listActivitySpec namespace options) (ExtractScopeFromUser extra)))
            (\<lambda>(js, continue). Inr (List.map_filter unm js, continue)))"

definition watchActivityFilter :: "string \<Rightarrow> activity_list_options \<Rightarrow> WatchFilter" where
  "watchActivityFilter namespace options =
     (let m = (\<lambda>f. case requiresExactMatch (aloSelector options) f of Some v \<Rightarrow> v | None \<Rightarrow> '''')
      in \<lparr>wfResourceVersion = watchVersion (aloResourceVersion options), wfNamespace = namespace,
          wfChangeSource = m ''spec.changeSource'', wfAPIGroup = m ''spec.resource.apiGroup'',
          wfResourceKind = m ''spec.resource.kind'', wfCELFilter = ''''\<rparr>)"

text \<open>What the handler asks of the watcher; a server without one refuses.\<close>

definition WatchActivities :: "bool \<Rightarrow> user_extra option \<Rightarrow> string \<Rightarrow> activity_list_options \<Rightarrow> api_error + ScopeContext \<times> WatchFilter" where
  "WatchActivities hasWatcher user namespace options =
     (if \<not> hasWatcher then Inl (ApiUnavailable ''Watch API is not available. NATS is not configured.'')
      else (case user of
              None \<Rightarrow> Inl (ApiUnavailable ''Unable to process request. Please try again.'')
            | Some extra \<Rightarrow> Inr (ExtractScopeFromUser extra, watchActivityFilter namespace options)))"

text \<open>The row of the table output; \<open>human\<close> is \<open>duration.HumanDuration\<close>.\<close>

definition activityToTableRow :: "(int \<Rightarrow> string) \<Rightarrow> instant \<Rightarrow> Activity \<Rightarrow> string list" where
  "activityToTableRow human now activity =
     (let spec = actSpec activity; text = specSummary spec; r = specResource spec
      in [actName activity,
          (if length text > 60 then take 57 text @ ''...'' else text),
          actorName (specActor spec),
          resKind r @ (if resName r \<noteq> '''' then ''/'' @ resName r else ''''),
          specChangeSource spec,
          (if isZeroTime (actCreationTimestamp activity) then ''<unknown>'' else human (timeSub now (actCreationTimestamp activity)))])"

section \<open>Times\<close>

text \<open>An expression that names a time in the past keeps doing so as the clock goes on.\<close>

lemma wrap64_below: "wrap64 (a + d) \<le> a \<Longrightarrow> a \<le> b \<Longrightarrow> wrap64 (b + d) \<le> b"
proof -
  assume a: "wrap64 (a + d) \<le> a" and b: "a \<le> b"
  define e where "e = wrap64 (a + d) - a"
  have low: "- (2 ^ 63) \<le> a + e" using wrap64_range [of "a + d"] by (simp add: e_def)
  define k where "k = (a + d + 2 ^ 63) div 2 ^ 64"
  have "e = d - 2 ^ 64 * k"
    by (simp add: e_def k_def wrap64_def minus_mult_div_eq_mod [symmetric])
  then have "b + e + 2 ^ 63 = (b + d + 2 ^ 63) + 2 ^ 64 * (- k)" by simp
  then have "wrap64 (b + d) = wrap64 (b + e)" unfolding wrap64_def by (simp only: mod_mult_self2)
  also have "\<dots> \<le> b + e"
    using low b zmod_le_nonneg_dividend [of "b + e + 2 ^ 63" "2 ^ 64"] by (simp add: wrap64_def)
  finally show "wrap64 (b + d) \<le> b" using a by (simp add: e_def)
qed

lemma applyOffset_later:
  assumes "applyOffset t offset sign = Inr u" and "u \<le> t" and "t \<le> t'"
  shows "\<exists>u'. applyOffset t' offset sign = Inr u' \<and> u' \<le> t'"
proof -
  have days: "addDays t' k \<le> t'" if "addDays t k \<le> t" for k
  proof -
    have le: "addDays x k \<le> x \<longleftrightarrow> wrap64 ((x div second + 62135596800) + 86400 * k) \<le> x div second + 62135596800" for x
    proof -
      let ?w = "wrap64 ((x div second + 62135596800) + 86400 * k)"
      have "addDays x k = (?w - 62135596800) * second + x mod second" by (simp add: addDays_def Let_def algebra_simps)
      moreover have "x = (x div second) * second + x mod second" by simp
      ultimately have "addDays x k \<le> x \<longleftrightarrow> (?w - 62135596800) * second \<le> (x div second) * second" by linarith
      also have "\<dots> \<longleftrightarrow> ?w - 62135596800 \<le> x div second"
        by (rule mult_le_cancel_right_pos) (simp add: second_def)
      finally show ?thesis by linarith
    qed
    have "t div second + 62135596800 \<le> t' div second + 62135596800"
      using assms(3) by (simp add: zdiv_mono1 second_def)
    with that show ?thesis unfolding le by (rule wrap64_below)
  qed
  show ?thesis
    using assms days by (auto simp: applyOffset_def Let_def split: if_splits option.splits)
qed

lemma ParseFlexibleTime_later:
  assumes "ParseFlexibleTime s now = Inr t" and "now \<le> now'"
  shows "\<exists>t'. ParseFlexibleTime s now' = Inr t' \<and> t' \<le> now'"
proof (cases "parseRFC3339 s")
  case None
  with assms(1) have p: "hasPrefix s ''now''" "ParseRelativeTime s now = Inr t" "t \<le> now"
    by (auto simp: ParseFlexibleTime_def bind_r_def split: if_splits sum.splits)
  have "\<exists>t'. ParseRelativeTime s now' = Inr t' \<and> t' \<le> now'"
    using p(2,3) assms(2) applyOffset_later [of now "drop 4 s" "- 1" t now']
    by (auto simp: ParseRelativeTime_def split: if_splits)
  with None p(1) show ?thesis by (auto simp: ParseFlexibleTime_def)
next
  case (Some u)
  with assms show ?thesis by (auto simp: ParseFlexibleTime_def split: if_splits)
qed

section \<open>Accepted queries\<close>

text \<open>The outcome of a request is one of the answers that its validation and the storage leave.\<close>

lemma answerQuery_invalid: "errs \<noteq> [] \<Longrightarrow> answerQuery errs s e now r = Inl (ApiInvalid errs)"
  by (simp add: answerQuery_def)

lemma timesErrors_ok:
  assumes "timesErrors w s e now = []"
  shows "\<exists>t u. ParseFlexibleTime s now = Inr t \<and> ParseFlexibleTime e now = Inr u \<and> t < u \<and> (0 < w \<longrightarrow> timeSub u t \<le> w)"
  using assms
  by (auto simp: timesErrors_def requiredTime_def windowErrors_def split: if_splits sum.splits)

lemma answerQuery_accepted:
  assumes "timesErrors w s e now = []" and "now \<le> now'"
  shows "\<exists>t u. t \<le> now' \<and> u \<le> now' \<and> ParseFlexibleTime s now' = Inr t \<and> ParseFlexibleTime e now' = Inr u
    \<and> answerQuery [] s e now' r
      = bind_r r (\<lambda>(es, continue). Inr \<lparr>qstResults = es, qstContinue = continue, qstEffectiveStart = t, qstEffectiveEnd = u\<rparr>)"
proof -
  obtain t u where "ParseFlexibleTime s now = Inr t" "ParseFlexibleTime e now = Inr u"
    using timesErrors_ok [OF assms(1)] by blast
  then obtain t' u' where "ParseFlexibleTime s now' = Inr t'" "t' \<le> now'" "ParseFlexibleTime e now' = Inr u'" "u' \<le> now'"
    using ParseFlexibleTime_later assms(2) by meson
  then show ?thesis by (auto simp: answerQuery_def effectiveTime_def)
qed

lemma timeConds_later:
  assumes "timesErrors w s e now = []" and "now \<le> now'"
  shows "isOk (timeConds col s e now')"
proof -
  obtain t u where "ParseFlexibleTime s now = Inr t" "ParseFlexibleTime e now = Inr u"
    using timesErrors_ok [OF assms(1)] by blast
  then obtain t' u' where "ParseFlexibleTime s now' = Inr t'" "ParseFlexibleTime e now' = Inr u'"
    using ParseFlexibleTime_later assms(2) by meson
  then show ?thesis by (simp add: timeConds_def timeCond_def)
qed

lemma cutPage_bound:
  assumes "cutPage limit token es = Inr (page, tok)" and "0 \<le> limit"
  shows "int (length page) \<le> limit"
  using assms by (auto simp: cutPage_def Let_def split: if_splits)

lemma cutPage_ok: "0 \<le> limit \<Longrightarrow> isOk (cutPage limit token es)"
  by (simp add: cutPage_def Let_def)

lemma decodeCursor_later:
  assumes "decodeCursor codec now cursor spec = Inr p" and "now \<le> now'" and "decodeCursor codec now' cursor spec = Inl err"
  shows "\<exists>age. err = CursorExpired age"
  using assms by (auto simp: decodeCursor_def split: option.splits if_splits)

text \<open>Why the query of an accepted request cannot be built: its filter has no SQL form, or the cursor has expired since.\<close>

lemma buildQuery_accepted:
  assumes "validateAuditLogQuery w m celc codec now now1 spec = []" and "now \<le> now2" and "now1 \<le> now2"
    and "buildQuery cfg celc codec now2 now2 spec scope = Inl err"
  shows "(\<exists>e. err = QFilter e \<and> ConvertToClickHouseSQL celc (aqFilter spec) = Inl e)
    \<or> (\<exists>age. err = QCursor (CursorExpired age) \<and> decodeCursor codec now2 (aqContinue spec) spec = Inl (CursorExpired age))"
proof -
  have times: "isOk (timeConds ''timestamp'' (aqStartTime spec) (aqEndTime spec) now2)"
    using assms(1,2) timeConds_later by (auto simp: validateAuditLogQuery_def)
  have valid: "aqContinue spec \<noteq> '''' \<Longrightarrow> \<exists>p. decodeCursor codec now1 (aqContinue spec) spec = Inr p"
    using assms(1) by (auto simp: validateAuditLogQuery_def cursorErrors_def ValidateCursor_def split: sum.splits)
  from assms(4) times consider
    (filter) e where "filterConds (ConvertToClickHouseSQL celc) (aqFilter spec) = Inl e" "err = e"
    | (cursor) e where "auditCursorConds codec now2 spec = Inl e" "err = e"
    by (auto simp: buildQuery_def bind_r_def isOk_iff split: sum.splits)
  then show ?thesis
  proof cases
    case filter
    then show ?thesis by (auto simp: filterConds_def split: if_splits sum.splits)
  next
    case cursor
    then obtain ce where ce: "aqContinue spec \<noteq> ''''" "decodeCursor codec now2 (aqContinue spec) spec = Inl ce" "err = QCursor ce"
      by (auto simp: auditCursorConds_def split: if_splits sum.splits)
    then obtain age where "ce = CursorExpired age" using valid decodeCursor_later assms(3) by blast
    with ce show ?thesis by blast
  qed
qed

text \<open>
  An audit log query that validation accepts never ends in an internal error about its times,
  however the clock goes on between the readings of the handler: it is answered, with at most a
  page of results and effective times that are not in the future, or it is unavailable because
  ClickHouse failed, because its filter has no SQL form, or because its cursor expired meanwhile.
\<close>

theorem accepted_audit_query_outcome:
  fixes decode :: "string \<Rightarrow> StoredAudit option" and conn :: driver and extra :: user_extra
  assumes "\<And>i j. i \<le> j \<Longrightarrow> clock i \<le> clock j" and "0 \<le> cfgMaxPageSize cfg"
    and "validateAuditLogQuery w (cfgMaxPageSize cfg) celc codec (clock 0) (clock 1) spec = []"
  defines "out \<equiv> CreateAuditLogQuery cfg w celc codec decode conn clock (Some extra) spec"
    and "sql \<equiv> ConvertToClickHouseSQL celc (aqFilter spec)"
  shows "(\<exists>st. out = Inr st \<and> qstEffectiveStart st \<le> clock 2 \<and> qstEffectiveEnd st \<le> clock 2
            \<and> int (length (qstResults st)) \<le> pageLimit (cfgMaxPageSize cfg) (aqLimit spec))
    \<or> out = Inl ApiPanic \<and> sql = Inl SqlPanic
    \<or> out = Inl (ApiUnavailable tryLater)
      \<and> ((\<exists>e. sql = Inl e) \<or> (\<exists>age. decodeCursor codec (clock 3) (aqContinue spec) spec = Inl (CursorExpired age))
         \<or> (\<exists>q e. buildQuery cfg celc codec (clock 3) (clock 3) spec (ExtractScopeFromUser extra) = Inr q
                \<and> readRows ''audit logs'' decode (conn q) = Inl e))"
proof -
  let ?r = "QueryAuditLogs cfg celc codec decode conn (clock 3) spec (ExtractScopeFromUser extra)"
  let ?b = "buildQuery cfg celc codec (clock 3) (clock 3) spec (ExtractScopeFromUser extra)"
  let ?limit = "pageLimit (cfgMaxPageSize cfg) (aqLimit spec)"
  have lim: "0 \<le> ?limit" using assms(2) by (simp add: pageLimit_def Let_def)
  have times: "timesErrors w (aqStartTime spec) (aqEndTime spec) (clock 0) = []"
    using assms(3) by (simp add: validateAuditLogQuery_def)
  have mono: "clock 0 \<le> clock 2" "clock 0 \<le> clock 3" "clock 1 \<le> clock 3" using assms(1) by simp_all
  have eq: "out = answerQuery [] (aqStartTime spec) (aqEndTime spec) (clock 2) (stored tryLater ?r)"
    unfolding out_def CreateAuditLogQuery_def by (simp only: option.case assms(3))
  obtain t u where tu: "t \<le> clock 2" "u \<le> clock 2"
    and out: "out = bind_r (stored tryLater ?r)
      (\<lambda>(es, continue). Inr \<lparr>qstResults = es, qstContinue = continue, qstEffectiveStart = t, qstEffectiveEnd = u\<rparr>)"
    unfolding eq using answerQuery_accepted [OF times mono(1)] by blast
  consider (unbuilt) err where "?b = Inl err" | (unread) q err where "?b = Inr q" "readRows ''audit logs'' decode (conn q) = Inl err"
    | (read) q es where "?b = Inr q" "readRows ''audit logs'' decode (conn q) = Inr es"
    using sum.exhaust [of ?b] sum.exhaust [of "readRows ''audit logs'' decode (conn q)" for q] by meson
  then show ?thesis
  proof cases
    case unbuilt
    have o': "out = Inl (convertToStructuredError tryLater err)"
      using unbuilt by (simp add: out QueryAuditLogs_def stored_def)
    from buildQuery_accepted [OF assms(3) mono(2,3) unbuilt] show ?thesis
      by (auto simp: o' convertToStructuredError_def sql_def)
  next
    case unread
    then have "err = unable ''audit logs''"
      by (auto simp: readRows_def split: sum.splits option.splits if_splits)
    with unread show ?thesis by (auto simp: out QueryAuditLogs_def stored_def convertToStructuredError_def unable_def)
  next
    case read
    let ?F = "\<lambda>e. encodeCursor codec (clock 3) (saStageTimestamp e) (saAuditID e) spec"
    obtain page tok where cut: "cutPage ?limit ?F es = Inr (page, tok)"
      using cutPage_ok [OF lim, of ?F es] by (metis isOk_iff surj_pair)
    then have "?r = Inr (page, tok)" using read by (simp add: QueryAuditLogs_def)
    with tu cutPage_bound [OF cut lim] show ?thesis by (simp add: out stored_def)
  qed
qed


text \<open>An accepted query over the last hour, with a clock that ticks once a second.\<close>

definition tickingClock :: "nat \<Rightarrow> instant" where
  "tickingClock i = 1700000000 * second + int i * second"

definition lastHour :: AuditLogQuerySpec where
  "lastHour = \<lparr>aqStartTime = ''now-1h'', aqEndTime = ''now'', aqFilter = '''', aqLimit = 10, aqContinue = ''''\<rparr>"

definition sampleConfig :: StorageConfig where
  "sampleConfig = \<lparr>cfgDatabase = ''audit'', cfgMaxPageSize = 1000\<rparr>"

definition noRows :: driver where
  "noRows q = Inr \<lparr>qrRows = [], qrErr = False\<rparr>"

definition noCompile :: "string \<Rightarrow> filter_compile" where "noCompile f = EnvFailed"

definition noCodec :: "'d json_codec" where "noCodec = \<lparr>jcMarshal = (\<lambda>_. ''''), jcUnmarshal = (\<lambda>_. None)\<rparr>"

lemma tickingClock_mono: "i \<le> j \<Longrightarrow> tickingClock i \<le> tickingClock j"
  by (simp add: tickingClock_def second_def)

lemma lastHour_accepted: "validateAuditLogQuery (24 * hour) 1000 noCompile noCodec (tickingClock 0) (tickingClock 1) lastHour = []"
  by code_simp

theorem accepted_audit_query_outcome_witness:
  "\<exists>st. CreateAuditLogQuery sampleConfig (24 * hour) noCompile noCodec (\<lambda>_. None) noRows tickingClock (Some []) lastHour = Inr st
     \<and> qstEffectiveStart st \<le> tickingClock 2 \<and> qstEffectiveEnd st \<le> tickingClock 2
     \<and> int (length (qstResults st)) \<le> pageLimit (cfgMaxPageSize sampleConfig) (aqLimit lastHour)"
proof -
  have page: "cfgMaxPageSize sampleConfig = 1000" by (simp add: sampleConfig_def)
  have sql: "ConvertToClickHouseSQL noCompile (aqFilter lastHour) = Inr ([], [])"
    by (simp add: ConvertToClickHouseSQL_def lastHour_def)
  have cursor: "decodeCursor noCodec (tickingClock 3) (aqContinue lastHour) lastHour \<noteq> Inl (CursorExpired age)" for age
    by (simp add: decodeCursor_def noCodec_def split: option.splits)
  have rows: "readRows ''audit logs'' (\<lambda>_. None) (noRows q) = Inr []" for q
    by (simp add: readRows_def noRows_def)
  have valid: "validateAuditLogQuery (24 * hour) (cfgMaxPageSize sampleConfig) noCompile noCodec (tickingClock 0) (tickingClock 1) lastHour = []"
    unfolding page by (rule lastHour_accepted)
  have "0 \<le> cfgMaxPageSize sampleConfig" by (simp add: page)
  from accepted_audit_query_outcome [where clock = tickingClock and conn = noRows and decode = "\<lambda>_. None" and extra = "[]",
      OF tickingClock_mono this valid]
  show ?thesis by (auto simp: sql cursor rows)
qed

section \<open>Requests that validation should have refused\<close>

text \<open>A filter that compiles but has no SQL form passes validation, and the request is unavailable whatever ClickHouse does.\<close>

definition sizeFilter :: "string \<Rightarrow> filter_compile" where
  "sizeFilter f = Compiled (ECall None ''_==_'' [ECall None ''size'' [EIdent ''verb''], EConst (KInt 3)]) CelBool"

lemma accepted_filter_without_sql:
  "validateAuditLogQuery (24 * hour) 1000 sizeFilter noCodec (tickingClock 0) (tickingClock 1) (lastHour\<lparr>aqFilter := ''size(verb) == 3''\<rparr>) = []"
  "CreateAuditLogQuery sampleConfig (24 * hour) sizeFilter noCodec (\<lambda>_. None) conn tickingClock (Some []) (lastHour\<lparr>aqFilter := ''size(verb) == 3''\<rparr>)
   = Inl (ApiUnavailable tryLater)"
proof -
  have v: "validateAuditLogQuery (24 * hour) 1000 sizeFilter noCodec (tickingClock 0) (tickingClock 1)
      (lastHour\<lparr>aqFilter := ''size(verb) == 3''\<rparr>) = []"
    by code_simp
  then show "validateAuditLogQuery (24 * hour) 1000 sizeFilter noCodec (tickingClock 0) (tickingClock 1)
      (lastHour\<lparr>aqFilter := ''size(verb) == 3''\<rparr>) = []" .
  let ?spec = "lastHour\<lparr>aqFilter := ''size(verb) == 3''\<rparr>"
  have times: "timesErrors (24 * hour) (aqStartTime ?spec) (aqEndTime ?spec) (tickingClock 0) = []"
    using v unfolding validateAuditLogQuery_def by simp
  obtain ts where ts: "timeConds ''timestamp'' (aqStartTime ?spec) (aqEndTime ?spec) (tickingClock 3) = Inr ts"
    using timeConds_later [OF times tickingClock_mono [of 0 3]] by (auto simp: isOk_iff)
  have "ConvertToClickHouseSQL sizeFilter ''size(verb) == 3'' = Inl (SqlError ''unsupported CEL function: size'')" by code_simp
  then have q: "stored tryLater (QueryAuditLogs sampleConfig sizeFilter noCodec (\<lambda>_. None) conn (tickingClock 3) ?spec scope)
      = Inl (ApiUnavailable tryLater)" for scope
    using ts by (simp add: QueryAuditLogs_def buildQuery_def filterConds_def stored_def convertToStructuredError_def)
  have "answerQuery [] (aqStartTime ?spec) (aqEndTime ?spec) (tickingClock 2) (Inl x) = Inl x" for x :: api_error
    using answerQuery_accepted [OF times tickingClock_mono [of 0 2], of "Inl x"] by auto
  moreover have "cfgMaxPageSize sampleConfig = 1000" by (simp add: sampleConfig_def)
  ultimately show "CreateAuditLogQuery sampleConfig (24 * hour) sizeFilter noCodec (\<lambda>_. None) conn tickingClock (Some []) ?spec
   = Inl (ApiUnavailable tryLater)"
    unfolding CreateAuditLogQuery_def option.case by (simp only: v q)
qed

text \<open>An activity query carries its cursor to the storage unchecked: one that is not a cursor makes it unavailable.\<close>

lemma activity_cursor_unchecked:
  assumes "acContinue spec \<noteq> ''''" and "decodeActivityCursor codec (clock 2) (acContinue spec) spec = Inl e"
    and "\<And>i j. i \<le> j \<Longrightarrow> clock i \<le> clock j"
    and "validateActivityQuery w (cfgMaxPageSize cfg) celc (clock 0) spec = []"
    and "isOk (ConvertActivityToClickHouseSQL celc (acFilter spec))"
  shows "CreateActivityQuery cfg w celc codec decodeMeta unm conn clock (Some extra) spec
       = Inl (ApiUnavailable ''Failed to execute query. Try again or contact support if the problem persists.'')"
proof -
  have times: "timesErrors w (acStartTime spec) (acEndTime spec) (clock 0) = []"
    using assms(4) by (simp add: validateActivityQuery_def)
  have mono: "clock 0 \<le> clock 1" "clock 0 \<le> clock 2" using assms(3) by simp_all
  obtain ts where ts: "timeConds ''timestamp'' (acStartTime spec) (acEndTime spec) (clock 2) = Inr ts"
    using timeConds_later [OF times mono(2)] by (auto simp: isOk_iff)
  have "isOk (filterConds (ConvertActivityToClickHouseSQL celc) (acFilter spec))"
    using assms(5) by (cases "ConvertActivityToClickHouseSQL celc (acFilter spec)") (auto simp: filterConds_def)
  then obtain fs where fs: "filterConds (ConvertActivityToClickHouseSQL celc) (acFilter spec) = Inr fs"
    by (auto simp: isOk_iff)
  have q: "QueryActivities cfg celc codec decodeMeta conn (clock 2) spec scope = Inl (QCursor e)" for scope
    using assms(1,2) by (simp add: QueryActivities_def buildActivityQuery_def activityBaseConds_def ts fs activityCursorConds_def)
  have "answerQuery [] (acStartTime spec) (acEndTime spec) (clock 1) (Inl x) = Inl x" for x :: api_error
    using answerQuery_accepted [OF times mono(1), of "Inl x"] by auto
  then show ?thesis
    unfolding CreateActivityQuery_def option.case assms(4) q by (simp add: stored_def convertToStructuredError_def)
qed

text \<open>The facet endpoints check neither times nor filter: whatever is wrong with them, the facets are unavailable.\<close>

lemma facet_bad_input_unavailable:
  assumes "facet \<in> set (fqFacets spec)" and "validateFacetQueryInput (fqFacets spec) = []"
    and "fqFilter spec \<noteq> ''''" and "CompileActivityFilter celc (fqFilter spec) = Inl err"
  shows "CreateActivityFacetQuery cfg celc conn now (Some extra) spec = Inl facetsUnavailable"
proof -
  let ?f = "\<lambda>facet. queryFacet cfg celc conn now facet spec (ExtractScopeFromUser extra)"
  have "\<not> isOk (?f facet)" for facet
    using assms(3,4)
    by (cases "GetActivityFacetColumn (ffField facet)"; cases "timeConds ''timestamp'' (fqStartTime spec) (fqEndTime spec) now")
      (simp_all add: queryFacet_def buildFacetQuery_def filterConds_def ConvertActivityToClickHouseSQL_def convertFilter_def)
  then have bad: "\<exists>e. ?f facet = Inl e" for facet by (cases "?f facet") (auto simp: isOk_iff)
  obtain f fs where "fqFacets spec = f # fs" using assms(1) by (cases "fqFacets spec") auto
  with bad [of f] have "\<exists>e. queryEach ?f (fqFacets spec) = Inl e" by auto
  with assms(2) show ?thesis by (auto simp: CreateActivityFacetQuery_def QueryFacets_def facetAnswer_def)
qed

text \<open>
  The guide of the kubectl plugin selects events by \<open>involvedObject.kind\<close>; the endpoint knows the
  field as \<open>regarding.kind\<close> only and is unavailable.
\<close>

lemma documented_event_selector_unsupported:
  "\<exists>e. selectorConds ''involvedObject.kind=Pod,type=Warning'' = Inl (QSelector e)"
  "isOk (selectorConds ''regarding.kind=Pod,type=Warning'')"
proof -
  have "isOk (ParseFieldSelector ''involvedObject.kind=Pod,type=Warning'') = False" by code_simp
  then obtain e where "ParseFieldSelector ''involvedObject.kind=Pod,type=Warning'' = Inl e"
    by (metis isOk_iff sum.exhaust)
  then show "\<exists>e. selectorConds ''involvedObject.kind=Pod,type=Warning'' = Inl (QSelector e)"
    by (simp add: selectorConds_def)
  show "isOk (selectorConds ''regarding.kind=Pod,type=Warning'')" by code_simp
qed

text \<open>Every event label the API server admits has a column.\<close>

lemma event_labels_have_columns:
  "EventFieldLabelConversionFunc label v = Some p \<Longrightarrow> isOk (ResolveEventFieldSelector label)"
proof -
  have "list_all (\<lambda>l. isOk (ResolveEventFieldSelector l)) SupportedEventFieldSelectors" by code_simp
  then show "EventFieldLabelConversionFunc label v = Some p \<Longrightarrow> isOk (ResolveEventFieldSelector label)"
    by (auto simp: EventFieldLabelConversionFunc_def list_all_iff split: if_splits)
qed

text \<open>For the parent kinds that are named, every endpoint sees the same tenant.\<close>

lemma facet_scope_agrees:
  assumes "extraValues extra ParentKindExtraKey = k # ks" and "extraValues extra ParentNameExtraKey = n # ns"
    and "k \<in> {''Organization'', ''Project'', ''User''}"
  shows "extractScopeFromUser extra = ExtractScopeFromUser extra"
  using assms by (auto simp: extractScopeFromUser_def ExtractScopeFromUser_def tenant_type_defs)

section \<open>Activity lists\<close>

lemma escapeCELString_chars:
  "escapeCELString s = concat (map (\<lambda>d. if d = backslash \<or> d = sQuote then [backslash, d] else [d]) s)"
  by (induction s) (simp_all add: escapeCELString_def replaceAllStr_char quote_defs)

text \<open>A value without line ends is a literal with that value, whatever it contains.\<close>

lemma escapeCELString_literal:
  assumes "list_all (\<lambda>c. \<not> isLineEnd c) s"
  shows "litBody sQuote (escapeCELString s) s"
proof -
  have "litBody sQuote (concat (map (\<lambda>d. if d = backslash \<or> d = sQuote then [backslash, d] else [d]) s)) (concat (map (\<lambda>d. [d]) s))"
  proof (rule litBody_concat)
    fix d rest v r
    assume d: "d \<in> set s" and r: "readLit sQuote rest = Some (v, r)"
    have "simpleEscape backslash = Some [backslash]" "simpleEscape sQuote = Some [sQuote]" by code_simp+
    then have "readEscape (d # rest) = Some ([d], rest)" if "d = backslash \<or> d = sQuote"
      using that by (elim disjE) (simp_all add: readEscape_def)
    with readLit_escape [OF r, of "[d]" "[d]"] readLit_plain [OF r, of d] d assms
    show "readLit sQuote ((if d = backslash \<or> d = sQuote then [backslash, d] else [d]) @ rest) = Some ([d] @ v, r)"
      by (auto simp: list_all_iff quote_defs)
  qed
  then show ?thesis by (simp add: escapeCELString_chars)
qed

definition lineFree :: "string \<Rightarrow> bool" where
  "lineFree s = list_all (\<lambda>c. \<not> isLineEnd c) s"

text \<open>What the filter of a list should read as: the namespace, then one equality for every field that the selector asks for.\<close>

definition listTokens :: "string \<Rightarrow> (string \<times> string) list \<Rightarrow> cel_tok list" where
  "listTokens namespace clauses =
     (let ns = clauseTokens (''metadata.namespace'', namespace); more = conjTokens (map clauseTokens clauses)
      in if clauses = [] then (if namespace = '''' then [] else ns)
         else if namespace = '''' then more
         else TSym ''('' # ns @ [TSym '')'', TSym ''&&''] @ more)"

text \<open>
  C9: the filter that a list of activities sends to the storage reads, token by token, as the
  equalities of the namespace and of the selected fields with exactly the values the client gave.
  No value that has no line ends leaves its literal, whatever quotes and backslashes it contains.
\<close>

theorem list_filter_has_no_injection:
  assumes "lineFree namespace" and "\<And>f v. requiresExactMatch (aloSelector options) f = Some v \<Longrightarrow> lineFree v"
  shows "celTokens (acFilter (listActivitySpec namespace options))
       = Some (listTokens namespace (selectorClauses (aloSelector options)))"
proof -
  let ?cs = "selectorClauses (aloSelector options)"
  let ?text = "clauseText sQuote escapeCELString"
  have q: "isQuoteChar sQuote" by (simp add: isQuoteChar_def)
  have names: "celName f" if "f \<in> set (''metadata.namespace'' # listSelectorFields)" for f
  proof -
    have "list_all celName (''metadata.namespace'' # listSelectorFields)" by code_simp
    with that show ?thesis by (simp only: list_all_iff)
  qed
  have eqs: "map (\<lambda>(f, v). celEquality f v) cs = map ?text cs" for cs
    by (simp add: clauseText_def celEquality_def)
  have lits: "celName f \<and> litBody sQuote (escapeCELString v) v" if "(f, v) \<in> set ?cs" for f v
    using that names assms(2) escapeCELString_literal
    by (auto simp: selectorClauses_def lineFree_def split: option.splits)
  have ns: "celTokens (?text (''metadata.namespace'', namespace) @ rest)
      = map_option ((@) (clauseTokens (''metadata.namespace'', namespace))) (celTokens rest)"
    if "rest = [] \<or> \<not> isQuoteChar (hd rest)" for rest
    using names escapeCELString_literal [of namespace] assms(1) q that by (intro celTokens_clause) (auto simp: lineFree_def)
  have more: "celTokens (joinStr '' && '' (map ?text ?cs)) = Some (conjTokens (map clauseTokens ?cs))" if "?cs \<noteq> []"
    using celTokens_conj [OF that lits q, of "[]"] by simp
  have none: "aloSelector options = [] \<Longrightarrow> ?cs = []" by (simp add: selectorClauses_def listSelectorFields_def)
  have both: "celTokens (''('' @ ?text (''metadata.namespace'', namespace) @ '') && '' @ joinStr '' && '' (map ?text ?cs))
      = Some (listTokens namespace ?cs)" if "?cs \<noteq> []" "namespace \<noteq> ''''"
  proof -
    let ?j = "joinStr '' && '' (map ?text ?cs)"
    have 1: "celTokens ('') && '' @ ?j) = Some (TSym '')'' # TSym ''&&'' # conjTokens (map clauseTokens ?cs))"
      using celTokens_sym [of "'')''" "'' && '' @ ?j"] celTokens_sym [of "''&&''" "CHR '' '' # ?j"] more [OF that(1)] by simp
    have 2: "'') && '' @ ?j = [] \<or> \<not> isQuoteChar (hd ('') && '' @ ?j))" by (simp add: isQuoteChar_def quote_defs)
    show ?thesis
      using celTokens_sym [of "''(''" "?text (''metadata.namespace'', namespace) @ '') && '' @ ?j"] ns [OF 2] 1 that
      by (simp add: listTokens_def Let_def)
  qed
  have nsText: "?text (''metadata.namespace'', namespace) = ''metadata.namespace == '' @ [sQuote] @ escapeCELString namespace @ [sQuote]"
    by (simp add: clauseText_def)
  have ne: "?text (''metadata.namespace'', namespace) \<noteq> []" by (simp add: clauseText_def)
  show ?thesis
    using ns [of "[]"] more both none ne
    by (cases "?cs = []"; cases "namespace = ''''")
      (auto simp: listActivitySpec_def activityFieldSelector_def Let_def eqs listTokens_def nsText [symmetric] simp del: append_Cons)
qed

theorem list_filter_has_no_injection_witness:
  "celTokens (acFilter (listActivitySpec ''a'' \<lparr>aloLimit = 5, aloContinue = '''', aloResourceVersion = '''',
      aloSelector = [SelEquals ''spec.actor.name'' ([backslash, sQuote] @ '' || true || '' @ [sQuote])]\<rparr>))
   = Some ([TSym ''('', TWord ''metadata.namespace'', TSym ''=='', TLit ''a'', TSym '')'', TSym ''&&'', TWord ''spec.actor.name'', TSym ''=='',
            TLit ([backslash, sQuote] @ '' || true || '' @ [sQuote])])"
proof -
  let ?o = "\<lparr>aloLimit = 5, aloContinue = '''', aloResourceVersion = '''',
      aloSelector = [SelEquals ''spec.actor.name'' ([backslash, sQuote] @ '' || true || '' @ [sQuote])]\<rparr>"
  have "lineFree ''a''" "lineFree ([backslash, sQuote] @ '' || true || '' @ [sQuote])"
    by (simp_all add: lineFree_def isLineEnd_def quote_defs)
  then have "celTokens (acFilter (listActivitySpec ''a'' ?o)) = Some (listTokens ''a'' (selectorClauses (aloSelector ?o)))"
    by (intro list_filter_has_no_injection) (auto split: if_splits)
  then show ?thesis
    by (simp add: listTokens_def selectorClauses_def listSelectorFields_def clauseTokens_def)
qed

text \<open>
  The API server admits selectors on fields that a list does not look at, and inequalities on
  every field. The list answers as if they had not been given, with everything they should have
  left out.
\<close>

theorem admitted_selector_is_ignored:
  assumes "ActivityFieldLabelConversionFunc f v = Some p"
    and "t = SelNotEquals f v \<or> t = SelEquals f v \<and> f \<notin> set listSelectorFields"
  shows "listActivitySpec namespace (options\<lparr>aloSelector := ts @ t # us\<rparr>) = listActivitySpec namespace (options\<lparr>aloSelector := ts @ us\<rparr>)"
proof -
  have "requiresExactMatch (ts @ t # us) g = requiresExactMatch (ts @ us) g" if "g \<in> set listSelectorFields" for g
    using assms(2) that by (induction ts g rule: requiresExactMatch.induct) auto
  then have "selectorClauses (ts @ t # us) = selectorClauses (ts @ us)"
    unfolding selectorClauses_def by (intro arg_cong [where f = concat] map_cong) simp_all
  moreover have "selectorClauses [] = []" by (simp add: selectorClauses_def listSelectorFields_def)
  ultimately show ?thesis by (auto simp: listActivitySpec_def activityFieldSelector_def Let_def)
qed

theorem admitted_selector_is_ignored_witness:
  "ActivityFieldLabelConversionFunc ''spec.resource.name'' ''web'' = Some (''spec.resource.name'', ''web'')
   \<and> acFilter (listActivitySpec ''a'' \<lparr>aloLimit = 5, aloContinue = '''', aloResourceVersion = '''',
      aloSelector = [SelEquals ''spec.resource.name'' ''web'']\<rparr>) = ''metadata.namespace == '' @ [sQuote] @ ''a'' @ [sQuote]"
proof -
  have l: "ActivityFieldLabelConversionFunc ''spec.resource.name'' ''web'' = Some (''spec.resource.name'', ''web'')"
    by (simp add: ActivityFieldLabelConversionFunc_def SupportedActivityFieldSelectors_def)
  have f: "''spec.resource.name'' \<notin> set listSelectorFields" by (simp add: listSelectorFields_def)
  let ?o = "\<lparr>aloLimit = 5, aloContinue = '''', aloResourceVersion = '''', aloSelector = [SelEquals ''spec.resource.name'' ''web'']\<rparr>"
  have "listActivitySpec ''a'' (?o\<lparr>aloSelector := [] @ SelEquals ''spec.resource.name'' ''web'' # []\<rparr>)
      = listActivitySpec ''a'' (?o\<lparr>aloSelector := [] @ []\<rparr>)"
    by (rule admitted_selector_is_ignored [OF l]) (simp add: f)
  with l show ?thesis
    by (simp add: listActivitySpec_def activityFieldSelector_def escapeCELString_def replaceAllStr_char quote_defs)
qed

text \<open>The summary of a table row is cut at a byte, possibly inside a character of several bytes.\<close>

lemma table_row_cuts_characters:
  "\<exists>s. concat (runes s) = s \<and> last (take 57 s) = CHR 0xC3 \<and>
     activityToTableRow human now (activity\<lparr>actSpec := (actSpec activity)\<lparr>specSummary := s\<rparr>\<rparr>) ! 1 = take 57 s @ ''...''"
proof -
  let ?s = "replicate 56 (CHR ''a'') @ [CHR 0xC3, CHR 0xA9] @ replicate 10 (CHR ''b'')"
  have "last (take 57 ?s) = CHR 0xC3" by (simp add: numeral_eq_Suc)
  then show ?thesis
    by (intro exI [of _ ?s]) (simp add: activityToTableRow_def Let_def)
qed


end
