(* ===== verification/Cli_Commands.thy ===== *)
theory Cli_Commands
  imports Selectors Query_Api Storage_Props
begin

text \<open>
  pkg/cmd, the kubectl plugin: the flags shared by the commands (common/flags.go, common/escape.go,
  common/suggest.go), the filters and selectors each command writes (audit.go, feed.go, events.go,
  history.go), the loops over all pages, the live feed, and what is printed, as rows and items
  rather than aligned columns. The client of the API server is a parameter: a request has a value
  or an error. Cobra, colours, printers for JSON and YAML, and help texts are left out.
\<close>

section \<open>What a client reads of an audit event\<close>

record AuditRecord =
  arStageTimestamp :: instant
  arReceived :: instant
  arVerb :: string
  arUsername :: string
  arObjectRef :: "ObjectReference option"
  arStatus :: "(int \<times> string) option"
  arRequestURI :: string
  arResponseObject :: json_text

text \<open>Times are printed in a zone, given by its offset; the decoder of Kubernetes times yields local ones.\<close>

definition clockText :: "int \<Rightarrow> string" where
  "clockText sod = padDigits 2 (sod div 3600) @ '':'' @ padDigits 2 (sod mod 3600 div 60) @ '':'' @ padDigits 2 (sod mod 60)"

definition dateText :: "int \<Rightarrow> string" where
  "dateText days = (let (y, m, d) = civilFromDays days in padDigits 4 y @ ''-'' @ padDigits 2 m @ ''-'' @ padDigits 2 d)"

definition secondsIn :: "int \<Rightarrow> instant \<Rightarrow> int" where
  "secondsIn offset t = t div second + offset"

definition formatTimeOnly :: "int \<Rightarrow> instant \<Rightarrow> string" where
  "formatTimeOnly offset t = clockText (secondsIn offset t mod 86400)"

definition formatDateOnly :: "int \<Rightarrow> instant \<Rightarrow> string" where
  "formatDateOnly offset t = dateText (secondsIn offset t div 86400)"

definition formatDateTime :: "int \<Rightarrow> instant \<Rightarrow> string" where
  "formatDateTime offset t = formatDateOnly offset t @ '' '' @ formatTimeOnly offset t"

section \<open>common: flags and escaping\<close>

record TimeRangeFlags =
  trStartTime :: string
  trEndTime :: string

definition validateTimeRange :: "TimeRangeFlags \<Rightarrow> string option" where
  "validateTimeRange f =
     (if trStartTime f = '''' then Some ''--start-time is required''
      else if trEndTime f = '''' then Some ''--end-time is required'' else None)"

record PaginationFlags =
  pgLimit :: int
  pgAllPages :: bool
  pgContinueAfter :: string

definition validatePagination :: "PaginationFlags \<Rightarrow> string option" where
  "validatePagination f =
     (if pgLimit f < 1 \<or> pgLimit f > 1000 then Some ''--limit must be between 1 and 1000''
      else if pgAllPages f \<and> pgContinueAfter f \<noteq> '''' then Some ''--all-pages and --continue-after are mutually exclusive''
      else None)"

definition EscapeCELString :: "string \<Rightarrow> string" where
  "EscapeCELString s = replaceAllStr s [sQuote] [backslash, sQuote]"

definition EscapeFieldSelectorValue :: "string \<Rightarrow> string + string" where
  "EscapeFieldSelectorValue s =
     (if CHR ''='' \<in> set s \<or> CHR '','' \<in> set s
      then Inl (''field selector value cannot contain '' @ [sQuote] @ ''='' @ [sQuote] @ '' or '' @ [sQuote] @ '','' @ [sQuote] @ '' characters: '' @ quoteQ s)
      else Inr s)"

definition ValidateEventType :: "string \<Rightarrow> string option" where
  "ValidateEventType t =
     (if t = '''' \<or> t = ''Normal'' \<or> t = ''Warning'' then None
      else Some (''event type must be '' @ [sQuote] @ ''Normal'' @ [sQuote] @ '' or '' @ [sQuote] @ ''Warning'' @ [sQuote] @ '', got: '' @ quoteQ t))"

section \<open>common/suggest.go\<close>

text \<open>A facet query for one field, and the table of its first result.\<close>

definition suggestQuery :: "string \<Rightarrow> TimeRangeFlags \<Rightarrow> string \<Rightarrow> FacetQuerySpec" where
  "suggestQuery field tr f =
     \<lparr>fqStartTime = trStartTime tr, fqEndTime = trEndTime tr, fqFilter = f, fqFacets = [\<lparr>ffField = field, ffLimit = 20\<rparr>]\<rparr>"

datatype cli_output =
    OutRows "string list list"
  | OutLine string
  | OutCounts string "(string \<times> int) list"
  | OutMore string
  | OutNoMore
  | OutTotal nat

definition printFacets ::
  "string \<Rightarrow> (FacetQuerySpec \<Rightarrow> string + (string \<times> (string \<times> int) list) list) \<Rightarrow> FacetQuerySpec \<Rightarrow> string + cli_output list" where
  "printFacets field create query =
     (case create query of
        Inl e \<Rightarrow> Inl (''facet query failed: '' @ e)
      | Inr [] \<Rightarrow> Inr [OutLine (''No values found for field: '' @ field)]
      | Inr ((f, vs) # _) \<Rightarrow> Inr [OutCounts f vs])"

definition paginationInfo :: "string \<Rightarrow> nat \<Rightarrow> cli_output list" where
  "paginationInfo token n = (if token \<noteq> '''' then [OutMore token] else if n > 0 then [OutNoMore] else [])"

section \<open>Filters\<close>

text \<open>A flag that is set becomes a clause; the explicit filter is added in parentheses.\<close>

definition shorthandClauses :: "(string \<times> string) list \<Rightarrow> (string \<times> string) list" where
  "shorthandClauses flags = filter (\<lambda>(_, v). v \<noteq> '''') flags"

definition combineFilter :: "(string \<times> string) list \<Rightarrow> string \<Rightarrow> string" where
  "combineFilter flags explicit =
     (let combined = joinStr '' && '' (map (clauseText sQuote EscapeCELString) (shorthandClauses flags))
      in if explicit \<noteq> ''''
         then (if combined \<noteq> '''' then ''('' @ combined @ '') && ('' @ explicit @ '')'' else explicit)
         else combined)"

record AuditOptions =
  aoFilter :: string
  aoNamespace :: string
  aoResource :: string
  aoVerb :: string
  aoUser :: string
  aoTimeRange :: TimeRangeFlags
  aoPagination :: PaginationFlags
  aoSuggest :: string

definition auditFlags :: "AuditOptions \<Rightarrow> (string \<times> string) list" where
  "auditFlags o' = [(''objectRef.namespace'', aoNamespace o'), (''objectRef.resource'', aoResource o'), (''verb'', aoVerb o'),
     (''user.username'', aoUser o')]"

definition buildAuditFilter :: "AuditOptions \<Rightarrow> string" where
  "buildAuditFilter o' = combineFilter (auditFlags o') (aoFilter o')"

record FeedOptions =
  foFilter :: string
  foNamespace :: string
  foActor :: string
  foKind :: string
  foAPIGroup :: string
  foChangeSource :: string
  foSearch :: string
  foResourceUID :: string
  foWatch :: bool
  foTimeRange :: TimeRangeFlags
  foPagination :: PaginationFlags
  foSuggest :: string

definition feedFlags :: "FeedOptions \<Rightarrow> (string \<times> string) list" where
  "feedFlags o' = [(''spec.resource.namespace'', foNamespace o'), (''spec.actor.name'', foActor o'), (''spec.resource.kind'', foKind o'),
     (''spec.resource.apiGroup'', foAPIGroup o'), (''spec.changeSource'', foChangeSource o'), (''spec.resource.uid'', foResourceUID o')]"

definition buildFeedFilter :: "FeedOptions \<Rightarrow> string" where
  "buildFeedFilter o' = combineFilter (feedFlags o') (foFilter o')"

record HistoryOptions =
  hoNamespace :: string
  hoResource :: string
  hoName :: string
  hoShowDiff :: bool
  hoTimeRange :: TimeRangeFlags
  hoPagination :: PaginationFlags

definition modifyingVerbs :: string where
  "modifyingVerbs =
     ''verb in ['' @ joinStr '', '' (map (\<lambda>v. [sQuote] @ v @ [sQuote]) [''create'', ''update'', ''patch'', ''delete'']) @ '']''"

definition buildHistoryFilter :: "HistoryOptions \<Rightarrow> string" where
  "buildHistoryFilter o' =
     joinStr '' && ''
       ([clauseText sQuote EscapeCELString (''objectRef.resource'', hoResource o'),
         clauseText sQuote EscapeCELString (''objectRef.name'', hoName o'), modifyingVerbs]
        @ (if hoNamespace o' \<noteq> '''' then [clauseText sQuote EscapeCELString (''objectRef.namespace'', hoNamespace o')] else []))"

record EventsOptions =
  eoNamespace :: string
  eoFieldSelector :: string
  eoType :: string
  eoReason :: string
  eoRegardingKind :: string
  eoRegardingName :: string
  eoTimeRange :: TimeRangeFlags
  eoPagination :: PaginationFlags
  eoSuggest :: string

definition eventSelectorFlags :: "EventsOptions \<Rightarrow> (string \<times> string) list" where
  "eventSelectorFlags o' = [(''type'', eoType o'), (''reason'', eoReason o'), (''regarding.kind'', eoRegardingKind o'),
     (''regarding.name'', eoRegardingName o')]"

definition buildFieldSelector :: "EventsOptions \<Rightarrow> string" where
  "buildFieldSelector o' =
     joinStr '','' (map selectorText (shorthandClauses (eventSelectorFlags o')) @ (if eoFieldSelector o' \<noteq> '''' then [eoFieldSelector o'] else []))"

section \<open>Validation of the commands\<close>

text \<open>The first error wins; \<open>orElse\<close> is defined with the field validators.\<close>

definition validateAudit :: "AuditOptions \<Rightarrow> string option" where
  "validateAudit o' = orElse (validateTimeRange (aoTimeRange o')) (validatePagination (aoPagination o'))"

definition validateFeed :: "FeedOptions \<Rightarrow> string option" where
  "validateFeed o' =
     (if foWatch o' then (if foFilter o' \<noteq> '''' then Some ''--filter is not supported in watch mode'' else None)
      else if foChangeSource o' \<noteq> '''' \<and> foChangeSource o' \<noteq> ''human'' \<and> foChangeSource o' \<noteq> ''system''
      then Some (''invalid --change-source value '' @ quoteQ (foChangeSource o') @ '': must be '' @ quoteQ ''human'' @ '' or '' @ quoteQ ''system'')
      else orElse (validateTimeRange (foTimeRange o')) (validatePagination (foPagination o')))"

definition selectorValueError :: "string \<Rightarrow> string \<Rightarrow> string option" where
  "selectorValueError flag v =
     (if v = '''' then None
      else (case EscapeFieldSelectorValue v of Inl e \<Rightarrow> Some (''invalid --'' @ flag @ '' value: '' @ e) | Inr _ \<Rightarrow> None))"

definition validateEvents :: "EventsOptions \<Rightarrow> string option" where
  "validateEvents o' =
     orElse (validateTimeRange (eoTimeRange o')) (orElse (validatePagination (eoPagination o')) (orElse (ValidateEventType (eoType o'))
       (orElse (selectorValueError ''reason'' (eoReason o')) (orElse (selectorValueError ''regarding-kind'' (eoRegardingKind o'))
         (orElse (selectorValueError ''regarding-name'' (eoRegardingName o')) (selectorValueError ''namespace'' (eoNamespace o')))))))"

text \<open>The arguments of the history command; the namespace is the one of the kubeconfig loader.\<close>

definition completeHistory :: "string list \<Rightarrow> (string + string \<times> bool) option \<Rightarrow> HistoryOptions \<Rightarrow> string + HistoryOptions" where
  "completeHistory args loader o' =
     (if length args \<noteq> 2 then Inl ''exactly two arguments are required: RESOURCE_TYPE NAME''
      else let o1 = o'\<lparr>hoResource := args ! 0, hoName := args ! 1\<rparr>
           in (case loader of
                 None \<Rightarrow> Inr o1
               | Some (Inl e) \<Rightarrow> Inl (''failed to get namespace: '' @ e)
               | Some (Inr (ns, enforced)) \<Rightarrow> Inr (if enforced \<or> ns \<noteq> '''' then o1\<lparr>hoNamespace := ns\<rparr> else o1)))"

definition validateHistory :: "HistoryOptions \<Rightarrow> string option" where
  "validateHistory o' =
     (if hoResource o' = '''' then Some ''resource type is required''
      else if hoName o' = '''' then Some ''resource name is required''
      else orElse (validateTimeRange (hoTimeRange o')) (validatePagination (hoPagination o')))"

section \<open>Requests\<close>

definition auditSpec :: "AuditOptions \<Rightarrow> string \<Rightarrow> AuditLogQuerySpec" where
  "auditSpec o' token =
     \<lparr>aqStartTime = trStartTime (aoTimeRange o'), aqEndTime = trEndTime (aoTimeRange o'), aqFilter = buildAuditFilter o',
      aqLimit = pgLimit (aoPagination o'), aqContinue = token\<rparr>"

definition feedSpec :: "FeedOptions \<Rightarrow> string \<Rightarrow> ActivityQuerySpec" where
  "feedSpec o' token =
     \<lparr>acStartTime = trStartTime (foTimeRange o'), acEndTime = trEndTime (foTimeRange o'), acSearch = foSearch o',
      acFilter = buildFeedFilter o', acLimit = pgLimit (foPagination o'), acContinue = token\<rparr>"

definition eventsSpec :: "EventsOptions \<Rightarrow> string \<Rightarrow> EventQuerySpec" where
  "eventsSpec o' token =
     \<lparr>eqStartTime = trStartTime (eoTimeRange o'), eqEndTime = trEndTime (eoTimeRange o'), eqNamespace = eoNamespace o',
      eqFieldSelector = buildFieldSelector o', eqLimit = pgLimit (eoPagination o'), eqContinue = token\<rparr>"

definition historySpec :: "HistoryOptions \<Rightarrow> string \<Rightarrow> AuditLogQuerySpec" where
  "historySpec o' token =
     \<lparr>aqStartTime = trStartTime (hoTimeRange o'), aqEndTime = trEndTime (hoTimeRange o'), aqFilter = buildHistoryFilter o',
      aqLimit = pgLimit (hoPagination o'), aqContinue = token\<rparr>"

text \<open>
  The loop of \<open>runAllPages\<close> over the \<open>n\<close>-th and later requests: the pages that arrived, and the
  error that ended it, if one did. A server that always hands out another token keeps it running.
\<close>

partial_function (option) followPages ::
  "(nat \<Rightarrow> string \<Rightarrow> string + 'e list \<times> string) \<Rightarrow> nat \<Rightarrow> string \<Rightarrow> ('e list list \<times> string option) option" where
  "followPages create n token =
     (case create n token of
        Inl e \<Rightarrow> Some ([], Some (''query failed on page '' @ fmtInt (int (n + 1)) @ '': '' @ e))
      | Inr (es, next) \<Rightarrow>
          if next = [] then Some ([es], None)
          else Option.bind (followPages create (n + 1) next) (\<lambda>(pages, err). Some (es # pages, err)))"

text \<open>Table output shows every page as it comes, the other formats everything at the end, and only without an error.\<close>

definition allPagesOutput ::
  "bool \<Rightarrow> ('e list \<Rightarrow> string list list) \<Rightarrow> 'e list list \<times> string option \<Rightarrow> cli_output list \<times> 'e list option \<times> string option" where
  "allPagesOutput isTable rowsOf outcome =
     (let (pages, err) = outcome; tables = (if isTable then map (OutRows \<circ> rowsOf) pages else [])
      in case err of
           Some e \<Rightarrow> (tables, None, Some e)
         | None \<Rightarrow> (tables @ [OutTotal (length (concat pages))], if isTable then None else Some (concat pages), None))"

definition singlePageOutput ::
  "bool \<Rightarrow> ('e list \<Rightarrow> string list list) \<Rightarrow> string + 'e list \<times> string \<Rightarrow> string + cli_output list \<times> 'e list option" where
  "singlePageOutput isTable rowsOf answer =
     (case answer of
        Inl e \<Rightarrow> Inl (''query failed: '' @ e)
      | Inr (es, next) \<Rightarrow> Inr (if isTable then (OutRows (rowsOf es) # paginationInfo next (length es), None) else ([], Some es)))"

text \<open>Which of its modes a command runs in.\<close>

datatype cli_mode = ModeFacets string | ModeWatch | ModeAllPages | ModeSinglePage

definition commandMode :: "string \<Rightarrow> bool \<Rightarrow> PaginationFlags \<Rightarrow> cli_mode" where
  "commandMode suggest watch pagination =
     (if suggest \<noteq> '''' then ModeFacets suggest else if watch then ModeWatch
      else if pgAllPages pagination then ModeAllPages else ModeSinglePage)"

section \<open>Rows\<close>

definition cutText :: "string \<Rightarrow> string" where
  "cutText s = (if length s > 80 then take 77 s @ ''...'' else s)"

definition auditTime :: "(instant \<Rightarrow> string) \<Rightarrow> AuditRecord \<Rightarrow> string" where
  "auditTime fmt e =
     (if \<not> isZeroTime (arStageTimestamp e) then fmt (arStageTimestamp e)
      else if \<not> isZeroTime (arReceived e) then fmt (arReceived e) else ''<unknown>'')"

definition statusText :: "AuditRecord \<Rightarrow> string" where
  "statusText e = (case arStatus e of None \<Rightarrow> '''' | Some (code, _) \<Rightarrow> fmtInt code)"

definition auditRow :: "AuditRecord \<Rightarrow> string list" where
  "auditRow e =
     [auditTime formatRFC3339 e, arVerb e, arUsername e,
      (case arObjectRef e of
         None \<Rightarrow> ''''
       | Some r \<Rightarrow> (if objNamespace r \<noteq> '''' then objNamespace r @ ''/'' else '''') @ objResource r @ ''/'' @ objName r),
      statusText e]"

definition historyRow :: "int \<Rightarrow> AuditRecord \<Rightarrow> string list" where
  "historyRow offset e = [auditTime (formatDateTime offset) e, arVerb e, arUsername e, statusText e]"

definition activityRow :: "Activity \<Rightarrow> string list" where
  "activityRow a =
     [formatRFC3339 (actCreationTimestamp a), actorName (specActor (actSpec a)), specChangeSource (actSpec a), cutText (specSummary (actSpec a))]"

definition kubeEventRow :: "EventV1 \<Rightarrow> string list" where
  "kubeEventRow ev =
     (let object = refKind (evRegarding ev) @ ''/'' @ refName (evRegarding ev)
      in [(if isZeroTime (evEventTime ev) then '''' else formatRFC3339 (evEventTime ev)), evType ev, evReason ev,
          (if refNamespace (evRegarding ev) \<noteq> '''' then refNamespace (evRegarding ev) @ ''/'' @ object else object),
          cutText (evNote ev)])"

section \<open>The live feed\<close>

text \<open>The field selector of a watch: each value is checked before its term is added.\<close>

fun watchTerms :: "(string \<times> string \<times> string) list \<Rightarrow> string + string list" where
  "watchTerms [] = Inr []"
| "watchTerms ((flag, field, v) # ts) =
     (if v = '''' then watchTerms ts
      else (case EscapeFieldSelectorValue v of
              Inl e \<Rightarrow> Inl (''invalid --'' @ flag @ '' value for watch: '' @ e)
            | Inr _ \<Rightarrow> bind_r (watchTerms ts) (\<lambda>r. Inr (selectorText (field, v) # r))))"

definition feedWatchSelector :: "FeedOptions \<Rightarrow> string + string" where
  "feedWatchSelector o' =
     bind_r (watchTerms
       [(''namespace'', ''spec.resource.namespace'', foNamespace o'), (''actor'', ''spec.actor.name'', foActor o'),
        (''kind'', ''spec.resource.kind'', foKind o'), (''change-source'', ''spec.changeSource'', foChangeSource o')])
       (\<lambda>terms. Inr (joinStr '','' terms))"

definition matchesClientSideFilters :: "FeedOptions \<Rightarrow> Activity \<Rightarrow> bool" where
  "matchesClientSideFilters o' a =
     (let r = specResource (actSpec a)
      in \<not> (foAPIGroup o' \<noteq> '''' \<and> resAPIGroup r \<noteq> foAPIGroup o')
       \<and> \<not> (foResourceUID o' \<noteq> '''' \<and> resUID r \<noteq> foResourceUID o')
       \<and> \<not> (foSearch o' \<noteq> '''' \<and> \<not> containsStr (toLower (specSummary (actSpec a))) (toLower (foSearch o'))))"

definition watchLine :: "int \<Rightarrow> Activity \<Rightarrow> string" where
  "watchLine offset a = ''['' @ formatTimeOnly offset (actCreationTimestamp a) @ ''] '' @ specSummary (actSpec a)"

text \<open>The loop over what the watch delivers; an object that is no activity is skipped.\<close>

definition feedWatchLines :: "int \<Rightarrow> FeedOptions \<Rightarrow> Activity option list \<Rightarrow> string list" where
  "feedWatchLines offset o' objects =
     map (watchLine offset) (filter (matchesClientSideFilters o') (List.map_filter id objects))"

section \<open>History\<close>

text \<open>The loop that exchanges the ends of the list, from the outside in.\<close>

definition swapEnds :: "'a list \<Rightarrow> nat \<Rightarrow> 'a list" where
  "swapEnds xs i = (let j = length xs - i - 1 in xs[i := xs ! j, j := xs ! i])"

definition reverseEvents :: "'a list \<Rightarrow> 'a list" where
  "reverseEvents xs = foldl swapEnds xs [0..<length xs div 2]"

definition cleanMetadata :: "gomap \<Rightarrow> gomap" where
  "cleanMetadata meta = filter (\<lambda>(k, _). k \<in> {''name'', ''namespace'', ''labels'', ''annotations''}) meta"

definition cleanField :: "string \<times> gval \<Rightarrow> (string \<times> gval) option" where
  "cleanField = (\<lambda>(k, v).
     if k = ''metadata''
     then (case v of VMap meta \<Rightarrow> if cleanMetadata meta = [] then None else Some (k, VMap (cleanMetadata meta)) | _ \<Rightarrow> None)
     else if k \<in> {''managedFields'', ''resourceVersion'', ''generation'', ''uid''} then None
     else Some (k, v))"

definition cleanObjectForDiff :: "gomap \<Rightarrow> gomap" where
  "cleanObjectForDiff obj = List.map_filter cleanField obj"

text \<open>
  The summary of a change, over the fields in the order of the association lists; Go's map order is
  unspecified. \<open>json\<close> is \<open>json.Marshal\<close>, an absent field reads as null.
\<close>

definition fieldOf :: "gomap \<Rightarrow> string \<Rightarrow> gval" where
  "fieldOf m k = (case map_of m k of Some v \<Rightarrow> v | None \<Rightarrow> VNull)"

definition changedFields :: "(gval \<Rightarrow> string) \<Rightarrow> gomap \<Rightarrow> gomap \<Rightarrow> string list" where
  "changedFields json prev cur =
     filter (\<lambda>k. k \<notin> {''status'', ''metadata''} \<and> json (fieldOf prev k) \<noteq> json (fieldOf cur k)) (map fst cur)
     @ map (\<lambda>k. k @ '' (removed)'') (filter (\<lambda>k. k \<notin> {''status'', ''metadata''} \<and> map_of cur k = None) (map fst prev))"

definition summarizeChanges :: "(gval \<Rightarrow> string) \<Rightarrow> gomap \<Rightarrow> gomap \<Rightarrow> string" where
  "summarizeChanges json prev cur =
     (let changes = changedFields json prev cur
      in if changes = [] then ''metadata only''
         else if length changes > 3 then joinStr '', '' (take 3 changes) @ '' and '' @ fmtInt (int (length changes - 3)) @ '' more fields''
         else joinStr '', '' changes)"

datatype diff_item =
    DiffWarning nat
  | DiffHeader nat string string string "(int \<times> string) option"
  | DiffChanges string gomap gomap
  | DiffCreated gomap
  | DiffInitial gomap
  | DiffDeleted gomap
  | DiffTotal nat
  | DiffNothing

text \<open>A response body decodes to a map, to none (absent, empty or null), or fails to decode.\<close>

definition responseMap :: "AuditRecord \<Rightarrow> gomap option option" where
  "responseMap e =
     (case arResponseObject e of
        JEmpty \<Rightarrow> Some None | JInvalid \<Rightarrow> None
      | JValue (VMap m) \<Rightarrow> Some (Some m) | JValue VNull \<Rightarrow> Some None | JValue _ \<Rightarrow> None)"

fun diffLoop :: "(gval \<Rightarrow> string) \<Rightarrow> int \<Rightarrow> nat \<Rightarrow> gomap option \<Rightarrow> AuditRecord list \<Rightarrow> diff_item list" where
  "diffLoop json offset i prev [] = []"
| "diffLoop json offset i prev (e # es) =
     (case responseMap e of
        None \<Rightarrow> DiffWarning i # diffLoop json offset (Suc i) prev es
      | Some cur \<Rightarrow>
          DiffHeader (i + 1) (auditTime (formatDateTime offset) e) (arVerb e) (arUsername e) (arStatus e)
          # (case (prev, cur) of
               (Some p, Some c) \<Rightarrow>
                 [DiffChanges (summarizeChanges json (cleanObjectForDiff p) (cleanObjectForDiff c)) (cleanObjectForDiff p) (cleanObjectForDiff c)]
             | (None, Some c) \<Rightarrow> [(if arVerb e = ''create'' then DiffCreated else DiffInitial) (cleanObjectForDiff c)]
             | (Some p, None) \<Rightarrow> (if arVerb e = ''delete'' then [DiffDeleted (cleanObjectForDiff p)] else [])
             | (None, None) \<Rightarrow> [])
          @ diffLoop json offset (Suc i) (if cur = None then prev else cur) es)"

definition printDiff :: "(gval \<Rightarrow> string) \<Rightarrow> int \<Rightarrow> AuditRecord list \<Rightarrow> diff_item list" where
  "printDiff json offset events =
     (if events = [] then [DiffNothing] else diffLoop json offset 0 None events @ [DiffTotal (length events)])"

text \<open>What a page of history prints, oldest change first: another format, the diff, or a table.\<close>

datatype history_output = HistoryList "AuditRecord list" | HistoryDiff "diff_item list" | HistoryTable "string list list" "cli_output list"

definition printHistory :: "(gval \<Rightarrow> string) \<Rightarrow> int \<Rightarrow> bool \<Rightarrow> HistoryOptions \<Rightarrow> AuditRecord list \<Rightarrow> string \<Rightarrow> history_output" where
  "printHistory json offset isCustom o' results token =
     (let events = reverseEvents results
      in if isCustom then HistoryList events
         else if hoShowDiff o' then HistoryDiff (printDiff json offset events)
         else HistoryTable (map (historyRow offset) events) [if token \<noteq> '''' then OutMore token else OutNoMore])"

definition printAllHistory :: "(gval \<Rightarrow> string) \<Rightarrow> int \<Rightarrow> bool \<Rightarrow> HistoryOptions \<Rightarrow> AuditRecord list \<Rightarrow> history_output" where
  "printAllHistory json offset isCustom o' results =
     (let events = reverseEvents results
      in if isCustom then HistoryList events
         else if hoShowDiff o' then HistoryDiff (printDiff json offset events)
         else HistoryTable (map (historyRow offset) events) [OutTotal (length events)])"

section \<open>The query command\<close>

record QueryOptions =
  qoStartTime :: string
  qoEndTime :: string
  qoFilter :: string
  qoLimit :: int
  qoContinueAfter :: string
  qoAllPages :: bool

definition validateQueryOptions :: "QueryOptions \<Rightarrow> string option" where
  "validateQueryOptions o' =
     (if qoStartTime o' = '''' then Some ''--start-time is required''
      else if qoEndTime o' = '''' then Some ''--end-time is required''
      else if qoLimit o' < 1 \<or> qoLimit o' > 1000 then Some ''--limit must be between 1 and 1000''
      else if qoAllPages o' \<and> qoContinueAfter o' \<noteq> '''' then Some ''--all-pages and --continue-after are mutually exclusive''
      else None)"

definition querySpec :: "QueryOptions \<Rightarrow> string \<Rightarrow> AuditLogQuerySpec" where
  "querySpec o' token =
     \<lparr>aqStartTime = qoStartTime o', aqEndTime = qoEndTime o', aqFilter = qoFilter o', aqLimit = qoLimit o', aqContinue = token\<rparr>"

definition queryRow :: "int \<Rightarrow> AuditRecord \<Rightarrow> string list" where
  "queryRow offset e =
     (let part = (\<lambda>f. case arObjectRef e of None \<Rightarrow> '''' | Some r \<Rightarrow> f r)
      in [formatDateTime offset (arStageTimestamp e), arVerb e, arUsername e, part objNamespace, part objResource, part objName, statusText e])"

section \<open>Filters mean what the flags say\<close>

definition plainValue :: "string \<Rightarrow> bool" where
  "plainValue v = (lineFree v \<and> backslash \<notin> set v)"

lemma EscapeCELString_chars: "EscapeCELString s = concat (map (\<lambda>d. if d = sQuote then [backslash, sQuote] else [d]) s)"
  by (simp add: EscapeCELString_def replaceAllStr_char)

lemma escapeReads: "readEscape (sQuote # rest) = Some ([sQuote], rest)" "readEscape (backslash # rest) = Some ([backslash], rest)"
proof -
  have "simpleEscape backslash = Some [backslash]" "simpleEscape sQuote = Some [sQuote]" by code_simp+
  then show "readEscape (sQuote # rest) = Some ([sQuote], rest)" "readEscape (backslash # rest) = Some ([backslash], rest)"
    by (simp_all add: readEscape_def)
qed

lemma EscapeCELString_literal:
  assumes "plainValue s"
  shows "litBody sQuote (EscapeCELString s) s"
proof -
  have "litBody sQuote (concat (map (\<lambda>d. if d = sQuote then [backslash, sQuote] else [d]) s)) (concat (map (\<lambda>d. [d]) s))"
  proof (rule litBody_concat)
    fix d rest v r
    assume d: "d \<in> set s" and r: "readLit sQuote rest = Some (v, r)"
    from readLit_escape [OF r, of "[sQuote]" "[sQuote]"] readLit_plain [OF r, of d] d assms escapeReads
    show "readLit sQuote ((if d = sQuote then [backslash, sQuote] else [d]) @ rest) = Some ([d] @ v, r)"
      by (auto simp: plainValue_def lineFree_def list_all_iff quote_defs)
  qed
  then show ?thesis by (simp add: EscapeCELString_chars)
qed

lemma shorthand_clauses_read:
  assumes "list_all (\<lambda>(f, v). celName f \<and> plainValue v) flags" and "rest = [] \<or> \<not> isQuoteChar (hd rest)" and "shorthandClauses flags \<noteq> []"
  shows "celTokens (joinStr '' && '' (map (clauseText sQuote EscapeCELString) (shorthandClauses flags)) @ rest)
    = map_option ((@) (conjTokens (map clauseTokens (shorthandClauses flags)))) (celTokens rest)"
proof (rule celTokens_conj [OF assms(3)])
  show "celName f \<and> litBody sQuote (EscapeCELString v) v" if "(f, v) \<in> set (shorthandClauses flags)" for f v
    using that assms(1) EscapeCELString_literal by (auto simp: shorthandClauses_def list_all_iff)
qed (use assms(2) in \<open>simp_all add: isQuoteChar_def\<close>)

text \<open>
  Without an explicit filter, the filter of the audit and feed commands reads as one equality
  for each flag that is set, with the flag's value, if no value contains a backslash or a line
  end.
\<close>

theorem cli_flags_are_equalities:
  assumes "list_all (plainValue \<circ> snd) (auditFlags a)" and "list_all (plainValue \<circ> snd) (feedFlags f)"
    and "aoFilter a = ''''" and "foFilter f = ''''"
  shows "celTokens (buildAuditFilter a) = Some (conjTokens (map clauseTokens (shorthandClauses (auditFlags a))))
    \<and> celTokens (buildFeedFilter f) = Some (conjTokens (map clauseTokens (shorthandClauses (feedFlags f))))"
proof -
  have reads: "celTokens (combineFilter flags '''') = Some (conjTokens (map clauseTokens (shorthandClauses flags)))"
    if "list_all (\<lambda>(f, v). celName f \<and> plainValue v) flags" for flags
    using shorthand_clauses_read [OF that, of "[]"]
    by (cases "shorthandClauses flags = []") (simp_all add: combineFilter_def Let_def)
  have "list_all (\<lambda>(f, v). celName f \<and> plainValue v) (auditFlags a)" "list_all (\<lambda>(f, v). celName f \<and> plainValue v) (feedFlags f)"
    using assms(1,2) by (simp_all add: auditFlags_def feedFlags_def celName_def isWordChar_def)
  then show ?thesis using assms(3,4) reads by (simp add: buildAuditFilter_def buildFeedFilter_def)
qed

text \<open>
  The escaping of the plugin leaves backslashes alone, so a value can close its own literal.
  A namespace that starts with a backslash and a quote adds a condition of its own and cuts off
  every other flag with a comment, which is the injection that the escaping is there to prevent.
\<close>

theorem cli_filter_injection:
  assumes "aoNamespace a = [backslash, sQuote] @ '' || true //''" and "aoFilter a = ''''"
    and "list_all (lineFree \<circ> snd) (auditFlags a)"
  shows "celTokens (buildAuditFilter a) = Some [TWord ''objectRef.namespace'', TSym ''=='', TLit [backslash], TSym ''||'', TWord ''true'']"
proof -
  let ?text = "clauseText sQuote EscapeCELString"
  have esc: "EscapeCELString (aoNamespace a) = [backslash, backslash, sQuote] @ '' || true //''"
    by (simp add: EscapeCELString_chars assms(1) quote_defs)
  obtain more where more: "buildAuditFilter a = ?text (''objectRef.namespace'', aoNamespace a) @ more" and nl: "CHR 0x0A \<notin> set more"
  proof
    let ?cs = "shorthandClauses (tl (auditFlags a))"
    have cs: "shorthandClauses (auditFlags a) = (''objectRef.namespace'', aoNamespace a) # ?cs"
      by (simp add: auditFlags_def shorthandClauses_def assms(1))
    let ?more = "(if ?cs = [] then '''' else '' && '') @ joinStr '' && '' (map ?text ?cs)"
    show "buildAuditFilter a = ?text (''objectRef.namespace'', aoNamespace a) @ ?more"
      using assms(2) by (cases ?cs) (simp_all add: buildAuditFilter_def combineFilter_def Let_def cs)
    have "CHR 0x0A \<notin> set (EscapeCELString v)" if "lineFree v" for v
      using that by (auto simp: EscapeCELString_chars lineFree_def list_all_iff isLineEnd_def quote_defs)
    then have one: "CHR 0x0A \<notin> set (?text (f, v))" if "lineFree v" "CHR 0x0A \<notin> set f" for f v
      using that by (simp add: clauseText_def quote_defs)
    have cl: "list_all (\<lambda>c. CHR 0x0A \<notin> set (?text c)) ?cs"
      using assms(3) one by (auto simp: auditFlags_def shorthandClauses_def list_all_iff)
    have join: "CHR 0x0A \<notin> set (joinStr '' && '' ss)" if "list_all (\<lambda>s. CHR 0x0A \<notin> set s) ss" for ss
      using that by (induction "'' && ''" ss rule: joinStr.induct) simp_all
    show "CHR 0x0A \<notin> set ?more"
      using join [of "map ?text ?cs"] cl by (simp add: list_all_iff)
  qed
  let ?rest = "'' || true //'' @ sQuote # more"
  have gone: "celTokens (''//'' @ sQuote # more) = Some []"
  proof -
    have "dropWhile (\<lambda>d. d \<noteq> CHR 0x0A) (''//'' @ sQuote # more) = []"
      using nl by (simp add: dropWhile_eq_Nil_conv quote_defs) metis
    then show ?thesis
      by (subst celTokens.simps) (simp add: isSpace_def hasPrefix_def)
  qed
  have w: "celTokens (''true'' @ '' //'' @ sQuote # more) = map_option (Cons (TWord ''true'')) (celTokens ('' //'' @ sQuote # more))"
    by (rule celTokens_word) (simp_all add: celName_def endsWord_def isWordChar_def isQuoteChar_def quote_defs)
  have rest: "celTokens ?rest = Some [TSym ''||'', TWord ''true'']"
    using celTokens_sym [of "''||''" "'' true //'' @ sQuote # more"] w gone by simp
  have lit: "litBody sQuote [backslash, backslash] [backslash]"
    unfolding litBody_def
  proof
    fix r
    show "readLit sQuote ([backslash, backslash] @ sQuote # r) = Some ([backslash], r)"
      using readLit_escape [OF readLit_close [of sQuote r], where e = "[backslash]" and b = "[backslash]"] escapeReads(2)
      by (simp add: sQuote_def backslash_def)
  qed
  have "celTokens ((''objectRef.namespace'' @ '' == '' @ [sQuote] @ [backslash, backslash] @ [sQuote]) @ ?rest)
      = map_option ((@) (clauseTokens (''objectRef.namespace'', [backslash]))) (celTokens ?rest)"
    using celTokens_clause [where f = "''objectRef.namespace''" and v = "[backslash]" and q = sQuote and esc = "\<lambda>_. [backslash, backslash]"
        and rest = ?rest] lit
    by (simp add: clauseText_def celName_def isWordChar_def isQuoteChar_def quote_defs)
  then show ?thesis
    using rest by (simp add: more clauseText_def esc clauseTokens_def)
qed


definition plainAudit :: AuditOptions where
  "plainAudit =
     \<lparr>aoFilter = '''', aoNamespace = ''shop'', aoResource = '''', aoVerb = '''', aoUser = ''o'' @ [sQuote] @ ''neil'',
      aoTimeRange = \<lparr>trStartTime = ''now-1h'', trEndTime = ''now''\<rparr>,
      aoPagination = \<lparr>pgLimit = 25, pgAllPages = False, pgContinueAfter = ''''\<rparr>, aoSuggest = ''''\<rparr>"

definition plainFeed :: FeedOptions where
  "plainFeed =
     \<lparr>foFilter = '''', foNamespace = '''', foActor = '''', foKind = '''', foAPIGroup = '''', foChangeSource = '''', foSearch = '''',
      foResourceUID = '''', foWatch = False,
      foTimeRange = \<lparr>trStartTime = ''1970-01-01T00:00:00Z'', trEndTime = ''1970-01-01T01:00:00Z''\<rparr>,
      foPagination = \<lparr>pgLimit = 1, pgAllPages = True, pgContinueAfter = ''''\<rparr>, foSuggest = ''''\<rparr>"

theorem cli_flags_are_equalities_witness:
  "celTokens (buildAuditFilter plainAudit)
   = Some [TWord ''objectRef.namespace'', TSym ''=='', TLit ''shop'', TSym ''&&'', TWord ''user.username'', TSym ''=='', TLit (''o'' @ [sQuote] @ ''neil'')]"
  using cli_flags_are_equalities [of plainAudit plainFeed]
  by (simp add: plainAudit_def plainFeed_def auditFlags_def feedFlags_def plainValue_def lineFree_def isLineEnd_def quote_defs
      shorthandClauses_def clauseTokens_def)

theorem cli_filter_injection_witness:
  "celTokens (buildAuditFilter (plainAudit\<lparr>aoNamespace := [backslash, sQuote] @ '' || true //''\<rparr>))
   = Some [TWord ''objectRef.namespace'', TSym ''=='', TLit [backslash], TSym ''||'', TWord ''true'']"
  by (rule cli_filter_injection)
    (simp_all add: plainAudit_def auditFlags_def lineFree_def isLineEnd_def quote_defs)

section \<open>The feed, from the command to the table\<close>

lemma map_sum_eq_Inr: "map_sum f g x = Inr y \<Longrightarrow> (\<And>z. x = Inr z \<Longrightarrow> g z = y \<Longrightarrow> P) \<Longrightarrow> P"
  by (cases x) auto

text \<open>
  The window of a query: from its first instant up to, and without, its last. The rows that match the
  other conditions, in order.
\<close>

definition inWindow :: "sql_semantics \<Rightarrow> sql_cond list \<Rightarrow> instant \<Rightarrow> instant \<Rightarrow> row \<Rightarrow> bool" where
  "inWindow sem conds lo hi r \<longleftrightarrow> list_all (condHolds sem r) conds \<and> lo \<le> rowTime r \<and> rowTime r < hi"

definition feedRows :: "sql_semantics \<Rightarrow> sql_cond list \<Rightarrow> instant \<Rightarrow> instant \<Rightarrow> row list \<Rightarrow> row list" where
  "feedRows sem conds lo hi table = ordered sem activityOrder (filter (inWindow sem conds lo hi) table)"

lemma feedRows_filter: "feedRows sem conds lo hi table = filter (inWindow sem conds lo hi) (ordered sem activityOrder table)"
  by (simp add: feedRows_def ordered_filter)

lemma activityBaseConds_window:
  assumes "acStartTime spec \<noteq> ''''" "acEndTime spec \<noteq> ''''"
    "ParseFlexibleTime (acStartTime spec) now = Inr lo" "ParseFlexibleTime (acEndTime spec) now = Inr hi"
    "filterConds (ConvertActivityToClickHouseSQL celc) (acFilter spec) = Inr filters"
  obtains base where "activityBaseConds celc now spec scope = Inr base"
    "\<And>r. list_all (condHolds sem r) base = inWindow sem (activityScopeConds scope @ searchConds (acSearch spec) @ filters) lo hi r"
  using assms
  by (intro that [of "activityScopeConds scope @ [CCompare ''timestamp'' ''>='' (ATime lo), CCompare ''timestamp'' ''<'' (ATime hi)]
        @ searchConds (acSearch spec) @ filters"])
    (auto simp: activityBaseConds_def timeConds_def timeCond_def inWindow_def condHolds_def rowTime_def)

lemma newest_prefix:
  assumes "sorted_wrt (\<lambda>a b. t b \<le> (t a :: int)) xs"
  obtains m where "filter (\<lambda>x. c \<le> t x) xs = take m xs" "\<forall>x \<in> set (drop m xs). t x < c" "m \<le> length xs"
proof -
  have "\<exists>m. filter (\<lambda>x. c \<le> t x) xs = take m xs \<and> (\<forall>x \<in> set (drop m xs). t x < c) \<and> m \<le> length xs"
    using assms
  proof (induction xs)
    case (Cons x xs)
    show ?case
    proof (cases "c \<le> t x")
      case True
      from Cons obtain m where "filter (\<lambda>x. c \<le> t x) xs = take m xs" "\<forall>x \<in> set (drop m xs). t x < c" "m \<le> length xs" by auto
      with True show ?thesis by (intro exI [of _ "Suc m"]) simp
    next
      case False
      with Cons.prems show ?thesis by (intro exI [of _ 0]) (auto simp: filter_empty_conv)
    qed
  qed simp
  with that show thesis by blast
qed

text \<open>Time only goes back along the feed, if hours are taken in the order of time.\<close>

lemma afterCursor_older:
  assumes "condHolds sem r (CAfterCursor tie t i)" "\<And>a b. a \<le> b \<Longrightarrow> semHour sem a \<le> semHour sem b"
  shows "rowTime r \<le> t"
proof (rule ccontr)
  assume "\<not> rowTime r \<le> t"
  moreover from this have "semHour sem t \<le> semHour sem (rowTime r)" by (intro assms(2)) simp
  ultimately show False using assms(1) by (auto simp: condHolds_def rowTime_def Let_def)
qed

lemma feedRows_sorted:
  assumes rows: "list_all (storedActivity dm) table" and dist: "distinct (map (\<lambda>r. (rowTime r, rowName r)) table)"
    and hour: "\<And>a b. a \<le> b \<Longrightarrow> semHour sem a \<le> semHour sem b"
  shows "sorted_wrt (\<lambda>a b. orderKey sem activityOrder b < orderKey sem activityOrder a) (feedRows sem conds lo hi table)"
    and "sorted_wrt (\<lambda>a b. rowTime b \<le> rowTime a) (feedRows sem conds lo hi table)"
proof -
  let ?k = "orderKey sem activityOrder" and ?S = "feedRows sem conds lo hi table"
  have inj: "inj_on ?k (set table)"
    using rows dist activity_key_inject unfolding inj_on_def list_all_iff distinct_map by (metis (no_types, lifting) inj_on_def)
  then show strict: "sorted_wrt (\<lambda>a b. ?k b < ?k a) ?S"
    using dist unfolding feedRows_def ordered_def by (intro ordered_strict) (auto simp: distinct_map intro: inj_on_subset)
  have "storedActivity dm r" if "r \<in> set ?S" for r
    using that rows by (auto simp: feedRows_def ordered_def list_all_iff)
  then show "sorted_wrt (\<lambda>a b. rowTime b \<le> rowTime a) ?S"
    using activity_key_less afterCursor_older [OF _ hour] by (intro sorted_wrt_mono_rel [OF _ strict]) blast
qed

text \<open>
  The rows of a later page: those after the cursor that are in the window still.
\<close>

lemma later_window:
  fixes sem conds lo hi lo' hi' table
  defines "S \<equiv> feedRows sem conds lo hi table"
  assumes rows: "list_all (storedActivity dm) table" and dist: "distinct (map (\<lambda>r. (rowTime r, rowName r)) table)"
    and hour: "\<And>a b. a \<le> b \<Longrightarrow> semHour sem a \<le> semHour sem b"
    and "j < length S" "lo \<le> lo'" "hi \<le> hi'"
  shows "filter (\<lambda>r. condHolds sem r (CAfterCursor ''activity_name'' (rowTime (S ! j)) (rowName (S ! j)))) (feedRows sem conds lo' hi' table)
     = filter (\<lambda>r. lo' \<le> rowTime r) (drop (Suc j) S)"
proof -
  let ?k = "orderKey sem activityOrder" and ?after = "\<lambda>r. condHolds sem r (CAfterCursor ''activity_name'' (rowTime (S ! j)) (rowName (S ! j)))"
  have stored: "storedActivity dm r" if "r \<in> set S" for r using that rows by (auto simp: S_def feedRows_def ordered_def list_all_iff)
  have at: "S ! j \<in> set S" using assms(5) by simp
  then have hi: "rowTime (S ! j) < hi" by (auto simp: S_def feedRows_filter inWindow_def)
  have "drop (Suc j) S = filter (\<lambda>r. ?k r < ?k (S ! j)) S"
    using strict_filter_after [OF feedRows_sorted(1) [OF rows dist hour]] assms(5) by (simp add: S_def)
  also have "\<dots> = filter ?after S" by (intro filter_cong) (simp_all add: activity_key_less [OF stored stored [OF at]])
  finally have "filter (\<lambda>r. lo' \<le> rowTime r) (drop (Suc j) S)
      = filter (\<lambda>r. lo' \<le> rowTime r \<and> ?after r \<and> inWindow sem conds lo hi r) (ordered sem activityOrder table)"
    by (simp add: S_def feedRows_filter conj_commute conj_left_commute)
  moreover have "filter ?after (feedRows sem conds lo' hi' table)
      = filter (\<lambda>r. ?after r \<and> inWindow sem conds lo' hi' r) (ordered sem activityOrder table)"
    by (simp add: feedRows_filter conj_commute)
  moreover have "(?after r \<and> inWindow sem conds lo' hi' r) = (lo' \<le> rowTime r \<and> ?after r \<and> inWindow sem conds lo hi r)" for r
    using afterCursor_older [OF _ hour, of r "''activity_name''" "rowTime (S ! j)" "rowName (S ! j)"] hi assms(6,7) by (auto simp: inWindow_def)
  ultimately show ?thesis by simp
qed

lemma feed_pages:
  fixes S L spec lo hi
  assumes base: "\<And>i. \<exists>base. activityBaseConds celc (clk i) spec scope = Inr base
      \<and> (\<forall>r. list_all (condHolds sem r) base = inWindow sem conds (lo i) (hi i) r)"
    and rows: "list_all (storedActivity dm) table" and dist: "distinct (map (\<lambda>r. (rowTime r, rowName r)) table)"
    and hour: "\<And>a b. a \<le> b \<Longrightarrow> semHour sem a \<le> semHour sem b"
    and moves: "\<And>i. lo 0 \<le> lo i" "\<And>i. hi 0 \<le> hi i"
    and codec: "\<And>i r. r \<in> set table \<Longrightarrow> readsBack codec (activityCursorOf spec (clk i) r)"
    and clk: "\<And>i. clk (Suc i) - clk i \<le> cursorTTL"
    and S: "S = feedRows sem conds (lo 0) (hi 0) table"
    and L: "int L = pageLimit (cfgMaxPageSize cfg) (acLimit spec)" "0 < L" "L < 2 ^ 31 - 1"
    and create: "\<And>i tok js next. QueryActivities cfg celc codec dm (tableDriver sem table) (clk i) (spec\<lparr>acContinue := tok\<rparr>) scope = Inr (js, next)
      \<Longrightarrow> set js \<subseteq> rowJSON ` set table \<Longrightarrow> create i tok = Inr (map dec js, next)"
    and cur: "activityCursorConds codec (clk i) (spec\<lparr>acContinue := tok\<rparr>)
                = Inr (if j = 0 then [] else [CAfterCursor ''activity_name'' (rowTime (S ! (j - 1))) (rowName (S ! (j - 1)))])"
    and "j \<le> length S" "j = 0 \<longrightarrow> i = 0"
  shows "\<exists>pages k. followPages create i tok = Some (pages, None) \<and> pages \<noteq> [] \<and> concat pages = map (dec \<circ> rowJSON) (take k (drop j S))
     \<and> (\<forall>r \<in> set (drop (j + k) S). rowTime r < lo (i + length pages - 1))"
  using cur \<open>j \<le> length S\<close> \<open>j = 0 \<longrightarrow> i = 0\<close>
proof (induction "length S - j" arbitrary: i j tok rule: less_induct)
  case less
  let ?spec = "spec\<lparr>acContinue := tok\<rparr>"
  let ?cur = "if j = 0 then [] else [CAfterCursor ''activity_name'' (rowTime (S ! (j - 1))) (rowName (S ! (j - 1)))]"
  let ?X = "filter (\<lambda>r. lo i \<le> rowTime r) (drop j S)"
  obtain base where b: "activityBaseConds celc (clk i) ?spec scope = Inr base" "\<And>r. list_all (condHolds sem r) base = inWindow sem conds (lo i) (hi i) r"
    using base [of i] by (auto simp: activityBaseConds_def)
  have X: "?X = filter (\<lambda>r. list_all (condHolds sem r) ?cur) (ordered sem activityOrder (filter (\<lambda>r. list_all (condHolds sem r) base) table))"
  proof (cases j)
    case 0
    with less.prems(3) have "i = 0" by simp
    have "\<forall>r \<in> set S. lo 0 \<le> rowTime r" by (auto simp: S feedRows_filter inWindow_def)
    then have "filter (\<lambda>r. lo 0 \<le> rowTime r) S = S" by (rule filter_True)
    with 0 \<open>i = 0\<close> show ?thesis by (simp add: b(2) S feedRows_def)
  next
    case (Suc h)
    with less.prems(2) have "h < length S" by simp
    from later_window [where j = h and conds = conds and lo = "lo 0" and hi = "hi 0" and lo' = "lo i" and hi' = "hi i", OF rows dist hour] this moves Suc
    show ?thesis by (simp add: b(2) S flip: feedRows_def)
  qed
  note page = query_window_page [OF b(1) less.prems(1) _ L(2,3) X, of cfg, simplified, OF L(1)]
  obtain m where m: "?X = take m (drop j S)" "\<forall>r \<in> set (drop m (drop j S)). rowTime r < lo i" "m \<le> length (drop j S)"
    using newest_prefix [of rowTime "drop j S" "lo i"] feedRows_sorted(2) [OF rows dist hour] by (metis S sorted_wrt_drop)
  have json: "set (map rowJSON (take n (take m (drop j S)))) \<subseteq> rowJSON ` set table" for n
    by (auto simp: S feedRows_def ordered_def dest!: in_set_takeD in_set_dropD)
  show ?case
  proof (cases "L < m")
    case False
    then have "create i tok = Inr (map dec (map rowJSON (take m (drop j S))), [])"
      using create [OF page] json [of L] m by (simp add: min_def)
    then have "followPages create i tok = Some ([map dec (map rowJSON (take m (drop j S)))], None)" by (subst followPages.simps) simp
    then show ?thesis using m(2) by (intro exI [of _ "[map dec (map rowJSON (take m (drop j S)))]"] exI [of _ m]) (simp add: add.commute)
  next
    case True
    let ?r = "S ! (j + L - 1)" and ?tok = "encodeActivityCursor codec dm (clk i) (rowJSON (S ! (j + L - 1))) spec"
    have len: "j + L < length S" using True m(3) by simp
    then have "?r \<in> set S" using L(2) by (intro nth_mem) simp
    then have r: "?r \<in> set table" by (auto simp: S feedRows_def ordered_def)
    then have st: "storedActivity dm ?r" using rows by (simp add: list_all_iff)
    note tk = activity_token [OF st codec [OF r, of i] clk [of i], where tok = ?tok, OF refl]
    have "take m (drop j S) ! (L - 1) = ?r" using True L(2) len by (simp add: nth_append)
    then have "create i tok = Inr (map dec (map rowJSON (take L (drop j S))), ?tok)"
      using create [OF page] json [of L] m True by (simp add: min_def encodeActivityCursor_continue)
    moreover have "length S - (j + L) < length S - j" using len L(2) by simp
    from less.hyps [OF this, of "Suc i" ?tok] tk(2) len L(2) obtain pages k where ih: "followPages create (Suc i) ?tok = Some (pages, None)" "pages \<noteq> []"
      "concat pages = map (dec \<circ> rowJSON) (take k (drop (j + L) S))" "\<forall>r \<in> set (drop (j + L + k) S). rowTime r < lo (Suc i + length pages - 1)" by auto
    ultimately have "followPages create i tok = Some (map dec (map rowJSON (take L (drop j S))) # pages, None)"
      using tk(1) by (subst followPages.simps) simp
    moreover have "take L (drop j S) @ take k (drop (j + L) S) = take (L + k) (drop j S)" by (simp add: take_add add.commute)
    ultimately show ?thesis using ih(2-4)
      by (intro exI [of _ "map dec (map rowJSON (take L (drop j S))) # pages"] exI [of _ "L + k"])
        (auto simp: add.assoc simp flip: map_append map_map)
  qed
qed

lemma decodeActivities_all: "(\<And>j. j \<in> set js \<Longrightarrow> unm j \<noteq> None) \<Longrightarrow> decodeActivities unm js = Inr (map (the \<circ> unm) js)"
  by (induction js) (auto split: option.splits)

text \<open>The texts of the default window, and of a fixed one.\<close>

lemma flexible_now: "ParseFlexibleTime ''now'' t = Inr t"
proof -
  have "parseRFC3339 ''now'' = None" by code_simp
  then show ?thesis by (simp add: ParseFlexibleTime_def ParseRelativeTime_def hasPrefix_def)
qed

lemma flexible_yesterday: "ParseFlexibleTime ''now-24h'' t = Inr (t - 24 * hour)"
proof -
  have "parseRFC3339 ''now-24h'' = None" "scanInt ''24'' = Some 24" "wrap64 (- (24 * hour)) = - (24 * hour)" by code_simp+
  then show ?thesis
    by (simp add: ParseFlexibleTime_def ParseRelativeTime_def hasPrefix_def applyOffset_def) (simp add: duration_defs)
qed

lemma flexible_fixed: "parseRFC3339 text = Some u \<Longrightarrow> u \<le> t \<Longrightarrow> ParseFlexibleTime text t = Inr u"
  by (simp add: ParseFlexibleTime_def)

lemma flexible_empty: "ParseFlexibleTime '''' t \<noteq> Inr u"
proof -
  have "parseRFC3339 '''' = None" by code_simp
  then show ?thesis by (simp add: ParseFlexibleTime_def hasPrefix_def)
qed


text \<open>
  A server with the three sample rows, a codec for the cursors of the feed, the default window, and a
  clock that stands at two o'clock for the first request and goes on for five minutes.
\<close>

definition defaultFeed :: FeedOptions where
  "defaultFeed = plainFeed\<lparr>foTimeRange := \<lparr>trStartTime = ''now-24h'', trEndTime = ''now''\<rparr>\<rparr>"

definition feedClock :: "nat \<Rightarrow> nat \<Rightarrow> instant" where
  "feedClock n i = 2 * hour + int (min n 5) * minute"

definition feedCodec :: "activityCursorData json_codec" where
  "feedCodec =
     \<lparr>jcMarshal = (\<lambda>c. acdName c @ (if acdIssuedAt c mod hour = 0 then ''0'' else if acdIssuedAt c mod hour = minute then ''1''
        else if acdIssuedAt c mod hour = 2 * minute then ''2'' else if acdIssuedAt c mod hour = 3 * minute then ''3''
        else if acdIssuedAt c mod hour = 4 * minute then ''4'' else ''5'')),
      jcUnmarshal = (\<lambda>s. map_option (activityCursorOf (feedSpec defaultFeed '''') (feedClock (nat (digitsVal (tl s))) 0))
        (find (\<lambda>r. rowName r = take 1 s) sampleTable))\<rparr>"

definition projectUser :: user_extra where
  "projectUser = [(ParentNameExtraKey, [''p'']), (ParentKindExtraKey, [''Project''])]"


section \<open>Selectors read back\<close>

text \<open>A term whose value has no separator reads back with its value trimmed.\<close>

definition trimRight :: "string \<Rightarrow> string" where
  "trimRight v = rev (dropWhile isSpace (rev v))"

lemma trimRight_split: obtains sp where "v = trimRight v @ sp" "list_all isSpace sp"
proof
  have "rev v = takeWhile isSpace (rev v) @ dropWhile isSpace (rev v)" by simp
  then show "v = trimRight v @ rev (takeWhile isSpace (rev v))" by (metis rev_append rev_rev_ident trimRight_def)
  show "list_all isSpace (rev (takeWhile isSpace (rev v)))" by (auto simp: list_all_iff dest: set_takeWhileD)
qed

lemma trimRight_spaces: "list_all isSpace sp \<Longrightarrow> trimRight (v @ sp) = trimRight v"
  by (auto simp: trimRight_def list_all_iff intro!: dropWhile_append2)

lemma trimSpace_trimRight: "trimSpace (trimRight v) = trimSpace v"
proof -
  obtain sp where v: "v = trimRight v @ sp" "list_all isSpace sp" by (rule trimRight_split)
  show ?thesis
  proof (cases "list_all isSpace (trimRight v)")
    case True
    then have "list_all isSpace v" using v by (metis list_all_append)
    with True show ?thesis by (auto simp: trimSpace_def list_all_iff dropWhile_eq_Nil_conv [THEN iffD2])
  next
    case False
    then obtain x where "x \<in> set (trimRight v)" "\<not> isSpace x" by (auto simp: list_all_iff)
    then have "dropWhile isSpace v = dropWhile isSpace (trimRight v) @ sp" using v(1) dropWhile_append1 by metis
    then show ?thesis using trimRight_spaces [OF v(2)] by (simp add: trimSpace_def trimRight_def)
  qed
qed

lemma set_trimRight: "set (trimRight v) \<subseteq> set v"
  by (metis trimRight_split set_append Un_upper1)

lemma splitSelector_trimmed:
  assumes "celName f" "CHR ''='' \<notin> set v"
  shows "splitSelector (trimSpace (selectorText (f, v))) = Some (f, FieldSelectorEqual, trimSpace v)" "trimSpace (selectorText (f, v)) \<noteq> []"
proof -
  have f: "CHR ''='' \<notin> set f" "CHR ''!'' \<notin> set f" "f \<noteq> []" "\<not> isSpace (hd f)" "trimSpace f = f"
    using celName_plain [OF assms(1)] assms(1) by (auto simp: celName_def trimmed_def intro!: trimSpace_trimmed)
  have "dropWhile isSpace (selectorText (f, v)) = selectorText (f, v)" using f(3,4) by (cases f) (simp_all add: selectorText_def)
  moreover have "dropWhile isSpace (rev v @ x) = dropWhile isSpace (rev v) @ x" if "x \<noteq> []" "\<not> isSpace (hd x)" for x
  proof (cases "\<exists>c \<in> set v. \<not> isSpace c")
    case True
    then show ?thesis by (auto intro: dropWhile_append1)
  next
    case False
    then have "dropWhile isSpace (rev v @ x) = dropWhile isSpace x" "dropWhile isSpace (rev v) = []" by (auto intro: dropWhile_append2)
    with that show ?thesis by (cases x) simp_all
  qed
  ultimately have t: "trimSpace (selectorText (f, v)) = f @ ''='' @ trimRight v"
    by (simp add: trimSpace_def selectorText_def trimRight_def isSpace_def)
  then show "trimSpace (selectorText (f, v)) \<noteq> []" by simp
  have v: "CHR ''='' \<notin> set (trimRight v)" using assms(2) set_trimRight by blast
  have "indexStr (f @ CHR ''='' # trimRight v) ''!='' = None" "indexStr (f @ CHR ''='' # trimRight v) ''=='' = None"
    using f v indexStr_absent [of "CHR ''=''" "''!=''" "trimRight v"] indexStr_absent [of "CHR ''=''" "''==''" "trimRight v"]
    by (auto simp: indexStr_skip hasPrefix_def take_Suc split: if_splits) (cases "trimRight v"; simp)
  moreover have "indexStr (f @ CHR ''='' # trimRight v) ''='' = Some (length f)"
    using f by (simp add: indexStr_skip hasPrefix_def)
  ultimately show "splitSelector (trimSpace (selectorText (f, v))) = Some (f, FieldSelectorEqual, trimSpace v)"
    by (simp add: t splitSelector_def cutAt_def f(5) trimSpace_trimRight)
qed

text \<open>A flag's term: on a field that events can be selected by, with a value that has no separator.\<close>

definition flagTerm :: "string \<times> string \<Rightarrow> bool" where
  "flagTerm = (\<lambda>(f, v). celName f \<and> map_of EventsFieldSelectorAliases f = None \<and> map_of EventsFieldSelectors f \<noteq> None
     \<and> CHR ''='' \<notin> set v \<and> CHR '','' \<notin> set v)"

definition flagTermOf :: "string \<times> string \<Rightarrow> FieldSelectorTerm" where
  "flagTermOf = (\<lambda>(f, v). \<lparr>fstColumn = the (map_of EventsFieldSelectors f), fstOperator = FieldSelectorEqual, fstValue = trimSpace v\<rparr>)"

lemma parseSelectorParts_flags:
  assumes "list_all flagTerm ts"
  shows "parseSelectorParts (map selectorText ts @ parts) = bind_r (parseSelectorParts parts) (\<lambda>terms. Inr (map flagTermOf ts @ terms))"
  using assms
proof (induction ts)
  case Nil
  then show ?case by (cases "parseSelectorParts parts") simp_all
next
  case (Cons t ts)
  obtain f v where t: "t = (f, v)" by force
  with Cons.prems have f: "celName f" "map_of EventsFieldSelectorAliases f = None" "CHR ''='' \<notin> set v"
    and c: "map_of EventsFieldSelectors f \<noteq> None" by (auto simp: flagTerm_def)
  from c obtain col where col: "map_of EventsFieldSelectors f = Some col" by auto
  show ?case
    using Cons splitSelector_trimmed [OF f(1,3)] f(2) col
    by (cases "parseSelectorParts parts") (simp_all add: t ResolveEventFieldSelector_def flagTermOf_def Let_def)
qed

lemma splitByte_joined_tail:
  assumes "list_all (\<lambda>t. c \<notin> set t) ts"
  shows "splitByte c (joinStr [c] (ts @ [x])) = ts @ splitByte c x"
  using assms
proof (induction ts)
  case (Cons t ts)
  have "joinStr [c] (t # ts @ [x]) = t @ c # joinStr [c] (ts @ [x])" by (cases ts) simp_all
  with Cons splitByte_token [of c t] show ?case by simp
qed simp

lemma flagTerm_no_comma: "flagTerm t \<Longrightarrow> CHR '','' \<notin> set (selectorText t)"
  using celName_plain [of "fst t"] by (cases t) (auto simp: flagTerm_def selectorText_def)

text \<open>
  C38: what \<open>kubectl activity events\<close> asks for is what the server filters by. When the command accepts
  its flags, the conditions that the server makes of the selector it sends are one equality per flag
  that is set, on the column of that flag and with its value less outer blanks, followed by exactly
  the conditions it would make of the explicit field selector alone; an error in the explicit
  selector is the only one there can be, and is reported as for that selector alone.
\<close>

theorem event_flags_reach_server:
  assumes "validateEvents o' = None"
  shows "selectorConds (eqFieldSelector (eventsSpec o' token)) =
    bind_r (selectorConds (eoFieldSelector o')) (\<lambda>explicit.
      Inr (concat (map (\<lambda>(column, v). if v = '''' then [] else [CCompare column ''='' (AString (trimSpace v))])
             [(''type'', eoType o'), (''reason'', eoReason o'), (''regarding_kind'', eoRegardingKind o'), (''regarding_name'', eoRegardingName o')])
           @ explicit))"
proof -
  let ?ts = "shorthandClauses (eventSelectorFlags o')" and ?ex = "eoFieldSelector o'"
  have clean: "CHR ''='' \<notin> set v \<and> CHR '','' \<notin> set v" if "selectorValueError flag v = None" for flag v
    using that by (auto simp: selectorValueError_def EscapeFieldSelectorValue_def split: if_splits)
  have kind: "CHR ''='' \<notin> set (eoType o') \<and> CHR '','' \<notin> set (eoType o')"
    using assms by (auto simp: validateEvents_def ValidateEventType_def split: if_splits)
  have terms: "list_all flagTerm ?ts"
    using assms kind clean
    by (auto simp: validateEvents_def eventSelectorFlags_def shorthandClauses_def flagTerm_def celName_def isWordChar_def
        EventsFieldSelectorAliases_def EventsFieldSelectors_def)
  have no: "list_all (\<lambda>t. CHR '','' \<notin> set t) (map selectorText ?ts)"
    using terms flagTerm_no_comma by (auto simp: list_all_iff)
  have parse: "ParseFieldSelector (buildFieldSelector o') = bind_r (ParseFieldSelector ?ex) (\<lambda>terms. Inr (map flagTermOf ?ts @ terms))"
  proof (cases "?ts = [] \<and> ?ex = ''''")
    case True
    then show ?thesis by (simp add: buildFieldSelector_def ParseFieldSelector_def)
  next
    case False
    have ne: "buildFieldSelector o' \<noteq> ''''"
      using False by (cases ?ts; cases "tl ?ts") (auto simp: buildFieldSelector_def)
    have "splitByte (CHR '','') (buildFieldSelector o') = map selectorText ?ts @ (if ?ex = '''' then [] else splitByte (CHR '','') ?ex)"
      using splitByte_joined_tail [OF no, of ?ex] splitByte_joined [OF no] False by (auto simp: buildFieldSelector_def)
    with ne show ?thesis by (auto simp: ParseFieldSelector_def parseSelectorParts_flags [OF terms] parseSelectorParts_flags [OF terms, of "[]", simplified])
  qed
  have "map flagTermOf ?ts = concat (map (\<lambda>(column, v). if v = '''' then [] else [\<lparr>fstColumn = column, fstOperator = FieldSelectorEqual, fstValue = trimSpace v\<rparr>])
      [(''type'', eoType o'), (''reason'', eoReason o'), (''regarding_kind'', eoRegardingKind o'), (''regarding_name'', eoRegardingName o')])"
    by (simp add: eventSelectorFlags_def shorthandClauses_def flagTermOf_def EventsFieldSelectors_def)
  then show ?thesis
    using parse by (cases "ParseFieldSelector ?ex") (auto simp: selectorConds_def eventsSpec_def ParseFieldSelector_def split: if_splits)
qed

definition podWarnings :: EventsOptions where
  "podWarnings =
     \<lparr>eoNamespace = '''', eoFieldSelector = '''', eoType = ''Warning'', eoReason = '''', eoRegardingKind = ''Pod'', eoRegardingName = '''',
      eoTimeRange = \<lparr>trStartTime = ''now-1h'', trEndTime = ''now''\<rparr>,
      eoPagination = \<lparr>pgLimit = 25, pgAllPages = False, pgContinueAfter = ''''\<rparr>, eoSuggest = ''''\<rparr>"

theorem event_flags_reach_server_witness:
  "buildFieldSelector (podWarnings\<lparr>eoFieldSelector := ''reason!=Pulled''\<rparr>) = ''type=Warning,regarding.kind=Pod,reason!=Pulled''
   \<and> selectorConds (eqFieldSelector (eventsSpec (podWarnings\<lparr>eoFieldSelector := ''reason!=Pulled''\<rparr>) ''''))
     = Inr [CCompare ''type'' ''='' (AString ''Warning''), CCompare ''regarding_kind'' ''='' (AString ''Pod''), CCompare ''reason'' ''!='' (AString ''Pulled'')]"
proof
  let ?o = "podWarnings\<lparr>eoFieldSelector := ''reason!=Pulled''\<rparr>"
  show "buildFieldSelector ?o = ''type=Warning,regarding.kind=Pod,reason!=Pulled''" by code_simp
  have "validateEvents ?o = None" by code_simp
  moreover have "selectorConds ''reason!=Pulled'' = Inr [CCompare ''reason'' ''!='' (AString ''Pulled'')]" by code_simp
  ultimately show "selectorConds (eqFieldSelector (eventsSpec ?o ''''))
     = Inr [CCompare ''type'' ''='' (AString ''Warning''), CCompare ''regarding_kind'' ''='' (AString ''Pod''), CCompare ''reason'' ''!='' (AString ''Pulled'')]"
    using event_flags_reach_server [of ?o "''''"] by (simp add: podWarnings_def trimSpace_def isSpace_def)
qed

section \<open>The live feed, from the command to the watcher\<close>

text \<open>The selector terms that the text of the feed's watch stands for.\<close>

definition feedWatchTerms :: "FeedOptions \<Rightarrow> (string \<times> string) list" where
  "feedWatchTerms o' =
     shorthandClauses
       [(''spec.resource.namespace'', foNamespace o'), (''spec.actor.name'', foActor o'), (''spec.resource.kind'', foKind o'),
        (''spec.changeSource'', foChangeSource o')]"

lemma watchTerms_text:
  "watchTerms ts = Inr r \<Longrightarrow> r = map selectorText (shorthandClauses (map snd ts)) \<and> (\<forall>(f, v) \<in> set (shorthandClauses (map snd ts)). CHR ''='' \<notin> set v \<and> CHR '','' \<notin> set v)"
proof (induction ts arbitrary: r rule: watchTerms.induct)
  case (2 flag field v ts)
  show ?case
  proof (cases "v = []")
    case False
    then obtain w r' where "EscapeFieldSelectorValue v = Inr w" "watchTerms ts = Inr r'" "r = selectorText (field, v) # r'"
      using "2.prems" by (auto simp: bind_r_eq_Inr split: sum.splits)
    with "2.IH"(2) [OF False this(1)] False show ?thesis
      by (auto simp: shorthandClauses_def EscapeFieldSelectorValue_def split: if_splits)
  next
    case True
    with 2 have "watchTerms ts = Inr r" by simp
    moreover have "shorthandClauses (map snd ((flag, field, v) # ts)) = shorthandClauses (map snd ts)"
      using True by (simp add: shorthandClauses_def)
    ultimately show ?thesis using "2.IH"(1) [OF True] by (simp only:) blast
  qed
qed (simp add: shorthandClauses_def)

lemma set_shorthandClauses: "set (shorthandClauses flags) = {(f, v) \<in> set flags. v \<noteq> []}"
  by (auto simp: shorthandClauses_def)

lemma feedWatchTerms_named: "(f, v) \<in> set (feedWatchTerms o') \<Longrightarrow> celName f \<and> v \<noteq> []"
  by (auto simp: feedWatchTerms_def set_shorthandClauses celName_def isWordChar_def)

lemma feedWatchSelector_text:
  assumes "feedWatchSelector o' = Inr s"
  shows "s = joinStr '','' (map selectorText (feedWatchTerms o'))
    \<and> (\<forall>(f, v) \<in> set (feedWatchTerms o'). CHR ''='' \<notin> set v \<and> CHR '','' \<notin> set v)"
proof -
  obtain r where "watchTerms
       [(''namespace'', ''spec.resource.namespace'', foNamespace o'), (''actor'', ''spec.actor.name'', foActor o'),
        (''kind'', ''spec.resource.kind'', foKind o'), (''change-source'', ''spec.changeSource'', foChangeSource o')] = Inr r" "s = joinStr '','' r"
    using assms by (auto simp: feedWatchSelector_def bind_r_eq_Inr simp del: watchTerms.simps)
  with watchTerms_text show ?thesis by (fastforce simp: feedWatchTerms_def simp del: watchTerms.simps)
qed

lemma requiresExactMatch_equals:
  "requiresExactMatch (map (\<lambda>(f, v). SelEquals f v) ts) g = map_of ts g"
  by (induction ts) auto

text \<open>The terms that the selector parser of the API machinery reads back from their text, whatever else it accepts.\<close>

definition selectorTerm :: "string \<times> string \<Rightarrow> bool" where
  "selectorTerm = (\<lambda>(f, v). celName f \<and> v \<noteq> [] \<and> list_all (\<lambda>c. c \<noteq> CHR ''='' \<and> c \<noteq> CHR '','' \<and> c \<noteq> backslash) v)"

text \<open>
  \<open>feed --watch\<close> shows everybody's activities whatever actor or namespace it was asked for. The
  command puts \<open>--actor\<close> and \<open>--namespace\<close> in the field selector alone, and the watch endpoint
  looks at neither field: the watcher's filter and the printed lines are those of the command
  without the two flags. \<open>parse\<close> is the field selector parser of the API machinery.
\<close>

theorem feed_watch_ignores_actor:
  assumes "feedWatchSelector o' = Inr s" and "list_all (\<lambda>(f, v). backslash \<notin> set v) (feedWatchTerms o')"
    and "\<And>ts. list_all selectorTerm ts \<Longrightarrow> parse (joinStr '','' (map selectorText ts)) = Some (map (\<lambda>(f, v). SelEquals f v) ts)"
  shows "\<exists>s' sel sel'. feedWatchSelector (o'\<lparr>foActor := '''', foNamespace := ''''\<rparr>) = Inr s' \<and> parse s = Some sel \<and> parse s' = Some sel'
    \<and> WatchActivities hasWatcher user '''' (options\<lparr>aloSelector := sel\<rparr>) = WatchActivities hasWatcher user '''' (options\<lparr>aloSelector := sel'\<rparr>)
    \<and> feedWatchLines offset o' objects = feedWatchLines offset (o'\<lparr>foActor := '''', foNamespace := ''''\<rparr>) objects"
proof -
  let ?o = "o'\<lparr>foActor := '''', foNamespace := ''''\<rparr>"
  let ?sel = "\<lambda>o'. map (\<lambda>(f, v). SelEquals f v) (feedWatchTerms o')"
  obtain s' where s': "feedWatchSelector ?o = Inr s'"
    using assms(1) by (auto simp: feedWatchSelector_def bind_r_eq_Inr split: sum.splits if_splits)
  have "list_all selectorTerm (feedWatchTerms o')"
    using assms(2) feedWatchSelector_text [OF assms(1)] feedWatchTerms_named
    by (fastforce simp: selectorTerm_def list_all_iff)
  moreover have "set (feedWatchTerms ?o) \<subseteq> set (feedWatchTerms o')" by (auto simp: feedWatchTerms_def shorthandClauses_def)
  ultimately have "list_all selectorTerm (feedWatchTerms o')" "list_all selectorTerm (feedWatchTerms ?o)" by (auto simp: list_all_iff)
  then have p: "parse s = Some (?sel o')" "parse s' = Some (?sel ?o)"
    using feedWatchSelector_text [OF assms(1)] feedWatchSelector_text [OF s'] assms(3) by metis+
  have m: "map_of (feedWatchTerms o') f = map_of (feedWatchTerms ?o) f"
    if "f \<in> {''spec.changeSource'', ''spec.resource.apiGroup'', ''spec.resource.kind''}" for f
    using that by (auto simp: feedWatchTerms_def shorthandClauses_def)
  have "WatchActivities hasWatcher user '''' (options\<lparr>aloSelector := ?sel o'\<rparr>) = WatchActivities hasWatcher user '''' (options\<lparr>aloSelector := ?sel ?o\<rparr>)"
    by (auto simp: WatchActivities_def watchActivityFilter_def Let_def requiresExactMatch_equals m split: option.splits)
  moreover have "matchesClientSideFilters o' = matchesClientSideFilters ?o"
    by (intro ext) (simp add: matchesClientSideFilters_def)
  then have "feedWatchLines offset o' objects = feedWatchLines offset ?o objects" by (simp add: feedWatchLines_def)
  ultimately show ?thesis using s' p by blast
qed

text \<open>A parser for equalities.\<close>

definition parseEqualities :: "string \<Rightarrow> selector_term list option" where
  "parseEqualities s =
     (if s = '''' then Some []
      else Some (map (\<lambda>t. case splitByte (CHR ''='') t of f # v # _ \<Rightarrow> SelEquals f v | _ \<Rightarrow> SelEquals t '''') (splitByte (CHR '','') s)))"

lemma parseEqualities_reads:
  assumes "list_all selectorTerm ts"
  shows "parseEqualities (joinStr '','' (map selectorText ts)) = Some (map (\<lambda>(f, v). SelEquals f v) ts)"
proof (cases "ts = []")
  case False
  have one: "CHR '','' \<notin> set (selectorText t) \<and> splitByte (CHR ''='') (selectorText t) = [fst t, snd t]" if "selectorTerm t" for t
  proof (cases t)
    case (Pair f v)
    with that have f: "celName f" and v: "CHR ''='' \<notin> set v" "CHR '','' \<notin> set v" by (auto simp: selectorTerm_def list_all_iff)
    have "CHR ''='' \<notin> set f" "CHR '','' \<notin> set f" using celName_plain [OF f] by blast+
    with v show ?thesis by (simp add: Pair selectorText_def splitByte_token splitByte_no_sep)
  qed
  have "splitByte (CHR '','') (joinStr '','' (map selectorText ts)) = map selectorText ts"
    using assms one False by (intro splitByte_joined) (auto simp: list_all_iff)
  moreover have "joinStr '','' (map selectorText ts) \<noteq> []"
    using False by (cases "map selectorText ts" rule: remdups_adj.cases) (auto simp: selectorText_def split_beta)
  moreover have "map (\<lambda>t. case splitByte (CHR ''='') t of f # v # _ \<Rightarrow> SelEquals f v | _ \<Rightarrow> SelEquals t '''') (map selectorText ts)
      = map (\<lambda>(f, v). SelEquals f v) ts"
    using one assms by (simp add: list_all_iff split_beta)
  ultimately show ?thesis by (simp only: parseEqualities_def if_False)
qed (simp add: parseEqualities_def)

definition aliceFeed :: FeedOptions where
  "aliceFeed = plainFeed\<lparr>foWatch := True, foActor := ''alice'', foKind := ''Pod''\<rparr>"

theorem feed_watch_ignores_actor_witness:
  "\<exists>s' sel'. feedWatchSelector (aliceFeed\<lparr>foActor := '''', foNamespace := ''''\<rparr>) = Inr s' \<and> parseEqualities s' = Some sel'
    \<and> WatchActivities True (Some []) '''' \<lparr>aloLimit = 0, aloContinue = '''', aloResourceVersion = '''',
          aloSelector = [SelEquals ''spec.actor.name'' ''alice'', SelEquals ''spec.resource.kind'' ''Pod'']\<rparr>
      = WatchActivities True (Some []) '''' \<lparr>aloLimit = 0, aloContinue = '''', aloResourceVersion = '''', aloSelector = sel'\<rparr>
    \<and> length (feedWatchLines 0 aliceFeed [Some sampleActivity, Some (sampleActivity\<lparr>actName := ''b''\<rparr>)]) = 2"
proof -
  let ?sel = "[SelEquals ''spec.actor.name'' ''alice'', SelEquals ''spec.resource.kind'' ''Pod'']"
  have sel: "feedWatchSelector aliceFeed = Inr ''spec.actor.name=alice,spec.resource.kind=Pod''"
    by (simp add: feedWatchSelector_def aliceFeed_def plainFeed_def EscapeFieldSelectorValue_def selectorText_def)
  have clean: "list_all (\<lambda>(f, v). backslash \<notin> set v) (feedWatchTerms aliceFeed)"
    by (simp add: feedWatchTerms_def aliceFeed_def plainFeed_def shorthandClauses_def quote_defs)
  have parsed: "parseEqualities ''spec.actor.name=alice,spec.resource.kind=Pod'' = Some ?sel" by code_simp
  have lines: "length (feedWatchLines 0 aliceFeed [Some sampleActivity, Some (sampleActivity\<lparr>actName := ''b''\<rparr>)]) = 2"
    by (simp add: feedWatchLines_def List.map_filter_simps matchesClientSideFilters_def aliceFeed_def plainFeed_def)
  from feed_watch_ignores_actor [OF sel clean parseEqualities_reads, where hasWatcher = True and user = "Some []"
      and options = "\<lparr>aloLimit = 0, aloContinue = '''', aloResourceVersion = '''', aloSelector = []\<rparr>" and offset = 0 and objects = "[]"]
  obtain s' sel sel' where "feedWatchSelector (aliceFeed\<lparr>foActor := '''', foNamespace := ''''\<rparr>) = Inr s'" "parseEqualities s' = Some sel'"
    "parseEqualities ''spec.actor.name=alice,spec.resource.kind=Pod'' = Some sel"
    "WatchActivities True (Some []) '''' \<lparr>aloLimit = 0, aloContinue = '''', aloResourceVersion = '''', aloSelector = sel\<rparr>
      = WatchActivities True (Some []) '''' \<lparr>aloLimit = 0, aloContinue = '''', aloResourceVersion = '''', aloSelector = sel'\<rparr>"
    by auto
  then show ?thesis using parsed lines by auto
qed


section \<open>History\<close>

lemma swapEnds_length [simp]: "length (swapEnds xs i) = length xs"
  by (simp add: swapEnds_def Let_def)

lemma swapped_prefix:
  "k \<le> length xs div 2 \<Longrightarrow> length (foldl swapEnds xs [0..<k]) = length xs \<and>
    (\<forall>i < length xs. foldl swapEnds xs [0..<k] ! i = xs ! (if i < k \<or> length xs - k \<le> i then length xs - 1 - i else i))"
proof (induction k)
  case (Suc k)
  let ?ys = "foldl swapEnds xs [0..<k]"
  have l: "length ?ys = length xs" and n: "\<forall>i < length xs. ?ys ! i = xs ! (if i < k \<or> length xs - k \<le> i then length xs - 1 - i else i)"
    using Suc by auto
  have "swapEnds ?ys k ! i = xs ! (if i < Suc k \<or> length xs - Suc k \<le> i then length xs - 1 - i else i)" if "i < length xs" for i
  proof -
    let ?j = "length xs - k - 1"
    have k: "k < ?j" "?j < length xs" "k < length xs" using Suc.prems that by linarith+
    have "?ys ! k = xs ! k" "?ys ! ?j = xs ! ?j"
      using n [rule_format, OF k(3)] n [rule_format, OF k(2)] k by (simp_all split: if_splits)
    then have "swapEnds ?ys k ! i = (if i = ?j then xs ! k else if i = k then xs ! ?j else ?ys ! i)"
      using k l that by (simp add: swapEnds_def Let_def nth_list_update)
    moreover have "xs ! (if i < Suc k \<or> length xs - Suc k \<le> i then length xs - 1 - i else i)
        = (if i = ?j then xs ! k else if i = k then xs ! ?j else xs ! (if i < k \<or> length xs - k \<le> i then length xs - 1 - i else i))"
    proof -
      have "length xs - 1 - ?j = k" "length xs - 1 - k = ?j" using k(1,2) by linarith+
      moreover have "i < Suc k \<or> length xs - Suc k \<le> i \<longleftrightarrow> i = k \<or> i = ?j \<or> i < k \<or> length xs - k \<le> i" using k that by linarith
      ultimately show ?thesis by presburger
    qed
    ultimately show ?thesis using n [rule_format, OF that] by presburger
  qed
  then show ?case using l by simp
qed simp

text \<open>The events of a page arrive newest first and are printed oldest first.\<close>

lemma reverseEvents_rev: "reverseEvents xs = rev xs"
proof (rule nth_equalityI)
  note s = swapped_prefix [of "length xs div 2" xs, OF order_refl]
  then show "length (reverseEvents xs) = length (rev xs)" by (simp add: reverseEvents_def)
  fix i
  assume "i < length (reverseEvents xs)"
  with s have i: "i < length xs" and v: "reverseEvents xs ! i = xs ! (if i < length xs div 2 \<or> length xs - length xs div 2 \<le> i then length xs - 1 - i else i)"
    by (simp_all add: reverseEvents_def)
  have "(if i < length xs div 2 \<or> length xs - length xs div 2 \<le> i then length xs - 1 - i else i) = length xs - Suc i"
    using i by auto
  with v i show "reverseEvents xs ! i = rev xs ! i" by (simp add: rev_nth)
qed

text \<open>
  The summary looks at neither the status nor the metadata: an update of the status alone, like
  every one that a controller reports progress with, is called a change of metadata only.
\<close>

lemma status_change_called_metadata:
  assumes "\<And>k. k \<noteq> ''status'' \<Longrightarrow> map_of prev k = map_of cur k"
  shows "summarizeChanges json prev cur = ''metadata only''"
proof -
  have "map_of cur k \<noteq> None" if "k \<in> set (map fst prev)" "k \<noteq> ''status''" for k
    using that assms [of k] by (metis map_of_eq_None_iff set_map)
  then have "changedFields json prev cur = []"
    using assms by (auto simp: changedFields_def fieldOf_def filter_empty_conv)
  then show ?thesis by (simp add: summarizeChanges_def)
qed

text \<open>What \<open>cleanObjectForDiff\<close> keeps of the metadata: names, labels and annotations.\<close>

lemma cleanObjectForDiff_metadata:
  "(''metadata'', v) \<in> set (cleanObjectForDiff obj) \<Longrightarrow>
    \<exists>m. v = VMap m \<and> m \<noteq> [] \<and> fst ` set m \<subseteq> {''name'', ''namespace'', ''labels'', ''annotations''}"
  by (auto simp: cleanObjectForDiff_def List.map_filter_def cleanField_def cleanMetadata_def split: if_splits gval.splits)

end
