(* ===== verification/Policy_Admission.thy ===== *)
theory Policy_Admission
  imports Policy_Cache
begin

text \<open>
  How an ActivityPolicy becomes ready: internal/registry/activity/policy/strategy.go, the strategy
  of the API server, and internal/controller/activitypolicy_controller.go, the controller that sets
  the Ready condition. DNS name validation, the REST mapper and the API client are parameters.
\<close>

section \<open>The stored object\<close>

record StatusCondition =
  scType :: string
  scStatus :: string
  scReason :: string
  scMessage :: string
  scObservedGeneration :: int
  scLastTransition :: instant

record PolicyObject =
  poName :: string
  poNamespace :: string
  poGeneration :: int
  poResourceVersion :: string
  poLabels :: "(string \<times> string) list"
  poAnnotations :: "(string \<times> string) list"
  poSpec :: ActivityPolicySpec
  poConditions :: "StatusCondition list"
  poObservedGeneration :: int

text \<open>What the informer handlers of the processor see of it.\<close>

definition asPolicy :: "PolicyObject \<Rightarrow> ActivityPolicy" where
  "asPolicy o' = \<lparr>polName = poName o', polGeneration = poGeneration o', polResourceVersion = poResourceVersion o', polLabels = poLabels o',
     polSpec = poSpec o', polConditions = map (\<lambda>c. \<lparr>condType = scType c, condTrue = (scStatus c = ''True'')\<rparr>) (poConditions o')\<rparr>"

section \<open>strategy.go\<close>

text \<open>A field error: its path and what is wrong. The messages are without the examples in parentheses.\<close>

datatype field_error = FRequired string string | FInvalid string string | FDuplicate string string

definition policyPrepareForCreate :: "PolicyObject \<Rightarrow> PolicyObject" where
  "policyPrepareForCreate policy = policy\<lparr>poConditions := [], poObservedGeneration := 0, poGeneration := 1\<rparr>"

definition policyPrepareForUpdate :: "PolicyObject \<Rightarrow> PolicyObject \<Rightarrow> PolicyObject" where
  "policyPrepareForUpdate newPolicy oldPolicy =
     newPolicy\<lparr>poConditions := poConditions oldPolicy, poObservedGeneration := poObservedGeneration oldPolicy,
       poGeneration := (if poSpec newPolicy \<noteq> poSpec oldPolicy then wrap64 (poGeneration oldPolicy + 1) else poGeneration oldPolicy)\<rparr>"

definition policyStatusPrepareForUpdate :: "PolicyObject \<Rightarrow> PolicyObject \<Rightarrow> PolicyObject" where
  "policyStatusPrepareForUpdate newPolicy oldPolicy =
     newPolicy\<lparr>poSpec := poSpec oldPolicy, poGeneration := poGeneration oldPolicy, poLabels := poLabels oldPolicy,
       poAnnotations := poAnnotations oldPolicy\<rparr>"

definition expressionErrors :: "('a, 'p) cel_engine \<Rightarrow> string \<Rightarrow> string \<Rightarrow> string \<Rightarrow> string \<Rightarrow> string \<Rightarrow> field_error list" where
  "expressionErrors eng path hint expression exprType ruleType =
     (if expression = '''' then [FRequired path hint]
      else (case ValidatePolicyExpression eng expression exprType ruleType of None \<Rightarrow> [] | Some err \<Rightarrow> [FInvalid path err]))"

text \<open>\<open>dnsErrs\<close> is \<open>validation.IsDNS1123Subdomain\<close>.\<close>

definition validatePolicyRule ::
  "('a, 'p) cel_engine \<Rightarrow> (string \<Rightarrow> string list) \<Rightarrow> ActivityPolicyRule \<Rightarrow> string \<Rightarrow> string \<Rightarrow> field_error list" where
  "validatePolicyRule eng dnsErrs rule path ruleType =
     (if ruleName rule = '''' then [FRequired (path @ ''.name'') ''provide a unique name for this rule'']
      else if dnsErrs (ruleName rule) \<noteq> [] then [FInvalid (path @ ''.name'') ''must be a valid DNS subdomain''] else [])
     @ expressionErrors eng (path @ ''.match'') ''provide a CEL expression that determines when this rule applies'' (ruleMatch rule) MatchExpression ruleType
     @ expressionErrors eng (path @ ''.summary'') ''provide a template for the activity summary'' (ruleSummary rule) SummaryExpression ruleType"

text \<open>The loop over one rule list, with the first index of every name seen.\<close>

fun validateRules ::
  "('a, 'p) cel_engine \<Rightarrow> (string \<Rightarrow> string list) \<Rightarrow> string \<Rightarrow> string \<Rightarrow> string \<Rightarrow> (string \<times> nat) list \<Rightarrow> nat \<Rightarrow> ActivityPolicyRule list \<Rightarrow> field_error list" where
  "validateRules eng dnsErrs specPath listName ruleType seen i [] = []"
| "validateRules eng dnsErrs specPath listName ruleType seen i (rule # rules) =
     (let path = specPath @ ''.'' @ listName @ ''['' @ fmtInt (int i) @ '']''
      in validatePolicyRule eng dnsErrs rule path ruleType
         @ (if ruleName rule = '''' then []
            else (case map_of seen (ruleName rule) of
                    Some first \<Rightarrow> [FDuplicate (path @ ''.name'') (ruleName rule @ '' (conflicts with '' @ listName @ ''['' @ fmtInt (int first) @ ''])'')]
                  | None \<Rightarrow> []))
         @ validateRules eng dnsErrs specPath listName ruleType
             (if ruleName rule = '''' \<or> map_of seen (ruleName rule) \<noteq> None then seen else (ruleName rule, i) # seen) (Suc i) rules)"

definition ValidateActivityPolicySpec :: "('a, 'p) cel_engine \<Rightarrow> (string \<Rightarrow> string list) \<Rightarrow> ActivityPolicySpec \<Rightarrow> string \<Rightarrow> field_error list" where
  "ValidateActivityPolicySpec eng dnsErrs spec specPath =
     (if prKind (psResource spec) = '''' then [FRequired (specPath @ ''.resource.kind'') ''specify the kind of resource this policy targets''] else [])
     @ validateRules eng dnsErrs specPath ''auditRules'' AuditRule [] 0 (psAuditRules spec)
     @ validateRules eng dnsErrs specPath ''eventRules'' EventRule [] 0 (psEventRules spec)"

definition ValidateActivityPolicy :: "('a, 'p) cel_engine \<Rightarrow> (string \<Rightarrow> string list) \<Rightarrow> PolicyObject \<Rightarrow> field_error list" where
  "ValidateActivityPolicy eng dnsErrs policy = ValidateActivityPolicySpec eng dnsErrs (poSpec policy) ''spec''"

definition policyValidateUpdate :: "('a, 'p) cel_engine \<Rightarrow> (string \<Rightarrow> string list) \<Rightarrow> PolicyObject \<Rightarrow> PolicyObject \<Rightarrow> field_error list" where
  "policyValidateUpdate eng dnsErrs policy oldPolicy =
     ValidateActivityPolicy eng dnsErrs policy
     @ (if prAPIGroup (psResource (poSpec policy)) \<noteq> prAPIGroup (psResource (poSpec oldPolicy))
           \<or> prKind (psResource (poSpec policy)) \<noteq> prKind (psResource (poSpec oldPolicy))
        then [FInvalid ''spec.resource'' ''resource (apiGroup and kind) is immutable after creation''] else [])"

definition warningsForPolicy :: "PolicyObject \<Rightarrow> string list" where
  "warningsForPolicy policy =
     (if psAuditRules (poSpec policy) = [] \<and> psEventRules (poSpec policy) = [] then [''policy has no rules defined and will have no effect''] else [])"

section \<open>activitypolicy_controller.go\<close>

text \<open>The REST mapper, when there is one, answers with the kind it knows.\<close>

datatype mapping_error = MapNoMatch | MapFailed string

definition validateResourceExists :: "(string \<Rightarrow> string \<Rightarrow> mapping_error + string) option \<Rightarrow> string \<Rightarrow> string \<Rightarrow> string option" where
  "validateResourceExists mapper apiGroup kind =
     (case mapper of
        None \<Rightarrow> None
      | Some restMapping \<Rightarrow>
          (case restMapping apiGroup kind of
             Inl MapNoMatch \<Rightarrow> Some (''resource '' @ quoteQ kind @ '' not found in API group '' @ quoteQ apiGroup
               @ '' - verify the Kind is spelled correctly (case-sensitive) and the CRD is installed'')
           | Inl (MapFailed err) \<Rightarrow> Some (''failed to validate resource '' @ apiGroup @ ''/'' @ kind @ '': '' @ err)
           | Inr k \<Rightarrow> if k \<noteq> kind then Some (''kind mismatch: specified '' @ quoteQ kind @ '' but API server has '' @ quoteQ k) else None))"

fun validateRuleList :: "('a, 'p) cel_engine \<Rightarrow> string \<Rightarrow> string \<Rightarrow> nat \<Rightarrow> ActivityPolicyRule list \<Rightarrow> string option" where
  "validateRuleList eng what ruleType i [] = None"
| "validateRuleList eng what ruleType i (rule # rules) =
     (case ValidatePolicyExpression eng (ruleMatch rule) MatchExpression ruleType of
        Some err \<Rightarrow> Some (what @ '' rule '' @ fmtInt (int i) @ '' match: '' @ err)
      | None \<Rightarrow>
          (case ValidatePolicyExpression eng (ruleSummary rule) SummaryExpression ruleType of
             Some err \<Rightarrow> Some (what @ '' rule '' @ fmtInt (int i) @ '' summary: '' @ err)
           | None \<Rightarrow> validateRuleList eng what ruleType (Suc i) rules))"

definition validatePolicy :: "('a, 'p) cel_engine \<Rightarrow> ActivityPolicySpec \<Rightarrow> string option" where
  "validatePolicy eng spec =
     (case validateRuleList eng ''audit'' AuditRule 0 (psAuditRules spec) of
        Some err \<Rightarrow> Some err
      | None \<Rightarrow> validateRuleList eng ''event'' EventRule 0 (psEventRules spec))"

text \<open>The first condition of the type is replaced, keeping its transition time when the status stays; otherwise one is added.\<close>

fun setCondition :: "StatusCondition \<Rightarrow> StatusCondition list \<Rightarrow> StatusCondition list" where
  "setCondition condition [] = [condition]"
| "setCondition condition (c # cs) =
     (if scType c = scType condition
      then (if scStatus c = scStatus condition then condition\<lparr>scLastTransition := scLastTransition c\<rparr> else condition) # cs
      else c # setCondition condition cs)"

definition conditionCurrent :: "PolicyObject \<Rightarrow> StatusCondition \<Rightarrow> bool" where
  "conditionCurrent policy condition =
     (poObservedGeneration policy = poGeneration policy
      \<and> list_ex (\<lambda>c. scType c = scType condition \<and> scStatus c = scStatus condition \<and> scReason c = scReason condition
           \<and> scMessage c = scMessage condition \<and> scObservedGeneration c = scObservedGeneration condition) (poConditions policy))"

text \<open>The error of the status update, and the object written, if one was.\<close>

definition updatePolicyStatus :: "string option \<Rightarrow> PolicyObject \<Rightarrow> StatusCondition \<Rightarrow> string option \<times> PolicyObject option" where
  "updatePolicyStatus updateErr policy condition =
     (if conditionCurrent policy condition then (None, None)
      else (let policy' = policy\<lparr>poConditions := setCondition condition (poConditions policy), poObservedGeneration := poGeneration policy\<rparr>
            in case updateErr of
                 Some err \<Rightarrow> (Some (''error updating policy status: failed to update status: '' @ err), None)
               | None \<Rightarrow> (None, Some policy')))"

definition readyCondition ::
  "('a, 'p) cel_engine \<Rightarrow> (string \<Rightarrow> string \<Rightarrow> mapping_error + string) option \<Rightarrow> instant \<Rightarrow> PolicyObject \<Rightarrow> StatusCondition" where
  "readyCondition eng mapper now policy =
     (let c = (\<lambda>status reason message. \<lparr>scType = ''Ready'', scStatus = status, scReason = reason, scMessage = message,
                 scObservedGeneration = poGeneration policy, scLastTransition = now\<rparr>)
      in case validateResourceExists mapper (prAPIGroup (psResource (poSpec policy))) (prKind (psResource (poSpec policy))) of
           Some err \<Rightarrow> c ''False'' ''ResourceNotFound'' err
         | None \<Rightarrow>
             (case validatePolicy eng (poSpec policy) of
                Some err \<Rightarrow> c ''False'' ''ValidationFailed'' err
              | None \<Rightarrow> c ''True'' ''Valid'' ''All rules validated successfully''))"

text \<open>\<open>fetched\<close> is what the client's Get answered: an error, no such object, or the object.\<close>

definition PolicyReconcile ::
  "('a, 'p) cel_engine \<Rightarrow> (string \<Rightarrow> string \<Rightarrow> mapping_error + string) option \<Rightarrow> instant \<Rightarrow> string option \<Rightarrow>
   string + PolicyObject option \<Rightarrow> string option \<times> PolicyObject option" where
  "PolicyReconcile eng mapper now updateErr fetched =
     (case fetched of
        Inl err \<Rightarrow> (Some err, None)
      | Inr None \<Rightarrow> (None, None)
      | Inr (Some policy) \<Rightarrow> updatePolicyStatus updateErr policy (readyCondition eng mapper now policy))"

text \<open>The policies to reconcile when a resource definition of that group and kind changes.\<close>

definition mapCRDToActivityPolicies :: "string \<Rightarrow> string \<Rightarrow> string + PolicyObject list \<Rightarrow> (string \<times> string) list" where
  "mapCRDToActivityPolicies crdGroup crdKind listed =
     (case listed of
        Inl _ \<Rightarrow> []
      | Inr items \<Rightarrow>
          map (\<lambda>p. (poNamespace p, poName p))
            (filter (\<lambda>p. prKind (psResource (poSpec p)) = crdKind \<and> prAPIGroup (psResource (poSpec p)) = crdGroup) items))"

section \<open>Validation and compilation\<close>

lemma validateRuleList_None:
  "validateRuleList eng what ruleType i rules = None \<longleftrightarrow>
     (\<forall>r \<in> set rules. ValidatePolicyExpression eng (ruleMatch r) MatchExpression ruleType = None
        \<and> ValidatePolicyExpression eng (ruleSummary r) SummaryExpression ruleType = None)"
  by (induction rules arbitrary: i) (auto split: option.splits)

lemma expressionErrors_Nil:
  "expressionErrors eng path hint e t rt = [] \<longleftrightarrow> e \<noteq> '''' \<and> ValidatePolicyExpression eng e t rt = None"
  by (simp add: expressionErrors_def split: option.splits)

lemma validateRules_Nil:
  "validateRules eng dnsErrs p l rt seen i rules = [] \<Longrightarrow> r \<in> set rules \<Longrightarrow>
     ruleName r \<noteq> '''' \<and> ValidatePolicyExpression eng (ruleMatch r) MatchExpression rt = None
     \<and> ValidatePolicyExpression eng (ruleSummary r) SummaryExpression rt = None"
  by (induction rules arbitrary: seen i) (auto simp: validatePolicyRule_def expressionErrors_Nil Let_def split: if_splits)

lemma compileTemplates_valid:
  assumes "validateHoles eng env ms = None" "\<And>ast. isOk (celProgram eng ast)"
  shows "isOk (compileTemplates eng env ms)"
  using assms(1)
proof (induction ms)
  case (Cons mg ms)
  obtain m g where mg: "mg = (m, g)" by (cases mg)
  from Cons.prems mg obtain ast where "trimSpace g \<noteq> []" "celCompile eng env (trimSpace g) = Inr ast" "validateHoles eng env ms = None"
    by (auto simp: Let_def split: sum.splits if_splits)
  moreover obtain prg where "celProgram eng ast = Inr prg" using assms(2) [of ast] by (auto simp: isOk_iff)
  ultimately show ?case using Cons.IH mg by (auto simp: Let_def isOk_iff)
qed simp

text \<open>A rule that passes validation compiles, with an engine that builds a program for every checked expression.\<close>

lemma validated_rule_compiles:
  assumes "ValidatePolicyExpression eng (ruleMatch r) MatchExpression rt = None"
    and "ValidatePolicyExpression eng (ruleSummary r) SummaryExpression rt = None" "\<And>ast. isOk (celProgram eng ast)"
  shows "crValid (compileRule eng rt r)"
proof -
  have env: "celNewEnv eng rt = None" using assms(1) by (auto simp: ValidatePolicyExpression_def split: if_splits option.splits)
  obtain ast where ast: "celCompile eng rt (ruleMatch r) = Inr ast"
    using assms(1) by (auto simp: ValidatePolicyExpression_def validateMatchExpression_def split: if_splits option.splits sum.splits)
  obtain prg where prg: "celProgram eng ast = Inr prg" using assms(3) [of ast] by (auto simp: isOk_iff)
  have "validateHoles eng rt (findAllTemplates (ruleSummary r)) = None"
    using assms(2) by (auto simp: ValidatePolicyExpression_def validateSummaryExpression_def MatchExpression_def SummaryExpression_def split: if_splits option.splits)
  then obtain ts where ts: "compileSummaryTemplate eng rt (ruleSummary r) = Inr ts"
    using compileTemplates_valid [OF _ assms(3)] by (fastforce simp: compileSummaryTemplate_def isOk_iff)
  show ?thesis by (simp add: compileRule_def env ast prg ts Let_def)
qed

text \<open>
  C16: a policy that the API server admits is in force on every rule: the controller reports its
  expressions valid, and when the processor compiles it, every audit and event rule is valid, so
  that none is skipped. The engine has to build a program for every expression that checks.
\<close>

theorem admitted_policy_compiles:
  assumes "ValidateActivityPolicy eng dnsErrs o' = []" "\<And>ast. isOk (celProgram eng ast)"
  shows "validatePolicy eng (poSpec o') = None
     \<and> list_all crValid (cpAuditRules (compilePolicy eng (asPolicy o') res)) \<and> list_all crValid (cpEventRules (compilePolicy eng (asPolicy o') res))
     \<and> cpKind (compilePolicy eng (asPolicy o') res) \<noteq> ''''"
proof -
  from assms(1) have r: "validateRules eng dnsErrs ''spec'' ''auditRules'' AuditRule [] 0 (psAuditRules (poSpec o')) = []"
    "validateRules eng dnsErrs ''spec'' ''eventRules'' EventRule [] 0 (psEventRules (poSpec o')) = []"
    and k: "prKind (psResource (poSpec o')) \<noteq> ''''"
    by (simp_all add: ValidateActivityPolicy_def ValidateActivityPolicySpec_def split: if_splits)
  note ok = validateRules_Nil [OF r(1)] validateRules_Nil [OF r(2)]
  have "validateRuleList eng ''audit'' AuditRule 0 (psAuditRules (poSpec o')) = None"
    "validateRuleList eng ''event'' EventRule 0 (psEventRules (poSpec o')) = None" unfolding validateRuleList_None using ok by blast+
  then have "validatePolicy eng (poSpec o') = None" by (simp add: validatePolicy_def)
  moreover have "list_all crValid (cpAuditRules (compilePolicy eng (asPolicy o') res))" "list_all crValid (cpEventRules (compilePolicy eng (asPolicy o') res))"
    using ok validated_rule_compiles [OF _ _ assms(2)]
    by (auto simp: compilePolicy_def asPolicy_def list_all_iff compileAuditRule_def compileEventRule_def)
  ultimately show ?thesis using k by (simp add: compilePolicy_def asPolicy_def)
qed

definition sampleObject :: PolicyObject where
  "sampleObject = \<lparr>poName = ''p'', poNamespace = '''', poGeneration = 2, poResourceVersion = ''5'', poLabels = [], poAnnotations = [],
     poSpec = exampleSpec, poConditions = [], poObservedGeneration = 1\<rparr>"

lemma admitted_policy_compiles_witness:
  "list_all crValid (cpAuditRules (compilePolicy varEngine (asPolicy sampleObject) ''pods''))"
proof -
  have "ValidateActivityPolicy varEngine (\<lambda>_. []) sampleObject = []" by code_simp
  from admitted_policy_compiles [OF this, of "''pods''"] show ?thesis by (simp add: varEngine_def)
qed

section \<open>The Ready condition\<close>

lemma find_setCondition:
  "\<exists>c'. find (\<lambda>x. scType x = scType c) (setCondition c cs) = Some c' \<and> scStatus c' = scStatus c \<and> scReason c' = scReason c
     \<and> scMessage c' = scMessage c \<and> scObservedGeneration c' = scObservedGeneration c"
  by (induction cs) auto

lemma isPolicyReady_find:
  "isPolicyReady (asPolicy o') = (case find (\<lambda>c. scType c = ''Ready'') (poConditions o') of Some c \<Rightarrow> scStatus c = ''True'' | None \<Rightarrow> False)"
proof -
  have "find (\<lambda>c. condType c = ''Ready'') (map (\<lambda>c. \<lparr>condType = scType c, condTrue = (scStatus c = ''True'')\<rparr>) cs)
      = map_option (\<lambda>c. \<lparr>condType = scType c, condTrue = (scStatus c = ''True'')\<rparr>) (find (\<lambda>c. scType c = ''Ready'') cs)" for cs
    by (induction cs) auto
  from this [of "poConditions o'"] show ?thesis unfolding isPolicyReady_def asPolicy_def by (cases "find (\<lambda>c. scType c = ''Ready'') (poConditions o')") simp_all
qed

lemma readyCondition_type [simp]: "scType (readyCondition eng mapper now o') = ''Ready''"
  "scObservedGeneration (readyCondition eng mapper now o') = poGeneration o'"
  by (simp_all add: readyCondition_def Let_def split: option.split)

lemma readyCondition_status:
  "scStatus (readyCondition eng mapper now o') = ''True'' \<longleftrightarrow>
     validateResourceExists mapper (prAPIGroup (psResource (poSpec o'))) (prKind (psResource (poSpec o'))) = None \<and> validatePolicy eng (poSpec o') = None"
  by (simp add: readyCondition_def Let_def split: option.split)

text \<open>
  C20: after the controller has written the status of a policy, the policy is ready, in the sense in
  which the processor decides whether to cache it, exactly when its resource exists and all its
  expressions are valid. A further reconciliation at any later time finds nothing to write,
  whatever other conditions the policy has, so the controller's own updates do not keep it busy.
\<close>

theorem policy_reconcile_settles:
  assumes "PolicyReconcile eng mapper now None (Inr (Some o')) = (None, Some written)"
  shows "(isPolicyReady (asPolicy written) \<longleftrightarrow>
       validateResourceExists mapper (prAPIGroup (psResource (poSpec o'))) (prKind (psResource (poSpec o'))) = None \<and> validatePolicy eng (poSpec o') = None)
     \<and> PolicyReconcile eng mapper now' err (Inr (Some written)) = (None, None)
     \<and> poSpec written = poSpec o' \<and> poGeneration written = poGeneration o'"
proof -
  let ?c = "readyCondition eng mapper now o'"
  from assms have w: "written = o'\<lparr>poConditions := setCondition ?c (poConditions o'), poObservedGeneration := poGeneration o'\<rparr>"
    by (auto simp: PolicyReconcile_def updatePolicyStatus_def Let_def split: if_splits)
  obtain c' where c': "find (\<lambda>x. scType x = ''Ready'') (poConditions written) = Some c'" "scStatus c' = scStatus ?c" "scReason c' = scReason ?c"
    "scMessage c' = scMessage ?c" "scObservedGeneration c' = scObservedGeneration ?c"
    using find_setCondition [of ?c "poConditions o'"] by (auto simp: w)
  have same: "scStatus (readyCondition eng mapper now' written) = scStatus ?c" "scReason (readyCondition eng mapper now' written) = scReason ?c"
    "scMessage (readyCondition eng mapper now' written) = scMessage ?c"
    by (simp_all add: w readyCondition_def Let_def split: option.split)
  have "c' \<in> set (poConditions written) \<and> scType c' = ''Ready''" using c'(1) by (auto simp: find_Some_iff)
  with c' same have "conditionCurrent written (readyCondition eng mapper now' written)"
    unfolding conditionCurrent_def list_ex_iff by (intro conjI bexI [of _ c']) (simp_all add: w)
  moreover have "isPolicyReady (asPolicy written) \<longleftrightarrow> scStatus ?c = ''True''" using c' by (simp add: isPolicyReady_find)
  ultimately show ?thesis by (simp add: PolicyReconcile_def updatePolicyStatus_def readyCondition_status w)
qed

lemma policy_reconcile_settles_witness:
  "\<exists>written. PolicyReconcile varEngine None 7 None (Inr (Some sampleObject)) = (None, Some written) \<and> isPolicyReady (asPolicy written)
     \<and> PolicyReconcile varEngine None 9 None (Inr (Some written)) = (None, None)"
proof -
  have "\<not> conditionCurrent sampleObject (readyCondition varEngine None 7 sampleObject)" by (simp add: conditionCurrent_def sampleObject_def)
  then obtain written where w: "PolicyReconcile varEngine None 7 None (Inr (Some sampleObject)) = (None, Some written)"
    by (simp add: PolicyReconcile_def updatePolicyStatus_def Let_def)
  have "validatePolicy varEngine (poSpec sampleObject) = None" by code_simp
  with policy_reconcile_settles [OF w, of 9 None] w show ?thesis by (simp add: validateResourceExists_def)
qed

text \<open>
  A failure of API discovery that is not a missing resource, such as an unreachable
  aggregated server, is recorded like one: the policy is written not ready, which takes it out of the
  processor's cache, and the reconciliation ends without an error that would have it retried.
\<close>

theorem discovery_failure_disables_policy:
  assumes "mapper (prAPIGroup (psResource (poSpec o'))) (prKind (psResource (poSpec o'))) = Inl (MapFailed e)"
  shows "fst (PolicyReconcile eng (Some mapper) now None (Inr (Some o'))) = None
     \<and> (case snd (PolicyReconcile eng (Some mapper) now None (Inr (Some o'))) of
          Some written \<Rightarrow> \<not> isPolicyReady (asPolicy written)
        | None \<Rightarrow> conditionCurrent o' (readyCondition eng (Some mapper) now o') \<and> scStatus (readyCondition eng (Some mapper) now o') = ''False'')"
proof (cases "conditionCurrent o' (readyCondition eng (Some mapper) now o')")
  case True
  with assms show ?thesis
    by (simp add: PolicyReconcile_def updatePolicyStatus_def readyCondition_def validateResourceExists_def Let_def)
next
  case False
  then obtain written where w: "PolicyReconcile eng (Some mapper) now None (Inr (Some o')) = (None, Some written)"
    by (simp add: PolicyReconcile_def updatePolicyStatus_def Let_def)
  obtain c' where "find (\<lambda>x. scType x = ''Ready'') (poConditions written) = Some c'" "scStatus c' = scStatus (readyCondition eng (Some mapper) now o')"
    using w False find_setCondition [of "readyCondition eng (Some mapper) now o'" "poConditions o'"]
    by (auto simp: PolicyReconcile_def updatePolicyStatus_def Let_def)
  then have "\<not> isPolicyReady (asPolicy written)" using assms by (simp add: isPolicyReady_find readyCondition_status validateResourceExists_def)
  with w show ?thesis by simp
qed

lemma discovery_failure_disables_policy_witness:
  "fst (PolicyReconcile varEngine (Some (\<lambda>_ _. Inl (MapFailed ''timeout''))) 7 None (Inr (Some sampleObject))) = None"
  using discovery_failure_disables_policy [of "\<lambda>_ _. Inl (MapFailed ''timeout'')" sampleObject "''timeout''" varEngine 7] by simp

end
