(* ===== verification/Policy_Preview.thy ===== *)
theory Policy_Preview
  imports Selectors Policy_Admission Query_Api Storage_Props
begin

text \<open>
  internal/registry/activity/preview/storage.go: a policy is tried out on sample inputs, given in
  the request or fetched from the stored audit logs and events, without anything being stored. The
  rules are evaluated by the functions the processor uses, with no kind resolver. The conversions of
  audit events and events to maps and JSON are parameters, as elsewhere.
\<close>

section \<open>The resource\<close>

record PolicyPreviewInput =
  piType :: string
  piAudit :: "AuditEvent option"
  piEvent :: "json_text option"

record AutoFetchSpec =
  afLimit :: int
  afTimeRange :: string
  afSources :: string

record PolicyPreviewSpec =
  ppPolicy :: ActivityPolicySpec
  ppInputs :: "PolicyPreviewInput list"
  ppAutoFetch :: "AutoFetchSpec option"

record PolicyPreviewInputResult =
  prvInputIndex :: nat
  prvMatched :: bool
  prvRuleIndex :: int
  prvRuleType :: string
  prvRuleName :: string
  prvError :: string

record PolicyPreviewStatus =
  pvActivities :: "Activity list"
  pvResults :: "PolicyPreviewInputResult list"
  pvFetchedInputs :: "PolicyPreviewInput list"
  pvError :: string

section \<open>Validation\<close>

datatype preview_error = PreviewField field_error | PreviewNotSupported string string "string list"

definition previewInputErrors :: "nat \<Rightarrow> PolicyPreviewInput \<Rightarrow> preview_error list" where
  "previewInputErrors i input =
     (let path = ''spec.inputs['' @ fmtInt (int i) @ '']''
      in if piType input = ''''
         then [PreviewField (FRequired (path @ ''.type'') ''specify whether this input is an audit log or event'')]
         else if piType input = ''audit''
         then (if piAudit input = None then [PreviewField (FRequired (path @ ''.audit'') ''provide the audit log data to test'')] else [])
         else if piType input = ''event''
         then (if piEvent input = None then [PreviewField (FRequired (path @ ''.event'') ''provide the event data to test'')] else [])
         else [PreviewNotSupported (path @ ''.type'') (piType input) [''audit'', ''event'']])"

definition validatePreviewInputs :: "PolicyPreviewInput list \<Rightarrow> preview_error list" where
  "validatePreviewInputs inputs = concat (map (\<lambda>(i, input). previewInputErrors i input) (enumerate 0 inputs))"

definition timeRangeExpr :: "string \<Rightarrow> string" where
  "timeRangeExpr timeRange = (if hasPrefix timeRange ''now'' then timeRange else ''now-'' @ timeRange)"

definition validateAutoFetch :: "instant \<Rightarrow> AutoFetchSpec \<Rightarrow> preview_error list" where
  "validateAutoFetch now af =
     (if afLimit af < 0 then [PreviewField (FInvalid ''spec.autoFetch.limit'' ''must be >= 0'')] else [])
     @ (if afLimit af > 50 then [PreviewField (FInvalid ''spec.autoFetch.limit'' ''must be <= 50'')] else [])
     @ (if afTimeRange af \<noteq> '''' \<and> \<not> isOk (ParseFlexibleTime (timeRangeExpr (afTimeRange af)) now)
        then [PreviewField (FInvalid ''spec.autoFetch.timeRange'' ''must be a valid relative time'')] else [])
     @ (if afSources af \<noteq> '''' \<and> afSources af \<notin> {''audit'', ''events'', ''both''}
        then [PreviewNotSupported ''spec.autoFetch.sources'' (afSources af) [''audit'', ''events'', ''both'']] else [])"

definition validatePolicyPreview ::
  "('a, 'p) cel_engine \<Rightarrow> (string \<Rightarrow> string list) \<Rightarrow> instant \<Rightarrow> PolicyPreviewSpec \<Rightarrow> preview_error list" where
  "validatePolicyPreview eng dnsErrs now spec =
     map PreviewField (ValidateActivityPolicySpec eng dnsErrs (ppPolicy spec) ''spec.policy'')
     @ (if ppInputs spec = [] \<and> ppAutoFetch spec = None then [PreviewField (FRequired ''spec'' ''provide either inputs or autoFetch'')] else [])
     @ (if ppInputs spec \<noteq> [] \<and> ppAutoFetch spec \<noteq> None
        then [PreviewField (FInvalid ''spec'' ''cannot specify both inputs and autoFetch - use one or the other'')] else [])
     @ (if ppInputs spec \<noteq> [] then validatePreviewInputs (ppInputs spec) else [])
     @ (case ppAutoFetch spec of Some af \<Rightarrow> validateAutoFetch now af | None \<Rightarrow> [])"

section \<open>Evaluation\<close>

definition evaluateAuditInput ::
  "('a, 'p) cel_engine \<Rightarrow> (AuditEvent \<Rightarrow> string + gomap) \<Rightarrow> ActivityPolicySpec \<Rightarrow> PolicyPreviewInput \<Rightarrow> instant \<Rightarrow> go_error + EvaluationResult" where
  "evaluateAuditInput eng toMap spec input now =
     (case piAudit input of
        None \<Rightarrow> Inl (newError ''audit input is nil'')
      | Some audit \<Rightarrow> EvaluateAuditRules eng toMap spec audit None now)"

text \<open>\<open>null\<close> decodes to a nil map; what else is no object does not decode.\<close>

definition evaluateEventInput ::
  "('a, 'p) cel_engine \<Rightarrow> ActivityPolicySpec \<Rightarrow> PolicyPreviewInput \<Rightarrow> instant \<Rightarrow> go_error + EvaluationResult" where
  "evaluateEventInput eng spec input now =
     (case piEvent input of
        None \<Rightarrow> Inl (newError ''event input is nil or empty'')
      | Some JEmpty \<Rightarrow> Inl (newError ''event input is nil or empty'')
      | Some (JValue (VMap m)) \<Rightarrow> EvaluateEventRules eng spec m None now
      | Some (JValue VNull) \<Rightarrow> EvaluateEventRules eng spec [] None now
      | Some _ \<Rightarrow> Inl (newError ''failed to unmarshal event''))"

text \<open>An input of another type is answered as one that no rule matched.\<close>

definition evaluateInput ::
  "('a, 'p) cel_engine \<Rightarrow> (AuditEvent \<Rightarrow> string + gomap) \<Rightarrow> ActivityPolicySpec \<Rightarrow> PolicyPreviewInput \<Rightarrow> instant \<Rightarrow> go_error + EvaluationResult" where
  "evaluateInput eng toMap spec input now =
     (if piType input = ''audit'' then evaluateAuditInput eng toMap spec input now
      else if piType input = ''event'' then evaluateEventInput eng spec input now
      else Inr noRuleMatched)"

definition inputResult :: "nat \<Rightarrow> go_error + EvaluationResult \<Rightarrow> PolicyPreviewInputResult" where
  "inputResult i outcome =
     (let base = \<lparr>prvInputIndex = i, prvMatched = False, prvRuleIndex = -1, prvRuleType = '''', prvRuleName = '''', prvError = ''''\<rparr>
      in case outcome of
           Inl err \<Rightarrow> base\<lparr>prvError := errMsg err\<rparr>
         | Inr r \<Rightarrow>
             (if erActivity r = None then base
              else base\<lparr>prvMatched := True, prvRuleIndex := erRuleIndex r, prvRuleType := erRuleType r, prvRuleName := erRuleName r\<rparr>))"

text \<open>The loop over the inputs, with the clock as each is evaluated.\<close>

fun previewLoop ::
  "('a, 'p) cel_engine \<Rightarrow> (AuditEvent \<Rightarrow> string + gomap) \<Rightarrow> ActivityPolicySpec \<Rightarrow> (nat \<Rightarrow> instant) \<Rightarrow> nat \<Rightarrow> PolicyPreviewInput list \<Rightarrow>
   PolicyPreviewStatus \<Rightarrow> PolicyPreviewStatus" where
  "previewLoop eng toMap spec clock i [] st = st"
| "previewLoop eng toMap spec clock i (input # inputs) st =
     (let outcome = evaluateInput eng toMap spec input (clock i)
      in previewLoop eng toMap spec clock (Suc i) inputs
           (st\<lparr>pvActivities := pvActivities st @ (case outcome of Inr r \<Rightarrow> (case erActivity r of Some a \<Rightarrow> [a] | None \<Rightarrow> []) | Inl _ \<Rightarrow> []),
               pvResults := pvResults st @ [inputResult i outcome]\<rparr>))"

definition evaluatePolicy ::
  "('a, 'p) cel_engine \<Rightarrow> (AuditEvent \<Rightarrow> string + gomap) \<Rightarrow> ActivityPolicySpec \<Rightarrow> (nat \<Rightarrow> instant) \<Rightarrow> PolicyPreviewInput list \<Rightarrow> PolicyPreviewStatus" where
  "evaluatePolicy eng toMap spec clock inputs =
     previewLoop eng toMap spec clock 0 inputs \<lparr>pvActivities = [], pvResults = [], pvFetchedInputs = [], pvError = ''''\<rparr>"

section \<open>Filters for the samples\<close>

text \<open>From behind an opening quote: what is copied up to and with the closing one, and the rest.\<close>

fun copyLiteral :: "char \<Rightarrow> string \<Rightarrow> string \<times> string" where
  "copyLiteral q [] = ([], [])"
| "copyLiteral q [c] = ([c], [])"
| "copyLiteral q (c # d # s) =
     (if c = q then ([c], d # s)
      else if c = backslash then (let (a, r) = copyLiteral q s in (c # d # a, r))
      else (let (a, r) = copyLiteral q (d # s) in (c # a, r)))"

lemma copyLiteral_append: "copyLiteral q s = (a, r) \<Longrightarrow> a @ r = s"
  by (induction q s arbitrary: a r rule: copyLiteral.induct) (auto simp: Let_def split: if_splits prod.splits)

function stripAuditPrefix :: "string \<Rightarrow> string" where
  "stripAuditPrefix expr =
     (case expr of
        [] \<Rightarrow> []
      | c # s \<Rightarrow>
          if c = sQuote \<or> c = dQuote then (let (a, r) = copyLiteral c s in c # a @ stripAuditPrefix r)
          else if hasPrefix expr ''audit.'' then stripAuditPrefix (drop 6 expr)
          else c # stripAuditPrefix s)"
  by pat_completeness auto
termination
proof (relation "measure length", goal_cases)
  case (2 expr c s a r)
  then show ?case using copyLiteral_append [of c s] by (metis in_measure le_add2 length_Cons length_append less_Suc_eq_le prod.collapse prod.inject)
next
  case (3 expr c s)
  then show ?case by (simp add: hasPrefix_def)
qed auto

declare stripAuditPrefix.simps [simp del]

definition buildRuleFilter :: "ActivityPolicyRule list \<Rightarrow> string" where
  "buildRuleFilter rules =
     (let parts = map (\<lambda>rule. ''('' @ stripAuditPrefix (ruleMatch rule) @ '')'')
                    (filter (\<lambda>rule. ruleMatch rule \<noteq> '''' \<and> ruleMatch rule \<noteq> ''true'') rules)
      in case parts of [] \<Rightarrow> '''' | [p] \<Rightarrow> p | _ \<Rightarrow> ''('' @ joinStr '' || '' parts @ '')'')"

definition auditSampleFilter :: "ActivityPolicySpec \<Rightarrow> string" where
  "auditSampleFilter policy =
     (let ruleFilter = buildRuleFilter (psAuditRules policy)
      in joinStr '' && ''
           ([''objectRef.apiGroup == '' @ [dQuote] @ prAPIGroup (psResource policy) @ [dQuote],
             ''objectRef.resource.contains('' @ [dQuote] @ toLower (prKind (psResource policy)) @ [dQuote] @ '')'']
            @ (if ruleFilter \<noteq> '''' then [ruleFilter] else [])))"

text \<open>
  \<open>pre\s*==\s*"([^"]+)"\<close> at the start of a text; the parts overlap in no character, so the match
  is unique. \<open>firstGroup\<close> is the submatch of the leftmost match.
\<close>

definition groupAt :: "string \<Rightarrow> string \<Rightarrow> string option" where
  "groupAt pre s =
     (if hasPrefix s pre
      then (let r = dropWhile isReSpace (drop (length pre) s)
            in if hasPrefix r ''==''
               then (case dropWhile isReSpace (drop 2 r) of
                       [] \<Rightarrow> None
                     | c # t \<Rightarrow>
                         (let v = takeWhile (\<lambda>d. d \<noteq> dQuote) t
                          in if c = dQuote \<and> v \<noteq> [] \<and> dropWhile (\<lambda>d. d \<noteq> dQuote) t \<noteq> [] then Some v else None))
               else None)
      else None)"

fun firstGroup :: "string \<Rightarrow> string \<Rightarrow> string option" where
  "firstGroup pre [] = None"
| "firstGroup pre (c # s) = (case groupAt pre (c # s) of Some v \<Rightarrow> Some v | None \<Rightarrow> firstGroup pre s)"

definition extractEventFiltersFromCEL :: "string \<Rightarrow> string list" where
  "extractEventFiltersFromCEL e =
     (case firstGroup ''event.reason'' e of Some v \<Rightarrow> [''reason='' @ v] | None \<Rightarrow> [])
     @ (case firstGroup ''event.type'' e of Some v \<Rightarrow> [''type='' @ v] | None \<Rightarrow> [])"

definition eventSampleSelector :: "ActivityPolicySpec \<Rightarrow> string" where
  "eventSampleSelector policy =
     (let group = prAPIGroup (psResource policy)
      in joinStr '',''
           ([selectorText (''regarding.apiVersion'', if group = '''' then ''v1'' else group), selectorText (''regarding.kind'', prKind (psResource policy))]
            @ concat (map (extractEventFiltersFromCEL \<circ> ruleMatch) (psEventRules policy))))"

section \<open>Fetching samples\<close>

text \<open>
  \<open>encodeEvent\<close> is \<open>json.Marshal\<close> of an event. The two clock readings of a query are those of the
  storage layer.
\<close>

datatype preview_failure =
    PreviewInvalid "preview_error list"
  | PreviewBadRange time_error
  | PreviewFetch string query_error
  | PreviewMarshal

definition auditSampleSpec :: "ActivityPolicySpec \<Rightarrow> string \<Rightarrow> string \<Rightarrow> int \<Rightarrow> AuditLogQuerySpec" where
  "auditSampleSpec policy startTime endTime limit =
     \<lparr>aqStartTime = startTime, aqEndTime = endTime, aqFilter = auditSampleFilter policy, aqLimit = limit, aqContinue = ''''\<rparr>"

definition fetchAuditLogSamples ::
  "StorageConfig \<Rightarrow> (string \<Rightarrow> filter_compile) \<Rightarrow> cursorData json_codec \<Rightarrow> (string \<Rightarrow> StoredAudit option) \<Rightarrow> driver \<Rightarrow> instant \<Rightarrow>
   ActivityPolicySpec \<Rightarrow> string \<Rightarrow> string \<Rightarrow> int \<Rightarrow> ScopeContext \<Rightarrow> preview_failure + PolicyPreviewInput list" where
  "fetchAuditLogSamples cfg celc codec decode conn now policy startTime endTime limit scope =
     (case QueryAuditLogs cfg celc codec decode conn now (auditSampleSpec policy startTime endTime limit) scope of
        Inl e \<Rightarrow> Inl (PreviewFetch ''audit log'' e)
      | Inr (events, _) \<Rightarrow> Inr (map (\<lambda>e. \<lparr>piType = ''audit'', piAudit = Some (saEvent e), piEvent = None\<rparr>) events))"

definition eventSampleSpec :: "ActivityPolicySpec \<Rightarrow> string \<Rightarrow> string \<Rightarrow> int \<Rightarrow> EventQuerySpec" where
  "eventSampleSpec policy startTime endTime limit =
     \<lparr>eqStartTime = startTime, eqEndTime = endTime, eqNamespace = '''', eqFieldSelector = eventSampleSelector policy, eqLimit = limit,
      eqContinue = ''''\<rparr>"

fun encodeSamples :: "('e \<Rightarrow> json_text option) \<Rightarrow> 'e list \<Rightarrow> preview_failure + PolicyPreviewInput list" where
  "encodeSamples encodeEvent [] = Inr []"
| "encodeSamples encodeEvent (e # es) =
     (case encodeEvent e of
        None \<Rightarrow> Inl PreviewMarshal
      | Some j \<Rightarrow> bind_r (encodeSamples encodeEvent es) (\<lambda>r. Inr (\<lparr>piType = ''event'', piAudit = None, piEvent = Some j\<rparr> # r)))"

definition fetchEventSamples ::
  "StorageConfig \<Rightarrow> eventQueryCursorData json_codec \<Rightarrow> (string \<Rightarrow> 'e option) \<Rightarrow> ('e \<Rightarrow> json_text option) \<Rightarrow> driver \<Rightarrow> instant \<Rightarrow>
   ActivityPolicySpec \<Rightarrow> string \<Rightarrow> string \<Rightarrow> int \<Rightarrow> ScopeContext \<Rightarrow> preview_failure + PolicyPreviewInput list" where
  "fetchEventSamples cfg codec decode encodeEvent conn now policy startTime endTime limit scope =
     (case QueryEvents cfg codec decode conn now (eventSampleSpec policy startTime endTime limit) scope of
        Inl e \<Rightarrow> Inl (PreviewFetch ''event'' e)
      | Inr (events, _) \<Rightarrow> encodeSamples encodeEvent events)"

record 'e preview_store =
  pstConfig :: StorageConfig
  pstCompile :: "string \<Rightarrow> filter_compile"
  pstAuditCodec :: "cursorData json_codec"
  pstDecodeAudit :: "string \<Rightarrow> StoredAudit option"
  pstEventCodec :: "eventQueryCursorData json_codec"
  pstDecodeEvent :: "string \<Rightarrow> 'e option"
  pstEncodeEvent :: "'e \<Rightarrow> json_text option"
  pstConn :: driver

text \<open>\<open>clock 0\<close> is the time of the request, the later readings those of the two queries.\<close>

definition autoFetchInputs ::
  "'e preview_store \<Rightarrow> (nat \<Rightarrow> instant) \<Rightarrow> ActivityPolicySpec \<Rightarrow> AutoFetchSpec \<Rightarrow> ScopeContext \<Rightarrow> preview_failure + PolicyPreviewInput list" where
  "autoFetchInputs store clock policy af scope =
     (let timeRange = (if afTimeRange af = '''' then ''24h'' else afTimeRange af)
      in case ParseFlexibleTime (timeRangeExpr timeRange) (clock 0) of
           Inl e \<Rightarrow> Inl (PreviewBadRange e)
         | Inr start \<Rightarrow>
             (let startTime = formatRFC3339 start; endTime = formatRFC3339 (clock 0);
                  limit = (if afLimit af = 0 then 10 else afLimit af);
                  sources = (if afSources af = '''' then ''both'' else afSources af)
              in bind_r (if (sources = ''audit'' \<or> sources = ''both'') \<and> psAuditRules policy \<noteq> []
                         then fetchAuditLogSamples (pstConfig store) (pstCompile store) (pstAuditCodec store) (pstDecodeAudit store) (pstConn store)
                                (clock 1) policy startTime endTime limit scope
                         else Inr []) (\<lambda>audits.
                   bind_r (if (sources = ''events'' \<or> sources = ''both'') \<and> psEventRules policy \<noteq> []
                           then fetchEventSamples (pstConfig store) (pstEventCodec store) (pstDecodeEvent store) (pstEncodeEvent store) (pstConn store)
                                  (clock 2) policy startTime endTime limit scope
                           else Inr []) (\<lambda>events. Inr (audits @ events)))))"

text \<open>The handler. The user of the request plays no part in it: samples are fetched in the platform's scope.\<close>

definition CreatePolicyPreview ::
  "('a, 'p) cel_engine \<Rightarrow> (string \<Rightarrow> string list) \<Rightarrow> (AuditEvent \<Rightarrow> string + gomap) \<Rightarrow> 'e preview_store \<Rightarrow> (nat \<Rightarrow> instant) \<Rightarrow>
   PolicyPreviewSpec \<Rightarrow> preview_failure + PolicyPreviewStatus" where
  "CreatePolicyPreview eng dnsErrs toMap store clock spec =
     (let errs = validatePolicyPreview eng dnsErrs (clock 0) spec
      in if errs \<noteq> [] then Inl (PreviewInvalid errs)
         else (case ppAutoFetch spec of
                 None \<Rightarrow> Inr (evaluatePolicy eng toMap (ppPolicy spec) (\<lambda>i. clock (4 + i)) (ppInputs spec))
               | Some af \<Rightarrow>
                   bind_r (autoFetchInputs store (\<lambda>i. clock (1 + i)) (ppPolicy spec) af platformScope) (\<lambda>fetched.
                     Inr ((evaluatePolicy eng toMap (ppPolicy spec) (\<lambda>i. clock (4 + i)) fetched)\<lparr>pvFetchedInputs := fetched\<rparr>))))"


section \<open>The results\<close>

lemma previewLoop_results:
  "pvResults (previewLoop eng toMap spec clock i inputs st)
     = pvResults st @ map (\<lambda>(k, input). inputResult k (evaluateInput eng toMap spec input (clock k))) (enumerate i inputs)
   \<and> pvActivities (previewLoop eng toMap spec clock i inputs st)
     = pvActivities st @ concat (map (\<lambda>(k, input). case evaluateInput eng toMap spec input (clock k) of
          Inr r \<Rightarrow> (case erActivity r of Some a \<Rightarrow> [a] | None \<Rightarrow> []) | Inl _ \<Rightarrow> []) (enumerate i inputs))"
  by (induction inputs arbitrary: i st) (simp_all add: Let_def)

lemma inputResult_matched:
  "prvMatched (inputResult k outcome) \<longleftrightarrow> (\<exists>r a. outcome = Inr r \<and> erActivity r = Some a)"
  by (auto simp: inputResult_def Let_def split: sum.splits)

text \<open>The rule with index \<open>k\<close> is the first of its kind that holds for the input.\<close>

definition firstRuleFor :: "('a, 'p) cel_engine \<Rightarrow> (AuditEvent \<Rightarrow> string + gomap) \<Rightarrow> ActivityPolicySpec \<Rightarrow> PolicyPreviewInput \<Rightarrow> nat \<Rightarrow> bool" where
  "firstRuleFor eng toMap spec input k \<longleftrightarrow>
     (piType input = ''audit'' \<longrightarrow> (\<exists>audit am. piAudit input = Some audit \<and> toMap audit = Inr am
        \<and> firstMatch (\<lambda>rule. EvaluateAuditMatchMap eng (ruleMatch rule) am) (psAuditRules spec) k))
     \<and> (piType input = ''event'' \<longrightarrow> (\<exists>em. (piEvent input = Some (JValue (VMap em)) \<or> piEvent input = Some (JValue VNull) \<and> em = [])
        \<and> firstMatch (\<lambda>rule. EvaluateEventMatch eng (ruleMatch rule) em) (psEventRules spec) k))"

lemma evaluateInput_selects:
  assumes "evaluateInput eng toMap spec input now = Inr r" and "erActivity r = Some a"
  shows "\<exists>k. erRuleIndex r = int k \<and> firstRuleFor eng toMap spec input k"
proof (cases "piType input = ''audit''")
  case True
  with assms obtain audit where audit: "piAudit input = Some audit" "EvaluateAuditRules eng toMap spec audit None now = Inr r"
    by (auto simp: evaluateInput_def evaluateAuditInput_def split: option.splits)
  then obtain am where am: "toMap audit = Inr am"
    "auditRulesLoop eng \<lparr>bldAPIGroup = prAPIGroup (psResource spec), bldKind = prKind (psResource spec)\<rparr> am audit None now 0 (psAuditRules spec) = Inr r"
    by (auto simp: EvaluateAuditRules_def split: sum.splits)
  with auditRulesLoop_selects [OF am(2)] audit assms(2) True show ?thesis by (auto simp: firstRuleFor_def)
next
  case False
  with assms obtain em where ev: "piType input = ''event''" "EvaluateEventRules eng spec em None now = Inr r"
      "piEvent input = Some (JValue (VMap em)) \<or> piEvent input = Some (JValue VNull) \<and> em = []"
    by (auto simp: evaluateInput_def evaluateEventInput_def noRuleMatched_def split: if_splits option.splits json_text.splits gval.splits)
  then show ?thesis
    using eventRulesLoop_selects [of eng "\<lparr>bldAPIGroup = prAPIGroup (psResource spec), bldKind = prKind (psResource spec)\<rparr>" em None now 0 "psEventRules spec" r]
      assms(2) False by (auto simp: EvaluateEventRules_def noRuleMatched_def firstRuleFor_def)
qed

lemma auditRulesLoop_names:
  "auditRulesLoop eng b am audit rk now k rules = Inr res \<Longrightarrow> erActivity res = Some a \<Longrightarrow>
    \<exists>i < length rules. erRuleIndex res = int (k + i) \<and> erRuleType res = ''audit'' \<and> erRuleName res = ruleName (rules ! i)"
proof (induction rules arbitrary: k)
  case (Cons r rules)
  from Cons.prems consider "erRuleIndex res = int k" "erRuleType res = ''audit''" "erRuleName res = ruleName r"
    | "auditRulesLoop eng b am audit rk now (Suc k) rules = Inr res" by (auto split: sum.splits if_splits)
  then show ?case
  proof cases
    case 2
    from Cons.IH [OF this Cons.prems(2)] show ?thesis by (metis Suc_less_eq add_Suc_shift length_Cons nth_Cons_Suc)
  qed auto
qed (auto simp: noRuleMatched_def)

lemma eventRulesLoop_names:
  "eventRulesLoop eng b em rk now k rules = Inr res \<Longrightarrow> erActivity res = Some a \<Longrightarrow>
    \<exists>i < length rules. erRuleIndex res = int (k + i) \<and> erRuleType res = ''event'' \<and> erRuleName res = ruleName (rules ! i)"
proof (induction rules arbitrary: k)
  case (Cons r rules)
  from Cons.prems consider "erRuleIndex res = int k" "erRuleType res = ''event''" "erRuleName res = ruleName r"
    | "eventRulesLoop eng b em rk now (Suc k) rules = Inr res" by (auto split: sum.splits if_splits)
  then show ?case
  proof cases
    case 2
    from Cons.IH [OF this Cons.prems(2)] show ?thesis by (metis Suc_less_eq add_Suc_shift length_Cons nth_Cons_Suc)
  qed auto
qed (auto simp: noRuleMatched_def)

text \<open>The rules that apply to an input.\<close>

definition rulesFor :: "ActivityPolicySpec \<Rightarrow> PolicyPreviewInput \<Rightarrow> ActivityPolicyRule list" where
  "rulesFor spec input = (if piType input = ''audit'' then psAuditRules spec else if piType input = ''event'' then psEventRules spec else [])"

lemma evaluateInput_names:
  assumes "evaluateInput eng toMap spec input now = Inr r" "erActivity r = Some a"
  shows "\<exists>k < length (rulesFor spec input). erRuleIndex r = int k \<and> erRuleType r = piType input \<and> erRuleName r = ruleName (rulesFor spec input ! k)"
proof -
  from assms consider audit am where "piType input = ''audit''" "auditRulesLoop eng \<lparr>bldAPIGroup = prAPIGroup (psResource spec), bldKind = prKind (psResource spec)\<rparr>
        am audit None now 0 (psAuditRules spec) = Inr r"
    | em where "piType input = ''event''" "eventRulesLoop eng \<lparr>bldAPIGroup = prAPIGroup (psResource spec), bldKind = prKind (psResource spec)\<rparr>
        em None now 0 (psEventRules spec) = Inr r"
    by (auto simp: evaluateInput_def evaluateAuditInput_def evaluateEventInput_def EvaluateAuditRules_def EvaluateEventRules_def noRuleMatched_def
        split: if_splits option.splits json_text.splits gval.splits sum.splits)
  then show ?thesis
    using auditRulesLoop_names [OF _ assms(2)] eventRulesLoop_names [OF _ assms(2)] by cases (fastforce simp: rulesFor_def)+
qed

lemma rulesLoop_error:
  "auditRulesLoop eng b am audit rk now k rules = Inl err \<Longrightarrow> errMsg err \<noteq> ''''"
  "eventRulesLoop eng b em rk now k rules = Inl err \<Longrightarrow> errMsg err \<noteq> ''''"
  by (induction rules arbitrary: k) (auto simp: ruleError_def wrapError_def noRuleMatched_def split: sum.splits if_splits)

lemma evaluateInput_error: "evaluateInput eng toMap spec input now = Inl err \<Longrightarrow> errMsg err \<noteq> ''''"
  by (auto simp: evaluateInput_def evaluateAuditInput_def evaluateEventInput_def EvaluateAuditRules_def EvaluateEventRules_def newError_def
      split: if_splits option.splits json_text.splits gval.splits sum.splits dest: rulesLoop_error)

text \<open>
  C17: a preview answers for every input, in the order of the inputs, and as the processor would. An
  input whose evaluation fails has the error of that evaluation as its answer, which is never empty,
  and no match; one that no rule matches has neither a match nor an error; one that a rule matches is
  marked matched, without an error, and names the index, the kind and the name of the first rule of
  its kind whose expression holds for it. The rendered activities are those of the matched inputs, in
  their order.
\<close>

theorem preview_answers_every_input:
  fixes eng :: "('a, 'p) cel_engine" and toMap spec clock inputs
  defines "outcome \<equiv> \<lambda>i. evaluateInput eng toMap spec (inputs ! i) (clock i)"
  defines "st \<equiv> evaluatePolicy eng toMap spec clock inputs"
  shows "length (pvResults st) = length inputs
    \<and> pvActivities st = List.map_filter (\<lambda>i. case outcome i of Inr e \<Rightarrow> erActivity e | Inl _ \<Rightarrow> None) [0..<length inputs]
    \<and> (\<forall>i < length inputs.
         let r = pvResults st ! i
         in prvInputIndex r = i
            \<and> (case outcome i of
                 Inl err \<Rightarrow> \<not> prvMatched r \<and> prvError r = errMsg err \<and> errMsg err \<noteq> '''' \<and> prvRuleIndex r = -1
               | Inr e \<Rightarrow>
                   prvError r = '''' \<and> (prvMatched r \<longleftrightarrow> erActivity e \<noteq> None)
                   \<and> (if prvMatched r
                      then (\<exists>k < length (rulesFor spec (inputs ! i)). prvRuleIndex r = int k \<and> firstRuleFor eng toMap spec (inputs ! i) k
                              \<and> prvRuleType r = piType (inputs ! i) \<and> prvRuleName r = ruleName (rulesFor spec (inputs ! i) ! k))
                      else prvRuleIndex r = -1 \<and> prvRuleType r = '''' \<and> prvRuleName r = '''')))"
proof (intro conjI allI impI)
  let ?out = "\<lambda>k input. evaluateInput eng toMap spec input (clock k)"
  have results: "pvResults st = map (\<lambda>(k, input). inputResult k (?out k input)) (enumerate 0 inputs)"
    by (simp add: st_def evaluatePolicy_def previewLoop_results)
  then show "length (pvResults st) = length inputs" by simp
  have some: "concat (map (\<lambda>i. case f i of Some a \<Rightarrow> [a] | None \<Rightarrow> []) is) = List.map_filter f is" for f :: "nat \<Rightarrow> Activity option" and "is"
    by (induction "is") (auto simp: List.map_filter_simps split: option.splits)
  have "pvActivities st = concat (map (\<lambda>(k, input). case ?out k input of
      Inr r \<Rightarrow> (case erActivity r of Some a \<Rightarrow> [a] | None \<Rightarrow> []) | Inl _ \<Rightarrow> []) (enumerate 0 inputs))"
    by (simp add: st_def evaluatePolicy_def previewLoop_results)
  also have "\<dots> = concat (map (\<lambda>i. case (case outcome i of Inr e \<Rightarrow> erActivity e | Inl _ \<Rightarrow> None) of Some a \<Rightarrow> [a] | None \<Rightarrow> []) [0..<length inputs])"
    by (intro arg_cong [where f = concat] nth_equalityI) (auto simp: nth_enumerate_eq outcome_def split: sum.splits)
  finally show "pvActivities st = List.map_filter (\<lambda>i. case outcome i of Inr e \<Rightarrow> erActivity e | Inl _ \<Rightarrow> None) [0..<length inputs]"
    by (simp only: some)
  fix i assume i: "i < length inputs"
  then have ri: "pvResults st ! i = inputResult i (outcome i)"
    by (simp add: results nth_enumerate_eq outcome_def)
  show "let r = pvResults st ! i
         in prvInputIndex r = i
            \<and> (case outcome i of
                 Inl err \<Rightarrow> \<not> prvMatched r \<and> prvError r = errMsg err \<and> errMsg err \<noteq> '''' \<and> prvRuleIndex r = -1
               | Inr e \<Rightarrow>
                   prvError r = '''' \<and> (prvMatched r \<longleftrightarrow> erActivity e \<noteq> None)
                   \<and> (if prvMatched r
                      then (\<exists>k < length (rulesFor spec (inputs ! i)). prvRuleIndex r = int k \<and> firstRuleFor eng toMap spec (inputs ! i) k
                              \<and> prvRuleType r = piType (inputs ! i) \<and> prvRuleName r = ruleName (rulesFor spec (inputs ! i) ! k))
                      else prvRuleIndex r = -1 \<and> prvRuleType r = '''' \<and> prvRuleName r = ''''))"
  proof (cases "outcome i")
    case (Inl err)
    with evaluateInput_error [of eng toMap spec "inputs ! i" "clock i" err] show ?thesis
      by (simp add: ri inputResult_def Let_def outcome_def)
  next
    case o: (Inr e)
    show ?thesis
    proof (cases "erActivity e")
      case None
      with o show ?thesis by (simp add: ri inputResult_def Let_def)
    next
      case (Some a)
      from evaluateInput_names [OF o [unfolded outcome_def] Some] obtain k where
        k: "k < length (rulesFor spec (inputs ! i))" "erRuleIndex e = int k" "erRuleType e = piType (inputs ! i)"
          "erRuleName e = ruleName (rulesFor spec (inputs ! i) ! k)" by blast
      moreover from evaluateInput_selects [OF o [unfolded outcome_def] Some] k(2) have "firstRuleFor eng toMap spec (inputs ! i) k" by auto
      ultimately show ?thesis using o Some by (auto simp: ri inputResult_def Let_def)
    qed
  qed
qed

definition exampleInput :: PolicyPreviewInput where
  "exampleInput = \<lparr>piType = ''audit'', piAudit = Some exampleAudit, piEvent = None\<rparr>"

theorem preview_answers_every_input_witness:
  "let st = evaluatePolicy varEngine (\<lambda>_. Inr exampleAuditMap) exampleSpec (\<lambda>_. 9) [exampleInput]
   in length (pvResults st) = 1 \<and> prvMatched (pvResults st ! 0)
      \<and> (\<exists>k. prvRuleIndex (pvResults st ! 0) = int k \<and> firstRuleFor varEngine (\<lambda>_. Inr exampleAuditMap) exampleSpec exampleInput k)"
proof -
  let ?toMap = "\<lambda>_ :: AuditEvent. Inr exampleAuditMap :: string + gomap"
  obtain e a where e: "EvaluateAuditRules varEngine ?toMap exampleSpec exampleAudit None 9 = Inr e" "erActivity e = Some a"
    using example_evaluation by (auto split: sum.splits)
  have i: "evaluateInput varEngine ?toMap exampleSpec exampleInput 9 = Inr e"
    by (simp add: evaluateInput_def evaluateAuditInput_def exampleInput_def e(1))
  note answers = preview_answers_every_input [where inputs = "[exampleInput]" and eng = varEngine and toMap = ?toMap and spec = exampleSpec
      and clock = "\<lambda>_. 9"]
  from answers have "length (pvResults (evaluatePolicy varEngine ?toMap exampleSpec (\<lambda>_. 9) [exampleInput])) = 1" by simp
  moreover have m: "prvMatched (pvResults (evaluatePolicy varEngine ?toMap exampleSpec (\<lambda>_. 9) [exampleInput]) ! 0)"
    using answers i e(2) by (simp add: Let_def)
  moreover have "\<exists>k. prvRuleIndex (pvResults (evaluatePolicy varEngine ?toMap exampleSpec (\<lambda>_. 9) [exampleInput]) ! 0) = int k
      \<and> firstRuleFor varEngine ?toMap exampleSpec exampleInput k"
    using answers [THEN conjunct2, THEN conjunct2, rule_format, of 0] m i by (auto simp: Let_def)
  ultimately show ?thesis by (simp only: Let_def simp_thms)
qed

section \<open>Samples\<close>

text \<open>The scope columns of a row, rewritten.\<close>

definition reassign :: "(row \<Rightarrow> string \<times> string) \<Rightarrow> row \<Rightarrow> row" where
  "reassign owner r =
     r\<lparr>rowCol := (rowCol r)(''scope_type'' := AString (fst (owner r)), ''scope_name'' := AString (snd (owner r)))\<rparr>"

lemma reassign_sel [simp]:
  "rowJSON (reassign owner r) = rowJSON r"
  "c \<noteq> ''scope_type'' \<Longrightarrow> c \<noteq> ''scope_name'' \<Longrightarrow> rowCol (reassign owner r) c = rowCol r c"
  by (simp_all add: reassign_def)

text \<open>The condition tests no scope.\<close>

definition scopeFree :: "sql_cond \<Rightarrow> bool" where
  "scopeFree c = (case c of
     CCompare column _ _ \<Rightarrow> column \<noteq> ''scope_type'' \<and> column \<noteq> ''scope_name''
   | CNotEmpty column \<Rightarrow> column \<noteq> ''scope_type'' \<and> column \<noteq> ''scope_name''
   | CAfterCursor tie _ _ \<Rightarrow> tie \<noteq> ''scope_type'' \<and> tie \<noteq> ''scope_name''
   | _ \<Rightarrow> True)"

text \<open>The meaning of filters and searches does not look at the scope of a row.\<close>

definition scopeBlind :: "sql_semantics \<Rightarrow> bool" where
  "scopeBlind sem \<longleftrightarrow> (\<forall>sql args owner r. semFilter sem sql args (reassign owner r) = semFilter sem sql args r)
     \<and> (\<forall>ts owner r. semSearch sem ts (reassign owner r) = semSearch sem ts r)"

lemma condHolds_reassign:
  assumes "scopeBlind sem" and "scopeFree c"
  shows "condHolds sem (reassign owner r) c = condHolds sem r c"
  using assms by (cases c) (auto simp: condHolds_def scopeFree_def scopeBlind_def Let_def)

lemma insort_key_map: "insort_key f (g x) (map g xs) = map g (insort_key (f \<circ> g) x xs)"
  by (induction xs) simp_all

lemma sort_key_map: "sort_key f (map g xs) = map g (sort_key (f \<circ> g) xs)"
  by (induction xs) (simp_all add: insort_key_map [unfolded comp_def] sort_key_def comp_def)

lemma tableDriver_reassign:
  assumes "scopeBlind sem" and "list_all scopeFree (sqConds q)" and "''scope_type'' \<notin> set (sqOrder q)" "''scope_name'' \<notin> set (sqOrder q)"
  shows "tableDriver sem (map (reassign owner) table) q = tableDriver sem table q"
proof -
  have sel: "selected sem q (map (reassign owner) table) = map (reassign owner) (selected sem q table)"
    using condHolds_reassign [OF assms(1)] assms(2)
    by (auto simp: selected_def filter_map comp_def list_all_iff intro!: filter_cong arg_cong [where f = "map (reassign owner)"])
  have "orderKey sem (sqOrder q) \<circ> reassign owner = orderKey sem (sqOrder q)"
  proof
    fix r
    have "orderValue sem (reassign owner r) c = orderValue sem r c" if "c \<in> set (sqOrder q)" for c
    proof -
      have "c \<noteq> ''scope_type''" "c \<noteq> ''scope_name''" using that assms(3,4) by auto
      then show ?thesis by (simp add: orderValue_def)
    qed
    then show "(orderKey sem (sqOrder q) \<circ> reassign owner) r = orderKey sem (sqOrder q) r" by (simp add: orderKey_def)
  qed
  then have "runQuery sem (map (reassign owner) table) q = map (reassign owner) (runQuery sem table q)"
    by (simp add: runQuery_def ordered_def sel sort_key_map rev_map take_map drop_map split: option.splits)
  then show ?thesis by (simp add: tableDriver_def)
qed


lemma filterConds_scopeFree: "filterConds conv f = Inr cs \<Longrightarrow> list_all scopeFree cs"
  by (auto simp: filterConds_def scopeFree_def bind_r_eq_Inr split: if_splits sum.splits prod.splits)

lemma timeConds_scopeFree:
  "timeConds column s e now = Inr cs \<Longrightarrow> column \<noteq> ''scope_type'' \<Longrightarrow> column \<noteq> ''scope_name'' \<Longrightarrow> list_all scopeFree cs"
  by (auto simp: timeConds_def timeCond_def bind_r_eq_Inr scopeFree_def split: if_splits sum.splits)

lemma selectorConds_scopeFree:
  assumes "selectorConds s = Inr cs"
  shows "list_all scopeFree cs"
proof -
  have "list_all (\<lambda>c. c \<noteq> ''scope_type'' \<and> c \<noteq> ''scope_name'') (map snd EventsFieldSelectors)" by (simp add: EventsFieldSelectors_def)
  then have "c \<noteq> ''scope_type'' \<and> c \<noteq> ''scope_name''" if "c \<in> snd ` set EventsFieldSelectors" for c
    using that by (auto simp: list_all_iff)
  with assms parseSelectorParts_columns show ?thesis
    by (fastforce simp: selectorConds_def ParseFieldSelector_def scopeFree_def list_all_iff split: if_splits sum.splits)
qed

lemma platform_audit_query:
  assumes "buildQuery cfg celc codec now now' spec platformScope = Inr q"
  shows "list_all scopeFree (sqConds q) \<and> ''scope_type'' \<notin> set (sqOrder q) \<and> ''scope_name'' \<notin> set (sqOrder q)"
proof -
  obtain times filters cursor where "timeConds ''timestamp'' (aqStartTime spec) (aqEndTime spec) now = Inr times"
    "filterConds (ConvertToClickHouseSQL celc) (aqFilter spec) = Inr filters" "auditCursorConds codec now' spec = Inr cursor"
    "sqConds q = auditScopeConds platformScope @ times @ filters @ cursor" "sqOrder q = auditOrder platformScope (aqFilter spec)"
    using assms by (auto simp: buildQuery_def bind_r_eq_Inr)
  moreover from this have "list_all scopeFree cursor"
    by (auto simp: auditCursorConds_def scopeFree_def split: if_splits sum.splits)
  ultimately show ?thesis
    using timeConds_scopeFree filterConds_scopeFree
    by (simp add: auditScopeConds_def auditOrder_def platformScope_def tenant_type_defs)
qed

lemma platform_event_query:
  assumes "buildEventQuery cfg codec now now' spec platformScope = Inr q"
  shows "list_all scopeFree (sqConds q) \<and> ''scope_type'' \<notin> set (sqOrder q) \<and> ''scope_name'' \<notin> set (sqOrder q)"
proof -
  obtain times sel where "timeConds ''last_timestamp'' (eqStartTime spec) (eqEndTime spec) now = Inr times"
    "selectorConds (eqFieldSelector spec) = Inr sel"
    "sqConds q = buildScopeConditions platformScope
              @ (if eqNamespace spec = '''' then [] else [CCompare ''namespace'' ''='' (AString (eqNamespace spec))]) @ times @ sel"
    "sqOrder q = buildEventQueryOrderBy platformScope"
    using assms by (auto simp: buildEventQuery_def eventBaseConds_def bind_r_eq_Inr)
  then show ?thesis
    using timeConds_scopeFree selectorConds_scopeFree
    by (simp add: buildScopeConditions_def buildEventQueryOrderBy_def platformScope_def scopeFree_def)
qed

text \<open>
  C40: a preview with automatic samples reads the records of every tenant. Whatever the identity of
  the request, the samples are fetched in the platform's scope, so that handing any stored audit log
  or event to another tenant changes nothing in the answer: the caller is shown the same records.
\<close>

theorem preview_samples_cross_tenants:
  assumes "scopeBlind sem"
  shows "CreatePolicyPreview eng dnsErrs toMap (store\<lparr>pstConn := tableDriver sem (map (reassign owner) table)\<rparr>) clock spec
       = CreatePolicyPreview eng dnsErrs toMap (store\<lparr>pstConn := tableDriver sem table\<rparr>) clock spec"
proof -
  let ?conn = "tableDriver sem (map (reassign owner) table)"
  have a: "QueryAuditLogs cfg celc codec decode ?conn now spec platformScope = QueryAuditLogs cfg celc codec decode (tableDriver sem table) now spec platformScope"
    for cfg celc codec and decode :: "string \<Rightarrow> StoredAudit option" and now spec
    using platform_audit_query [of cfg celc codec now now spec] tableDriver_reassign [OF assms, of _ owner table]
    by (cases "buildQuery cfg celc codec now now spec platformScope") (simp_all add: QueryAuditLogs_def)
  have e: "QueryEvents cfg codec decode ?conn now spec platformScope = QueryEvents cfg codec decode (tableDriver sem table) now spec platformScope"
    for cfg codec and decode :: "string \<Rightarrow> 'z option" and now spec
    using platform_event_query [of cfg codec now now spec] tableDriver_reassign [OF assms, of _ owner table]
    by (cases "buildEventQuery cfg codec now now spec platformScope") (simp_all add: QueryEvents_def)
  have f: "autoFetchInputs (store\<lparr>pstConn := ?conn\<rparr>) ck policy af platformScope
      = autoFetchInputs (store\<lparr>pstConn := tableDriver sem table\<rparr>) ck policy af platformScope" for ck policy af
    unfolding autoFetchInputs_def fetchAuditLogSamples_def fetchEventSamples_def by (cases store) (simp only: preview_store.update_convs preview_store.select_convs a e)
  show ?thesis unfolding CreatePolicyPreview_def f ..
qed


text \<open>A store with one audit log, which belongs to the project \<open>q\<close>.\<close>

definition sampleStore :: "unit preview_store" where
  "sampleStore =
     \<lparr>pstConfig = sampleCfg, pstCompile = sampleCompile, pstAuditCodec = noCodec,
      pstDecodeAudit = (\<lambda>_. Some \<lparr>saStageTimestamp = 0, saAuditID = ''a1'', saEvent = exampleAudit\<rparr>), pstEventCodec = noCodec,
      pstDecodeEvent = (\<lambda>_. None), pstEncodeEvent = (\<lambda>_. None), pstConn = (\<lambda>_. Inl ''closed'')\<rparr>"

definition othersLog :: row where
  "othersLog =
     \<lparr>rowCol = (\<lambda>c. if c = ''timestamp'' then ATime (86400 * second) else if c = ''scope_type'' then AString ''project''
        else if c = ''scope_name'' then AString ''q'' else AString ''''), rowJSON = ''{}''\<rparr>"

definition samplePreview :: PolicyPreviewSpec where
  "samplePreview = \<lparr>ppPolicy = exampleSpec, ppInputs = [], ppAutoFetch = Some \<lparr>afLimit = 5, afTimeRange = ''24h'', afSources = ''audit''\<rparr>\<rparr>"


lemma sampleStore_fetches:
  "\<exists>e. fetchAuditLogSamples sampleCfg sampleCompile noCodec (pstDecodeAudit sampleStore) (tableDriver sampleSem [othersLog]) (90000 * second)
     exampleSpec ''1970-01-01T01:00:00Z'' ''1970-01-02T01:00:00Z'' 5 platformScope = Inr [e]"
proof -
  have times: "ParseFlexibleTime ''1970-01-01T01:00:00Z'' (90000 * second) = Inr (3600 * second)"
    "ParseFlexibleTime ''1970-01-02T01:00:00Z'' (90000 * second) = Inr (90000 * second)" by code_simp+
  have "case filterConds (ConvertToClickHouseSQL sampleCompile) (auditSampleFilter exampleSpec) of Inr [CFilter a b] \<Rightarrow> True | _ \<Rightarrow> False"
    by code_simp
  then obtain a b where conds: "filterConds (ConvertToClickHouseSQL sampleCompile) (auditSampleFilter exampleSpec) = Inr [CFilter a b]"
    by (auto split: sum.splits list.splits sql_cond.splits)
  obtain q where q: "buildQuery sampleCfg sampleCompile noCodec (90000 * second) (90000 * second)
      (auditSampleSpec exampleSpec ''1970-01-01T01:00:00Z'' ''1970-01-02T01:00:00Z'' 5) platformScope = Inr q"
    and c: "sqConds q = [CCompare ''timestamp'' ''>='' (ATime (3600 * second)), CCompare ''timestamp'' ''<'' (ATime (90000 * second)), CFilter a b]"
      "sqLimit q = 6" "sqOffset q = None"
    by (simp add: buildQuery_def auditSampleSpec_def timeConds_def timeCond_def times conds auditCursorConds_def auditScopeConds_def
        platformScope_def tenant_type_defs sampleCfg_def pageLimit_def wrap32_def)
  have "runQuery sampleSem [othersLog] q = [othersLog]"
    by (simp add: runQuery_def selected_def ordered_def c condHolds_def othersLog_def sampleSem_def second_def)
  then have "tableDriver sampleSem [othersLog] q = Inr \<lparr>qrRows = [Some (rowJSON othersLog)], qrErr = False\<rparr>" by (simp add: tableDriver_def)
  then show ?thesis
    by (simp add: fetchAuditLogSamples_def QueryAuditLogs_def q readRows_def sampleStore_def)
      (simp add: cutPage_def pageLimit_def sampleCfg_def auditSampleSpec_def)
qed

theorem preview_samples_cross_tenants_witness:
  "\<exists>st. CreatePolicyPreview varEngine (\<lambda>_. []) (\<lambda>_. Inl ''none'') (sampleStore\<lparr>pstConn := tableDriver sampleSem (map (reassign (\<lambda>_. (''organization'', ''other''))) [othersLog])\<rparr>)
       (\<lambda>_. 90000 * second) samplePreview = Inr st
     \<and> length (pvFetchedInputs st) = 1"
proof -
  have blind: "scopeBlind sampleSem" by (simp add: scopeBlind_def sampleSem_def)
  have valid: "validatePolicyPreview varEngine (\<lambda>_. []) (90000 * second) samplePreview = []" by code_simp
  have range: "ParseFlexibleTime ''now-24h'' (90000 * second) = Inr (3600 * second)" "formatRFC3339 (3600 * second) = ''1970-01-01T01:00:00Z''"
    "formatRFC3339 (90000 * second) = ''1970-01-02T01:00:00Z''" by code_simp+
  obtain e where e: "fetchAuditLogSamples sampleCfg sampleCompile noCodec (pstDecodeAudit sampleStore) (tableDriver sampleSem [othersLog]) (90000 * second)
     exampleSpec ''1970-01-01T01:00:00Z'' ''1970-01-02T01:00:00Z'' 5 platformScope = Inr [e]" using sampleStore_fetches by blast
  have "autoFetchInputs (sampleStore\<lparr>pstConn := tableDriver sampleSem [othersLog]\<rparr>) (\<lambda>_. 90000 * second) exampleSpec
      \<lparr>afLimit = 5, afTimeRange = ''24h'', afSources = ''audit''\<rparr> platformScope = Inr [e]"
    using e by (simp add: autoFetchInputs_def timeRangeExpr_def hasPrefix_def range sampleStore_def Let_def exampleSpec_def)
  then show ?thesis
    unfolding preview_samples_cross_tenants [OF blind] by (simp add: CreatePolicyPreview_def valid) (simp add: samplePreview_def)
qed


text \<open>
  Automatic samples never include an event about an object of a named API group. The selector
  asks for events whose \<open>regarding.apiVersion\<close> is the group alone, while the API version of such an
  object is its group, a slash and a version.
\<close>

theorem grouped_events_never_sampled:
  assumes "buildEventQuery cfg codec now now' (eventSampleSpec policy startTime endTime limit) scope = Inr q"
    and "prAPIGroup (psResource policy) = grp" and "grp \<noteq> ''''" and "selectorValue grp" and "CHR ''/'' \<notin> set grp"
    and "rowCol r ''regarding_api_version'' = AString (g @ ''/'' @ v)"
  shows "r \<notin> set (runQuery sem table q)"
proof
  assume "r \<in> set (runQuery sem table q)"
  then have r: "condHolds sem r c" if "c \<in> set (sqConds q)" for c
    using that selected_conds runQuery_selected by blast
  let ?groupTerm = "(''regarding.apiVersion'', grp)"
  let ?more = "selectorText (''regarding.kind'', prKind (psResource policy)) # concat (map (extractEventFiltersFromCEL \<circ> ruleMatch) (psEventRules policy))"
  have et: "eventTerm ?groupTerm"
    using assms(3,4) by (simp add: eventTerm_def celName_def isWordChar_def EventsFieldSelectorAliases_def EventsFieldSelectors_def)
  have sel: "eventSampleSelector policy = selectorText ?groupTerm @ '','' @ joinStr '','' ?more"
    using assms(2,3) by (simp add: eventSampleSelector_def)
  have "splitByte (CHR '','') (eventSampleSelector policy) = selectorText ?groupTerm # splitByte (CHR '','') (joinStr '','' ?more)"
    using splitByte_token [OF eventTerm_no_comma [OF et]] by (simp add: sel)
  moreover obtain cs where cs: "selectorConds (eventSampleSelector policy) = Inr cs" "set cs \<subseteq> set (sqConds q)"
  proof -
    obtain times cs where "selectorConds (eventSampleSelector policy) = Inr cs" "sqConds q = buildScopeConditions scope @ times @ cs"
      using assms(1) by (auto simp: buildEventQuery_def eventBaseConds_def eventSampleSpec_def bind_r_eq_Inr)
    then show ?thesis by (intro that) auto
  qed
  moreover have "eventSampleSelector policy \<noteq> ''''" by (simp add: sel)
  ultimately obtain terms where "parseSelectorParts (selectorText ?groupTerm # splitByte (CHR '','') (joinStr '','' ?more)) = Inr terms"
    and conds: "cs = map (\<lambda>t. CCompare (fstColumn t) (case fstOperator t of FieldSelectorNotEqual \<Rightarrow> ''!='' | FieldSelectorEqual \<Rightarrow> ''='')
                       (AString (fstValue t))) terms"
    by (auto simp: selectorConds_def ParseFieldSelector_def split: sum.splits simp del: parseSelectorParts.simps)
  then have "eventTermOf ?groupTerm \<in> set terms"
    by (auto simp: parseSelectorParts_term [OF et] bind_r_eq_Inr simp del: parseSelectorParts.simps)
  then have "CCompare ''regarding_api_version'' ''='' (AString grp) \<in> set (sqConds q)"
    using cs(2) by (force simp: conds eventTermOf_def EventsFieldSelectors_def)
  from r [OF this] have "rowCol r ''regarding_api_version'' = AString grp" by (simp add: condHolds_def)
  with assms(5,6) show False by auto
qed


definition deploymentPolicy :: ActivityPolicySpec where
  "deploymentPolicy = \<lparr>psResource = \<lparr>prAPIGroup = ''apps'', prKind = ''Deployment''\<rparr>, psAuditRules = [],
     psEventRules = [\<lparr>ruleName = ''ready'', ruleMatch = ''event.reason == '' @ [dQuote] @ ''Ready'' @ [dQuote], ruleSummary = ''ready''\<rparr>]\<rparr>"

text \<open>An event about a deployment, with the reason and the kind that the policy looks for.\<close>

definition deploymentReady :: row where
  "deploymentReady =
     \<lparr>rowCol = (\<lambda>c. if c = ''last_timestamp'' then ATime (86400 * second) else if c = ''regarding_api_version'' then AString ''apps/v1''
        else if c = ''regarding_kind'' then AString ''Deployment'' else if c = ''reason'' then AString ''Ready'' else AString ''''), rowJSON = ''{}''\<rparr>"

theorem grouped_events_never_sampled_witness:
  "\<exists>q. buildEventQuery sampleCfg noCodec (90000 * second) (90000 * second)
        (eventSampleSpec deploymentPolicy ''1970-01-01T01:00:00Z'' ''1970-01-02T01:00:00Z'' 5) platformScope = Inr q
     \<and> deploymentReady \<notin> set (runQuery sampleSem [deploymentReady] q)"
proof -
  have times: "ParseFlexibleTime ''1970-01-01T01:00:00Z'' (90000 * second) = Inr (3600 * second)"
    "ParseFlexibleTime ''1970-01-02T01:00:00Z'' (90000 * second) = Inr (90000 * second)" by code_simp+
  have "isOk (selectorConds (eventSampleSelector deploymentPolicy))" by code_simp
  then obtain sel where "selectorConds (eventSampleSelector deploymentPolicy) = Inr sel" by (auto simp: isOk_iff)
  then obtain q where q: "buildEventQuery sampleCfg noCodec (90000 * second) (90000 * second)
        (eventSampleSpec deploymentPolicy ''1970-01-01T01:00:00Z'' ''1970-01-02T01:00:00Z'' 5) platformScope = Inr q"
    by (simp add: buildEventQuery_def eventBaseConds_def eventSampleSpec_def timeConds_def timeCond_def times)
  have "deploymentReady \<notin> set (runQuery sampleSem [deploymentReady] q)"
    by (rule grouped_events_never_sampled [OF q refl, where g = "''apps''" and v = "''v1''"])
      (simp_all add: deploymentPolicy_def deploymentReady_def selectorValue_def trimmed_def isSpace_def quote_defs)
  with q show ?thesis by blast
qed

text \<open>What the rules select is joined with a comma: two rules about two reasons select no event at all.\<close>

lemma selectors_of_rules_are_conjoined:
  "eventSampleSelector (deploymentPolicy\<lparr>psEventRules := map (\<lambda>v. \<lparr>ruleName = v, ruleMatch = ''event.reason == '' @ [dQuote] @ v @ [dQuote], ruleSummary = v\<rparr>) [''Ready'', ''Failed'']\<rparr>)
   = ''regarding.apiVersion=apps,regarding.kind=Deployment,reason=Ready,reason=Failed''"
  by code_simp

end
