(* ===== verification/Mcp_Tools.thy ===== *)
theory Mcp_Tools
  imports Go_Quote Cli_Commands Policy_Preview Float64
begin

text \<open>
  pkg/mcp/tools: the tools of the MCP server. Each handler resolves a client for the caller, writes
  one or two requests to the API server, and shapes the answers into an object that is marshalled as
  JSON. The client is a record of request functions and \<open>MarshalIndent\<close> is a parameter; a Go map is
  an association list in the order of insertion, and where a handler ranges over one, the order is
  another parameter. Tool descriptions and the protocol itself belong to the SDK.
\<close>

section \<open>Values, results and the client\<close>

datatype mcp_val =
    MNull
  | MStr string
  | MInt int
  | MFloat rat
  | MBool bool
  | MArr "mcp_val list"
  | MObj "(string \<times> mcp_val) list"
  | MAudits "AuditRecord list"
  | MRules "ActivityPolicyRule list"

text \<open>A slice that was declared and never appended to is nil and reads as null.\<close>

definition nilArr :: "mcp_val list \<Rightarrow> mcp_val" where
  "nilArr xs = (if xs = [] then MNull else MArr xs)"

datatype tool_result = ToolError string | ToolText string

definition jsonResult :: "(mcp_val \<Rightarrow> string + string) \<Rightarrow> mcp_val \<Rightarrow> tool_result" where
  "jsonResult marshal out =
     (case marshal out of Inl e \<Rightarrow> ToolError (''Failed to format results: '' @ e) | Inr s \<Rightarrow> ToolText s)"

text \<open>The status of an answered query, with its times as the server wrote them.\<close>

record 'e query_reply =
  rpResults :: "'e list"
  rpContinue :: string
  rpStart :: string
  rpEnd :: string

type_synonym facet_reply = "(string \<times> (string \<times> int) list) list"

text \<open>The requests a client can make; activities are asked for twice by one tool, so they are numbered.\<close>

record mcp_client =
  mcAuditLogs :: "AuditLogQuerySpec \<Rightarrow> string + AuditRecord query_reply"
  mcAuditFacets :: "FacetQuerySpec \<Rightarrow> string + facet_reply"
  mcActivities :: "nat \<Rightarrow> ActivityQuerySpec \<Rightarrow> string + Activity query_reply"
  mcActivityFacets :: "FacetQuerySpec \<Rightarrow> string + facet_reply"
  mcPolicies :: "string + PolicyObject list"
  mcPreview :: "PolicyPreviewSpec \<Rightarrow> string + PolicyPreviewStatus"
  mcEvents :: "EventQuerySpec \<Rightarrow> string + EventV1 query_reply"
  mcEventFacets :: "FacetQuerySpec \<Rightarrow> string + facet_reply"

text \<open>
  What a handler depends on besides its client: the marshaller, the decoder of preview inputs, the
  orders in which Go ranges over its maps, the zone of decoded times and \<open>strconv.IsPrint\<close>.
\<close>

record mcp_env =
  meMarshal :: "mcp_val \<Rightarrow> string + string"
  meDecodeInput :: "string \<Rightarrow> string + PolicyPreviewInput"
  meOrder :: "(string \<times> int) list \<Rightarrow> (string \<times> int) list"
  meFieldOrder :: "(string \<times> string) list \<Rightarrow> (string \<times> string) list"
  meOffset :: int
  mePrint :: "nat \<Rightarrow> bool"

text \<open>The resolver of a provider may be missing, fail, or return no client.\<close>

definition resolveClient :: "(string + mcp_client option) option \<Rightarrow> string + mcp_client" where
  "resolveClient resolver =
     (case resolver of
        None \<Rightarrow> Inl ''Activity API client is not configured''
      | Some (Inl e) \<Rightarrow> Inl e
      | Some (Inr None) \<Rightarrow> Inl ''Activity API client is not configured''
      | Some (Inr (Some c)) \<Rightarrow> Inr c)"

text \<open>A request that fails becomes a tool error; otherwise its answer is shaped and marshalled.\<close>

definition answerWith :: "mcp_env \<Rightarrow> string \<Rightarrow> string + 'r \<Rightarrow> ('r \<Rightarrow> mcp_val) \<Rightarrow> tool_result" where
  "answerWith env failure answer shape =
     (case answer of Inl e \<Rightarrow> ToolError (failure @ e) | Inr r \<Rightarrow> jsonResult (meMarshal env) (shape r))"

definition toolLimit :: "int \<Rightarrow> int \<Rightarrow> int" where
  "toolLimit dflt n = (if wrap32 n = 0 then dflt else wrap32 n)"

definition toolDefault :: "string \<Rightarrow> string \<Rightarrow> string" where
  "toolDefault dflt s = (if s = '''' then dflt else s)"

section \<open>Filters\<close>

definition celEquals :: "(nat \<Rightarrow> bool) \<Rightarrow> string \<Rightarrow> string \<Rightarrow> string" where
  "celEquals pr field v = (if v = '''' then '''' else field @ '' == '' @ goQuote pr v)"

definition activityFilter :: "string list \<Rightarrow> string" where
  "activityFilter clauses = joinStr '' && '' (filter (\<lambda>c. c \<noteq> '''') clauses)"

definition isSystemUser :: "string \<Rightarrow> bool" where
  "isSystemUser username = (hasPrefix username ''system:'' \<or> containsStr username ''serviceaccount'' \<or> containsStr username ''controller'')"

section \<open>Counting\<close>

text \<open>\<open>counts[k]++\<close>.\<close>

fun bump :: "'k \<Rightarrow> ('k \<times> int) list \<Rightarrow> ('k \<times> int) list" where
  "bump k [] = [(k, 1)]"
| "bump k ((k', n) # m) = (if k = k' then (k', n + 1) # m else (k', n) # bump k m)"

definition tally :: "'k list \<Rightarrow> ('k \<times> int) list" where
  "tally ks = fold bump ks []"

definition countsVal :: "(string \<times> int) list \<Rightarrow> mcp_val" where
  "countsVal m = MObj (map (\<lambda>(k, n). (k, MInt n)) m)"

text \<open>The sort of \<open>getTopN\<close>: every later element that counts more is exchanged with the current one.\<close>

definition exchangeStep :: "nat \<Rightarrow> ('k \<times> int) list \<Rightarrow> nat \<Rightarrow> ('k \<times> int) list" where
  "exchangeStep i xs j = (if snd (xs ! j) > snd (xs ! i) then xs[i := xs ! j, j := xs ! i] else xs)"

definition exchangePass :: "('k \<times> int) list \<Rightarrow> nat \<Rightarrow> ('k \<times> int) list" where
  "exchangePass xs i = foldl (exchangeStep i) xs [i + 1..<length xs]"

definition exchangeSort :: "('k \<times> int) list \<Rightarrow> ('k \<times> int) list" where
  "exchangeSort xs = foldl exchangePass xs [0..<length xs - 1]"

text \<open>
  \<open>make\<close> panics on a negative capacity, and on one whose bytes exceed the address space (the
  elements are pointers of eight bytes).
\<close>

definition getTopN :: "((string \<times> int) list \<Rightarrow> (string \<times> int) list) \<Rightarrow> (string \<times> int) list \<Rightarrow> int \<Rightarrow> (string \<times> int) list option" where
  "getTopN order counts n = (if n < 0 \<or> 8 * n > 2 ^ 48 then None else Some (take (nat n) (exchangeSort (order counts))))"

definition topVal :: "(string \<times> int) list \<Rightarrow> mcp_val" where
  "topVal ranked = MArr (map (\<lambda>(k, n). MObj [(''name'', MStr k), (''count'', MInt n)]) ranked)"

record activityCounts =
  cntTotal :: int
  cntActors :: "(string \<times> int) list"
  cntResourceKinds :: "(string \<times> int) list"
  cntChangeSources :: "(string \<times> int) list"

definition actorOf :: "Activity \<Rightarrow> string" where "actorOf a = actorName (specActor (actSpec a))"
definition kindOf :: "Activity \<Rightarrow> string" where "kindOf a = resKind (specResource (actSpec a))"
definition sourceOf :: "Activity \<Rightarrow> string" where "sourceOf a = specChangeSource (actSpec a)"

definition buildActivityCounts :: "Activity list \<Rightarrow> activityCounts" where
  "buildActivityCounts activities =
     \<lparr>cntTotal = int (length activities), cntActors = tally (map actorOf activities),
      cntResourceKinds = tally (map kindOf activities), cntChangeSources = tally (map sourceOf activities)\<rparr>"

text \<open>The values that only the comparison has; the entries of \<open>findNew\<close> also carry a note.\<close>

definition findNew :: "(string \<times> int) list \<Rightarrow> (string \<times> int) list \<Rightarrow> (string \<times> int) list" where
  "findNew baseline ranged = filter (\<lambda>(k, _). map_of baseline k = None) ranged"

text \<open>Float64 division and multiplication of values of either sign.\<close>

definition rndSigned :: "rat \<Rightarrow> rat" where
  "rndSigned x = (if x < 0 then - rnd64 (- x) else rnd64 x)"

definition percentOf :: "int \<Rightarrow> int \<Rightarrow> rat" where
  "percentOf part whole = rndSigned (rndSigned (of_int part / of_int whole) * 100)"

definition findIncreased :: "(string \<times> int) list \<Rightarrow> (string \<times> int) list \<Rightarrow> (string \<times> int \<times> int \<times> rat) list" where
  "findIncreased baseline ranged =
     List.map_filter (\<lambda>(k, v).
       case map_of baseline k of
         Some b \<Rightarrow> (if v > b \<and> percentOf (v - b) b \<ge> 50 then Some (k, b, v, percentOf (v - b) b) else None)
       | None \<Rightarrow> None) ranged"

definition findDecreased :: "(string \<times> int) list \<Rightarrow> (string \<times> int) list \<Rightarrow> (string \<times> int \<times> int \<times> rat) list" where
  "findDecreased ranged comparison =
     List.map_filter (\<lambda>(k, v).
       case map_of comparison k of
         Some c \<Rightarrow> (if c < v \<and> percentOf (v - c) v \<ge> 50 then Some (k, v, c, - percentOf (v - c) v) else None)
       | None \<Rightarrow> None) ranged"

definition changesVal :: "(string \<times> int \<times> int \<times> rat) list \<Rightarrow> mcp_val" where
  "changesVal changes =
     nilArr (map (\<lambda>(k, b, c, p). MObj [(''name'', MStr k), (''baseline'', MInt b), (''comparison'', MInt c), (''changePercent'', MFloat p)]) changes)"

end
