(* ===== verification/Mcp_Handlers.thy ===== *)
theory Mcp_Handlers
  imports Mcp_Tools
begin

text \<open>
  The fourteen handlers of pkg/mcp/tools/tools.go. A handler is its request, as a specification of the
  API, its output, as a function of the answer, and their composition; \<open>runTool\<close> selects it, and
  \<open>serveCall\<close> is what the server answers, with the tools it offers and the middleware that catches
  panics.
\<close>

section \<open>Audit logs and facets\<close>

record QueryAuditLogsArgs =
  qalStartTime :: string
  qalEndTime :: string
  qalFilter :: string
  qalLimit :: int

definition queryAuditLogsSpec :: "QueryAuditLogsArgs \<Rightarrow> AuditLogQuerySpec" where
  "queryAuditLogsSpec args =
     \<lparr>aqStartTime = qalStartTime args, aqEndTime = qalEndTime args, aqFilter = qalFilter args, aqLimit = toolLimit 100 (qalLimit args),
      aqContinue = ''''\<rparr>"

definition handleQueryAuditLogs :: "mcp_env \<Rightarrow> mcp_client \<Rightarrow> QueryAuditLogsArgs \<Rightarrow> tool_result" where
  "handleQueryAuditLogs env c args =
     answerWith env ''Query failed: '' (mcAuditLogs c (queryAuditLogsSpec args)) (\<lambda>r.
       MObj [(''count'', MInt (int (length (rpResults r)))), (''continue'', MStr (rpContinue r)), (''effectiveStartTime'', MStr (rpStart r)),
             (''effectiveEndTime'', MStr (rpEnd r)), (''events'', MAudits (rpResults r))])"

text \<open>The arguments of the three facet tools; events have no filter.\<close>

record FacetArgs =
  fcaFields :: "string list"
  fcaStartTime :: string
  fcaEndTime :: string
  fcaFilter :: string
  fcaLimit :: int

definition facetSpec :: "FacetArgs \<Rightarrow> FacetQuerySpec" where
  "facetSpec args =
     \<lparr>fqStartTime = toolDefault ''now-7d'' (fcaStartTime args), fqEndTime = toolDefault ''now'' (fcaEndTime args), fqFilter = fcaFilter args,
      fqFacets = map (\<lambda>f. \<lparr>ffField = f, ffLimit = toolLimit 20 (fcaLimit args)\<rparr>) (fcaFields args)\<rparr>"

text \<open>\<open>output[facet.Field] = values\<close>.\<close>

fun putKey :: "'k \<Rightarrow> 'v \<Rightarrow> ('k \<times> 'v) list \<Rightarrow> ('k \<times> 'v) list" where
  "putKey k v [] = [(k, v)]"
| "putKey k v ((k', w) # m) = (if k = k' then (k, v) # m else (k', w) # putKey k v m)"

definition facetsVal :: "facet_reply \<Rightarrow> mcp_val" where
  "facetsVal facets =
     MObj (foldl (\<lambda>m (field, vs). putKey field (MArr (map (\<lambda>(v, n). MObj [(''value'', MStr v), (''count'', MInt n)]) vs)) m) [] facets)"

definition handleGetAuditLogFacets :: "mcp_env \<Rightarrow> mcp_client \<Rightarrow> FacetArgs \<Rightarrow> tool_result" where
  "handleGetAuditLogFacets env c args = answerWith env ''Query failed: '' (mcAuditFacets c (facetSpec args)) facetsVal"

definition handleGetActivityFacets :: "mcp_env \<Rightarrow> mcp_client \<Rightarrow> FacetArgs \<Rightarrow> tool_result" where
  "handleGetActivityFacets env c args = answerWith env ''Query failed: '' (mcActivityFacets c (facetSpec args)) facetsVal"

definition handleGetEventFacets :: "mcp_env \<Rightarrow> mcp_client \<Rightarrow> FacetArgs \<Rightarrow> tool_result" where
  "handleGetEventFacets env c args = answerWith env ''Query failed: '' (mcEventFacets c ((facetSpec args)\<lparr>fqFilter := ''''\<rparr>)) facetsVal"

section \<open>Activities\<close>

record QueryActivitiesArgs =
  qacStartTime :: string
  qacEndTime :: string
  qacChangeSource :: string
  qacActorName :: string
  qacResourceKind :: string
  qacAPIGroup :: string
  qacSearch :: string
  qacLimit :: int

definition queryActivitiesClauses :: "QueryActivitiesArgs \<Rightarrow> (string \<times> string) list" where
  "queryActivitiesClauses args =
     [(''spec.changeSource'', qacChangeSource args), (''spec.actor.name'', qacActorName args), (''spec.resource.kind'', qacResourceKind args),
      (''spec.resource.apiGroup'', qacAPIGroup args)]"

definition queryActivitiesSpec :: "mcp_env \<Rightarrow> QueryActivitiesArgs \<Rightarrow> ActivityQuerySpec" where
  "queryActivitiesSpec env args =
     \<lparr>acStartTime = qacStartTime args, acEndTime = qacEndTime args, acSearch = qacSearch args,
      acFilter = activityFilter (map (\<lambda>(f, v). celEquals (mePrint env) f v) (queryActivitiesClauses args)),
      acLimit = toolLimit 100 (qacLimit args), acContinue = ''''\<rparr>"

definition activityVal :: "Activity \<Rightarrow> mcp_val" where
  "activityVal a =
     (let spec = actSpec a; r = specResource spec
      in MObj [(''name'', MStr (actName a)), (''summary'', MStr (specSummary spec)), (''changeSource'', MStr (specChangeSource spec)),
               (''actor'', MObj [(''type'', MStr (actorType (specActor spec))), (''name'', MStr (actorName (specActor spec)))]),
               (''resource'', MObj [(''apiGroup'', MStr (resAPIGroup r)), (''kind'', MStr (resKind r)), (''name'', MStr (resName r)),
                  (''namespace'', MStr (resNamespace r))]),
               (''timestamp'', MStr (formatRFC3339 (actCreationTimestamp a)))])"

definition handleQueryActivities :: "mcp_env \<Rightarrow> mcp_client \<Rightarrow> QueryActivitiesArgs \<Rightarrow> tool_result" where
  "handleQueryActivities env c args =
     answerWith env ''Query failed: '' (mcActivities c 0 (queryActivitiesSpec env args)) (\<lambda>r.
       MObj [(''count'', MInt (int (length (rpResults r)))), (''continue'', MStr (rpContinue r)), (''effectiveStartTime'', MStr (rpStart r)),
             (''effectiveEndTime'', MStr (rpEnd r)), (''activities'', MArr (map activityVal (rpResults r)))])"

section \<open>Investigation\<close>

record FindFailedOperationsArgs =
  ffoStartTime :: string
  ffoEndTime :: string
  ffoStatusCodeMin :: int
  ffoStatusCodeMax :: int
  ffoUsername :: string
  ffoResource :: string
  ffoVerb :: string
  ffoLimit :: int

definition failedOperationsFilter :: "mcp_env \<Rightarrow> FindFailedOperationsArgs \<Rightarrow> string" where
  "failedOperationsFilter env args =
     (let lo = (if ffoStatusCodeMin args = 0 then 400 else ffoStatusCodeMin args);
          hi = (if ffoStatusCodeMax args = 0 then 599 else ffoStatusCodeMax args)
      in joinStr '' && ''
           ([''responseStatus.code >= '' @ fmtInt lo, ''responseStatus.code <= '' @ fmtInt hi]
            @ (if ffoUsername args \<noteq> '''' then [celEquals (mePrint env) ''user.username'' (ffoUsername args)] else [])
            @ (if ffoResource args \<noteq> '''' then [celEquals (mePrint env) ''objectRef.resource'' (ffoResource args)] else [])
            @ (if ffoVerb args \<noteq> '''' then [celEquals (mePrint env) ''verb'' (ffoVerb args)] else [])))"

definition failedOperationsSpec :: "mcp_env \<Rightarrow> FindFailedOperationsArgs \<Rightarrow> AuditLogQuerySpec" where
  "failedOperationsSpec env args =
     \<lparr>aqStartTime = ffoStartTime args, aqEndTime = toolDefault ''now'' (ffoEndTime args), aqFilter = failedOperationsFilter env args,
      aqLimit = toolLimit 100 (ffoLimit args), aqContinue = ''''\<rparr>"

definition failureCode :: "AuditRecord \<Rightarrow> int" where
  "failureCode e = (case arStatus e of None \<Rightarrow> 0 | Some (code, _) \<Rightarrow> code)"

definition failureVal :: "AuditRecord \<Rightarrow> mcp_val" where
  "failureVal e =
     MObj ([(''timestamp'', MStr (formatRFC3339 (arReceived e))), (''user'', MStr (arUsername e)), (''verb'', MStr (arVerb e)),
            (''statusCode'', MInt (failureCode e))]
           @ (case arObjectRef e of
                Some r \<Rightarrow> [(''resource'', MStr (objResource r)), (''name'', MStr (objName r)), (''namespace'', MStr (objNamespace r))]
              | None \<Rightarrow> (if arRequestURI e \<noteq> '''' then [(''requestURI'', MStr (arRequestURI e))] else []))
           @ (case arStatus e of Some (_, msg) \<Rightarrow> (if msg \<noteq> '''' then [(''message'', MStr msg)] else []) | None \<Rightarrow> []))"

definition handleFindFailedOperations :: "mcp_env \<Rightarrow> mcp_client \<Rightarrow> FindFailedOperationsArgs \<Rightarrow> tool_result" where
  "handleFindFailedOperations env c args =
     answerWith env ''Query failed: '' (mcAuditLogs c (failedOperationsSpec env args)) (\<lambda>r.
       MObj [(''count'', MInt (int (length (rpResults r)))),
             (''byStatusCode'', countsVal (map (\<lambda>(k, n). (fmtInt k, n)) (tally (map failureCode (rpResults r))))),
             (''failures'', MArr (map failureVal (rpResults r)))])"

record GetResourceHistoryArgs =
  grhResourceUID :: string
  grhAPIGroup :: string
  grhKind :: string
  grhName :: string
  grhNamespace :: string
  grhStartTime :: string
  grhEndTime :: string
  grhLimit :: int

definition resourceHistoryClauses :: "GetResourceHistoryArgs \<Rightarrow> (string \<times> string) list" where
  "resourceHistoryClauses args =
     [(''spec.resource.uid'', grhResourceUID args), (''spec.resource.apiGroup'', grhAPIGroup args), (''spec.resource.kind'', grhKind args),
      (''spec.resource.name'', grhName args), (''spec.resource.namespace'', grhNamespace args)]"

definition resourceHistorySpec :: "mcp_env \<Rightarrow> GetResourceHistoryArgs \<Rightarrow> ActivityQuerySpec" where
  "resourceHistorySpec env args =
     \<lparr>acStartTime = toolDefault ''now-30d'' (grhStartTime args), acEndTime = toolDefault ''now'' (grhEndTime args), acSearch = '''',
      acFilter = activityFilter (map (\<lambda>(f, v). celEquals (mePrint env) f v) (resourceHistoryClauses args)),
      acLimit = toolLimit 100 (grhLimit args), acContinue = ''''\<rparr>"

definition historyEntries :: "GetResourceHistoryArgs \<Rightarrow> Activity list \<Rightarrow> Activity list" where
  "historyEntries args activities = filter (\<lambda>a. \<not> (grhName args \<noteq> '''' \<and> resName (specResource (actSpec a)) \<noteq> grhName args)) activities"

definition resourceHistoryVal :: "GetResourceHistoryArgs \<Rightarrow> Activity query_reply \<Rightarrow> mcp_val" where
  "resourceHistoryVal args r =
     (let history = historyEntries args (rpResults r);
          resource = (\<lambda>apiGroup kind name namespace.
            MObj [(''name'', MStr name), (''kind'', MStr kind), (''apiGroup'', MStr apiGroup), (''namespace'', MStr namespace)])
      in MObj [(''resource'',
                (case rpResults r of
                   [] \<Rightarrow> resource (grhAPIGroup args) (grhKind args) (grhName args) (grhNamespace args)
                 | a # _ \<Rightarrow> (let s = specResource (actSpec a) in resource (resAPIGroup s) (resKind s) (resName s) (resNamespace s)))),
               (''count'', MInt (int (length history))),
               (''timeRange'', MObj [(''start'', MStr (rpStart r)), (''end'', MStr (rpEnd r))]),
               (''history'', MArr (map (\<lambda>a.
                  MObj [(''timestamp'', MStr (formatRFC3339 (actCreationTimestamp a))), (''actor'', MStr (actorOf a)),
                        (''summary'', MStr (specSummary (actSpec a))), (''changeSource'', MStr (sourceOf a))]) history))])"

definition handleGetResourceHistory :: "mcp_env \<Rightarrow> mcp_client \<Rightarrow> GetResourceHistoryArgs \<Rightarrow> tool_result" where
  "handleGetResourceHistory env c args =
     (if grhResourceUID args = '''' \<and> grhName args = '''' then ToolError ''Either resourceUID or name is required''
      else answerWith env ''Query failed: '' (mcActivities c 0 (resourceHistorySpec env args)) (resourceHistoryVal args))"

record GetUserActivitySummaryArgs =
  usaUsername :: string
  usaStartTime :: string
  usaEndTime :: string
  usaIncludeDetails :: bool

definition userSummarySpec :: "mcp_env \<Rightarrow> GetUserActivitySummaryArgs \<Rightarrow> ActivityQuerySpec" where
  "userSummarySpec env args =
     \<lparr>acStartTime = toolDefault ''now-7d'' (usaStartTime args), acEndTime = toolDefault ''now'' (usaEndTime args), acSearch = '''',
      acFilter = celEquals (mePrint env) ''spec.actor.name'' (trimPrefix (usaUsername args) ''system:''), acLimit = 1000, acContinue = ''''\<rparr>"

text \<open>The days are formatted in the zone of the decoded time; the list ranges over a map.\<close>

definition userSummaryVal :: "mcp_env \<Rightarrow> GetUserActivitySummaryArgs \<Rightarrow> Activity query_reply \<Rightarrow> mcp_val" where
  "userSummaryVal env args r =
     (let activities = rpResults r;
          days = tally (map (\<lambda>a. formatDateOnly (meOffset env) (actCreationTimestamp a)) activities);
          recent = map (\<lambda>a. let s = specResource (actSpec a) in
            MObj [(''timestamp'', MStr (formatRFC3339 (actCreationTimestamp a))), (''summary'', MStr (specSummary (actSpec a))),
                  (''changeSource'', MStr (sourceOf a)),
                  (''resource'', MObj [(''kind'', MStr (resKind s)), (''name'', MStr (resName s)), (''namespace'', MStr (resNamespace s))])])
            (take 20 activities)
      in MObj ([(''user'', MObj [(''username'', MStr (usaUsername args))]),
                (''timeRange'', MObj [(''start'', MStr (rpStart r)), (''end'', MStr (rpEnd r))]),
                (''totalActivities'', MInt (int (length activities))),
                (''breakdown'', MObj [(''byChangeSource'', countsVal (tally (map sourceOf activities))),
                   (''byResourceKind'', countsVal (tally (map kindOf activities))),
                   (''byDay'', MArr (map (\<lambda>(day, n). MObj [(''date'', MStr day), (''count'', MInt n)]) (meOrder env days)))])]
               @ (if usaIncludeDetails args \<and> recent \<noteq> [] then [(''recentActivities'', MArr recent)] else [])))"

definition handleGetUserActivitySummary :: "mcp_env \<Rightarrow> mcp_client \<Rightarrow> GetUserActivitySummaryArgs \<Rightarrow> tool_result" where
  "handleGetUserActivitySummary env c args =
     (if usaUsername args = '''' then ToolError ''Username is required''
      else answerWith env ''Query failed: '' (mcActivities c 0 (userSummarySpec env args)) (userSummaryVal env args))"


section \<open>Analytics\<close>

record GetActivityTimelineArgs =
  gatStartTime :: string
  gatEndTime :: string
  gatBucketSize :: string
  gatChangeSource :: string

definition timelineSpec :: "mcp_env \<Rightarrow> GetActivityTimelineArgs \<Rightarrow> ActivityQuerySpec" where
  "timelineSpec env args =
     \<lparr>acStartTime = gatStartTime args, acEndTime = toolDefault ''now'' (gatEndTime args), acSearch = '''',
      acFilter = celEquals (mePrint env) ''spec.changeSource'' (gatChangeSource args), acLimit = 1000, acContinue = ''''\<rparr>"

text \<open>The name of a bucket: the hour or day in the zone of the decoded time, with a literal Z.\<close>

definition bucketOf :: "int \<Rightarrow> string \<Rightarrow> instant \<Rightarrow> string" where
  "bucketOf offset bucketSize t =
     formatDateOnly offset t
     @ (if bucketSize = ''day'' then ''T00:00:00Z'' else ''T'' @ padDigits 2 (secondsIn offset t mod 86400 div 3600) @ '':00:00Z'')"

text \<open>One step of the count: the buckets, the peak and its count.\<close>

fun peakStep :: "(string \<times> int) list \<times> string \<times> int \<Rightarrow> string \<Rightarrow> (string \<times> int) list \<times> string \<times> int" where
  "peakStep (counts, peak, n) bucket =
     (let counts' = bump bucket counts; k = the (map_of counts' bucket)
      in if k > n then (counts', bucket, k) else (counts', peak, n))"

definition countBuckets :: "string list \<Rightarrow> (string \<times> int) list \<times> string \<times> int" where
  "countBuckets buckets = foldl peakStep ([], '''', 0) buckets"

definition timelineVal :: "mcp_env \<Rightarrow> GetActivityTimelineArgs \<Rightarrow> Activity query_reply \<Rightarrow> mcp_val" where
  "timelineVal env args r =
     (let bucketSize = toolDefault ''hour'' (gatBucketSize args);
          (counts, peak, n) = countBuckets (map (\<lambda>a. bucketOf (meOffset env) bucketSize (actCreationTimestamp a)) (rpResults r));
          buckets = map (\<lambda>(b, k). MObj ([(''timestamp'', MStr b), (''count'', MInt k)] @ (if b = peak then [(''note'', MStr ''peak'')] else [])))
            (meOrder env counts)
      in MObj [(''timeRange'', MObj [(''start'', MStr (rpStart r)), (''end'', MStr (rpEnd r))]),
               (''bucketSize'', MStr bucketSize),
               (''totalCount'', MInt (int (length (rpResults r)))),
               (''buckets'', MArr buckets),
               (''peakBucket'', MObj [(''timestamp'', MStr peak), (''count'', MInt n)]),
               (''averagePerBucket'', MFloat (if buckets = [] then 0 else rnd64 (of_nat (length (rpResults r)) / of_nat (length buckets))))])"

definition handleGetActivityTimeline :: "mcp_env \<Rightarrow> mcp_client \<Rightarrow> GetActivityTimelineArgs \<Rightarrow> tool_result" where
  "handleGetActivityTimeline env c args =
     answerWith env ''Query failed: '' (mcActivities c 0 (timelineSpec env args)) (timelineVal env args)"

record SummarizeRecentActivityArgs =
  sraStartTime :: string
  sraEndTime :: string
  sraChangeSource :: string
  sraTopN :: int

definition summarizeSpec :: "mcp_env \<Rightarrow> SummarizeRecentActivityArgs \<Rightarrow> ActivityQuerySpec" where
  "summarizeSpec env args =
     \<lparr>acStartTime = sraStartTime args, acEndTime = toolDefault ''now'' (sraEndTime args), acSearch = '''',
      acFilter = celEquals (mePrint env) ''spec.changeSource'' (sraChangeSource args), acLimit = 1000, acContinue = ''''\<rparr>"

definition highlightsOf :: "int \<Rightarrow> int \<Rightarrow> int \<Rightarrow> (string \<times> int) list \<Rightarrow> (string \<times> int) list \<Rightarrow> string list" where
  "highlightsOf n human system topActors topResources =
     [fmtInt n @ '' total activities ('' @ fmtInt human @ '' human, '' @ fmtInt system @ '' system)'']
     @ (case topActors of [] \<Rightarrow> [] | (k, m) # _ \<Rightarrow> [''Most active: '' @ k @ '' ('' @ fmtInt m @ '' activities)''])
     @ (case topResources of [] \<Rightarrow> [] | (k, m) # _ \<Rightarrow> [''Most changed resource type: '' @ k @ '' ('' @ fmtInt m @ '' activities)''])"

text \<open>The output, or \<open>None\<close> where \<open>getTopN\<close> panics.\<close>

definition summarizeVal :: "mcp_env \<Rightarrow> SummarizeRecentActivityArgs \<Rightarrow> Activity query_reply \<Rightarrow> mcp_val option" where
  "summarizeVal env args r =
     (let activities = rpResults r;
          topN = (if sraTopN args = 0 then 5 else sraTopN args);
          human = int (length (filter (\<lambda>a. sourceOf a = ''human'') activities));
          system = int (length (filter (\<lambda>a. sourceOf a \<noteq> ''human'') activities))
      in case (getTopN (meOrder env) (tally (map actorOf activities)) topN, getTopN (meOrder env) (tally (map kindOf activities)) topN) of
           (Some topActors, Some topResources) \<Rightarrow>
             Some (MObj [(''timeRange'', MObj [(''start'', MStr (rpStart r)), (''end'', MStr (rpEnd r))]),
                (''totalActivities'', MInt (int (length activities))),
                (''humanChanges'', MInt human), (''systemChanges'', MInt system),
                (''highlights'', MArr (map MStr (highlightsOf (int (length activities)) human system topActors topResources))),
                (''topActors'', topVal topActors), (''topResources'', topVal topResources),
                (''recentSummaries'', nilArr (map (\<lambda>a. MStr (specSummary (actSpec a))) (take (nat topN) activities)))])
         | _ \<Rightarrow> None)"

definition handleSummarizeRecentActivity :: "mcp_env \<Rightarrow> mcp_client \<Rightarrow> SummarizeRecentActivityArgs \<Rightarrow> tool_result option" where
  "handleSummarizeRecentActivity env c args =
     (case mcActivities c 0 (summarizeSpec env args) of
        Inl e \<Rightarrow> Some (ToolError (''Query failed: '' @ e))
      | Inr r \<Rightarrow> map_option (jsonResult (meMarshal env)) (summarizeVal env args r))"

record CompareActivityPeriodsArgs =
  capBaselineStart :: string
  capBaselineEnd :: string
  capComparisonStart :: string
  capComparisonEnd :: string

definition periodSpec :: "string \<Rightarrow> string \<Rightarrow> ActivityQuerySpec" where
  "periodSpec startTime endTime =
     \<lparr>acStartTime = startTime, acEndTime = endTime, acSearch = '''', acFilter = '''', acLimit = 1000, acContinue = ''''\<rparr>"

definition changePercent :: "activityCounts \<Rightarrow> activityCounts \<Rightarrow> rat" where
  "changePercent baseline comparison =
     (if cntTotal baseline > 0 then percentOf (cntTotal comparison - cntTotal baseline) (cntTotal baseline) else 0)"

text \<open>\<open>%.0f\<close> of the absolute value: the nearest integer, ties to even.\<close>

definition analysisText :: "rat \<Rightarrow> nat \<Rightarrow> string" where
  "analysisText change newActors =
     ''Comparison period shows '' @ fmtInt (roundEven \<bar>change\<bar>) @ ''% '' @ (if change < 0 then ''less'' else ''more'') @ '' activity.''
     @ (if newActors > 0 then '' '' @ fmtInt (int newActors) @ '' new actors appeared.'' else '''')"

definition compareVal :: "mcp_env \<Rightarrow> Activity query_reply \<Rightarrow> Activity query_reply \<Rightarrow> mcp_val" where
  "compareVal env b c =
     (let bc = buildActivityCounts (rpResults b); cc = buildActivityCounts (rpResults c);
          new = findNew (cntActors bc) (meOrder env (cntActors cc));
          period = (\<lambda>r n. MObj [(''start'', MStr (rpStart r)), (''end'', MStr (rpEnd r)), (''count'', MInt n)])
      in MObj [(''baseline'', period b (cntTotal bc)), (''comparison'', period c (cntTotal cc)),
               (''changePercent'', MFloat (changePercent bc cc)),
               (''newInComparison'', nilArr (map (\<lambda>(k, n). MObj [(''name'', MStr k), (''count'', MInt n), (''note'', MStr ''Not present in baseline'')]) new)),
               (''increasedActivity'', changesVal (findIncreased (cntResourceKinds bc) (meOrder env (cntResourceKinds cc)))),
               (''decreasedActivity'', changesVal (findDecreased (meOrder env (cntResourceKinds bc)) (cntResourceKinds cc))),
               (''analysis'', MStr (analysisText (changePercent bc cc) (length new)))])"

definition handleCompareActivityPeriods :: "mcp_env \<Rightarrow> mcp_client \<Rightarrow> CompareActivityPeriodsArgs \<Rightarrow> tool_result" where
  "handleCompareActivityPeriods env c args =
     (case mcActivities c 0 (periodSpec (capBaselineStart args) (capBaselineEnd args)) of
        Inl e \<Rightarrow> ToolError (''Baseline query failed: '' @ e)
      | Inr baseline \<Rightarrow>
          answerWith env ''Comparison query failed: '' (mcActivities c 1 (periodSpec (capComparisonStart args) (capComparisonEnd args)))
            (compareVal env baseline))"

section \<open>Policies\<close>

record ListActivityPoliciesArgs =
  lapAPIGroup :: string
  lapKind :: string
  lapIncludeRules :: bool

definition policyReadiness :: "StatusCondition list \<Rightarrow> string" where
  "policyReadiness conditions =
     (case find (\<lambda>c. scType c = ''Ready'') conditions of
        None \<Rightarrow> ''Unknown''
      | Some c \<Rightarrow> (if scStatus c = ''True'' then ''Ready'' else scReason c))"

definition policyVal :: "bool \<Rightarrow> PolicyObject \<Rightarrow> mcp_val" where
  "policyVal includeRules p =
     (let spec = poSpec p
      in MObj ([(''name'', MStr (poName p)),
                (''resource'', MObj [(''apiGroup'', MStr (prAPIGroup (psResource spec))), (''kind'', MStr (prKind (psResource spec)))]),
                (''auditRuleCount'', MInt (int (length (psAuditRules spec)))), (''eventRuleCount'', MInt (int (length (psEventRules spec)))),
                (''status'', MStr (policyReadiness (poConditions p)))]
               @ (if includeRules then [(''auditRules'', MRules (psAuditRules spec)), (''eventRules'', MRules (psEventRules spec))] else [])))"

definition listedPolicies :: "ListActivityPoliciesArgs \<Rightarrow> PolicyObject list \<Rightarrow> PolicyObject list" where
  "listedPolicies args items =
     filter (\<lambda>p. \<not> (lapAPIGroup args \<noteq> '''' \<and> prAPIGroup (psResource (poSpec p)) \<noteq> lapAPIGroup args)
                \<and> \<not> (lapKind args \<noteq> '''' \<and> prKind (psResource (poSpec p)) \<noteq> lapKind args)) items"

definition policyListVal :: "ListActivityPoliciesArgs \<Rightarrow> PolicyObject list \<Rightarrow> mcp_val" where
  "policyListVal args items =
     (let policies = listedPolicies args items; n = fmtInt (int (length policies))
      in MObj [(''policies'', MArr (map (policyVal (lapIncludeRules args)) policies)),
               (''summary'', MStr (n @ '' policies covering '' @ n @ '' resource types''))])"

definition handleListActivityPolicies :: "mcp_env \<Rightarrow> mcp_client \<Rightarrow> ListActivityPoliciesArgs \<Rightarrow> tool_result" where
  "handleListActivityPolicies env c args = answerWith env ''Query failed: '' (mcPolicies c) (policyListVal args)"

record PreviewActivityPolicyArgs =
  papPolicy :: ActivityPolicySpec
  papInputs :: "string list"

fun decodeInputs :: "(string \<Rightarrow> string + PolicyPreviewInput) \<Rightarrow> nat \<Rightarrow> string list \<Rightarrow> string + PolicyPreviewInput list" where
  "decodeInputs decode i [] = Inr []"
| "decodeInputs decode i (raw # raws) =
     (case decode raw of
        Inl e \<Rightarrow> Inl (''Invalid input at index '' @ fmtInt (int i) @ '': '' @ e)
      | Inr input \<Rightarrow> bind_r (decodeInputs decode (Suc i) raws) (\<lambda>inputs. Inr (input # inputs)))"

definition previewResultVal :: "PolicyPreviewInputResult \<Rightarrow> mcp_val" where
  "previewResultVal r =
     MObj ([(''inputIndex'', MInt (int (prvInputIndex r))), (''matched'', MBool (prvMatched r))]
           @ (if prvMatched r then [(''matchedRule'', MObj [(''type'', MStr (prvRuleType r)), (''index'', MInt (prvRuleIndex r))])] else [])
           @ (if prvError r \<noteq> '''' then [(''error'', MStr (prvError r))] else []))"

definition previewActivityVal :: "Activity \<Rightarrow> mcp_val" where
  "previewActivityVal a =
     (let spec = actSpec a
      in MObj [(''summary'', MStr (specSummary spec)),
               (''actor'', MObj [(''type'', MStr (actorType (specActor spec))), (''name'', MStr (actorName (specActor spec)))]),
               (''resource'', MObj [(''kind'', MStr (resKind (specResource spec))), (''name'', MStr (resName (specResource spec)))])])"

definition handlePreviewActivityPolicy :: "mcp_env \<Rightarrow> mcp_client \<Rightarrow> PreviewActivityPolicyArgs \<Rightarrow> tool_result" where
  "handlePreviewActivityPolicy env c args =
     (case decodeInputs (meDecodeInput env) 0 (papInputs args) of
        Inl e \<Rightarrow> ToolError e
      | Inr inputs \<Rightarrow>
          (case mcPreview c \<lparr>ppPolicy = papPolicy args, ppInputs = inputs, ppAutoFetch = None\<rparr> of
             Inl e \<Rightarrow> ToolError (''Preview failed: '' @ e)
           | Inr st \<Rightarrow>
               if pvError st \<noteq> '''' then ToolError (''Preview error: '' @ pvError st)
               else jsonResult (meMarshal env)
                 (MObj [(''results'', MArr (map previewResultVal (pvResults st))), (''activities'', MArr (map previewActivityVal (pvActivities st)))])))"

section \<open>Events\<close>

record QueryEventsArgs =
  qevStartTime :: string
  qevEndTime :: string
  qevNamespace :: string
  qevRegardingKind :: string
  qevRegardingName :: string
  qevReason :: string
  qevType :: string
  qevSourceComponent :: string
  qevLimit :: int

text \<open>The check ranges over a map of the arguments by name; the first bad one in that order is reported.\<close>

definition eventArgs :: "QueryEventsArgs \<Rightarrow> (string \<times> string) list" where
  "eventArgs args =
     [(''regardingKind'', qevRegardingKind args), (''regardingName'', qevRegardingName args), (''reason'', qevReason args),
      (''type'', qevType args), (''sourceComponent'', qevSourceComponent args)]"

definition badSelectorValue :: "string \<Rightarrow> bool" where
  "badSelectorValue v = list_ex (\<lambda>c. c = CHR '','' \<or> c = CHR ''='' \<or> c = CHR ''!'') v"

definition eventClauses :: "QueryEventsArgs \<Rightarrow> (string \<times> string) list" where
  "eventClauses args =
     shorthandClauses [(''regarding.kind'', qevRegardingKind args), (''regarding.name'', qevRegardingName args), (''reason'', qevReason args),
       (''type'', qevType args), (''source.component'', qevSourceComponent args)]"

definition queryEventsSpec :: "QueryEventsArgs \<Rightarrow> EventQuerySpec" where
  "queryEventsSpec args =
     \<lparr>eqStartTime = qevStartTime args, eqEndTime = qevEndTime args, eqNamespace = qevNamespace args,
      eqFieldSelector = joinStr '','' (map selectorText (eventClauses args)), eqLimit = toolLimit 100 (qevLimit args), eqContinue = ''''\<rparr>"

definition eventTimestamp :: "EventV1 \<Rightarrow> (string \<times> mcp_val) list" where
  "eventTimestamp e =
     (let own = (if isZeroTime (evEventTime e) then [] else [(''timestamp'', MStr (formatRFC3339 (evEventTime e)))])
      in case evSeries e of
           Some s \<Rightarrow> (if isZeroTime (serLastObserved s) then own else [(''timestamp'', MStr (formatRFC3339 (serLastObserved s)))])
         | None \<Rightarrow> own)"

definition eventVal :: "EventV1 \<Rightarrow> mcp_val" where
  "eventVal e =
     (let r = evRegarding e
      in MObj ([(''name'', MStr (evName e)), (''namespace'', MStr (evNamespace e)), (''type'', MStr (evType e)), (''reason'', MStr (evReason e)),
                (''message'', MStr (evNote e))]
               @ (if refName r \<noteq> '''' \<or> refKind r \<noteq> ''''
                  then [(''regarding'', MObj [(''kind'', MStr (refKind r)), (''name'', MStr (refName r)), (''namespace'', MStr (refNamespace r))])] else [])
               @ [(''source'', MObj [(''component'', MStr (evReportingController e)), (''host'', MStr (evReportingInstance e))]),
                  (''count'', MInt (case evSeries e of Some s \<Rightarrow> serCount s | None \<Rightarrow> 1))]
               @ eventTimestamp e))"

definition handleQueryEvents :: "mcp_env \<Rightarrow> mcp_client \<Rightarrow> QueryEventsArgs \<Rightarrow> tool_result" where
  "handleQueryEvents env c args =
     (case find (\<lambda>(_, v). badSelectorValue v) (meFieldOrder env (eventArgs args)) of
        Some (name, v) \<Rightarrow> ToolError (''Invalid '' @ name @ '' '' @ goQuote (mePrint env) v @ '': values may not contain '' @ [sQuote] @ '','' @ [sQuote]
            @ '', '' @ [sQuote] @ ''='' @ [sQuote] @ '' or '' @ [sQuote] @ ''!'' @ [sQuote])
      | None \<Rightarrow>
          answerWith env ''Query failed: '' (mcEvents c (queryEventsSpec args)) (\<lambda>r.
            MObj [(''count'', MInt (int (length (rpResults r)))), (''continue'', MStr (rpContinue r)), (''effectiveStartTime'', MStr (rpStart r)),
                  (''effectiveEndTime'', MStr (rpEnd r)), (''events'', MArr (map eventVal (rpResults r)))]))"

section \<open>The server\<close>

datatype tool_call =
    CallQueryAuditLogs QueryAuditLogsArgs
  | CallGetAuditLogFacets FacetArgs
  | CallQueryActivities QueryActivitiesArgs
  | CallGetActivityFacets FacetArgs
  | CallFindFailedOperations FindFailedOperationsArgs
  | CallGetResourceHistory GetResourceHistoryArgs
  | CallGetUserActivitySummary GetUserActivitySummaryArgs
  | CallGetActivityTimeline GetActivityTimelineArgs
  | CallSummarizeRecentActivity SummarizeRecentActivityArgs
  | CallCompareActivityPeriods CompareActivityPeriodsArgs
  | CallListActivityPolicies ListActivityPoliciesArgs
  | CallPreviewActivityPolicy PreviewActivityPolicyArgs
  | CallQueryEvents QueryEventsArgs
  | CallGetEventFacets FacetArgs

fun toolName :: "tool_call \<Rightarrow> string" where
  "toolName (CallQueryAuditLogs _) = ''query_audit_logs''"
| "toolName (CallGetAuditLogFacets _) = ''get_audit_log_facets''"
| "toolName (CallQueryActivities _) = ''query_activities''"
| "toolName (CallGetActivityFacets _) = ''get_activity_facets''"
| "toolName (CallFindFailedOperations _) = ''find_failed_operations''"
| "toolName (CallGetResourceHistory _) = ''get_resource_history''"
| "toolName (CallGetUserActivitySummary _) = ''get_user_activity_summary''"
| "toolName (CallGetActivityTimeline _) = ''get_activity_timeline''"
| "toolName (CallSummarizeRecentActivity _) = ''summarize_recent_activity''"
| "toolName (CallCompareActivityPeriods _) = ''compare_activity_periods''"
| "toolName (CallListActivityPolicies _) = ''list_activity_policies''"
| "toolName (CallPreviewActivityPolicy _) = ''preview_activity_policy''"
| "toolName (CallQueryEvents _) = ''query_events''"
| "toolName (CallGetEventFacets _) = ''get_event_facets''"

text \<open>What the handler of a tool does with a client, \<open>None\<close> when it panics.\<close>

fun handleTool :: "mcp_env \<Rightarrow> mcp_client \<Rightarrow> tool_call \<Rightarrow> tool_result option" where
  "handleTool env c (CallQueryAuditLogs args) = Some (handleQueryAuditLogs env c args)"
| "handleTool env c (CallGetAuditLogFacets args) = Some (handleGetAuditLogFacets env c args)"
| "handleTool env c (CallQueryActivities args) = Some (handleQueryActivities env c args)"
| "handleTool env c (CallGetActivityFacets args) = Some (handleGetActivityFacets env c args)"
| "handleTool env c (CallFindFailedOperations args) = Some (handleFindFailedOperations env c args)"
| "handleTool env c (CallGetResourceHistory args) = Some (handleGetResourceHistory env c args)"
| "handleTool env c (CallGetUserActivitySummary args) = Some (handleGetUserActivitySummary env c args)"
| "handleTool env c (CallGetActivityTimeline args) = Some (handleGetActivityTimeline env c args)"
| "handleTool env c (CallSummarizeRecentActivity args) = handleSummarizeRecentActivity env c args"
| "handleTool env c (CallCompareActivityPeriods args) = Some (handleCompareActivityPeriods env c args)"
| "handleTool env c (CallListActivityPolicies args) = Some (handleListActivityPolicies env c args)"
| "handleTool env c (CallPreviewActivityPolicy args) = Some (handlePreviewActivityPolicy env c args)"
| "handleTool env c (CallQueryEvents args) = Some (handleQueryEvents env c args)"
| "handleTool env c (CallGetEventFacets args) = Some (handleGetEventFacets env c args)"

definition runTool :: "mcp_env \<Rightarrow> (string + mcp_client option) option \<Rightarrow> tool_call \<Rightarrow> tool_result option" where
  "runTool env resolver call =
     (case resolveClient resolver of Inl e \<Rightarrow> Some (ToolError e) | Inr c \<Rightarrow> handleTool env c call)"

text \<open>A nil allow-list allows every tool.\<close>

definition allows :: "string list option \<Rightarrow> string \<Rightarrow> bool" where
  "allows tools name = (case tools of None \<Rightarrow> True | Some ts \<Rightarrow> list_ex (\<lambda>t. t = name) ts)"

datatype mcp_reply = ToolReply tool_result | RpcError string

definition RecoverMiddleware :: "string \<Rightarrow> mcp_reply option \<Rightarrow> mcp_reply" where
  "RecoverMiddleware rpc outcome =
     (case outcome of
        Some r \<Rightarrow> r
      | None \<Rightarrow>
          if rpc = ''tools/call''
          then ToolReply (ToolError ''Internal error while running this tool. The failure has been logged; retrying with the same arguments will likely fail the same way.'')
          else RpcError (''internal error handling '' @ rpc))"

text \<open>A call of a tool, by the SDK's documented answer an error when the tool is not registered.\<close>

definition serveCall :: "string list option \<Rightarrow> mcp_env \<Rightarrow> (string + mcp_client option) option \<Rightarrow> tool_call \<Rightarrow> mcp_reply" where
  "serveCall tools env resolver call =
     RecoverMiddleware ''tools/call''
       (if allows tools (toolName call) then map_option ToolReply (runTool env resolver call)
        else Some (RpcError (''unknown tool '' @ toolName call)))"

end
