(* ===== verification/Mcp_Props.thy ===== *)
theory Mcp_Props
  imports Mcp_Handlers "HOL-Library.Multiset"
begin

text \<open>
  What the tools of the MCP server promise: filters that mean what the arguments say, counts and
  rankings that are right whatever order Go's maps are ranged over in, and answers instead of panics.
\<close>

section \<open>Counts\<close>

lemma map_of_bump: "map_of (bump k m) j = (if j = k then Some (case map_of m k of Some n \<Rightarrow> n + 1 | None \<Rightarrow> 1) else map_of m j)"
  by (induction k m rule: bump.induct) auto

lemma fst_bump: "fst ` set (bump k m) = insert k (fst ` set m)"
  by (induction k m rule: bump.induct) auto

lemma distinct_bump: "distinct (map fst m) \<Longrightarrow> distinct (map fst (bump k m))"
  by (induction k m rule: bump.induct) (auto simp: fst_bump)

lemma tally_snoc: "tally (ks @ [k]) = bump k (tally ks)"
  by (simp add: tally_def)

lemma map_of_tally: "map_of (tally ks) k = (if k \<in> set ks then Some (int (count_list ks k)) else None)"
  by (induction ks rule: rev_induct) (auto simp: tally_snoc map_of_bump tally_def [of "[]"])

lemma distinct_tally: "distinct (map fst (tally ks))"
  by (induction ks rule: rev_induct) (auto simp: tally_snoc distinct_bump tally_def [of "[]"])

lemma fst_tally: "fst ` set (tally ks) = set ks"
  by (induction ks rule: rev_induct) (auto simp: tally_snoc fst_bump tally_def [of "[]"])

lemma set_tally: "(k, n) \<in> set (tally ks) \<longleftrightarrow> k \<in> set ks \<and> n = int (count_list ks k)"
  using map_of_eq_Some_iff [OF distinct_tally, of ks k n] map_of_tally [of ks k] by (auto split: if_splits)

lemma length_tally: "length (tally ks) = card (set ks)"
  using distinct_card [OF distinct_tally, of ks] by (simp add: fst_tally)

lemma sum_bump: "sum_list (map snd (bump k m)) = sum_list (map snd m) + 1"
  by (induction k m rule: bump.induct) auto

lemma sum_tally: "sum_list (map snd (tally ks)) = int (length ks)"
  by (induction ks rule: rev_induct) (auto simp: tally_snoc sum_bump tally_def [of "[]"])

section \<open>The exchange sort\<close>

lemma exchangeStep_facts:
  assumes "i < j" and "j < length xs"
  shows "mset (exchangeStep i xs j) = mset xs" and "length (exchangeStep i xs j) = length xs"
    and "take i (exchangeStep i xs j) = take i xs"
    and "snd (exchangeStep i xs j ! i) = max (snd (xs ! i)) (snd (xs ! j))"
    and "snd (exchangeStep i xs j ! j) = min (snd (xs ! i)) (snd (xs ! j))"
    and "\<And>k. k \<noteq> i \<Longrightarrow> k \<noteq> j \<Longrightarrow> exchangeStep i xs j ! k = xs ! k"
  using assms mset_swap [of j xs i] by (auto simp: exchangeStep_def nth_list_update)

lemma exchangePass_upto:
  assumes "m \<le> length xs" and "i < m"
  defines "ys \<equiv> foldl (exchangeStep i) xs [i + 1..<m]"
  shows "mset ys = mset xs \<and> length ys = length xs \<and> take i ys = take i xs \<and> (\<forall>k. i < k \<and> k < m \<longrightarrow> snd (ys ! k) \<le> snd (ys ! i))"
  using assms(1,2) unfolding ys_def
proof (induction m)
  case (Suc m)
  show ?case
  proof (cases "i < m")
    case True
    let ?ys = "foldl (exchangeStep i) xs [i + 1..<m]"
    have IH: "mset ?ys = mset xs" "length ?ys = length xs" "take i ?ys = take i xs" "\<And>k. i < k \<Longrightarrow> k < m \<Longrightarrow> snd (?ys ! k) \<le> snd (?ys ! i)"
      using Suc True by auto
    have step: "foldl (exchangeStep i) xs [i + 1..<Suc m] = exchangeStep i ?ys m" using True by simp
    have lt: "m < length ?ys" using IH(2) Suc.prems by simp
    note f = exchangeStep_facts [OF True lt]
    have "snd (exchangeStep i ?ys m ! k) \<le> snd (exchangeStep i ?ys m ! i)" if "i < k" "k < Suc m" for k
      using that IH(4) [of k] f(4,5) f(6) [of k] by (cases "k = m") auto
    then show ?thesis unfolding step using f(1-3) IH(1-3) by auto
  next
    case False
    then show ?thesis using Suc.prems by simp
  qed
qed simp

lemma exchangePass_facts:
  assumes "i < length xs"
  shows "mset (exchangePass xs i) = mset xs" "length (exchangePass xs i) = length xs" "take i (exchangePass xs i) = take i xs"
    "\<And>k. i < k \<Longrightarrow> k < length xs \<Longrightarrow> snd (exchangePass xs i ! k) \<le> snd (exchangePass xs i ! i)"
  using exchangePass_upto [of "length xs" xs i] assms by (auto simp: exchangePass_def)

lemma exchangeSort_upto:
  assumes "n \<le> length xs"
  defines "zs \<equiv> foldl exchangePass xs [0..<n]"
  shows "mset zs = mset xs \<and> length zs = length xs \<and> (\<forall>a b. a < n \<and> a < b \<and> b < length xs \<longrightarrow> snd (zs ! b) \<le> snd (zs ! a))"
  using assms(1) unfolding zs_def
proof (induction n)
  case (Suc n)
  let ?zs = "foldl exchangePass xs [0..<n]" and ?ys = "exchangePass (foldl exchangePass xs [0..<n]) n"
  have IH: "mset ?zs = mset xs" "length ?zs = length xs" "\<And>a b. a < n \<Longrightarrow> a < b \<Longrightarrow> b < length xs \<Longrightarrow> snd (?zs ! b) \<le> snd (?zs ! a)"
    using Suc by auto
  have n: "n < length ?zs" using IH(2) Suc.prems by simp
  note p = exchangePass_facts [OF n]
  have same: "?ys ! a = ?zs ! a" if "a < n" for a using that p(3) by (metis nth_take)
  have "mset (take n ?ys) + mset (drop n ?ys) = mset (take n ?zs) + mset (drop n ?zs)"
    using p(1) by (simp flip: mset_append)
  then have later: "set (drop n ?ys) = set (drop n ?zs)" using p(3) by (metis add_left_cancel set_mset_mset)
  have "snd (?ys ! b) \<le> snd (?ys ! a)" if ab: "a < Suc n" "a < b" "b < length xs" for a b
  proof (cases "a = n")
    case True
    then show ?thesis using p(4) [of b] ab IH(2) by simp
  next
    case False
    then have a: "a < n" using ab by simp
    show ?thesis
    proof (cases "b < n")
      case True
      then show ?thesis using same a IH(3) [of a b] ab by simp
    next
      case False
      then have "?ys ! b \<in> set (drop n ?ys)"
        using ab p(2) IH(2) by (auto simp: in_set_conv_nth intro!: exI [of _ "b - n"])
      then obtain k where "k < length ?zs - n" "?ys ! b = ?zs ! (n + k)" unfolding later by (auto simp: in_set_conv_nth)
      then show ?thesis using IH(3) [of a "n + k"] a IH(2) same [OF a] by simp
    qed
  qed
  then show ?case using p(1,2) IH(1,2) by simp
qed simp

lemma exchangeSort_ranks: "mset (exchangeSort xs) = mset xs" "sorted_wrt (\<lambda>x y. snd y \<le> snd x) (exchangeSort xs)"
  using exchangeSort_upto [of "length xs - 1" xs] by (auto simp: exchangeSort_def sorted_wrt_iff_nth_less)


text \<open>
  The ranking in a summary of recent activity. Whatever order Go ranges over the counts in, the
  listed actors (or kinds) carry their exact numbers, come in descending order, are as many as asked
  for or as there are, and nobody who is left out did more than anyone who is listed.
\<close>

theorem top_n_ranks_exactly:
  assumes "\<And>m. mset (rangeOver m) = mset m" and "getTopN rangeOver (tally ks) n = Some r"
  shows "length r = min (nat n) (card (set ks))
    \<and> sorted_wrt (\<lambda>x y. snd y \<le> snd x) r
    \<and> distinct (map fst r)
    \<and> (\<forall>(k, c) \<in> set r. k \<in> set ks \<and> c = int (count_list ks k))
    \<and> (\<forall>k \<in> set ks - fst ` set r. \<forall>(k', c) \<in> set r. int (count_list ks k) \<le> c)"
proof -
  let ?s = "exchangeSort (rangeOver (tally ks))"
  have r: "r = take (nat n) ?s" using assms(2) by (auto simp: getTopN_def split: if_splits)
  have m: "mset ?s = mset (tally ks)" by (simp only: exchangeSort_ranks(1) assms(1))
  have s: "set ?s = set (tally ks)" using m by (metis set_mset_mset)
  have len: "length ?s = card (set ks)" using m length_tally by (metis mset_eq_length)
  have d: "distinct (map fst ?s)"
    using distinct_tally [of ks] m by (metis mset_eq_imp_distinct_iff mset_map)
  have split: "?s = r @ drop (nat n) ?s" by (simp add: r)
  have ranked: "sorted_wrt (\<lambda>x y. snd y \<le> snd x) (r @ drop (nat n) ?s)" using exchangeSort_ranks(2) [of "rangeOver (tally ks)"] by (simp only: split [symmetric])
  have sub: "set r \<subseteq> set (tally ks)" unfolding r using s set_take_subset by metis
  have out: "int (count_list ks k) \<le> c" if k: "k \<in> set ks" "k \<notin> fst ` set r" and c: "(k', c) \<in> set r" for k k' c
  proof -
    have "(k, int (count_list ks k)) \<in> set (r @ drop (nat n) ?s)" using k(1) s by (simp only: split [symmetric]) (simp add: set_tally)
    then have "(k, int (count_list ks k)) \<in> set (drop (nat n) ?s)" using k(2) by force
    moreover have "\<forall>x \<in> set r. \<forall>y \<in> set (drop (nat n) ?s). snd y \<le> snd x" using ranked unfolding sorted_wrt_append by blast
    ultimately show ?thesis using c by (metis snd_conv)
  qed
  have "distinct (map fst r)" using d split by (metis distinct_append map_append)
  with len ranked sub out show ?thesis by (auto simp: r sorted_wrt_append set_tally min_def)
qed

theorem top_n_ranks_exactly_witness:
  "getTopN rev (tally [''bob'', ''alice'', ''alice'', ''carol'']) 1 = Some [(''alice'', 2)]
   \<and> count_list [''bob'', ''alice'', ''alice'', ''carol''] ''bob'' = 1"
proof -
  have t: "getTopN rev (tally [''bob'', ''alice'', ''alice'', ''carol'']) 1 = Some [(''alice'', 2)]" by code_simp
  have "count_list [''bob'', ''alice'', ''alice'', ''carol''] ''alice'' = 2" using top_n_ranks_exactly [OF _ t] by simp
  then show ?thesis using t by simp
qed

section \<open>The timeline\<close>

lemma countBuckets_snoc: "countBuckets (bs @ [b]) = peakStep (countBuckets bs) b"
  by (simp add: countBuckets_def)

text \<open>
  The buckets of a timeline are the exact counts of the activities by bucket, add up to all of
  them, and the peak is a bucket that counts as much as any.
\<close>

theorem timeline_counts_exactly:
  assumes "countBuckets bs = (counts, peak, n)"
  shows "counts = tally bs \<and> sum_list (map snd counts) = int (length bs)
    \<and> (if bs = [] then peak = '''' \<and> n = 0 else peak \<in> set bs \<and> n = int (count_list bs peak))
    \<and> (\<forall>b \<in> set bs. int (count_list bs b) \<le> n)"
proof -
  have "counts = tally bs \<and> (if bs = [] then peak = '''' \<and> n = 0 else peak \<in> set bs \<and> n = int (count_list bs peak))
    \<and> (\<forall>b \<in> set bs. int (count_list bs b) \<le> n)"
    using assms
  proof (induction bs arbitrary: counts peak n rule: rev_induct)
    case Nil
    then show ?case by (simp add: countBuckets_def tally_def)
  next
    case (snoc b bs)
    obtain counts' peak' n' where c: "countBuckets bs = (counts', peak', n')" by (cases "countBuckets bs")
    note IH = snoc.IH [OF c]
    have k: "the (map_of (bump b counts') b) = int (count_list (bs @ [b]) b)"
      using IH map_of_tally [of bs b] by (auto simp: map_of_bump count_list_0_iff)
    have step: "(counts, peak, n) = (let k = int (count_list (bs @ [b]) b) in if k > n' then (bump b counts', b, k) else (bump b counts', peak', n'))"
      using snoc.prems unfolding countBuckets_snoc c peakStep.simps Let_def k by simp
    show ?case
    proof (cases "int (count_list (bs @ [b]) b) > n'")
      case True
      then show ?thesis using step IH by (auto simp: Let_def tally_snoc intro: order_trans)
    next
      case False
      then have "bs \<noteq> []" "peak' \<noteq> b" using IH by (auto simp: Let_def split: if_splits)
      then show ?thesis using step IH False by (auto simp: Let_def tally_snoc split: if_splits)
    qed
  qed
  then show ?thesis using sum_tally by auto
qed

theorem timeline_counts_exactly_witness:
  "countBuckets [''09'', ''10'', ''10''] = ([(''09'', 1), (''10'', 2)], ''10'', 2)
   \<and> sum_list (map snd [(''09'', 1), (''10'', 2 :: int)]) = 3"
proof -
  have "countBuckets [''09'', ''10'', ''10''] = ([(''09'', 1), (''10'', 2)], ''10'', 2)" by code_simp
  then show ?thesis using timeline_counts_exactly by force
qed


section \<open>Filters\<close>

lemma activityFilter_clauses:
  "activityFilter (map (\<lambda>(f, v). celEquals pr f v) cs) = joinStr '' && '' (map (clauseText dQuote (quoteBody pr)) (shorthandClauses cs))"
proof -
  have "filter (\<lambda>c. c \<noteq> []) (map (\<lambda>(f, v). celEquals pr f v) cs) = map (clauseText dQuote (quoteBody pr)) (shorthandClauses cs)"
    by (induction cs) (auto simp: celEquals_def clauseText_def goQuote_def shorthandClauses_def)
  then show ?thesis by (simp add: activityFilter_def)
qed

lemma quoted_clauses_read:
  assumes "list_all (\<lambda>(f, v). celName f \<and> validText v) cs"
  shows "celTokens (activityFilter (map (\<lambda>(f, v). celEquals pr f v) cs)) = Some (conjTokens (map clauseTokens (shorthandClauses cs)))"
proof (cases "shorthandClauses cs = []")
  case False
  have "celTokens (joinStr '' && '' (map (clauseText dQuote (quoteBody pr)) (shorthandClauses cs)) @ [])
      = map_option ((@) (conjTokens (map clauseTokens (shorthandClauses cs)))) (celTokens [])"
  proof (rule celTokens_conj [OF False])
    show "celName f \<and> litBody dQuote (quoteBody pr v) v" if "(f, v) \<in> set (shorthandClauses cs)" for f v
      using that assms quoteBody_literal by (auto simp: shorthandClauses_def list_all_iff)
  qed (simp_all add: isQuoteChar_def)
  then show ?thesis by (simp add: activityFilter_clauses)
qed (simp add: activityFilter_clauses)

text \<open>
  C10: a tool's argument cannot extend its filter. For arguments that are UTF-8 text, whatever quotes,
  backslashes, line ends or control characters they contain, the filters of the activity search and
  of a resource's history read as one equality for each argument given, with its value.
\<close>

theorem tool_filters_have_no_injection:
  assumes "list_all (validText \<circ> snd) (queryActivitiesClauses q)" and "list_all (validText \<circ> snd) (resourceHistoryClauses h)"
  shows "celTokens (acFilter (queryActivitiesSpec env q)) = Some (conjTokens (map clauseTokens (shorthandClauses (queryActivitiesClauses q))))
    \<and> celTokens (acFilter (resourceHistorySpec env h)) = Some (conjTokens (map clauseTokens (shorthandClauses (resourceHistoryClauses h))))"
proof -
  have "list_all (\<lambda>(f, v). celName f \<and> validText v) (queryActivitiesClauses q)"
    "list_all (\<lambda>(f, v). celName f \<and> validText v) (resourceHistoryClauses h)"
    using assms by (simp_all add: queryActivitiesClauses_def resourceHistoryClauses_def celName_def isWordChar_def)
  then show ?thesis using quoted_clauses_read by (simp add: queryActivitiesSpec_def resourceHistorySpec_def)
qed

definition plainEnv :: mcp_env where
  "plainEnv = \<lparr>meMarshal = (\<lambda>_. Inr ''{}''), meDecodeInput = (\<lambda>_. Inl ''no input''), meOrder = rev, meFieldOrder = rev, meOffset = 0,
     mePrint = (\<lambda>_. False)\<rparr>"

text \<open>A value with a quote, a line end, a backslash and an e with an accent.\<close>

definition nastyValue :: string where
  "nastyValue = ''a'' @ [dQuote, CHR 0x0A, backslash, CHR 0xC3, CHR 0xA9]"

theorem tool_filters_have_no_injection_witness:
  "celTokens (acFilter (queryActivitiesSpec plainEnv (QueryActivitiesArgs.make '''' '''' '''' nastyValue '''' '''' '''' 0)))
     = Some [TWord ''spec.actor.name'', TSym ''=='', TLit nastyValue]"
proof -
  let ?q = "QueryActivitiesArgs.make '''' '''' '''' nastyValue '''' '''' '''' 0"
  let ?h = "GetResourceHistoryArgs.make '''' '''' '''' nastyValue '''' '''' '''' 0"
  have v: "validText nastyValue" "validText ''''" "nastyValue \<noteq> ''''" by code_simp+
  then show ?thesis
    using tool_filters_have_no_injection [of ?q ?h plainEnv]
    by (simp add: queryActivitiesClauses_def resourceHistoryClauses_def QueryActivitiesArgs.defs GetResourceHistoryArgs.defs
        shorthandClauses_def clauseTokens_def)
qed

text \<open>
  A user's summary asks for the name under which the processor records the user's activities,
  also for system users, whose prefix both drop.
\<close>

theorem user_summary_asks_for_recorded_actor:
  assumes "userUsername u = usaUsername args" and "usaUsername args \<notin> {'''', ''system:''}" and "validText (trimPrefix (usaUsername args) ''system:'')"
  shows "celTokens (acFilter (userSummarySpec env args)) = Some [TWord ''spec.actor.name'', TSym ''=='', TLit (actorName (ResolveActor u))]"
proof -
  let ?v = "trimPrefix (usaUsername args) ''system:''"
  have drop: "hasPrefix s p \<Longrightarrow> p @ drop (length p) s = s" for s p :: string by (metis append_take_drop_id hasPrefix_def)
  have ne: "?v \<noteq> ''''" using assms(2) drop [of "usaUsername args" "''system:''"] by (auto simp: trimPrefix_def split: if_splits)
  have actor: "actorName (ResolveActor u) = ?v" using ne assms(1,2) by (auto simp: ResolveActor_def Let_def trimPrefix_def)
  have "celTokens (activityFilter (map (\<lambda>(f, v). celEquals (mePrint env) f v) [(''spec.actor.name'', ?v)]))
      = Some (conjTokens (map clauseTokens (shorthandClauses [(''spec.actor.name'', ?v)])))"
    by (rule quoted_clauses_read) (simp add: assms(3) celName_def isWordChar_def)
  then show ?thesis
    using ne by (simp add: userSummarySpec_def activityFilter_def celEquals_def shorthandClauses_def clauseTokens_def actor)
qed

theorem user_summary_asks_for_recorded_actor_witness:
  "celTokens (acFilter (userSummarySpec plainEnv \<lparr>usaUsername = ''system:admin'', usaStartTime = '''', usaEndTime = '''', usaIncludeDetails = False\<rparr>))
   = Some [TWord ''spec.actor.name'', TSym ''=='', TLit ''admin'']"
proof -
  let ?u = "\<lparr>userUsername = ''system:admin'', userUID = '''', userExtra = []\<rparr>"
  have t: "trimPrefix ''system:admin'' ''system:'' = ''admin''" "validText ''admin''" by code_simp+
  have "actorName (ResolveActor ?u) = ''admin''" by code_simp
  with user_summary_asks_for_recorded_actor [of ?u "\<lparr>usaUsername = ''system:admin'', usaStartTime = '''', usaEndTime = '''', usaIncludeDetails = False\<rparr>" plainEnv]
  show ?thesis by (simp add: t)
qed

text \<open>The prefix alone leaves no name, so the summary of that user is one of everybody's activities.\<close>

lemma bare_prefix_summarises_everyone:
  "usaUsername args = ''system:'' \<Longrightarrow> acFilter (userSummarySpec env args) = '''' \<and>
     handleGetUserActivitySummary env c args = answerWith env ''Query failed: '' (mcActivities c 0 (userSummarySpec env args)) (userSummaryVal env args)"
proof -
  have "trimPrefix ''system:'' ''system:'' = ''''" by code_simp
  then show "usaUsername args = ''system:'' \<Longrightarrow> acFilter (userSummarySpec env args) = '''' \<and>
     handleGetUserActivitySummary env c args = answerWith env ''Query failed: '' (mcActivities c 0 (userSummarySpec env args)) (userSummaryVal env args)"
    by (simp add: userSummarySpec_def celEquals_def handleGetUserActivitySummary_def)
qed

text \<open>A user and a system user of the same name share their activities.\<close>

lemma system_user_shares_name:
  "\<not> hasPrefix n ''system:'' \<Longrightarrow> acFilter (userSummarySpec env (args\<lparr>usaUsername := ''system:'' @ n\<rparr>)) = acFilter (userSummarySpec env (args\<lparr>usaUsername := n\<rparr>))"
  by (simp add: userSummarySpec_def trimPrefix_def hasPrefix_def)


section \<open>Events\<close>

lemma find_some_in: "find P xs = Some x \<Longrightarrow> x \<in> set xs \<and> P x"
  by (auto simp: find_Some_iff)

text \<open>
  The event search refuses an argument with a separator in it and names one, in whatever order Go
  ranges over them. When it goes on, and no value has a backslash or outer blanks, the server reads
  its selector as exactly one equality for each argument given.
\<close>

theorem event_search_refuses_or_reads_back:
  assumes "\<And>m. mset (meFieldOrder env m) = mset m"
  shows "(\<exists>name v rest. (name, v) \<in> set (eventArgs args) \<and> badSelectorValue v
      \<and> handleQueryEvents env c args = ToolError (''Invalid '' @ name @ '' '' @ goQuote (mePrint env) v @ rest))
    \<or> list_all (\<lambda>(_, v). \<not> badSelectorValue v) (eventArgs args)
      \<and> (list_all (\<lambda>(_, v). trimmed v \<and> backslash \<notin> set v) (eventArgs args) \<longrightarrow>
         ParseFieldSelector (eqFieldSelector (queryEventsSpec args)) = Inr (map eventTermOf (eventClauses args)))"
proof (cases "find (\<lambda>(_, v). badSelectorValue v) (meFieldOrder env (eventArgs args))")
  case (Some nv)
  obtain name v where nv: "nv = (name, v)" by (cases nv)
  have "(name, v) \<in> set (eventArgs args)" "badSelectorValue v"
    using find_some_in [OF Some] assms [of "eventArgs args"] by (auto simp: nv dest: mset_eq_setD)
  moreover have "\<exists>rest. handleQueryEvents env c args = ToolError (''Invalid '' @ name @ '' '' @ goQuote (mePrint env) v @ rest)"
    unfolding handleQueryEvents_def Some nv by (auto intro: exI)
  ultimately show ?thesis by blast
next
  case None
  have "set (meFieldOrder env (eventArgs args)) = set (eventArgs args)" using assms by (metis set_mset_mset)
  then have good: "list_all (\<lambda>(_, v). \<not> badSelectorValue v) (eventArgs args)"
    using None by (auto simp: find_None_iff list_all_iff)
  have "ParseFieldSelector (eqFieldSelector (queryEventsSpec args)) = Inr (map eventTermOf (eventClauses args))"
    if tr: "list_all (\<lambda>(_, v). trimmed v \<and> backslash \<notin> set v) (eventArgs args)"
  proof (rule ParseFieldSelector_joined)
    show "eqFieldSelector (queryEventsSpec args) = joinStr '','' (map selectorText (eventClauses args))" by (simp add: queryEventsSpec_def)
    have v: "selectorValue v" if "(f, v) \<in> set (eventArgs args)" for f v
    proof -
      have "\<not> badSelectorValue v" "trimmed v" "backslash \<notin> set v"
        using good tr that unfolding list_all_iff by blast+
      then show ?thesis unfolding selectorValue_def badSelectorValue_def list_ex_iff list_all_iff by blast
    qed
    have names: "list_all (\<lambda>f. celName f \<and> map_of EventsFieldSelectorAliases f = None \<and> map_of EventsFieldSelectors f \<noteq> None)
      [''regarding.kind'', ''regarding.name'', ''reason'', ''type'', ''source.component'']" by code_simp
    have vs: "list_all selectorValue [qevRegardingKind args, qevRegardingName args, qevReason args, qevType args, qevSourceComponent args]"
      using v [of "''regardingKind''" "qevRegardingKind args"] v [of "''regardingName''" "qevRegardingName args"] v [of "''reason''" "qevReason args"] v [of "''type''" "qevType args"] v [of "''sourceComponent''" "qevSourceComponent args"]
      by (simp add: eventArgs_def)
    show "list_all eventTerm (eventClauses args)"
      using names vs unfolding eventClauses_def shorthandClauses_def eventTerm_def by (simp add: list_all_iff)
  qed
  with good show ?thesis by blast
qed

definition podSearch :: QueryEventsArgs where
  "podSearch = \<lparr>qevStartTime = ''now-1h'', qevEndTime = ''now'', qevNamespace = '''', qevRegardingKind = ''Pod'', qevRegardingName = '''',
     qevReason = '''', qevType = ''Warning'', qevSourceComponent = '''', qevLimit = 0\<rparr>"

theorem event_search_refuses_or_reads_back_witness:
  "ParseFieldSelector (eqFieldSelector (queryEventsSpec podSearch))
     = Inr [\<lparr>fstColumn = ''regarding_kind'', fstOperator = FieldSelectorEqual, fstValue = ''Pod''\<rparr>,
            \<lparr>fstColumn = ''type'', fstOperator = FieldSelectorEqual, fstValue = ''Warning''\<rparr>]"
proof -
  have "mset (meFieldOrder plainEnv m) = mset m" for m by (simp add: plainEnv_def)
  moreover have "list_all (\<lambda>(_, v). \<not> badSelectorValue v) (eventArgs podSearch)"
    "list_all (\<lambda>(_, v). trimmed v \<and> backslash \<notin> set v) (eventArgs podSearch)"
    by (simp_all add: eventArgs_def podSearch_def badSelectorValue_def trimmed_def isSpace_def quote_defs)
  moreover have "map eventTermOf (eventClauses podSearch) = [\<lparr>fstColumn = ''regarding_kind'', fstOperator = FieldSelectorEqual, fstValue = ''Pod''\<rparr>,
            \<lparr>fstColumn = ''type'', fstOperator = FieldSelectorEqual, fstValue = ''Warning''\<rparr>]"
    by (simp add: eventClauses_def podSearch_def shorthandClauses_def eventTermOf_def EventsFieldSelectors_def)
  ultimately show ?thesis
    using event_search_refuses_or_reads_back [of plainEnv podSearch c] by (auto simp: list_all_iff)
qed

section \<open>Panics and errors\<close>

text \<open>
  The only call that can panic is a summary of recent activity whose number of top items is
  negative or exceeds what can be allocated, and only after its query has been answered. No call
  takes the server down: every call of a registered tool, this one included, ends in a tool result.
\<close>

theorem tool_calls_always_answered:
  "(runTool env resolver call = None \<longleftrightarrow>
      (\<exists>args c r. call = CallSummarizeRecentActivity args \<and> resolveClient resolver = Inr c
         \<and> mcActivities c 0 (summarizeSpec env args) = Inr r \<and> (sraTopN args < 0 \<or> 2 ^ 48 < 8 * sraTopN args)))
   \<and> (\<exists>t. serveCall None env resolver call = ToolReply t)"
proof
  have top: "summarizeVal env args r = None \<longleftrightarrow> sraTopN args < 0 \<or> 2 ^ 48 < 8 * sraTopN args" for args r
    by (auto simp: summarizeVal_def getTopN_def Let_def)
  show "runTool env resolver call = None \<longleftrightarrow>
      (\<exists>args c r. call = CallSummarizeRecentActivity args \<and> resolveClient resolver = Inr c
         \<and> mcActivities c 0 (summarizeSpec env args) = Inr r \<and> (sraTopN args < 0 \<or> 2 ^ 48 < 8 * sraTopN args))"
    by (cases call; cases "resolveClient resolver")
      (auto simp: runTool_def handleSummarizeRecentActivity_def top split: sum.splits)
  show "\<exists>t. serveCall None env resolver call = ToolReply t"
    by (cases "runTool env resolver call") (simp_all add: serveCall_def allows_def RecoverMiddleware_def)
qed

text \<open>
  The comparison counts one page of at most 1000 activities of each period and does not follow the
  cursor: two periods that both fill the page are reported as equally busy, whatever lies beyond.
\<close>

lemma busy_periods_look_equal:
  assumes "length (rpResults b) = 1000" and "length (rpResults c) = 1000"
  shows "\<exists>m t. compareVal env b c = MObj m \<and> map_of m ''changePercent'' = Some (MFloat 0)
    \<and> map_of m ''analysis'' = Some (MStr (''Comparison period shows 0% more activity.'' @ t))"
proof -
  have p: "percentOf 0 1000 = 0" by (simp add: percentOf_def rndSigned_def rnd64_def)
  have z: "fmtInt (roundEven 0) = ''0''" using roundEven_int [of 0] by simp code_simp
  show ?thesis using assms by (simp add: compareVal_def Let_def changePercent_def buildActivityCounts_def p analysisText_def z)
qed

text \<open>The summary of the policies counts each of them as a resource type of its own.\<close>

lemma policies_counted_as_types:
  assumes "lapAPIGroup args = ''''" and "lapKind args = ''''"
  shows "\<exists>m. policyListVal args [p, p] = MObj m \<and> map_of m ''summary'' = Some (MStr ''2 policies covering 2 resource types'')"
proof -
  have "fmtInt 2 = ''2''" by code_simp
  then show ?thesis using assms by (simp add: policyListVal_def listedPolicies_def Let_def)
qed

end
