(* ===== verification/Mcp_Http.thy ===== *)
theory Mcp_Http
  imports Mcp_Handlers
begin

text \<open>
  pkg/mcp/httpserver: the MCP server over HTTP. It holds no credential of its own; each request is
  served with a client built from the caller's bearer token and project header. The parser of
  \<open>net/url\<close>, the name validation of Kubernetes, \<open>rest.AnonymousClientConfig\<close> and the construction
  of a client are parameters. Listening, shutdown and timeouts of connections are left out.
\<close>

section \<open>client.go: configurations\<close>

text \<open>
  The parts of a \<open>rest.Config\<close> that matter here. \<open>rcOtherCredentials\<close> are all credentials but the
  bearer token: client certificate, basic auth, exec and auth providers, impersonation.
\<close>

record rest_config =
  rcHost :: string
  rcBearerToken :: string
  rcBearerTokenFile :: string
  rcOtherCredentials :: "string list"
  rcRateLimiter :: "nat option"
  rcTimeout :: int

record url_parts =
  urlScheme :: string
  urlUser :: "string option"
  urlHost :: string
  urlPath :: string
  urlRawQuery :: string
  urlForceQuery :: bool
  urlFragment :: string

text \<open>\<open>URL.String\<close>, for a host and a path that need no escaping and a URL without user, query and fragment.\<close>

definition urlString :: "url_parts \<Rightarrow> string" where
  "urlString u =
     (if urlScheme u \<noteq> '''' then urlScheme u @ '':'' else '''')
     @ (if (urlScheme u \<noteq> '''' \<or> urlHost u \<noteq> '''') \<and> (urlHost u \<noteq> '''' \<or> urlPath u \<noteq> '''') then ''//'' @ urlHost u else '''')
     @ urlPath u"

definition trimSuffix :: "string \<Rightarrow> string \<Rightarrow> string" where
  "trimSuffix s suffix = (if hasPrefix (rev s) (rev suffix) then take (length s - length suffix) s else s)"

definition sameEndpoint :: "string \<Rightarrow> string \<Rightarrow> bool" where
  "sameEndpoint a b = (trimSuffix a ''/'' = trimSuffix b ''/'')"

text \<open>The two environment variables of a pod; \<open>net.JoinHostPort\<close> brackets a host with a colon.\<close>

definition localClusterEndpoint :: "string \<Rightarrow> string \<Rightarrow> string" where
  "localClusterEndpoint host port =
     (if host = '''' \<or> port = '''' then ''''
      else ''https://'' @ (if CHR '':'' \<in> set host then ''['' @ host @ '']'' else host) @ '':'' @ port)"

definition parseHost :: "(string \<Rightarrow> string + url_parts) \<Rightarrow> string \<Rightarrow> string + url_parts" where
  "parseHost parse host =
     (let h = (if containsStr host ''://'' then host else ''https://'' @ host)
      in case parse h of Inl e \<Rightarrow> Inl (''parsing control plane host '' @ quoteQ h @ '': '' @ e) | Inr u \<Rightarrow> Inr u)"

text \<open>What is wrong with a base configuration, one constructor per message.\<close>

datatype base_error =
    BaseEmpty
  | BaseUnparsable string
  | BaseCredentials
  | BaseQuery string
  | BasePath string string
  | BaseLocalCluster string

definition CheckBaseConfig :: "(string \<Rightarrow> string + url_parts) \<Rightarrow> string \<times> string \<Rightarrow> rest_config option \<Rightarrow> base_error option" where
  "CheckBaseConfig parse pod cfg =
     (case cfg of
        None \<Rightarrow> Some BaseEmpty
      | Some c \<Rightarrow>
          if rcHost c = '''' then Some BaseEmpty
          else (case parseHost parse (rcHost c) of
                  Inl e \<Rightarrow> Some (BaseUnparsable e)
                | Inr u \<Rightarrow>
                    if urlUser u \<noteq> None then Some BaseCredentials
                    else if urlRawQuery u \<noteq> '''' \<or> urlForceQuery u \<or> urlFragment u \<noteq> '''' then Some (BaseQuery (rcHost c))
                    else if trimSuffix (urlPath u) ''/'' \<noteq> '''' then Some (BasePath (rcHost c) (urlPath u))
                    else (let here = localClusterEndpoint (fst pod) (snd pod)
                          in if here \<noteq> '''' \<and> sameEndpoint (rcHost c) here then Some (BaseLocalCluster (rcHost c)) else None)))"

definition ProjectControlPlanePath :: "string \<Rightarrow> string" where
  "ProjectControlPlanePath project = ''/apis/resourcemanager.miloapis.com/v1alpha1/projects/'' @ project @ ''/control-plane''"

definition ProjectHeader :: string where "ProjectHeader = ''X-Datum-Project''"

definition misconfiguredClientNote :: string where
  "misconfiguredClientNote =
     ''The person who asked did nothing wrong and re-authenticating will not help: this is a configuration problem for whoever operates that client''"

definition defaultRequestTimeout :: int where "defaultRequestTimeout = 60 * second"

definition ClientConfig ::
  "(string \<Rightarrow> string list) \<Rightarrow> (rest_config \<Rightarrow> rest_config) \<Rightarrow> (string \<Rightarrow> string + url_parts) \<Rightarrow> rest_config \<Rightarrow> string \<Rightarrow> string \<Rightarrow> string + rest_config" where
  "ClientConfig dnsErrs anonymous parse base token project =
     (if dnsErrs project \<noteq> []
      then Inl (''invalid project '' @ quoteQ project @ '' on the '' @ ProjectHeader @ '' header sent by the client that called this tool: ''
        @ joinStr ''; '' (dnsErrs project) @ ''. '' @ misconfiguredClientNote)
      else (let c = anonymous base;
                cfg = c\<lparr>rcBearerToken := token, rcBearerTokenFile := '''', rcRateLimiter := None,
                        rcTimeout := (if rcTimeout c = 0 then defaultRequestTimeout else rcTimeout c)\<rparr>
            in bind_r (parseHost parse (rcHost cfg)) (\<lambda>u.
                 Inr (cfg\<lparr>rcHost := urlString (u\<lparr>urlUser := None, urlRawQuery := '''', urlForceQuery := False, urlFragment := '''',
                            urlPath := ProjectControlPlanePath project\<rparr>)\<rparr>))))"

section \<open>client.go: the caller\<close>

text \<open>The scheme is compared without regard to case; only ASCII letters fold to those of \<open>Bearer\<close>.\<close>

definition bearerToken :: "string \<Rightarrow> string" where
  "bearerToken auth =
     (if length auth < length ''Bearer '' \<or> toLower (take (length ''Bearer '') auth) \<noteq> toLower ''Bearer '' then ''''
      else trimSpace (drop (length ''Bearer '') auth))"

definition clientFor ::
  "(string \<Rightarrow> string list) \<Rightarrow> (rest_config \<Rightarrow> rest_config) \<Rightarrow> (string \<Rightarrow> string + url_parts) \<Rightarrow> (rest_config \<Rightarrow> string + mcp_client) \<Rightarrow>
   rest_config \<Rightarrow> string \<Rightarrow> string \<Rightarrow> string + mcp_client" where
  "clientFor dnsErrs anonymous parse newClient base token project =
     (if token = ''''
      then Inl (''no credentials on this request: the client that called this tool did not forward the user'' @ [sQuote] @ ''s identity. '' @ misconfiguredClientNote)
      else if project = ''''
      then Inl (''no project on this request: the client that called this tool did not set the '' @ ProjectHeader @ '' header. '' @ misconfiguredClientNote)
      else bind_r (ClientConfig dnsErrs anonymous parse base token project) (\<lambda>cfg.
             case newClient cfg of Inl e \<Rightarrow> Inl (''building activity client: '' @ e) | Inr c \<Rightarrow> Inr c))"

text \<open>The two headers of a request. The resolver runs the construction at most once and keeps its result.\<close>

record mcp_request =
  mrAuthorization :: string
  mrProject :: string

fun onceResults :: "'r option \<Rightarrow> 'r list \<Rightarrow> 'r list" where
  "onceResults kept [] = []"
| "onceResults None (r # rs) = r # onceResults (Some r) rs"
| "onceResults (Some r) (_ # rs) = r # onceResults (Some r) rs"

definition ResolverFromRequest ::
  "(string \<Rightarrow> string list) \<Rightarrow> (rest_config \<Rightarrow> rest_config) \<Rightarrow> (string \<Rightarrow> string + url_parts) \<Rightarrow> (rest_config \<Rightarrow> string + mcp_client) \<Rightarrow>
   rest_config \<Rightarrow> mcp_request \<Rightarrow> string + mcp_client option" where
  "ResolverFromRequest dnsErrs anonymous parse newClient base req =
     map_sum id Some (clientFor dnsErrs anonymous parse newClient base (bearerToken (mrAuthorization req)) (trimSpace (mrProject req)))"

section \<open>server.go\<close>

definition ExposedTools :: "string list" where
  "ExposedTools =
     [''query_activities'', ''get_activity_facets'', ''get_resource_history'', ''summarize_recent_activity'', ''get_activity_timeline'',
      ''compare_activity_periods'', ''find_failed_operations'', ''get_user_activity_summary'', ''query_events'', ''get_event_facets'']"

text \<open>A tool call that arrives over HTTP: every request has a server of its own.\<close>

definition httpCall ::
  "mcp_env \<Rightarrow> (string \<Rightarrow> string list) \<Rightarrow> (rest_config \<Rightarrow> rest_config) \<Rightarrow> (string \<Rightarrow> string + url_parts) \<Rightarrow> (rest_config \<Rightarrow> string + mcp_client) \<Rightarrow>
   rest_config \<Rightarrow> mcp_request \<Rightarrow> tool_call \<Rightarrow> mcp_reply" where
  "httpCall env dnsErrs anonymous parse newClient base req call =
     serveCall (Some ExposedTools) env (Some (ResolverFromRequest dnsErrs anonymous parse newClient base req)) call"

section \<open>docs.go\<close>

record document =
  docBody :: string
  docContentType :: string

definition knowledgePath :: string where "knowledgePath = ''/llms-full.txt''"
definition runbookPrefix :: string where "runbookPrefix = ''/runbooks/''"

text \<open>The embedded file system: the knowledge document and the entries of the skills, a body or a directory.\<close>

definition newKnowledgeHandler :: "string option \<Rightarrow> (string \<times> string option) list \<Rightarrow> string + (string \<times> document) list" where
  "newKnowledgeHandler knowledge entries =
     (case knowledge of
        None \<Rightarrow> Inl ''reading embedded knowledge''
      | Some body \<Rightarrow>
          (let skills = List.map_filter (\<lambda>(name, content). case content of
                 None \<Rightarrow> None
               | Some b \<Rightarrow> (if hasPrefix (rev name) (rev ''.md'')
                            then Some (runbookPrefix @ name, \<lparr>docBody = b, docContentType = ''text/markdown; charset=utf-8''\<rparr>) else None)) entries
           in if skills = [] then Inl ''no skills embedded from skills''
              else Inr ((knowledgePath, \<lparr>docBody = body, docContentType = ''text/plain; charset=utf-8''\<rparr>) # skills)))"

datatype http_reply = HttpDocument document | HttpNotFound | HttpMethodNotAllowed

definition ServeKnowledge :: "(string \<times> document) list \<Rightarrow> string \<Rightarrow> string \<Rightarrow> http_reply" where
  "ServeKnowledge docs httpVerb path =
     (if httpVerb \<noteq> ''GET'' \<and> httpVerb \<noteq> ''HEAD'' then HttpMethodNotAllowed
      else (case map_of docs path of None \<Rightarrow> HttpNotFound | Some d \<Rightarrow> HttpDocument d))"

section \<open>The caller's project and nothing else\<close>

lemma path_segments:
  assumes "CHR ''/'' \<notin> set project"
  shows "splitByte (CHR ''/'') (ProjectControlPlanePath project)
    = ['''', ''apis'', ''resourcemanager.miloapis.com'', ''v1alpha1'', ''projects'', project, ''control-plane'']"
proof -
  have "ProjectControlPlanePath project
      = [] @ CHR ''/'' # ''apis'' @ CHR ''/'' # ''resourcemanager.miloapis.com'' @ CHR ''/'' # ''v1alpha1'' @ CHR ''/'' # ''projects''
        @ CHR ''/'' # project @ CHR ''/'' # ''control-plane''"
    by (simp add: ProjectControlPlanePath_def)
  then show ?thesis using assms by (simp add: splitByte_no_sep splitByte_token del: append_Cons append_Nil splitByte.simps(2))
qed

lemma path_of_one_project: "ProjectControlPlanePath p = ProjectControlPlanePath q \<longleftrightarrow> p = q"
  by (simp add: ProjectControlPlanePath_def)


text \<open>What a configuration for a caller looks like: the caller's token, and the control plane of one project on the base's host.\<close>

definition readsAs :: "(string \<Rightarrow> string + url_parts) \<Rightarrow> rest_config \<Rightarrow> string \<Rightarrow> string \<Rightarrow> rest_config \<Rightarrow> bool" where
  "readsAs parse base token project cfg \<longleftrightarrow>
     token \<noteq> '''' \<and> rcBearerToken cfg = token \<and> rcBearerTokenFile cfg = '''' \<and> rcOtherCredentials cfg = [] \<and> rcRateLimiter cfg = None
     \<and> (\<exists>u. parseHost parse (rcHost base) = Inr u
          \<and> rcHost cfg = urlString \<lparr>urlScheme = urlScheme u, urlUser = None, urlHost = urlHost u, urlPath = ProjectControlPlanePath project,
              urlRawQuery = '''', urlForceQuery = False, urlFragment = ''''\<rparr>)
     \<and> splitByte (CHR ''/'') (ProjectControlPlanePath project)
         = ['''', ''apis'', ''resourcemanager.miloapis.com'', ''v1alpha1'', ''projects'', project, ''control-plane'']"

lemma ClientConfig_readsAs:
  assumes "\<And>c. rcHost (anonymous c) = rcHost c \<and> rcOtherCredentials (anonymous c) = []"
    and "\<And>p. dnsErrs p = [] \<Longrightarrow> CHR ''/'' \<notin> set p"
    and "ClientConfig dnsErrs anonymous parse base token project = Inr cfg" and "token \<noteq> ''''"
  shows "readsAs parse base token project cfg"
proof -
  have d: "dnsErrs project = []" using assms(3) by (auto simp: ClientConfig_def split: if_splits)
  have "CHR ''/'' \<notin> set project" using assms(2) d by blast
  then show ?thesis
    using assms(1,3,4) d path_segments by (auto simp: readsAs_def ClientConfig_def Let_def bind_r_eq_Inr urlString_def)
qed

text \<open>
  C5: a tool call over HTTP reads as its caller and in the caller's project, or not at all. Either
  every client is built from one configuration, which carries the request's own token, no other
  credential of the base, and a host that ends in the control plane path of the request's project,
  with the project as one segment of it; or the call fails with an error that no client has any
  part in. It is assumed that a valid project name has no slash and that the anonymous copy of a
  configuration keeps its host and drops its credentials.
\<close>

theorem http_call_reads_as_caller:
  fixes env :: mcp_env and parse :: "string \<Rightarrow> string + url_parts" and base :: rest_config and req :: mcp_request and call :: tool_call
  assumes "\<And>c. rcHost (anonymous c) = rcHost c \<and> rcOtherCredentials (anonymous c) = []"
    and "\<And>p. dnsErrs p = [] \<Longrightarrow> CHR ''/'' \<notin> set p"
  defines "reply \<equiv> \<lambda>newClient. httpCall env dnsErrs anonymous parse newClient base req call"
  shows "(\<exists>cfg. readsAs parse base (bearerToken (mrAuthorization req)) (trimSpace (mrProject req)) cfg
      \<and> (\<forall>newClient. reply newClient = serveCall (Some ExposedTools) env (Some (case newClient cfg of
             Inl e \<Rightarrow> Inl (''building activity client: '' @ e) | Inr c \<Rightarrow> Inr (Some c))) call))
    \<or> (\<exists>e. \<forall>newClient. reply newClient = serveCall (Some ExposedTools) env (Some (Inl e)) call)"
proof -
  let ?token = "bearerToken (mrAuthorization req)" and ?project = "trimSpace (mrProject req)"
  let ?cfg = "ClientConfig dnsErrs anonymous parse base ?token ?project"
  consider (none) "?token = '''' \<or> ?project = ''''" | (bad) e where "?token \<noteq> ''''" "?project \<noteq> ''''" "?cfg = Inl e"
    | (good) cfg where "?token \<noteq> ''''" "?project \<noteq> ''''" "?cfg = Inr cfg" by (cases ?cfg) auto
  then show ?thesis
  proof cases
    case none
    then show ?thesis by (auto simp: reply_def httpCall_def ResolverFromRequest_def clientFor_def)
  next
    case bad
    then show ?thesis by (auto simp: reply_def httpCall_def ResolverFromRequest_def clientFor_def)
  next
    case good
    have "reply newClient = serveCall (Some ExposedTools) env (Some (case newClient cfg of
             Inl e \<Rightarrow> Inl (''building activity client: '' @ e) | Inr c \<Rightarrow> Inr (Some c))) call" for newClient
      using good by (cases "newClient cfg") (simp_all add: reply_def httpCall_def ResolverFromRequest_def clientFor_def)
    then show ?thesis using ClientConfig_readsAs [OF assms(1,2) good(3,1)] by blast
  qed
qed

text \<open>A base with credentials of its own, a parser for one host, and a request for a project.\<close>

definition miloBase :: rest_config where
  "miloBase = \<lparr>rcHost = ''https://milo'', rcBearerToken = ''own'', rcBearerTokenFile = ''/token'', rcOtherCredentials = [''client certificate''],
     rcRateLimiter = Some 5, rcTimeout = 0\<rparr>"

definition miloParse :: "string \<Rightarrow> string + url_parts" where
  "miloParse h =
     (if h = ''https://milo''
      then Inr \<lparr>urlScheme = ''https'', urlUser = None, urlHost = ''milo'', urlPath = '''', urlRawQuery = '''', urlForceQuery = False, urlFragment = ''''\<rparr>
      else Inl ''unknown'')"

definition dropCredentials :: "rest_config \<Rightarrow> rest_config" where
  "dropCredentials c = c\<lparr>rcBearerToken := '''', rcBearerTokenFile := '''', rcOtherCredentials := []\<rparr>"

definition slashErrs :: "string \<Rightarrow> string list" where
  "slashErrs p = (if CHR ''/'' \<in> set p then [''a lowercase RFC 1123 subdomain is required''] else [])"

theorem http_call_reads_as_caller_witness:
  "\<exists>cfg. readsAs miloParse miloBase ''abc'' ''shop'' cfg
     \<and> rcHost cfg = ''https://milo/apis/resourcemanager.miloapis.com/v1alpha1/projects/shop/control-plane''"
proof -
  let ?req = "\<lparr>mrAuthorization = ''bearer abc'', mrProject = '' shop''\<rparr>"
  let ?env = "\<lparr>meMarshal = (\<lambda>_. Inr ''{}''), meDecodeInput = (\<lambda>_. Inl ''no input''), meOrder = rev, meFieldOrder = rev, meOffset = 0, mePrint = (\<lambda>_. False)\<rparr>"
  let ?call = "CallQueryEvents \<lparr>qevStartTime = '''', qevEndTime = '''', qevNamespace = '''', qevRegardingKind = '''', qevRegardingName = '''',
     qevReason = '''', qevType = '''', qevSourceComponent = '''', qevLimit = 0\<rparr>"
  have h: "bearerToken ''bearer abc'' = ''abc''" "trimSpace '' shop'' = ''shop''" by code_simp+
  have an: "rcHost (dropCredentials c) = rcHost c \<and> rcOtherCredentials (dropCredentials c) = []" for c by (simp add: dropCredentials_def)
  have dns: "CHR ''/'' \<notin> set p" if "slashErrs p = []" for p using that by (auto simp: slashErrs_def split: if_splits)
  have fails: "httpCall ?env slashErrs dropCredentials miloParse (\<lambda>cfg. Inl (rcBearerToken cfg)) miloBase ?req ?call
      \<noteq> httpCall ?env slashErrs dropCredentials miloParse (\<lambda>cfg. Inl (rcHost cfg)) miloBase ?req ?call"
    by code_simp
  obtain cfg where "readsAs miloParse miloBase ''abc'' ''shop'' cfg"
  proof (rule http_call_reads_as_caller [where anonymous = dropCredentials and dnsErrs = slashErrs and env = ?env and parse = miloParse
        and base = miloBase and req = ?req and call = ?call, THEN disjE])
    show "rcHost (dropCredentials c) = rcHost c \<and> rcOtherCredentials (dropCredentials c) = []" for c by (rule an)
    show "CHR ''/'' \<notin> set p" if "slashErrs p = []" for p using that by (rule dns)
  next
    assume "\<exists>cfg. readsAs miloParse miloBase (bearerToken (mrAuthorization ?req)) (trimSpace (mrProject ?req)) cfg
      \<and> (\<forall>newClient. httpCall ?env slashErrs dropCredentials miloParse newClient miloBase ?req ?call
        = serveCall (Some ExposedTools) ?env (Some (case newClient cfg of
             Inl e \<Rightarrow> Inl (''building activity client: '' @ e) | Inr c \<Rightarrow> Inr (Some c))) ?call)"
    then show thesis using that by (elim exE conjE) (simp add: h)
  next
    assume "\<exists>e. \<forall>newClient. httpCall ?env slashErrs dropCredentials miloParse newClient miloBase ?req ?call
        = serveCall (Some ExposedTools) ?env (Some (Inl e)) ?call"
    then obtain e where all: "\<And>newClient. httpCall ?env slashErrs dropCredentials miloParse newClient miloBase ?req ?call
        = serveCall (Some ExposedTools) ?env (Some (Inl e)) ?call" by blast
    show thesis by (rule notE [OF fails]) (rule trans [OF all all [symmetric]])
  qed
  moreover have "parseHost miloParse ''https://milo'' = miloParse ''https://milo''" by code_simp
  ultimately show ?thesis
    by (auto simp: readsAs_def miloBase_def miloParse_def urlString_def ProjectControlPlanePath_def)
qed

text \<open>Two projects never share a control plane.\<close>

lemma projects_do_not_share_host:
  assumes "readsAs parse base t p cfg" and "readsAs parse base t' q cfg'" and "rcHost cfg = rcHost cfg'"
  shows "p = q"
  using assms by (auto simp: readsAs_def urlString_def path_of_one_project split: if_splits)

text \<open>
  Over HTTP the tools that show raw audit logs or platform policies are not there, and every
  other tool answers, whatever the client does.
\<close>

theorem http_offers_no_operator_tool:
  "httpCall env dnsErrs anonymous parse newClient base req call
     = (if toolName call \<in> {''query_audit_logs'', ''get_audit_log_facets'', ''list_activity_policies'', ''preview_activity_policy''}
        then RpcError (''unknown tool '' @ toolName call)
        else serveCall None env (Some (ResolverFromRequest dnsErrs anonymous parse newClient base req)) call)"
  by (cases call) (simp_all add: httpCall_def serveCall_def allows_def ExposedTools_def RecoverMiddleware_def)

text \<open>A document is served only under the exact path of an embedded file, so no path reaches anything else.\<close>

lemma documents_are_embedded:
  assumes "newKnowledgeHandler knowledge entries = Inr docs" and "ServeKnowledge docs httpVerb path = HttpDocument d"
  shows "path = knowledgePath \<and> knowledge = Some (docBody d)
    \<or> (\<exists>name. path = runbookPrefix @ name \<and> (name, Some (docBody d)) \<in> set entries)"
proof -
  obtain body where body: "knowledge = Some body" using assms(1) by (auto simp: newKnowledgeHandler_def split: option.splits)
  have "(path, d) \<in> set docs" using assms(2) by (auto simp: ServeKnowledge_def dest: map_of_SomeD split: if_splits option.splits)
  then show ?thesis
    using assms(1) by (auto simp: newKnowledgeHandler_def body Let_def List.map_filter_def split: if_splits option.splits)
qed

text \<open>However often a request resolves its client, it gets the result of the first construction.\<close>

lemma client_built_once: "onceResults None rs = (case rs of [] \<Rightarrow> [] | r # _ \<Rightarrow> replicate (length rs) r)"
proof -
  have kept: "onceResults (Some r) rs = replicate (length rs) r" for r :: 'a and rs by (induction rs) simp_all
  show ?thesis by (cases rs) (simp_all add: kept)
qed

end
