(* ===== verification/Audit_Prefix.thy ===== *)
theory Audit_Prefix
  imports Policy_Preview
begin

text \<open>
  \<open>stripAuditPrefix\<close> of the policy preview, against the CEL lexer: what it does to the tokens of an
  expression.
\<close>

section \<open>Literals are copied\<close>

lemma readDigits_split:
  "readDigits base k acc s = Some (n, r) \<Longrightarrow>
    \<exists>m. s = m @ r \<and> length m = k \<and> list_all (\<lambda>c. hexVal c \<noteq> None) m \<and> (\<forall>x. readDigits base k acc (m @ x) = Some (n, x))"
proof (induction base k acc s rule: readDigits.induct)
  case (3 base k acc c s)
  then obtain d where d: "hexVal c = Some d" "d < base" "readDigits base k (acc * base + d) s = Some (n, r)"
    by (auto split: option.splits if_splits)
  with "3.IH" obtain m where "s = m @ r" "length m = k" "list_all (\<lambda>c. hexVal c \<noteq> None) m" "\<forall>x. readDigits base k (acc * base + d) (m @ x) = Some (n, x)"
    by blast
  with d show ?case by (intro exI [of _ "c # m"]) simp
qed simp_all

lemma codeEscape_split:
  assumes "codeEscape base k s = Some (b, r)"
  shows "\<exists>m. s = m @ r \<and> length m = k \<and> list_all (\<lambda>c. hexVal c \<noteq> None) m \<and> (\<forall>x. codeEscape base k (m @ x) = Some (b, x))"
  using assms readDigits_split by (fastforce simp: codeEscape_def)

lemma readEscape_split:
  assumes "readEscape s = Some (b, r)"
  shows "\<exists>d m. s = d # m @ r \<and> list_all (\<lambda>c. hexVal c \<noteq> None) m \<and> (\<forall>x. readEscape (d # m @ x) = Some (b, x))"
proof (cases s)
  case Nil
  with assms show ?thesis by (simp add: readEscape_def)
next
  case (Cons c t)
  consider (simple) "simpleEscape c = Some b" "r = t"
    | (code) k where "\<And>t. readEscape (c # t) = codeEscape 16 k t" "codeEscape 16 k t = Some (b, r)"
    | (octal) "\<And>t. readEscape (c # t) = codeEscape 8 3 (c # t)" "codeEscape 8 3 (c # t) = Some (b, r)"
  proof (cases "simpleEscape c")
    case (Some b')
    then have "readEscape (c # t) = Some (b', t)" by (simp add: readEscape_def)
    with assms Cons Some simple show ?thesis by simp
  next
    case None
    then have e: "readEscape (c # u) = (if c = CHR ''x'' \<or> c = CHR ''X'' then codeEscape 16 2 u else if c = CHR ''u'' then codeEscape 16 4 u
        else if c = CHR ''U'' then codeEscape 16 8 u
        else if c \<in> {CHR ''0'', CHR ''1'', CHR ''2'', CHR ''3''} then codeEscape 8 3 (c # u) else None)" for u
      by (simp add: readEscape_def)
    have r: "readEscape (c # t) = Some (b, r)" using assms Cons by simp
    show ?thesis
    proof (cases "c \<in> {CHR ''x'', CHR ''X'', CHR ''u'', CHR ''U''}")
      case True
      then obtain k where "\<And>u. readEscape (c # u) = codeEscape 16 k u" unfolding e by auto
      then show ?thesis using r code by metis
    next
      case False
      then have f: "readEscape (c # u) = (if c \<in> {CHR ''0'', CHR ''1'', CHR ''2'', CHR ''3''} then codeEscape 8 3 (c # u) else None)" for u
        unfolding e by auto
      with r have c: "c \<in> {CHR ''0'', CHR ''1'', CHR ''2'', CHR ''3''}" by (metis option.distinct(1))
      have "readEscape (c # u) = codeEscape 8 3 (c # u)" for u unfolding f using c by (simp only: if_True)
      then show ?thesis using r octal by metis
    qed
  qed
  then show ?thesis
  proof cases
    case simple
    then show ?thesis by (intro exI [of _ c] exI [of _ "[]"]) (simp add: Cons readEscape_def)
  next
    case code
    with codeEscape_split [OF code(2)] show ?thesis by (auto simp: Cons)
  next
    case octal
    from codeEscape_split [OF octal(2)] obtain m where m: "c # t = m @ r" "length m = 3" "list_all (\<lambda>c. hexVal c \<noteq> None) m"
      "\<forall>x. codeEscape 8 3 (m @ x) = Some (b, x)" by blast
    then obtain m' where "m = c # m'" by (cases m) auto
    with m octal(1) show ?thesis by (auto simp: Cons)
  qed
qed

lemma copyLiteral_char: "s \<noteq> [] \<Longrightarrow> c \<noteq> q \<Longrightarrow> c \<noteq> backslash \<Longrightarrow> copyLiteral q s = (a, r) \<Longrightarrow> copyLiteral q (c # s) = (c # a, r)"
  by (cases s) (simp_all add: Let_def)

lemma copyLiteral_plain:
  "\<lbrakk>list_all (\<lambda>c. c \<noteq> q \<and> c \<noteq> backslash) m; s \<noteq> []; copyLiteral q s = (a, r)\<rbrakk> \<Longrightarrow> copyLiteral q (m @ s) = (m @ a, r)"
proof (induction m)
  case (Cons c m)
  then obtain d t where "m @ s = d # t" by (cases "m @ s") auto
  with Cons show ?case by (simp add: Let_def)
qed simp

lemma hexVal_plain: "hexVal c \<noteq> None \<Longrightarrow> isQuoteChar q \<Longrightarrow> c \<noteq> q \<and> c \<noteq> backslash"
  by (auto simp: hexVal_def isQuoteChar_def quote_defs)

lemma readLit_copied:
  assumes "readLit q s = Some (v, rest)" and "isQuoteChar q"
  shows "\<exists>a. copyLiteral q s = (a, rest) \<and> s = a @ rest \<and> (\<forall>x. readLit q (a @ x) = Some (v, x))"
  using assms
proof (induction q s arbitrary: v rule: readLit.induct)
  case (1 q)
  then show ?case by (simp add: readLit.simps(1))
next
  case (2 q c s)
  show ?case
  proof (cases "c = q")
    case True
    with 2 have "v = []" "s = rest" by simp_all
    then show ?thesis using True by (intro exI [of _ "[q]"]) (cases rest; simp)
  next
    case nq: False
    then have le: "\<not> isLineEnd c" using "2.prems"(1) by (simp add: readLit.simps(2) split: if_splits)
    show ?thesis
    proof (cases "c = backslash")
      case False
      with nq le "2.prems"(1) obtain v' where v: "readLit q s = Some (v', rest)" "v = c # v'"
        by (auto simp: readLit.simps(2))
      with "2.IH"(1) [OF nq le False _ "2.prems"(2)] obtain a where a: "copyLiteral q s = (a, rest)" "s = a @ rest" "\<forall>x. readLit q (a @ x) = Some (v', x)"
        by blast
      have "s \<noteq> []" using v(1) by (auto simp: readLit.simps(1))
      from copyLiteral_char [OF this nq False a(1)] a v(2) nq le False show ?thesis
        by (intro exI [of _ "c # a"]) (simp add: readLit.simps(2) [of q c])
    next
      case True
      with nq le "2.prems"(1) obtain b s' v' where e: "readEscape s = Some (b, s')" "readLit q s' = Some (v', rest)" "v = b @ v'"
        by (auto simp: readLit.simps(2) split: option.splits)
      obtain d m where m: "s = d # m @ s'" "list_all (\<lambda>c. hexVal c \<noteq> None) m" "\<forall>x. readEscape (d # m @ x) = Some (b, x)"
        using readEscape_split [OF e(1)] by blast
      obtain a where a: "copyLiteral q s' = (a, rest)" "s' = a @ rest" "\<forall>x. readLit q (a @ x) = Some (v', x)"
        using "2.IH"(2) [OF nq le _ e(1) refl e(2) "2.prems"(2)] True by blast
      have "s' \<noteq> []" using e(2) by (auto simp: readLit.simps(1))
      moreover have "list_all (\<lambda>c. c \<noteq> q \<and> c \<noteq> backslash) m"
        using m(2) hexVal_plain [OF _ "2.prems"(2)] by (simp add: list_all_iff)
      ultimately have "copyLiteral q (m @ s') = (m @ a, rest)" using copyLiteral_plain a(1) by blast
      moreover have "readLit q (backslash # d # m @ a @ x) = Some (b @ v', x)" for x
        using readLit_escape [of q "a @ x" v' x "d # m" b] m(3) a(3) nq True by simp
      ultimately show ?thesis using m(1) a(2) e(3) nq True by (intro exI [of _ "c # d # m @ a"]) simp
    qed
  qed
qed

section \<open>The prefix\<close>

text \<open>A text has no occurrence of another.\<close>

fun without :: "string \<Rightarrow> string \<Rightarrow> bool" where
  "without p [] = True"
| "without p (c # s) = (\<not> hasPrefix (c # s) p \<and> without p s)"

lemma without_suffix: "without p (a @ b) \<Longrightarrow> without p b"
  by (induction a) auto

lemma strip_Nil [simp]: "stripAuditPrefix [] = []"
  by (simp add: stripAuditPrefix.simps)

lemma strip_char: "\<not> isQuoteChar c \<Longrightarrow> \<not> hasPrefix (c # s) ''audit.'' \<Longrightarrow> stripAuditPrefix (c # s) = c # stripAuditPrefix s"
  by (subst stripAuditPrefix.simps) (simp add: isQuoteChar_def)

lemma strip_prefix: "stripAuditPrefix (''audit.'' @ s) = stripAuditPrefix s"
  by (subst stripAuditPrefix.simps) (simp add: quote_defs hasPrefix_def)

lemma strip_literal: "isQuoteChar c \<Longrightarrow> copyLiteral c s = (a, r) \<Longrightarrow> stripAuditPrefix (c # s) = c # a @ stripAuditPrefix r"
  by (subst stripAuditPrefix.simps) (simp add: isQuoteChar_def)

text \<open>The head of a text decides whether it starts a word.\<close>

definition wordStart :: "string \<Rightarrow> bool" where
  "wordStart s = (s \<noteq> [] \<and> isWordChar (hd s))"

lemma hasPrefix_word:
  "list_all isWordChar p \<Longrightarrow> \<not> wordStart rest \<Longrightarrow> hasPrefix (w @ rest) p \<Longrightarrow> hasPrefix w p"
proof (induction w arbitrary: p)
  case Nil
  then show ?case by (cases p; cases rest) (auto simp: hasPrefix_simps wordStart_def)
next
  case (Cons c w)
  then show ?case by (cases p) (auto simp: hasPrefix_simps)
qed

lemma strip_word:
  assumes "list_all isWordChar w" and "without ''audit.'' w" and "\<not> wordStart rest"
  shows "stripAuditPrefix (w @ rest) = w @ stripAuditPrefix rest"
  using assms
proof (induction w)
  case (Cons c w)
  have "list_all isWordChar ''audit.''" by (simp add: isWordChar_def)
  then have "\<not> hasPrefix (c # w @ rest) ''audit.''" using hasPrefix_word [of "''audit.''" rest "c # w"] Cons.prems by auto
  moreover have "\<not> isQuoteChar c" using Cons.prems(1) by (auto simp: isWordChar_def isQuoteChar_def quote_defs)
  ultimately show ?case using Cons by (simp add: strip_char)
qed simp

text \<open>An identifier in which the prefix occurs at the start at most.\<close>

definition plainIdent :: "string \<Rightarrow> bool" where
  "plainIdent w = (trimPrefix w ''audit.'' \<noteq> [] \<and> without ''audit.'' (trimPrefix w ''audit.''))"

lemma strip_ident:
  assumes "list_all isWordChar w" and "plainIdent w" and "\<not> wordStart rest"
  shows "stripAuditPrefix (w @ rest) = trimPrefix w ''audit.'' @ stripAuditPrefix rest"
proof (cases "hasPrefix w ''audit.''")
  case True
  then obtain f where f: "w = ''audit.'' @ f" by (auto simp: hasPrefix_iff)
  with assms(1,2) have "list_all isWordChar f" "without ''audit.'' f" by (simp_all add: plainIdent_def trimPrefix_def hasPrefix_simps)
  then show ?thesis using strip_word [OF _ _ assms(3)] strip_prefix by (simp add: f trimPrefix_def hasPrefix_simps)
next
  case False
  with assms show ?thesis using strip_word by (simp add: plainIdent_def trimPrefix_def)
qed

lemma strip_symbols:
  assumes "list_all (\<lambda>c. \<not> isQuoteChar c \<and> \<not> isWordChar c) y"
  shows "stripAuditPrefix (y @ r) = y @ stripAuditPrefix r"
  using assms
proof (induction y)
  case (Cons c y)
  then have "c \<noteq> CHR ''a''" by (auto simp: isWordChar_def)
  then have "\<not> hasPrefix (c # y @ r) ''audit.''" by (simp add: hasPrefix_simps)
  with Cons show ?case by (simp add: strip_char)
qed simp

section \<open>Tokens\<close>

definition plainTok :: "cel_tok \<Rightarrow> bool" where
  "plainTok t = (case t of TWord w \<Rightarrow> plainIdent w | _ \<Rightarrow> True)"

definition stripTok :: "cel_tok \<Rightarrow> cel_tok" where
  "stripTok t = (case t of TWord w \<Rightarrow> TWord (trimPrefix w ''audit.'') | _ \<Rightarrow> t)"

text \<open>Two texts that agree on a symbol at their head: the same character, or a word in both.\<close>

definition sameHead :: "string \<Rightarrow> string \<Rightarrow> bool" where
  "sameHead s s' = ((s = [] \<longleftrightarrow> s' = []) \<and> (s \<noteq> [] \<longrightarrow> hd s = hd s' \<or> isWordChar (hd s) \<and> isWordChar (hd s')))"

lemma symbols_short: "list_all (\<lambda>y. length y \<in> {1, 2} \<and> list_all (\<lambda>c. \<not> isQuoteChar c \<and> \<not> isWordChar c) y) celSymbols"
  by (simp add: celSymbols_def isQuoteChar_def isWordChar_def quote_defs)

lemma hasPrefix_sameHead:
  assumes "sameHead r x" and "y \<noteq> []" and "length y' \<le> 2" and "list_all (\<lambda>c. \<not> isWordChar c) y'"
  shows "hasPrefix (y @ r) y' = hasPrefix (y @ x) y'"
proof -
  obtain c t where y: "y = c # t" using assms(2) by (cases y) auto
  show ?thesis
  proof (cases y')
    case (Cons d u)
    with assms(3) have "u = [] \<or> (\<exists>e. u = [e])" by (cases u) auto
    then show ?thesis
      using assms(1,4) Cons by (cases t; cases r; cases x) (auto simp: y hasPrefix_simps sameHead_def)
  qed (simp add: hasPrefix_simps)
qed

lemma readSymbol_sameHead:
  assumes "sameHead r x" and "y \<noteq> []"
  shows "readSymbol (y @ r) = readSymbol (y @ x)"
proof -
  have "hasPrefix (y @ r) y' = hasPrefix (y @ x) y'" if "y' \<in> set celSymbols" for y'
    using symbols_short that hasPrefix_sameHead [OF assms, of y'] by (auto simp: list_all_iff)
  then show ?thesis unfolding readSymbol_def by (intro find_cong) simp_all
qed

lemma celTokens_blank: "isSpace c \<Longrightarrow> celTokens (c # t) = celTokens t"
  by (subst celTokens.simps) simp

lemma strip_tokens:
  assumes "celTokens s = Some ts" and "list_all plainTok ts" and "without ''//'' s"
  shows "celTokens (stripAuditPrefix s) = Some (map stripTok ts) \<and> sameHead s (stripAuditPrefix s)"
  using assms
proof (induction s arbitrary: ts rule: celTokens.induct)
  case (1 s)
  show ?case
  proof (cases s)
    case Nil
    with "1.prems" show ?thesis by (simp add: sameHead_def)
  next
    case (Cons c t)
    have nc: "\<not> hasPrefix s ''//''" using "1.prems"(3) Cons by simp
    consider (space) "isSpace c" | (word) "\<not> isSpace c" "isWordChar c" | (lit) "\<not> isSpace c" "\<not> isWordChar c" "isQuoteChar c"
      | (symbol) "\<not> isSpace c" "\<not> isWordChar c" "\<not> isQuoteChar c" by blast
    then show ?thesis
    proof cases
      case space
      then have "\<not> isQuoteChar c" "c \<noteq> CHR ''a''" by (auto simp: isSpace_def isQuoteChar_def quote_defs)
      then have st: "stripAuditPrefix s = c # stripAuditPrefix t" unfolding Cons by (intro strip_char) (simp_all add: hasPrefix_simps)
      have "celTokens t = Some ts" using "1.prems"(1) space by (simp add: Cons celTokens_blank)
      then show ?thesis using "1.IH"(1) [OF Cons space] "1.prems"(2,3) by (simp add: st celTokens_blank [OF space]) (simp add: Cons sameHead_def)
    next
      case word
      let ?w = "takeWhile isWordChar s" and ?rest = "dropWhile isWordChar s"
      have "celTokens s = (if ?rest \<noteq> [] \<and> isQuoteChar (hd ?rest) then None else map_option (Cons (TWord ?w)) (celTokens ?rest))"
        using word nc Cons by (subst celTokens.simps) simp
      with "1.prems"(1) obtain ts' where nq: "\<not> (?rest \<noteq> [] \<and> isQuoteChar (hd ?rest))" and ts: "celTokens ?rest = Some ts'" "ts = TWord ?w # ts'"
        by (auto split: if_splits)
      have w: "list_all isWordChar ?w" "\<not> wordStart ?rest" using hd_dropWhile [of isWordChar s] by (auto simp: list_all_iff wordStart_def dest: set_takeWhileD)
      have id: "plainIdent ?w" "list_all plainTok ts'" using "1.prems"(2) by (simp_all add: ts(2) plainTok_def [of "TWord ?w"])
      have "without ''//'' ?rest" using "1.prems"(3) without_suffix [of "''//''" ?w ?rest] by simp
      then have ih: "celTokens (stripAuditPrefix ?rest) = Some (map stripTok ts')" "sameHead ?rest (stripAuditPrefix ?rest)"
        using "1.IH"(3) [OF Cons word(1) _ word(2) refl refl nq] nc ts(1) id(2) by simp_all
      let ?w' = "trimPrefix ?w ''audit.''"
      have st: "stripAuditPrefix s = ?w' @ stripAuditPrefix ?rest"
        using strip_ident [OF w(1) id(1) w(2)] by simp
      have "set ?w' \<subseteq> set ?w" by (auto simp: trimPrefix_def dest: in_set_dropD)
      then have n: "celName ?w'" using id(1) w(1) by (auto simp: celName_def plainIdent_def list_all_iff)
      have "endsWord (stripAuditPrefix ?rest)"
        using ih(2) nq w(2) by (auto simp: endsWord_def sameHead_def wordStart_def)
      from celTokens_word [OF n this] ih(1) have "celTokens (stripAuditPrefix s) = Some (map stripTok ts)"
        by (simp add: st ts(2) stripTok_def)
      moreover have "sameHead s (stripAuditPrefix s)"
        unfolding st using n word by (cases ?w') (auto simp: Cons sameHead_def celName_def)
      ultimately show ?thesis ..
    next
      case lit
      have "celTokens s = (if hasPrefix t [c, c] then None
                else (case readLit c t of None \<Rightarrow> None | Some (v, rest) \<Rightarrow> map_option (Cons (TLit v)) (celTokens rest)))"
        using lit nc Cons by (subst celTokens.simps) simp
      with "1.prems"(1) obtain v rest ts' where l: "\<not> hasPrefix t [c, c]" "readLit c t = Some (v, rest)" "celTokens rest = Some ts'" "ts = TLit v # ts'"
        by (auto split: if_splits option.splits)
      obtain a where a: "copyLiteral c t = (a, rest)" "t = a @ rest" "\<forall>x. readLit c (a @ x) = Some (v, x)"
        using readLit_copied [OF l(2) lit(3)] by blast
      have "without ''//'' rest" using "1.prems"(3) without_suffix [of "''//''" "c # a" rest] by (simp add: Cons a(2))
      then have ih: "celTokens (stripAuditPrefix rest) = Some (map stripTok ts')" "sameHead rest (stripAuditPrefix rest)"
        using "1.IH"(4) [OF Cons lit(1) _ lit(2,3) l(1,2) refl l(3)] nc "1.prems"(2) l(4) by simp_all
      have st: "stripAuditPrefix s = c # a @ stripAuditPrefix rest" using strip_literal [OF lit(3) a(1)] by (simp add: Cons)
      have "a \<noteq> []" using readLit_length [OF l(2)] a(2) by auto
      moreover have "isQuoteChar c \<longrightarrow> \<not> isWordChar c" using lit by simp
      ultimately have np: "\<not> hasPrefix (a @ stripAuditPrefix rest) [c, c]"
        using l(1) hasPrefix_sameHead [OF ih(2), of a "[c, c]"] lit by (simp add: a(2))
      have nc': "\<not> hasPrefix (c # a @ stripAuditPrefix rest) ''//''"
        using lit(3) by (auto simp: hasPrefix_simps isQuoteChar_def quote_defs)
      have "celTokens (c # a @ stripAuditPrefix rest) = map_option (Cons (TLit v)) (celTokens (stripAuditPrefix rest))"
        using lit np nc' a(3) by (subst celTokens.simps) simp
      then show ?thesis using ih(1) by (simp add: st l(4) stripTok_def) (simp add: Cons sameHead_def)
    next
      case symbol
      have "celTokens s = (case readSymbol s of None \<Rightarrow> None | Some y \<Rightarrow> map_option (Cons (TSym y)) (celTokens (drop (length y) s)))"
        using symbol nc Cons by (subst celTokens.simps) simp
      with "1.prems"(1) obtain y ts' where y: "readSymbol s = Some y" "celTokens (drop (length y) s) = Some ts'" "ts = TSym y # ts'"
        by (auto split: option.splits)
      obtain r where r: "s = y @ r" "y \<noteq> []" using readSymbol_nonempty [OF y(1)] by (auto simp: hasPrefix_iff)
      have "y \<in> set celSymbols" using y(1) by (auto simp: readSymbol_def find_Some_iff)
      then have sy: "list_all (\<lambda>c. \<not> isQuoteChar c \<and> \<not> isWordChar c) y" using symbols_short by (auto simp: list_all_iff)
      have "without ''//'' r" using "1.prems"(3) without_suffix [of "''//''" y r] by (simp add: r)
      then have ih: "celTokens (stripAuditPrefix r) = Some (map stripTok ts')" "sameHead r (stripAuditPrefix r)"
        using "1.IH"(5) [OF Cons symbol(1) _ symbol(2,3) y(1,2)] nc "1.prems"(2) y(3) by (simp_all add: r(1))
      have st: "stripAuditPrefix s = y @ stripAuditPrefix r" using strip_symbols [OF sy] by (simp add: r(1))
      obtain z where z: "y = c # z" using r Cons by (cases y) auto
      have "readSymbol (y @ stripAuditPrefix r) = Some y" using readSymbol_sameHead [OF ih(2) r(2)] y(1) by (simp add: r(1))
      moreover have "\<not> hasPrefix (y @ stripAuditPrefix r) ''//''"
        using hasPrefix_sameHead [OF ih(2) r(2), of "''//''"] nc by (simp add: r(1) isWordChar_def)
      ultimately have "celTokens (stripAuditPrefix s) = map_option (Cons (TSym y)) (celTokens (stripAuditPrefix r))"
        using celTokens_symbol [of c "z @ stripAuditPrefix r" y] symbol by (simp add: st z)
      then have "celTokens (stripAuditPrefix s) = Some (map stripTok ts)" using ih(1) y(3) by (simp add: stripTok_def)
      moreover have "sameHead s (stripAuditPrefix s)" unfolding st by (simp add: r(1) z sameHead_def)
      ultimately show ?thesis ..
    qed
  qed
qed



text \<open>Elsewhere in an identifier the prefix is removed too, and the filter asks for another field.\<close>

lemma prefix_inside_identifier: "stripAuditPrefix ''myaudit.verb == x'' = ''myverb == x''"
  by code_simp

text \<open>An apostrophe in a comment opens a literal for the translation but not for CEL: what follows keeps its prefix.\<close>

lemma comment_hides_prefix:
  "celTokens (''a // don'' @ [sQuote] @ ''t'' @ [CHR 0x0A] @ ''&& audit.verb'') = Some [TWord ''a'', TSym ''&&'', TWord ''audit.verb'']
   \<and> stripAuditPrefix (''a // don'' @ [sQuote] @ ''t'' @ [CHR 0x0A] @ ''&& audit.verb'') = ''a // don'' @ [sQuote] @ ''t'' @ [CHR 0x0A] @ ''&& audit.verb''"
  by code_simp

end
