(* ===== verification/Reindex_Job.thy ===== *)
theory Reindex_Job
  imports Reindex Policy_Admission
begin

text \<open>
  The life of a ReindexJob: internal/registry/activity/reindexjob/strategy.go, the strategy of the
  API server; internal/controller/reindexjob_controller.go and jobtemplate.go, which run it as a
  Kubernetes Job; and cmd/activity/reindex_worker.go, the process in that Job. The answers of the
  API servers, the clock, the parsing of resource quantities and \<open>meta.SetStatusCondition\<close> are
  parameters; metrics and logs are left out.
\<close>

section \<open>The resource\<close>

record ReindexTimeRange =
  trStartTime :: string
  trEndTime :: string

record ReindexPolicySelector =
  selNames :: "string list"
  selMatchLabels :: "(string \<times> string) list"

record ReindexConfig =
  cfgBatchSize :: int
  cfgRateLimit :: int
  cfgDryRun :: bool

record ReindexJobSpec =
  rjTimeRange :: ReindexTimeRange
  rjPolicySelector :: "ReindexPolicySelector option"
  rjConfig :: "ReindexConfig option"
  rjTTLSecondsAfterFinished :: "int option"

definition ReindexJobPending :: string where "ReindexJobPending = ''Pending''"
definition ReindexJobRunning :: string where "ReindexJobRunning = ''Running''"
definition ReindexJobSucceeded :: string where "ReindexJobSucceeded = ''Succeeded''"
definition ReindexJobFailed :: string where "ReindexJobFailed = ''Failed''"

lemmas phase_defs = ReindexJobPending_def ReindexJobRunning_def ReindexJobSucceeded_def ReindexJobFailed_def

record ReindexJobStatus =
  rjPhase :: string
  rjMessage :: string
  rjProgress :: "Progress option"
  rjStartedAt :: "instant option"
  rjCompletedAt :: "instant option"
  rjConditions :: "StatusCondition list"

record ReindexJob =
  rjName :: string
  rjGeneration :: int
  rjLabels :: "(string \<times> string) list"
  rjAnnotations :: "(string \<times> string) list"
  rjDeleting :: bool
  rjSpec :: ReindexJobSpec
  rjStatus :: ReindexJobStatus

definition terminal :: "string \<Rightarrow> bool" where
  "terminal phase = (phase = ReindexJobSucceeded \<or> phase = ReindexJobFailed)"

definition emptyJobStatus :: ReindexJobStatus where
  "emptyJobStatus = \<lparr>rjPhase = '''', rjMessage = '''', rjProgress = None, rjStartedAt = None, rjCompletedAt = None, rjConditions = []\<rparr>"

section \<open>strategy.go\<close>

definition jobPrepareForCreate :: "ReindexJob \<Rightarrow> ReindexJob" where
  "jobPrepareForCreate job =
     (let spec = rjSpec job;
          tr = rjTimeRange spec;
          tr' = (if trEndTime tr = '''' then tr\<lparr>trEndTime := ''now''\<rparr> else tr);
          c = (case rjConfig spec of None \<Rightarrow> \<lparr>cfgBatchSize = 0, cfgRateLimit = 0, cfgDryRun = False\<rparr> | Some c \<Rightarrow> c);
          c' = (if cfgBatchSize c = 0 then c\<lparr>cfgBatchSize := 1000\<rparr> else c);
          c'' = (if cfgRateLimit c' = 0 then c'\<lparr>cfgRateLimit := 100\<rparr> else c')
      in job\<lparr>rjStatus := emptyJobStatus, rjSpec := spec\<lparr>rjTimeRange := tr', rjConfig := Some c''\<rparr>\<rparr>)"

definition jobPrepareForUpdate :: "ReindexJob \<Rightarrow> ReindexJob \<Rightarrow> ReindexJob" where
  "jobPrepareForUpdate newJob oldJob = newJob\<lparr>rjStatus := rjStatus oldJob\<rparr>"

definition jobStatusPrepareForUpdate :: "ReindexJob \<Rightarrow> ReindexJob \<Rightarrow> ReindexJob" where
  "jobStatusPrepareForUpdate newJob oldJob =
     newJob\<lparr>rjSpec := rjSpec oldJob, rjLabels := rjLabels oldJob, rjAnnotations := rjAnnotations oldJob\<rparr>"

text \<open>The field errors carry their path and message; the parsing error inside a message is left out.\<close>

definition boundErrors :: "string \<Rightarrow> int \<Rightarrow> int \<Rightarrow> int \<Rightarrow> string \<Rightarrow> field_error list" where
  "boundErrors path v lo hi msg = (if v \<noteq> 0 \<and> (v < lo \<or> v > hi) then [FInvalid path msg] else [])"

definition parsedTime :: "string \<Rightarrow> instant \<Rightarrow> instant option" where
  "parsedTime s now = (if s = '''' then None else case ParseFlexibleTime s now of Inl _ \<Rightarrow> None | Inr t \<Rightarrow> Some t)"

definition timeErrors :: "string \<Rightarrow> string \<Rightarrow> instant \<Rightarrow> field_error list" where
  "timeErrors path s now = (if s \<noteq> '''' \<and> parsedTime s now = None then [FInvalid path ''invalid time format''] else [])"

definition ValidateReindexJobSpec :: "instant \<Rightarrow> ReindexJobSpec \<Rightarrow> string \<Rightarrow> field_error list" where
  "ValidateReindexJobSpec now spec specPath =
     (let tr = rjTimeRange spec;
          rangePath = specPath @ ''.timeRange''
      in (if trStartTime tr = '''' then [FRequired (rangePath @ ''.startTime'') ''startTime is required''] else [])
         @ timeErrors (rangePath @ ''.startTime'') (trStartTime tr) now
         @ timeErrors (rangePath @ ''.endTime'') (trEndTime tr) now
         @ (case (parsedTime (trStartTime tr) now, parsedTime (trEndTime tr) now) of
              (Some startTime, Some endTime) \<Rightarrow>
                if startTime \<noteq> zeroTime \<and> endTime \<noteq> zeroTime \<and> \<not> startTime < endTime
                then [FInvalid rangePath ''startTime must be before endTime''] else []
            | _ \<Rightarrow> [])
         @ (case rjPolicySelector spec of
              Some sel \<Rightarrow> if selNames sel \<noteq> [] \<and> selMatchLabels sel \<noteq> []
                then [FInvalid (specPath @ ''.policySelector'') ''names and matchLabels are mutually exclusive''] else []
            | None \<Rightarrow> [])
         @ (case rjConfig spec of
              Some c \<Rightarrow>
                boundErrors (specPath @ ''.config.batchSize'') (cfgBatchSize c) 100 10000 ''batchSize must be between 100 and 10000''
                @ boundErrors (specPath @ ''.config.rateLimit'') (cfgRateLimit c) 10 1000 ''rateLimit must be between 10 and 1000''
            | None \<Rightarrow> []))"

definition ValidateReindexJob :: "instant \<Rightarrow> ReindexJob \<Rightarrow> field_error list" where
  "ValidateReindexJob now job = ValidateReindexJobSpec now (rjSpec job) ''spec''"

definition jobValidateUpdate :: "instant \<Rightarrow> ReindexJob \<Rightarrow> ReindexJob \<Rightarrow> field_error list" where
  "jobValidateUpdate now job oldJob =
     ValidateReindexJob now job
     @ (if rjPhase (rjStatus oldJob) = ReindexJobRunning \<or> rjPhase (rjStatus oldJob) = ReindexJobSucceeded \<or> rjPhase (rjStatus oldJob) = ReindexJobFailed
        then (if trStartTime (rjTimeRange (rjSpec job)) \<noteq> trStartTime (rjTimeRange (rjSpec oldJob))
              then [FInvalid ''spec.timeRange.startTime'' ''spec is immutable after job starts''] else [])
        else [])"

text \<open>The first warning is without the duration it prints.\<close>

definition warningsForJob :: "instant \<Rightarrow> ReindexJob \<Rightarrow> string list" where
  "warningsForJob now job =
     (let tr = rjTimeRange (rjSpec job)
      in case parsedTime (trStartTime tr) now of
           None \<Rightarrow> []
         | Some rangeStart \<Rightarrow>
             (case parsedTime (if trEndTime tr = '''' then ''now'' else trEndTime tr) now of
                None \<Rightarrow> []
              | Some rangeEnd \<Rightarrow> if rangeEnd - rangeStart > 7 * 24 * hour then [''time range is large''] else []))
     @ (case rjConfig (rjSpec job) of
          Some c \<Rightarrow> if cfgDryRun c then [''dry-run mode enabled - no activities will be written''] else []
        | None \<Rightarrow> [])"

section \<open>jobtemplate.go\<close>

record ContainerSecurity =
  csAllowPrivilegeEscalation :: bool
  csReadOnlyRootFilesystem :: bool
  csRunAsNonRoot :: bool
  csDrop :: "string list"

text \<open>Quantities are in canonical form. The fields that only a template sets stay in \<open>'c\<close> and \<open>'p\<close>.\<close>

record 'c Container =
  cnName :: string
  cnImage :: string
  cnArgs :: "string list"
  cnLimits :: "(string \<times> string) list"
  cnRequests :: "(string \<times> string) list"
  cnSecurity :: "ContainerSecurity option"
  cnRest :: "'c option"

record PodSecurity =
  psRunAsNonRoot :: bool
  psRunAsUser :: int
  psRunAsGroup :: int
  psFSGroup :: int
  psSeccomp :: string

record ('c, 'p) PodSpec =
  pdRestartPolicy :: string
  pdServiceAccount :: string
  pdSecurity :: "PodSecurity option"
  pdContainers :: "'c Container list"
  pdRest :: "'p option"

record ('c, 'p) PodTemplate =
  ptLabels :: "(string \<times> string) list"
  ptSpec :: "('c, 'p) PodSpec"

record ('c, 'p) K8sJob =
  kjName :: string
  kjNamespace :: string
  kjLabels :: "(string \<times> string) list"
  kjBackoffLimit :: int
  kjTTLSecondsAfterFinished :: int
  kjTemplate :: "('c, 'p) PodTemplate"

definition ReindexContainerName :: string where "ReindexContainerName = ''reindex''"

definition secureContainer :: "'c Container" where
  "secureContainer = \<lparr>cnName = ReindexContainerName, cnImage = '''', cnArgs = [], cnLimits = [], cnRequests = [],
     cnSecurity = Some \<lparr>csAllowPrivilegeEscalation = False, csReadOnlyRootFilesystem = True, csRunAsNonRoot = True, csDrop = [''ALL'']\<rparr>,
     cnRest = None\<rparr>"

definition DefaultJobTemplate :: "('c, 'p) PodTemplate" where
  "DefaultJobTemplate =
     \<lparr>ptLabels = [], ptSpec = \<lparr>pdRestartPolicy = ''OnFailure'', pdServiceAccount = '''',
        pdSecurity = Some \<lparr>psRunAsNonRoot = True, psRunAsUser = 65532, psRunAsGroup = 65532, psFSGroup = 65532, psSeccomp = ''RuntimeDefault''\<rparr>,
        pdContainers = [secureContainer], pdRest = None\<rparr>\<rparr>"

text \<open>Loading a template: the ConfigMap's data, and the YAML decoder.\<close>

definition LoadJobTemplate ::
  "string + (string \<times> string) list \<Rightarrow> (string \<Rightarrow> string + ('c, 'p) PodTemplate) \<Rightarrow> string \<Rightarrow> string \<Rightarrow> string + ('c, 'p) PodTemplate" where
  "LoadJobTemplate configMap unmarshal namespace name =
     (case configMap of
        Inl err \<Rightarrow> Inl (''failed to get job template ConfigMap '' @ namespace @ ''/'' @ name @ '': '' @ err)
      | Inr cmData \<Rightarrow>
          (case map_of cmData ''template.yaml'' of
             None \<Rightarrow> Inl (''ConfigMap '' @ namespace @ ''/'' @ name @ '' does not contain key '' @ quoteQ ''template.yaml'')
           | Some templateData \<Rightarrow>
               (case unmarshal templateData of
                  Inl err \<Rightarrow> Inl (''failed to parse job template from ConfigMap '' @ namespace @ ''/'' @ name @ '': '' @ err)
                | Inr template \<Rightarrow> Inr template)))"

record JobBuildOptions =
  boReindexJobName :: string
  boJobNamespace :: string
  boActivityImage :: string
  boControllerArgs :: "string list"
  boLimits :: "(string \<times> string) list"
  boRequests :: "(string \<times> string) list"
  boServiceAccountName :: string

text \<open>The first container of that name, changed in place; otherwise a new one at the end.\<close>

fun updateReindexContainer :: "('c Container \<Rightarrow> 'c Container) \<Rightarrow> 'c Container list \<Rightarrow> 'c Container list" where
  "updateReindexContainer f [] = [f secureContainer]"
| "updateReindexContainer f (c # cs) = (if cnName c = ReindexContainerName then f c # cs else c # updateReindexContainer f cs)"

definition mergeMap :: "(string \<times> string) list \<Rightarrow> (string \<times> string) list \<Rightarrow> (string \<times> string) list" where
  "mergeMap base over = foldl (\<lambda>m (k, v). AList.update k v m) base over"

definition managedLabels :: "string \<Rightarrow> (string \<times> string) list" where
  "managedLabels name = [(''app'', ''activity-reindex''), (''reindex.activity.miloapis.com/job'', name)]"

definition MergeJobTemplate :: "('c, 'p) PodTemplate \<Rightarrow> JobBuildOptions \<Rightarrow> ('c, 'p) K8sJob" where
  "MergeJobTemplate template opts =
     (let podSpec = ptSpec template;
          managed = managedLabels (boReindexJobName opts);
          labels = managed @ filter (\<lambda>(k, _). map_of managed k = None) (ptLabels template);
          setContainer = (\<lambda>c. let c' = c\<lparr>cnImage := boActivityImage opts, cnArgs := cnArgs c @ boControllerArgs opts\<rparr>
            in if boLimits opts \<noteq> [] \<or> boRequests opts \<noteq> []
               then c'\<lparr>cnLimits := mergeMap (cnLimits c) (boLimits opts), cnRequests := mergeMap (cnRequests c) (boRequests opts)\<rparr> else c');
          podSpec' = podSpec\<lparr>
            pdRestartPolicy := (if pdRestartPolicy podSpec = '''' then ''OnFailure'' else pdRestartPolicy podSpec),
            pdServiceAccount := (if boServiceAccountName opts \<noteq> '''' then boServiceAccountName opts else pdServiceAccount podSpec),
            pdContainers := updateReindexContainer setContainer (pdContainers podSpec)\<rparr>
      in \<lparr>kjName = boReindexJobName opts @ ''-job'', kjNamespace = boJobNamespace opts, kjLabels = labels,
          kjBackoffLimit = 3, kjTTLSecondsAfterFinished = 300, kjTemplate = \<lparr>ptLabels = labels, ptSpec = podSpec'\<rparr>\<rparr>)"

section \<open>reindexjob_controller.go\<close>

record JobStatusView =
  jvCompletionTime :: "instant option"
  jvSucceeded :: int
  jvFailed :: int

datatype job_get = JobFound JobStatusView | JobNotFound | JobGetFailed string

datatype delete_reply = Deleted | DeleteNotFound | DeleteFailed string

record ('c, 'p) JobSettings =
  jsNamespace :: string
  jsImage :: string
  jsServiceAccount :: string
  jsMemoryLimit :: string
  jsCPULimit :: string
  jsMaxConcurrentJobs :: int
  jsTemplate :: "('c, 'p) PodTemplate option"
  jsNATSURL :: string
  jsTLSEnabled :: bool
  jsTLSCertFile :: string
  jsTLSKeyFile :: string
  jsTLSCAFile :: string

text \<open>What a reconciliation is told: its configuration, the clock, and the answers of both clusters.\<close>

record ('c, 'p) reconcile_env =
  rcSettings :: "('c, 'p) JobSettings"
  rcNow :: instant
  rcFetched :: "string + ReindexJob option"
  rcListed :: "string + JobStatusView list"
  rcJob :: job_get
  rcCreateErr :: "string option"
  rcStatusErr :: "string option"
  rcDeleteErr :: "string option"
  rcJobDelete :: delete_reply
  rcParseQuantity :: "string \<Rightarrow> string option"
  rcSetCondition :: "StatusCondition \<Rightarrow> StatusCondition list \<Rightarrow> StatusCondition list"

text \<open>What it did, in order.\<close>

datatype ('c, 'p) job_effect =
    CreatedJob "('c, 'p) K8sJob" | WroteStatus ReindexJob | DeletedReindexJob string | DeletedJob string | Recorded string string

text \<open>The effects, the time after which to run again (0 when unset), and the error.\<close>

type_synonym ('c, 'p) reconcile_result = "('c, 'p) job_effect list \<times> int \<times> string option"

definition jobCondition :: "string \<Rightarrow> string \<Rightarrow> string \<Rightarrow> ReindexJob \<Rightarrow> instant \<Rightarrow> StatusCondition" where
  "jobCondition status reason message job now =
     \<lparr>scType = ''Ready'', scStatus = status, scReason = reason, scMessage = message, scObservedGeneration = rjGeneration job, scLastTransition = now\<rparr>"

definition handleTTLCleanup :: "('c, 'p) reconcile_env \<Rightarrow> ReindexJob \<Rightarrow> ('c, 'p) reconcile_result" where
  "handleTTLCleanup env job =
     (case rjTTLSecondsAfterFinished (rjSpec job) of
        None \<Rightarrow> ([], 0, None)
      | Some ttl \<Rightarrow>
          (case rjCompletedAt (rjStatus job) of
             None \<Rightarrow> ([], 0, None)
           | Some completedAt \<Rightarrow>
               (let expirationTime = completedAt + ttl * second
                in if rcNow env < expirationTime
                   then (let remainingTTL = expirationTime - rcNow env
                         in ([], if remainingTTL < second then second else remainingTTL, None))
                   else (let event = Recorded ''TTLExpired'' (''ReindexJob deleted after '' @ fmtInt ttl @ '' seconds TTL'')
                         in case rcDeleteErr env of
                              Some err \<Rightarrow> ([event], 0, Some err)
                            | None \<Rightarrow> ([event, DeletedReindexJob (rjName job)], 0, None)))))"

text \<open>\<open>None\<close> is the panic of \<open>resource.MustParse\<close>.\<close>

definition buildJobForReindexJob :: "('c, 'p) reconcile_env \<Rightarrow> ReindexJob \<Rightarrow> ('c, 'p) K8sJob option" where
  "buildJobForReindexJob env job =
     (let r = rcSettings env;
          args = [''reindex-worker'', rjName job, ''--nats-url='' @ jsNATSURL r, ''--logging-format=json'']
            @ (if jsTLSEnabled r
               then [''--nats-tls-enabled=true'']
                 @ (if jsTLSCertFile r \<noteq> '''' then [''--nats-tls-cert-file='' @ jsTLSCertFile r] else [])
                 @ (if jsTLSKeyFile r \<noteq> '''' then [''--nats-tls-key-file='' @ jsTLSKeyFile r] else [])
                 @ (if jsTLSCAFile r \<noteq> '''' then [''--nats-tls-ca-file='' @ jsTLSCAFile r] else [])
               else []);
          quantity = (\<lambda>name s. if s = '''' then Some [] else map_option (\<lambda>q. [(name, q)]) (rcParseQuantity env s))
      in case quantity ''memory'' (jsMemoryLimit r) of
           None \<Rightarrow> None
         | Some mem \<Rightarrow>
             (case quantity ''cpu'' (jsCPULimit r) of
                None \<Rightarrow> None
              | Some cpu \<Rightarrow>
                  Some (MergeJobTemplate (case jsTemplate r of None \<Rightarrow> DefaultJobTemplate | Some t \<Rightarrow> t)
                    \<lparr>boReindexJobName = rjName job, boJobNamespace = jsNamespace r, boActivityImage = jsImage r, boControllerArgs = args,
                     boLimits = mem @ cpu, boRequests = mem, boServiceAccountName = jsServiceAccount r\<rparr>)))"

text \<open>A panic ends the reconciliation with an error: controller-runtime recovers it.\<close>

definition startJob :: "('c, 'p) reconcile_env \<Rightarrow> ReindexJob \<Rightarrow> ('c, 'p) reconcile_result" where
  "startJob env job =
     (case buildJobForReindexJob env job of
        None \<Rightarrow> ([], 0, Some ''panic'')
      | Some k8sJob \<Rightarrow>
          (case rcCreateErr env of
             Some err \<Rightarrow> ([], 0, Some err)
           | None \<Rightarrow>
               (let status = (rjStatus job)\<lparr>rjPhase := ReindexJobRunning, rjStartedAt := Some (rcNow env),
                      rjMessage := ''Job created, waiting for execution'',
                      rjConditions := rcSetCondition env (jobCondition ''False'' ''InProgress'' ''Re-indexing in progress'' job (rcNow env))
                        (rjConditions (rjStatus job))\<rparr>
                in case rcStatusErr env of
                     Some err \<Rightarrow> ([CreatedJob k8sJob], 0, Some err)
                   | None \<Rightarrow>
                       ([CreatedJob k8sJob, WroteStatus (job\<lparr>rjStatus := status\<rparr>),
                         Recorded ''Started'' (''Started re-indexing from '' @ trStartTime (rjTimeRange (rjSpec job)) @ '' to ''
                           @ (if trEndTime (rjTimeRange (rjSpec job)) = '''' then ''now'' else trEndTime (rjTimeRange (rjSpec job))))],
                        5 * second, None))))"

text \<open>The object that is returned is never nil: on an error it is the zero value.\<close>

definition getJobForReindexJob :: "job_get \<Rightarrow> JobStatusView option \<times> job_get" where
  "getJobForReindexJob reply =
     (case reply of JobFound v \<Rightarrow> Some v | _ \<Rightarrow> Some \<lparr>jvCompletionTime = None, jvSucceeded = 0, jvFailed = 0\<rparr>, reply)"

definition countRunningJobs :: "string + JobStatusView list \<Rightarrow> string + int" where
  "countRunningJobs listed =
     (case listed of Inl err \<Rightarrow> Inl err | Inr items \<Rightarrow> Inr (int (length (filter (\<lambda>j. jvCompletionTime j = None) items))))"

definition checkJobStatus :: "JobStatusView option \<Rightarrow> ('c, 'p) reconcile_result" where
  "checkJobStatus job =
     (case job of
        None \<Rightarrow> ([], 5 * second, None)
      | Some v \<Rightarrow> if jvCompletionTime v \<noteq> None then ([], 0, None) else ([], 5 * second, None))"

definition handleDeletion :: "('c, 'p) reconcile_env \<Rightarrow> ReindexJob \<Rightarrow> ('c, 'p) reconcile_result" where
  "handleDeletion env job =
     (case rcJob env of
        JobFound _ \<Rightarrow>
          (case rcJobDelete env of
             DeleteFailed err \<Rightarrow> ([], 0, Some err)
           | Deleted \<Rightarrow> ([DeletedJob (rjName job @ ''-job'')], 0, None)
           | DeleteNotFound \<Rightarrow> ([], 0, None))
      | _ \<Rightarrow> ([], 0, None))"

definition queueJob :: "('c, 'p) reconcile_env \<Rightarrow> int \<Rightarrow> ReindexJob \<Rightarrow> ('c, 'p) reconcile_result" where
  "queueJob env runningCount job =
     (if rjPhase (rjStatus job) = ReindexJobPending then ([], 30 * second, None)
      else (let msg = ''Waiting for slot (running: '' @ fmtInt runningCount @ ''/'' @ fmtInt (jsMaxConcurrentJobs (rcSettings env)) @ '')'';
                status = (rjStatus job)\<lparr>rjPhase := ReindexJobPending, rjMessage := msg,
                  rjConditions := rcSetCondition env (jobCondition ''False'' ''Pending'' msg job (rcNow env)) (rjConditions (rjStatus job))\<rparr>
            in case rcStatusErr env of
                 Some err \<Rightarrow> ([], 0, Some err)
               | None \<Rightarrow> ([WroteStatus (job\<lparr>rjStatus := status\<rparr>), Recorded ''Queued'' msg], 30 * second, None)))"

definition reconcileActive :: "('c, 'p) reconcile_env \<Rightarrow> ReindexJob \<Rightarrow> ('c, 'p) reconcile_result" where
  "reconcileActive env job =
     (case countRunningJobs (rcListed env) of
        Inl err \<Rightarrow> ([], 0, Some err)
      | Inr runningCount \<Rightarrow>
          (case getJobForReindexJob (rcJob env) of
             (_, JobGetFailed err) \<Rightarrow> ([], 0, Some err)
           | (existingJob, _) \<Rightarrow>
               (let isRunning = (case existingJob of Some v \<Rightarrow> jvCompletionTime v = None | None \<Rightarrow> False)
                in if runningCount \<ge> jsMaxConcurrentJobs (rcSettings env) \<and> \<not> isRunning then queueJob env runningCount job
                   else if rjPhase (rjStatus job) = '''' \<or> rjPhase (rjStatus job) = ReindexJobPending then startJob env job
                   else if rjPhase (rjStatus job) = ReindexJobRunning then checkJobStatus existingJob
                   else ([], 0, None))))"

definition ReindexReconcile :: "('c, 'p) reconcile_env \<Rightarrow> ('c, 'p) reconcile_result" where
  "ReindexReconcile env =
     (case rcFetched env of
        Inl err \<Rightarrow> ([], 0, Some err)
      | Inr None \<Rightarrow> ([], 0, None)
      | Inr (Some job) \<Rightarrow>
          if rjDeleting job then handleDeletion env job
          else if rjPhase (rjStatus job) = ReindexJobSucceeded \<or> rjPhase (rjStatus job) = ReindexJobFailed then handleTTLCleanup env job
          else reconcileActive env job)"

section \<open>reindex_worker.go\<close>

definition retentionWindow :: int where "retentionWindow = 60 * 24 * hour"

text \<open>The status after \<open>updateJobPhase\<close> has written it at a time.\<close>

definition phaseStatus ::
  "(StatusCondition \<Rightarrow> StatusCondition list \<Rightarrow> StatusCondition list) \<Rightarrow> instant \<Rightarrow> string \<Rightarrow> string \<Rightarrow> ReindexJob \<Rightarrow> ReindexJobStatus" where
  "phaseStatus setCond now phase message latest =
     (let st = (rjStatus latest)\<lparr>rjPhase := phase, rjMessage := message\<rparr>;
          st1 = (if phase = ReindexJobSucceeded \<or> phase = ReindexJobFailed then st\<lparr>rjCompletedAt := Some now\<rparr> else st);
          st2 = (if phase = ReindexJobRunning \<and> rjStartedAt st1 = None then st1\<lparr>rjStartedAt := Some now\<rparr> else st1);
          (status, reason) = (if phase = ReindexJobPending then (''False'', ''Pending'') else if phase = ReindexJobRunning then (''False'', ''InProgress'')
            else if phase = ReindexJobSucceeded then (''True'', ''Succeeded'') else if phase = ReindexJobFailed then (''False'', ''Failed'') else ('''', ''''))
      in st2\<lparr>rjConditions := setCond (jobCondition status reason message latest now) (rjConditions st2)\<rparr>)"

definition progressStatus :: "Progress \<Rightarrow> ReindexJob \<Rightarrow> ReindexJobStatus" where
  "progressStatus progress latest =
     (rjStatus latest)\<lparr>rjProgress := Some progress,
       rjMessage := ''Processing: '' @ fmtInt (pgProcessedEvents progress) @ '' events processed, ''
         @ fmtInt (pgActivitiesGenerated progress) @ '' activities generated''\<rparr>"

text \<open>The set-up steps that can fail, each with its message; the answers to the worker's status writes, and its clock.\<close>

record worker_env =
  weNATSURL :: string
  weJobName :: string
  weLogsErr :: "string option"
  weConnect :: "(string \<times> string option) list"
  weFetched :: "string + ReindexJob"
  weBroker :: "(string \<times> string option) list"
  weMapperErr :: "string option"
  weWriteErr :: "nat \<Rightarrow> string option"
  weClock :: "nat \<Rightarrow> instant"
  weParseAt :: instant
  weCheckAt :: instant
  weSetCondition :: "StatusCondition \<Rightarrow> StatusCondition list \<Rightarrow> StatusCondition list"

text \<open>The stored object, absent when it was deleted, and the writes so far.\<close>

record worker_state =
  wkStored :: "ReindexJob option"
  wkWrites :: nat

definition writeStatus :: "worker_env \<Rightarrow> (ReindexJob \<Rightarrow> ReindexJobStatus) \<Rightarrow> worker_state \<Rightarrow> string option \<times> worker_state" where
  "writeStatus env f st =
     (let st1 = st\<lparr>wkWrites := Suc (wkWrites st)\<rparr>
      in case wkStored st of
           None \<Rightarrow> (Some ''not found'', st1)
         | Some latest \<Rightarrow>
             (case weWriteErr env (wkWrites st) of
                Some err \<Rightarrow> (Some err, st1)
              | None \<Rightarrow> (None, st1\<lparr>wkStored := Some (latest\<lparr>rjStatus := f latest\<rparr>)\<rparr>)))"

definition updateJobPhase :: "worker_env \<Rightarrow> string \<Rightarrow> string \<Rightarrow> worker_state \<Rightarrow> string option \<times> worker_state" where
  "updateJobPhase env phase message st =
     writeStatus env (phaseStatus (weSetCondition env) (weClock env (wkWrites st)) phase message) st"

definition updateJobProgress :: "worker_env \<Rightarrow> Progress \<Rightarrow> worker_state \<Rightarrow> string option \<times> worker_state" where
  "updateJobProgress env progress st = writeStatus env (progressStatus progress) st"

text \<open>The progress callback: a failed update is ignored.\<close>

fun reportAll :: "worker_env \<Rightarrow> Progress list \<Rightarrow> worker_state \<Rightarrow> worker_state" where
  "reportAll env [] st = st"
| "reportAll env (p # ps) st = reportAll env ps (snd (updateJobProgress env p st))"

fun firstError :: "(string \<times> string option) list \<Rightarrow> string option" where
  "firstError [] = None"
| "firstError ((what, None) # steps) = firstError steps"
| "firstError ((what, Some err) # steps) = Some (what @ '': '' @ err)"

definition workerOptions :: "ReindexJob \<Rightarrow> instant \<Rightarrow> instant \<Rightarrow> Options" where
  "workerOptions job startTime endTime =
     \<lparr>opStartTime = startTime, opEndTime = endTime,
      opBatchSize = (case rjConfig (rjSpec job) of Some c \<Rightarrow> if cfgBatchSize c > 0 then cfgBatchSize c else 1000 | None \<Rightarrow> 1000),
      opRateLimit = (case rjConfig (rjSpec job) of Some c \<Rightarrow> if cfgRateLimit c > 0 then cfgRateLimit c else 100 | None \<Rightarrow> 100),
      opDryRun = (case rjConfig (rjSpec job) of Some c \<Rightarrow> cfgDryRun c | None \<Rightarrow> False),
      opPolicyNames = (case rjPolicySelector (rjSpec job) of Some s \<Rightarrow> selNames s | None \<Rightarrow> []),
      opMatchLabels = (case rjPolicySelector (rjSpec job) of Some s \<Rightarrow> selMatchLabels s | None \<Rightarrow> [])\<rparr>"

text \<open>Whole days of an age, in the binary floating point of \<open>Duration.Hours\<close>.\<close>

definition ageInDays :: "int \<Rightarrow> int" where
  "ageInDays d = \<lfloor>rnd64 (rnd64 (of_int (d div hour) + rnd64 (of_int (d mod hour) / of_int hour)) / 24)\<rfloor>"

definition finishWorker :: "worker_env \<Rightarrow> bool \<Rightarrow> worker_state \<Rightarrow> worker_state" where
  "finishWorker env dryRun st =
     (case wkStored st of
        None \<Rightarrow> st
      | Some finalJob \<Rightarrow>
          (let n = (case rjProgress (rjStatus finalJob) of Some p \<Rightarrow> pgActivitiesGenerated p | None \<Rightarrow> 0);
               msg = (if dryRun then ''Dry-run complete: '' @ fmtInt n @ '' activities would be generated''
                      else ''Completed: '' @ fmtInt n @ '' activities generated'')
           in snd (updateJobPhase env ReindexJobSucceeded msg st)))"

text \<open>
  \<open>run\<close> is the reindexer: \<open>None\<close> when it never returns, otherwise its error and the progress
  it reported.
\<close>

definition runJob ::
  "worker_env \<Rightarrow> (Options \<Rightarrow> (string option \<times> Progress list) option) \<Rightarrow> ReindexJob \<Rightarrow> worker_state \<Rightarrow> (string option \<times> worker_state) option" where
  "runJob env run job st =
     (let fail = (\<lambda>msg err. Some (Some err, snd (updateJobPhase env ReindexJobFailed msg st)));
          tr = rjTimeRange (rjSpec job)
      in case ParseFlexibleTime (trStartTime tr) (weParseAt env) of
           Inl _ \<Rightarrow> fail ''Invalid startTime'' ''invalid startTime''
         | Inr startTime \<Rightarrow>
             (case ParseFlexibleTime (if trEndTime tr = '''' then ''now'' else trEndTime tr) (weParseAt env) of
                Inl _ \<Rightarrow> fail ''Invalid endTime'' ''invalid endTime''
              | Inr endTime \<Rightarrow>
                  (let timeSinceStart = weCheckAt env - startTime
                   in if timeSinceStart > retentionWindow
                      then fail (''startTime exceeds ClickHouse retention window: data from '' @ formatRFC3339 startTime
                        @ '' is beyond the 60-day retention period (age: '' @ fmtInt (ageInDays timeSinceStart) @ ''d)'') ''retention window exceeded''
                      else (let opts = workerOptions job startTime endTime
                            in case run opts of
                                 None \<Rightarrow> None
                               | Some (runErr, reports) \<Rightarrow>
                                   (let st1 = reportAll env reports st
                                    in case runErr of
                                         Some err \<Rightarrow> Some (Some err, snd (updateJobPhase env ReindexJobFailed (''Re-indexing failed: '' @ err) st1))
                                       | None \<Rightarrow> Some (None, finishWorker env (opDryRun opts) st1))))))"

definition RunReindexWorker ::
  "worker_env \<Rightarrow> (Options \<Rightarrow> (string option \<times> Progress list) option) \<Rightarrow> worker_state \<Rightarrow> (string option \<times> worker_state) option" where
  "RunReindexWorker env run st =
     (if weLogsErr env \<noteq> None then Some (firstError [(''failed to apply logging configuration'', weLogsErr env)], st)
      else if weNATSURL env = '''' then Some (Some ''--nats-url is required'', st)
      else if weJobName env = '''' then Some (Some ''reindexjob name is required'', st)
      else (case firstError (weConnect env) of
              Some err \<Rightarrow> Some (Some err, st)
            | None \<Rightarrow>
                (case weFetched env of
                   Inl err \<Rightarrow> Some (Some (''failed to fetch ReindexJob '' @ weJobName env @ '': '' @ err), st)
                 | Inr job \<Rightarrow>
                     (case firstError (weBroker env) of
                        Some err \<Rightarrow> Some (Some err, st)
                      | None \<Rightarrow>
                          (case updateJobPhase env ReindexJobRunning ''Re-indexing in progress'' st of
                             (Some err, st1) \<Rightarrow> Some (Some (''failed to update status to Running: '' @ err), st1)
                           | (None, st1) \<Rightarrow>
                               (case weMapperErr env of
                                  Some err \<Rightarrow> Some (Some (''failed to create REST mapper: '' @ err), st1)
                                | None \<Rightarrow> runJob env run job st1))))))"

text \<open>The reindexer of the worker, with the reports it made.\<close>

definition reindexerRun where
  "reindexerRun env listed auditAPI eventAPI fuel cache0 st opts =
     map_option (\<lambda>(err, st'). (err, rsReports st')) (Run env listed auditAPI eventAPI opts fuel cache0 st)"

section \<open>The job that is created\<close>

lemma map_of_update_list: "map_of (AList.update k v m) = (map_of m)(k \<mapsto> v)"
  by (rule AList.update_conv')

lemma mergeMap_map_of: "map_of (mergeMap base over) = map_of base ++ map_of (rev over)"
  unfolding mergeMap_def by (induction over arbitrary: base) (auto simp: map_of_update_list)

lemma map_of_filter_fst: "map_of (filter (\<lambda>(k, _). P k) xs) x = (if P x then map_of xs x else None)"
  by (induction xs) auto

lemma updateReindexContainer_split:
  "(\<exists>before c after. cs = before @ c # after \<and> cnName c = ReindexContainerName \<and> (\<forall>d \<in> set before. cnName d \<noteq> ReindexContainerName)
      \<and> updateReindexContainer f cs = before @ f c # after)
   \<or> ((\<forall>d \<in> set cs. cnName d \<noteq> ReindexContainerName) \<and> updateReindexContainer f cs = cs @ [f secureContainer])"
proof (induction cs)
  case (Cons c cs)
  show ?case
  proof (cases "cnName c = ReindexContainerName")
    case True
    then show ?thesis by (intro disjI1 exI [of _ "[]"]) auto
  next
    case False
    from Cons.IH show ?thesis
    proof (elim disjE exE conjE)
      fix before d after
      assume "cs = before @ d # after" "cnName d = ReindexContainerName" "\<forall>d \<in> set before. cnName d \<noteq> ReindexContainerName"
        "updateReindexContainer f cs = before @ f d # after"
      with False show ?thesis by (intro disjI1 exI [of _ "c # before"] exI [of _ d] exI [of _ after]) auto
    qed (use False in auto)
  qed
qed simp

text \<open>
  Whatever template an operator configures, the created job has the controller's name,
  namespace, retry limit, lifetime and labels; exactly one container is changed, the first of the
  reserved name or a new restricted one, which runs the controller's image with the template's
  arguments followed by the controller's and with the controller's resource limits taking
  precedence; every other container and the rest of the pod are the template's.
\<close>

theorem merged_job_keeps_managed_fields:
  fixes template :: "('c, 'p) PodTemplate"
  shows "kjName (MergeJobTemplate template opts) = boReindexJobName opts @ ''-job'' \<and> kjNamespace (MergeJobTemplate template opts) = boJobNamespace opts
   \<and> kjBackoffLimit (MergeJobTemplate template opts) = 3 \<and> kjTTLSecondsAfterFinished (MergeJobTemplate template opts) = 300
   \<and> map_of (kjLabels (MergeJobTemplate template opts)) = map_of (ptLabels template) ++ map_of (managedLabels (boReindexJobName opts))
   \<and> (\<exists>before c c' after. pdContainers (ptSpec (kjTemplate (MergeJobTemplate template opts))) = before @ c' # after
        \<and> (pdContainers (ptSpec template) = before @ c # after \<or> (pdContainers (ptSpec template) = before \<and> after = [] \<and> c = secureContainer))
        \<and> cnName c' = ReindexContainerName \<and> cnName c = ReindexContainerName \<and> (\<forall>d \<in> set before. cnName d \<noteq> ReindexContainerName)
        \<and> cnImage c' = boActivityImage opts \<and> cnArgs c' = cnArgs c @ boControllerArgs opts \<and> cnSecurity c' = cnSecurity c \<and> cnRest c' = cnRest c
        \<and> map_of (cnLimits c') = map_of (cnLimits c) ++ map_of (rev (boLimits opts))
        \<and> map_of (cnRequests c') = map_of (cnRequests c) ++ map_of (rev (boRequests opts)))
   \<and> pdSecurity (ptSpec (kjTemplate (MergeJobTemplate template opts))) = pdSecurity (ptSpec template)
   \<and> pdRest (ptSpec (kjTemplate (MergeJobTemplate template opts))) = pdRest (ptSpec template)
   \<and> pdRestartPolicy (ptSpec (kjTemplate (MergeJobTemplate template opts))) \<noteq> ''''"
proof -
  let ?f = "\<lambda>c :: 'c Container. let c' = c\<lparr>cnImage := boActivityImage opts, cnArgs := cnArgs c @ boControllerArgs opts\<rparr>
     in if boLimits opts \<noteq> [] \<or> boRequests opts \<noteq> []
        then c'\<lparr>cnLimits := mergeMap (cnLimits c) (boLimits opts), cnRequests := mergeMap (cnRequests c) (boRequests opts)\<rparr> else c'"
  have f: "cnName (?f c) = cnName c" "cnImage (?f c) = boActivityImage opts" "cnArgs (?f c) = cnArgs c @ boControllerArgs opts"
    "cnSecurity (?f c) = cnSecurity c" "cnRest (?f c) = cnRest c"
    "map_of (cnLimits (?f c)) = map_of (cnLimits c) ++ map_of (rev (boLimits opts))"
    "map_of (cnRequests (?f c)) = map_of (cnRequests c) ++ map_of (rev (boRequests opts))" for c
    by (simp_all add: Let_def mergeMap_map_of)
  have cs: "pdContainers (ptSpec (kjTemplate (MergeJobTemplate template opts))) = updateReindexContainer ?f (pdContainers (ptSpec template))"
    by (simp add: MergeJobTemplate_def Let_def)
  have "\<exists>before c c' after. updateReindexContainer ?f (pdContainers (ptSpec template)) = before @ c' # after
        \<and> (pdContainers (ptSpec template) = before @ c # after \<or> (pdContainers (ptSpec template) = before \<and> after = [] \<and> c = secureContainer))
        \<and> c' = ?f c \<and> cnName c = ReindexContainerName \<and> (\<forall>d \<in> set before. cnName d \<noteq> ReindexContainerName)"
    using updateReindexContainer_split [of "pdContainers (ptSpec template)" ?f]
  proof (elim disjE exE conjE)
    fix before c after
    assume "pdContainers (ptSpec template) = before @ c # after" "cnName c = ReindexContainerName" "\<forall>d \<in> set before. cnName d \<noteq> ReindexContainerName"
      "updateReindexContainer ?f (pdContainers (ptSpec template)) = before @ ?f c # after"
    then show ?thesis by (intro exI [of _ before] exI [of _ c] exI [of _ "?f c"] exI [of _ after]) simp
  next
    assume "\<forall>d \<in> set (pdContainers (ptSpec template)). cnName d \<noteq> ReindexContainerName"
      "updateReindexContainer ?f (pdContainers (ptSpec template)) = pdContainers (ptSpec template) @ [?f secureContainer]"
    then show ?thesis
      by (intro exI [of _ "pdContainers (ptSpec template)"] exI [of _ secureContainer] exI [of _ "?f secureContainer"] exI [of _ "[]"])
        (simp add: secureContainer_def ReindexContainerName_def)
  qed
  then obtain before c after where c: "updateReindexContainer ?f (pdContainers (ptSpec template)) = before @ ?f c # after"
      "pdContainers (ptSpec template) = before @ c # after \<or> (pdContainers (ptSpec template) = before \<and> after = [] \<and> c = secureContainer)"
      "cnName c = ReindexContainerName" "\<forall>d \<in> set before. cnName d \<noteq> ReindexContainerName" by blast
  have "map_of (kjLabels (MergeJobTemplate template opts)) = map_of (ptLabels template) ++ map_of (managedLabels (boReindexJobName opts))"
    by (rule ext) (simp add: MergeJobTemplate_def Let_def map_add_def map_of_filter_fst split: option.split)
  then show ?thesis
    unfolding cs c(1)
    by (intro conjI exI [of _ before] exI [of _ c] exI [of _ "?f c"] exI [of _ after])
      (use c f in \<open>simp_all add: MergeJobTemplate_def Let_def\<close>)
qed
section \<open>The controller\<close>

text \<open>
  The controller deletes a ReindexJob only when it is finished, has a time to live and that time
  has passed since it completed. Before then it asks to be run again no earlier than a second later
  and no earlier than the time at which the job expires, so that no expired job is missed.
\<close>

theorem ttl_deletes_only_expired:
  "(\<forall>name. DeletedReindexJob name \<in> set (fst (ReindexReconcile env)) \<longrightarrow>
      (\<exists>job ttl c. rcFetched env = Inr (Some job) \<and> rjName job = name \<and> \<not> rjDeleting job \<and> terminal (rjPhase (rjStatus job))
        \<and> rjTTLSecondsAfterFinished (rjSpec job) = Some ttl \<and> rjCompletedAt (rjStatus job) = Some c \<and> c + ttl * second \<le> rcNow env))
   \<and> (\<forall>job ttl c. rcFetched env = Inr (Some job) \<and> \<not> rjDeleting job \<and> terminal (rjPhase (rjStatus job))
        \<and> rjTTLSecondsAfterFinished (rjSpec job) = Some ttl \<and> rjCompletedAt (rjStatus job) = Some c \<longrightarrow>
      (if rcNow env < c + ttl * second
       then fst (ReindexReconcile env) = [] \<and> second \<le> fst (snd (ReindexReconcile env)) \<and> c + ttl * second \<le> rcNow env + fst (snd (ReindexReconcile env))
       else rcDeleteErr env = None \<longrightarrow> DeletedReindexJob (rjName job) \<in> set (fst (ReindexReconcile env))))"
proof -
  have start: "DeletedReindexJob n \<notin> set (fst (startJob env job))" for n job
    by (simp add: startJob_def Let_def split: option.split)
  have active: "DeletedReindexJob n \<notin> set (fst (reconcileActive env job))" for n job
    using start [of n job]
    by (simp add: reconcileActive_def queueJob_def checkJobStatus_def getJobForReindexJob_def Let_def split: sum.split option.split job_get.split)
  have deletion: "DeletedReindexJob n \<notin> set (fst (handleDeletion env job))" for n job
    by (simp add: handleDeletion_def split: job_get.split delete_reply.split)
  have ttl: "DeletedReindexJob n \<in> set (fst (handleTTLCleanup env job)) \<Longrightarrow> n = rjName job \<and>
      (\<exists>ttl c. rjTTLSecondsAfterFinished (rjSpec job) = Some ttl \<and> rjCompletedAt (rjStatus job) = Some c \<and> c + ttl * second \<le> rcNow env)" for n job
    by (auto simp: handleTTLCleanup_def Let_def split: option.splits if_splits)
  show ?thesis
  proof (intro conjI allI impI)
    fix n assume d: "DeletedReindexJob n \<in> set (fst (ReindexReconcile env))"
    then obtain job where job: "rcFetched env = Inr (Some job)" "\<not> rjDeleting job" "terminal (rjPhase (rjStatus job))"
        "DeletedReindexJob n \<in> set (fst (handleTTLCleanup env job))"
      using active deletion by (auto simp: ReindexReconcile_def terminal_def split: sum.splits option.splits if_splits)
    with ttl [OF job(4)] show "\<exists>job ttl c. rcFetched env = Inr (Some job) \<and> rjName job = n \<and> \<not> rjDeleting job \<and> terminal (rjPhase (rjStatus job))
        \<and> rjTTLSecondsAfterFinished (rjSpec job) = Some ttl \<and> rjCompletedAt (rjStatus job) = Some c \<and> c + ttl * second \<le> rcNow env" by blast
  next
    fix job ttl c
    assume "rcFetched env = Inr (Some job) \<and> \<not> rjDeleting job \<and> terminal (rjPhase (rjStatus job))
        \<and> rjTTLSecondsAfterFinished (rjSpec job) = Some ttl \<and> rjCompletedAt (rjStatus job) = Some c"
    then show "if rcNow env < c + ttl * second
       then fst (ReindexReconcile env) = [] \<and> second \<le> fst (snd (ReindexReconcile env)) \<and> c + ttl * second \<le> rcNow env + fst (snd (ReindexReconcile env))
       else rcDeleteErr env = None \<longrightarrow> DeletedReindexJob (rjName job) \<in> set (fst (ReindexReconcile env))"
      by (auto simp: ReindexReconcile_def terminal_def handleTTLCleanup_def Let_def split: option.split)
  qed
qed

definition exampleJob :: ReindexJob where
  "exampleJob = \<lparr>rjName = ''r'', rjGeneration = 1, rjLabels = [], rjAnnotations = [], rjDeleting = False,
     rjSpec = \<lparr>rjTimeRange = \<lparr>trStartTime = ''now-7d'', trEndTime = ''''\<rparr>, rjPolicySelector = None, rjConfig = None, rjTTLSecondsAfterFinished = Some 60\<rparr>,
     rjStatus = emptyJobStatus\<rparr>"

definition exampleReconcile :: "instant \<Rightarrow> ReindexJob \<Rightarrow> job_get \<Rightarrow> JobStatusView list \<Rightarrow> (unit, unit) reconcile_env" where
  "exampleReconcile now job found running =
     \<lparr>rcSettings = \<lparr>jsNamespace = ''activity'', jsImage = ''activity:1'', jsServiceAccount = '''', jsMemoryLimit = ''2Gi'', jsCPULimit = ''1'',
        jsMaxConcurrentJobs = 1, jsTemplate = None, jsNATSURL = ''nats://n'', jsTLSEnabled = False, jsTLSCertFile = '''', jsTLSKeyFile = '''', jsTLSCAFile = ''''\<rparr>,
      rcNow = now, rcFetched = Inr (Some job), rcListed = Inr running, rcJob = found, rcCreateErr = None, rcStatusErr = None,
      rcDeleteErr = None, rcJobDelete = Deleted, rcParseQuantity = Some, rcSetCondition = setCondition\<rparr>"

lemma ttl_deletes_only_expired_witness:
  "DeletedReindexJob ''r'' \<in> set (fst (ReindexReconcile (exampleReconcile (100 * second)
     (exampleJob\<lparr>rjStatus := emptyJobStatus\<lparr>rjPhase := ReindexJobFailed, rjCompletedAt := Some (30 * second)\<rparr>\<rparr>) JobNotFound [])))"
  using ttl_deletes_only_expired [of "exampleReconcile (100 * second)
     (exampleJob\<lparr>rjStatus := emptyJobStatus\<lparr>rjPhase := ReindexJobFailed, rjCompletedAt := Some (30 * second)\<rparr>\<rparr>) JobNotFound []"]
  by (auto simp: exampleReconcile_def exampleJob_def terminal_def second_def)

lemma getJob_view: "fst (getJobForReindexJob r) = Some v \<Longrightarrow> jvCompletionTime v \<noteq> None \<Longrightarrow> r = JobFound v"
  by (auto simp: getJobForReindexJob_def split: job_get.splits)

text \<open>
  The limit on concurrent jobs is not in force. \<open>getJobForReindexJob\<close> returns the zero job when
  there is none, which counts as running: a ReindexJob without a job is started whatever the limit
  and however many jobs run, and a ReindexJob is queued only when its own job has already completed.
\<close>

theorem concurrency_limit_not_enforced:
  fixes env :: "('c, 'p) reconcile_env"
  assumes "rcFetched env = Inr (Some job)" "\<not> rjDeleting job" "\<not> terminal (rjPhase (rjStatus job))" "rcListed env = Inr running"
  shows "(rjPhase (rjStatus job) \<in> {'''', ReindexJobPending} \<and> rcJob env = JobNotFound \<longrightarrow> ReindexReconcile env = startJob env job)
     \<and> (\<forall>job'. WroteStatus job' \<in> set (fst (ReindexReconcile env)) \<and> rjPhase (rjStatus job') = ReindexJobPending \<longrightarrow>
          (\<exists>v. rcJob env = JobFound v \<and> jvCompletionTime v \<noteq> None))"
proof -
  have r: "ReindexReconcile env = reconcileActive env job" using assms by (simp add: ReindexReconcile_def terminal_def)
  have start: "WroteStatus job' \<in> set (fst (startJob env job)) \<Longrightarrow> rjPhase (rjStatus job') \<noteq> ReindexJobPending" for job'
    by (auto simp: startJob_def Let_def phase_defs split: option.splits)
  have check: "WroteStatus job' \<notin> set (fst (checkJobStatus v :: ('c, 'p) reconcile_result))" for job' v
    by (simp add: checkJobStatus_def split: option.split)
  show ?thesis
  proof (intro conjI impI allI)
    assume "rjPhase (rjStatus job) \<in> {'''', ReindexJobPending} \<and> rcJob env = JobNotFound"
    with assms(4) show "ReindexReconcile env = startJob env job"
      by (auto simp: r reconcileActive_def countRunningJobs_def getJobForReindexJob_def phase_defs Let_def)
  next
    fix job' assume w: "WroteStatus job' \<in> set (fst (ReindexReconcile env)) \<and> rjPhase (rjStatus job') = ReindexJobPending"
    show "\<exists>v. rcJob env = JobFound v \<and> jvCompletionTime v \<noteq> None"
    proof (rule ccontr)
      assume "\<not> ?thesis"
      then have "reconcileActive env job \<in> {startJob env job, ([], 0, None)} \<union> range checkJobStatus \<union> range (\<lambda>e. ([], 0, Some e))"
        using assms(4) by (auto simp: reconcileActive_def countRunningJobs_def getJobForReindexJob_def Let_def split: job_get.splits)
      with w start check show False by (auto simp: r)
    qed
  qed
qed

lemma concurrency_limit_not_enforced_witness:
  "ReindexReconcile (exampleReconcile 7 exampleJob JobNotFound [\<lparr>jvCompletionTime = None, jvSucceeded = 0, jvFailed = 0\<rparr>])
     = startJob (exampleReconcile 7 exampleJob JobNotFound [\<lparr>jvCompletionTime = None, jvSucceeded = 0, jvFailed = 0\<rparr>]) exampleJob"
  using concurrency_limit_not_enforced [of "exampleReconcile 7 exampleJob JobNotFound [\<lparr>jvCompletionTime = None, jvSucceeded = 0, jvFailed = 0\<rparr>]" exampleJob]
  by (simp add: exampleReconcile_def exampleJob_def emptyJobStatus_def terminal_def phase_defs)

text \<open>
  The controller never ends a job. While a ReindexJob is running and its Kubernetes job is gone,
  still runs, or failed without a completion time, reconciling it changes nothing and only asks to
  be run again in five seconds, whatever else holds. So when the worker dies without recording its
  outcome, the ReindexJob stays in the phase Running for ever.
\<close>

theorem lost_worker_never_fails:
  assumes "rcFetched env = Inr (Some job)" "\<not> rjDeleting job" "rjPhase (rjStatus job) = ReindexJobRunning" "rcListed env = Inr running"
    and "rcJob env = JobNotFound \<or> (\<exists>v. rcJob env = JobFound v \<and> jvCompletionTime v = None)"
  shows "ReindexReconcile env = ([], 5 * second, None)"
  using assms by (auto simp: ReindexReconcile_def reconcileActive_def countRunningJobs_def getJobForReindexJob_def checkJobStatus_def phase_defs Let_def)

lemma lost_worker_never_fails_witness:
  "ReindexReconcile (exampleReconcile 7 (exampleJob\<lparr>rjStatus := emptyJobStatus\<lparr>rjPhase := ReindexJobRunning\<rparr>\<rparr>)
     (JobFound \<lparr>jvCompletionTime = None, jvSucceeded = 0, jvFailed = 4\<rparr>) []) = ([], 5 * second, None)"
  by (rule lost_worker_never_fails [of _ "exampleJob\<lparr>rjStatus := emptyJobStatus\<lparr>rjPhase := ReindexJobRunning\<rparr>\<rparr>" "[]"])
    (simp_all add: exampleReconcile_def exampleJob_def)
section \<open>The worker\<close>

lemma phaseStatus_fields [simp]:
  "rjPhase (phaseStatus sc now phase msg j) = phase"
  "rjMessage (phaseStatus sc now phase msg j) = msg"
  "rjProgress (phaseStatus sc now phase msg j) = rjProgress (rjStatus j)"
  "rjCompletedAt (phaseStatus sc now phase msg j) = (if terminal phase then Some now else rjCompletedAt (rjStatus j))"
  "rjStartedAt (phaseStatus sc now phase msg j) =
     (if phase = ReindexJobRunning \<and> rjStartedAt (rjStatus j) = None then Some now else rjStartedAt (rjStatus j))"
  by (auto simp: phaseStatus_def terminal_def phase_defs Let_def split: prod.split)

lemma progressStatus_fields [simp]:
  "rjPhase (progressStatus p j) = rjPhase (rjStatus j)" "rjProgress (progressStatus p j) = Some p"
  "rjCompletedAt (progressStatus p j) = rjCompletedAt (rjStatus j)" "rjStartedAt (progressStatus p j) = rjStartedAt (rjStatus j)"
  by (simp_all add: progressStatus_def)

lemma writeStatus_ok:
  assumes "\<And>n. weWriteErr env n = None" "wkStored st = Some j"
  shows "writeStatus env f st = (None, \<lparr>wkStored = Some (j\<lparr>rjStatus := f j\<rparr>), wkWrites = Suc (wkWrites st)\<rparr>)"
  using assms by (simp add: writeStatus_def Let_def)

lemma reportAll_ok:
  assumes "\<And>n. weWriteErr env n = None" "wkStored st = Some j"
  shows "\<exists>j'. wkStored (reportAll env ps st) = Some j' \<and> rjName j' = rjName j \<and> rjSpec j' = rjSpec j
     \<and> rjProgress (rjStatus j') = (if ps = [] then rjProgress (rjStatus j) else Some (last ps))
     \<and> rjStartedAt (rjStatus j') = rjStartedAt (rjStatus j)"
  using assms(2)
proof (induction ps arbitrary: st j)
  case (Cons p ps)
  have "updateJobProgress env p st = (None, \<lparr>wkStored = Some (j\<lparr>rjStatus := progressStatus p j\<rparr>), wkWrites = Suc (wkWrites st)\<rparr>)"
    unfolding updateJobProgress_def by (rule writeStatus_ok [OF assms(1) Cons.prems])
  with Cons.IH [of "\<lparr>wkStored = Some (j\<lparr>rjStatus := progressStatus p j\<rparr>), wkWrites = Suc (wkWrites st)\<rparr>" "j\<lparr>rjStatus := progressStatus p j\<rparr>"]
  show ?case by auto
qed simp

text \<open>The worker has connected, and its status writes succeed.\<close>

definition connected :: "worker_env \<Rightarrow> ReindexJob \<Rightarrow> bool" where
  "connected env job = (weLogsErr env = None \<and> weNATSURL env \<noteq> '''' \<and> weJobName env \<noteq> '''' \<and> firstError (weConnect env) = None
     \<and> weFetched env = Inr job \<and> firstError (weBroker env) = None \<and> weMapperErr env = None)"

text \<open>The run that the job's time range asks for, when it can start.\<close>

definition plannedRun :: "worker_env \<Rightarrow> ReindexJob \<Rightarrow> Options option" where
  "plannedRun env job =
     (let tr = rjTimeRange (rjSpec job)
      in case (ParseFlexibleTime (trStartTime tr) (weParseAt env), ParseFlexibleTime (if trEndTime tr = '''' then ''now'' else trEndTime tr) (weParseAt env)) of
           (Inr s, Inr e) \<Rightarrow> if weCheckAt env - s > retentionWindow then None else Some (workerOptions job s e)
         | _ \<Rightarrow> None)"

lemma updateJobPhase_ok:
  assumes "\<And>n. weWriteErr env n = None" "wkStored st = Some j"
  shows "updateJobPhase env phase msg st
    = (None, \<lparr>wkStored = Some (j\<lparr>rjStatus := phaseStatus (weSetCondition env) (weClock env (wkWrites st)) phase msg j\<rparr>), wkWrites = Suc (wkWrites st)\<rparr>)"
  unfolding updateJobPhase_def by (rule writeStatus_ok [OF assms])

lemma runJob_outcome:
  assumes "\<And>n. weWriteErr env n = None" "wkStored st = Some j" "rjStartedAt (rjStatus j) \<noteq> None"
    and "\<And>opts. run opts \<noteq> None"
  shows "\<exists>err st' j'. runJob env run job st = Some (err, st') \<and> wkStored st' = Some j' \<and> rjSpec j' = rjSpec j
     \<and> rjPhase (rjStatus j') = (if err = None then ReindexJobSucceeded else ReindexJobFailed)
     \<and> rjCompletedAt (rjStatus j') \<noteq> None \<and> rjStartedAt (rjStatus j') = rjStartedAt (rjStatus j)
     \<and> (err = None \<longleftrightarrow> (\<exists>opts reports. plannedRun env job = Some opts \<and> run opts = Some (None, reports)))
     \<and> (\<forall>opts e reports. plannedRun env job = Some opts \<and> run opts = Some (e, reports) \<and> reports \<noteq> [] \<longrightarrow> rjProgress (rjStatus j') = Some (last reports))"
proof (cases "plannedRun env job")
  case None
  have "\<exists>err msg. runJob env run job st = Some (Some err, snd (updateJobPhase env ReindexJobFailed msg st))"
    using None by (fastforce simp: runJob_def plannedRun_def Let_def split: sum.splits if_splits)
  with None updateJobPhase_ok [OF assms(1,2)] assms(3) show ?thesis by (fastforce simp: terminal_def phase_defs)
next
  case (Some opts)
  obtain e reports where r: "run opts = Some (e, reports)" using assms(4) [of opts] by auto
  obtain j1 where j1: "wkStored (reportAll env reports st) = Some j1" "rjName j1 = rjName j" "rjSpec j1 = rjSpec j"
      "rjProgress (rjStatus j1) = (if reports = [] then rjProgress (rjStatus j) else Some (last reports))"
      "rjStartedAt (rjStatus j1) = rjStartedAt (rjStatus j)"
    using reportAll_ok [OF assms(1,2)] by blast
  have ok: "\<exists>c w. snd (updateJobPhase env phase msg (reportAll env reports st))
      = \<lparr>wkStored = Some (j1\<lparr>rjStatus := phaseStatus (weSetCondition env) c phase msg j1\<rparr>), wkWrites = w\<rparr>" for phase msg
    unfolding updateJobPhase_ok [OF assms(1) j1(1)] snd_conv by blast
  have eq: "runJob env run job st = (case e of
       Some err \<Rightarrow> Some (Some err, snd (updateJobPhase env ReindexJobFailed (''Re-indexing failed: '' @ err) (reportAll env reports st)))
     | None \<Rightarrow> Some (None, finishWorker env (opDryRun opts) (reportAll env reports st)))"
    using Some r by (auto simp: runJob_def plannedRun_def Let_def split: sum.splits if_splits)
  show ?thesis
  proof (cases e)
    case None
    obtain msg where "finishWorker env (opDryRun opts) (reportAll env reports st)
        = snd (updateJobPhase env ReindexJobSucceeded msg (reportAll env reports st))"
      using j1(1) by (auto simp: finishWorker_def Let_def)
    with ok [of ReindexJobSucceeded msg] eq None Some r j1 assms(3) show ?thesis by (auto simp: terminal_def phase_defs)
  next
    case (Some err)
    with ok [of ReindexJobFailed "''Re-indexing failed: '' @ err"] eq \<open>plannedRun env job = Some opts\<close> r j1 assms(3)
    show ?thesis by (auto simp: terminal_def phase_defs)
  qed
qed

text \<open>
  A worker that has connected, whose status writes succeed and whose reindexer returns, records
  the outcome: the job ends in the phase Succeeded when the run returned no error and in Failed when
  the time range did not parse, began before the retention window or the run failed, with the times
  of start and completion set and the last progress reported. What phase the job was in before
  plays no part: a job that has failed or succeeded is run again by a restarted worker.
\<close>

theorem worker_records_outcome:
  assumes "connected env job" "\<And>n. weWriteErr env n = None" "wkStored st = Some job" "\<And>opts. run opts \<noteq> None"
  shows "\<exists>err st' j'. RunReindexWorker env run st = Some (err, st') \<and> wkStored st' = Some j' \<and> rjSpec j' = rjSpec job
     \<and> rjPhase (rjStatus j') = (if err = None then ReindexJobSucceeded else ReindexJobFailed)
     \<and> rjCompletedAt (rjStatus j') \<noteq> None \<and> rjStartedAt (rjStatus j') \<noteq> None
     \<and> (err = None \<longleftrightarrow> (\<exists>opts reports. plannedRun env job = Some opts \<and> run opts = Some (None, reports)))
     \<and> (\<forall>opts e reports. plannedRun env job = Some opts \<and> run opts = Some (e, reports) \<and> reports \<noteq> [] \<longrightarrow> rjProgress (rjStatus j') = Some (last reports))"
proof -
  let ?j = "job\<lparr>rjStatus := phaseStatus (weSetCondition env) (weClock env (wkWrites st)) ReindexJobRunning ''Re-indexing in progress'' job\<rparr>"
  let ?st = "\<lparr>wkStored = Some ?j, wkWrites = Suc (wkWrites st)\<rparr>"
  have w: "RunReindexWorker env run st = runJob env run job ?st"
    using assms(1) updateJobPhase_ok [OF assms(2,3)] by (simp add: RunReindexWorker_def connected_def)
  have "rjStartedAt (rjStatus ?j) \<noteq> None" by simp
  with runJob_outcome [of env ?st ?j run job, OF assms(2) _ _ assms(4)] show ?thesis unfolding w by auto
qed

definition exampleWorker :: "ReindexJob \<Rightarrow> worker_env" where
  "exampleWorker job = \<lparr>weNATSURL = ''nats://n'', weJobName = ''r'', weLogsErr = None, weConnect = [(''failed to get in-cluster config'', None)],
     weFetched = Inr job, weBroker = [(''failed to connect to NATS'', None)], weMapperErr = None, weWriteErr = (\<lambda>_. None),
     weClock = (\<lambda>n. 2000000 * second + int n), weParseAt = 2000000 * second, weCheckAt = 2000000 * second, weSetCondition = setCondition\<rparr>"

lemma worker_records_outcome_witness:
  fixes job0 :: ReindexJob
  defines "job0 \<equiv> exampleJob\<lparr>rjStatus := emptyJobStatus\<lparr>rjPhase := ReindexJobFailed, rjCompletedAt := Some 5\<rparr>\<rparr>"
  shows "\<exists>err st' j'. RunReindexWorker (exampleWorker job0) (\<lambda>_. Some (None, [])) \<lparr>wkStored = Some job0, wkWrites = 0\<rparr> = Some (err, st')
     \<and> wkStored st' = Some j' \<and> rjPhase (rjStatus j') = ReindexJobSucceeded"
proof -
  have "plannedRun (exampleWorker job0) job0 \<noteq> None" unfolding job0_def by code_simp
  with worker_records_outcome [of "exampleWorker job0" job0 "\<lparr>wkStored = Some job0, wkWrites = 0\<rparr>" "\<lambda>_. Some (None, [])"]
  show ?thesis by (auto simp: connected_def exampleWorker_def split: if_splits)
qed
section \<open>The life of a job\<close>

text \<open>The stored object, absent once deleted, and the time.\<close>

record job_world =
  jwJob :: "ReindexJob option"
  jwNow :: instant

definition applyEffect :: "('c, 'p) job_effect \<Rightarrow> ReindexJob option \<Rightarrow> ReindexJob option" where
  "applyEffect e job = (case e of WroteStatus j \<Rightarrow> Some j | DeletedReindexJob _ \<Rightarrow> None | _ \<Rightarrow> job)"

text \<open>
  One step: time passes, the controller reconciles, a worker writes a phase or its progress (at any
  moment and in any order, since the pods of a Kubernetes job are restarted), a user updates the
  object through the strategy, asks for its deletion, or the object goes. A status write carries the
  resource version it was read at, so that those that land have seen the stored object.
\<close>

inductive jobStep :: "(StatusCondition \<Rightarrow> StatusCondition list \<Rightarrow> StatusCondition list) \<Rightarrow> job_world \<Rightarrow> job_world \<Rightarrow> bool" for sc where
  step_tick: "jwNow w \<le> t \<Longrightarrow> jobStep sc w (w\<lparr>jwNow := t\<rparr>)"
| step_reconcile: "rcFetched env = Inr (jwJob w) \<Longrightarrow> rcNow env = jwNow w \<Longrightarrow>
    jobStep sc w (w\<lparr>jwJob := fold applyEffect (fst (ReindexReconcile (env :: (unit, unit) reconcile_env))) (jwJob w)\<rparr>)"
| step_phase: "jwJob w = Some j \<Longrightarrow> phase \<in> {ReindexJobRunning, ReindexJobSucceeded, ReindexJobFailed} \<Longrightarrow>
    jobStep sc w (w\<lparr>jwJob := Some (j\<lparr>rjStatus := phaseStatus sc (jwNow w) phase msg j\<rparr>)\<rparr>)"
| step_progress: "jwJob w = Some j \<Longrightarrow> jobStep sc w (w\<lparr>jwJob := Some (j\<lparr>rjStatus := progressStatus p j\<rparr>)\<rparr>)"
| step_update: "jwJob w = Some old \<Longrightarrow> jobValidateUpdate (jwNow w) new old = [] \<Longrightarrow> jobStep sc w (w\<lparr>jwJob := Some (jobPrepareForUpdate new old)\<rparr>)"
| step_gone: "jobStep sc w (w\<lparr>jwJob := None\<rparr>)"

inductive jobReach :: "(StatusCondition \<Rightarrow> StatusCondition list \<Rightarrow> StatusCondition list) \<Rightarrow> job_world \<Rightarrow> bool" for sc where
  reach_created: "ValidateReindexJob t (jobPrepareForCreate j) = [] \<Longrightarrow> jobReach sc \<lparr>jwJob = Some (jobPrepareForCreate j), jwNow = t\<rparr>"
| reach_step: "jobReach sc w \<Longrightarrow> jobStep sc w w' \<Longrightarrow> jobReach sc w'"

definition statusWF :: "instant \<Rightarrow> ReindexJobStatus \<Rightarrow> bool" where
  "statusWF now st =
     (rjPhase st \<in> {'''', ReindexJobPending, ReindexJobRunning, ReindexJobSucceeded, ReindexJobFailed}
      \<and> (rjPhase st = ReindexJobRunning \<longrightarrow> rjStartedAt st \<noteq> None)
      \<and> (terminal (rjPhase st) \<longrightarrow> rjCompletedAt st \<noteq> None)
      \<and> (\<forall>s. rjStartedAt st = Some s \<longrightarrow> s \<le> now) \<and> (\<forall>c. rjCompletedAt st = Some c \<longrightarrow> c \<le> now)
      \<and> (terminal (rjPhase st) \<longrightarrow> (\<forall>s c. rjStartedAt st = Some s \<and> rjCompletedAt st = Some c \<longrightarrow> s \<le> c)))"

lemma statusWF_later: "statusWF now st \<Longrightarrow> now \<le> t \<Longrightarrow> statusWF t st"
  by (auto simp: statusWF_def)

lemma statusWF_phase:
  assumes "statusWF now (rjStatus j)" "phase \<in> {ReindexJobRunning, ReindexJobSucceeded, ReindexJobFailed}"
  shows "statusWF now (phaseStatus sc now phase msg j)"
  using assms by (auto simp: statusWF_def terminal_def phase_defs)

lemma reconcileActive_cases:
  "reconcileActive env j \<in> {startJob env j} \<union> range (\<lambda>n. queueJob env n j) \<union> range checkJobStatus \<union> range (\<lambda>e. ([], 0, e))"
proof (cases "rcListed env")
  case (Inr running)
  then show ?thesis
    by (cases "rcJob env") (simp_all add: reconcileActive_def countRunningJobs_def getJobForReindexJob_def Let_def)
qed (simp add: reconcileActive_def countRunningJobs_def)

text \<open>What a reconciliation leaves of the stored object: the object, nothing, or one with a new status.\<close>

lemma reconcile_effects:
  assumes "rcFetched env = Inr (Some j)"
  shows "fold applyEffect (fst (ReindexReconcile env)) (Some j) \<in> {Some j, None}
     \<or> (\<exists>st. fold applyEffect (fst (ReindexReconcile env)) (Some j) = Some (j\<lparr>rjStatus := st\<rparr>)
         \<and> ((rjPhase st = ReindexJobRunning \<and> rjStartedAt st = Some (rcNow env) \<and> rjCompletedAt st = rjCompletedAt (rjStatus j))
            \<or> (rjPhase st = ReindexJobPending \<and> rjStartedAt st = rjStartedAt (rjStatus j) \<and> rjCompletedAt st = rjCompletedAt (rjStatus j))))"
  (is "?P (ReindexReconcile env)")
proof -
  have start: "?P (startJob env j)"
    by (auto simp: startJob_def applyEffect_def Let_def split: option.split)
  have queue: "?P (queueJob env n j)" for n
    by (auto simp: queueJob_def applyEffect_def Let_def split: option.split)
  have check: "?P (checkJobStatus v)" for v
    by (simp add: checkJobStatus_def split: option.split)
  have ttl: "?P (handleTTLCleanup env j)"
    by (auto simp: handleTTLCleanup_def applyEffect_def Let_def split: option.split)
  have deletion: "?P (handleDeletion env j)"
    by (auto simp: handleDeletion_def applyEffect_def split: job_get.split delete_reply.split)
  have active: "?P (reconcileActive env j)"
    using reconcileActive_cases [of env j] start queue check by (elim UnE rangeE) auto
  show ?thesis using assms active ttl deletion by (auto simp: ReindexReconcile_def)
qed

lemma statusWF_reconcile:
  assumes "rcFetched env = Inr (Some j)" "statusWF (rcNow env) (rjStatus j)" "fold applyEffect (fst (ReindexReconcile env)) (Some j) = Some j'"
  shows "statusWF (rcNow env) (rjStatus j')"
proof -
  from reconcile_effects [OF assms(1)] consider "j' = j"
    | st where "j' = j\<lparr>rjStatus := st\<rparr>" "rjPhase st = ReindexJobRunning" "rjStartedAt st = Some (rcNow env)" "rjCompletedAt st = rjCompletedAt (rjStatus j)"
    | st where "j' = j\<lparr>rjStatus := st\<rparr>" "rjPhase st = ReindexJobPending" "rjStartedAt st = rjStartedAt (rjStatus j)" "rjCompletedAt st = rjCompletedAt (rjStatus j)"
    unfolding assms(3) by auto
  then show ?thesis using assms(2) by cases (simp_all add: statusWF_def terminal_def phase_defs)
qed

text \<open>
  C13: from the creation of a ReindexJob on, whatever the controller, the restarted workers and the
  users do in whatever order, its phase is one of the documented ones, a running job has a start
  time, and a finished job has a completion time, which is never before its start. The recorded
  times are never in the future, so that a time to live always ends.
\<close>

theorem reindex_job_lifecycle:
  assumes "jobReach sc w" "jwJob w = Some j"
  shows "statusWF (jwNow w) (rjStatus j)"
  using assms
proof (induction arbitrary: j rule: jobReach.induct)
  case (reach_created t j0)
  then show ?case by (auto simp: statusWF_def jobPrepareForCreate_def emptyJobStatus_def terminal_def phase_defs Let_def)
next
  case (reach_step w w')
  from reach_step.hyps(2) reach_step.prems reach_step.IH show ?case
  proof (cases rule: jobStep.cases)
    case (step_reconcile env)
    then obtain j0 where "jwJob w = Some j0"
      using reach_step.prems by (cases "jwJob w") (auto simp: ReindexReconcile_def)
    with step_reconcile reach_step.IH reach_step.prems statusWF_reconcile [of env j0 j] show ?thesis by auto
  next
    case (step_phase j0 phase msg)
    with reach_step.IH reach_step.prems statusWF_phase show ?thesis by auto
  next
    case (step_progress j0 p)
    with reach_step.IH [of j0] reach_step.prems show ?thesis by (auto simp: statusWF_def)
  next
    case (step_update old new)
    with reach_step.IH reach_step.prems show ?thesis by (auto simp: jobPrepareForUpdate_def)
  qed (use reach_step in \<open>auto intro: statusWF_later\<close>)
qed

lemma exampleJob_valid: "ValidateReindexJob (2000000 * second) (jobPrepareForCreate exampleJob) = []"
  by code_simp

lemma reindex_job_lifecycle_witness:
  "statusWF (2000000 * second) (phaseStatus setCondition (2000000 * second) ReindexJobFailed ''m'' (jobPrepareForCreate exampleJob))"
proof -
  let ?w = "\<lparr>jwJob = Some (jobPrepareForCreate exampleJob), jwNow = 2000000 * second\<rparr>"
  have "jobReach setCondition (?w\<lparr>jwJob := Some ((jobPrepareForCreate exampleJob)\<lparr>rjStatus :=
      phaseStatus setCondition (jwNow ?w) ReindexJobFailed ''m'' (jobPrepareForCreate exampleJob)\<rparr>)\<rparr>)"
    by (rule reach_step [OF reach_created [OF exampleJob_valid]], rule step_phase) auto
  from reindex_job_lifecycle [OF this] show ?thesis by simp
qed

text \<open>
  A restarted worker brings a finished job back to Running and leaves its completion time, although a
  finished job is documented to be final; and an update of a started job may change everything in
  its spec but the start time, although the spec is documented to be immutable.
\<close>

lemma finished_job_runs_again:
  assumes "jobReach sc w" "jwJob w = Some j" "rjPhase (rjStatus j) = ReindexJobFailed"
  shows "\<exists>w' j'. jobReach sc w' \<and> jwJob w' = Some j' \<and> rjPhase (rjStatus j') = ReindexJobRunning \<and> rjCompletedAt (rjStatus j') = rjCompletedAt (rjStatus j)"
  using reach_step [OF assms(1) step_phase [OF assms(2), of ReindexJobRunning]] by (force simp: terminal_def phase_defs)

lemma started_job_spec_can_change:
  "jobValidateUpdate (2000000 * second)
     (exampleJob\<lparr>rjSpec := (rjSpec exampleJob)\<lparr>rjTimeRange := \<lparr>trStartTime = ''now-7d'', trEndTime = ''now-1d''\<rparr>, rjConfig := Some \<lparr>cfgBatchSize = 100, cfgRateLimit = 10, cfgDryRun = True\<rparr>\<rparr>\<rparr>)
     (exampleJob\<lparr>rjStatus := emptyJobStatus\<lparr>rjPhase := ReindexJobRunning\<rparr>\<rparr>) = []"
  by code_simp

section \<open>Admission\<close>

text \<open>
  C21: a job that the API server admits is run within its documented bounds: pages of 100 to 10000
  rows, 10 to 1000 events per second, policies chosen by name or by label but not by both, and a
  time range that parsed and was not empty when it was admitted. A page then always fits into the
  bucket of the rate limit.
\<close>

theorem admitted_job_runs_in_bounds:
  assumes "ValidateReindexJob now (jobPrepareForCreate job) = []"
  shows "(let opts = workerOptions (jobPrepareForCreate job) s e
      in 100 \<le> opBatchSize opts \<and> opBatchSize opts \<le> 10000 \<and> 10 \<le> opRateLimit opts \<and> opRateLimit opts \<le> 1000
         \<and> (opPolicyNames opts = [] \<or> opMatchLabels opts = [])
         \<and> (\<exists>burst. burstOf opts = Some burst \<and> opBatchSize opts \<le> burst \<and> burst \<le> 10000))
     \<and> (\<exists>a b. ParseFlexibleTime (trStartTime (rjTimeRange (rjSpec (jobPrepareForCreate job)))) now = Inr a
          \<and> ParseFlexibleTime (trEndTime (rjTimeRange (rjSpec (jobPrepareForCreate job)))) now = Inr b
          \<and> (a < b \<or> a = zeroTime \<or> b = zeroTime))"
proof -
  let ?j = "jobPrepareForCreate job"
  let ?tr = "rjTimeRange (rjSpec ?j)"
  obtain c where c: "rjConfig (rjSpec ?j) = Some c" "cfgBatchSize c \<noteq> 0" "cfgRateLimit c \<noteq> 0"
    by (auto simp: jobPrepareForCreate_def Let_def)
  have bounds: "100 \<le> cfgBatchSize c \<and> cfgBatchSize c \<le> 10000 \<and> 10 \<le> cfgRateLimit c \<and> cfgRateLimit c \<le> 1000"
    using assms c by (auto simp: ValidateReindexJob_def ValidateReindexJobSpec_def boundErrors_def Let_def split: if_splits)
  have sel: "case rjPolicySelector (rjSpec ?j) of Some s \<Rightarrow> selNames s = [] \<or> selMatchLabels s = [] | None \<Rightarrow> True"
    using assms by (auto simp: ValidateReindexJob_def ValidateReindexJobSpec_def Let_def split: if_splits option.splits)
  have ne: "trStartTime ?tr \<noteq> ''''" "trEndTime ?tr \<noteq> ''''"
    using assms by (auto simp: ValidateReindexJob_def ValidateReindexJobSpec_def jobPrepareForCreate_def Let_def split: if_splits)
  have times: "parsedTime (trStartTime ?tr) now \<noteq> None" "parsedTime (trEndTime ?tr) now \<noteq> None"
    using assms ne by (auto simp: ValidateReindexJob_def ValidateReindexJobSpec_def timeErrors_def Let_def split: if_splits)
  then obtain a b where ab: "parsedTime (trStartTime ?tr) now = Some a" "parsedTime (trEndTime ?tr) now = Some b" by blast
  have "a < b \<or> a = zeroTime \<or> b = zeroTime"
    using assms ab by (auto simp: ValidateReindexJob_def ValidateReindexJobSpec_def Let_def split: if_splits)
  moreover have "ParseFlexibleTime (trStartTime ?tr) now = Inr a" "ParseFlexibleTime (trEndTime ?tr) now = Inr b"
    using ab by (auto simp: parsedTime_def split: sum.splits if_splits)
  moreover have "burstOf (workerOptions ?j s e) = Some (NewRateLimiter (cfgRateLimit c) (cfgBatchSize c))"
    "opBatchSize (workerOptions ?j s e) = cfgBatchSize c" "opRateLimit (workerOptions ?j s e) = cfgRateLimit c"
    using bounds c by (simp_all add: burstOf_def workerOptions_def)
  moreover have "opPolicyNames (workerOptions ?j s e) = [] \<or> opMatchLabels (workerOptions ?j s e) = []"
    using sel by (auto simp: workerOptions_def split: option.splits)
  ultimately show ?thesis using bounds by (auto simp: NewRateLimiter_def Let_def)
qed

lemma admitted_job_runs_in_bounds_witness:
  "opBatchSize (workerOptions (jobPrepareForCreate exampleJob) 0 1) \<le> 10000"
  using admitted_job_runs_in_bounds [OF exampleJob_valid, of 0 1] by (simp add: Let_def)

end
