(* ===== verification/Cli_Reindex.thy ===== *)
theory Cli_Reindex
  imports Reindex_Job Float64
begin

text \<open>
  pkg/cmd/reindexjob/reindexjob.go, the reindex commands of the kubectl plugin: create, list, status
  and delete. The generated client, the loading of the kubeconfig and the printers are parameters.
  Cobra's wiring, the debug line and the completion of nil streams are left out. Flags of type
  int32 are in range: pflag refuses the others.
\<close>

section \<open>The client\<close>

text \<open>One reply per request; \<open>create\<close> answers with the name that the server generated.\<close>

record reindex_client =
  rxCreate :: "string \<Rightarrow> ReindexJobSpec \<Rightarrow> string + string"
  rxList :: "string + ReindexJob list"
  rxGet :: "string \<Rightarrow> string + ReindexJob"
  rxDelete :: "string \<Rightarrow> string option"

definition newActivityClient :: "string + 'c \<Rightarrow> ('c \<Rightarrow> string + 'k) \<Rightarrow> string + 'k" where
  "newActivityClient restConfig newForConfig =
     (case restConfig of
        Inl e \<Rightarrow> Inl (''failed to get kubeconfig: '' @ e)
      | Inr config \<Rightarrow>
          (case newForConfig config of
             Inl e \<Rightarrow> Inl (''failed to create activity client: '' @ e)
           | Inr client \<Rightarrow> Inr client))"

section \<open>create\<close>

record CreateOptions =
  coStartTime :: string
  coEndTime :: string
  coPolicyNames :: "string list"
  coBatchSize :: int
  coRateLimit :: int
  coDryRun :: bool
  coTTL :: int

definition NewCreateOptions :: CreateOptions where
  "NewCreateOptions = \<lparr>coStartTime = [], coEndTime = ''now'', coPolicyNames = [], coBatchSize = 0, coRateLimit = 0, coDryRun = False,
     coTTL = 0\<rparr>"

definition validateCreate :: "CreateOptions \<Rightarrow> string option" where
  "validateCreate o' =
     (if coStartTime o' = [] then Some ''--start-time is required''
      else if coBatchSize o' \<noteq> 0 \<and> (coBatchSize o' < 100 \<or> coBatchSize o' > 10000) then Some ''--batch-size must be between 100 and 10000''
      else if coRateLimit o' \<noteq> 0 \<and> (coRateLimit o' < 10 \<or> coRateLimit o' > 1000) then Some ''--rate-limit must be between 10 and 1000''
      else if coTTL o' < 0 then Some ''--ttl must be >= 0'' else None)"

definition createSpec :: "CreateOptions \<Rightarrow> ReindexJobSpec" where
  "createSpec o' =
     \<lparr>rjTimeRange = \<lparr>trStartTime = coStartTime o', trEndTime = coEndTime o'\<rparr>,
      rjPolicySelector = (if length (coPolicyNames o') > 0 then Some \<lparr>selNames = coPolicyNames o', selMatchLabels = []\<rparr> else None),
      rjConfig = (if coBatchSize o' \<noteq> 0 \<or> coRateLimit o' \<noteq> 0 \<or> coDryRun o'
        then Some \<lparr>cfgBatchSize = (if coBatchSize o' \<noteq> 0 then coBatchSize o' else 0),
               cfgRateLimit = (if coRateLimit o' \<noteq> 0 then coRateLimit o' else 0), cfgDryRun = coDryRun o'\<rparr>
        else None),
      rjTTLSecondsAfterFinished = (if coTTL o' > 0 then Some (coTTL o') else None)\<rparr>"

definition runCreate :: "string + reindex_client \<Rightarrow> CreateOptions \<Rightarrow> string + string" where
  "runCreate newClient o' =
     (case newClient of
        Inl e \<Rightarrow> Inl e
      | Inr client \<Rightarrow>
          (case rxCreate client ''reindex-'' (createSpec o') of
             Inl e \<Rightarrow> Inl (''failed to create reindex job: '' @ e)
           | Inr name \<Rightarrow> Inr (''reindexjob/'' @ name @ '' created'' @ [CHR 0x0A])))"

text \<open>The command: nothing is sent before the flags are valid.\<close>

definition createCommand :: "string + reindex_client \<Rightarrow> CreateOptions \<Rightarrow> string + string" where
  "createCommand newClient o' = (case validateCreate o' of Some e \<Rightarrow> Inl e | None \<Rightarrow> runCreate newClient o')"

section \<open>What list and status print\<close>

definition phaseString :: "string \<Rightarrow> string" where
  "phaseString phase = (if phase = [] then ReindexJobPending else phase)"

definition progressString :: "Progress option \<Rightarrow> string" where
  "progressString progress =
     (case progress of
        None \<Rightarrow> ''-''
      | Some p \<Rightarrow>
          if pgTotalEvents p > 0 then fmtInt (pgProcessedEvents p) @ ''/'' @ fmtInt (pgTotalEvents p)
          else if pgProcessedEvents p > 0 then fmtInt (pgProcessedEvents p)
          else ''-'')"

definition stampOrEmpty :: "instant option \<Rightarrow> string" where
  "stampOrEmpty t = (case t of None \<Rightarrow> [] | Some i \<Rightarrow> formatRFC3339 i)"

definition reindexJobRow :: "ReindexJob \<Rightarrow> string list" where
  "reindexJobRow job =
     [rjName job, phaseString (rjPhase (rjStatus job)), progressString (rjProgress (rjStatus job)),
      stampOrEmpty (rjStartedAt (rjStatus job)), stampOrEmpty (rjCompletedAt (rjStatus job))]"

definition reindexJobsToRows :: "ReindexJob list \<Rightarrow> string list list" where
  "reindexJobsToRows jobs = map reindexJobRow jobs"

text \<open>The columns, and the rows.\<close>

definition reindexJobsToTable :: "ReindexJob list \<Rightarrow> (string \<times> string) list \<times> string list list" where
  "reindexJobsToTable jobs =
     ([(''Name'', ''Job name''), (''Phase'', ''Current phase''), (''Progress'', ''Events processed / total''),
       (''Started'', ''When processing began''), (''Completed'', ''When processing finished'')], reindexJobsToRows jobs)"

text \<open>A float64 of either sign, and \<open>%.1f\<close>: the digits of the nearest tenth, ties to even.\<close>

definition signed64 :: "rat \<Rightarrow> rat" where
  "signed64 x = (if x < 0 then - rnd64 (- x) else rnd64 x)"

definition eventsPercent :: "int \<Rightarrow> int \<Rightarrow> rat" where
  "eventsPercent processed whole =
     signed64 (signed64 (signed64 (of_int processed) / signed64 (of_int whole)) * 100)"

definition oneDecimal :: "rat \<Rightarrow> string" where
  "oneDecimal x =
     (let tenths = roundEven (\<bar>x\<bar> * 10)
      in (if x < 0 then ''-'' else []) @ fmtInt (tenths div 10) @ ''.'' @ fmtInt (tenths mod 10))"

definition nl :: string where "nl = [CHR 0x0A]"

definition specLines :: "ReindexJobSpec \<Rightarrow> string list" where
  "specLines spec =
     [nl @ ''Spec:'' @ nl,
      ''  Time Range: '' @ trStartTime (rjTimeRange spec) @ '' -> '' @ trEndTime (rjTimeRange spec) @ nl]
     @ (case rjPolicySelector spec of
          Some sel \<Rightarrow> if length (selNames sel) > 0 then [''  Policies:   ['' @ joinStr '' '' (selNames sel) @ '']'' @ nl] else []
        | None \<Rightarrow> [])
     @ (case rjConfig spec of
          Some c \<Rightarrow>
            (if cfgDryRun c then [''  Dry Run:    true'' @ nl] else [])
            @ (if cfgBatchSize c \<noteq> 0 then [''  Batch Size: '' @ fmtInt (cfgBatchSize c) @ nl] else [])
            @ (if cfgRateLimit c \<noteq> 0 then [''  Rate Limit: '' @ fmtInt (cfgRateLimit c) @ '' events/sec'' @ nl] else [])
        | None \<Rightarrow> [])"

definition stampLines :: "ReindexJobStatus \<Rightarrow> string list" where
  "stampLines status =
     (if rjStartedAt status \<noteq> None \<or> rjCompletedAt status \<noteq> None
      then [nl @ ''Timestamps:'' @ nl]
        @ (case rjStartedAt status of Some t \<Rightarrow> [''  Started:   '' @ formatRFC3339 t @ nl] | None \<Rightarrow> [])
        @ (case rjCompletedAt status of Some t \<Rightarrow> [''  Completed: '' @ formatRFC3339 t @ nl] | None \<Rightarrow> [])
      else [])"

definition progressLines :: "Progress option \<Rightarrow> string list" where
  "progressLines progress =
     (case progress of
        None \<Rightarrow> []
      | Some p \<Rightarrow>
          [nl @ ''Progress:'' @ nl,
           (if pgTotalEvents p > 0
            then ''  Events:      '' @ fmtInt (pgProcessedEvents p) @ '' / '' @ fmtInt (pgTotalEvents p) @ '' (''
              @ oneDecimal (eventsPercent (pgProcessedEvents p) (pgTotalEvents p)) @ ''%)'' @ nl
            else ''  Events:      '' @ fmtInt (pgProcessedEvents p) @ '' processed'' @ nl),
           ''  Activities:  '' @ fmtInt (pgActivitiesGenerated p) @ '' generated'' @ nl]
          @ (if pgErrors p > 0 then [''  Errors:      '' @ fmtInt (pgErrors p) @ nl] else [])
          @ (if pgTotalBatches p > 0 then [''  Batches:     '' @ fmtInt (pgCurrentBatch p) @ '' / '' @ fmtInt (pgTotalBatches p) @ nl] else []))"

definition conditionLine :: "StatusCondition \<Rightarrow> string" where
  "conditionLine c =
     ''  '' @ scType c @ ''='' @ scStatus c
     @ (if scReason c \<noteq> [] then '' ('' @ scReason c @ '')'' else [])
     @ (if scMessage c \<noteq> [] then '': '' @ scMessage c else []) @ nl"

definition printDetail :: "ReindexJob \<Rightarrow> string list" where
  "printDetail job =
     (let status = rjStatus job
      in [''Name:        '' @ rjName job @ nl, ''Phase:       '' @ phaseString (rjPhase status) @ nl]
         @ (if rjMessage status \<noteq> [] then [''Message:     '' @ rjMessage status @ nl] else [])
         @ specLines (rjSpec job) @ stampLines status @ progressLines (rjProgress status)
         @ (if length (rjConditions status) > 0 then [nl @ ''Conditions:'' @ nl] @ map conditionLine (rjConditions status) else []))"

section \<open>list, status and delete\<close>

text \<open>What is written: the columns and rows handed to the table printer with its header switch, lines, or the text of the chosen printer.\<close>

datatype reindex_output =
    TableOutput bool "(string \<times> string) list" "string list list"
  | LinesOutput "string list"
  | PrinterOutput string

definition IsDefaultOutputFormat :: "string option \<Rightarrow> bool" where
  "IsDefaultOutputFormat format = (format = None \<or> format = Some [])"

text \<open>\<open>toPrinter\<close> is the printer of the print flags, or its error; it prints an object or fails.\<close>

definition printOther :: "string + ('o \<Rightarrow> string + string) \<Rightarrow> 'o \<Rightarrow> string + reindex_output" where
  "printOther toPrinter x =
     (case toPrinter of
        Inl e \<Rightarrow> Inl (''failed to create printer: '' @ e)
      | Inr p \<Rightarrow> (case p x of Inl e \<Rightarrow> Inl e | Inr text \<Rightarrow> Inr (PrinterOutput text)))"

definition runList ::
  "string + reindex_client \<Rightarrow> string option \<Rightarrow> string + (ReindexJob list \<Rightarrow> string + string) \<Rightarrow> bool \<Rightarrow> string + reindex_output" where
  "runList newClient format toPrinter noHeaders =
     (case newClient of
        Inl e \<Rightarrow> Inl e
      | Inr client \<Rightarrow>
          (case rxList client of
             Inl e \<Rightarrow> Inl (''failed to list reindex jobs: '' @ e)
           | Inr items \<Rightarrow>
               if \<not> IsDefaultOutputFormat format then printOther toPrinter items
               else (let (columns, rows) = reindexJobsToTable items in Inr (TableOutput noHeaders columns rows))))"

definition validateName :: "string \<Rightarrow> string option" where
  "validateName name = (if name = [] then Some ''name is required'' else None)"

definition runStatus ::
  "string + reindex_client \<Rightarrow> string option \<Rightarrow> string + (ReindexJob \<Rightarrow> string + string) \<Rightarrow> string \<Rightarrow> string + reindex_output" where
  "runStatus newClient format toPrinter name =
     (case newClient of
        Inl e \<Rightarrow> Inl e
      | Inr client \<Rightarrow>
          (case rxGet client name of
             Inl e \<Rightarrow> Inl (''failed to get reindex job '' @ quoteQ name @ '': '' @ e)
           | Inr job \<Rightarrow> if \<not> IsDefaultOutputFormat format then printOther toPrinter job else Inr (LinesOutput (printDetail job))))"

definition runDelete :: "string + reindex_client \<Rightarrow> string \<Rightarrow> string + string" where
  "runDelete newClient name =
     (case newClient of
        Inl e \<Rightarrow> Inl e
      | Inr client \<Rightarrow>
          (case rxDelete client name of
             Some e \<Rightarrow> Inl (''failed to delete reindex job '' @ quoteQ name @ '': '' @ e)
           | None \<Rightarrow> Inr (''reindexjob/'' @ name @ '' deleted'' @ nl)))"

section \<open>What create sends\<close>

text \<open>The API server's own part: the strategy of the registry applied to the spec of the request.\<close>

definition submittedJob :: "string \<Rightarrow> ReindexJobSpec \<Rightarrow> ReindexJob" where
  "submittedJob name spec =
     \<lparr>rjName = name, rjGeneration = 1, rjLabels = [], rjAnnotations = [], rjDeleting = False, rjSpec = spec, rjStatus = emptyJobStatus\<rparr>"

definition storedSpec :: "CreateOptions \<Rightarrow> ReindexJobSpec" where
  "storedSpec o' = rjSpec (jobPrepareForCreate (submittedJob ''reindex-x'' (createSpec o')))"

text \<open>The only errors that flags accepted by the command can still cause are those of its two times.\<close>

definition rangeErrors :: "instant \<Rightarrow> string \<Rightarrow> string \<Rightarrow> field_error list" where
  "rangeErrors now s e =
     timeErrors ''spec.timeRange.startTime'' s now @ timeErrors ''spec.timeRange.endTime'' e now
     @ (case (parsedTime s now, parsedTime e now) of
          (Some startTime, Some endTime) \<Rightarrow>
            if startTime \<noteq> zeroTime \<and> endTime \<noteq> zeroTime \<and> \<not> startTime < endTime
            then [FInvalid ''spec.timeRange'' ''startTime must be before endTime''] else []
        | _ \<Rightarrow> [])"

definition givenOr :: "int \<Rightarrow> int \<Rightarrow> int" where
  "givenOr v d = (if v = 0 then d else v)"

lemma storedSpec_parts:
  "rjTimeRange (storedSpec o') = \<lparr>trStartTime = coStartTime o', trEndTime = (if coEndTime o' = [] then ''now'' else coEndTime o')\<rparr>"
  "rjPolicySelector (storedSpec o') = (if coPolicyNames o' = [] then None else Some \<lparr>selNames = coPolicyNames o', selMatchLabels = []\<rparr>)"
  "rjConfig (storedSpec o') = Some \<lparr>cfgBatchSize = givenOr (coBatchSize o') 1000, cfgRateLimit = givenOr (coRateLimit o') 100, cfgDryRun = coDryRun o'\<rparr>"
  "rjTTLSecondsAfterFinished (storedSpec o') = (if coTTL o' > 0 then Some (coTTL o') else None)"
  by (simp_all add: storedSpec_def submittedJob_def createSpec_def jobPrepareForCreate_def givenOr_def Let_def)

lemma validateCreate_None:
  "validateCreate o' = None \<longleftrightarrow> coStartTime o' \<noteq> [] \<and> (coBatchSize o' = 0 \<or> 100 \<le> coBatchSize o' \<and> coBatchSize o' \<le> 10000)
     \<and> (coRateLimit o' = 0 \<or> 10 \<le> coRateLimit o' \<and> coRateLimit o' \<le> 1000) \<and> 0 \<le> coTTL o'"
  by (auto simp: validateCreate_def)

text \<open>
  C14: flags that the create command accepts reach the API server as they were given, defaults filled in
  (end now, batches of 1000, 100 events a second), and the server can refuse the job only for its
  two times: that one does not parse, or that the start is not before the end.
\<close>

theorem created_job_matches_flags:
  assumes "createCommand newClient o' = Inr out"
  shows "ValidateReindexJobSpec now (storedSpec o') ''spec''
       = rangeErrors now (coStartTime o') (if coEndTime o' = [] then ''now'' else coEndTime o')
     \<and> rjConfig (storedSpec o')
       = Some \<lparr>cfgBatchSize = givenOr (coBatchSize o') 1000, cfgRateLimit = givenOr (coRateLimit o') 100, cfgDryRun = coDryRun o'\<rparr>
     \<and> rjPolicySelector (storedSpec o') = (if coPolicyNames o' = [] then None else Some \<lparr>selNames = coPolicyNames o', selMatchLabels = []\<rparr>)
     \<and> rjTTLSecondsAfterFinished (storedSpec o') = (if coTTL o' = 0 then None else Some (coTTL o'))
     \<and> (\<exists>client name. newClient = Inr client \<and> rxCreate client ''reindex-'' (createSpec o') = Inr name)"
proof -
  from assms have v: "validateCreate o' = None" and r: "runCreate newClient o' = Inr out"
    by (auto simp: createCommand_def split: option.splits)
  have "ValidateReindexJobSpec now (storedSpec o') ''spec'' = rangeErrors now (coStartTime o') (if coEndTime o' = [] then ''now'' else coEndTime o')"
    using v by (auto simp: validateCreate_None ValidateReindexJobSpec_def storedSpec_parts rangeErrors_def boundErrors_def givenOr_def Let_def
        split: option.splits)
  then show ?thesis
    using v r by (auto simp: storedSpec_parts validateCreate_None runCreate_def split: sum.splits)
qed


text \<open>A day of events with the flag of one policy, an hour to live and a dry run; the clock is a year after 1970.\<close>

definition sampleCreate :: CreateOptions where
  "sampleCreate = NewCreateOptions\<lparr>coStartTime := ''now-1d'', coPolicyNames := [''httpproxy''], coBatchSize := 500, coDryRun := True, coTTL := 3600\<rparr>"

definition sampleClient :: reindex_client where
  "sampleClient = \<lparr>rxCreate = (\<lambda>p s. Inr (p @ ''x7k2p'')), rxList = Inr [], rxGet = (\<lambda>n. Inl ''not found''), rxDelete = (\<lambda>n. None)\<rparr>"

lemma created_job_matches_flags_witness:
  "createCommand (Inr sampleClient) sampleCreate = Inr (''reindexjob/reindex-x7k2p created'' @ [CHR 0x0A])
   \<and> ValidateReindexJobSpec (365 * 86400 * second) (storedSpec sampleCreate) ''spec'' = []
   \<and> rjConfig (storedSpec sampleCreate) = Some \<lparr>cfgBatchSize = 500, cfgRateLimit = 100, cfgDryRun = True\<rparr>
   \<and> rjTTLSecondsAfterFinished (storedSpec sampleCreate) = Some 3600"
proof -
  have c: "createCommand (Inr sampleClient) sampleCreate = Inr (''reindexjob/reindex-x7k2p created'' @ [CHR 0x0A])" by code_simp
  have r: "rangeErrors (365 * 86400 * second) (coStartTime sampleCreate) (if coEndTime sampleCreate = [] then ''now'' else coEndTime sampleCreate) = []"
    by code_simp
  show ?thesis
    using created_job_matches_flags [OF c, of "365 * 86400 * second"] c r
    by (simp add: sampleCreate_def NewCreateOptions_def givenOr_def)
qed

section \<open>The printed status\<close>

lemma rows_follow_jobs:
  "length (reindexJobsToRows jobs) = length jobs" "i < length jobs \<Longrightarrow> reindexJobsToRows jobs ! i = reindexJobRow (jobs ! i)"
  by (simp_all add: reindexJobsToRows_def)

lemma percent_examples:
  "oneDecimal (eventsPercent 1 3) = ''33.3''" "oneDecimal (eventsPercent 7 7) = ''100.0''" "oneDecimal (eventsPercent 1999 2000) = ''100.0''"
  "oneDecimal (eventsPercent 1 800) = ''0.1''" "oneDecimal (eventsPercent 0 12) = ''0.0''"
  by code_simp+

text \<open>\<open>1999\<close> events of \<open>2000\<close> print as \<open>100.0%\<close>: the percentage is rounded, not cut.\<close>

lemma delete_names_job:
  "runDelete (Inr client) name = Inr out \<Longrightarrow> rxDelete client name = None \<and> out = ''reindexjob/'' @ name @ '' deleted'' @ nl"
  by (auto simp: runDelete_def split: option.splits)

end
