(* ===== verification/Cli_Runs.thy ===== *)
theory Cli_Runs
  imports Cli_Commands Cli_Reindex
begin

text \<open>
  The commands of pkg/cmd as a whole: \<open>Run\<close> of audit.go, events.go, feed.go, history.go and query.go,
  with the choice of the mode, single pages and all pages, and what is shown. The client is made as
  for the reindex commands; it, the printer of another output format and what a watch delivers are
  parameters. Writing to the terminal succeeds. Debug lines are left out.
\<close>

section \<open>What is shown\<close>

text \<open>A table says whether its header is suppressed; \<open>ShownObjects\<close> goes to the printer of the format.\<close>

datatype 'e shown =
    ShownTable bool "string list" "string list list"
  | ShownObjects "'e list"
  | ShownItems "cli_output list"
  | ShownLines "string list"

text \<open>What was shown, and the error, if any, that ended the command.\<close>

type_synonym 'e run_result = "'e shown list \<times> string option"

text \<open>How a command prints: the format flag, the error of \<open>ToPrinter\<close>, the header switch, the columns and a row.\<close>

record 'e view =
  vwFormat :: "string option"
  vwPrinterErr :: "string option"
  vwNoHeaders :: bool
  vwColumns :: "string list"
  vwRow :: "'e \<Rightarrow> string list"

definition showObjects :: "'e view \<Rightarrow> 'e list \<Rightarrow> 'e run_result" where
  "showObjects v es =
     (case vwPrinterErr v of Some e \<Rightarrow> ([], Some (''failed to create printer: '' @ e)) | None \<Rightarrow> ([ShownObjects es], None))"

definition printResults :: "'e view \<Rightarrow> 'e list \<Rightarrow> string \<Rightarrow> 'e run_result" where
  "printResults v es token =
     (if IsDefaultOutputFormat (vwFormat v)
      then ([ShownTable (vwNoHeaders v) (vwColumns v) (map (vwRow v) es), ShownItems (paginationInfo token (length es))], None)
      else showObjects v es)"

text \<open>The first table has the header unless it is suppressed, the others never have one.\<close>

fun pageTables :: "bool \<Rightarrow> 'e view \<Rightarrow> 'e list list \<Rightarrow> 'e shown list" where
  "pageTables noHeaders v [] = []"
| "pageTables noHeaders v (es # pages) = ShownTable noHeaders (vwColumns v) (map (vwRow v) es) # pageTables True v pages"

definition showPages :: "'e view \<Rightarrow> 'e list list \<times> string option \<Rightarrow> 'e run_result" where
  "showPages v outcome =
     (let (pages, err) = outcome;
          tables = (if IsDefaultOutputFormat (vwFormat v) then pageTables (vwNoHeaders v) v pages else []);
          total = ShownItems [OutTotal (length (concat pages))]
      in case err of
           Some e \<Rightarrow> (tables, Some e)
         | None \<Rightarrow>
             if IsDefaultOutputFormat (vwFormat v) then (tables @ [total], None)
             else (case showObjects v (concat pages) of (s, Some e) \<Rightarrow> (s, Some e) | (s, None) \<Rightarrow> (s @ [total], None)))"

definition runSinglePage :: "'e view \<Rightarrow> ('q \<Rightarrow> string + 'e list \<times> string) \<Rightarrow> 'q \<Rightarrow> 'e run_result" where
  "runSinglePage v create query =
     (case create query of Inl e \<Rightarrow> ([], Some (''query failed: '' @ e)) | Inr (es, token) \<Rightarrow> printResults v es token)"

text \<open>\<open>None\<close>: the server never stops handing out tokens.\<close>

definition runAllPages :: "'e view \<Rightarrow> ('q \<Rightarrow> string + 'e list \<times> string) \<Rightarrow> (string \<Rightarrow> 'q) \<Rightarrow> 'e run_result option" where
  "runAllPages v create query = map_option (showPages v) (followPages (\<lambda>_ token. create (query token)) 0 '''')"

definition showFacets :: "string + cli_output list \<Rightarrow> 'e run_result" where
  "showFacets r = (case r of Inl e \<Rightarrow> ([], Some e) | Inr items \<Rightarrow> ([ShownItems items], None))"

section \<open>audit\<close>

record ('q, 'e) query_client =
  qcCreate :: "'q \<Rightarrow> string + 'e list \<times> string"
  qcFacets :: "FacetQuerySpec \<Rightarrow> string + (string \<times> (string \<times> int) list) list"

definition auditHeads :: "string list" where
  "auditHeads = [''Timestamp'', ''Verb'', ''User'', ''Resource'', ''Status'']"

definition auditView :: "string option \<Rightarrow> string option \<Rightarrow> bool \<Rightarrow> AuditRecord view" where
  "auditView format printerErr noHeaders =
     \<lparr>vwFormat = format, vwPrinterErr = printerErr, vwNoHeaders = noHeaders, vwColumns = auditHeads, vwRow = auditRow\<rparr>"

definition auditSinglePage :: "AuditRecord view \<Rightarrow> (AuditLogQuerySpec, AuditRecord) query_client \<Rightarrow> AuditOptions \<Rightarrow> AuditRecord run_result" where
  "auditSinglePage v client o' = runSinglePage v (qcCreate client) (auditSpec o' (pgContinueAfter (aoPagination o')))"

definition auditAllPages ::
  "AuditRecord view \<Rightarrow> (AuditLogQuerySpec, AuditRecord) query_client \<Rightarrow> AuditOptions \<Rightarrow> AuditRecord run_result option" where
  "auditAllPages v client o' = runAllPages v (qcCreate client) (auditSpec o')"

definition runAudit ::
  "AuditRecord view \<Rightarrow> string + (AuditLogQuerySpec, AuditRecord) query_client \<Rightarrow> AuditOptions \<Rightarrow> AuditRecord run_result option" where
  "runAudit v newClient o' =
     (case newClient of
        Inl e \<Rightarrow> Some ([], Some e)
      | Inr client \<Rightarrow>
          if aoSuggest o' \<noteq> ''''
          then Some (showFacets (printFacets (aoSuggest o') (qcFacets client) (suggestQuery (aoSuggest o') (aoTimeRange o') (buildAuditFilter o'))))
          else if pgAllPages (aoPagination o') then auditAllPages v client o'
          else Some (auditSinglePage v client o'))"

section \<open>events\<close>

definition eventHeads :: "string list" where
  "eventHeads = [''Last Seen'', ''Type'', ''Reason'', ''Object'', ''Message'']"

definition eventsView :: "string option \<Rightarrow> string option \<Rightarrow> bool \<Rightarrow> EventV1 view" where
  "eventsView format printerErr noHeaders =
     \<lparr>vwFormat = format, vwPrinterErr = printerErr, vwNoHeaders = noHeaders, vwColumns = eventHeads, vwRow = kubeEventRow\<rparr>"

definition eventsSinglePage :: "EventV1 view \<Rightarrow> (EventQuerySpec, EventV1) query_client \<Rightarrow> EventsOptions \<Rightarrow> EventV1 run_result" where
  "eventsSinglePage v client o' = runSinglePage v (qcCreate client) (eventsSpec o' (pgContinueAfter (eoPagination o')))"

definition eventsAllPages :: "EventV1 view \<Rightarrow> (EventQuerySpec, EventV1) query_client \<Rightarrow> EventsOptions \<Rightarrow> EventV1 run_result option" where
  "eventsAllPages v client o' = runAllPages v (qcCreate client) (eventsSpec o')"

text \<open>The suggestions of events take no filter.\<close>

definition runEvents :: "EventV1 view \<Rightarrow> string + (EventQuerySpec, EventV1) query_client \<Rightarrow> EventsOptions \<Rightarrow> EventV1 run_result option" where
  "runEvents v newClient o' =
     (case newClient of
        Inl e \<Rightarrow> Some ([], Some e)
      | Inr client \<Rightarrow>
          if eoSuggest o' \<noteq> ''''
          then Some (showFacets (printFacets (eoSuggest o') (qcFacets client) (suggestQuery (eoSuggest o') (eoTimeRange o') '''')))
          else if pgAllPages (eoPagination o') then eventsAllPages v client o'
          else Some (eventsSinglePage v client o'))"

section \<open>feed\<close>

definition activityHeads :: "string list" where
  "activityHeads = [''Timestamp'', ''Actor'', ''Source'', ''Summary'']"

definition feedView :: "string option \<Rightarrow> string option \<Rightarrow> bool \<Rightarrow> Activity view" where
  "feedView format printerErr noHeaders =
     \<lparr>vwFormat = format, vwPrinterErr = printerErr, vwNoHeaders = noHeaders, vwColumns = activityHeads, vwRow = activityRow\<rparr>"

text \<open>The format \<open>summary\<close> is the command's own.\<close>

definition printSummary :: "Activity list \<Rightarrow> Activity run_result" where
  "printSummary activities = ([ShownLines (map (\<lambda>a. specSummary (actSpec a)) activities)], None)"

definition printFeedResults :: "Activity view \<Rightarrow> Activity list \<Rightarrow> string \<Rightarrow> Activity run_result" where
  "printFeedResults v es token = (if vwFormat v = Some ''summary'' then printSummary es else printResults v es token)"

definition feedSinglePage :: "Activity view \<Rightarrow> (ActivityQuerySpec, Activity) query_client \<Rightarrow> FeedOptions \<Rightarrow> Activity run_result" where
  "feedSinglePage v client o' =
     (case qcCreate client (feedSpec o' (pgContinueAfter (foPagination o'))) of
        Inl e \<Rightarrow> ([], Some (''query failed: '' @ e))
      | Inr (es, token) \<Rightarrow> printFeedResults v es token)"

definition feedAllPages :: "Activity view \<Rightarrow> (ActivityQuerySpec, Activity) query_client \<Rightarrow> FeedOptions \<Rightarrow> Activity run_result option" where
  "feedAllPages v client o' = runAllPages v (qcCreate client) (feedSpec o')"

text \<open>A watch: the error of its start, then its objects until the user or the server ends it.\<close>

datatype watch_end = CtrlC | ServerClosed

definition feedWatch :: "int \<Rightarrow> (string \<Rightarrow> string + Activity option list \<times> watch_end) \<Rightarrow> FeedOptions \<Rightarrow> Activity run_result" where
  "feedWatch offset watch o' =
     (let hello = ShownLines [''Watching for activities... (press Ctrl+C to stop)'']
      in case feedWatchSelector o' of
           Inl e \<Rightarrow> ([hello], Some e)
         | Inr selector \<Rightarrow>
             (case watch selector of
                Inl e \<Rightarrow> ([hello], Some (''failed to start watch: '' @ e))
              | Inr (objects, ending) \<Rightarrow>
                  ([hello, ShownLines (feedWatchLines offset o' objects),
                    ShownLines [case ending of CtrlC \<Rightarrow> ''Watch stopped.'' | ServerClosed \<Rightarrow> ''Watch connection closed.'']], None)))"

definition runFeed ::
  "Activity view \<Rightarrow> int \<Rightarrow> (string \<Rightarrow> string + Activity option list \<times> watch_end) \<Rightarrow> string + (ActivityQuerySpec, Activity) query_client \<Rightarrow>
   FeedOptions \<Rightarrow> Activity run_result option" where
  "runFeed v offset watch newClient o' =
     (case newClient of
        Inl e \<Rightarrow> Some ([], Some e)
      | Inr client \<Rightarrow>
          (case commandMode (foSuggest o') (foWatch o') (foPagination o') of
             ModeFacets field \<Rightarrow> Some (showFacets (printFacets field (qcFacets client) (suggestQuery field (foTimeRange o') (buildFeedFilter o'))))
           | ModeWatch \<Rightarrow> Some (feedWatch offset watch o')
           | ModeAllPages \<Rightarrow> feedAllPages v client o'
           | ModeSinglePage \<Rightarrow> Some (feedSinglePage v client o')))"

section \<open>history\<close>

definition historyPrinted :: "string option \<Rightarrow> string option \<Rightarrow> history_output \<Rightarrow> string + history_output" where
  "historyPrinted format printerErr out =
     (case printerErr of
        Some e \<Rightarrow> if IsDefaultOutputFormat format then Inr out else Inl (''failed to create printer: '' @ e)
      | None \<Rightarrow> Inr out)"

definition historySinglePage ::
  "(gval \<Rightarrow> string) \<Rightarrow> int \<Rightarrow> string option \<Rightarrow> string option \<Rightarrow> (AuditLogQuerySpec \<Rightarrow> string + AuditRecord list \<times> string) \<Rightarrow> HistoryOptions \<Rightarrow>
   string + history_output" where
  "historySinglePage json offset format printerErr create o' =
     (case create (historySpec o' (pgContinueAfter (hoPagination o'))) of
        Inl e \<Rightarrow> Inl (''query failed: '' @ e)
      | Inr (es, token) \<Rightarrow> historyPrinted format printerErr (printHistory json offset (\<not> IsDefaultOutputFormat format) o' es token))"

definition historyAllPages ::
  "(gval \<Rightarrow> string) \<Rightarrow> int \<Rightarrow> string option \<Rightarrow> string option \<Rightarrow> (AuditLogQuerySpec \<Rightarrow> string + AuditRecord list \<times> string) \<Rightarrow> HistoryOptions \<Rightarrow>
   (string + history_output) option" where
  "historyAllPages json offset format printerErr create o' =
     map_option (\<lambda>(pages, err). case err of
         Some e \<Rightarrow> Inl e
       | None \<Rightarrow> historyPrinted format printerErr (printAllHistory json offset (\<not> IsDefaultOutputFormat format) o' (concat pages)))
       (followPages (\<lambda>_ token. create (historySpec o' token)) 0 '''')"

definition runHistory ::
  "(gval \<Rightarrow> string) \<Rightarrow> int \<Rightarrow> string option \<Rightarrow> string option \<Rightarrow> string + (AuditLogQuerySpec \<Rightarrow> string + AuditRecord list \<times> string) \<Rightarrow> HistoryOptions \<Rightarrow>
   (string + history_output) option" where
  "runHistory json offset format printerErr newClient o' =
     (case newClient of
        Inl e \<Rightarrow> Some (Inl e)
      | Inr create \<Rightarrow>
          if pgAllPages (hoPagination o') then historyAllPages json offset format printerErr create o'
          else Some (historySinglePage json offset format printerErr create o'))"

section \<open>query\<close>

definition queryHeads :: "string list" where
  "queryHeads = [''Timestamp'', ''Verb'', ''User'', ''Namespace'', ''Resource'', ''Name'', ''Status'']"

definition queryView :: "int \<Rightarrow> string option \<Rightarrow> string option \<Rightarrow> AuditRecord view" where
  "queryView offset format printerErr =
     \<lparr>vwFormat = format, vwPrinterErr = printerErr, vwNoHeaders = False, vwColumns = queryHeads, vwRow = queryRow offset\<rparr>"

definition printQueryResults :: "AuditRecord view \<Rightarrow> AuditRecord list \<Rightarrow> string \<Rightarrow> AuditRecord run_result" where
  "printQueryResults v es token =
     (if IsDefaultOutputFormat (vwFormat v)
      then ([ShownTable False (vwColumns v) (map (vwRow v) es), ShownItems [if token \<noteq> '''' then OutMore token else OutNoMore]], None)
      else showObjects v es)"

definition querySinglePage :: "AuditRecord view \<Rightarrow> (AuditLogQuerySpec \<Rightarrow> string + AuditRecord list \<times> string) \<Rightarrow> QueryOptions \<Rightarrow> AuditRecord run_result" where
  "querySinglePage v create o' =
     (case create (querySpec o' (qoContinueAfter o')) of
        Inl e \<Rightarrow> ([], Some (''query failed: '' @ e))
      | Inr (es, token) \<Rightarrow> printQueryResults v es token)"

text \<open>The later pages are tables without columns, and no total is printed.\<close>

fun queryTables :: "string list \<Rightarrow> AuditRecord view \<Rightarrow> AuditRecord list list \<Rightarrow> AuditRecord shown list" where
  "queryTables columns v [] = []"
| "queryTables columns v (es # pages) = ShownTable False columns (map (vwRow v) es) # queryTables [] v pages"

definition queryAllPages ::
  "AuditRecord view \<Rightarrow> (AuditLogQuerySpec \<Rightarrow> string + AuditRecord list \<times> string) \<Rightarrow> QueryOptions \<Rightarrow> AuditRecord run_result option" where
  "queryAllPages v create o' =
     map_option (\<lambda>(pages, err).
       if IsDefaultOutputFormat (vwFormat v) then (queryTables (vwColumns v) v pages, err)
       else (case err of Some e \<Rightarrow> ([], Some e) | None \<Rightarrow> showObjects v (concat pages)))
       (followPages (\<lambda>_ token. create (querySpec o' token)) 0 '''')"

definition runQueryCommand ::
  "AuditRecord view \<Rightarrow> string + (AuditLogQuerySpec \<Rightarrow> string + AuditRecord list \<times> string) \<Rightarrow> QueryOptions \<Rightarrow> AuditRecord run_result option" where
  "runQueryCommand v newClient o' =
     (case newClient of
        Inl e \<Rightarrow> Some ([], Some e)
      | Inr create \<Rightarrow> if qoAllPages o' then queryAllPages v create o' else Some (querySinglePage v create o'))"

section \<open>All pages read as one table\<close>

definition rowsOf :: "'e shown list \<Rightarrow> string list list" where
  "rowsOf s = concat (map (\<lambda>x. case x of ShownTable _ _ rows \<Rightarrow> rows | _ \<Rightarrow> []) s)"

definition headersOf :: "'e shown list \<Rightarrow> bool list" where
  "headersOf s = List.map_filter (\<lambda>x. case x of ShownTable noHeaders _ _ \<Rightarrow> Some (\<not> noHeaders) | _ \<Rightarrow> None) s"

lemma pageTables_rows: "rowsOf (pageTables h v pages) = map (vwRow v) (concat pages)"
  by (induction h v pages rule: pageTables.induct) (simp_all add: rowsOf_def)

lemma pageTables_headers: "headersOf (pageTables True v pages) = replicate (length pages) False"
  by (induction pages) (simp_all add: headersOf_def map_filter_simps)

lemma followPages_nonempty: "followPages create n token = Some (pages, None) \<Longrightarrow> pages \<noteq> []"
  by (subst (asm) followPages.simps) (auto split: sum.splits if_splits prod.splits bind_splits)

text \<open>
  With the default format, a command with --all-pages that ends without an error shows, as one table
  with at most one header, a row for each result of each page in order, and then their number. Every
  other outcome is an error of the server with the pages that arrived before it.
\<close>

theorem all_pages_show_every_row:
  assumes "runAllPages v create query = Some (s, err)" and "IsDefaultOutputFormat (vwFormat v)"
  shows "\<exists>pages. followPages (\<lambda>_ token. create (query token)) 0 '''' = Some (pages, err)
    \<and> rowsOf s = map (vwRow v) (concat pages)
    \<and> (err = None \<longrightarrow> headersOf s = (\<not> vwNoHeaders v) # replicate (length pages - 1) False
          \<and> last s = ShownItems [OutTotal (length (concat pages))])"
proof -
  obtain pages e where f: "followPages (\<lambda>_ token. create (query token)) 0 '''' = Some (pages, e)" and s: "showPages v (pages, e) = (s, err)"
    using assms(1) by (auto simp: runAllPages_def)
  have e: "e = err" using s assms(2) by (auto simp: showPages_def Let_def split: option.splits)
  have rows: "rowsOf s = map (vwRow v) (concat pages)"
    using s assms(2) by (auto simp: showPages_def Let_def pageTables_rows rowsOf_def [of "_ @ _"] split: option.splits)
      (simp add: rowsOf_def [symmetric] pageTables_rows)
  show ?thesis
  proof (intro exI conjI impI)
    assume none: "err = None"
    then have t: "s = pageTables (vwNoHeaders v) v pages @ [ShownItems [OutTotal (length (concat pages))]]"
      using s e assms(2) by (simp add: showPages_def Let_def)
    obtain p ps where p: "pages = p # ps" using followPages_nonempty [of _ 0 "''''" pages] f e none by (cases pages) auto
    have "headersOf s = headersOf (pageTables (vwNoHeaders v) v pages)" by (simp add: t headersOf_def map_filter_def)
    then show "headersOf s = (\<not> vwNoHeaders v) # replicate (length pages - 1) False"
      using pageTables_headers [of v ps] by (simp add: p headersOf_def map_filter_simps)
    show "last s = ShownItems [OutTotal (length (concat pages))]" by (simp add: t)
  qed (use f e rows in simp_all)
qed

text \<open>
  The feed's own format is honoured on a single page only: with --all-pages the pages are fetched and
  then handed to the printers of Kubernetes, which do not know it, and nothing is printed.
\<close>

theorem summary_format_fails_over_all_pages:
  assumes "vwFormat v = Some ''summary''" and "vwPrinterErr v = Some unknown"
  shows "(feedAllPages v client o' = Some (s, err) \<longrightarrow> s = [] \<and> err \<noteq> None)
    \<and> (qcCreate client (feedSpec o' (pgContinueAfter (foPagination o'))) = Inr (es, token)
        \<longrightarrow> feedSinglePage v client o' = ([ShownLines (map (\<lambda>a. specSummary (actSpec a)) es)], None))"
  using assms
  by (auto simp: feedAllPages_def runAllPages_def showPages_def showObjects_def feedSinglePage_def printFeedResults_def printSummary_def
    IsDefaultOutputFormat_def Let_def split: option.splits)

definition onePage :: "(ActivityQuerySpec, Activity) query_client" where
  "onePage = \<lparr>qcCreate = (\<lambda>_. Inr ([sampleActivity], '''')), qcFacets = (\<lambda>_. Inr [])\<rparr>"

lemma summary_format_fails_over_all_pages_witness:
  "feedSinglePage (feedView (Some ''summary'') (Some ''unknown format'') False) onePage plainFeed
     = ([ShownLines [specSummary (actSpec sampleActivity)]], None)
   \<and> feedAllPages (feedView (Some ''summary'') (Some ''unknown format'') False) onePage plainFeed = Some ([], Some ''failed to create printer: unknown format'')"
proof -
  let ?v = "feedView (Some ''summary'') (Some ''unknown format'') False"
  have v: "vwFormat ?v = Some ''summary''" "vwPrinterErr ?v = Some ''unknown format''" by (simp_all add: feedView_def)
  have a: "feedAllPages ?v onePage plainFeed = Some ([], Some ''failed to create printer: unknown format'')"
    by (simp add: feedAllPages_def runAllPages_def onePage_def followPages.simps showPages_def showObjects_def feedView_def IsDefaultOutputFormat_def)
  show ?thesis
    using summary_format_fails_over_all_pages [OF v, of onePage plainFeed "[]" "Some ''failed to create printer: unknown format''" "[sampleActivity]" "''''"] a
    by (simp add: onePage_def)
qed

end
