(* ===== verification/Cli_Colors.thy ===== *)
theory Cli_Colors
  imports Cli_Runs
begin

text \<open>
  What \<open>history --diff\<close> writes (pkg/cmd/history.go): the texts of the items of \<open>printDiff\<close> in
  \<open>Cli_Commands\<close>, with the ANSI colours that a terminal gets. \<open>json.MarshalIndent\<close> and the unified diff
  of go-difflib are parameters; strings are UTF-8 bytes, \<open>nl\<close> is the newline of \<open>Cli_Reindex\<close>, and
  \<open>trimSpace\<close> trims ASCII spaces. The lemmas compare a coloured text with the plain one by removing the
  colour codes from it.
\<close>

section \<open>Colours\<close>

definition escChar :: char where
  "escChar = char_of (27 :: nat)"

definition sgr :: "string \<Rightarrow> string" where
  "sgr code = escChar # ''['' @ code @ ''m''"

definition painted :: "string \<Rightarrow> string \<Rightarrow> string" where
  "painted code s = sgr code @ s @ sgr ''0''"

definition utf8Bytes :: "nat list \<Rightarrow> string" where
  "utf8Bytes = map char_of"

record color_env =
  ceNoColor :: string
  ceIsStdout :: bool
  ceTerm :: string
  ceIsTerminal :: bool

definition supportsColor :: "color_env \<Rightarrow> bool" where
  "supportsColor e =
     (if ceNoColor e \<noteq> '''' then False
      else if \<not> ceIsStdout e then False
      else if ceTerm e = ''dumb'' \<or> ceTerm e = '''' then False
      else ceIsTerminal e)"

definition colorizeLine :: "string \<Rightarrow> string" where
  "colorizeLine l =
     (if l = '''' then l
      else if hasPrefix l ''---'' \<or> hasPrefix l ''+++'' then sgr ''1'' @ painted ''36'' l
      else if hasPrefix l ''@@'' then painted ''36'' l
      else if hasPrefix l ''-'' then painted ''31'' l
      else if hasPrefix l ''+'' then painted ''32'' l
      else l)"

definition colorizeDiff :: "bool \<Rightarrow> string \<Rightarrow> string" where
  "colorizeDiff useColor diff =
     (if \<not> useColor then diff else joinStr nl (map colorizeLine (splitByte (hd nl) diff)))"

text \<open>A line is a key and a value when it has a colon; the value is trimmed and coloured by its first characters.\<close>

definition highlightValue :: "string \<Rightarrow> string" where
  "highlightValue v =
     (if hasPrefix v [CHR 0x22] then painted ''33'' v
      else if v = ''true'' \<or> v = ''false'' then painted ''32'' v
      else if v = ''null'' \<or> v = ''null,'' then painted ''90'' v
      else if v \<noteq> '''' \<and> hd v \<in> set ''0123456789'' then painted ''35'' v
      else v)"

definition highlightLine :: "string \<Rightarrow> string" where
  "highlightLine l =
     (case indexByte l CHR '':'' of
        None \<Rightarrow> l
      | Some i \<Rightarrow>
          replaceAllStr (take i l) [CHR 0x22] (painted ''36'' [CHR 0x22])
          @ '':'' @ '' '' @ highlightValue (trimSpace (drop (Suc i) l)))"

definition highlightJSON :: "string \<Rightarrow> string" where
  "highlightJSON s = joinStr nl (map highlightLine (splitByte (hd nl) s))"

section \<open>The texts\<close>

definition boxLine :: "nat list \<Rightarrow> nat list \<Rightarrow> string" where
  "boxLine left right = utf8Bytes left @ concat (replicate 61 (utf8Bytes [0xE2, 0x94, 0x80])) @ utf8Bytes right"

definition boxSide :: string where
  "boxSide = utf8Bytes [0xE2, 0x94, 0x82]"

text \<open>\<open>%-3d\<close> and \<open>%-8s\<close>: padded with spaces to a width in characters.\<close>

definition padTo :: "nat \<Rightarrow> string \<Rightarrow> string" where
  "padTo n s = s @ replicate (n - length (runes s)) CHR '' ''"

definition verbLook :: "string \<Rightarrow> string \<times> string" where
  "verbLook verb =
     (if verb = ''create'' then (utf8Bytes [0xE2, 0x9C, 0xA8], ''32'')
      else if verb = ''update'' \<or> verb = ''patch'' then (utf8Bytes [0xF0, 0x9F, 0x93, 0x9D], ''33'')
      else if verb = ''delete'' then (utf8Bytes [0xF0, 0x9F, 0x97, 0x91, 0xEF, 0xB8, 0x8F], ''31'')
      else (utf8Bytes [0xE2, 0x80, 0xA2], ''0''))"

definition statusMark :: "bool \<Rightarrow> (int \<times> string) option \<Rightarrow> string" where
  "statusMark useColor status =
     (case status of
        None \<Rightarrow> ''''
      | Some (code, _) \<Rightarrow>
          let mark = ''['' @ fmtInt code @ '']''
          in '' '' @ (if useColor then painted (if code \<ge> 400 then ''31'' else ''32'') mark else mark))"

definition printChangeHeader :: "nat \<Rightarrow> string \<Rightarrow> string \<Rightarrow> string \<Rightarrow> (int \<times> string) option \<Rightarrow> bool \<Rightarrow> string" where
  "printChangeHeader n timestamp verb username status useColor =
     (let top = boxLine [0xE2, 0x95, 0xAD] [0xE2, 0x95, 0xAE];
          bottom = boxLine [0xE2, 0x95, 0xB0] [0xE2, 0x95, 0xAF]
      in if useColor
         then nl @ painted ''2'' top @ nl
           @ painted ''2'' boxSide @ '' '' @ painted ''1;36'' (''Change #'' @ padTo 3 (fmtInt (int n))) @ '' ''
           @ fst (verbLook verb) @ '' '' @ painted (snd (verbLook verb)) (padTo 8 verb) @ statusMark True status @ nl
           @ painted ''2'' boxSide @ '' '' @ painted ''90'' (utf8Bytes [0xF0, 0x9F, 0x95, 0x90] @ '' '' @ timestamp) @ nl
           @ painted ''2'' boxSide @ '' '' @ painted ''90'' (utf8Bytes [0xF0, 0x9F, 0x91, 0xA4] @ '' '' @ username) @ nl
           @ painted ''2'' bottom
         else nl @ top @ nl
           @ boxSide @ '' Change #'' @ padTo 3 (fmtInt (int n)) @ ''  '' @ padTo 8 verb @ statusMark False status @ nl
           @ boxSide @ '' '' @ timestamp @ nl
           @ boxSide @ '' '' @ username @ nl
           @ bottom)"

record diff_libs =
  dlMarshalIndent :: "gomap \<Rightarrow> string + string"
  dlUnified :: "string \<Rightarrow> string \<Rightarrow> string + string"
  dlParseError :: "nat \<Rightarrow> string"

definition printObjectPretty :: "diff_libs \<Rightarrow> bool \<Rightarrow> gomap \<Rightarrow> string + string" where
  "printObjectPretty lib useColor obj =
     (case dlMarshalIndent lib obj of
        Inl e \<Rightarrow> Inl (''failed to marshal object: '' @ e)
      | Inr j \<Rightarrow> Inr ((if useColor then highlightJSON j else j) @ nl))"

definition printObjectDiff :: "diff_libs \<Rightarrow> bool \<Rightarrow> gomap \<Rightarrow> gomap \<Rightarrow> string + string" where
  "printObjectDiff lib useColor prev cur =
     (case dlMarshalIndent lib prev of
        Inl e \<Rightarrow> Inl (''failed to marshal previous object: '' @ e)
      | Inr a \<Rightarrow>
          (case dlMarshalIndent lib cur of
             Inl e \<Rightarrow> Inl (''failed to marshal current object: '' @ e)
           | Inr b \<Rightarrow>
               (case dlUnified lib a b of
                  Inl e \<Rightarrow> Inl (''failed to generate diff: '' @ e)
                | Inr d \<Rightarrow> Inr (if d = '''' then ''(no changes detected)'' @ nl else colorizeDiff useColor d))))"

datatype stream = ToOut | ToErr

definition orWarn :: "string \<Rightarrow> string + string \<Rightarrow> (stream \<times> string) list" where
  "orWarn what r =
     (case r of Inl e \<Rightarrow> [(ToErr, ''Warning: failed to '' @ what @ '': '' @ e @ nl)] | Inr s \<Rightarrow> [(ToOut, s)])"

text \<open>A notice between empty lines, with its emoji and colour on a terminal.\<close>

definition notice :: "bool \<Rightarrow> string \<Rightarrow> nat list \<Rightarrow> string \<Rightarrow> stream \<times> string" where
  "notice useColor code emoji s =
     (ToOut, nl @ (if useColor then painted code (utf8Bytes emoji @ s) else s) @ nl @ nl)"

definition ruler :: string where
  "ruler = concat (replicate 62 (utf8Bytes [0xE2, 0x94, 0x80]))"

fun diffItemText :: "diff_libs \<Rightarrow> bool \<Rightarrow> diff_item \<Rightarrow> (stream \<times> string) list" where
  "diffItemText lib c DiffNothing = [(ToOut, ''No changes found for this resource.'' @ nl)]"
| "diffItemText lib c (DiffWarning i) =
     [(ToErr, ''Warning: failed to parse response object for event '' @ fmtInt (int i) @ '': '' @ dlParseError lib i @ nl)]"
| "diffItemText lib c (DiffHeader n timestamp verb username status) =
     [(ToOut, printChangeHeader n timestamp verb username status c)]"
| "diffItemText lib c (DiffChanges changes prev cur) =
     (if changes = '''' then []
      else [(ToOut, nl @ (if c then painted ''1'' (utf8Bytes [0xF0, 0x9F, 0x93, 0x9D] @ '' Changes:'') else ''Changes:'') @ '' '' @ changes @ nl)])
     @ [(ToOut, nl)] @ orWarn ''generate diff'' (printObjectDiff lib c prev cur)"
| "diffItemText lib c (DiffCreated obj) =
     notice c ''32'' [0xE2, 0x9C, 0xA8, 0x20] ''Created resource'' # orWarn ''print object'' (printObjectPretty lib c obj)"
| "diffItemText lib c (DiffInitial obj) =
     notice c ''33'' [0xF0, 0x9F, 0x93, 0xB8, 0x20] ''Initial state (oldest available change)''
     # orWarn ''print object'' (printObjectPretty lib c obj)"
| "diffItemText lib c (DiffDeleted obj) =
     notice c ''31'' [0xF0, 0x9F, 0x97, 0x91, 0xEF, 0xB8, 0x8F, 0x20, 0x20] ''Deleted resource''
     # orWarn ''print object'' (printObjectPretty lib c obj)"
| "diffItemText lib c (DiffTotal n) =
     [(ToErr, nl @ (if c then painted ''2'' ruler else ruler) @ nl),
      (ToErr, (if c then painted ''1'' ''Total:'' else ''Total:'') @ '' '' @ fmtInt (int n) @ '' changes'' @ nl)]"

definition diffText :: "diff_libs \<Rightarrow> (gval \<Rightarrow> string) \<Rightarrow> color_env \<Rightarrow> int \<Rightarrow> AuditRecord list \<Rightarrow> (stream \<times> string) list" where
  "diffText lib json env offset events =
     concat (map (diffItemText lib (supportsColor env)) (printDiff json offset events))"

section \<open>Removing the colours\<close>

fun uncolour :: "bool \<Rightarrow> string \<Rightarrow> string" where
  "uncolour inCode [] = []"
| "uncolour True (c # s) = uncolour (c \<noteq> CHR ''m'') s"
| "uncolour False (c # s) = (if c = escChar then uncolour True s else c # uncolour False s)"

abbreviation plainText :: "string \<Rightarrow> string" where
  "plainText \<equiv> uncolour False"

text \<open>A text that ends outside of a code, and reads as \<open>t\<close>.\<close>

definition shownAs :: "string \<Rightarrow> string \<Rightarrow> bool" where
  "shownAs s t = (\<forall>rest. plainText (s @ rest) = t @ plainText rest)"

lemma shownAs_plain: "shownAs s t \<Longrightarrow> plainText s = t"
  by (metis append_Nil2 shownAs_def uncolour.simps(1))

lemma shownAs_append: "shownAs s t \<Longrightarrow> shownAs s' t' \<Longrightarrow> shownAs (s @ s') (t @ t')"
  by (simp add: shownAs_def)

lemma shownAs_code: "CHR ''m'' \<notin> set code \<Longrightarrow> shownAs (sgr code) ''''"
proof -
  have "uncolour True (code @ CHR ''m'' # rest) = plainText rest" if "CHR ''m'' \<notin> set code" for rest
    using that by (induction code) auto
  then show "shownAs (sgr code) ''''" if "CHR ''m'' \<notin> set code" using that by (simp add: shownAs_def sgr_def)
qed

lemma shownAs_same: "escChar \<notin> set s \<Longrightarrow> shownAs s s"
  by (induction s) (auto simp: shownAs_def)

lemma shownAs_painted: "CHR ''m'' \<notin> set code \<Longrightarrow> escChar \<notin> set s \<Longrightarrow> shownAs (painted code s) s"
  using shownAs_append [OF shownAs_code shownAs_append [OF shownAs_same shownAs_code [of "''0''"]]]
  by (simp add: painted_def)

lemma newline_plain: "escChar \<notin> set nl"
  by (simp add: nl_def escChar_def char_of_eq_iff)

lemma shownAs_joined: "\<forall>x\<in>set xs. shownAs (f x) (g x) \<Longrightarrow> shownAs (joinStr nl (map f xs)) (joinStr nl (map g xs))"
proof (induction xs rule: induct_list012)
  case 1
  show ?case by (simp add: shownAs_def)
next
  case 2
  then show ?case by simp
next
  case (3 x y xs)
  then show ?case using shownAs_append [OF _ shownAs_append [OF shownAs_same [OF newline_plain]], of "f x" "g x"] by simp
qed

lemma joinStr_head: "joinStr sep ((c # x) # xs) = c # joinStr sep (x # xs)"
  by (cases xs) simp_all

lemma joined_lines: "joinStr nl (splitByte (hd nl) s) = s"
  by (induction s) (auto simp: nl_def joinStr_Cons joinStr_head split: list.splits)

lemma line_plain: "l \<in> set (splitByte c s) \<Longrightarrow> set l \<subseteq> set s"
  by (induction c s arbitrary: l rule: splitByte.induct) (fastforce split: list.splits if_splits)+

section \<open>What the colours keep\<close>

lemma colorizeLine_reads: "escChar \<notin> set l \<Longrightarrow> shownAs (colorizeLine l) l"
  using shownAs_append [OF shownAs_code [of "''1''"] shownAs_painted [of "''36''" l]]
  by (auto simp: colorizeLine_def shownAs_painted shownAs_same)

text \<open>The colours of a diff only decorate it: without them it is the diff, byte by byte.\<close>

lemma colorizeDiff_plain:
  assumes "escChar \<notin> set d"
  shows "plainText (colorizeDiff c d) = d"
proof -
  have "shownAs (joinStr nl (map colorizeLine (splitByte (hd nl) d))) (joinStr nl (map (\<lambda>l. l) (splitByte (hd nl) d)))"
    using line_plain assms by (intro shownAs_joined) (blast intro: colorizeLine_reads)
  then have "shownAs (colorizeDiff c d) d"
    using shownAs_same [OF assms] by (simp add: colorizeDiff_def joined_lines)
  then show ?thesis by (rule shownAs_plain)
qed

text \<open>What a line of JSON reads as after its highlighting.\<close>

definition highlightedLine :: "string \<Rightarrow> string" where
  "highlightedLine l =
     (case indexByte l CHR '':'' of None \<Rightarrow> l | Some i \<Rightarrow> take i l @ '': '' @ trimSpace (drop (Suc i) l))"

lemma shownAs_quotes: "escChar \<notin> set s \<Longrightarrow> shownAs (replaceAllStr s [CHR 0x22] (painted ''36'' [CHR 0x22])) s"
proof (induction s)
  case (Cons c s)
  have "shownAs (if c = CHR 0x22 then painted ''36'' [CHR 0x22] else [c]) [c]"
    using Cons.prems shownAs_painted [of "''36''" "[c]"] shownAs_same [of "[c]"] by auto
  with Cons show ?case using shownAs_append by (fastforce simp: replaceAllStr_char)
qed (simp add: replaceAllStr_char shownAs_def)

lemma highlightValue_reads: "escChar \<notin> set v \<Longrightarrow> shownAs (highlightValue v) v"
  by (simp add: highlightValue_def shownAs_painted shownAs_same)

lemma trimSpace_subset: "set (trimSpace s) \<subseteq> set s"
  by (auto simp: trimSpace_def dest!: set_dropWhileD)

lemma highlightLine_reads:
  assumes "escChar \<notin> set l"
  shows "shownAs (highlightLine l) (highlightedLine l)"
proof (cases "indexByte l CHR '':''")
  case None
  then show ?thesis using assms by (simp add: highlightLine_def highlightedLine_def shownAs_same)
next
  case (Some i)
  have k: "escChar \<notin> set (take i l)" using assms by (blast dest: in_set_takeD)
  have v: "escChar \<notin> set (trimSpace (drop (Suc i) l))"
    using assms trimSpace_subset by (blast dest: in_set_dropD)
  have sep: "shownAs '': '' '': ''" by (rule shownAs_same) (simp add: escChar_def char_of_eq_iff)
  show ?thesis
    using shownAs_append [OF shownAs_quotes [OF k] shownAs_append [OF sep highlightValue_reads [OF v]]]
    by (simp add: Some highlightLine_def highlightedLine_def)
qed

lemma highlightedLine_one_line: "hd nl \<notin> set l \<Longrightarrow> hd nl \<notin> set (highlightedLine l)"
  using trimSpace_subset [of "drop (Suc i) l" for i]
  by (auto simp: highlightedLine_def nl_def split: option.splits dest: in_set_takeD in_set_dropD)

text \<open>
  The highlighted object reads as the object exactly when in every line a space follows the first
  colon, and only one. A line whose key or whose string has a colon of its own is changed.
\<close>

lemma highlight_keeps_text_iff:
  assumes "escChar \<notin> set s"
  shows "plainText (highlightJSON s) = s \<longleftrightarrow> list_all (\<lambda>l. highlightedLine l = l) (splitByte (hd nl) s)"
proof -
  let ?ls = "splitByte (hd nl) s"
  have "shownAs (highlightJSON s) (joinStr nl (map highlightedLine ?ls))"
    unfolding highlightJSON_def using line_plain assms by (intro shownAs_joined) (blast intro: highlightLine_reads)
  then have read: "plainText (highlightJSON s) = joinStr nl (map highlightedLine ?ls)" by (rule shownAs_plain)
  have one: "nl = [hd nl]" by (simp add: nl_def)
  have "splitByte (hd nl) (joinStr nl (map highlightedLine ?ls)) = map highlightedLine ?ls"
    by (subst (2) one, rule splitByte_joined)
      (auto simp: list_all_iff dest!: splitByte_tokens_clean highlightedLine_one_line)
  then have "joinStr nl (map highlightedLine ?ls) = s \<longleftrightarrow> map highlightedLine ?ls = ?ls"
    by (metis joined_lines)
  then show ?thesis by (simp add: read list_all_iff map_idI list_eq_iff_nth_eq all_set_conv_all_nth)
qed

text \<open>So the image of a container in a list of arguments is shown as it is not.\<close>

lemma image_line_is_altered:
  "plainText (highlightJSON (CHR 0x22 # ''nginx:1.27'' @ [CHR 0x22])) \<noteq> CHR 0x22 # ''nginx:1.27'' @ [CHR 0x22]"
proof -
  let ?s = "CHR 0x22 # ''nginx:1.27'' @ [CHR 0x22]"
  have "escChar \<notin> set ?s" by (simp add: escChar_def char_of_eq_iff)
  from highlight_keeps_text_iff [OF this] show ?thesis
    by (simp add: highlightedLine_def nl_def trimSpace_def isSpace_def)
qed

end
