(* ===== verification/Cli_Preview.thy ===== *)
theory Cli_Preview
  imports Policy_Preview Cli_Reindex
begin

text \<open>
  pkg/cmd/policy/preview.go: the plugin's command that tries out a policy from files. Opening and
  decoding files, the client, and the printers of other formats are parameters; the server that
  answers is \<open>Policy_Preview\<close>. Writing succeeds; the debug line and cobra's wiring are left out.
\<close>

section \<open>Options\<close>

record PreviewOptions =
  poPolicyFile :: string
  poInputFile :: string
  poInputAudit :: string
  poDryRun :: bool
  poFormat :: "string option"
  poNoHeaders :: bool

definition validatePreview :: "PreviewOptions \<Rightarrow> string option" where
  "validatePreview o' =
     (if poPolicyFile o' = '''' then Some ''--file is required''
      else if \<not> poDryRun o' \<and> poInputFile o' = '''' \<and> poInputAudit o' = ''''
      then Some ''either --input or --input-audit is required (use --dry-run to validate syntax only)''
      else None)"

section \<open>Reading\<close>

record preview_files =
  pfOpen :: "string \<Rightarrow> string + string"
  pfPolicy :: "string \<Rightarrow> string + ActivityPolicySpec"
  pfInputs :: "string \<Rightarrow> string + PolicyPreviewInput list"
  pfAudit :: "string \<Rightarrow> string + AuditEvent"

definition readPolicyFile :: "preview_files \<Rightarrow> PreviewOptions \<Rightarrow> string + ActivityPolicySpec" where
  "readPolicyFile files o' =
     (case pfOpen files (poPolicyFile o') of
        Inl e \<Rightarrow> Inl (''failed to open policy file: '' @ e)
      | Inr content \<Rightarrow>
          (case pfPolicy files content of
             Inl e \<Rightarrow> Inl (''failed to parse policy file: '' @ e)
           | Inr spec \<Rightarrow> Inr spec))"

definition readInputFile :: "preview_files \<Rightarrow> PreviewOptions \<Rightarrow> string + PolicyPreviewInput list" where
  "readInputFile files o' =
     (case pfOpen files (poInputFile o') of
        Inl e \<Rightarrow> Inl (''failed to open input file: '' @ e)
      | Inr content \<Rightarrow>
          (case pfInputs files content of
             Inl e \<Rightarrow> Inl (''failed to parse input file: '' @ e)
           | Inr inputs \<Rightarrow> Inr inputs))"

definition readInlineAudit :: "preview_files \<Rightarrow> PreviewOptions \<Rightarrow> string + PolicyPreviewInput list" where
  "readInlineAudit files o' =
     (case pfAudit files (poInputAudit o') of
        Inl e \<Rightarrow> Inl (''failed to parse audit event JSON: '' @ e)
      | Inr audit \<Rightarrow> Inr [\<lparr>piType = ''audit'', piAudit = Some audit, piEvent = None\<rparr>])"

definition readInputs :: "preview_files \<Rightarrow> PreviewOptions \<Rightarrow> string + PolicyPreviewInput list" where
  "readInputs files o' =
     (if poInputFile o' \<noteq> '''' then readInputFile files o'
      else if poInputAudit o' \<noteq> '''' then readInlineAudit files o'
      else Inl ''no inputs provided'')"

section \<open>Printing\<close>

datatype preview_output =
    PvErrLines "string list"
  | PvOutLines "string list"
  | PvTable bool "string list" "string list list"
  | PvObject PolicyPreviewStatus

text \<open>Activities are paired with the matched results by counting.\<close>

fun previewRows :: "Activity list \<Rightarrow> nat \<Rightarrow> PolicyPreviewInputResult list \<Rightarrow> string list list" where
  "previewRows activities activityIdx [] = []"
| "previewRows activities activityIdx (res # rest) =
     (let (summaryOrError, next) =
            (if prvError res \<noteq> '''' then (''ERROR: '' @ prvError res, activityIdx)
             else if prvMatched res \<and> activityIdx < length activities
             then (specSummary (actSpec (activities ! activityIdx)), activityIdx + 1)
             else (''-'', activityIdx))
      in [''Input #'' @ fmtInt (int (prvInputIndex res) + 1),
          (if \<not> prvMatched res then ''no'' else ''yes''),
          (if prvRuleIndex res \<ge> 0 then fmtInt (prvRuleIndex res) @ '' ('' @ prvRuleType res @ '')'' else ''-''),
          summaryOrError]
         # previewRows activities next rest)"

definition previewColumns :: "string list" where
  "previewColumns = [''Input'', ''Matched'', ''Rule'', ''Activity Summary'']"

definition printPreviewTable :: "PreviewOptions \<Rightarrow> PolicyPreviewStatus \<Rightarrow> preview_output" where
  "printPreviewTable o' st = PvTable (poNoHeaders o') previewColumns (previewRows (pvActivities st) 0 (pvResults st))"

definition printPreview :: "string option \<Rightarrow> PreviewOptions \<Rightarrow> PolicyPreviewStatus \<Rightarrow> preview_output list \<times> string option" where
  "printPreview printerErr o' st =
     (if pvError st \<noteq> '''' then ([PvErrLines [''Error: '' @ pvError st]], Some ''preview failed'')
      else if IsDefaultOutputFormat (poFormat o') then ([printPreviewTable o' st], None)
      else (case printerErr of Some e \<Rightarrow> ([], Some (''failed to create printer: '' @ e)) | None \<Rightarrow> ([PvObject st], None)))"

section \<open>Run\<close>

text \<open>A refused request carries the causes of the API server, as field and message; another failure a text.\<close>

datatype create_failure = StatusCauses "(string \<times> string) list" | CreateFailed string

definition causeLine :: "string \<times> string \<Rightarrow> string" where
  "causeLine c = (if fst c \<noteq> '''' then ''  * '' @ fst c @ '': '' @ snd c else ''  * '' @ snd c)"

definition reportFailure :: "create_failure \<Rightarrow> preview_output list \<times> string option" where
  "reportFailure err =
     (case err of
        StatusCauses (c # cs) \<Rightarrow> ([PvErrLines (''Preview validation failed:'' # map causeLine (c # cs))], Some ''preview request is invalid'')
      | StatusCauses [] \<Rightarrow> ([], Some ''preview failed: '')
      | CreateFailed e \<Rightarrow> ([], Some (''preview failed: '' @ e)))"

definition runPreview ::
  "preview_files \<Rightarrow> string + (PolicyPreviewSpec \<Rightarrow> create_failure + PolicyPreviewStatus) \<Rightarrow> string option \<Rightarrow> PreviewOptions \<Rightarrow>
   preview_output list \<times> string option" where
  "runPreview files newClient printerErr o' =
     (case newClient of
        Inl e \<Rightarrow> ([], Some e)
      | Inr create \<Rightarrow>
     (case readPolicyFile files o' of
        Inl e \<Rightarrow> ([], Some e)
      | Inr policy \<Rightarrow>
     (case (if poDryRun o' then Inr [] else readInputs files o') of
        Inl e \<Rightarrow> ([], Some e)
      | Inr inputs \<Rightarrow>
     (case create \<lparr>ppPolicy = policy, ppInputs = inputs, ppAutoFetch = None\<rparr> of
        Inl err \<Rightarrow> reportFailure err
      | Inr st \<Rightarrow>
          if poDryRun o'
          then (if pvError st \<noteq> '''' then ([PvErrLines [''Error: '' @ pvError st]], Some ''policy syntax is invalid'')
                else ([PvOutLines [''Policy syntax is valid.'']], None))
          else printPreview printerErr o' st))))"

definition previewCommand ::
  "preview_files \<Rightarrow> string + (PolicyPreviewSpec \<Rightarrow> create_failure + PolicyPreviewStatus) \<Rightarrow> string option \<Rightarrow> PreviewOptions \<Rightarrow>
   preview_output list \<times> string option" where
  "previewCommand files newClient printerErr o' =
     (case validatePreview o' of Some e \<Rightarrow> ([], Some e) | None \<Rightarrow> runPreview files newClient printerErr o')"

section \<open>Against the server\<close>

text \<open>The endpoint as the client sees it: a validation failure as causes, any other as a text.\<close>

definition previewServer ::
  "(preview_error \<Rightarrow> string \<times> string) \<Rightarrow> (preview_failure \<Rightarrow> string) \<Rightarrow> ('a, 'p) cel_engine \<Rightarrow> (string \<Rightarrow> string list) \<Rightarrow>
   (AuditEvent \<Rightarrow> string + gomap) \<Rightarrow> 'e preview_store \<Rightarrow> (nat \<Rightarrow> instant) \<Rightarrow> PolicyPreviewSpec \<Rightarrow> create_failure + PolicyPreviewStatus" where
  "previewServer cause describe eng dnsErrs toMap store clock spec =
     (case CreatePolicyPreview eng dnsErrs toMap store clock spec of
        Inl (PreviewInvalid errs) \<Rightarrow> Inl (StatusCauses (map cause errs))
      | Inl f \<Rightarrow> Inl (CreateFailed (describe f))
      | Inr st \<Rightarrow> Inr st)"

definition noInputsError :: preview_error where
  "noInputsError = PreviewField (FRequired ''spec'' ''provide either inputs or autoFetch'')"

lemma empty_preview_refused:
  "\<exists>errs. previewServer cause describe eng dnsErrs toMap store clock \<lparr>ppPolicy = policy, ppInputs = [], ppAutoFetch = None\<rparr>
     = Inl (StatusCauses (map cause errs)) \<and> noInputsError \<in> set errs"
  by (rule exI [of _ "validatePolicyPreview eng dnsErrs (clock 0) \<lparr>ppPolicy = policy, ppInputs = [], ppAutoFetch = None\<rparr>"])
    (simp add: previewServer_def CreatePolicyPreview_def validatePolicyPreview_def noInputsError_def Let_def)

text \<open>
  C18: a dry run never succeeds: the command sends the policy without inputs, which the server refuses,
  whatever the policy is. The user is told that inputs are missing, never that the policy is valid.
\<close>

theorem dry_run_is_always_refused:
  assumes "poDryRun o'" and "readPolicyFile files o' = Inr policy" and "poPolicyFile o' \<noteq> ''''"
  shows "\<exists>causes. previewCommand files (Inr (previewServer cause describe eng dnsErrs toMap store clock)) printerErr o'
      = ([PvErrLines (''Preview validation failed:'' # map causeLine causes)], Some ''preview request is invalid'')
    \<and> cause noInputsError \<in> set causes"
proof -
  obtain errs where e: "previewServer cause describe eng dnsErrs toMap store clock \<lparr>ppPolicy = policy, ppInputs = [], ppAutoFetch = None\<rparr>
      = Inl (StatusCauses (map cause errs))" "noInputsError \<in> set errs"
    using empty_preview_refused [of cause describe eng dnsErrs toMap store clock policy] by blast
  then obtain x xs where "errs = x # xs" by (cases errs) auto
  then show ?thesis using assms e
    by (intro exI [of _ "map cause errs"]) (auto simp: previewCommand_def validatePreview_def runPreview_def reportFailure_def)
qed

section \<open>The table\<close>

definition outcomeActivities :: "go_error + EvaluationResult \<Rightarrow> Activity list" where
  "outcomeActivities outcome = (case outcome of Inr r \<Rightarrow> (case erActivity r of Some a \<Rightarrow> [a] | None \<Rightarrow> []) | Inl _ \<Rightarrow> [])"

definition summaryFor :: "go_error + EvaluationResult \<Rightarrow> string" where
  "summaryFor outcome =
     (case outcome of
        Inl err \<Rightarrow> if errMsg err = '''' then ''-'' else ''ERROR: '' @ errMsg err
      | Inr r \<Rightarrow> (case erActivity r of Some a \<Rightarrow> specSummary (actSpec a) | None \<Rightarrow> ''-''))"

definition rowFor :: "nat \<Rightarrow> go_error + EvaluationResult \<Rightarrow> string list" where
  "rowFor k outcome =
     (let res = inputResult k outcome
      in [''Input #'' @ fmtInt (int k + 1), (if prvMatched res then ''yes'' else ''no''),
          (if prvRuleIndex res \<ge> 0 then fmtInt (prvRuleIndex res) @ '' ('' @ prvRuleType res @ '')'' else ''-''), summaryFor outcome])"

lemma previewRows_step:
  "previewRows (before @ outcomeActivities outcome @ rest) (length before) (inputResult k outcome # rs)
     = rowFor k outcome # previewRows (before @ outcomeActivities outcome @ rest) (length before + length (outcomeActivities outcome)) rs"
proof (cases outcome)
  case (Inl err)
  then show ?thesis by (simp add: inputResult_def rowFor_def summaryFor_def outcomeActivities_def Let_def)
next
  case (Inr r)
  then show ?thesis by (cases "erActivity r") (simp_all add: inputResult_def rowFor_def summaryFor_def outcomeActivities_def Let_def)
qed

lemma previewRows_pair:
  "previewRows (before @ concat (map outcomeActivities outcomes)) (length before) (map (\<lambda>(k, outcome). inputResult k outcome) (enumerate n outcomes))
     = map (\<lambda>(k, outcome). rowFor k outcome) (enumerate n outcomes)"
proof (induction outcomes arbitrary: before n)
  case (Cons outcome outcomes)
  have ih: "previewRows (before @ outcomeActivities outcome @ concat (map outcomeActivities outcomes)) (length before + length (outcomeActivities outcome))
      (map (\<lambda>(k, outcome). inputResult k outcome) (enumerate (Suc n) outcomes)) = map (\<lambda>(k, outcome). rowFor k outcome) (enumerate (Suc n) outcomes)"
    using Cons.IH [of "before @ outcomeActivities outcome" "Suc n"] by simp
  show ?case using previewRows_step [of before outcome "concat (map outcomeActivities outcomes)" n] ih
    by (simp del: previewRows.simps)
qed simp

text \<open>
  The table of a preview has one row for each input, in order, and the summary in the row is that of
  the activity of this very input: the activities, which the server sends as a list of their own, are
  paired with the right results.
\<close>

theorem preview_table_pairs_activities:
  fixes eng :: "('a, 'p) cel_engine" and toMap spec clock inputs
  defines "st \<equiv> evaluatePolicy eng toMap spec clock inputs"
  shows "printPreview printerErr (o'\<lparr>poFormat := None\<rparr>) st
    = ([PvTable (poNoHeaders o') previewColumns
         (map (\<lambda>k. rowFor k (evaluateInput eng toMap spec (inputs ! k) (clock k))) [0 ..< length inputs])], None)"
proof -
  let ?outs = "map (\<lambda>k. evaluateInput eng toMap spec (inputs ! k) (clock k)) [0 ..< length inputs]"
  have enum: "map (\<lambda>(k, input). f k (evaluateInput eng toMap spec input (clock k))) (enumerate 0 inputs) = map (\<lambda>(k, outcome). f k outcome) (enumerate 0 ?outs)"
    for f :: "nat \<Rightarrow> go_error + EvaluationResult \<Rightarrow> 'z"
    by (intro nth_equalityI) (auto simp: nth_enumerate_eq)
  have r: "pvResults st = map (\<lambda>(k, outcome). inputResult k outcome) (enumerate 0 ?outs)"
    using enum [of inputResult] by (simp add: st_def evaluatePolicy_def previewLoop_results)
  have "pvActivities st = concat (map (\<lambda>(k, input). outcomeActivities (evaluateInput eng toMap spec input (clock k))) (enumerate 0 inputs))"
    by (simp add: st_def evaluatePolicy_def previewLoop_results outcomeActivities_def)
  also have "\<dots> = concat (map outcomeActivities ?outs)"
    unfolding enum [of "\<lambda>_. outcomeActivities"] by (intro arg_cong [where f = concat] nth_equalityI) (auto simp: nth_enumerate_eq)
  finally have a: "pvActivities st = concat (map outcomeActivities ?outs)" .
  have "previewRows (pvActivities st) 0 (pvResults st) = map (\<lambda>(k, outcome). rowFor k outcome) (enumerate 0 ?outs)"
    using previewRows_pair [of "[]" ?outs 0] by (simp add: a r)
  also have "\<dots> = map (\<lambda>k. rowFor k (evaluateInput eng toMap spec (inputs ! k) (clock k))) [0 ..< length inputs]"
    by (intro nth_equalityI) (auto simp: nth_enumerate_eq)
  moreover have "pvError st = ''''"
  proof -
    have "pvError (previewLoop eng toMap spec clock i is s) = pvError s" for i s and "is" :: "PolicyPreviewInput list"
      by (induction "is" arbitrary: i s) (simp_all add: Let_def)
    then show ?thesis by (simp add: st_def evaluatePolicy_def)
  qed
  ultimately show ?thesis by (simp add: printPreview_def printPreviewTable_def IsDefaultOutputFormat_def)
qed

text \<open>A valid policy in a file, tried with a dry run.\<close>

definition policyFiles :: preview_files where
  "policyFiles = \<lparr>pfOpen = (\<lambda>_. Inr ''policy''), pfPolicy = (\<lambda>_. Inr exampleSpec), pfInputs = (\<lambda>_. Inr [exampleInput]), pfAudit = (\<lambda>_. Inr exampleAudit)\<rparr>"

definition dryRun :: PreviewOptions where
  "dryRun = \<lparr>poPolicyFile = ''policy.yaml'', poInputFile = '''', poInputAudit = '''', poDryRun = True, poFormat = None, poNoHeaders = False\<rparr>"

lemma dry_run_is_always_refused_witness:
  "snd (previewCommand policyFiles (Inr (previewServer (\<lambda>_. (''spec'', ''Required value'')) (\<lambda>_. '''') varEngine (\<lambda>_. []) (\<lambda>_. Inl ''none'') sampleStore (\<lambda>_. 0))) None dryRun)
     = Some ''preview request is invalid''"
proof -
  have "poDryRun dryRun" "readPolicyFile policyFiles dryRun = Inr exampleSpec" "poPolicyFile dryRun \<noteq> ''''"
    by (simp_all add: dryRun_def policyFiles_def readPolicyFile_def)
  from dry_run_is_always_refused [OF this, of "\<lambda>_. (''spec'', ''Required value'')" "\<lambda>_. ''''" varEngine "\<lambda>_. []" "\<lambda>_. Inl ''none''" sampleStore "\<lambda>_. 0" None]
  show ?thesis by auto
qed

end
