(* ===== verification/Processor_Life.thy ===== *)
theory Processor_Life
  imports Event_Exporter Dlq_Retry
begin

text \<open>
  The life of the activity processor: \<open>Start\<close>, the worker loops, the health probes and \<open>Stop\<close> of
  internal/activityprocessor/processor.go, and the loops of internal/processor/event.go. Answers of
  Kubernetes, NATS and the prometheus registry are parameters, named by the call they answer. A
  goroutine of the wait group is an entry of \<open>psRoutines\<close>; what \<open>Stop\<close> waits for is computed from
  them. Logs and metrics are left out.
\<close>

section \<open>Configuration\<close>

record ProcessorConfig =
  pcInput :: Endpoint
  pcNATSStreamName :: string
  pcConsumerName :: string
  pcNATSEventStream :: string
  pcNATSEventConsumer :: string
  pcOutputStreamName :: string
  pcOutputSubjectPrefix :: string
  pcOutput :: Endpoint
  pcDLQEnabled :: bool
  pcDLQStreamName :: string
  pcDLQSubjectPrefix :: string
  pcDLQRetryEnabled :: bool
  pcDLQRetryInterval :: int
  pcDLQRetryBatchSize :: int
  pcDLQRetryBackoffBase :: int
  pcDLQRetryBackoffMultiplier :: rat
  pcDLQRetryBackoffMax :: int
  pcDLQRetryAlertThreshold :: int
  pcDLQRetryAuditSubject :: string
  pcDLQRetryEventSubject :: string
  pcWorkers :: nat
  pcBatchSize :: int
  pcAckWait :: int
  pcMaxDeliver :: int
  pcHealthProbeAddr :: string

definition noTLS :: TLSFiles where
  "noTLS = \<lparr>tlsEnabled = False, tlsCertFile = '''', tlsKeyFile = '''', tlsCAFile = ''''\<rparr>"

definition DefaultConfig :: ProcessorConfig where
  "DefaultConfig =
     \<lparr>pcInput = \<lparr>epURL = ''nats://localhost:4222'', epTLS = noTLS\<rparr>,
      pcNATSStreamName = ''AUDIT_EVENTS'', pcConsumerName = ''activity-processor@activity.miloapis.com'',
      pcNATSEventStream = ''EVENTS'', pcNATSEventConsumer = ''activity-event-processor'',
      pcOutputStreamName = ''ACTIVITIES'', pcOutputSubjectPrefix = ''activities'', pcOutput = \<lparr>epURL = '''', epTLS = noTLS\<rparr>,
      pcDLQEnabled = True, pcDLQStreamName = ''ACTIVITY_DEAD_LETTER'', pcDLQSubjectPrefix = ''activity.dlq'',
      pcDLQRetryEnabled = True, pcDLQRetryInterval = 5 * minute, pcDLQRetryBatchSize = 100, pcDLQRetryBackoffBase = 1 * minute,
      pcDLQRetryBackoffMultiplier = 2, pcDLQRetryBackoffMax = 24 * hour, pcDLQRetryAlertThreshold = 10,
      pcDLQRetryAuditSubject = '''', pcDLQRetryEventSubject = '''',
      pcWorkers = 4, pcBatchSize = 100, pcAckWait = 30 * second, pcMaxDeliver = 5, pcHealthProbeAddr = '':8081''\<rparr>"

definition auditConsumptionEnabled :: "ProcessorConfig \<Rightarrow> bool" where
  "auditConsumptionEnabled c = (pcNATSStreamName c \<noteq> '''')"

definition usesSeparateOutputBroker :: "ProcessorConfig \<Rightarrow> bool" where
  "usesSeparateOutputBroker c = EndpointIsSet (pcOutput c)"

definition outputEndpoint :: "ProcessorConfig \<Rightarrow> Endpoint" where
  "outputEndpoint c = (pcOutput c)\<lparr>epTLS := InheritFrom (epTLS (pcOutput c)) (epTLS (pcInput c))\<rparr>"

section \<open>State\<close>

text \<open>
  \<open>psNC\<close> and \<open>psOutputNC\<close> are the connections that the processor holds. \<open>psDialed\<close> is the one that
  \<open>connectOutput\<close> has in its local variable, from the dial until it is handed over or given up.
\<close>

text \<open>The goroutines that the wait group counts. The monitor of the workers is not among them.\<close>

datatype routine = HealthServer | PolicyInformers | RetryController | AuditWorker nat | EventWorkers

datatype conn = ConnOpen | ConnDraining | ConnClosed

datatype nats_option =
    RetryOnFailedConnect bool | MaxReconnects int | ReconnectWait int | ReconnectJitter int int | Handlers bool

record retry_settings =
  rtConfig :: DLQRetryConfig
  rtAuditStream :: string
  rtEventStream :: string
  rtDlqStream :: string
  rtDlqPrefix :: string

record event_settings =
  evStream :: string
  evConsumer :: string
  evFilterSubject :: string
  evPrefix :: string
  evWorkers :: nat
  evBatchSize :: int

record proc_state =
  psConfig :: ProcessorConfig
  psHealthServer :: bool
  psRoutines :: "routine list"
  psNC :: "conn option"
  psOutputNC :: "conn option"
  psDialed :: "conn option"
  psSeparate :: bool
  psDLQ :: "DLQConfig option"
  psRetry :: "retry_settings option"
  psEvents :: "event_settings option"
  psReady :: bool

definition NewProcessor :: "ProcessorConfig \<Rightarrow> proc_state" where
  "NewProcessor c =
     \<lparr>psConfig = c, psHealthServer = False, psRoutines = [], psNC = None, psOutputNC = None, psDialed = None, psSeparate = False,
      psDLQ = None, psRetry = None, psEvents = None, psReady = False\<rparr>"

text \<open>
  What the calls of \<open>Start\<close> answer: errors by the name of the call, whether the caches synced, what a
  dial and a JetStream context of a named connection give, the filter subject of a consumer, and
  streams, looked up on the output broker's context when the flag is set.
\<close>

record 'c start_env =
  seErr :: "string \<Rightarrow> string option"
  seSynced :: bool
  seTLS :: "'c tls_files_env"
  seDial :: "string \<Rightarrow> string \<times> nats_option list \<times> ('c option \<times> string option) option \<Rightarrow> string option"
  seJetStream :: "string \<Rightarrow> string option"
  seConsumer :: "string \<Rightarrow> string \<Rightarrow> string + string"
  seStream :: "bool \<Rightarrow> string \<Rightarrow> string option"
  seOracle :: nats_oracle
  seNow :: instant

section \<open>Steps of Start\<close>

text \<open>A step ends with an error or goes on.\<close>

type_synonym step_result = "string option \<times> proc_state"

definition guardCall :: "'c start_env \<Rightarrow> string \<Rightarrow> string \<Rightarrow> proc_state \<Rightarrow> step_result" where
  "guardCall env call msg s = (case seErr env call of None \<Rightarrow> (None, s) | Some e \<Rightarrow> (Some (msg @ '': '' @ e), s))"

fun runSteps :: "(proc_state \<Rightarrow> step_result) list \<Rightarrow> proc_state \<Rightarrow> step_result" where
  "runSteps [] s = (None, s)"
| "runSteps (f # fs) s = (case f s of (Some e, s') \<Rightarrow> (Some e, s') | (None, s') \<Rightarrow> runSteps fs s')"

definition go :: "routine \<Rightarrow> proc_state \<Rightarrow> proc_state" where
  "go r s = s\<lparr>psRoutines := psRoutines s @ [r]\<rparr>"

definition startHealthServer :: "proc_state \<Rightarrow> step_result" where
  "startHealthServer s = (None, if pcHealthProbeAddr (psConfig s) \<noteq> '''' then go HealthServer (s\<lparr>psHealthServer := True\<rparr>) else s)"

text \<open>Metrics, the probe server, discovery, the cache with its handlers, and the clients for emitted events.\<close>

definition kubernetesSteps :: "'c start_env \<Rightarrow> (proc_state \<Rightarrow> step_result) list" where
  "kubernetesSteps env =
     [guardCall env ''registerMetrics'' ''failed to register processor metrics'',
      guardCall env ''registerPolicyCache'' ''failed to register policy ownership metrics'',
      startHealthServer,
      guardCall env ''discovery'' ''failed to create discovery client'',
      guardCall env ''newCache'' ''failed to create cache'',
      guardCall env ''informer'' ''failed to get informer for ActivityPolicy'',
      guardCall env ''handler'' ''failed to add event handler'',
      (\<lambda>s. (None, go PolicyInformers s)),
      (\<lambda>s. if seSynced env then (None, s) else (Some ''failed to sync cache'', s)),
      guardCall env ''newClient'' ''failed to create kubernetes client'',
      guardCall env ''newClientset'' ''failed to create kubernetes clientset'']"

definition inputOptions :: "nats_option list" where
  "inputOptions = [RetryOnFailedConnect True, MaxReconnects (- 1), ReconnectWait second, ReconnectJitter (100 * 1000000) second, Handlers True]"

definition outputOptions :: "nats_option list" where
  "outputOptions = [RetryOnFailedConnect True, MaxReconnects (- 1), ReconnectWait second, ReconnectJitter (100 * 1000000) second, Handlers False]"

definition EndpointConnect :: "'c start_env \<Rightarrow> Endpoint \<Rightarrow> string \<Rightarrow> nats_option list \<Rightarrow> string option" where
  "EndpointConnect env e name opts =
     (case endpointOptions (seTLS env) e name opts of
        Inl err \<Rightarrow> Some err
      | Inr connOpts \<Rightarrow> seDial env (epURL e) connOpts)"

text \<open>\<open>closeNATS\<close>: whichever connections have been established.\<close>

definition closeNATS :: "proc_state \<Rightarrow> proc_state" where
  "closeNATS s = s\<lparr>psOutputNC := map_option (\<lambda>_. ConnClosed) (psOutputNC s), psNC := map_option (\<lambda>_. ConnClosed) (psNC s)\<rparr>"

definition connectInput :: "'c start_env \<Rightarrow> proc_state \<Rightarrow> step_result" where
  "connectInput env s =
     (case EndpointConnect env (pcInput (psConfig s)) ''activity-processor'' inputOptions of
        Some e \<Rightarrow> (Some (''failed to connect to NATS: '' @ e), s)
      | None \<Rightarrow>
          (let s1 = s\<lparr>psNC := Some ConnOpen\<rparr>
           in case seJetStream env ''activity-processor'' of
                Some e \<Rightarrow> (Some (''failed to create JetStream context: '' @ e), closeNATS s1)
              | None \<Rightarrow> (None, s1)))"

definition connectOutput :: "'c start_env \<Rightarrow> proc_state \<Rightarrow> step_result" where
  "connectOutput env s =
     (case EndpointConnect env (outputEndpoint (psConfig s)) ''activity-processor-output'' outputOptions of
        Some e \<Rightarrow> (Some (''failed to connect to output NATS: '' @ e), s)
      | None \<Rightarrow>
          (let s1 = s\<lparr>psDialed := Some ConnOpen\<rparr>
           in case seJetStream env ''activity-processor-output'' of
                Some e \<Rightarrow> (Some (''failed to create output JetStream context: '' @ e), s1\<lparr>psDialed := Some ConnClosed\<rparr>)
              | None \<Rightarrow> (None, s1\<lparr>psOutputNC := psDialed s1, psDialed := None, psSeparate := True\<rparr>)))"

definition connectSecond :: "'c start_env \<Rightarrow> proc_state \<Rightarrow> step_result" where
  "connectSecond env s =
     (if usesSeparateOutputBroker (psConfig s)
      then (case connectOutput env s of (Some e, s') \<Rightarrow> (Some e, closeNATS s') | (None, s') \<Rightarrow> (None, s'))
      else (None, s))"

definition checkConsumer :: "'c start_env \<Rightarrow> proc_state \<Rightarrow> step_result" where
  "checkConsumer env s =
     (let c = psConfig s
      in if auditConsumptionEnabled c
         then (case seConsumer env (pcNATSStreamName c) (pcConsumerName c) of
                 Inl e \<Rightarrow> (Some (''consumer '' @ quoteQ (pcConsumerName c) @ '' not found on stream '' @ quoteQ (pcNATSStreamName c)
                   @ '' (ensure NATS JetStream resources are deployed): '' @ e), closeNATS s)
               | Inr _ \<Rightarrow> (None, s))
         else (None, s))"

definition checkOutputStream :: "'c start_env \<Rightarrow> proc_state \<Rightarrow> step_result" where
  "checkOutputStream env s =
     (case seStream env (psSeparate s) (pcOutputStreamName (psConfig s)) of
        Some e \<Rightarrow> (Some (''output stream '' @ quoteQ (pcOutputStreamName (psConfig s))
          @ '' not found (ensure NATS JetStream resources are deployed): '' @ e), closeNATS s)
      | None \<Rightarrow> (None, s))"

text \<open>The dead-letter publisher, and its retry controller when both live on the input broker.\<close>

definition startDeadLetters :: "'c start_env \<Rightarrow> proc_state \<Rightarrow> step_result" where
  "startDeadLetters env s =
     (let c = psConfig s;
          dlq = fst (initDLQPublisher (seOracle env) (\<lambda>stream. seStream env (psSeparate s) stream = None)
            \<lparr>dlqEnabled = pcDLQEnabled c, dlqStreamName = pcDLQStreamName c, dlqSubjectPrefix = pcDLQSubjectPrefix c\<rparr> (seNow env));
          s1 = s\<lparr>psDLQ := Some dlq\<rparr>
      in (None,
          if pcDLQRetryEnabled c \<and> dlqEnabled dlq \<and> \<not> usesSeparateOutputBroker c
          then go RetryController (s1\<lparr>psRetry := Some
            \<lparr>rtConfig = \<lparr>rcEnabled = pcDLQRetryEnabled c, rcInterval = pcDLQRetryInterval c, rcBatchSize = pcDLQRetryBatchSize c,
               rcBackoffBase = pcDLQRetryBackoffBase c, rcBackoffMultiplier = pcDLQRetryBackoffMultiplier c,
               rcBackoffMax = pcDLQRetryBackoffMax c, rcAlertThreshold = pcDLQRetryAlertThreshold c,
               rcAuditRetrySubject = pcDLQRetryAuditSubject c, rcEventRetrySubject = pcDLQRetryEventSubject c\<rparr>,
             rtAuditStream = pcNATSStreamName c, rtEventStream = pcNATSEventStream c,
             rtDlqStream = dlqStreamName dlq, rtDlqPrefix = dlqSubjectPrefix dlq\<rparr>\<rparr>)
          else s1))"

definition startWorkers :: "proc_state \<Rightarrow> step_result" where
  "startWorkers s =
     (None, if auditConsumptionEnabled (psConfig s) then foldl (\<lambda>s' i. go (AuditWorker i) s') s [0 ..< pcWorkers (psConfig s)] else s)"

text \<open>The event consumer is looked up on the input broker; without it events are not processed.\<close>

definition startEvents :: "'c start_env \<Rightarrow> proc_state \<Rightarrow> step_result" where
  "startEvents env s =
     (let c = psConfig s
      in (None, case seConsumer env (pcNATSEventStream c) (pcNATSEventConsumer c) of
                  Inl _ \<Rightarrow> s
                | Inr subject \<Rightarrow> go EventWorkers (s\<lparr>psEvents := Some
                    \<lparr>evStream = pcNATSEventStream c, evConsumer = pcNATSEventConsumer c, evFilterSubject = subject,
                     evPrefix = pcOutputSubjectPrefix c, evWorkers = pcWorkers c, evBatchSize = pcBatchSize c\<rparr>\<rparr>)))"

definition setReady :: "bool \<Rightarrow> proc_state \<Rightarrow> proc_state" where
  "setReady b s = s\<lparr>psReady := b\<rparr>"

definition natsSteps :: "'c start_env \<Rightarrow> (proc_state \<Rightarrow> step_result) list" where
  "natsSteps env =
     [connectInput env, connectSecond env, checkConsumer env, checkOutputStream env, startDeadLetters env, startWorkers, startEvents env,
      (\<lambda>s. (None, setReady True s))]"

definition StartProcessor :: "'c start_env \<Rightarrow> proc_state \<Rightarrow> step_result" where
  "StartProcessor env s = runSteps (kubernetesSteps env @ natsSteps env) s"


section \<open>Worker loops\<close>

text \<open>
  One turn of the loop of an audit worker or of an event worker: the look at the context, then the
  answer of \<open>Fetch\<close>, an error (a timeout or another one) or messages. A run is what its turns did.
\<close>

datatype fetch_answer = FetchFailed string | Fetched "json_text list"

fun workerTurns ::
  "(json_text \<Rightarrow> world \<Rightarrow> string option \<times> world) \<Rightarrow> (bool \<times> fetch_answer) list \<Rightarrow> world \<Rightarrow> disposition list \<times> world" where
  "workerTurns proc [] w = ([], w)"
| "workerTurns proc ((ctxDone, answer) # turns) w =
     (if ctxDone then ([], w)
      else (case answer of
              FetchFailed _ \<Rightarrow> workerTurns proc turns w
            | Fetched msgs \<Rightarrow>
                (let (ds, w1) = workerBatch proc msgs w; (ds', w2) = workerTurns proc turns w1 in (ds @ ds', w2))))"

text \<open>The audit worker, with the error it reports to the monitor; the event worker logs the same error.\<close>

definition auditWorker ::
  "nat \<Rightarrow> string option \<Rightarrow> (json_text \<Rightarrow> world \<Rightarrow> string option \<times> world) \<Rightarrow> (bool \<times> fetch_answer) list \<Rightarrow> world \<Rightarrow>
   string option \<times> disposition list \<times> world" where
  "auditWorker i subscribe proc turns w =
     (case subscribe of
        Some e \<Rightarrow> (Some (''worker '' @ fmtInt (int i) @ '': failed to create subscription: '' @ e), [], w)
      | None \<Rightarrow> (None, workerTurns proc turns w))"

definition eventWorker ::
  "string option \<Rightarrow> (json_text \<Rightarrow> world \<Rightarrow> string option \<times> world) \<Rightarrow> (bool \<times> fetch_answer) list \<Rightarrow> world \<Rightarrow> disposition list \<times> world" where
  "eventWorker subscribe proc turns w = (case subscribe of Some _ \<Rightarrow> ([], w) | None \<Rightarrow> workerTurns proc turns w)"

fun deliveredIn :: "(bool \<times> fetch_answer) list \<Rightarrow> json_text list" where
  "deliveredIn [] = []"
| "deliveredIn ((ctxDone, answer) # turns) =
     (if ctxDone then [] else (case answer of FetchFailed _ \<Rightarrow> [] | Fetched msgs \<Rightarrow> msgs) @ deliveredIn turns)"

lemma workerBatch_append:
  "workerBatch proc (ms @ ms') w =
     (let (ds, w1) = workerBatch proc ms w; (ds', w2) = workerBatch proc ms' w1 in (ds @ ds', w2))"
  by (induction ms arbitrary: w) (auto simp: Let_def split: prod.splits)

text \<open>Failed fetches and batch borders change nothing: the loop is one batch of all messages before the end of the context.\<close>

lemma workerTurns_batch: "workerTurns proc turns w = workerBatch proc (deliveredIn turns) w"
  by (induction proc turns w rule: workerTurns.induct) (auto simp: workerBatch_append split: fetch_answer.splits prod.splits)

section \<open>Probes\<close>

text \<open>\<open>None\<close> is a passed check; the handler of a probe answers 200 when all its checks pass.\<close>

definition natsHealthChecker :: "bool \<Rightarrow> bool \<Rightarrow> proc_state \<Rightarrow> string option" where
  "natsHealthChecker inputConnected outputConnected s =
     (if psNC s = None then Some ''NATS connection not initialized''
      else if \<not> inputConnected then Some ''NATS connection is disconnected''
      else if psOutputNC s \<noteq> None \<and> \<not> outputConnected then Some ''output NATS connection is disconnected'' else None)"

definition cacheSyncedChecker :: "proc_state \<Rightarrow> string option" where
  "cacheSyncedChecker s = (if \<not> psReady s then Some ''cache not synced'' else None)"

definition policiesReadyChecker :: "'q option \<Rightarrow> string option" where
  "policiesReadyChecker policyCache = (if policyCache = None then Some ''policy cache not initialized'' else None)"

definition healthzChecks :: "bool \<Rightarrow> bool \<Rightarrow> proc_state \<Rightarrow> (string \<times> string option) list" where
  "healthzChecks i o' s = [(''ping'', None), (''nats'', natsHealthChecker i o' s)]"

definition readyzChecks :: "bool \<Rightarrow> bool \<Rightarrow> 'q option \<Rightarrow> proc_state \<Rightarrow> (string \<times> string option) list" where
  "readyzChecks i o' policyCache s =
     [(''ping'', None), (''nats'', natsHealthChecker i o' s), (''cache-synced'', cacheSyncedChecker s),
      (''policies-ready'', policiesReadyChecker policyCache)]"

definition probePasses :: "(string \<times> string option) list \<Rightarrow> bool" where
  "probePasses checks = list_all (\<lambda>(_, e). e = None) checks"

section \<open>Stop\<close>

datatype drain_reply = DrainStarted | DrainFailed string | DrainTimedOut

text \<open>
  The circumstances: whether the context given to \<open>Start\<close> is cancelled, the goroutines that ended by
  themselves (the probe server when it cannot listen, a worker without a subscription), and what
  draining the input connection (\<open>False\<close>) and the output connection (\<open>True\<close>) gives.
\<close>

record stop_env =
  spCtxDone :: bool
  spEnded :: "routine \<Rightarrow> bool"
  spDrain :: "bool \<Rightarrow> drain_reply"

datatype stop_effect = ProbeShutdown | Draining bool | ForcedClose bool

text \<open>\<open>ListenAndServe\<close> returns when the server is shut down or fails, not when a context ends.\<close>

definition routineEnds :: "stop_env \<Rightarrow> routine \<Rightarrow> bool" where
  "routineEnds env r = (spEnded env r \<or> (r \<noteq> HealthServer \<and> spCtxDone env))"

definition drainConn :: "stop_env \<Rightarrow> bool \<Rightarrow> conn option \<Rightarrow> stop_effect list \<times> conn option" where
  "drainConn env output nc =
     (if nc = None \<or> nc = Some ConnClosed then ([], nc)
      else (case spDrain env output of
              DrainStarted \<Rightarrow> ([Draining output], Some ConnDraining)
            | DrainFailed _ \<Rightarrow> ([Draining output, ForcedClose output], Some ConnClosed)
            | DrainTimedOut \<Rightarrow> ([Draining output, ForcedClose output], Some ConnClosed)))"

text \<open>\<open>None\<close>: the wait for the goroutines never ends.\<close>

definition StopProcessor :: "stop_env \<Rightarrow> proc_state \<Rightarrow> (stop_effect list \<times> proc_state) option" where
  "StopProcessor env s =
     (let s1 = setReady False s
      in if \<not> list_all (routineEnds env) (psRoutines s1) then None
         else (let (e1, nc) = drainConn env False (psNC s1); (e2, outNC) = drainConn env True (psOutputNC s1)
               in Some ((if psHealthServer s1 then [ProbeShutdown] else []) @ e1 @ e2, s1\<lparr>psNC := nc, psOutputNC := outNC\<rparr>)))"

section \<open>Start is all or nothing\<close>

lemma runSteps_append:
  "runSteps (fs @ gs) s = (case runSteps fs s of (Some e, s') \<Rightarrow> (Some e, s') | (None, s') \<Rightarrow> runSteps gs s')"
  by (induction fs arbitrary: s) (auto split: option.splits prod.splits)

lemma runSteps_Cons:
  "runSteps (f # fs) s = (r, t) \<longleftrightarrow>
     (\<exists>e. f s = (Some e, t) \<and> r = Some e) \<or> (\<exists>s'. f s = (None, s') \<and> runSteps fs s' = (r, t))"
  by (auto split: option.splits prod.splits)

definition probeRoutines :: "ProcessorConfig \<Rightarrow> routine list" where
  "probeRoutines c = (if pcHealthProbeAddr c \<noteq> '''' then [HealthServer] else [])"

definition workerRoutines :: "ProcessorConfig \<Rightarrow> routine list" where
  "workerRoutines c = (if auditConsumptionEnabled c then map AuditWorker [0 ..< pcWorkers c] else [])"

lemma runSteps_inv:
  assumes "\<And>f x q y. f \<in> set fs \<Longrightarrow> P x \<Longrightarrow> f x = (q, y) \<Longrightarrow> P y" and "P s" and "runSteps fs s = (r, t)"
  shows "P t"
  using assms
proof (induction fs arbitrary: s)
  case (Cons f fs)
  have step: "P y" if "P x" "f x = (q, y)" for x q y using that Cons.prems(1) by (metis list.set_intros(1))
  have rest: "P y" if "g \<in> set fs" "P x" "g x = (q, y)" for g x q y using that Cons.prems(1) by (metis list.set_intros(2))
  from Cons.prems(3) consider e where "f s = (Some e, t)" | s' where "f s = (None, s')" "runSteps fs s' = (r, t)"
    unfolding runSteps_Cons by blast
  then show ?case
  proof cases
    case 1
    then show ?thesis using step Cons.prems(2) by blast
  next
    case 2
    from step [OF Cons.prems(2) 2(1)] have "P s'" .
    from Cons.IH [OF _ this 2(2)] rest show ?thesis by blast
  qed
qed simp

lemma guardCall_same: "guardCall env call msg s = (r, t) \<Longrightarrow> t = s"
  by (auto simp: guardCall_def split: option.splits)

text \<open>After the first half: no broker, no worker, and on success the probe server and the informers.\<close>

definition withoutBrokers :: "ProcessorConfig \<Rightarrow> proc_state \<Rightarrow> bool" where
  "withoutBrokers c s = (psConfig s = c \<and> psNC s = None \<and> psOutputNC s = None \<and> psDialed s = None \<and> \<not> psSeparate s \<and> psRetry s = None \<and> psEvents s = None \<and>
     \<not> psReady s \<and> set (psRoutines s) \<subseteq> {HealthServer, PolicyInformers})"

lemma kubernetes_invariant:
  assumes "runSteps (kubernetesSteps env) (NewProcessor c) = (r, s)"
  shows "withoutBrokers c s"
proof (rule runSteps_inv [OF _ _ assms])
  fix f x q y assume f: "f \<in> set (kubernetesSteps env)" and x: "withoutBrokers c x" and y: "f x = (q, y)"
  have "y = x \<or> y = snd (startHealthServer x) \<or> y = go PolicyInformers x"
    using f y by (auto simp: kubernetesSteps_def dest: guardCall_same split: if_splits)
  then show "withoutBrokers c y" using x by (auto simp: withoutBrokers_def startHealthServer_def go_def split: if_splits)
qed (simp add: withoutBrokers_def NewProcessor_def)

lemma kubernetes_success:
  assumes "runSteps (kubernetesSteps env) (NewProcessor c) = (None, s)"
  shows "psRoutines s = probeRoutines c @ [PolicyInformers] \<and> psHealthServer s = (pcHealthProbeAddr c \<noteq> [])"
proof -
  have "s = go PolicyInformers (snd (startHealthServer (NewProcessor c)))"
    using assms unfolding kubernetesSteps_def runSteps_Cons
    by (auto dest!: guardCall_same simp: startHealthServer_def split: if_splits)
  then show ?thesis by (simp add: go_def startHealthServer_def NewProcessor_def probeRoutines_def)
qed

lemma goWorkers: "foldl (\<lambda>s' i. go (AuditWorker i) s') s ns = s\<lparr>psRoutines := psRoutines s @ map AuditWorker ns\<rparr>"
  by (induction ns arbitrary: s) (simp_all add: go_def)

lemma step_success:
  "connectInput env s = (None, t) \<Longrightarrow> t = s\<lparr>psNC := Some ConnOpen\<rparr>"
  "connectSecond env s = (None, t) \<Longrightarrow>
     t = (if usesSeparateOutputBroker (psConfig s) then s\<lparr>psOutputNC := Some ConnOpen, psDialed := None, psSeparate := True\<rparr> else s)"
  "checkConsumer env s = (None, t) \<Longrightarrow> t = s"
  "checkOutputStream env s = (None, t) \<Longrightarrow> t = s"
  by (auto simp: connectInput_def connectSecond_def connectOutput_def checkConsumer_def checkOutputStream_def Let_def
    split: option.splits if_splits sum.splits)

text \<open>A failed step leaves no connection open, and starts nothing.\<close>

definition brokersClosed :: "proc_state \<Rightarrow> bool" where
  "brokersClosed s = (psNC s \<noteq> Some ConnOpen \<and> psOutputNC s \<noteq> Some ConnOpen \<and> psDialed s \<noteq> Some ConnOpen)"

lemma brokersClosed_closeNATS: "brokersClosed (closeNATS s) \<longleftrightarrow> psDialed s \<noteq> Some ConnOpen"
  by (auto simp: brokersClosed_def closeNATS_def)

lemma closeNATS_keeps: "psReady (closeNATS s) = psReady s" "psRoutines (closeNATS s) = psRoutines s"
  by (simp_all add: closeNATS_def)

lemma step_failure:
  assumes "psDialed s \<noteq> Some ConnOpen"
  shows "connectInput env s = (Some e, t) \<Longrightarrow> psNC s = None \<Longrightarrow> psOutputNC s = None \<Longrightarrow> brokersClosed t \<and> psReady t = psReady s \<and> psRoutines t = psRoutines s"
    and "connectSecond env s = (Some e, t) \<Longrightarrow> brokersClosed t \<and> psReady t = psReady s \<and> psRoutines t = psRoutines s"
    and "checkConsumer env s = (Some e, t) \<Longrightarrow> brokersClosed t \<and> psReady t = psReady s \<and> psRoutines t = psRoutines s"
    and "checkOutputStream env s = (Some e, t) \<Longrightarrow> brokersClosed t \<and> psReady t = psReady s \<and> psRoutines t = psRoutines s"
proof -
  show "connectInput env s = (Some e, t) \<Longrightarrow> psNC s = None \<Longrightarrow> psOutputNC s = None \<Longrightarrow> brokersClosed t \<and> psReady t = psReady s \<and> psRoutines t = psRoutines s"
    using assms by (auto simp: connectInput_def Let_def brokersClosed_closeNATS closeNATS_keeps split: option.splits) (simp add: brokersClosed_def)
  show "connectSecond env s = (Some e, t) \<Longrightarrow> brokersClosed t \<and> psReady t = psReady s \<and> psRoutines t = psRoutines s"
    using assms by (auto simp: connectSecond_def connectOutput_def Let_def brokersClosed_closeNATS closeNATS_keeps split: option.splits if_splits)
qed (use assms in \<open>auto simp: checkConsumer_def checkOutputStream_def Let_def brokersClosed_closeNATS closeNATS_keeps
    split: option.splits sum.splits if_splits\<close>)

lemma later_steps:
  "fst (startDeadLetters env s) = None" "fst (startWorkers s) = None" "fst (startEvents env s) = None"
  by (simp_all add: startDeadLetters_def startWorkers_def startEvents_def Let_def)

text \<open>The second half, from a state without connections.\<close>

lemma nats_failure:
  assumes "runSteps (natsSteps env) s0 = (Some e, s)" "psNC s0 = None" "psOutputNC s0 = None" "psDialed s0 = None"
  shows "brokersClosed s \<and> psReady s = psReady s0 \<and> psRoutines s = psRoutines s0"
proof -
  have no: "startDeadLetters env x \<noteq> (Some e', y)" "startWorkers x \<noteq> (Some e', y)" "startEvents env x \<noteq> (Some e', y)" for x y e'
    using later_steps(1) [of env x] later_steps(2) [of x] later_steps(3) [of env x] by auto
  from assms(1) consider
      "connectInput env s0 = (Some e, s)"
    | s1 where "connectInput env s0 = (None, s1)" "connectSecond env s1 = (Some e, s)"
    | s1 s2 where "connectInput env s0 = (None, s1)" "connectSecond env s1 = (None, s2)" "checkConsumer env s2 = (Some e, s)"
    | s1 s2 s3 where "connectInput env s0 = (None, s1)" "connectSecond env s1 = (None, s2)" "checkConsumer env s2 = (None, s3)"
        "checkOutputStream env s3 = (Some e, s)"
    unfolding natsSteps_def runSteps_Cons by (auto simp: no)
  then show ?thesis
    by cases (use assms(2-4) in \<open>auto dest!: step_success dest: step_failure [rotated] split: if_splits\<close>)
qed

lemma deadLetters_parts:
  assumes "psRetry s = None"
  shows "psRetry (snd (startDeadLetters env s)) \<noteq> None \<longleftrightarrow> pcDLQRetryEnabled (psConfig s) \<and> pcDLQEnabled (psConfig s)
       \<and> \<not> usesSeparateOutputBroker (psConfig s) \<and> seStream env (psSeparate s) (pcDLQStreamName (psConfig s)) = None"
    "psRoutines (snd (startDeadLetters env s)) = psRoutines s @ (if psRetry (snd (startDeadLetters env s)) = None then [] else [RetryController])"
  using assms by (auto simp: startDeadLetters_def initDLQPublisher_def go_def Let_def)

lemma deadLetters_keep:
  "psConfig (snd (startDeadLetters env s)) = psConfig s" "psHealthServer (snd (startDeadLetters env s)) = psHealthServer s"
  "psNC (snd (startDeadLetters env s)) = psNC s" "psOutputNC (snd (startDeadLetters env s)) = psOutputNC s"
  "psEvents (snd (startDeadLetters env s)) = psEvents s"
  by (simp_all add: startDeadLetters_def go_def Let_def)

lemma workers_parts:
  "snd (startWorkers s) = s\<lparr>psRoutines := psRoutines s @ workerRoutines (psConfig s)\<rparr>"
  by (simp add: startWorkers_def workerRoutines_def goWorkers)

lemma events_parts:
  assumes "psEvents s = None"
  shows "psEvents (snd (startEvents env s)) \<noteq> None
      \<longleftrightarrow> (\<exists>subject. seConsumer env (pcNATSEventStream (psConfig s)) (pcNATSEventConsumer (psConfig s)) = Inr subject)"
    "psRoutines (snd (startEvents env s)) = psRoutines s @ (if psEvents (snd (startEvents env s)) = None then [] else [EventWorkers])"
  using assms by (auto simp: startEvents_def go_def Let_def split: sum.splits)

lemma events_keep:
  "psHealthServer (snd (startEvents env s)) = psHealthServer s" "psNC (snd (startEvents env s)) = psNC s"
  "psOutputNC (snd (startEvents env s)) = psOutputNC s" "psRetry (snd (startEvents env s)) = psRetry s"
  by (simp_all add: startEvents_def go_def Let_def split: sum.split)

lemma nats_success:
  assumes "runSteps (natsSteps env) s0 = (None, s)" "psNC s0 = None" "psOutputNC s0 = None" "psDialed s0 = None" "\<not> psSeparate s0" "psRetry s0 = None" "psEvents s0 = None"
    and c: "psConfig s0 = c"
  shows "psReady s \<and> psHealthServer s = psHealthServer s0 \<and> psNC s = Some ConnOpen
    \<and> psOutputNC s = (if usesSeparateOutputBroker c then Some ConnOpen else None)
    \<and> (psRetry s \<noteq> None \<longleftrightarrow> pcDLQRetryEnabled c \<and> pcDLQEnabled c \<and> \<not> usesSeparateOutputBroker c \<and> seStream env False (pcDLQStreamName c) = None)
    \<and> (psEvents s \<noteq> None \<longleftrightarrow> (\<exists>subject. seConsumer env (pcNATSEventStream c) (pcNATSEventConsumer c) = Inr subject))
    \<and> psRoutines s = psRoutines s0 @ (if psRetry s = None then [] else [RetryController]) @ workerRoutines c
       @ (if psEvents s = None then [] else [EventWorkers])"
proof -
  define s1 where "s1 = (if usesSeparateOutputBroker c then s0\<lparr>psNC := Some ConnOpen, psOutputNC := Some ConnOpen, psDialed := None, psSeparate := True\<rparr> else s0\<lparr>psNC := Some ConnOpen\<rparr>)"
  have "runSteps [startDeadLetters env, startWorkers, startEvents env, (\<lambda>s. (None, setReady True s))] s1 = (None, s)"
    using assms(1) unfolding natsSteps_def s1_def
    by (simp only: runSteps_Cons) (auto dest!: step_success simp: c split: if_splits)
  then have s: "s = setReady True (snd (startEvents env (snd (startWorkers (snd (startDeadLetters env s1))))))"
    by (simp add: startDeadLetters_def startWorkers_def startEvents_def Let_def)
  have parts: "psConfig s1 = c" "psSeparate s1 = usesSeparateOutputBroker c" "psRetry s1 = None" "psEvents s1 = None" "psNC s1 = Some ConnOpen"
    "psRoutines s1 = psRoutines s0" "psHealthServer s1 = psHealthServer s0"
    "psOutputNC s1 = (if usesSeparateOutputBroker c then Some ConnOpen else None)"
    using assms by (simp_all add: s1_def)
  show ?thesis
    unfolding s setReady_def
    using parts deadLetters_parts [of s1 env] events_parts [of "snd (startWorkers (snd (startDeadLetters env s1)))" env]
    by (cases "usesSeparateOutputBroker c") (simp_all add: workers_parts deadLetters_keep events_keep)
qed

lemma start_succeeds:
  assumes "StartProcessor env (NewProcessor c) = (None, s)"
  shows "psReady s \<and> psHealthServer s = (pcHealthProbeAddr c \<noteq> '''') \<and> psNC s = Some ConnOpen
    \<and> psOutputNC s = (if usesSeparateOutputBroker c then Some ConnOpen else None)
    \<and> (psRetry s \<noteq> None \<longleftrightarrow> pcDLQRetryEnabled c \<and> pcDLQEnabled c \<and> \<not> usesSeparateOutputBroker c \<and> seStream env False (pcDLQStreamName c) = None)
    \<and> (psEvents s \<noteq> None \<longleftrightarrow> (\<exists>subject. seConsumer env (pcNATSEventStream c) (pcNATSEventConsumer c) = Inr subject))
    \<and> psRoutines s = probeRoutines c @ [PolicyInformers] @ (if psRetry s = None then [] else [RetryController]) @ workerRoutines c
        @ (if psEvents s = None then [] else [EventWorkers])"
proof -
  obtain r0 s0 where k: "runSteps (kubernetesSteps env) (NewProcessor c) = (r0, s0)" by fastforce
  have r0: "r0 = None" using assms k by (cases r0) (simp_all add: StartProcessor_def runSteps_append)
  have n: "runSteps (natsSteps env) s0 = (None, s)" using assms k r0 by (simp add: StartProcessor_def runSteps_append)
  show ?thesis
    using nats_success [of env s0 s c] n kubernetes_invariant [OF k, unfolded withoutBrokers_def] kubernetes_success [OF k [unfolded r0]] by simp
qed

lemma start_fails:
  assumes "StartProcessor env (NewProcessor c) = (Some e, s)"
  shows "\<not> psReady s \<and> brokersClosed s \<and> set (psRoutines s) \<subseteq> {HealthServer, PolicyInformers}"
proof -
  obtain r0 s0 where k: "runSteps (kubernetesSteps env) (NewProcessor c) = (r0, s0)" by fastforce
  note inv = kubernetes_invariant [OF k, unfolded withoutBrokers_def]
  show ?thesis
  proof (cases r0)
    case None
    then have "runSteps (natsSteps env) s0 = (Some e, s)" using assms k by (simp add: StartProcessor_def runSteps_append)
    then show ?thesis using nats_failure [of env s0 e s] inv by simp
  next
    case (Some e')
    then have "s = s0" using assms k by (simp add: StartProcessor_def runSteps_append)
    then show ?thesis using inv by (simp add: brokersClosed_def)
  qed
qed

text \<open>
  C8: starting is all or nothing: a processor that reports success is ready, connected to its broker
  and to the second one exactly if one is configured, and runs its informers, its audit workers
  unless audit consumption is off, the retry controller exactly when dead letters are stored on the
  input broker, and event workers exactly when their consumer exists. One that reports an error is
  not ready, has started no worker, and has left no connection open: neither one that it holds nor one
  that was dialled and given up before it was held.
\<close>

theorem start_all_or_nothing:
  assumes "StartProcessor env (NewProcessor c) = (r, s)"
  shows "case r of
      None \<Rightarrow> psReady s \<and> psHealthServer s = (pcHealthProbeAddr c \<noteq> '''') \<and> psNC s = Some ConnOpen
        \<and> psOutputNC s = (if usesSeparateOutputBroker c then Some ConnOpen else None)
        \<and> (psRetry s \<noteq> None \<longleftrightarrow> pcDLQRetryEnabled c \<and> pcDLQEnabled c \<and> \<not> usesSeparateOutputBroker c \<and> seStream env False (pcDLQStreamName c) = None)
        \<and> (psEvents s \<noteq> None \<longleftrightarrow> (\<exists>subject. seConsumer env (pcNATSEventStream c) (pcNATSEventConsumer c) = Inr subject))
        \<and> psRoutines s = probeRoutines c @ [PolicyInformers] @ (if psRetry s = None then [] else [RetryController]) @ workerRoutines c
            @ (if psEvents s = None then [] else [EventWorkers])
    | Some e \<Rightarrow> \<not> psReady s \<and> brokersClosed s \<and> set (psRoutines s) \<subseteq> {HealthServer, PolicyInformers}"
  using assms start_succeeds [of env c s] start_fails [of env c _ s] by (cases r) simp_all

text \<open>A deployment with its consumers and streams in place, on one broker.\<close>

definition deployed :: "unit start_env" where
  "deployed = \<lparr>seErr = (\<lambda>_. None), seSynced = True,
     seTLS = \<lparr>tfLoadPair = (\<lambda>_ _. Inr ()), tfReadCA = (\<lambda>_. Inr ''pem''), tfParseCA = (\<lambda>_. True)\<rparr>,
     seDial = (\<lambda>_ _. None), seJetStream = (\<lambda>_. None), seConsumer = (\<lambda>stream _. if stream = ''EVENTS'' then Inr ''events.>'' else Inr ''audit.k8s.>''),
     seStream = (\<lambda>_ _. None), seOracle = (\<lambda>_. Stored), seNow = 0\<rparr>"

lemma start_all_or_nothing_witness:
  "fst (StartProcessor deployed (NewProcessor DefaultConfig)) = None
   \<and> psRoutines (snd (StartProcessor deployed (NewProcessor DefaultConfig)))
      = [HealthServer, PolicyInformers, RetryController, AuditWorker 0, AuditWorker 1, AuditWorker 2, AuditWorker 3, EventWorkers]"
proof -
  let ?s = "snd (StartProcessor deployed (NewProcessor DefaultConfig))"
  have f: "fst (StartProcessor deployed (NewProcessor DefaultConfig)) = None" by code_simp
  then have s: "StartProcessor deployed (NewProcessor DefaultConfig) = (None, ?s)" by (metis prod.collapse)
  have "psEvents ?s \<noteq> None" "psRetry ?s \<noteq> None" "probeRoutines DefaultConfig = [HealthServer]"
    "workerRoutines DefaultConfig = [AuditWorker 0, AuditWorker 1, AuditWorker 2, AuditWorker 3]"
    using start_all_or_nothing [OF s]
    by (simp_all add: deployed_def DefaultConfig_def usesSeparateOutputBroker_def EndpointIsSet_def probeRoutines_def workerRoutines_def
      auditConsumptionEnabled_def upt_rec)
  then show ?thesis using start_all_or_nothing [OF s] f by simp
qed

section \<open>What Stop waits for\<close>

lemma drainConn_closes: "drainConn env out nc = (es, nc') \<Longrightarrow> nc' \<noteq> Some ConnOpen"
  by (auto simp: drainConn_def split: if_splits drain_reply.splits)

lemma stop_waits:
  assumes "StartProcessor env (NewProcessor c) = (None, s)" and "spCtxDone sp"
  shows "list_all (routineEnds sp) (psRoutines s) \<longleftrightarrow> pcHealthProbeAddr c = '''' \<or> spEnded sp HealthServer"
  using start_succeeds [OF assms(1)] assms(2) by (auto simp: routineEnds_def list_all_iff probeRoutines_def workerRoutines_def)

text \<open>
  C7: stopping a started processor after its context has ended: with a probe server that is listening,
  \<open>Stop\<close> never returns, because it waits for the goroutine of that server before it shuts the server
  down, and no connection is drained. Without one it returns, not ready, with the input connection
  and then the output connection drained or closed.
\<close>

theorem stop_waits_for_probe_server:
  assumes "StartProcessor env (NewProcessor c) = (None, s)" and "spCtxDone sp"
  shows "case StopProcessor sp s of
      None \<Rightarrow> pcHealthProbeAddr c \<noteq> '''' \<and> \<not> spEnded sp HealthServer
    | Some (effects, s') \<Rightarrow> (pcHealthProbeAddr c = '''' \<or> spEnded sp HealthServer) \<and> \<not> psReady s'
        \<and> psNC s' \<noteq> Some ConnOpen \<and> psOutputNC s' \<noteq> Some ConnOpen
        \<and> filter (\<lambda>e. case e of Draining _ \<Rightarrow> True | _ \<Rightarrow> False) effects
            = Draining False # (if usesSeparateOutputBroker c then [Draining True] else [])"
proof -
  note start = start_succeeds [OF assms(1)] and waits = stop_waits [OF assms]
  show ?thesis
  proof (cases "StopProcessor sp s")
    case None
    then show ?thesis using waits by (auto simp: StopProcessor_def setReady_def Let_def split: if_splits prod.splits)
  next
    case (Some p)
    then show ?thesis using waits start
      by (auto simp: StopProcessor_def setReady_def drainConn_def Let_def split: if_splits prod.splits drain_reply.splits)
  qed
qed


text \<open>The default configuration, stopped by a signal: \<open>Stop\<close> does not return. With the probe server off it does.\<close>

definition signalled :: stop_env where
  "signalled = \<lparr>spCtxDone = True, spEnded = (\<lambda>_. False), spDrain = (\<lambda>_. DrainStarted)\<rparr>"

lemma stop_waits_for_probe_server_witness:
  "StopProcessor signalled (snd (StartProcessor deployed (NewProcessor DefaultConfig))) = None
   \<and> StopProcessor signalled (snd (StartProcessor deployed (NewProcessor (DefaultConfig\<lparr>pcHealthProbeAddr := ''''\<rparr>)))) \<noteq> None"
proof -
  have run: "fst (StartProcessor deployed (NewProcessor DefaultConfig)) = None"
    "fst (StartProcessor deployed (NewProcessor (DefaultConfig\<lparr>pcHealthProbeAddr := ''''\<rparr>))) = None" by code_simp+
  have s: "StartProcessor deployed (NewProcessor d) = (None, snd (StartProcessor deployed (NewProcessor d)))"
    if "fst (StartProcessor deployed (NewProcessor d)) = None" for d using that by (metis prod.collapse)
  have d: "spCtxDone signalled" "\<not> spEnded signalled HealthServer" by (simp_all add: signalled_def)
  show ?thesis
    using stop_waits_for_probe_server [OF s [OF run(1)] d(1)] stop_waits_for_probe_server [OF s [OF run(2)] d(1)] d(2)
    by (auto simp: DefaultConfig_def split: option.splits prod.splits)
qed

end
