(* ===== verification/Exporter_Life.thy ===== *)
theory Exporter_Life
  imports Event_Exporter
begin

text \<open>
  The life of the event exporter: \<open>Run\<close> of internal/eventexporter/exporter.go, with its connection
  options and probes. A run is the list of what it did up to its return, deferred calls included, as
  a value of the answers it got; the work of the queue in between is the step relation of
  \<open>Event_Exporter\<close>. Logs, metrics and flags are left out.
\<close>

section \<open>Configuration\<close>

record ExporterConfig =
  ecNATS :: Endpoint
  ecSubjectPrefix :: string
  ecScopeType :: string
  ecScopeName :: string
  ecKubeconfig :: string
  ecResyncPeriod :: int
  ecHealthProbeAddr :: string
  ecPlaneType :: string
  ecClusterName :: string
  ecClusterRegion :: string
  ecLocationName :: string

definition publishAsyncMaxPending :: nat where "publishAsyncMaxPending = 256"
definition publishAckTimeout :: int where "publishAckTimeout = 30 * second"
definition ackDrainTimeout :: int where "ackDrainTimeout = 5 * second"

datatype exporter_option =
    XReconnectWait int | XMaxReconnects int | XDisconnectHandler | XReconnectHandler | XCustomInboxPrefix string

definition natsOptions :: "ExporterConfig \<Rightarrow> exporter_option list" where
  "natsOptions cfg =
     (let cluster = FederatedCluster (ecPlaneType cfg) (ecClusterName cfg)
      in [XReconnectWait (2 * second), XMaxReconnects (- 1), XDisconnectHandler, XReconnectHandler]
         @ (if cluster \<noteq> '''' then [XCustomInboxPrefix (EventInboxPrefix cluster)] else []))"

section \<open>Run\<close>

text \<open>
  What \<open>Run\<close> is answered: errors by the name of the call, the dial, whether the caches synced before
  the context ended, the lister of namespaces, and the clients for a kubeconfig or for the cluster.
\<close>

record ('c, 'k) run_env =
  xrErr :: "string \<Rightarrow> string option"
  xrFromFlags :: "string \<Rightarrow> string + 'k"
  xrInCluster :: "string + 'k"
  xrTLS :: "'c tls_files_env"
  xrDial :: "string \<Rightarrow> string \<times> exporter_option list \<times> ('c option \<times> string option) option \<Rightarrow> string option"
  xrSynced :: bool
  xrLister :: "string \<Rightarrow> (string \<times> string) list option"

text \<open>
  What it did, in order. The drain of the queue ends some time after the context: \<open>AwaitedDrain\<close> is
  the wait for it.
\<close>

datatype run_effect =
    ResolvingCity string | Dialled string | Draining Exporter nat | ProbesListening string | InformersStarted int
  | Synced | AwaitedDrain | ProbesShutdown | ClosedNATS

type_synonym run_outcome = "string option \<times> run_effect list"

definition buildRestConfig :: "('c, 'k) run_env \<Rightarrow> string \<Rightarrow> string + 'k" where
  "buildRestConfig env kubeconfig = (if kubeconfig \<noteq> '''' then xrFromFlags env kubeconfig else xrInCluster env)"

definition createK8sClient :: "('c, 'k) run_env \<Rightarrow> 'k \<Rightarrow> string option" where
  "createK8sClient env config = map_option (\<lambda>e. ''failed to create client: '' @ e) (xrErr env ''newForConfig'')"

definition newExporter :: "('c, 'k) run_env \<Rightarrow> ExporterConfig \<Rightarrow> Exporter" where
  "newExporter env cfg =
     \<lparr>xpSubjectPrefix = ecSubjectPrefix cfg, xpScopeType = ecScopeType cfg, xpScopeName = ecScopeName cfg,
      xpPlaneType = ecPlaneType cfg, xpClusterName = ecClusterName cfg, xpClusterRegion = ecClusterRegion cfg,
      xpScope = (if ecPlaneType cfg = planeTypeEdge then Some (xrLister env) else None),
      xpCity = (if ecPlaneType cfg = planeTypeEdge then Some '''' else None)\<rparr>"

text \<open>From the connection on: two deferred calls, the shutdown of the probes before the close of the connection.\<close>

definition runConnected :: "('c, 'k) run_env \<Rightarrow> ExporterConfig \<Rightarrow> run_outcome" where
  "runConnected env cfg =
     (case xrErr env ''jetStream'' of
        Some e \<Rightarrow> (Some (''failed to get JetStream context: '' @ e), [ClosedNATS])
      | None \<Rightarrow>
          (let started = [Draining (newExporter env cfg) publishQueueSize, ProbesListening (ecHealthProbeAddr cfg), InformersStarted (ecResyncPeriod cfg)]
           in if \<not> xrSynced env then (Some ''failed to sync informer cache'', started @ [ProbesShutdown, ClosedNATS])
              else (None, started @ [Synced, AwaitedDrain, ProbesShutdown, ClosedNATS])))"

definition connectExporter :: "('c, 'k) run_env \<Rightarrow> ExporterConfig \<Rightarrow> string option" where
  "connectExporter env cfg =
     (case endpointOptions (xrTLS env) (ecNATS cfg) ''k8s-event-exporter'' (natsOptions cfg) of
        Inl err \<Rightarrow> Some err
      | Inr opts \<Rightarrow> xrDial env (epURL (ecNATS cfg)) opts)"

definition prepended :: "run_effect list \<Rightarrow> run_outcome \<Rightarrow> run_outcome" where
  "prepended es r = (fst r, es @ snd r)"

definition RunExporter :: "('c, 'k) run_env \<Rightarrow> ExporterConfig \<Rightarrow> run_outcome" where
  "RunExporter env cfg =
     (case xrErr env ''registerMetrics'' of
        Some e \<Rightarrow> (Some (''failed to register exporter metrics: '' @ e), [])
      | None \<Rightarrow>
     (case buildRestConfig env (ecKubeconfig cfg) of
        Inl e \<Rightarrow> (Some (''failed to build Kubernetes client config: '' @ e), [])
      | Inr restConfig \<Rightarrow>
     (case createK8sClient env restConfig of
        Some e \<Rightarrow> (Some (''failed to create Kubernetes client: '' @ e), [])
      | None \<Rightarrow>
     (case (if ecPlaneType cfg = planeTypeEdge then xrErr env ''locationsClient'' else None) of
        Some e \<Rightarrow> (Some (''failed to create locations client: '' @ e), [])
      | None \<Rightarrow>
          prepended (if ecPlaneType cfg = planeTypeEdge then [ResolvingCity (ecLocationName cfg)] else [])
            (case connectExporter env cfg of
               Some e \<Rightarrow> (Some (''failed to connect to NATS: '' @ e), [])
             | None \<Rightarrow> prepended [Dialled (epURL (ecNATS cfg))] (runConnected env cfg))))))"

section \<open>Probes\<close>

definition exporterNatsChecker :: "bool option \<Rightarrow> string option" where
  "exporterNatsChecker connected =
     (case connected of
        None \<Rightarrow> Some ''NATS connection not initialized''
      | Some c \<Rightarrow> if \<not> c then Some ''NATS connection is disconnected'' else None)"

definition informerSyncedChecker :: "bool \<Rightarrow> string option" where
  "informerSyncedChecker hasSynced = (if \<not> hasSynced then Some ''informer cache not synced'' else None)"

definition exporterProbes :: "bool option \<Rightarrow> bool \<Rightarrow> (string \<times> (string \<times> string option) list) list" where
  "exporterProbes connected hasSynced =
     [(''/healthz'', [(''ping'', None), (''nats'', exporterNatsChecker connected)]),
      (''/readyz'', [(''ping'', None), (''nats'', exporterNatsChecker connected), (''informer-synced'', informerSyncedChecker hasSynced)])]"

section \<open>Shutdown\<close>

text \<open>The end of a run that reached the broker.\<close>

lemma run_closes_connection:
  assumes "RunExporter env cfg = (r, es)" and "Dialled url \<in> set es"
  shows "last es = ClosedNATS"
  using assms by (auto simp: RunExporter_def runConnected_def prepended_def Let_def split: option.splits sum.splits if_splits)

text \<open>
  The exporter returns without an error only after its queue is drained: it has waited for the
  drain, then shut the probes down, then closed the connection. But a run whose context ends while
  the caches still sync closes the connection without that wait, although its queue is being
  published: publishing starts before the informers do.
\<close>

theorem exporter_drains_before_close:
  assumes "RunExporter env cfg = (r, es)"
  shows "(r = None \<longrightarrow> (\<exists>before. es = before @ [AwaitedDrain, ProbesShutdown, ClosedNATS] \<and> Draining (newExporter env cfg) publishQueueSize \<in> set before))
    \<and> (r = Some ''failed to sync informer cache'' \<longrightarrow> Draining (newExporter env cfg) publishQueueSize \<in> set es \<longrightarrow>
        AwaitedDrain \<notin> set es \<and> last es = ClosedNATS)"
  using assms by (auto simp: RunExporter_def runConnected_def prepended_def Let_def split: option.splits sum.splits if_splits)

text \<open>An edge deployment that is stopped during its first listing.\<close>

definition edgeConfig :: ExporterConfig where
  "edgeConfig = \<lparr>ecNATS = \<lparr>epURL = ''nats://hub'', epTLS = \<lparr>tlsEnabled = False, tlsCertFile = '''', tlsKeyFile = '''', tlsCAFile = ''''\<rparr>\<rparr>,
     ecSubjectPrefix = ''activity.federated'', ecScopeType = '''', ecScopeName = '''', ecKubeconfig = '''', ecResyncPeriod = 0,
     ecHealthProbeAddr = '':8081'', ecPlaneType = ''edge'', ecClusterName = ''us-1'', ecClusterRegion = ''us'', ecLocationName = ''dfw''\<rparr>"

definition edgeAnswers :: "bool \<Rightarrow> (unit, unit) run_env" where
  "edgeAnswers synced = \<lparr>xrErr = (\<lambda>_. None), xrFromFlags = (\<lambda>_. Inr ()), xrInCluster = Inr (),
     xrTLS = \<lparr>tfLoadPair = (\<lambda>_ _. Inr ()), tfReadCA = (\<lambda>_. Inr ''pem''), tfParseCA = (\<lambda>_. True)\<rparr>,
     xrDial = (\<lambda>_ _. None), xrSynced = synced, xrLister = (\<lambda>_. None)\<rparr>"

lemma exporter_drains_before_close_witness:
  "fst (RunExporter (edgeAnswers True) edgeConfig) = None \<and> last (snd (RunExporter (edgeAnswers True) edgeConfig)) = ClosedNATS
   \<and> fst (RunExporter (edgeAnswers False) edgeConfig) = Some ''failed to sync informer cache''
   \<and> AwaitedDrain \<notin> set (snd (RunExporter (edgeAnswers False) edgeConfig))"
proof -
  have f: "fst (RunExporter (edgeAnswers True) edgeConfig) = None"
    "fst (RunExporter (edgeAnswers False) edgeConfig) = Some ''failed to sync informer cache''" by code_simp+
  have d: "Draining (newExporter (edgeAnswers False) edgeConfig) publishQueueSize \<in> set (snd (RunExporter (edgeAnswers False) edgeConfig))"
    by (simp add: RunExporter_def runConnected_def prepended_def edgeAnswers_def edgeConfig_def buildRestConfig_def createK8sClient_def
      connectExporter_def endpointOptions_def Let_def)
  show ?thesis
    using exporter_drains_before_close [of "edgeAnswers True" edgeConfig None] exporter_drains_before_close [of "edgeAnswers False" edgeConfig] f d
    by (metis last_appendR last.simps list.distinct(1) prod.collapse)
qed

text \<open>A federated exporter, and no other, asks for its own inbox.\<close>

lemma inbox_of_federated:
  "XCustomInboxPrefix p \<in> set (natsOptions cfg)
   \<longleftrightarrow> FederatedCluster (ecPlaneType cfg) (ecClusterName cfg) \<noteq> '''' \<and> p = EventInboxPrefix (FederatedCluster (ecPlaneType cfg) (ecClusterName cfg))"
  by (auto simp: natsOptions_def Let_def)

end
