(* ===== verification/Watch_Life.thy ===== *)
theory Watch_Life
  imports Event_Exporter
begin

text \<open>
  The life of a watch and of the NATS clients of the API server: the constructors \<open>NewNATSWatcher\<close>
  (internal/watch/watcher.go) and \<open>NewEventsPublisher\<close> (internal/storage/events_publisher.go) with
  their TLS settings, and \<open>Stop\<close> of both kinds of watches, interleaved with the loop that sends. The
  loop's filtering and its answers to the broker are in \<open>Watch\<close>; here it only holds an object or not.
\<close>

section \<open>Clients\<close>

record NATSConfig =
  wcURL :: string
  wcStreamName :: string
  wcSubjectPrefix :: string
  wcTLSEnabled :: bool
  wcTLSCertFile :: string
  wcTLSKeyFile :: string
  wcTLSCAFile :: string

text \<open>The client certificate and the authorities; half a key pair is not looked at.\<close>

definition buildNATSTLSConfig :: "'c tls_files_env \<Rightarrow> NATSConfig \<Rightarrow> string + 'c option \<times> string option" where
  "buildNATSTLSConfig env c =
     bind_r (if wcTLSCertFile c \<noteq> '''' \<and> wcTLSKeyFile c \<noteq> ''''
             then (case tfLoadPair env (wcTLSCertFile c) (wcTLSKeyFile c) of
                     Inl err \<Rightarrow> Inl (''failed to load NATS client certificate: '' @ err)
                   | Inr cert \<Rightarrow> Inr (Some cert))
             else Inr None)
       (\<lambda>cert. if wcTLSCAFile c = '''' then Inr (cert, None)
          else (case tfReadCA env (wcTLSCAFile c) of
                  Inl err \<Rightarrow> Inl (''failed to read NATS CA certificate: '' @ err)
                | Inr pem \<Rightarrow> if tfParseCA env pem then Inr (cert, Some pem) else Inl ''failed to parse NATS CA certificate''))"

text \<open>What the server answers to a dial, with the TLS configuration if one is used, and to the request of a JetStream context.\<close>

record 'c broker_env =
  beTLS :: "'c tls_files_env"
  beDial :: "string \<Rightarrow> ('c option \<times> string option) option \<Rightarrow> string option"
  beJetStream :: "string option"

definition clientTLS :: "'c broker_env \<Rightarrow> NATSConfig \<Rightarrow> string \<Rightarrow> string + ('c option \<times> string option) option" where
  "clientTLS env c msg =
     (if wcTLSEnabled c
      then (case buildNATSTLSConfig (beTLS env) c of Inl e \<Rightarrow> Inl (msg @ '': '' @ e) | Inr t \<Rightarrow> Inr (Some t))
      else Inr None)"

record NATSWatcher =
  nwStreamName :: string
  nwSubjectPrefix :: string

text \<open>No watcher without a URL. The flag says whether a connection is left open.\<close>

definition NewNATSWatcher :: "'c broker_env \<Rightarrow> NATSConfig \<Rightarrow> (string + NATSWatcher option) \<times> bool" where
  "NewNATSWatcher env c =
     (if wcURL c = '''' then (Inr None, False)
      else (case clientTLS env c ''failed to build NATS TLS config'' of
              Inl e \<Rightarrow> (Inl e, False)
            | Inr t \<Rightarrow>
                (case beDial env (wcURL c) t of
                   Some e \<Rightarrow> (Inl (''failed to connect to NATS: '' @ e), False)
                 | None \<Rightarrow>
                     (case beJetStream env of
                        Some e \<Rightarrow> (Inl (''failed to create JetStream context: '' @ e), False)
                      | None \<Rightarrow> (Inr (Some \<lparr>nwStreamName = (if wcStreamName c = '''' then ''ACTIVITIES'' else wcStreamName c),
                                          nwSubjectPrefix = (if wcSubjectPrefix c = '''' then ''activities'' else wcSubjectPrefix c)\<rparr>), True)))))"

text \<open>The publisher of events, with its subject prefix; its settings have the same fields, and its
  \<open>buildEventsTLSConfig\<close> is the function above.\<close>

definition NewEventsPublisher :: "'c broker_env \<Rightarrow> NATSConfig \<Rightarrow> (string + string option) \<times> bool" where
  "NewEventsPublisher env c =
     (if wcURL c = '''' then (Inr None, False)
      else (case clientTLS env c ''failed to build NATS TLS config for events publisher'' of
              Inl e \<Rightarrow> (Inl e, False)
            | Inr t \<Rightarrow>
                (case beDial env (wcURL c) t of
                   Some e \<Rightarrow> (Inl (''failed to connect to NATS for events publishing: '' @ e), False)
                 | None \<Rightarrow>
                     (case beJetStream env of
                        Some e \<Rightarrow> (Inl (''failed to create JetStream context for events publisher: '' @ e), False)
                      | None \<Rightarrow> (Inr (Some (if wcSubjectPrefix c = '''' then ''events.k8s'' else wcSubjectPrefix c)), True)))))"

lemma failed_client_leaves_no_connection:
  "fst (NewNATSWatcher env c) = Inl e \<Longrightarrow> \<not> snd (NewNATSWatcher env c)"
  "fst (NewEventsPublisher env c) = Inl e \<Longrightarrow> \<not> snd (NewEventsPublisher env c)"
  by (auto simp: NewNATSWatcher_def NewEventsPublisher_def split: if_splits sum.splits option.splits)

text \<open>A certificate without its key: refused by the endpoints of natsconn, ignored here.\<close>

lemma half_key_pair:
  assumes "wcTLSCertFile c \<noteq> ''''" and "wcTLSKeyFile c = ''''" and "wcTLSCAFile c = ''''"
  shows "buildNATSTLSConfig env c = Inr (None, None)
    \<and> TLSConfig env \<lparr>tlsEnabled = True, tlsCertFile = wcTLSCertFile c, tlsKeyFile = wcTLSKeyFile c, tlsCAFile = wcTLSCAFile c\<rparr>
      = Inl (''failed to load NATS client certificate: no key file configured for '' @ wcTLSCertFile c)"
  using assms by (simp add: buildNATSTLSConfig_def TLSConfig_def clientCertificate_def)

section \<open>A watch being stopped\<close>

text \<open>
  The loop polls the subscription, or holds an object that it tries to send, or has left its body and
  is about to run the deferred \<open>Stop\<close>. \<open>Panicked\<close>: a send on the closed channel.
\<close>

datatype 'o loop_state = Polling | Holding 'o | Returning | Ended | Panicked

text \<open>Who runs the body of \<open>Stop\<close>, under the mutex.\<close>

datatype stopper = TheLoop | TheClient

datatype stop_point = AtUnsubscribe | AtDelete | AtCancel | AtClose

record 'o live_watch =
  lwLoop :: "'o loop_state"
  lwBuffer :: "'o list"
  lwRead :: "'o list"
  lwStopped :: bool
  lwStop :: "(stopper \<times> stop_point) option"
  lwSubscribed :: bool
  lwDeletes :: nat
  lwCancelled :: bool
  lwCloses :: nat

definition newLiveWatch :: "'o live_watch" where
  "newLiveWatch = \<lparr>lwLoop = Polling, lwBuffer = [], lwRead = [], lwStopped = False, lwStop = None, lwSubscribed = True, lwDeletes = 0,
     lwCancelled = False, lwCloses = 0\<rparr>"

definition leaveStop :: "stopper \<Rightarrow> 'o live_watch \<Rightarrow> 'o live_watch" where
  "leaveStop who w = (if who = TheLoop then w\<lparr>lwLoop := Ended\<rparr> else w)"

text \<open>
  One step of the loop (\<open>ctx.Done\<close> seen, a message received, an object filtered out, sent, or given up
  because the context is done), of the reader of the channel, of the request whose context ends, or of
  a call of \<open>Stop\<close>: its entry, and its four actions in order. A blocked send is no step. A client may
  call \<open>Stop\<close> when \<open>client\<close> holds.
\<close>

inductive watchStep :: "bool \<Rightarrow> nat \<Rightarrow> 'o live_watch \<Rightarrow> 'o live_watch \<Rightarrow> bool" for client :: bool and cap :: nat where
  poll_done: "lwLoop w = Polling \<Longrightarrow> lwCancelled w \<Longrightarrow> watchStep client cap w (w\<lparr>lwLoop := Returning\<rparr>)"
| poll_receive: "lwLoop w = Polling \<Longrightarrow> lwSubscribed w \<Longrightarrow> watchStep client cap w (w\<lparr>lwLoop := Holding x\<rparr>)"
| filtered: "lwLoop w = Holding x \<Longrightarrow> watchStep client cap w (w\<lparr>lwLoop := Polling\<rparr>)"
| send: "lwLoop w = Holding x \<Longrightarrow> lwCloses w = 0 \<Longrightarrow> length (lwBuffer w) < cap \<Longrightarrow>
    watchStep client cap w (w\<lparr>lwLoop := Polling, lwBuffer := lwBuffer w @ [x]\<rparr>)"
| send_closed: "lwLoop w = Holding x \<Longrightarrow> lwCloses w > 0 \<Longrightarrow> watchStep client cap w (w\<lparr>lwLoop := Panicked\<rparr>)"
| give_up: "lwLoop w = Holding x \<Longrightarrow> lwCancelled w \<Longrightarrow> watchStep client cap w (w\<lparr>lwLoop := Returning\<rparr>)"
| read: "lwBuffer w = x # xs \<Longrightarrow> watchStep client cap w (w\<lparr>lwBuffer := xs, lwRead := lwRead w @ [x]\<rparr>)"
| request_ends: "watchStep client cap w (w\<lparr>lwCancelled := True\<rparr>)"
| enter: "lwStop w = None \<Longrightarrow> (who = TheClient \<longrightarrow> client) \<Longrightarrow> (who = TheLoop \<longrightarrow> lwLoop w = Returning) \<Longrightarrow>
    watchStep client cap w (if lwStopped w then leaveStop who w else w\<lparr>lwStopped := True, lwStop := Some (who, AtUnsubscribe)\<rparr>)"
| unsubscribe: "lwStop w = Some (who, AtUnsubscribe) \<Longrightarrow> watchStep client cap w (w\<lparr>lwSubscribed := False, lwStop := Some (who, AtDelete)\<rparr>)"
| delete_consumer: "lwStop w = Some (who, AtDelete) \<Longrightarrow> watchStep client cap w (w\<lparr>lwDeletes := lwDeletes w + 1, lwStop := Some (who, AtCancel)\<rparr>)"
| cancel: "lwStop w = Some (who, AtCancel) \<Longrightarrow> watchStep client cap w (w\<lparr>lwCancelled := True, lwStop := Some (who, AtClose)\<rparr>)"
| close: "lwStop w = Some (who, AtClose) \<Longrightarrow> watchStep client cap w (leaveStop who (w\<lparr>lwCloses := lwCloses w + 1, lwStop := None\<rparr>))"

inductive watchReach :: "bool \<Rightarrow> nat \<Rightarrow> 'o live_watch \<Rightarrow> bool" for client :: bool and cap :: nat where
  opened: "watchReach client cap newLiveWatch"
| next_step: "watchReach client cap w \<Longrightarrow> watchStep client cap w w' \<Longrightarrow> watchReach client cap w'"

text \<open>The resources follow the place in \<open>Stop\<close>.\<close>

definition stopOrder :: "'o live_watch \<Rightarrow> bool" where
  "stopOrder w = (case lwStop w of
       None \<Rightarrow> if lwStopped w then \<not> lwSubscribed w \<and> lwDeletes w = 1 \<and> lwCancelled w \<and> lwCloses w = 1
               else lwSubscribed w \<and> lwDeletes w = 0 \<and> lwCloses w = 0 \<and> lwLoop w \<noteq> Ended
     | Some (who, p) \<Rightarrow> lwStopped w \<and> lwCloses w = 0
         \<and> (who = TheLoop \<longrightarrow> lwLoop w = Returning) \<and> lwLoop w \<noteq> Ended
         \<and> (p = AtUnsubscribe \<longrightarrow> lwSubscribed w \<and> lwDeletes w = 0) \<and> (p = AtDelete \<longrightarrow> \<not> lwSubscribed w \<and> lwDeletes w = 0)
         \<and> (p \<in> {AtCancel, AtClose} \<longrightarrow> \<not> lwSubscribed w \<and> lwDeletes w = 1) \<and> (p = AtClose \<longrightarrow> lwCancelled w))"

lemma stopOrder_step: "watchStep client cap w w' \<Longrightarrow> stopOrder w \<Longrightarrow> stopOrder w'"
  by (induction rule: watchStep.induct) (auto simp: stopOrder_def leaveStop_def split: option.splits if_splits)

lemma stopOrder_reach: "watchReach client cap w \<Longrightarrow> stopOrder w"
proof (induction rule: watchReach.induct)
  case opened
  then show ?case by (simp add: stopOrder_def newLiveWatch_def)
next
  case (next_step w w')
  then show ?case using stopOrder_step by blast
qed

text \<open>Without calls from outside the loop closes the channel itself, and then sends nothing.\<close>

definition selfStopped :: "'o live_watch \<Rightarrow> bool" where
  "selfStopped w = (lwLoop w \<noteq> Panicked \<and> (lwStop w = None \<or> (\<exists>p. lwStop w = Some (TheLoop, p)) \<and> lwLoop w = Returning)
     \<and> (lwCloses w > 0 \<longrightarrow> lwLoop w = Ended) \<and> (lwStopped w \<longrightarrow> lwStop w \<noteq> None \<or> lwLoop w = Ended))"

lemma selfStopped_step: "watchStep client cap w w' \<Longrightarrow> \<not> client \<Longrightarrow> selfStopped w \<Longrightarrow> selfStopped w'"
  by (induction rule: watchStep.induct) (auto simp: selfStopped_def leaveStop_def split: if_splits, (metis stopper.exhaust)+)

lemma selfStopped_reach: "watchReach client cap w \<Longrightarrow> \<not> client \<Longrightarrow> selfStopped w"
proof (induction rule: watchReach.induct)
  case opened
  then show ?case by (simp add: selfStopped_def newLiveWatch_def)
next
  case (next_step w w')
  then show ?case using selfStopped_step by blast
qed


text \<open>
  However a watch is stopped, by its own loop, by the client, or by both at once, the channel is closed
  and the consumer deleted at most once, in the order unsubscribe, delete, cancel, close; a loop that
  has ended has closed its channel.
\<close>

theorem watch_stops_once:
  assumes "watchReach client cap w"
  shows "lwCloses w \<le> 1 \<and> lwDeletes w \<le> 1 \<and> (lwCloses w = 1 \<longrightarrow> lwCancelled w \<and> lwDeletes w = 1 \<and> \<not> lwSubscribed w)
    \<and> (lwLoop w = Ended \<longrightarrow> lwCloses w = 1)"
proof -
  have o': "stopOrder w" by (rule stopOrder_reach [OF assms])
  show ?thesis
  proof (cases "lwStop w")
    case None
    then show ?thesis using o' by (auto simp: stopOrder_def split: if_splits)
  next
    case (Some q)
    then show ?thesis using o' by (cases q; cases "snd q") (auto simp: stopOrder_def)
  qed
qed

text \<open>
  C26: a client that stops its watch while the loop holds an object can crash the process: the channel is
  closed under the loop, whose send then panics, although its context is done. A watch that only its
  own loop stops never panics.
\<close>

theorem client_stop_can_panic:
  "(\<exists>w :: 'o live_watch. watchReach True cap w \<and> lwLoop w = Panicked) \<and> \<not> (\<exists>w :: 'o live_watch. watchReach False cap w \<and> lwLoop w = Panicked)"
proof
  fix x :: 'o
  let ?w = "newLiveWatch \<lparr>lwLoop := Holding x\<rparr>"
  have reach: "watchReach True cap w'" if "watchReach True cap w" "watchStep True cap w w'" for w w' :: "'o live_watch"
    using that by (rule watchReach.next_step)
  have 1: "watchReach True cap ?w"
    by (rule reach [OF watchReach.opened]) (rule watchStep.poll_receive, simp_all add: newLiveWatch_def)
  have 2: "watchReach True cap (?w\<lparr>lwStopped := True, lwStop := Some (TheClient, AtUnsubscribe)\<rparr>)"
    using reach [OF 1 watchStep.enter [where who = TheClient]] by (simp add: newLiveWatch_def)
  have 3: "watchReach True cap (?w\<lparr>lwStopped := True, lwStop := Some (TheClient, AtDelete), lwSubscribed := False\<rparr>)"
    using reach [OF 2 watchStep.unsubscribe [where who = TheClient]] by (simp add: newLiveWatch_def)
  have 4: "watchReach True cap (?w\<lparr>lwStopped := True, lwStop := Some (TheClient, AtCancel), lwSubscribed := False, lwDeletes := 1\<rparr>)"
    using reach [OF 3 watchStep.delete_consumer [where who = TheClient]] by (simp add: newLiveWatch_def)
  have 5: "watchReach True cap (?w\<lparr>lwStopped := True, lwStop := Some (TheClient, AtClose), lwSubscribed := False, lwDeletes := 1, lwCancelled := True\<rparr>)"
    using reach [OF 4 watchStep.cancel [where who = TheClient]] by (simp add: newLiveWatch_def)
  have 6: "watchReach True cap (?w\<lparr>lwStopped := True, lwStop := None, lwSubscribed := False, lwDeletes := 1, lwCancelled := True, lwCloses := 1\<rparr>)"
    using reach [OF 5 watchStep.close [where who = TheClient]] by (simp add: newLiveWatch_def leaveStop_def)
  from reach [OF 6 watchStep.send_closed [where x = x]]
  show "\<exists>w :: 'o live_watch. watchReach True cap w \<and> lwLoop w = Panicked" by (intro exI) (auto simp: newLiveWatch_def)
next
  show "\<not> (\<exists>w :: 'o live_watch. watchReach False cap w \<and> lwLoop w = Panicked)"
    using selfStopped_reach by (auto simp: selfStopped_def)
qed

end
