(* ===== verification/Api_Conversion.thy ===== *)
theory Api_Conversion
  imports Reindex_Job
begin

text \<open>
  pkg/apis/activity/v1alpha1/conversion.go: the conversions between the served version of
  ActivityPolicy and ReindexJob and the internal version of pkg/apis/activity/types.go. A slice
  is \<open>None\<close> when it is nil. A conversion writes into an object that the scheme hands it: it is the
  second argument, and the fields that are not assigned keep what they hold. Object metadata is a
  type parameter; the type metadata is set by the scheme afterwards. The shapes that are only
  copied through (progress, conditions, time stamps) are those of the controllers.
\<close>

section \<open>The two versions\<close>

text \<open>v1alpha1: what is served and stored.\<close>

record vPolicyRule =
  vrName :: string
  vrDescription :: string
  vrMatch :: string
  vrSummary :: string

record vPolicySpec =
  vsAPIGroup :: string
  vsKind :: string
  vsAuditRules :: "vPolicyRule list option"
  vsEventRules :: "vPolicyRule list option"

record vPolicyStatus =
  vtConditions :: "StatusCondition list option"
  vtObservedGeneration :: int

record 'm vPolicy =
  vpObjectMeta :: 'm
  vpSpec :: vPolicySpec
  vpStatus :: vPolicyStatus

record vTimeRange =
  vStartTime :: string
  vEndTime :: string

record vPolicySelector =
  vNames :: "string list option"
  vMatchLabels :: "(string \<times> string) list option"

record vConfig =
  vBatchSize :: int
  vRateLimit :: int
  vDryRun :: bool

record vProgress =
  vTotalEvents :: int
  vProcessedEvents :: int
  vActivitiesGenerated :: int
  vErrors :: int
  vCurrentBatch :: int
  vTotalBatches :: int

record vJobSpec =
  vjTimeRange :: vTimeRange
  vjPolicySelector :: "vPolicySelector option"
  vjConfig :: "vConfig option"
  vjTTL :: "int option"

record vJobStatus =
  vuPhase :: string
  vuMessage :: string
  vuProgress :: "vProgress option"
  vuStartedAt :: "instant option"
  vuCompletedAt :: "instant option"
  vuConditions :: "StatusCondition list option"

record 'm vJob =
  vjObjectMeta :: 'm
  vjSpec :: vJobSpec
  vjStatus :: vJobStatus

record ('l, 'a) vList =
  vListMeta :: 'l
  vItems :: "'a list option"

text \<open>The zero values, for the metadata \<open>m\<close>.\<close>

definition vZeroPolicy :: "'m \<Rightarrow> 'm vPolicy" where
  "vZeroPolicy m =
     \<lparr>vpObjectMeta = m,
      vpSpec = \<lparr>vsAPIGroup = [], vsKind = [], vsAuditRules = None, vsEventRules = None\<rparr>,
      vpStatus = \<lparr>vtConditions = None, vtObservedGeneration = 0\<rparr>\<rparr>"

definition vZeroJob :: "'m \<Rightarrow> 'm vJob" where
  "vZeroJob m =
     \<lparr>vjObjectMeta = m,
      vjSpec = \<lparr>vjTimeRange = \<lparr>vStartTime = [], vEndTime = []\<rparr>, vjPolicySelector = None, vjConfig = None, vjTTL = None\<rparr>,
      vjStatus = \<lparr>vuPhase = [], vuMessage = [], vuProgress = None, vuStartedAt = None, vuCompletedAt = None,
        vuConditions = None\<rparr>\<rparr>"

text \<open>The internal version.\<close>

record nPolicyRule =
  nrName :: string
  nrDescription :: string
  nrMatch :: string
  nrSummary :: string

record nPolicySpec =
  nsAPIGroup :: string
  nsKind :: string
  nsAuditRules :: "nPolicyRule list option"
  nsEventRules :: "nPolicyRule list option"

record nPolicyStatus =
  ntConditions :: "StatusCondition list option"
  ntObservedGeneration :: int

record 'm nPolicy =
  npObjectMeta :: 'm
  npSpec :: nPolicySpec
  npStatus :: nPolicyStatus

record nTimeRange =
  nStartTime :: string
  nEndTime :: string

record nPolicySelector =
  nNames :: "string list option"
  nMatchLabels :: "(string \<times> string) list option"

record nConfig =
  nBatchSize :: int
  nRateLimit :: int
  nDryRun :: bool

record nProgress =
  nTotalEvents :: int
  nProcessedEvents :: int
  nActivitiesGenerated :: int
  nErrors :: int
  nCurrentBatch :: int
  nTotalBatches :: int

record nJobSpec =
  njTimeRange :: nTimeRange
  njPolicySelector :: "nPolicySelector option"
  njConfig :: "nConfig option"
  njTTL :: "int option"

record nJobStatus =
  nuPhase :: string
  nuMessage :: string
  nuProgress :: "nProgress option"
  nuStartedAt :: "instant option"
  nuCompletedAt :: "instant option"
  nuConditions :: "StatusCondition list option"

record 'm nJob =
  njObjectMeta :: 'm
  njSpec :: nJobSpec
  njStatus :: nJobStatus

record ('l, 'a) nList =
  nListMeta :: 'l
  nItems :: "'a list option"

text \<open>The zero values, for the metadata \<open>m\<close>.\<close>

definition nZeroPolicy :: "'m \<Rightarrow> 'm nPolicy" where
  "nZeroPolicy m =
     \<lparr>npObjectMeta = m,
      npSpec = \<lparr>nsAPIGroup = [], nsKind = [], nsAuditRules = None, nsEventRules = None\<rparr>,
      npStatus = \<lparr>ntConditions = None, ntObservedGeneration = 0\<rparr>\<rparr>"

definition nZeroJob :: "'m \<Rightarrow> 'm nJob" where
  "nZeroJob m =
     \<lparr>njObjectMeta = m,
      njSpec = \<lparr>njTimeRange = \<lparr>nStartTime = [], nEndTime = []\<rparr>, njPolicySelector = None, njConfig = None, njTTL = None\<rparr>,
      njStatus = \<lparr>nuPhase = [], nuMessage = [], nuProgress = None, nuStartedAt = None, nuCompletedAt = None,
        nuConditions = None\<rparr>\<rparr>"

section \<open>From v1alpha1 to activity\<close>

definition Convert_Rules_v1alpha1_To_activity :: "vPolicyRule list option \<Rightarrow> nPolicyRule list option" where
  "Convert_Rules_v1alpha1_To_activity rules =
     Some (map (\<lambda>rule. \<lparr>nrName = vrName rule, nrDescription = vrDescription rule, nrMatch = vrMatch rule,
       nrSummary = vrSummary rule\<rparr>) (case rules of None \<Rightarrow> [] | Some rs \<Rightarrow> rs))"

definition Convert_ActivityPolicy_v1alpha1_To_activity :: "'m vPolicy \<Rightarrow> 'm nPolicy \<Rightarrow> 'm nPolicy" where
  "Convert_ActivityPolicy_v1alpha1_To_activity x out =
     out\<lparr>npObjectMeta := vpObjectMeta x,
         npSpec := \<lparr>nsAPIGroup = vsAPIGroup (vpSpec x), nsKind = vsKind (vpSpec x),
           nsAuditRules = Convert_Rules_v1alpha1_To_activity (vsAuditRules (vpSpec x)),
           nsEventRules = Convert_Rules_v1alpha1_To_activity (vsEventRules (vpSpec x))\<rparr>,
         npStatus := \<lparr>ntConditions = (if vtConditions (vpStatus x) \<noteq> None then vtConditions (vpStatus x) else ntConditions (npStatus out)),
           ntObservedGeneration = vtObservedGeneration (vpStatus x)\<rparr>\<rparr>"

definition Convert_ActivityPolicyList_v1alpha1_To_activity :: "'m \<Rightarrow> ('l, 'm vPolicy) vList \<Rightarrow> ('l, 'm nPolicy) nList" where
  "Convert_ActivityPolicyList_v1alpha1_To_activity noMeta x =
     \<lparr>nListMeta = vListMeta x,
      nItems = Some (map (\<lambda>item. Convert_ActivityPolicy_v1alpha1_To_activity item (nZeroPolicy noMeta)) (case vItems x of None \<Rightarrow> [] | Some is \<Rightarrow> is))\<rparr>"

definition Convert_ReindexJobSpec_v1alpha1_To_activity :: "vJobSpec \<Rightarrow> nJobSpec \<Rightarrow> nJobSpec" where
  "Convert_ReindexJobSpec_v1alpha1_To_activity x out =
     out\<lparr>njTimeRange := \<lparr>nStartTime = vStartTime (vjTimeRange x), nEndTime = vEndTime (vjTimeRange x)\<rparr>,
         njPolicySelector := (case vjPolicySelector x of
             Some sel \<Rightarrow> Some \<lparr>nNames = vNames sel, nMatchLabels = vMatchLabels sel\<rparr>
           | None \<Rightarrow> njPolicySelector out),
         njConfig := (case vjConfig x of
             Some c \<Rightarrow> Some \<lparr>nBatchSize = vBatchSize c, nRateLimit = vRateLimit c, nDryRun = vDryRun c\<rparr>
           | None \<Rightarrow> njConfig out),
         njTTL := vjTTL x\<rparr>"

definition Convert_ReindexJobStatus_v1alpha1_To_activity :: "vJobStatus \<Rightarrow> nJobStatus \<Rightarrow> nJobStatus" where
  "Convert_ReindexJobStatus_v1alpha1_To_activity x out =
     out\<lparr>nuPhase := vuPhase x, nuMessage := vuMessage x,
         nuProgress := (case vuProgress x of
             Some p \<Rightarrow> Some \<lparr>nTotalEvents = vTotalEvents p, nProcessedEvents = vProcessedEvents p,
               nActivitiesGenerated = vActivitiesGenerated p, nErrors = vErrors p, nCurrentBatch = vCurrentBatch p,
               nTotalBatches = vTotalBatches p\<rparr>
           | None \<Rightarrow> nuProgress out),
         nuStartedAt := vuStartedAt x, nuCompletedAt := vuCompletedAt x,
         nuConditions := (if vuConditions x \<noteq> None then vuConditions x else nuConditions out)\<rparr>"

definition Convert_ReindexJob_v1alpha1_To_activity :: "'m vJob \<Rightarrow> 'm nJob \<Rightarrow> 'm nJob" where
  "Convert_ReindexJob_v1alpha1_To_activity x out =
     out\<lparr>njObjectMeta := vjObjectMeta x, njSpec := Convert_ReindexJobSpec_v1alpha1_To_activity (vjSpec x) (njSpec out),
         njStatus := Convert_ReindexJobStatus_v1alpha1_To_activity (vjStatus x) (njStatus out)\<rparr>"

definition Convert_ReindexJobList_v1alpha1_To_activity :: "'m \<Rightarrow> ('l, 'm vJob) vList \<Rightarrow> ('l, 'm nJob) nList" where
  "Convert_ReindexJobList_v1alpha1_To_activity noMeta x =
     \<lparr>nListMeta = vListMeta x,
      nItems = Some (map (\<lambda>item. Convert_ReindexJob_v1alpha1_To_activity item (nZeroJob noMeta)) (case vItems x of None \<Rightarrow> [] | Some is \<Rightarrow> is))\<rparr>"

lemmas convert_v1alpha1_To_activity = Convert_Rules_v1alpha1_To_activity_def Convert_ActivityPolicy_v1alpha1_To_activity_def Convert_ReindexJobSpec_v1alpha1_To_activity_def
  Convert_ReindexJobStatus_v1alpha1_To_activity_def Convert_ReindexJob_v1alpha1_To_activity_def

section \<open>From activity to v1alpha1\<close>

definition Convert_Rules_activity_To_v1alpha1 :: "nPolicyRule list option \<Rightarrow> vPolicyRule list option" where
  "Convert_Rules_activity_To_v1alpha1 rules =
     Some (map (\<lambda>rule. \<lparr>vrName = nrName rule, vrDescription = nrDescription rule, vrMatch = nrMatch rule,
       vrSummary = nrSummary rule\<rparr>) (case rules of None \<Rightarrow> [] | Some rs \<Rightarrow> rs))"

definition Convert_ActivityPolicy_activity_To_v1alpha1 :: "'m nPolicy \<Rightarrow> 'm vPolicy \<Rightarrow> 'm vPolicy" where
  "Convert_ActivityPolicy_activity_To_v1alpha1 x out =
     out\<lparr>vpObjectMeta := npObjectMeta x,
         vpSpec := \<lparr>vsAPIGroup = nsAPIGroup (npSpec x), vsKind = nsKind (npSpec x),
           vsAuditRules = Convert_Rules_activity_To_v1alpha1 (nsAuditRules (npSpec x)),
           vsEventRules = Convert_Rules_activity_To_v1alpha1 (nsEventRules (npSpec x))\<rparr>,
         vpStatus := \<lparr>vtConditions = (if ntConditions (npStatus x) \<noteq> None then ntConditions (npStatus x) else vtConditions (vpStatus out)),
           vtObservedGeneration = ntObservedGeneration (npStatus x)\<rparr>\<rparr>"

definition Convert_ActivityPolicyList_activity_To_v1alpha1 :: "'m \<Rightarrow> ('l, 'm nPolicy) nList \<Rightarrow> ('l, 'm vPolicy) vList" where
  "Convert_ActivityPolicyList_activity_To_v1alpha1 noMeta x =
     \<lparr>vListMeta = nListMeta x,
      vItems = Some (map (\<lambda>item. Convert_ActivityPolicy_activity_To_v1alpha1 item (vZeroPolicy noMeta)) (case nItems x of None \<Rightarrow> [] | Some is \<Rightarrow> is))\<rparr>"

definition Convert_ReindexJobSpec_activity_To_v1alpha1 :: "nJobSpec \<Rightarrow> vJobSpec \<Rightarrow> vJobSpec" where
  "Convert_ReindexJobSpec_activity_To_v1alpha1 x out =
     out\<lparr>vjTimeRange := \<lparr>vStartTime = nStartTime (njTimeRange x), vEndTime = nEndTime (njTimeRange x)\<rparr>,
         vjPolicySelector := (case njPolicySelector x of
             Some sel \<Rightarrow> Some \<lparr>vNames = nNames sel, vMatchLabels = nMatchLabels sel\<rparr>
           | None \<Rightarrow> vjPolicySelector out),
         vjConfig := (case njConfig x of
             Some c \<Rightarrow> Some \<lparr>vBatchSize = nBatchSize c, vRateLimit = nRateLimit c, vDryRun = nDryRun c\<rparr>
           | None \<Rightarrow> vjConfig out),
         vjTTL := njTTL x\<rparr>"

definition Convert_ReindexJobStatus_activity_To_v1alpha1 :: "nJobStatus \<Rightarrow> vJobStatus \<Rightarrow> vJobStatus" where
  "Convert_ReindexJobStatus_activity_To_v1alpha1 x out =
     out\<lparr>vuPhase := nuPhase x, vuMessage := nuMessage x,
         vuProgress := (case nuProgress x of
             Some p \<Rightarrow> Some \<lparr>vTotalEvents = nTotalEvents p, vProcessedEvents = nProcessedEvents p,
               vActivitiesGenerated = nActivitiesGenerated p, vErrors = nErrors p, vCurrentBatch = nCurrentBatch p,
               vTotalBatches = nTotalBatches p\<rparr>
           | None \<Rightarrow> vuProgress out),
         vuStartedAt := nuStartedAt x, vuCompletedAt := nuCompletedAt x,
         vuConditions := (if nuConditions x \<noteq> None then nuConditions x else vuConditions out)\<rparr>"

definition Convert_ReindexJob_activity_To_v1alpha1 :: "'m nJob \<Rightarrow> 'm vJob \<Rightarrow> 'm vJob" where
  "Convert_ReindexJob_activity_To_v1alpha1 x out =
     out\<lparr>vjObjectMeta := njObjectMeta x, vjSpec := Convert_ReindexJobSpec_activity_To_v1alpha1 (njSpec x) (vjSpec out),
         vjStatus := Convert_ReindexJobStatus_activity_To_v1alpha1 (njStatus x) (vjStatus out)\<rparr>"

definition Convert_ReindexJobList_activity_To_v1alpha1 :: "'m \<Rightarrow> ('l, 'm nJob) nList \<Rightarrow> ('l, 'm vJob) vList" where
  "Convert_ReindexJobList_activity_To_v1alpha1 noMeta x =
     \<lparr>vListMeta = nListMeta x,
      vItems = Some (map (\<lambda>item. Convert_ReindexJob_activity_To_v1alpha1 item (vZeroJob noMeta)) (case nItems x of None \<Rightarrow> [] | Some is \<Rightarrow> is))\<rparr>"

lemmas convert_activity_To_v1alpha1 = Convert_Rules_activity_To_v1alpha1_def Convert_ActivityPolicy_activity_To_v1alpha1_def Convert_ReindexJobSpec_activity_To_v1alpha1_def
  Convert_ReindexJobStatus_activity_To_v1alpha1_def Convert_ReindexJob_activity_To_v1alpha1_def

section \<open>Round trips\<close>

text \<open>What a round trip makes of nil slices: rules and items become empty, conditions stay nil.\<close>

definition emptied :: "'a list option \<Rightarrow> 'a list option" where
  "emptied s = Some (case s of None \<Rightarrow> [] | Some xs \<Rightarrow> xs)"

lemma emptied_simps [simp]: "emptied (Some xs) = Some xs" "emptied None = Some []" "emptied (emptied s) = emptied s"
  by (simp_all add: emptied_def)

definition servedRules :: "'m vPolicy \<Rightarrow> 'm vPolicy" where
  "servedRules p = p\<lparr>vpSpec := (vpSpec p)\<lparr>vsAuditRules := emptied (vsAuditRules (vpSpec p)), vsEventRules := emptied (vsEventRules (vpSpec p))\<rparr>\<rparr>"

definition internalRules :: "'m nPolicy \<Rightarrow> 'm nPolicy" where
  "internalRules p = p\<lparr>npSpec := (npSpec p)\<lparr>nsAuditRules := emptied (nsAuditRules (npSpec p)), nsEventRules := emptied (nsEventRules (npSpec p))\<rparr>\<rparr>"

lemma rules_roundtrip_v1alpha1: "Convert_Rules_activity_To_v1alpha1 (Convert_Rules_v1alpha1_To_activity rules) = emptied rules"
  by (cases rules) (auto simp: convert_v1alpha1_To_activity convert_activity_To_v1alpha1 emptied_def intro!: map_idI vPolicyRule.equality)

lemma rules_roundtrip_activity: "Convert_Rules_v1alpha1_To_activity (Convert_Rules_activity_To_v1alpha1 rules) = emptied rules"
  by (cases rules) (auto simp: convert_v1alpha1_To_activity convert_activity_To_v1alpha1 emptied_def intro!: map_idI nPolicyRule.equality)

lemma policy_roundtrip_v1alpha1:
  "Convert_ActivityPolicy_activity_To_v1alpha1 (Convert_ActivityPolicy_v1alpha1_To_activity p (nZeroPolicy m)) (vZeroPolicy m) = servedRules p"
  by (cases p rule: vPolicy.cases, rename_tac meta spec status, case_tac spec rule: vPolicySpec.cases, case_tac status rule: vPolicyStatus.cases)
    (auto simp: Convert_ActivityPolicy_v1alpha1_To_activity_def Convert_ActivityPolicy_activity_To_v1alpha1_def rules_roundtrip_v1alpha1
      servedRules_def nZeroPolicy_def vZeroPolicy_def)

lemma policy_roundtrip_activity:
  "Convert_ActivityPolicy_v1alpha1_To_activity (Convert_ActivityPolicy_activity_To_v1alpha1 p (vZeroPolicy m)) (nZeroPolicy m) = internalRules p"
  by (cases p rule: nPolicy.cases, rename_tac meta spec status, case_tac spec rule: nPolicySpec.cases, case_tac status rule: nPolicyStatus.cases)
    (auto simp: Convert_ActivityPolicy_v1alpha1_To_activity_def Convert_ActivityPolicy_activity_To_v1alpha1_def rules_roundtrip_activity
      internalRules_def nZeroPolicy_def vZeroPolicy_def)

lemma job_roundtrip_v1alpha1:
  "Convert_ReindexJob_activity_To_v1alpha1 (Convert_ReindexJob_v1alpha1_To_activity j (nZeroJob m)) (vZeroJob m) = j"
  by (cases j rule: vJob.cases, rename_tac meta spec status, case_tac spec rule: vJobSpec.cases, case_tac status rule: vJobStatus.cases)
    (auto simp: convert_v1alpha1_To_activity convert_activity_To_v1alpha1 nZeroJob_def vZeroJob_def split: option.splits)

lemma job_roundtrip_activity:
  "Convert_ReindexJob_v1alpha1_To_activity (Convert_ReindexJob_activity_To_v1alpha1 j (vZeroJob m)) (nZeroJob m) = j"
  by (cases j rule: nJob.cases, rename_tac meta spec status, case_tac spec rule: nJobSpec.cases, case_tac status rule: nJobStatus.cases)
    (auto simp: convert_v1alpha1_To_activity convert_activity_To_v1alpha1 nZeroJob_def vZeroJob_def split: option.splits)

text \<open>
  C37: converting a stored object to the other version and back loses nothing: every ActivityPolicy comes
  back with its nil rule lists empty and nothing else changed, every ReindexJob comes back as it was,
  from either version, and so does each item of a list in its place.
\<close>

theorem conversion_roundtrip:
  "Convert_ActivityPolicyList_activity_To_v1alpha1 m (Convert_ActivityPolicyList_v1alpha1_To_activity m ps)
     = ps\<lparr>vItems := map_option (map servedRules) (emptied (vItems ps))\<rparr>
   \<and> Convert_ActivityPolicyList_v1alpha1_To_activity m (Convert_ActivityPolicyList_activity_To_v1alpha1 m qs)
     = qs\<lparr>nItems := map_option (map internalRules) (emptied (nItems qs))\<rparr>
   \<and> Convert_ReindexJobList_activity_To_v1alpha1 m (Convert_ReindexJobList_v1alpha1_To_activity m js) = js\<lparr>vItems := emptied (vItems js)\<rparr>
   \<and> Convert_ReindexJobList_v1alpha1_To_activity m (Convert_ReindexJobList_activity_To_v1alpha1 m ks) = ks\<lparr>nItems := emptied (nItems ks)\<rparr>"
  by (simp add: Convert_ActivityPolicyList_activity_To_v1alpha1_def Convert_ActivityPolicyList_v1alpha1_To_activity_def
    Convert_ReindexJobList_activity_To_v1alpha1_def Convert_ReindexJobList_v1alpha1_To_activity_def emptied_def comp_def
    policy_roundtrip_v1alpha1 policy_roundtrip_activity job_roundtrip_v1alpha1 job_roundtrip_activity split: option.splits)

text \<open>A conversion into an object that is not fresh keeps its optional parts: the reason the scheme must hand it a zero value.\<close>

lemma stale_target_keeps_config:
  assumes "vjConfig (vjSpec j) = None"
  shows "njConfig (njSpec (Convert_ReindexJob_v1alpha1_To_activity j out)) = njConfig (njSpec out)"
  using assms by (simp add: convert_v1alpha1_To_activity)

end
