(* ===== verification/Spec2Isabelle.thy ===== *)
theory Spec2Isabelle
  imports Reindex_Props Nkey_Generator Mcp_Props Mcp_Http Audit_Prefix Cli_Colors Cli_Preview Processor_Life Exporter_Life Watch_Life
    Api_Conversion
begin

text \<open>
  The activity service (Go, under src/) turns audit logs and Kubernetes events into activity records
  that people can read, and answers queries about all three. This development models its core as
  executable definitions and proves what makes them correct.

  The program and how its parts interact. An event exporter (internal/eventexporter) in every
  cluster publishes Kubernetes events on a NATS stream; the keys with which edge clusters may do so
  are provisioned by a generator (internal/nkeygenerator). A processor (internal/activityprocessor,
  internal/processor) consumes audit logs and events, evaluates the rules of ActivityPolicy
  resources on them with CEL (internal/cel), and publishes activities; what fails goes to a
  dead-letter queue, which a controller retries. Everything is stored in ClickHouse
  (internal/storage) and read through an aggregated API server (internal/registry) and watches
  (internal/watch). Two controllers (internal/controller) mark policies ready and run ReindexJobs,
  whose workers (internal/reindex, cmd/activity/reindex_worker.go) evaluate stored history again.
  People and agents use the service through a kubectl plugin (pkg/cmd) and an MCP server (pkg/mcp),
  both clients of the API server.

  Foundations. Prelude: Go's string and number helpers over byte strings, results, lemmas on lists
  and maps. Go_Values: dynamic values (map[string]any) and the readers of
  internal/processor/utils.go. Api_Types: the API records (pkg/apis/activity/v1alpha1). Go_Errors:
  wrapped errors. Time_Util: internal/timeutil and the part of RFC 3339 parsing it uses. Go_Text:
  runes and time formatting. Go_Quote: strconv.Quote. Cel_Text: the lexer of CEL, with which filters
  that the program writes are read back. Selectors: field and label selectors of apimachinery.
  Sha256 and Float64: SHA-256, and binary64 arithmetic as rounded rationals. Api_Conversion: the
  conversions between the served and the internal version of policies and reindex jobs
  (pkg/apis/activity/v1alpha1/conversion.go).

  Tenants and identity. Tenancy: internal/types and internal/registry/scope: tenant types, subjects,
  grants, the scope of a request. Activity_Builder: how an activity is built from an audit log or an
  event (internal/processor/activity.go, classifier.go, event.go): its name, actor, origin, tenant.

  Policies. Cel_Env and Cel_Policy: the variables a rule sees and the evaluation of match
  expressions and summary templates (internal/cel/environment.go, policy.go). Rule_Eval: the rules
  of one policy (internal/processor/evaluate.go). Policy_Cache: the compiled policies, their two
  indices and the informer handlers (internal/activityprocessor/policycache.go), refined against the
  store of the API server through the locale of the cache's operations. Policy_Admission: the
  strategy of the API server and the controller that sets the Ready condition.

  Ingest. Dead_Letter: the publisher of failures (internal/processor/dlq.go), with the broker as an
  oracle that may lose acknowledgements. Ingest: processing one message, one batch, and
  re-evaluation (processor.go, event.go, event_emitter.go). Dlq_Retry: the retry controller with its
  backoff. Processor_Life: the start of the processor, its worker loops, its probes and its stop;
  what Stop waits for is computed from the goroutines of the wait group.

  Storage and API. Sql_Filter: CEL filters to SQL (internal/cel/cel.go, filter.go,
  activity_filter.go). Cursors: pagination tokens. Storage_Fields, Storage_Query: fields, facets and
  the queries of internal/storage, as SQL syntax with a semantics over rows; Storage_Props: scope,
  pagination and parameters. Events_Store and Events_Rest: the store of events and its two endpoints
  (internal/registry/activity/events). Watch: internal/watch; Watch_Life: its clients of
  NATS, and the stop of a watch interleaved with its loop. Query_Api: the query, facet and
  activity endpoints of internal/registry/activity, from the validation of a request to its status.
  Policy_Preview and Audit_Prefix: the preview endpoint, which tries a policy on given or fetched
  samples, and what its rewriting of rules into filters does to their tokens.

  Reindexing. Reindex: the reindexer, its publisher and rate limiter; Reindex_Props: its agreement
  with live processing. Reindex_Job: the ReindexJob resource, its strategy, its controller and its
  worker, with the life of a job as an inductive step relation.

  Edges. Event_Exporter: the exporter and the endpoints of internal/natsconn, with the interleaving
  of callback, publisher and acknowledgements as a step relation; Exporter_Life: its run from start
  to shutdown. Nkey_Generator: one run of the key generator over the state of the hub.

  Clients. Cli_Commands: the flags, filters, requests, page loops, rows and diffs of the plugin's
  audit, events, feed, history and query commands; Cli_Runs: the run of each command in its modes;
  Cli_Colors: the text of a diff on a terminal.
  Cli_Reindex: the reindex commands. Cli_Preview: the policy preview command, composed with the
  endpoint of Policy_Preview. Mcp_Tools, Mcp_Handlers, Mcp_Props: the tools of pkg/mcp/tools, their
  requests and outputs. Mcp_Http: the client, credentials and documents of pkg/mcp/httpserver.

  What the properties show. Nothing is lost: every message of a batch ends as its activities and
  dead letters, a retried dead letter is never dropped, a reindexing pass that succeeds is complete,
  the export queue sheds only older events, and all pages of the feed are every activity once.
  Nothing leaks: queries, watches, stored events, exported events and key grants stay with their
  tenant or cluster, no literal of a filter reaches the query text, no flag, field or tool argument
  reads as more than a value in the filters that clients and endpoints write, and a tool call over
  HTTP reads as its caller. Two ways to one result agree: compiled and interpreted rules, replayed,
  reindexed and live activities, the message id of an event and the origin of its activity, the
  cache and the store. What is admitted works: validated templates, policies and jobs, a job that
  the plugin accepts is stored as its flags say, and versions convert without loss. Processes start
  whole or not at all. Resources converge: pagination ends, a policy's status settles, a job's
  phases are well formed. The properties of kind error state where the code departs from this, as
  does the one on the stop of the processor; each is a finding of the manifest.

  Parameters. Code outside src/ is an argument: the cel-go engine (compile, program, evaluate), JSON
  and YAML codecs, the ClickHouse driver, the answers of NATS and of the Kubernetes API servers, API
  discovery, DNS-name validation, the token bucket of x/time/rate, meta.SetStatusCondition,
  certificate files, clocks, and the cancellation of contexts; for the clients, the parser of URLs,
  the anonymous copy of a client configuration, the requests of the generated client, files and
  their decoding, the printers of Kubernetes, the iteration order of maps and the printable runes.
  What a proof needs of one is a named hypothesis, with a witness at a concrete instance.

  Bounds and fuel. Integers wrap at 64 or 32 bits where the code computes with them (wrap64,
  wrap32). Loops that follow a server's cursors carry fuel (following pages in Storage_Props,
  processBatches in Reindex): running out is the result None, activity pagination is proved to end
  with fuel for the rows that match, and a reindexing run is proved able to go on for ever. The page
  loops of the plugin are partial functions: not returning is None, and the feed's is proved to
  return. The retry controller's runs and the worker loops are lists of turns. Floating point
  appears in backoffs, ages and percentages and is exact binary64 over the rationals, without
  infinities below the saturating conversions.

  Not modelled. The entry points under cmd with their flags, and the assembly of the API server
  (internal/apiserver): wiring of libraries. Metrics, logs and tracing; the opening of the
  ClickHouse connection; leader election and the managers of the controllers. Of the clients: the
  command tree and help texts, the alignment of tables, the listening and routing of the
  MCP server and the loading of a kubeconfig. Generated code (deep copies, clients, informers,
  OpenAPI).
\<close>

end
